(* ===== verification/GoStrings.thy ===== *)
theory GoStrings
  imports Main "HOL-Library.Sublist"
begin

text \<open>
  The part of Go's \<open>strings\<close> and \<open>strconv\<close> packages that the installer uses,
  over byte strings: a Go string is a list of bytes, here a \<^typ>\<open>char list\<close>.
  White space is Unicode white space in its UTF-8 encoding, as \<open>strings.TrimSpace\<close>
  and \<open>strings.Fields\<close> see it.  A whole-number parse returns the value together
  with a flag, because some callers ignore the error and use the value.
\<close>

named_theorems go_simps \<open>evaluation rules for the Go library model\<close>

section \<open>White space\<close>

definition space_seqs :: "string list" where
  "space_seqs =
     [[CHR 0x09], [CHR 0x0A], [CHR 0x0B], [CHR 0x0C], [CHR 0x0D], [CHR 0x20],
      [CHR 0xC2, CHR 0x85], [CHR 0xC2, CHR 0xA0], [CHR 0xE1, CHR 0x9A, CHR 0x80],
      [CHR 0xE2, CHR 0x80, CHR 0x80], [CHR 0xE2, CHR 0x80, CHR 0x81],
      [CHR 0xE2, CHR 0x80, CHR 0x82], [CHR 0xE2, CHR 0x80, CHR 0x83],
      [CHR 0xE2, CHR 0x80, CHR 0x84], [CHR 0xE2, CHR 0x80, CHR 0x85],
      [CHR 0xE2, CHR 0x80, CHR 0x86], [CHR 0xE2, CHR 0x80, CHR 0x87],
      [CHR 0xE2, CHR 0x80, CHR 0x88], [CHR 0xE2, CHR 0x80, CHR 0x89],
      [CHR 0xE2, CHR 0x80, CHR 0x8A], [CHR 0xE2, CHR 0x80, CHR 0xA8],
      [CHR 0xE2, CHR 0x80, CHR 0xA9], [CHR 0xE2, CHR 0x80, CHR 0xAF],
      [CHR 0xE2, CHR 0x81, CHR 0x9F], [CHR 0xE3, CHR 0x80, CHR 0x80]]"

text \<open>Drop leading occurrences of any of the given non-empty byte sequences.\<close>

function strip_seqs :: "string list \<Rightarrow> string \<Rightarrow> string" where
  "strip_seqs ws s =
     (case find (\<lambda>w. w \<noteq> [] \<and> prefix w s) ws of
        None \<Rightarrow> s
      | Some w \<Rightarrow> strip_seqs ws (drop (length w) s))"
  by pat_completeness auto
termination
  by (relation "measure (\<lambda>(ws, s). length s)")
     (auto simp: find_Some_iff prefix_def)

declare strip_seqs.simps [simp del]

definition trim_left :: "string \<Rightarrow> string" where
  "trim_left s = strip_seqs space_seqs s"

definition trim_right :: "string \<Rightarrow> string" where
  "trim_right s = rev (strip_seqs (map rev space_seqs) (rev s))"

definition trim_space :: "string \<Rightarrow> string" where
  "trim_space s = trim_right (trim_left s)"

function split_space :: "string \<Rightarrow> string \<Rightarrow> string list" where
  "split_space acc s =
     (case s of
        [] \<Rightarrow> [rev acc]
      | c # cs \<Rightarrow>
          (case find (\<lambda>w. w \<noteq> [] \<and> prefix w s) space_seqs of
             Some w \<Rightarrow> rev acc # split_space [] (drop (length w) s)
           | None \<Rightarrow> split_space (c # acc) cs))"
  by pat_completeness auto
termination
  by (relation "measure (\<lambda>(acc, s). length s)")
     (auto simp: find_Some_iff prefix_def)

declare split_space.simps [simp del]

definition str_fields :: "string \<Rightarrow> string list" where
  "str_fields s = filter (\<lambda>x. x \<noteq> []) (split_space [] s)"

text \<open>\<open>unicode.IsSpace(rune(b))\<close> on one byte: the Latin-1 white space.\<close>

definition is_latin1_space :: "char \<Rightarrow> bool" where
  "is_latin1_space c \<longleftrightarrow>
     c \<in> set [CHR 0x09, CHR 0x0A, CHR 0x0B, CHR 0x0C, CHR 0x0D, CHR 0x20, CHR 0x85, CHR 0xA0]"

section \<open>Searching and splitting\<close>

abbreviation contains_str :: "string \<Rightarrow> string \<Rightarrow> bool" where
  "contains_str s sub \<equiv> sublist sub s"

definition trim_prefix :: "string \<Rightarrow> string \<Rightarrow> string" where
  "trim_prefix p s = (if prefix p s then drop (length p) s else s)"

fun split_char :: "char \<Rightarrow> string \<Rightarrow> string list" where
  "split_char sep [] = [[]]"
| "split_char sep (c # cs) =
     (if c = sep then [] # split_char sep cs
      else (case split_char sep cs of [] \<Rightarrow> [[c]] | p # ps \<Rightarrow> (c # p) # ps))"

text \<open>\<open>strings.SplitN\<close> for a one-byte separator and a positive count.\<close>

fun splitn_char :: "char \<Rightarrow> nat \<Rightarrow> string \<Rightarrow> string list" where
  "splitn_char sep n [] = [[]]"
| "splitn_char sep n (c # cs) =
     (if n \<le> 1 then [c # cs]
      else if c = sep then [] # splitn_char sep (n - 1) cs
      else (case splitn_char sep n cs of [] \<Rightarrow> [[c]] | p # ps \<Rightarrow> (c # p) # ps))"

fun join :: "string \<Rightarrow> string list \<Rightarrow> string" where
  "join sep [] = []"
| "join sep [x] = x"
| "join sep (x # y # zs) = x @ sep @ join sep (y # zs)"

text \<open>\<open>strings.Cut\<close> at a byte; \<open>None\<close> when the byte does not occur.\<close>

fun cut_char :: "char \<Rightarrow> string \<Rightarrow> (string \<times> string) option" where
  "cut_char sep [] = None"
| "cut_char sep (c # cs) =
     (if c = sep then Some ([], cs)
      else map_option (\<lambda>(a, b). (c # a, b)) (cut_char sep cs))"

text \<open>Split at the last occurrence of a byte (\<open>strings.LastIndexByte\<close>).\<close>

definition cut_last :: "char \<Rightarrow> string \<Rightarrow> (string \<times> string) option" where
  "cut_last sep s = map_option (\<lambda>(a, b). (rev b, rev a)) (cut_char sep (rev s))"

fun count_str :: "string \<Rightarrow> string \<Rightarrow> nat" where
  "count_str sub [] = 0"
| "count_str sub (c # cs) =
     (if sub \<noteq> [] \<and> prefix sub (c # cs)
      then Suc (count_str sub (drop (length sub - 1) cs)) else count_str sub cs)"

text \<open>
  \<open>strings.ToLower\<close>, as far as comparison with an ASCII string can observe it: the
  ASCII letters, and the two other code points whose lower case is an ASCII letter
  (U+212A, the Kelvin sign, and U+0130).
\<close>

definition ascii_lower :: "char \<Rightarrow> char" where
  "ascii_lower c =
     (if 65 \<le> (of_char c :: nat) \<and> (of_char c :: nat) \<le> 90 then char_of ((of_char c :: nat) + 32) else c)"

fun to_lower :: "string \<Rightarrow> string" where
  "to_lower (a # b # c # cs) =
     (if a = CHR 0xE2 \<and> b = CHR 0x84 \<and> c = CHR 0xAA then CHR ''k'' # to_lower cs
      else if a = CHR 0xC4 \<and> b = CHR 0xB0 then CHR ''i'' # to_lower (c # cs)
      else ascii_lower a # to_lower (b # c # cs))"
| "to_lower [a, b] =
     (if a = CHR 0xC4 \<and> b = CHR 0xB0 then ''i'' else [ascii_lower a, ascii_lower b])"
| "to_lower [a] = [ascii_lower a]"
| "to_lower [] = []"

section \<open>Decimal numbers\<close>

definition is_digit :: "char \<Rightarrow> bool" where
  "is_digit c \<longleftrightarrow> 48 \<le> (of_char c :: nat) \<and> (of_char c :: nat) \<le> 57"

definition digit_val :: "char \<Rightarrow> nat" where
  "digit_val c = of_char c - 48"

definition digit_char :: "nat \<Rightarrow> char" where
  "digit_char d = char_of (48 + d)"

fun dec_of_nat :: "nat \<Rightarrow> string" where
  "dec_of_nat n = (if n < 10 then [digit_char n] else dec_of_nat (n div 10) @ [digit_char (n mod 10)])"

declare dec_of_nat.simps [simp del]

definition itoa :: "int \<Rightarrow> string" where
  "itoa i = (if i < 0 then CHR ''-'' # dec_of_nat (nat (- i)) else dec_of_nat (nat i))"

definition dec_val :: "string \<Rightarrow> nat" where
  "dec_val s = foldl (\<lambda>n c. 10 * n + digit_val c) 0 s"

text \<open>\<open>strconv.ParseUint(s, 10, bits)\<close>, an error as \<open>None\<close>.\<close>

definition parse_uint :: "nat \<Rightarrow> string \<Rightarrow> nat option" where
  "parse_uint bits s =
     (if s \<noteq> [] \<and> list_all is_digit s \<and> dec_val s < 2 ^ bits then Some (dec_val s) else None)"

text \<open>
  \<open>strconv.Atoi\<close>: the value and whether the error is nil.  A syntax error gives 0, a
  range error the nearest 64-bit value.
\<close>

definition atoi :: "string \<Rightarrow> int \<times> bool" where
  "atoi s =
     (let neg = (case s of c # _ \<Rightarrow> c = CHR ''-'' | [] \<Rightarrow> False);
          ds = (case s of c # cs \<Rightarrow> if c = CHR ''-'' \<or> c = CHR ''+'' then cs else s | [] \<Rightarrow> s)
      in if ds = [] \<or> \<not> list_all is_digit ds then (0, False)
         else let n = int (dec_val ds)
              in if neg then (if n > 2 ^ 63 then (- (2 ^ 63), False) else (- n, True))
                 else (if n \<ge> 2 ^ 63 then (2 ^ 63 - 1, False) else (n, True)))"

definition atoi_ok :: "string \<Rightarrow> int option" where
  "atoi_ok s = (case atoi s of (n, ok) \<Rightarrow> if ok then Some n else None)"

section \<open>Facts\<close>

lemma split_char_nonempty [simp]: "split_char sep s \<noteq> []"
  by (induction s) (auto split: list.splits)

lemma join_Cons: "ys \<noteq> [] \<Longrightarrow> join sep (x # ys) = x @ sep @ join sep ys"
  by (cases ys) auto

lemma join_split_char: "join [sep] (split_char sep s) = s"
proof (induction s)
  case (Cons c cs)
  obtain p ps where ps: "split_char sep cs = p # ps"
    using split_char_nonempty by (metis list.exhaust)
  with Cons show ?case by (cases ps) auto
qed simp

lemma split_char_no_sep: "p \<in> set (split_char sep s) \<Longrightarrow> sep \<notin> set p"
proof (induction s arbitrary: p)
  case (Cons c cs)
  obtain q qs where q: "split_char sep cs = q # qs"
    using split_char_nonempty by (metis list.exhaust)
  show ?case
  proof (cases "c = sep")
    case True
    with Cons show ?thesis by auto
  next
    case False
    with Cons.prems q have "p = c # q \<or> p \<in> set qs" by simp
    with Cons.IH q False show ?thesis by auto
  qed
qed simp

lemma cut_char_SomeD: "cut_char sep s = Some (a, b) \<Longrightarrow> s = a @ sep # b \<and> sep \<notin> set a"
proof (induction s arbitrary: a)
  case (Cons c cs)
  then show ?case by (cases "c = sep") auto
qed simp

lemma cut_char_append: "sep \<notin> set a \<Longrightarrow> cut_char sep (a @ sep # b) = Some (a, b)"
  by (induction a) auto

lemma digit_char_props:
  assumes "d < 10"
  shows "is_digit (digit_char d)" and "digit_val (digit_char d) = d"
  using assms by (simp_all add: is_digit_def digit_val_def digit_char_def)

lemma dec_of_nat_nonempty [simp]: "dec_of_nat n \<noteq> []"
  by (subst dec_of_nat.simps) simp

lemma dec_of_nat_digits: "list_all is_digit (dec_of_nat n)"
proof (induction n rule: dec_of_nat.induct)
  case (1 n)
  then show ?case
    by (cases "n < 10") (simp_all add: dec_of_nat.simps [of n] digit_char_props)
qed

lemma dec_val_snoc: "dec_val (s @ [c]) = 10 * dec_val s + digit_val c"
  by (simp add: dec_val_def)

lemma dec_val_dec_of_nat: "dec_val (dec_of_nat n) = n"
proof (induction n rule: dec_of_nat.induct)
  case (1 n)
  show ?case
  proof (cases "n < 10")
    case True
    then show ?thesis
      by (simp add: dec_of_nat.simps [of n] digit_char_props dec_val_def)
  next
    case False
    with 1 show ?thesis
      by (simp add: dec_of_nat.simps [of n] digit_char_props dec_val_snoc)
  qed
qed

lemma parse_uint_dec_of_nat: "n < 2 ^ bits \<Longrightarrow> parse_uint bits (dec_of_nat n) = Some n"
  by (simp add: parse_uint_def dec_of_nat_digits dec_val_dec_of_nat)

lemma parse_uint_bound: "parse_uint bits s = Some n \<Longrightarrow> n < 2 ^ bits"
  by (auto simp: parse_uint_def split: if_splits)

lemma digit_not_sign: "is_digit c \<Longrightarrow> c \<noteq> CHR ''-'' \<and> c \<noteq> CHR ''+''"
  by (auto simp: is_digit_def)

lemma atoi_dec_of_nat: "n < 2 ^ 63 \<Longrightarrow> atoi (dec_of_nat n) = (int n, True)"
proof -
  assume n: "n < 2 ^ 63"
  obtain c cs where cs: "dec_of_nat n = c # cs"
    using dec_of_nat_nonempty by (metis list.exhaust)
  have d: "is_digit c" "list_all is_digit cs"
    using dec_of_nat_digits [of n] cs by auto
  have "int n < 2 ^ 63" using n by simp
  with d digit_not_sign [OF d(1)] dec_val_dec_of_nat [of n] cs show ?thesis
    by (simp add: atoi_def Let_def)
qed

lemma atoi_itoa: "- (2 ^ 63) \<le> i \<Longrightarrow> i < 2 ^ 63 \<Longrightarrow> atoi (itoa i) = (i, True)"
proof (cases "i < 0")
  case True
  assume lo: "- (2 ^ 63) \<le> i"
  have "int (nat (- i)) = - i" using True by simp
  then show ?thesis
    using True lo
    by (simp add: atoi_def itoa_def Let_def dec_of_nat_digits dec_val_dec_of_nat)
next
  case False
  assume "i < 2 ^ 63"
  with False have "nat i < 2 ^ 63" by simp
  then show ?thesis using False by (simp add: itoa_def atoi_dec_of_nat)
qed

lemma atoi_ok_itoa: "- (2 ^ 63) \<le> i \<Longrightarrow> i < 2 ^ 63 \<Longrightarrow> atoi_ok (itoa i) = Some i"
  by (simp add: atoi_ok_def atoi_itoa)

end
