(* ===== verification/GoPaths.thy ===== *)
theory GoPaths
  imports GoStrings
begin

text \<open>
  The part of \<open>path/filepath\<close> (Unix) that the installer uses: \<open>Clean\<close>, \<open>IsAbs\<close>,
  \<open>Base\<close>, \<open>Dir\<close>, \<open>Join\<close> and \<open>Rel\<close>, over path components.  The main fact is
  that \<open>Clean\<close> is idempotent, so comparing two cleaned paths is comparing canonical
  forms.
\<close>

definition is_abs :: "string \<Rightarrow> bool" where
  "is_abs p \<longleftrightarrow> prefix ''/'' p"

text \<open>The second argument is the stack of components kept so far, innermost first.\<close>

fun clean_comps :: "bool \<Rightarrow> string list \<Rightarrow> string list \<Rightarrow> string list" where
  "clean_comps rooted st [] = rev st"
| "clean_comps rooted st (c # cs) =
     (if c = [] \<or> c = ''.'' then clean_comps rooted st cs
      else if c = ''..'' then
        (case st of
           [] \<Rightarrow> if rooted then clean_comps rooted [] cs else clean_comps rooted [''..''] cs
         | t # ts \<Rightarrow> if t = ''..'' then clean_comps rooted (''..'' # st) cs
                     else clean_comps rooted ts cs)
      else clean_comps rooted (c # st) cs)"

definition path_clean :: "string \<Rightarrow> string" where
  "path_clean p =
     (let cs = clean_comps (is_abs p) [] (split_char CHR ''/'' p)
      in if is_abs p then CHR ''/'' # join ''/'' cs
         else if cs = [] then ''.'' else join ''/'' cs)"

definition path_join :: "string list \<Rightarrow> string" where
  "path_join xs =
     (let ys = filter (\<lambda>x. x \<noteq> []) xs in if ys = [] then [] else path_clean (join ''/'' ys))"

definition path_base :: "string \<Rightarrow> string" where
  "path_base p =
     (if p = [] then ''.''
      else let q = rev (dropWhile (\<lambda>c. c = CHR ''/'') (rev p))
           in if q = [] then ''/'' else last (split_char CHR ''/'' q))"

definition path_dir :: "string \<Rightarrow> string" where
  "path_dir p = path_clean (rev (dropWhile (\<lambda>c. c \<noteq> CHR ''/'') (rev p)))"

text \<open>The components of a cleaned path; \<open>.\<close> and the root have none.\<close>

definition comps :: "string \<Rightarrow> string list" where
  "comps p = clean_comps (is_abs p) [] (split_char CHR ''/'' p)"

fun strip_common :: "string list \<Rightarrow> string list \<Rightarrow> string list \<times> string list" where
  "strip_common (x # xs) (y # ys) = (if x = y then strip_common xs ys else (x # xs, y # ys))"
| "strip_common xs ys = (xs, ys)"

text \<open>\<open>filepath.Rel\<close>; \<open>None\<close> is its error.\<close>

definition path_rel :: "string \<Rightarrow> string \<Rightarrow> string option" where
  "path_rel base targ =
     (if path_clean base = path_clean targ then Some ''.''
      else if is_abs base \<noteq> is_abs targ then None
      else case strip_common (comps base) (comps targ) of
        (b, t) \<Rightarrow>
          (if b \<noteq> [] \<and> hd b = ''..'' then None
           else Some (join ''/'' (map (\<lambda>_. ''..'') b @ t))))"

section \<open>Cleaning is idempotent\<close>

definition plain_comp :: "string \<Rightarrow> bool" where
  "plain_comp c \<longleftrightarrow> c \<noteq> [] \<and> c \<noteq> ''.'' \<and> c \<noteq> ''..'' \<and> CHR ''/'' \<notin> set c"

text \<open>
  A clean list of components: plain ones after some leading \<open>..\<close>, and no \<open>..\<close> at all
  below the root.
\<close>

definition clean_list :: "bool \<Rightarrow> string list \<Rightarrow> bool" where
  "clean_list rooted cs \<longleftrightarrow>
     (\<exists>n xs. cs = replicate n ''..'' @ xs \<and> list_all plain_comp xs \<and> (rooted \<longrightarrow> n = 0))"

lemma clean_list_Nil [simp]: "clean_list rooted []"
  by (auto simp: clean_list_def)

lemma clean_list_snoc: "clean_list rooted cs \<Longrightarrow> plain_comp c \<Longrightarrow> clean_list rooted (cs @ [c])"
  unfolding clean_list_def
proof (elim exE conjE)
  fix n xs
  assume "cs = replicate n ''..'' @ xs" "list_all plain_comp xs" "rooted \<longrightarrow> n = 0" "plain_comp c"
  then show "\<exists>n ys. cs @ [c] = replicate n ''..'' @ ys \<and> list_all plain_comp ys \<and> (rooted \<longrightarrow> n = 0)"
    by (intro exI [of _ n] exI [of _ "xs @ [c]"]) simp
qed

lemma clean_list_pop:
  assumes "clean_list rooted (cs @ [c])" and "c \<noteq> ''..''"
  shows "clean_list rooted cs"
proof -
  obtain n xs where e: "cs @ [c] = replicate n ''..'' @ xs" and xs: "list_all plain_comp xs"
    and r: "rooted \<longrightarrow> n = 0"
    using assms(1) by (auto simp: clean_list_def)
  have "xs \<noteq> []"
  proof
    assume "xs = []"
    with e have "last (replicate n ''..'') = c" by (metis append_Nil2 last_snoc)
    moreover from \<open>xs = []\<close> e have "n \<noteq> 0" by (cases n) auto
    ultimately show False using assms(2) by simp
  qed
  then obtain ys y where ys: "xs = ys @ [y]" by (metis rev_exhaust)
  with e have "cs = replicate n ''..'' @ ys" by simp
  with xs ys r show ?thesis by (auto simp: clean_list_def)
qed

lemma clean_list_dotdot:
  assumes "clean_list False (cs @ [''..''])"
  shows "clean_list False (cs @ [''..''] @ [''..''])"
proof -
  obtain n xs where e: "cs @ [''..''] = replicate n ''..'' @ xs" and xs: "list_all plain_comp xs"
    using assms by (auto simp: clean_list_def)
  have "xs = []"
  proof (rule ccontr)
    assume "xs \<noteq> []"
    then obtain ys y where ys: "xs = ys @ [y]" by (metis rev_exhaust)
    with e have "y = ''..''" by simp
    with ys xs show False by (simp add: plain_comp_def)
  qed
  with e have "cs @ [''..''] @ [''..''] = replicate (Suc n) ''..'' @ []"
    by (metis append_Nil2 append_assoc replicate_Suc replicate_append_same)
  then show ?thesis unfolding clean_list_def by (metis list.pred_inject(1))
qed

lemma clean_comps_clean:
  assumes "clean_list rooted (rev st)" and "\<forall>c \<in> set cs. CHR ''/'' \<notin> set c"
  shows "clean_list rooted (clean_comps rooted st cs)"
  using assms
proof (induction rooted st cs rule: clean_comps.induct)
  case (2 rooted st c cs)
  consider "c = [] \<or> c = ''.''" | "c = ''..''" | "plain_comp c"
    using "2.prems" by (auto simp: plain_comp_def)
  then show ?case
  proof cases
    case 1
    with 2 show ?thesis by auto
  next
    case c: 2
    show ?thesis
    proof (cases st)
      case Nil
      have "clean_list False [''..'']"
        unfolding clean_list_def
        by (rule exI [of _ "Suc 0"], rule exI [of _ "[]"]) simp
      with Nil c 2 show ?thesis by auto
    next
      case (Cons t ts)
      show ?thesis
      proof (cases "t = ''..''")
        case True
        have "\<not> rooted"
        proof
          assume rooted
          with "2.prems"(1) Cons True have "list_all plain_comp (rev ts @ [''..''])"
            by (auto simp: clean_list_def)
          then show False by (simp add: plain_comp_def)
        qed
        then have "clean_list rooted (rev (''..'' # st))"
          using "2.prems"(1) Cons True clean_list_dotdot [of "rev ts"] by simp
        with True Cons c 2 show ?thesis by auto
      next
        case False
        with "2.prems"(1) Cons have "clean_list rooted (rev ts)"
          using clean_list_pop [of rooted "rev ts" t] by simp
        with False Cons c 2 show ?thesis by auto
      qed
    qed
  next
    case 3
    then have "clean_list rooted (rev (c # st))"
      using clean_list_snoc "2.prems"(1) by simp
    with 3 2 show ?thesis by (auto simp: plain_comp_def)
  qed
qed simp

lemma clean_comps_plain:
  "list_all plain_comp cs \<Longrightarrow> clean_comps rooted st cs = rev st @ cs"
  by (induction cs arbitrary: st) (auto simp: plain_comp_def)

lemma clean_comps_dots:
  "clean_comps False (replicate m ''..'') (replicate n ''..'' @ xs) =
   clean_comps False (replicate (m + n) ''..'') xs"
proof (induction n arbitrary: m)
  case (Suc n)
  show ?case
    using Suc.IH [of "Suc m"] by (cases m) simp_all
qed simp

lemma clean_comps_id: "clean_list rooted cs \<Longrightarrow> clean_comps rooted [] cs = cs"
proof -
  assume "clean_list rooted cs"
  then obtain n xs where c: "cs = replicate n ''..'' @ xs" "list_all plain_comp xs" "rooted \<longrightarrow> n = 0"
    by (auto simp: clean_list_def)
  show ?thesis
  proof (cases rooted)
    case True
    with c show ?thesis using clean_comps_plain [of xs True "[]"] by simp
  next
    case False
    with c show ?thesis using clean_comps_dots [of 0 n xs] clean_comps_plain [of xs False] by simp
  qed
qed

lemma split_char_append:
  "sep \<notin> set a \<Longrightarrow> split_char sep (a @ sep # b) = a # split_char sep b"
  by (induction a) (simp_all add: eq_commute [of _ sep])

lemma split_char_id: "sep \<notin> set a \<Longrightarrow> split_char sep a = [a]"
  by (induction a) auto

lemma split_join:
  "xs \<noteq> [] \<Longrightarrow> \<forall>x \<in> set xs. sep \<notin> set x \<Longrightarrow> split_char sep (join [sep] xs) = xs"
proof (induction xs)
  case (Cons x xs)
  show ?case
  proof (cases xs)
    case Nil
    with Cons show ?thesis by (simp add: split_char_id)
  next
    case (Cons y ys)
    with Cons.prems Cons.IH show ?thesis
      by (simp add: join_Cons split_char_append)
  qed
qed simp

lemma clean_list_no_slash:
  assumes "clean_list rooted cs" and "c \<in> set cs"
  shows "CHR ''/'' \<notin> set c" and "c \<noteq> []"
proof -
  obtain n xs where cs: "cs = replicate n ''..'' @ xs" and xs: "list_all plain_comp xs"
    using assms(1) unfolding clean_list_def by blast
  have "c = ''..'' \<or> plain_comp c"
    using assms(2) xs unfolding cs list_all_iff by (auto split: if_splits)
  then show "CHR ''/'' \<notin> set c" and "c \<noteq> []"
    unfolding plain_comp_def by force+
qed

lemma clean_list_comps: "clean_list (is_abs p) (comps p)"
  unfolding comps_def by (rule clean_comps_clean) (auto dest: split_char_no_sep)

lemma path_clean_comps:
  "path_clean p = (if is_abs p then CHR ''/'' # join ''/'' (comps p)
                   else if comps p = [] then ''.'' else join ''/'' (comps p))"
  by (simp add: path_clean_def comps_def Let_def)

lemma is_abs_join: "clean_list False cs \<Longrightarrow> cs \<noteq> [] \<Longrightarrow> \<not> is_abs (join ''/'' cs)"
proof -
  assume "clean_list False cs" "cs \<noteq> []"
  then obtain d ds where "cs = d # ds" "d \<noteq> []" "CHR ''/'' \<notin> set d"
    using clean_list_no_slash by (metis list.exhaust list.set_intros(1))
  then show ?thesis by (cases ds; cases d) (auto simp: is_abs_def)
qed

lemma comps_rooted_join:
  assumes "clean_list True cs"
  shows "comps (CHR ''/'' # join ''/'' cs) = cs"
proof (cases "cs = []")
  case True
  then show ?thesis by (simp add: comps_def)
next
  case False
  have "split_char CHR ''/'' (join ''/'' cs) = cs"
    using split_join False clean_list_no_slash(1) [OF assms] by blast
  with clean_comps_id [OF assms] show ?thesis
    by (simp add: comps_def is_abs_def)
qed

lemma comps_join:
  assumes "clean_list False cs" and "cs \<noteq> []"
  shows "comps (join ''/'' cs) = cs"
proof -
  have "split_char CHR ''/'' (join ''/'' cs) = cs"
    using split_join assms(2) clean_list_no_slash(1) [OF assms(1)] by blast
  with clean_comps_id [OF assms(1)] is_abs_join [OF assms] show ?thesis
    by (simp add: comps_def)
qed

lemma path_clean_idem [simp]: "path_clean (path_clean p) = path_clean p"
proof (cases "is_abs p")
  case True
  then have "comps (path_clean p) = comps p"
    using clean_list_comps [of p] comps_rooted_join by (simp add: path_clean_comps)
  then show ?thesis using True by (simp add: path_clean_comps is_abs_def)
next
  case False
  show ?thesis
  proof (cases "comps p = []")
    case True
    with False have "path_clean p = ''.''" by (simp add: path_clean_comps)
    moreover have "path_clean ''.'' = ''.''" by (simp add: path_clean_def is_abs_def)
    ultimately show ?thesis by simp
  next
    case ne: False
    have cl: "clean_list False (comps p)" using clean_list_comps [of p] False by simp
    from False ne have "path_clean p = join ''/'' (comps p)" by (simp add: path_clean_comps)
    then show ?thesis
      using comps_join [OF cl ne] is_abs_join [OF cl ne] ne by (simp add: path_clean_comps)
  qed
qed

end
