(* ===== verification/Prelude.thy ===== *)
theory Prelude
  imports GoPaths "HOL-Library.Code_Target_Numeral"
begin

text \<open>
  What every component shares: contexts with deadlines, the state that an operation with
  effects threads, and calls to injected interfaces.

  A Go \<open>context.Context\<close> is the moment at which it becomes done, with the error it then
  reports; \<open>None\<close> is a context that is never done.  The moment may lie in the future:
  every behaviour of a caller that cancels is some choice of it.  Every external call
  takes a duration (a natural number of nanoseconds), so the clock never runs backwards,
  and every call is recorded in a trace, the order of effects the safety theorems speak
  of.
\<close>

section \<open>Contexts\<close>

datatype ctx_error = Canceled | DeadlineExceeded

type_synonym ctx = "(nat \<times> ctx_error) option"

abbreviation background :: ctx where
  "background \<equiv> None"

definition ctx_err :: "ctx \<Rightarrow> nat \<Rightarrow> ctx_error option" where
  "ctx_err c now =
     (case c of None \<Rightarrow> None | Some (t, e) \<Rightarrow> if t \<le> now then Some e else None)"

definition with_timeout_at :: "ctx \<Rightarrow> nat \<Rightarrow> nat \<Rightarrow> nat \<times> ctx_error" where
  "with_timeout_at c now d =
     (case c of
        None \<Rightarrow> (now + d, DeadlineExceeded)
      | Some (t, e) \<Rightarrow> if t \<le> now + d then (t, e) else (now + d, DeadlineExceeded))"

definition with_timeout :: "ctx \<Rightarrow> nat \<Rightarrow> nat \<Rightarrow> ctx" where
  "with_timeout c now d = Some (with_timeout_at c now d)"

definition millisecond :: nat where "millisecond = 1000000"
definition second :: nat where "second = 1000000000"

lemma ctx_err_background [simp]: "ctx_err background now = None"
  by (simp add: ctx_err_def)

lemma ctx_err_mono: "ctx_err c now = Some e \<Longrightarrow> now \<le> later \<Longrightarrow> ctx_err c later = Some e"
  by (auto simp: ctx_err_def split: option.splits prod.splits if_splits)

lemma ctx_err_earlier: "ctx_err c later = None \<Longrightarrow> now \<le> later \<Longrightarrow> ctx_err c now = None"
  by (metis ctx_err_mono not_None_eq)

lemma with_timeout_bound: "fst (with_timeout_at c now d) \<le> now + d"
  by (auto simp: with_timeout_at_def split: option.splits prod.splits)

lemma with_timeout_err_parent:
  "ctx_err (with_timeout c now d) later = None \<Longrightarrow> ctx_err c later = None"
  by (auto simp: with_timeout_def with_timeout_at_def ctx_err_def
      split: option.splits prod.splits if_splits)

section \<open>Effectful operations\<close>

record ('w, 'e) sys =
  world :: 'w
  clock :: nat
  trace :: "'e list"

type_synonym ('w, 'a) oper = "ctx \<Rightarrow> nat \<Rightarrow> 'w \<Rightarrow> 'a \<times> nat \<times> 'w"

definition call :: "('a \<Rightarrow> 'e) \<Rightarrow> ('w, 'a) oper \<Rightarrow> ctx \<Rightarrow> ('w, 'e) sys \<Rightarrow> 'a \<times> ('w, 'e) sys" where
  "call ev f c s =
     (case f c (clock s) (world s) of
        (r, d, w) \<Rightarrow> (r, \<lparr>world = w, clock = clock s + d, trace = trace s @ [ev r]\<rparr>))"

lemma call_trace: "call ev f c s = (r, s') \<Longrightarrow> trace s' = trace s @ [ev r]"
  by (auto simp: call_def split: prod.splits)

lemma call_clock: "call ev f c s = (r, s') \<Longrightarrow> clock s \<le> clock s'"
  by (auto simp: call_def split: prod.splits)

text \<open>What a computation appended to the trace.\<close>

definition grew :: "('w, 'e) sys \<Rightarrow> ('w, 'e) sys \<Rightarrow> 'e list \<Rightarrow> bool" where
  "grew s s' es \<longleftrightarrow> trace s' = trace s @ es \<and> clock s \<le> clock s'"

lemma grew_refl [simp]: "grew s s []"
  by (simp add: grew_def)

lemma grew_trans: "grew s s' xs \<Longrightarrow> grew s' s'' ys \<Longrightarrow> grew s s'' (xs @ ys)"
  by (auto simp: grew_def)

lemma grew_call: "call ev f c s = (r, s') \<Longrightarrow> grew s s' [ev r]"
  by (simp add: grew_def call_trace call_clock)

lemma grew_unique: "grew s s' xs \<Longrightarrow> grew s s' ys \<Longrightarrow> xs = ys"
  by (simp add: grew_def)

section \<open>External commands\<close>

text \<open>
  The result of running a command through a \<open>CommandRunner\<close>: the two outputs and the
  error, if any.  \<open>exit_code\<close> is what an \<open>ExitCode()\<close> method in the error chain reports,
  \<open>err_text\<close> its \<open>Error()\<close> text, \<open>not_found\<close> whether it is \<open>exec.ErrNotFound\<close> and
  \<open>ctx_cause\<close> the context error it wraps.  Running a command leaves its argument vector
  in the trace, with whether it succeeded.
\<close>

record cmd_error =
  exit_code :: "int option"
  err_text :: string
  not_found :: bool
  ctx_cause :: "ctx_error option"

definition plain_error :: "string \<Rightarrow> cmd_error" where
  "plain_error msg = \<lparr>exit_code = None, err_text = msg, not_found = False, ctx_cause = None\<rparr>"

record cmd_result =
  out :: string
  err_out :: string
  cmd_err :: "cmd_error option"

datatype cmd_event = Ran string "string list" bool

type_synonym 'w runner = "string \<Rightarrow> string list \<Rightarrow> ('w, cmd_result) oper"

text \<open>A method of an injected interface: it takes a context and the threaded state.\<close>

type_synonym ('w, 'e, 'a) effect = "ctx \<Rightarrow> ('w, 'e) sys \<Rightarrow> 'a \<times> ('w, 'e) sys"

definition run_cmd ::
  "'w runner \<Rightarrow> string \<Rightarrow> string list \<Rightarrow> ('w, cmd_event, cmd_result) effect" where
  "run_cmd f name args c s = call (\<lambda>r. Ran name args (cmd_err r = None)) (f name args) c s"

lemma run_cmd_grew:
  "run_cmd f name args c s = (r, s') \<Longrightarrow> grew s s' [Ran name args (cmd_err r = None)]"
  unfolding run_cmd_def by (rule grew_call)

fun argv :: "cmd_event \<Rightarrow> string list" where
  "argv (Ran name args ok) = name # args"

fun succeeded :: "cmd_event \<Rightarrow> bool" where
  "succeeded (Ran name args ok) = ok"

section \<open>Lists\<close>

lemma filter_eq_ConsD: "filter P xs = y # ys \<Longrightarrow> y \<in> set xs \<and> P y"
  by (metis (mono_tags, lifting) filter_set list.set_intros(1) mem_Collect_eq set_filter)

lemma distinct_map_filter: "distinct (map f xs) \<Longrightarrow> distinct (map f (filter P xs))"
  by (induction xs) auto

end
