(* ===== verification/Pm2Inventory.thy ===== *)
theory Pm2Inventory
  imports Prelude
begin

text \<open>
  \<open>internal/installation/pm2_quiescence.go\<close>, first half: the PM2 inventory and its
  correlation with listening sockets and \<open>/proc\<close> identities.  \<open>pm2_json\<close> is a record
  of \<open>pm2 jlist\<close> after JSON decoding (the decoder is a parameter), \<open>pm2_record\<close> the
  validated record, \<open>pm2_identity\<close> a process the migration is allowed to stop.
\<close>

section \<open>Data\<close>

record pm2_json =
  j_id :: int
  j_pid :: int
  j_name :: string
  j_exec_path :: string
  env_cwd :: string
  env_pm_cwd :: string
  env_status :: string
  env_pid :: int
  env_exec :: string

record pm2_record =
  rec_id :: int
  rec_pid :: int
  rec_name :: string
  rec_cwd :: string
  rec_exec :: string
  rec_status :: string

record pm2_identity =
  pmid :: int
  ident_name :: string
  ident_pid :: int
  ident_cwd :: string
  ident_exec :: string
  runtime_exec :: string
  ident_port :: nat
  start_ticks :: nat

record socket_owner =
  so_pid :: int
  so_port :: nat

record proc_identity =
  proc_cwd :: string
  proc_exec :: string
  proc_ticks :: nat

definition guardian_root :: string where "guardian_root = ''/opt/alice-guardian''"
definition backend_root :: string where "backend_root = ''/opt/backend_alice_guardian''"

definition same_path :: "string \<Rightarrow> string \<Rightarrow> bool" where
  "same_path l r \<longleftrightarrow> path_clean l = path_clean r"

section \<open>Parsing the inventory\<close>

text \<open>The fallback of one field to the other when the first is unset.\<close>

definition first_set :: "string \<Rightarrow> string \<Rightarrow> string" where
  "first_set a b = (if a = [] then b else a)"

definition first_pid :: "int \<Rightarrow> int \<Rightarrow> int" where
  "first_pid a b = (if a = 0 then b else a)"

text \<open>
  One iteration of the loop of \<open>ParsePM2Inventory\<close>: the record it appends; \<open>None\<close> is the
  error "pm2 inventory is ambiguous".
\<close>

definition inventory_item ::
  "int set \<Rightarrow> int set \<Rightarrow> pm2_json \<Rightarrow> pm2_record option" where
  "inventory_item seen_ids seen_pids item =
     (if env_cwd item \<noteq> [] \<and> env_pm_cwd item \<noteq> [] \<and> \<not> same_path (env_cwd item) (env_pm_cwd item)
      then None else
      let cwd = first_set (env_cwd item) (env_pm_cwd item) in
      if j_pid item < 0 \<or> env_pid item < 0 then None else
      if j_pid item > 0 \<and> env_pid item > 0 \<and> j_pid item \<noteq> env_pid item then None else
      let pid = first_pid (j_pid item) (env_pid item) in
      if j_exec_path item \<noteq> [] \<and> env_exec item \<noteq> [] \<and> \<not> same_path (j_exec_path item) (env_exec item)
      then None else
      let exec = first_set (j_exec_path item) (env_exec item) in
      if j_id item < 0 \<or> j_name item = [] \<or> cwd = [] \<or> exec = [] \<or> j_id item \<in> seen_ids then None else
      let r = \<lparr>rec_id = j_id item, rec_pid = pid, rec_name = j_name item,
               rec_cwd = path_clean cwd, rec_exec = path_clean exec, rec_status = env_status item\<rparr> in
      if env_status item = ''online'' then
        (if pid \<le> 0 \<or> pid \<in> seen_pids then None else Some r)
      else if env_status item = ''stopped'' then
        (if j_pid item \<noteq> 0 \<or> env_pid item \<noteq> 0 then None else Some r)
      else None)"

fun inventory_items ::
  "int set \<Rightarrow> int set \<Rightarrow> pm2_json list \<Rightarrow> pm2_record list option" where
  "inventory_items seen_ids seen_pids [] = Some []"
| "inventory_items seen_ids seen_pids (item # items) =
     (case inventory_item seen_ids seen_pids item of
        None \<Rightarrow> None
      | Some r \<Rightarrow>
          map_option ((#) r)
            (inventory_items (insert (rec_id r) seen_ids)
               (if rec_status r = ''online'' then insert (rec_pid r) seen_pids else seen_pids) items))"

definition parse_pm2_inventory ::
  "(string \<Rightarrow> pm2_json list option) \<Rightarrow> string \<Rightarrow> string + pm2_record list" where
  "parse_pm2_inventory unmarshal data =
     (case unmarshal data of
        None \<Rightarrow> Inl ''pm2 inventory is invalid''
      | Some raw \<Rightarrow>
          if raw = [] then Inl ''pm2 inventory is invalid''
          else (case inventory_items {} {} raw of
                  None \<Rightarrow> Inl ''pm2 inventory is ambiguous''
                | Some rs \<Rightarrow> Inr rs))"

section \<open>Service contracts\<close>

record pm2_contract =
  c_name :: string
  c_cwd :: string
  c_pm2_exec :: string
  c_runtime_exec :: string
  c_port :: nat

definition pm2_contracts :: "pm2_contract list" where
  "pm2_contracts =
     [\<lparr>c_name = ''front-guardian'', c_cwd = guardian_root, c_pm2_exec = ''/usr/bin/bash'',
       c_runtime_exec = ''/usr/local/bin/node'', c_port = 8080\<rparr>,
      \<lparr>c_name = ''ws'', c_cwd = backend_root @ ''/websocket'', c_pm2_exec = ''/usr/bin/bash'',
       c_runtime_exec = ''/usr/local/bin/node'', c_port = 4550\<rparr>,
      \<lparr>c_name = ''node'', c_cwd = backend_root @ ''/node'', c_pm2_exec = backend_root @ ''/node/bin/www'',
       c_runtime_exec = ''/usr/local/bin/node'', c_port = 9090\<rparr>]"

definition allowed_pm2_contract :: "string \<Rightarrow> string \<Rightarrow> nat \<Rightarrow> pm2_contract option" where
  "allowed_pm2_contract name cwd port =
     find (\<lambda>c. name = c_name c \<and> cwd = c_cwd c \<and> port = c_port c) pm2_contracts"

definition matches_pm2_contract_record :: "pm2_record \<Rightarrow> bool" where
  "matches_pm2_contract_record r =
     list_ex (\<lambda>port. case allowed_pm2_contract (rec_name r) (rec_cwd r) port of
                       None \<Rightarrow> False
                     | Some c \<Rightarrow> rec_exec r = c_pm2_exec c) [4550, 8080, 9090]"

section \<open>Correlation\<close>

text \<open>The socket loop of \<open>CorrelatePM2\<close>; the map is \<open>ports\<close>.\<close>

fun sockets_unambiguous :: "(nat \<rightharpoonup> int) \<Rightarrow> socket_owner list \<Rightarrow> bool" where
  "sockets_unambiguous ports [] = True"
| "sockets_unambiguous ports (s # ss) =
     (if so_pid s \<le> 0 \<or> so_port s = 0 then False
      else if (case ports (so_port s) of Some owner \<Rightarrow> owner \<noteq> so_pid s | None \<Rightarrow> False) then False
      else sockets_unambiguous (ports(so_port s \<mapsto> so_pid s)) ss)"

text \<open>\<open>owners[pid]\<close>, the ports a process listens on.\<close>

definition owned_ports :: "socket_owner list \<Rightarrow> int \<Rightarrow> nat list" where
  "owned_ports ss pid = remdups (map so_port (filter (\<lambda>s. so_pid s = pid) ss))"

definition contract_matches :: "socket_owner list \<Rightarrow> pm2_record \<Rightarrow> (nat \<times> pm2_contract) list" where
  "contract_matches ss r =
     List.map_filter
       (\<lambda>port. map_option (Pair port) (allowed_pm2_contract (rec_name r) (rec_cwd r) port))
       (owned_ports ss (rec_pid r))"

text \<open>One iteration of the record loop: an error, no selection, or an identity.\<close>

definition correlate_record ::
  "socket_owner list \<Rightarrow> (int \<rightharpoonup> proc_identity) \<Rightarrow> pm2_record \<Rightarrow> string + pm2_identity option" where
  "correlate_record ss proc r =
     (if rec_id r < 0 then Inr None
      else case contract_matches ss r of
        [] \<Rightarrow> Inr None
      | (port, contract) # others \<Rightarrow>
          if rec_status r \<noteq> ''online'' then Inr None
          else if others \<noteq> [] then Inl ''socket ownership is ambiguous''
          else (case proc (rec_pid r) of
                  None \<Rightarrow> Inl ''process identity is invalid''
                | Some identity \<Rightarrow>
                    if proc_ticks identity = 0 \<or> rec_exec r \<noteq> c_pm2_exec contract
                       \<or> proc_exec identity \<noteq> c_runtime_exec contract
                       \<or> proc_cwd identity \<noteq> c_cwd contract
                    then Inl ''process identity is invalid''
                    else Inr (Some
                      \<lparr>pmid = rec_id r, ident_name = rec_name r, ident_pid = rec_pid r,
                       ident_cwd = proc_cwd identity, ident_exec = rec_exec r,
                       runtime_exec = proc_exec identity, ident_port = port,
                       start_ticks = proc_ticks identity\<rparr>)))"

fun select_identities ::
  "socket_owner list \<Rightarrow> (int \<rightharpoonup> proc_identity) \<Rightarrow> pm2_record list \<Rightarrow> string + pm2_identity list" where
  "select_identities ss proc [] = Inr []"
| "select_identities ss proc (r # rs) =
     (case correlate_record ss proc r of
        Inl e \<Rightarrow> Inl e
      | Inr sel \<Rightarrow>
          (case select_identities ss proc rs of
             Inl e \<Rightarrow> Inl e
           | Inr ids \<Rightarrow> Inr (case sel of None \<Rightarrow> ids | Some i \<Rightarrow> i # ids)))"

definition correlate_pm2 ::
  "pm2_record list \<Rightarrow> socket_owner list \<Rightarrow> (int \<rightharpoonup> proc_identity) \<Rightarrow> string + pm2_identity list" where
  "correlate_pm2 records ss proc =
     (if \<not> sockets_unambiguous Map.empty ss then Inl ''socket ownership is ambiguous''
      else case select_identities ss proc records of
        Inl e \<Rightarrow> Inl e
      | Inr selected \<Rightarrow>
          if selected = [] then
            (if list_ex (\<lambda>r. matches_pm2_contract_record r \<and> rec_status r = ''stopped'') records
                \<and> \<not> list_ex (\<lambda>r. matches_pm2_contract_record r \<and> rec_status r = ''online'') records
                \<and> ss = []
             then Inr [] else Inl ''no qualifying PM2 identity'')
          else Inr (sort_key pmid selected))"

section \<open>Inventory invariants\<close>

text \<open>
  What a validated record satisfies: the two statuses PM2 migration understands, with a
  live PID exactly when online, and canonical non-empty paths.
\<close>

definition valid_record :: "pm2_record \<Rightarrow> bool" where
  "valid_record r \<longleftrightarrow>
     0 \<le> rec_id r \<and> rec_name r \<noteq> [] \<and>
     path_clean (rec_cwd r) = rec_cwd r \<and> path_clean (rec_exec r) = rec_exec r \<and>
     (rec_status r = ''online'' \<and> 0 < rec_pid r \<or> rec_status r = ''stopped'' \<and> rec_pid r = 0)"

lemma inventory_item_Some:
  assumes "inventory_item seen_ids seen_pids item = Some r"
  shows "r = \<lparr>rec_id = j_id item, rec_pid = first_pid (j_pid item) (env_pid item),
              rec_name = j_name item,
              rec_cwd = path_clean (first_set (env_cwd item) (env_pm_cwd item)),
              rec_exec = path_clean (first_set (j_exec_path item) (env_exec item)),
              rec_status = env_status item\<rparr>"
    and "0 \<le> j_id item" and "j_name item \<noteq> []" and "j_id item \<notin> seen_ids"
    and "env_status item = ''online'' \<and> 0 < rec_pid r \<and> rec_pid r \<notin> seen_pids \<or>
         env_status item = ''stopped'' \<and> j_pid item = 0 \<and> env_pid item = 0"
  using assms unfolding inventory_item_def Let_def by (auto split: if_split_asm)

lemma inventory_item_valid:
  assumes "inventory_item seen_ids seen_pids item = Some r"
  shows "valid_record r" and "rec_id r \<notin> seen_ids"
    and "rec_status r = ''online'' \<Longrightarrow> rec_pid r \<notin> seen_pids"
  using inventory_item_Some [OF assms] by (auto simp: valid_record_def first_pid_def)

abbreviation online_pids :: "pm2_record list \<Rightarrow> int list" where
  "online_pids rs \<equiv> map rec_pid (filter (\<lambda>r. rec_status r = ''online'') rs)"

lemma inventory_items_ConsE:
  assumes "inventory_items seen_ids seen_pids (item # items) = Some rs"
  obtains r rs' where "rs = r # rs'" and "inventory_item seen_ids seen_pids item = Some r"
    and "inventory_items (insert (rec_id r) seen_ids)
           (if rec_status r = ''online'' then insert (rec_pid r) seen_pids else seen_pids) items = Some rs'"
  using assms by (auto split: option.splits)

lemma inventory_items_ids:
  "inventory_items seen_ids seen_pids items = Some rs \<Longrightarrow>
   distinct (map rec_id rs) \<and> set (map rec_id rs) \<inter> seen_ids = {}"
proof (induction items arbitrary: seen_ids seen_pids rs)
  case (Cons item items)
  from Cons.prems show ?case
  proof (rule inventory_items_ConsE)
    fix r rs'
    assume "rs = r # rs'" and "inventory_item seen_ids seen_pids item = Some r"
      and "inventory_items (insert (rec_id r) seen_ids)
             (if rec_status r = ''online'' then insert (rec_pid r) seen_pids else seen_pids) items = Some rs'"
    with Cons.IH [OF this(3)] inventory_item_valid(2) [OF this(2)] show ?thesis by auto
  qed
qed simp

lemma inventory_items_pids:
  "inventory_items seen_ids seen_pids items = Some rs \<Longrightarrow>
   distinct (online_pids rs) \<and> set (online_pids rs) \<inter> seen_pids = {}"
proof (induction items arbitrary: seen_ids seen_pids rs)
  case (Cons item items)
  from Cons.prems show ?case
  proof (rule inventory_items_ConsE)
    fix r rs'
    assume "rs = r # rs'" and "inventory_item seen_ids seen_pids item = Some r"
      and "inventory_items (insert (rec_id r) seen_ids)
             (if rec_status r = ''online'' then insert (rec_pid r) seen_pids else seen_pids) items = Some rs'"
    with Cons.IH [OF this(3)] inventory_item_valid(3) [OF this(2)] show ?thesis
      by (auto split: if_splits)
  qed
qed simp

lemma inventory_items_valid:
  "inventory_items seen_ids seen_pids items = Some rs \<Longrightarrow> list_all valid_record rs"
proof (induction items arbitrary: seen_ids seen_pids rs)
  case (Cons item items)
  from Cons.prems show ?case
    by (rule inventory_items_ConsE) (use Cons.IH inventory_item_valid(1) in auto)
qed simp

section \<open>Correlation facts\<close>

text \<open>
  An identity the migration may act on: it stands for an online record of the inventory,
  runs one of the three contracted services, owns that service's port, and \<open>/proc\<close>
  confirms its working directory and executable.
\<close>

definition qualifies_as ::
  "socket_owner list \<Rightarrow> (int \<rightharpoonup> proc_identity) \<Rightarrow> pm2_record \<Rightarrow> pm2_contract \<Rightarrow>
   proc_identity \<Rightarrow> pm2_identity \<Rightarrow> bool" where
  "qualifies_as ss proc r c p i \<longleftrightarrow>
     rec_status r = ''online'' \<and> 0 \<le> rec_id r \<and>
     allowed_pm2_contract (rec_name r) (rec_cwd r) (ident_port i) = Some c \<and>
     rec_exec r = c_pm2_exec c \<and>
     \<lparr>so_pid = rec_pid r, so_port = ident_port i\<rparr> \<in> set ss \<and>
     proc (rec_pid r) = Some p \<and> proc_ticks p \<noteq> 0 \<and>
     proc_exec p = c_runtime_exec c \<and> proc_cwd p = c_cwd c \<and>
     pmid i = rec_id r \<and> ident_name i = rec_name r \<and> ident_pid i = rec_pid r \<and>
     ident_cwd i = proc_cwd p \<and> ident_exec i = rec_exec r \<and>
     runtime_exec i = proc_exec p \<and> start_ticks i = proc_ticks p"

definition qualifies ::
  "pm2_record list \<Rightarrow> socket_owner list \<Rightarrow> (int \<rightharpoonup> proc_identity) \<Rightarrow> pm2_identity \<Rightarrow> bool" where
  "qualifies records ss proc i \<longleftrightarrow> (\<exists>r \<in> set records. \<exists>c p. qualifies_as ss proc r c p i)"

lemma allowed_contract_member:
  assumes "allowed_pm2_contract name cwd port = Some c"
  shows "c \<in> set pm2_contracts" and "c_name c = name" and "c_cwd c = cwd" and "c_port c = port"
  using assms unfolding allowed_pm2_contract_def by (auto simp: find_Some_iff in_set_conv_nth)

lemma pm2_contract_cases:
  assumes "c \<in> set pm2_contracts"
  shows "c_port c \<in> {4550, 8080, 9090}" and "c_cwd c \<noteq> []" and "c_pm2_exec c \<noteq> []"
    and "c_runtime_exec c \<noteq> []" and "c_name c \<noteq> []"
  using assms by (auto simp: pm2_contracts_def guardian_root_def backend_root_def)

lemma owned_ports_iff:
  "port \<in> set (owned_ports ss pid) \<longleftrightarrow> \<lparr>so_pid = pid, so_port = port\<rparr> \<in> set ss"
proof
  assume "\<lparr>so_pid = pid, so_port = port\<rparr> \<in> set ss"
  then show "port \<in> set (owned_ports ss pid)" by (force simp: owned_ports_def)
next
  assume "port \<in> set (owned_ports ss pid)"
  then obtain s where "s \<in> set ss" "so_pid s = pid" "so_port s = port"
    by (auto simp: owned_ports_def)
  moreover have "\<lparr>so_pid = so_pid s, so_port = so_port s\<rparr> = s" by simp
  ultimately show "\<lparr>so_pid = pid, so_port = port\<rparr> \<in> set ss" by metis
qed

lemma contract_matches_iff:
  "(port, c) \<in> set (contract_matches ss r) \<longleftrightarrow>
     \<lparr>so_pid = rec_pid r, so_port = port\<rparr> \<in> set ss \<and>
     allowed_pm2_contract (rec_name r) (rec_cwd r) port = Some c"
  by (auto simp: contract_matches_def List.map_filter_def owned_ports_iff image_iff)

lemma correlate_record_qualified:
  assumes "correlate_record ss proc r = Inr (Some i)" and "r \<in> set records"
  shows "qualifies records ss proc i" and "pmid i = rec_id r"
proof -
  obtain port c where m: "contract_matches ss r = [(port, c)]"
    using assms(1)
    by (auto simp: correlate_record_def split: if_splits list.splits option.splits prod.splits)
  then have "(port, c) \<in> set (contract_matches ss r)" by simp
  then have pc: "\<lparr>so_pid = rec_pid r, so_port = port\<rparr> \<in> set ss"
      "allowed_pm2_contract (rec_name r) (rec_cwd r) port = Some c"
    by (simp_all add: contract_matches_iff)
  show "pmid i = rec_id r"
    using assms(1) m by (auto simp: correlate_record_def split: if_splits option.splits)
  obtain p where "proc (rec_pid r) = Some p"
    using assms(1) m by (auto simp: correlate_record_def split: if_splits option.splits)
  then have "qualifies_as ss proc r c p i"
    using assms(1) m pc by (auto simp: correlate_record_def qualifies_as_def split: if_splits)
  with assms(2) show "qualifies records ss proc i" by (auto simp: qualifies_def)
qed

lemma select_identities_qualified:
  "select_identities ss proc rs = Inr ids \<Longrightarrow> set rs \<subseteq> set records \<Longrightarrow>
   \<forall>i \<in> set ids. qualifies records ss proc i \<and> pmid i \<in> rec_id ` set rs"
proof (induction rs arbitrary: ids)
  case (Cons r rs)
  from Cons.prems Cons.IH show ?case
    by (auto split: sum.splits option.splits dest: correlate_record_qualified)
qed auto

lemma select_identities_distinct:
  "select_identities ss proc rs = Inr ids \<Longrightarrow> distinct (map rec_id rs) \<Longrightarrow> distinct (map pmid ids)"
proof (induction rs arbitrary: ids)
  case (Cons r rs)
  obtain sel ids' where sel: "correlate_record ss proc r = Inr sel"
    and ids': "select_identities ss proc rs = Inr ids'"
    and ids: "ids = (case sel of None \<Rightarrow> ids' | Some i \<Rightarrow> i # ids')"
    using Cons.prems by (auto split: sum.splits)
  have d: "distinct (map pmid ids')" using Cons ids' by simp
  show ?case
  proof (cases sel)
    case None
    with d ids show ?thesis by simp
  next
    case (Some i)
    have "pmid i = rec_id r"
      using correlate_record_qualified(2) [OF sel [unfolded Some], of "[r]"] by simp
    moreover have "rec_id r \<notin> pmid ` set ids'"
      using select_identities_qualified [OF ids' subset_refl] Cons.prems(2) by auto
    ultimately show ?thesis using d ids Some by simp
  qed
qed simp

lemma correlate_pm2_select:
  "correlate_pm2 records ss proc = Inr ids \<Longrightarrow>
   \<exists>sel. select_identities ss proc records = Inr sel \<and> ids = sort_key pmid sel"
  by (auto simp: correlate_pm2_def split: sum.splits if_splits)

lemma correlate_pm2_qualified:
  "correlate_pm2 records ss proc = Inr ids \<Longrightarrow> i \<in> set ids \<Longrightarrow> qualifies records ss proc i"
  using correlate_pm2_select select_identities_qualified [OF _ subset_refl] by fastforce

lemma correlate_pm2_distinct:
  "correlate_pm2 records ss proc = Inr ids \<Longrightarrow> distinct (map rec_id records) \<Longrightarrow> distinct (map pmid ids)"
  using correlate_pm2_select select_identities_distinct
  by (metis distinct_map distinct_sort set_sort)

lemma correlate_pm2_sorted: "correlate_pm2 records ss proc = Inr ids \<Longrightarrow> sorted (map pmid ids)"
  using correlate_pm2_select by fastforce

lemma correlate_pm2_sockets:
  "correlate_pm2 records ss proc = Inr ids \<Longrightarrow> sockets_unambiguous Map.empty ss"
  by (auto simp: correlate_pm2_def split: if_splits)

lemma sockets_unambiguous_pos:
  "sockets_unambiguous m ss \<Longrightarrow> s \<in> set ss \<Longrightarrow> 0 < so_pid s \<and> 0 < so_port s"
  by (induction m ss rule: sockets_unambiguous.induct) (auto split: if_splits)

lemma sockets_unambiguous_map:
  assumes "sockets_unambiguous m ss" and "m (so_port s) = Some pid" and "s \<in> set ss"
  shows "so_pid s = pid"
  using assms
proof (induction ss arbitrary: m)
  case (Cons x xs)
  have rest: "sockets_unambiguous (m(so_port x \<mapsto> so_pid x)) xs"
    and x: "m (so_port x) \<noteq> None \<Longrightarrow> m (so_port x) = Some (so_pid x)"
    using Cons.prems(1) by (auto split: if_splits option.splits)
  show ?case
  proof (cases "s = x")
    case True
    with x Cons.prems(2) show ?thesis by simp
  next
    case False
    with Cons.prems(3) have s: "s \<in> set xs" by simp
    have "(m(so_port x \<mapsto> so_pid x)) (so_port s) = Some pid"
      using Cons.prems(2) x by auto
    from Cons.IH [OF rest this s] show ?thesis .
  qed
qed simp

lemma sockets_unambiguous_unique:
  assumes "sockets_unambiguous m ss" and "s \<in> set ss" and "t \<in> set ss" and "so_port s = so_port t"
  shows "so_pid s = so_pid t"
  using assms
proof (induction ss arbitrary: m)
  case (Cons x xs)
  have rest: "sockets_unambiguous (m(so_port x \<mapsto> so_pid x)) xs"
    using Cons.prems(1) by (auto split: if_splits)
  have hd: "so_pid u = so_pid x" if "u \<in> set xs" "so_port u = so_port x" for u
    using sockets_unambiguous_map [OF rest _ that(1)] that(2) by simp
  show ?case
  proof (cases "s = x \<or> t = x")
    case True
    with hd Cons.prems show ?thesis by fastforce
  next
    case False
    with Cons.prems Cons.IH [OF rest] show ?thesis by simp
  qed
qed simp

text \<open>The record check of \<open>acknowledgedRecoveryTargets\<close>, which selected identities pass.\<close>

definition complete_identity :: "pm2_identity \<Rightarrow> bool" where
  "complete_identity i \<longleftrightarrow>
     0 \<le> pmid i \<and> 0 < ident_pid i \<and> ident_port i \<noteq> 0 \<and> start_ticks i \<noteq> 0 \<and>
     ident_cwd i \<noteq> [] \<and> ident_exec i \<noteq> [] \<and> runtime_exec i \<noteq> []"

lemma qualified_complete:
  assumes "qualifies records ss proc i" and "sockets_unambiguous Map.empty ss"
  shows "complete_identity i"
proof -
  from assms(1) obtain r c p where q: "qualifies_as ss proc r c p i"
    unfolding qualifies_def by blast
  then have c: "allowed_pm2_contract (rec_name r) (rec_cwd r) (ident_port i) = Some c"
    and s: "\<lparr>so_pid = rec_pid r, so_port = ident_port i\<rparr> \<in> set ss"
    by (simp_all add: qualifies_as_def)
  note m = pm2_contract_cases [OF allowed_contract_member(1) [OF c]]
  have "0 < rec_pid r" "0 < ident_port i"
    using sockets_unambiguous_pos [OF assms(2) s] by simp_all
  with q m show ?thesis by (simp add: qualifies_as_def complete_identity_def)
qed

end
