(* ===== verification/Pm2Observe.thy ===== *)
theory Pm2Observe
  imports Pm2Inventory
begin

text \<open>
  How the migration observes a legacy host: the diagnostics of
  \<open>pm2_observation_diagnostic.go\<close>, the privileged command boundary of
  \<open>root_pm2_boundary.go\<close>, the parsers of \<open>linux_socket_snapshot.go\<close> and
  \<open>proc_identity.go\<close>, and the snapshot that \<open>linux_pm2_snapshot.go\<close> composes from
  them.  Errors are values: \<open>obs_error\<close> is a Go error, with the first
  \<open>pm2ObservationError\<close> and the context error found in its chain.
\<close>

section \<open>Diagnostics\<close>

record diagnostic =
  d_stage :: string
  d_operation :: string
  d_command :: string
  d_cause :: string
  d_stderr :: string
  stop_timed_out :: bool
  stop_cancelled :: bool
  recovery_timed_out :: bool
  recovery_cancelled :: bool
  d_pmid :: int
  d_port :: nat

definition no_diagnostic :: diagnostic where
  "no_diagnostic =
     \<lparr>d_stage = [], d_operation = [], d_command = [], d_cause = [], d_stderr = [],
      stop_timed_out = False, stop_cancelled = False, recovery_timed_out = False,
      recovery_cancelled = False, d_pmid = 0, d_port = 0\<rparr>"

definition safe_observation_stderr :: "string \<Rightarrow> string" where
  "safe_observation_stderr err =
     (if length err > 256 then []
      else let t = to_lower (trim_space err) in
        if t \<in> set [''sudo: a password is required'',
                    ''sudo: no tty present and no askpass program specified'',
                    ''sudo authentication required'']
        then ''sudo authentication required''
        else if t \<in> set [''sudo: command not found'', ''sudo command unavailable'']
        then ''sudo command unavailable''
        else [])"

definition diagnostic_string :: "diagnostic \<Rightarrow> string" where
  "diagnostic_string d =
     (if stop_timed_out d then
        ''stop command succeeded for PM2 ID '' @ itoa (d_pmid d)
        @ ''; proof timed out: deadline elapsed waiting for exact PM2 record status stopped and target port release on ''
        @ dec_of_nat (d_port d)
      else if stop_cancelled d then
        ''stop command succeeded for PM2 ID '' @ itoa (d_pmid d)
        @ ''; proof was cancelled before exact PM2 record status stopped and target port ''
        @ dec_of_nat (d_port d) @ '' release were proven''
      else if recovery_timed_out d then
        ''recovery command succeeded for PM2 ID '' @ itoa (d_pmid d)
        @ ''; proof timed out: deadline elapsed waiting for exact online PM2 identity, target port ''
        @ dec_of_nat (d_port d) @ '' ownership, and proc identity''
      else if recovery_cancelled d then
        ''recovery command succeeded for PM2 ID '' @ itoa (d_pmid d)
        @ ''; proof was cancelled before exact online PM2 identity, target port ''
        @ dec_of_nat (d_port d) @ '' ownership, and proc identity were proven''
      else
        let parts = map (\<lambda>(k, v). k @ ''='' @ v)
              (filter (\<lambda>(k, v). v \<noteq> [])
                [(''stage'', d_stage d), (''operation'', d_operation d),
                 (''command'', d_command d), (''cause'', d_cause d)]);
            err = safe_observation_stderr (d_stderr d)
        in join '' '' (parts @ (if err \<noteq> [] then [''stderr='' @ err] else [])))"

record obs_error =
  obs_msg :: string
  obs_diag :: "diagnostic option"
  obs_ctx :: "ctx_error option"

definition new_error :: "string \<Rightarrow> obs_error" where
  "new_error msg = \<lparr>obs_msg = msg, obs_diag = None, obs_ctx = None\<rparr>"

definition ctx_error_value :: "ctx_error \<Rightarrow> obs_error" where
  "ctx_error_value e =
     \<lparr>obs_msg = (case e of Canceled \<Rightarrow> ''context canceled''
                        | DeadlineExceeded \<Rightarrow> ''context deadline exceeded''),
      obs_diag = None, obs_ctx = Some e\<rparr>"

definition wrap_observation_unavailable :: "string \<Rightarrow> obs_error \<Rightarrow> obs_error" where
  "wrap_observation_unavailable msg e = e\<lparr>obs_msg := msg\<rparr>"

definition wrap_errorf :: "string \<Rightarrow> obs_error \<Rightarrow> obs_error" where
  "wrap_errorf msg e = e\<lparr>obs_msg := msg @ '': '' @ obs_msg e\<rparr>"

definition observation_error :: "diagnostic \<Rightarrow> obs_error" where
  "observation_error d = \<lparr>obs_msg = diagnostic_string d, obs_diag = Some d, obs_ctx = None\<rparr>"

definition exit_status_text :: "string \<Rightarrow> string" where
  "exit_status_text text =
     (if prefix ''exit status '' text then
        (case atoi_ok (drop (length ''exit status '') text) of
           Some code \<Rightarrow> if 0 \<le> code \<and> code \<le> 255 then ''exit-'' @ itoa code else ''execution-failed''
         | None \<Rightarrow> ''execution-failed'')
      else ''execution-failed'')"

definition observation_cause :: "ctx_error option \<Rightarrow> cmd_error \<Rightarrow> string" where
  "observation_cause ce err =
     (if ce = Some DeadlineExceeded then ''timeout''
      else if ce = Some Canceled then ''cancelled''
      else case exit_code err of
        Some n \<Rightarrow> if n \<ge> 0 then ''exit-'' @ itoa n else exit_status_text (err_text err)
      | None \<Rightarrow> exit_status_text (err_text err))"

definition observation_command_error ::
  "ctx_error option \<Rightarrow> string \<Rightarrow> string \<Rightarrow> string \<Rightarrow> cmd_error \<Rightarrow> obs_error" where
  "observation_command_error ce operation command err_bytes err =
     observation_error (no_diagnostic
       \<lparr>d_operation := operation, d_command := command, d_cause := observation_cause ce err,
        d_stderr := safe_observation_stderr err_bytes\<rparr>)"

definition observation_output_error :: "string \<Rightarrow> string \<Rightarrow> string \<Rightarrow> obs_error" where
  "observation_output_error operation command cause =
     observation_error (no_diagnostic
       \<lparr>d_operation := operation, d_command := command, d_cause := cause\<rparr>)"

definition with_observation_stage :: "obs_error \<Rightarrow> string \<Rightarrow> diagnostic" where
  "with_observation_stage e stage =
     (case obs_diag e of
        None \<Rightarrow> no_diagnostic\<lparr>d_stage := stage, d_operation := ''observation'', d_cause := ''unavailable''\<rparr>
      | Some d \<Rightarrow> d\<lparr>d_stage := stage\<rparr>)"

definition proc_observation_command :: "string \<Rightarrow> int \<Rightarrow> string" where
  "proc_observation_command operation pid =
     (let cmd = (\<lambda>executable file. ''sudo -n '' @ executable @ '' /proc/'' @ itoa pid @ ''/'' @ file) in
      if operation = ''proc-cwd'' then cmd ''readlink'' ''cwd''
      else if operation = ''proc-exe'' then cmd ''readlink'' ''exe''
      else if operation = ''proc-stat'' then cmd ''cat'' ''stat''
      else [])"

section \<open>The privileged boundary\<close>

definition default_proc_stat_limit :: nat where "default_proc_stat_limit = 4 * 1024"

definition allowed_root_observation :: "string \<Rightarrow> string list \<Rightarrow> bool" where
  "allowed_root_observation name args \<longleftrightarrow>
     name = ''pm2'' \<and> args = [''jlist''] \<or> name = ''ss'' \<and> args = [''-H'', ''-ltnp'']"

text \<open>\<open>RootPM2Boundary.Run\<close>; the argument is its \<open>Runner\<close>, \<open>None\<close> when nil.\<close>

definition boundary_run ::
  "'w runner option \<Rightarrow> string \<Rightarrow> string list \<Rightarrow> ('w, cmd_event, obs_error + string) effect" where
  "boundary_run b name args c s =
     (case b of
        None \<Rightarrow> (Inl (new_error ''root PM2 command rejected''), s)
      | Some f \<Rightarrow>
          if \<not> allowed_root_observation name args
          then (Inl (new_error ''root PM2 command rejected''), s)
          else (case run_cmd f ''sudo'' ([''-n'', name] @ args) c s of
            (r, s1) \<Rightarrow>
              (case cmd_err r of
                 None \<Rightarrow> (Inr (out r), s1)
               | Some e \<Rightarrow>
                   if name = ''pm2''
                   then (Inl (observation_command_error (ctx_err c (clock s1)) ''pm2-jlist''
                           ''sudo -n pm2 jlist'' (err_out r) e), s1)
                   else (Inl (observation_command_error (ctx_err c (clock s1)) ''socket-listeners''
                           ''sudo -n ss -H -ltnp'' (err_out r) e), s1))))"

definition valid_proc_path :: "string \<Rightarrow> bool" where
  "valid_proc_path path =
     (case split_char CHR ''/'' path of
        [p0, p1, p2, p3] \<Rightarrow>
          p0 = [] \<and> p1 = ''proc'' \<and> p2 \<noteq> [] \<and>
          (case atoi_ok p2 of
             None \<Rightarrow> False
           | Some n \<Rightarrow> n > 0 \<and> itoa n = p2 \<and> (p3 = ''cwd'' \<or> p3 = ''exe'' \<or> p3 = ''stat''))
      | _ \<Rightarrow> False)"

text \<open>\<open>strconv.Atoi(strings.Split(path, "/")[2])\<close>, its error dropped.\<close>

definition path_pid :: "string \<Rightarrow> int" where
  "path_pid path = fst (atoi (split_char CHR ''/'' path ! 2))"

text \<open>\<open>RootPM2Boundary.read\<close>, one privileged read below \<open>/proc\<close>.\<close>

definition boundary_read1 ::
  "'w runner \<Rightarrow> string \<Rightarrow> string \<Rightarrow> string \<Rightarrow> ('w, cmd_event, obs_error + string) effect" where
  "boundary_read1 f operation executable path c s =
     (if \<not> valid_proc_path path \<or> executable \<noteq> ''readlink'' \<and> executable \<noteq> ''cat''
         \<or> executable = ''cat'' \<and> \<not> suffix ''/stat'' path
      then (Inl (new_error ''root proc read rejected''), s)
      else case run_cmd f ''sudo'' [''-n'', executable, path] c s of
        (r, s1) \<Rightarrow>
          (case cmd_err r of
             Some e \<Rightarrow>
               (Inl (observation_command_error (ctx_err c (clock s1)) operation
                      (proc_observation_command operation (path_pid path)) (err_out r) e), s1)
           | None \<Rightarrow>
               if length (out r) > default_proc_stat_limit
               then (Inl (observation_output_error operation
                      (proc_observation_command operation (path_pid path)) ''output-too-large''), s1)
               else (Inr (trim_space (out r)), s1)))"

definition parse_proc_start_ticks :: "string \<Rightarrow> string + nat" where
  "parse_proc_start_ticks data =
     (case cut_last CHR '')'' data of
        None \<Rightarrow> Inl ''proc stat is invalid''
      | Some (_, rest) \<Rightarrow>
          let fs = str_fields rest in
          if length fs \<le> 19 \<or> length (fs ! 0) \<noteq> 1 \<or> hd (fs ! 0) \<notin> set ''RSDZTWtXxKPI''
          then Inl ''proc stat is incomplete''
          else (case parse_uint 64 (fs ! 19) of
                  None \<Rightarrow> Inl ''proc start ticks are invalid''
                | Some ticks \<Rightarrow>
                    if ticks = 0 then Inl ''proc start ticks are invalid'' else Inr ticks))"

text \<open>\<open>RootPM2Boundary.Read\<close>: the three reads of one process identity, in order.\<close>

definition boundary_read_stat ::
  "'w runner \<Rightarrow> int \<Rightarrow> string \<Rightarrow> string \<Rightarrow> ('w, cmd_event, obs_error + proc_identity) effect" where
  "boundary_read_stat f pid cwd exe c s =
     (case boundary_read1 f ''proc-stat'' ''cat'' (''/proc/'' @ itoa pid @ ''/'' @ ''stat'') c s of
        (Inl e, s1) \<Rightarrow> (Inl (wrap_observation_unavailable ''proc stat is unavailable'' e), s1)
      | (Inr stat, s1) \<Rightarrow>
          if length stat > default_proc_stat_limit
          then (Inl (wrap_observation_unavailable ''proc stat is unavailable''
                  (observation_output_error ''proc-stat''
                    (proc_observation_command ''proc-stat'' pid) ''output-too-large'')), s1)
          else (case parse_proc_start_ticks stat of
                  Inl _ \<Rightarrow> (Inl (wrap_observation_unavailable ''proc stat is unavailable''
                    (observation_output_error ''proc-stat''
                      (proc_observation_command ''proc-stat'' pid) ''output-invalid'')), s1)
                | Inr ticks \<Rightarrow>
                    (Inr \<lparr>proc_cwd = path_clean cwd, proc_exec = path_clean exe, proc_ticks = ticks\<rparr>, s1)))"

text \<open>One of the two link reads: a privileged \<open>readlink\<close> that must give an absolute path.\<close>

definition boundary_read_link ::
  "'w runner \<Rightarrow> string \<Rightarrow> string \<Rightarrow> string \<Rightarrow> int \<Rightarrow> ('w, cmd_event, obs_error + string) effect" where
  "boundary_read_link f operation msg file pid c s =
     (case boundary_read1 f operation ''readlink'' (''/proc/'' @ itoa pid @ ''/'' @ file) c s of
        (Inl e, s1) \<Rightarrow> (Inl (wrap_observation_unavailable msg e), s1)
      | (Inr target, s1) \<Rightarrow>
          if \<not> is_abs target
          then (Inl (wrap_observation_unavailable msg
                  (observation_output_error operation
                    (proc_observation_command operation pid) ''output-invalid'')), s1)
          else (Inr target, s1))"

definition boundary_read ::
  "'w runner option \<Rightarrow> int \<Rightarrow> ('w, cmd_event, obs_error + proc_identity) effect" where
  "boundary_read b pid c s =
     (if pid \<le> 0 then (Inl (new_error ''root proc read rejected''), s)
      else case b of
        None \<Rightarrow> (Inl (new_error ''root proc read rejected''), s)
      | Some f \<Rightarrow>
          (case boundary_read_link f ''proc-cwd'' ''proc cwd is unavailable'' ''cwd'' pid c s of
             (Inl e, s1) \<Rightarrow> (Inl e, s1)
           | (Inr cwd, s1) \<Rightarrow>
               (case boundary_read_link f ''proc-exe'' ''proc executable is unavailable'' ''exe'' pid c s1 of
                  (Inl e, s2) \<Rightarrow> (Inl e, s2)
                | (Inr exe, s2) \<Rightarrow> boundary_read_stat f pid cwd exe c s2)))"

section \<open>Command runners of the migration\<close>

text \<open>
  A \<open>CommandRunner\<close> is either the privileged boundary or any other runner; the controller
  tells them apart by a type assertion.
\<close>

datatype 'w pm2_runner = RootBoundary "'w runner option" | PlainRunner "'w runner"

definition runner_run ::
  "'w pm2_runner \<Rightarrow> string \<Rightarrow> string list \<Rightarrow> ('w, cmd_event, obs_error + string) effect" where
  "runner_run q name args c s =
     (case q of
        RootBoundary b \<Rightarrow> boundary_run b name args c s
      | PlainRunner f \<Rightarrow>
          (case run_cmd f name args c s of
             (r, s1) \<Rightarrow>
               (case cmd_err r of
                  None \<Rightarrow> (Inr (out r), s1)
                | Some e \<Rightarrow> (Inl \<lparr>obs_msg = err_text e, obs_diag = None, obs_ctx = ctx_cause e\<rparr>, s1))))"

section \<open>Acquiring the inventory and the sockets\<close>

definition default_pm2_acquisition_timeout :: nat where
  "default_pm2_acquisition_timeout = 5 * second"

definition acquisition_output_limit :: "int \<Rightarrow> nat" where
  "acquisition_output_limit limit = (if limit > 0 then nat limit else 64 * 1024)"

definition acquisition_timeout :: "int \<Rightarrow> nat" where
  "acquisition_timeout t = (if t \<le> 0 then default_pm2_acquisition_timeout else nat t)"

definition acquisition_context_error :: "ctx_error option \<Rightarrow> string \<Rightarrow> obs_error option" where
  "acquisition_context_error ce subject =
     (case ce of
        Some Canceled \<Rightarrow> Some (new_error (subject @ '' cancelled''))
      | Some DeadlineExceeded \<Rightarrow> Some (new_error (subject @ '' timed out''))
      | None \<Rightarrow> None)"

text \<open>\<open>LinuxPM2Inventory.Snapshot\<close>.\<close>

definition inventory_snapshot ::
  "(string \<Rightarrow> pm2_json list option) \<Rightarrow> 'w pm2_runner option \<Rightarrow> int \<Rightarrow> int \<Rightarrow>
   ('w, cmd_event, obs_error + pm2_record list) effect" where
  "inventory_snapshot unmarshal q timeout max_output c s =
     (case q of
        None \<Rightarrow> (Inl (new_error ''pm2 inventory unavailable''), s)
      | Some r \<Rightarrow>
          (case acquisition_context_error (ctx_err c (clock s)) ''pm2 inventory'' of
             Some e \<Rightarrow> (Inl e, s)
           | None \<Rightarrow>
               let cc = with_timeout c (clock s) (acquisition_timeout timeout) in
               (case runner_run r ''pm2'' [''jlist''] cc s of
                  (Inl err, s1) \<Rightarrow>
                    (case acquisition_context_error (ctx_err cc (clock s1)) ''pm2 inventory'' of
                       Some e \<Rightarrow> (Inl (wrap_observation_unavailable (obs_msg e) err), s1)
                     | None \<Rightarrow> (Inl (wrap_observation_unavailable ''pm2 inventory command failed'' err), s1))
                | (Inr stdout, s1) \<Rightarrow>
                    (case acquisition_context_error (ctx_err cc (clock s1)) ''pm2 inventory'' of
                       Some e \<Rightarrow> (Inl e, s1)
                     | None \<Rightarrow>
                         if length stdout > acquisition_output_limit max_output
                         then (Inl (wrap_observation_unavailable ''pm2 inventory output exceeded limit''
                                (observation_output_error ''pm2-jlist'' ''sudo -n pm2 jlist'' ''output-too-large'')), s1)
                         else (case parse_pm2_inventory unmarshal stdout of
                                 Inl _ \<Rightarrow> (Inl (wrap_observation_unavailable ''pm2 inventory output is invalid''
                                   (observation_output_error ''pm2-jlist'' ''sudo -n pm2 jlist'' ''output-invalid'')), s1)
                               | Inr records \<Rightarrow> (Inr records, s1))))))"

section \<open>Socket ownership\<close>

definition migration_ports :: "nat list" where
  "migration_ports = [4550, 8080, 9090]"

definition after_last_colon :: "string \<Rightarrow> string" where
  "after_last_colon field = (case cut_last CHR '':'' field of None \<Rightarrow> field | Some (_, b) \<Rightarrow> b)"

definition mentions_migration_port :: "string \<Rightarrow> bool" where
  "mentions_migration_port value \<longleftrightarrow>
     list_ex (\<lambda>field.
       list_ex (\<lambda>port.
         let approved = dec_of_nat port; candidate = after_last_colon field in
         prefix approved candidate \<and>
         (length candidate = length approved \<or> \<not> is_digit (candidate ! length approved)))
       migration_ports) (str_fields value)"

fun after_str :: "string \<Rightarrow> string \<Rightarrow> string option" where
  "after_str sub [] = None"
| "after_str sub (c # cs) =
     (if prefix sub (c # cs) then Some (drop (length sub) (c # cs)) else after_str sub cs)"

text \<open>The match of \<open>pid=([0-9]+),\<close> in a line with one occurrence of \<open>pid=\<close>.\<close>

definition socket_pid :: "string \<Rightarrow> string option" where
  "socket_pid line =
     (case after_str ''pid='' line of
        None \<Rightarrow> None
      | Some rest \<Rightarrow>
          let ds = takeWhile is_digit rest in
          if ds \<noteq> [] \<and> prefix '','' (drop (length ds) rest) then Some ds else None)"

text \<open>
  One line of \<open>ss -H -ltnp\<close>: an error, a line about no migration port, or an owner.
\<close>

definition socket_line :: "string \<Rightarrow> string + socket_owner option" where
  "socket_line line =
     (let fs = str_fields line in
      if length fs < 4 then
        (if mentions_migration_port line then Inl ''socket snapshot is invalid'' else Inr None)
      else case cut_last CHR '':'' (fs ! 3) of
        None \<Rightarrow> if mentions_migration_port line then Inl ''socket snapshot is invalid'' else Inr None
      | Some (_, port_text) \<Rightarrow>
          (case parse_uint 16 port_text of
             None \<Rightarrow> if mentions_migration_port (fs ! 3) then Inl ''socket snapshot is invalid'' else Inr None
           | Some port \<Rightarrow>
               if port \<notin> set migration_ports then Inr None
               else if fs ! 0 \<noteq> ''LISTEN'' \<or> port = 0 \<or> dec_of_nat port \<noteq> port_text \<or> count_str ''pid='' line \<noteq> 1
               then Inl ''socket ownership is ambiguous''
               else (case socket_pid line of
                       None \<Rightarrow> Inl ''socket snapshot is invalid''
                     | Some pid_text \<Rightarrow>
                         (case atoi_ok pid_text of
                            None \<Rightarrow> Inl ''socket owner is invalid''
                          | Some pid \<Rightarrow>
                              if pid \<le> 0 \<or> itoa pid \<noteq> pid_text then Inl ''socket owner is invalid''
                              else Inr (Some \<lparr>so_pid = pid, so_port = port\<rparr>)))))"

fun socket_lines :: "(nat \<rightharpoonup> int) \<Rightarrow> socket_owner list \<Rightarrow> string list \<Rightarrow> string + socket_owner list" where
  "socket_lines ports owners [] = Inr owners"
| "socket_lines ports owners (line # lines) =
     (case socket_line line of
        Inl e \<Rightarrow> Inl e
      | Inr None \<Rightarrow> socket_lines ports owners lines
      | Inr (Some owner) \<Rightarrow>
          if (case ports (so_port owner) of Some existing \<Rightarrow> existing \<noteq> so_pid owner | None \<Rightarrow> False)
          then Inl ''socket ownership is ambiguous''
          else socket_lines (ports(so_port owner \<mapsto> so_pid owner))
                 (if owner \<in> set owners then owners else owners @ [owner]) lines)"

definition parse_socket_snapshot :: "string \<Rightarrow> string + socket_owner list" where
  "parse_socket_snapshot data =
     (let trimmed = trim_space data in
      if trimmed = [] then Inr []
      else socket_lines Map.empty [] (split_char CHR 0x0A trimmed))"

text \<open>\<open>LinuxSocketSnapshot.Snapshot\<close>.\<close>

definition socket_snapshot ::
  "'w pm2_runner option \<Rightarrow> int \<Rightarrow> int \<Rightarrow> ('w, cmd_event, obs_error + socket_owner list) effect" where
  "socket_snapshot q timeout max_output c s =
     (case q of
        None \<Rightarrow> (Inl (new_error ''socket snapshot unavailable''), s)
      | Some r \<Rightarrow>
          (case acquisition_context_error (ctx_err c (clock s)) ''socket snapshot'' of
             Some e \<Rightarrow> (Inl e, s)
           | None \<Rightarrow>
               let cc = with_timeout c (clock s) (acquisition_timeout timeout) in
               (case runner_run r ''ss'' [''-H'', ''-ltnp''] cc s of
                  (Inl err, s1) \<Rightarrow>
                    (case acquisition_context_error (ctx_err cc (clock s1)) ''socket snapshot'' of
                       Some e \<Rightarrow> (Inl (wrap_observation_unavailable (obs_msg e) err), s1)
                     | None \<Rightarrow> (Inl (wrap_observation_unavailable ''socket snapshot command failed'' err), s1))
                | (Inr stdout, s1) \<Rightarrow>
                    (case acquisition_context_error (ctx_err cc (clock s1)) ''socket snapshot'' of
                       Some e \<Rightarrow> (Inl e, s1)
                     | None \<Rightarrow>
                         if length stdout > acquisition_output_limit max_output
                         then (Inl (wrap_observation_unavailable ''socket snapshot output exceeded limit''
                                (observation_output_error ''socket-listeners'' ''sudo -n ss -H -ltnp'' ''output-too-large'')), s1)
                         else (case parse_socket_snapshot stdout of
                                 Inl _ \<Rightarrow> (Inl (wrap_observation_unavailable ''socket snapshot output is invalid''
                                   (observation_output_error ''socket-listeners'' ''sudo -n ss -H -ltnp'' ''output-invalid'')), s1)
                               | Inr owners \<Rightarrow> (Inr owners, s1))))))"

section \<open>The composed snapshot\<close>

record pm2_snapshot =
  records :: "pm2_record list"
  sockets :: "socket_owner list"
  procs :: "int \<rightharpoonup> proc_identity"

text \<open>The three interfaces of \<open>LinuxPM2SnapshotProvider\<close>; \<open>None\<close> when nil.\<close>

record 'w snapshot_parts =
  inventory :: "('w, cmd_event, obs_error + pm2_record list) effect option"
  socket_source :: "('w, cmd_event, obs_error + socket_owner list) effect option"
  proc_reader :: "(int \<Rightarrow> ('w, cmd_event, obs_error + proc_identity) effect) option"

text \<open>
  The checks of one record in the loop of \<open>Snapshot\<close>, before its identity is read: an
  error, or whether the record is online and has an identity to read.
\<close>

definition check_record ::
  "int set \<Rightarrow> (int \<rightharpoonup> proc_identity) \<Rightarrow> pm2_record \<Rightarrow> obs_error + bool" where
  "check_record seen proc r =
     (if rec_id r < 0 \<or> rec_cwd r = [] \<or> rec_exec r = [] \<or> rec_name r = [] \<or> rec_id r \<in> seen
      then Inl (observation_output_error ''snapshot-validation'' [] ''pm2-record-incomplete'')
      else if rec_status r = ''stopped'' then
        (if rec_pid r \<noteq> 0
         then Inl (observation_output_error ''snapshot-validation'' [] ''pm2-record-incomplete'')
         else Inr False)
      else if rec_status r \<noteq> ''online'' \<or> rec_pid r \<le> 0
      then Inl (observation_output_error ''snapshot-validation'' [] ''pm2-record-incomplete'')
      else if proc (rec_pid r) \<noteq> None
      then Inl (observation_output_error ''snapshot-validation'' [] ''pm2-identity-ambiguous'')
      else Inr True)"

definition check_identity :: "pm2_record \<Rightarrow> proc_identity \<Rightarrow> obs_error option" where
  "check_identity r p =
     (if proc_cwd p = [] \<or> proc_exec p = [] \<or> proc_ticks p = 0
      then Some (observation_output_error ''snapshot-validation'' [] ''proc-identity-incomplete'')
      else if \<not> same_path (rec_cwd r) (proc_cwd p)
      then Some (observation_output_error ''snapshot-validation'' [] ''pm2-proc-identity-mismatch'')
      else None)"

text \<open>The loop over the records: read and check the identity of every online one.\<close>

fun read_identities ::
  "(int \<Rightarrow> ('w, cmd_event, obs_error + proc_identity) effect) \<Rightarrow> int set \<Rightarrow>
   (int \<rightharpoonup> proc_identity) \<Rightarrow> pm2_record list \<Rightarrow>
   ('w, cmd_event, obs_error + (int \<rightharpoonup> proc_identity)) effect" where
  "read_identities rd seen proc [] c s = (Inr proc, s)"
| "read_identities rd seen proc (r # rs) c s =
     (case ctx_err c (clock s) of
        Some e \<Rightarrow> (Inl (ctx_error_value e), s)
      | None \<Rightarrow>
          (case check_record seen proc r of
             Inl e \<Rightarrow> (Inl e, s)
           | Inr False \<Rightarrow> read_identities rd (insert (rec_id r) seen) proc rs c s
           | Inr True \<Rightarrow>
               (case rd (rec_pid r) c s of
                  (Inl e, s1) \<Rightarrow> (Inl (wrap_errorf ''proc identity is unavailable'' e), s1)
                | (Inr p, s1) \<Rightarrow>
                    (case check_identity r p of
                       Some e \<Rightarrow> (Inl e, s1)
                     | None \<Rightarrow>
                         read_identities rd (insert (rec_id r) seen) (proc(rec_pid r \<mapsto> p)) rs c s1))))"

definition compose_snapshot ::
  "'w snapshot_parts \<Rightarrow> ('w, cmd_event, obs_error + pm2_snapshot) effect" where
  "compose_snapshot p c s =
     (case ctx_err c (clock s) of
        Some e \<Rightarrow> (Inl (ctx_error_value e), s)
      | None \<Rightarrow>
          (case (inventory p, socket_source p, proc_reader p) of
             (Some isnap, Some sock, Some rd) \<Rightarrow>
               (case isnap c s of
                  (Inl e, s1) \<Rightarrow> (Inl (wrap_errorf ''pm2 inventory is unavailable'' e), s1)
                | (Inr rs, s1) \<Rightarrow>
                    (case ctx_err c (clock s1) of
                       Some e \<Rightarrow> (Inl (ctx_error_value e), s1)
                     | None \<Rightarrow>
                         (case sock c s1 of
                            (Inl e, s2) \<Rightarrow> (Inl (wrap_errorf ''socket ownership is unavailable'' e), s2)
                          | (Inr ss, s2) \<Rightarrow>
                              (case read_identities rd {} Map.empty rs c s2 of
                                 (Inl e, s3) \<Rightarrow> (Inl e, s3)
                               | (Inr proc, s3) \<Rightarrow>
                                   (case ctx_err c (clock s3) of
                                      Some e \<Rightarrow> (Inl (ctx_error_value e), s3)
                                    | None \<Rightarrow>
                                        (Inr \<lparr>records = rs, sockets = ss, procs = proc\<rparr>, s3))))))
           | _ \<Rightarrow> (Inl (new_error ''pm2 snapshot provider is incomplete''), s)))"

end
