(* ===== verification/Pm2Snapshot.thy ===== *)
theory Pm2Snapshot
  imports Pm2Observe
begin

text \<open>
  The contract of \<open>PM2SnapshotProvider\<close>, as the locale the quiescer's lemmas rest on, and
  its proof for the snapshot that \<open>cmd/installer/main.go\<close> wires over the privileged
  boundary: taking a snapshot runs allowlisted read-only commands only, and a successful
  one has distinct PM2 IDs.
\<close>

section \<open>Read-only commands\<close>

text \<open>The argument vectors that observe the host and change nothing.\<close>

definition observation_argv :: "string list \<Rightarrow> bool" where
  "observation_argv av \<longleftrightarrow>
     av \<in> {[''sudo'', ''-n'', ''pm2'', ''jlist''], [''sudo'', ''-n'', ''ss'', ''-H'', ''-ltnp'']} \<or>
     (\<exists>path. valid_proc_path path \<and>
        (av = [''sudo'', ''-n'', ''readlink'', path] \<or>
         av = [''sudo'', ''-n'', ''cat'', path] \<and> suffix ''/stat'' path))"

abbreviation is_observation :: "cmd_event \<Rightarrow> bool" where
  "is_observation e \<equiv> observation_argv (argv e)"

definition observes :: "('w, cmd_event) sys \<Rightarrow> ('w, cmd_event) sys \<Rightarrow> bool" where
  "observes s s' \<longleftrightarrow> (\<exists>es. grew s s' es \<and> list_all is_observation es)"

lemma observes_refl [simp]: "observes s s"
  unfolding observes_def by (rule exI [of _ "[]"]) simp

lemma observes_trans: "observes s s' \<Longrightarrow> observes s' s'' \<Longrightarrow> observes s s''"
  unfolding observes_def by (metis grew_trans list_all_append)

lemma observes_clock: "observes s s' \<Longrightarrow> clock s \<le> clock s'"
  by (auto simp: observes_def grew_def)

lemma run_cmd_observes:
  "run_cmd f name args c s = (r, s') \<Longrightarrow> observation_argv (name # args) \<Longrightarrow> observes s s'"
  unfolding observes_def using run_cmd_grew by fastforce

locale snapshot_provider =
  fixes snap :: "('w, cmd_event, obs_error + pm2_snapshot) effect"
  assumes reads: "snap c s = (r, s') \<Longrightarrow> observes s s'"
    and distinct_ids: "snap c s = (Inr sn, s') \<Longrightarrow> distinct (map rec_id (records sn))"
begin

lemma clock_mono: "snap c s = (r, s') \<Longrightarrow> clock s \<le> clock s'"
  using reads observes_clock by blast

lemma correlated_distinct:
  "snap c s = (Inr sn, s') \<Longrightarrow> correlate_pm2 (records sn) (sockets sn) (procs sn) = Inr ids \<Longrightarrow>
   distinct (map pmid ids)"
  using distinct_ids correlate_pm2_distinct by blast

lemma correlated_complete:
  "snap c s = (Inr sn, s') \<Longrightarrow> correlate_pm2 (records sn) (sockets sn) (procs sn) = Inr ids \<Longrightarrow>
   list_all complete_identity ids"
  using correlate_pm2_qualified correlate_pm2_sockets qualified_complete by (fastforce simp: list_all_iff)

end

section \<open>The privileged boundary only observes\<close>

lemma boundary_run_observes:
  "boundary_run b name args c s = (r, s') \<Longrightarrow> observes s s'"
  unfolding boundary_run_def
  by (auto split: option.splits prod.splits if_splits
      elim!: run_cmd_observes simp: observation_argv_def allowed_root_observation_def)

lemma boundary_read1_observes:
  "boundary_read1 f operation executable path c s = (r, s') \<Longrightarrow> observes s s'"
  unfolding boundary_read1_def
  by (auto split: option.splits prod.splits if_splits elim!: run_cmd_observes simp: observation_argv_def)

lemma boundary_read_link_observes:
  "boundary_read_link f operation msg file pid c s = (r, s') \<Longrightarrow> observes s s'"
  unfolding boundary_read_link_def
  by (auto split: prod.splits sum.splits if_splits dest: boundary_read1_observes)

lemma boundary_read_stat_observes:
  "boundary_read_stat f pid cwd exe c s = (r, s') \<Longrightarrow> observes s s'"
  unfolding boundary_read_stat_def
  by (auto split: prod.splits sum.splits if_splits dest: boundary_read1_observes)

lemma boundary_read_observes: "boundary_read b pid c s = (r, s') \<Longrightarrow> observes s s'"
  unfolding boundary_read_def
  by (auto split: option.splits prod.splits sum.splits if_splits
      dest!: boundary_read_link_observes boundary_read_stat_observes intro: observes_trans)

lemma inventory_snapshot_observes:
  "inventory_snapshot um (Some (RootBoundary b)) t m c s = (r, s') \<Longrightarrow> observes s s'"
  unfolding inventory_snapshot_def runner_run_def Let_def
  by (auto split: option.splits prod.splits sum.splits if_splits dest: boundary_run_observes)

lemma socket_snapshot_observes:
  "socket_snapshot (Some (RootBoundary b)) t m c s = (r, s') \<Longrightarrow> observes s s'"
  unfolding socket_snapshot_def runner_run_def Let_def
  by (auto split: option.splits prod.splits sum.splits if_splits dest: boundary_run_observes)

lemma read_identities_observes:
  assumes "\<And>pid c s r s'. rd pid c s = (r, s') \<Longrightarrow> observes s s'"
  shows "read_identities rd seen proc rs c s = (r, s') \<Longrightarrow> observes s s'"
proof (induction rs arbitrary: seen proc s)
  case (Cons x rs)
  from Cons.prems show ?case
    by (auto split: option.splits if_splits prod.splits sum.splits bool.splits
        dest!: Cons.IH assms intro: observes_trans)
qed simp

lemma check_record_new: "check_record seen proc r = Inr b \<Longrightarrow> rec_id r \<notin> seen"
  by (auto simp: check_record_def split: if_splits)

lemma read_identities_ids:
  "read_identities rd seen proc rs c s = (Inr proc', s') \<Longrightarrow>
   distinct (map rec_id rs) \<and> rec_id ` set rs \<inter> seen = {}"
proof (induction rs arbitrary: seen proc s)
  case (Cons x rs)
  obtain proc1 s1 where
    rest: "read_identities rd (insert (rec_id x) seen) proc1 rs c s1 = (Inr proc', s')"
    and new: "rec_id x \<notin> seen"
    using Cons.prems
    by (auto split: option.splits prod.splits sum.splits bool.splits dest: check_record_new)
  from Cons.IH [OF rest] new show ?case by auto
qed simp

text \<open>
  The identities read are those of the online records, each confirmed by \<open>/proc\<close> to run
  in the directory PM2 reports.
\<close>

lemma read_identities_procs:
  "read_identities rd seen proc rs c s = (Inr proc', s') \<Longrightarrow> r \<in> set rs \<Longrightarrow> rec_status r = ''online'' \<Longrightarrow>
   \<exists>p. proc' (rec_pid r) = Some p \<and> check_identity r p = None"
proof (induction rs arbitrary: seen proc s)
  case (Cons x rs)
  have keep: "proc1 pid = Some p \<Longrightarrow> read_identities rd sn proc1 ys c s1 = (Inr proc', s') \<Longrightarrow>
      proc' pid = Some p" for proc1 pid p sn ys s1
  proof (induction ys arbitrary: sn proc1 s1)
    case (Cons y ys)
    from Cons.prems show ?case
      by (auto split: option.splits prod.splits sum.splits bool.splits if_splits
          simp: check_record_def dest!: Cons.IH [rotated])
  qed simp
  show ?case
  proof (cases "r = x")
    case True
    with Cons.prems show ?thesis
      by (auto split: option.splits prod.splits sum.splits bool.splits if_splits
          simp: check_record_def dest: keep [rotated])
  next
    case False
    with Cons.prems Cons.IH show ?thesis
      by (auto split: option.splits prod.splits sum.splits bool.splits)
  qed
qed simp

lemma compose_snapshot_observes:
  assumes "\<And>m c s r s'. inventory p = Some m \<Longrightarrow> m c s = (r, s') \<Longrightarrow> observes s s'"
    and "\<And>m c s r s'. socket_source p = Some m \<Longrightarrow> m c s = (r, s') \<Longrightarrow> observes s s'"
    and "\<And>m pid c s r s'. proc_reader p = Some m \<Longrightarrow> m pid c s = (r, s') \<Longrightarrow> observes s s'"
    and snap: "compose_snapshot p c s = (r, s')"
  shows "observes s s'"
proof -
  have rd: "proc_reader p = Some rd \<Longrightarrow> read_identities rd seen proc rs c s = (r, s') \<Longrightarrow> observes s s'"
    for rd seen proc rs c s r s'
    by (rule read_identities_observes) (rule assms(3))
  from snap show ?thesis
    unfolding compose_snapshot_def
    by (auto split: option.splits prod.splits sum.splits
        dest!: assms(1,2) rd [rotated] intro: observes_trans)
qed

lemma compose_snapshot_parts:
  fixes s :: "('w, cmd_event) sys"
  shows "compose_snapshot p c s = (Inr sn, s') \<Longrightarrow>
   \<exists>rd (s2 :: ('w, cmd_event) sys) s3. read_identities rd {} Map.empty (records sn) c s2 = (Inr (procs sn), s3)"
  unfolding compose_snapshot_def
  by (auto split: option.splits prod.splits sum.splits) ((rule exI)+, assumption)

section \<open>The production provider satisfies the contract\<close>

text \<open>The wiring of \<open>buildDependencies\<close>: every part reads through one privileged boundary.\<close>

definition production_parts ::
  "(string \<Rightarrow> pm2_json list option) \<Rightarrow> 'w runner option \<Rightarrow> 'w snapshot_parts" where
  "production_parts unmarshal b =
     \<lparr>inventory = Some (inventory_snapshot unmarshal (Some (RootBoundary b)) 0 0),
      socket_source = Some (socket_snapshot (Some (RootBoundary b)) 0 0),
      proc_reader = Some (boundary_read b)\<rparr>"

definition production_snapshot ::
  "(string \<Rightarrow> pm2_json list option) \<Rightarrow> 'w runner option \<Rightarrow>
   ('w, cmd_event, obs_error + pm2_snapshot) effect" where
  "production_snapshot unmarshal b = compose_snapshot (production_parts unmarshal b)"

interpretation production: snapshot_provider "production_snapshot unmarshal b"
  for unmarshal :: "string \<Rightarrow> pm2_json list option" and b :: "'w runner option"
proof
  show "observes s s'" if "production_snapshot unmarshal b c s = (r, s')" for c s r s'
    using that unfolding production_snapshot_def
    by (rule compose_snapshot_observes [rotated 3])
       (auto simp: production_parts_def
          dest: inventory_snapshot_observes socket_snapshot_observes boundary_read_observes)
  show "distinct (map rec_id (records sn))"
    if "production_snapshot unmarshal b c s = (Inr sn, s')" for c s sn s'
    using compose_snapshot_parts [OF that [unfolded production_snapshot_def]] read_identities_ids
    by blast
qed

end
