(* ===== verification/Pm2Quiescence.thy ===== *)
theory Pm2Quiescence
  imports Pm2Snapshot
begin

text \<open>
  \<open>internal/installation/pm2_quiescence.go\<close>, second half: \<open>PM2Quiescer.Quiesce\<close> stops
  the correlated legacy processes one by one, proving after each stop that the process is
  gone and its port released; \<open>PM2Quiescer.Recover\<close> starts again what was stopped, in
  reverse order, proving each restart.  The proof loops poll until the proof deadline;
  their time is the clock of the threaded state, which gives the termination measure.
\<close>

section \<open>State\<close>

record 'w quiescer =
  snapshots :: "('w, cmd_event, obs_error + pm2_snapshot) effect option"
  controller :: "'w pm2_runner option"
  stop_proof_timeout :: int
  stop_proof_interval :: int

record stopped_evidence =
  ev_pmid :: int
  ev_pid :: int
  ev_port :: nat
  ev_ticks :: nat
  stop_command_succeeded :: bool
  stop_verified :: bool

record quiescence =
  processes :: "pm2_identity list"
  evidence :: "stopped_evidence list"
  noop_verified :: bool

record recovery =
  attempted :: nat
  recovered :: nat
  verified :: bool
  rec_code :: string
  rec_diag :: "diagnostic option"

record quiescence_error =
  q_code :: string
  q_diag :: "diagnostic option"

definition no_quiescence :: quiescence where
  "no_quiescence = \<lparr>processes = [], evidence = [], noop_verified = False\<rparr>"

section \<open>The controller\<close>

text \<open>\<open>RootPM2Boundary.mutate\<close>: the one privileged command that changes a PM2 process.\<close>

definition boundary_mutate ::
  "'w runner option \<Rightarrow> string \<Rightarrow> pm2_identity \<Rightarrow> ('w, cmd_event, cmd_error option) effect" where
  "boundary_mutate b action i c s =
     (case b of
        None \<Rightarrow> (Some (plain_error ''root PM2 mutation rejected''), s)
      | Some f \<Rightarrow>
          if action \<noteq> ''stop'' \<and> action \<noteq> ''start'' \<or> pmid i < 0 \<or> ident_pid i \<le> 0 \<or> ident_port i = 0
             \<or> start_ticks i = 0 \<or> ident_cwd i = [] \<or> ident_exec i = [] \<or> runtime_exec i = []
          then (Some (plain_error ''root PM2 mutation rejected''), s)
          else (case run_cmd f ''sudo'' [''-n'', ''pm2'', action, itoa (pmid i)] c s of
                  (r, s1) \<Rightarrow> (cmd_err r, s1)))"

definition controller_stop ::
  "'w pm2_runner option \<Rightarrow> pm2_identity \<Rightarrow> ('w, cmd_event, cmd_error option) effect" where
  "controller_stop q i c s =
     (case q of
        None \<Rightarrow> (Some (plain_error ''pm2 stop target is invalid''), s)
      | Some r \<Rightarrow>
          if pmid i < 0 then (Some (plain_error ''pm2 stop target is invalid''), s)
          else (case r of
            RootBoundary b \<Rightarrow> boundary_mutate b ''stop'' i c s
          | PlainRunner f \<Rightarrow>
              (case run_cmd f ''pm2'' [''stop'', itoa (pmid i)] c s of
                 (res, s1) \<Rightarrow> (map_option (\<lambda>_. plain_error ''pm2 stop failed'') (cmd_err res), s1))))"

definition controller_start ::
  "'w pm2_runner option \<Rightarrow> pm2_identity \<Rightarrow> ('w, cmd_event, cmd_error option) effect" where
  "controller_start q i c s =
     (case q of
        None \<Rightarrow> (Some (plain_error ''pm2 recovery target is invalid''), s)
      | Some r \<Rightarrow>
          if pmid i < 0 then (Some (plain_error ''pm2 recovery target is invalid''), s)
          else (case r of
            RootBoundary b \<Rightarrow> boundary_mutate b ''start'' i c s
          | PlainRunner f \<Rightarrow>
              (case run_cmd f ''pm2'' [''start'', itoa (pmid i)] c s of
                 (res, s1) \<Rightarrow>
                   (map_option (\<lambda>_. plain_error ''pm2 recovery command failed'') (cmd_err res), s1))))"

section \<open>What a snapshot proves\<close>

definition stopped_and_released1 :: "pm2_snapshot \<Rightarrow> pm2_identity \<Rightarrow> bool" where
  "stopped_and_released1 sn t \<longleftrightarrow>
     (case filter (\<lambda>r. rec_id r = pmid t) (records sn) of
        [r] \<Rightarrow> rec_status r = ''stopped'' \<and> rec_pid r = 0 \<and>
               same_path (rec_cwd r) (ident_cwd t) \<and> same_path (rec_exec r) (ident_exec t)
      | _ \<Rightarrow> False) \<and>
     \<not> list_ex (\<lambda>k. so_port k = ident_port t) (sockets sn)"

definition stopped_and_released :: "pm2_snapshot \<Rightarrow> pm2_identity list \<Rightarrow> bool" where
  "stopped_and_released sn ts \<longleftrightarrow> list_all (stopped_and_released1 sn) ts"

definition exact_recovery_record :: "pm2_record list \<Rightarrow> pm2_identity \<Rightarrow> pm2_record option" where
  "exact_recovery_record rs t =
     (case filter (\<lambda>r. rec_id r = pmid t) rs of
        [r] \<Rightarrow>
          if rec_name r \<noteq> ident_name t \<or> \<not> same_path (rec_cwd r) (ident_cwd t)
             \<or> \<not> same_path (rec_exec r) (ident_exec t)
          then None else Some r
      | _ \<Rightarrow> None)"

definition recovery_snapshot_proves :: "pm2_snapshot \<Rightarrow> pm2_identity \<Rightarrow> bool \<Rightarrow> bool" where
  "recovery_snapshot_proves sn t started \<longleftrightarrow>
     (case exact_recovery_record (records sn) t of
        None \<Rightarrow> False
      | Some r \<Rightarrow>
          let owners = filter (\<lambda>k. so_port k = ident_port t) (sockets sn) in
          list_all (\<lambda>k. so_pid k = rec_pid r) owners \<and>
          (if \<not> started then rec_status r = ''stopped'' \<and> owners = []
           else rec_status r = ''online'' \<and> rec_pid r > 0 \<and> rec_pid r \<noteq> ident_pid t \<and>
                length owners = 1 \<and>
                (case procs sn (rec_pid r) of
                   None \<Rightarrow> False
                 | Some p \<Rightarrow> proc_ticks p \<noteq> 0 \<and> proc_ticks p \<noteq> start_ticks t \<and>
                             proc_cwd p = ident_cwd t \<and> proc_exec p = runtime_exec t)))"

section \<open>Proof loops\<close>

definition proof_timeout :: "'w quiescer \<Rightarrow> nat" where
  "proof_timeout q =
     (if stop_proof_timeout q \<le> 0 then 10 * second else nat (stop_proof_timeout q))"

definition proof_interval :: "'w quiescer \<Rightarrow> nat" where
  "proof_interval q =
     (if stop_proof_interval q \<le> 0 then 100 * millisecond else nat (stop_proof_interval q))"

lemma proof_interval_pos: "0 < proof_interval q"
  by (simp add: proof_interval_def millisecond_def)

text \<open>
  \<open>PM2Quiescer.snapshot\<close>.  The clock of the result is never before the clock at the
  start, whatever the provider does.
\<close>

definition q_snapshot :: "'w quiescer \<Rightarrow> ('w, cmd_event, obs_error + pm2_snapshot) effect" where
  "q_snapshot q c s =
     (case (snapshots q, controller q) of
        (Some snap, Some _) \<Rightarrow>
          (case snap c s of (r, s1) \<Rightarrow> (r, s1\<lparr>clock := max (clock s) (clock s1)\<rparr>))
      | _ \<Rightarrow> (Inl (new_error ''pm2 quiescer is unavailable''), s))"

lemma q_snapshot_clock: "q_snapshot q c s = (r, s1) \<Longrightarrow> clock s \<le> clock s1"
  by (auto simp: q_snapshot_def split: option.splits prod.splits)

text \<open>Whether an observation error is a failure of its own or only shows the deadline.\<close>

definition observation_failure :: "string \<Rightarrow> bool \<Rightarrow> obs_error \<Rightarrow> diagnostic option" where
  "observation_failure stage ended e =
     (let d = with_observation_stage e stage;
          interrupted = (d_cause d = ''timeout'' \<or> d_cause d = ''cancelled'' \<or> obs_ctx e \<noteq> None)
      in if \<not> ended \<or> \<not> interrupted then Some d else None)"

text \<open>
  The common loop of \<open>waitForStoppedAndReleased\<close> and \<open>waitForRecoveryProof\<close>: \<open>None\<close> once
  a snapshot taken before the deadline \<open>pc\<close> satisfies \<open>ok\<close>, a diagnostic otherwise.  The
  second argument says whether the context is also tested at the top of the loop.  The
  \<open>select\<close> waits for the poll timer or the end of the proof context, whichever is first.
\<close>

function proof_poll ::
  "'w quiescer \<Rightarrow> bool \<Rightarrow> (pm2_snapshot \<Rightarrow> bool) \<Rightarrow> string \<Rightarrow> nat \<times> ctx_error \<Rightarrow>
   (ctx_error \<Rightarrow> diagnostic) \<Rightarrow> diagnostic option \<Rightarrow> ('w, cmd_event) sys \<Rightarrow>
   diagnostic option \<times> ('w, cmd_event) sys" where
  "proof_poll q check_first ok stage pc final failure s =
     (if check_first \<and> ctx_err (Some pc) (clock s) \<noteq> None then (Some (final (snd pc)), s)
      else case q_snapshot q (Some pc) s of
        (r, s1) \<Rightarrow>
          let ended = (ctx_err (Some pc) (clock s1) \<noteq> None) in
          if (case r of Inr sn \<Rightarrow> \<not> ended \<and> ok sn | Inl _ \<Rightarrow> False) then (None, s1)
          else
            let failure1 = (case (r, failure) of
                              (Inl e, None) \<Rightarrow> observation_failure stage ended e
                            | _ \<Rightarrow> failure) in
            if fst pc \<le> clock s1 + proof_interval q
            then (Some (case failure1 of Some d \<Rightarrow> d | None \<Rightarrow> final (snd pc)),
                  s1\<lparr>clock := max (clock s1) (fst pc)\<rparr>)
            else proof_poll q check_first ok stage pc final failure1
                   (s1\<lparr>clock := clock s1 + proof_interval q\<rparr>))"
  by pat_completeness auto
termination
proof (relation "measure (\<lambda>(q, cf, ok, stage, pc, final, failure, s). fst pc - clock s)", goal_cases)
  case 1
  show ?case by simp
next
  case prems: (2 q check_first ok stage pc final failure s r s1)
  from prems(2) have "clock s \<le> clock s1"
    by (metis q_snapshot_clock)
  with prems(6) proof_interval_pos [of q] show ?case
    by (simp add: diff_less_mono2)
qed

declare proof_poll.simps [simp del]

definition stop_proof_diagnostic :: "pm2_identity \<Rightarrow> ctx_error \<Rightarrow> diagnostic" where
  "stop_proof_diagnostic t e =
     no_diagnostic\<lparr>stop_timed_out := (e = DeadlineExceeded), stop_cancelled := (e \<noteq> DeadlineExceeded),
                   d_pmid := pmid t, d_port := ident_port t\<rparr>"

definition recovery_proof_diagnostic :: "pm2_identity \<Rightarrow> ctx_error \<Rightarrow> diagnostic" where
  "recovery_proof_diagnostic t e =
     no_diagnostic\<lparr>recovery_timed_out := (e = DeadlineExceeded),
                   recovery_cancelled := (e \<noteq> DeadlineExceeded),
                   d_pmid := pmid t, d_port := ident_port t\<rparr>"

definition wait_for_stopped_and_released ::
  "'w quiescer \<Rightarrow> pm2_identity \<Rightarrow> ('w, cmd_event, diagnostic option) effect" where
  "wait_for_stopped_and_released q t c s =
     proof_poll q False (\<lambda>sn. stopped_and_released sn [t]) ''stop-proof-snapshot''
       (with_timeout_at c (clock s) (proof_timeout q)) (stop_proof_diagnostic t) None s"

definition wait_for_recovery_proof ::
  "'w quiescer \<Rightarrow> pm2_identity \<Rightarrow> ('w, cmd_event, diagnostic option) effect" where
  "wait_for_recovery_proof q t c s =
     proof_poll q True (\<lambda>sn. recovery_snapshot_proves sn t True) ''recovery-proof-snapshot''
       (with_timeout_at c (clock s) (proof_timeout q)) (recovery_proof_diagnostic t) None s"

section \<open>Quiesce\<close>

definition unavailable :: "obs_error \<Rightarrow> string \<Rightarrow> quiescence_error" where
  "unavailable e stage =
     \<lparr>q_code = ''pm2-observation-unavailable'', q_diag = Some (with_observation_stage e stage)\<rparr>"

definition quiescence_failed :: "string \<Rightarrow> quiescence_error" where
  "quiescence_failed code = \<lparr>q_code = code, q_diag = None\<rparr>"

definition same_identities :: "pm2_identity list \<Rightarrow> pm2_identity list \<Rightarrow> bool" where
  "same_identities current expected \<longleftrightarrow>
     length current = length expected \<and>
     list_all (\<lambda>i. current ! i = expected ! i) [0..<length current]"

definition correlate_snapshot :: "pm2_snapshot \<Rightarrow> string + pm2_identity list" where
  "correlate_snapshot sn = correlate_pm2 (records sn) (sockets sn) (procs sn)"

definition evidence_of :: "bool \<Rightarrow> pm2_identity \<Rightarrow> stopped_evidence" where
  "evidence_of v t =
     \<lparr>ev_pmid = pmid t, ev_pid = ident_pid t, ev_port = ident_port t, ev_ticks = start_ticks t,
      stop_command_succeeded = True, stop_verified = v\<rparr>"

text \<open>
  One iteration of the stop loop: the state must still be what is pending, then the first
  pending process is stopped, recorded, and its stop proven.
\<close>

definition quiesce_step ::
  "'w quiescer \<Rightarrow> quiescence \<Rightarrow> pm2_identity \<Rightarrow> pm2_identity list \<Rightarrow>
   ('w, cmd_event, quiescence \<times> quiescence_error option) effect" where
  "quiesce_step q stopped target rest c s =
     (case q_snapshot q c s of
        (Inl e, s1) \<Rightarrow> ((stopped, Some (unavailable e ''pre-stop-snapshot'')), s1)
      | (Inr current, s1) \<Rightarrow>
          if (case correlate_snapshot current of
                Inl _ \<Rightarrow> True | Inr active \<Rightarrow> \<not> same_identities active (target # rest))
          then ((stopped, Some (quiescence_failed ''pm2-state-changed'')), s1)
          else (case controller_stop (controller q) target c s1 of
            (Some _, s2) \<Rightarrow> ((stopped, Some (quiescence_failed ''pm2-stop-failed'')), s2)
          | (None, s2) \<Rightarrow>
              (case wait_for_stopped_and_released q target c s2 of
                 (Some d, s3) \<Rightarrow>
                   ((stopped\<lparr>evidence := evidence stopped @ [evidence_of False target]\<rparr>,
                     Some \<lparr>q_code = ''pm2-stop-unproven'', q_diag = Some d\<rparr>), s3)
               | (None, s3) \<Rightarrow>
                   ((stopped\<lparr>evidence := evidence stopped @ [evidence_of True target]\<rparr>, None), s3))))"

fun quiesce_loop ::
  "'w quiescer \<Rightarrow> quiescence \<Rightarrow> pm2_identity list \<Rightarrow>
   ('w, cmd_event, quiescence \<times> quiescence_error option) effect" where
  "quiesce_loop q stopped [] c s = ((stopped, None), s)"
| "quiesce_loop q stopped (target # rest) c s =
     (case quiesce_step q stopped target rest c s of
        ((stopped1, Some e), s1) \<Rightarrow> ((stopped1, Some e), s1)
      | ((stopped1, None), s1) \<Rightarrow> quiesce_loop q stopped1 rest c s1)"

definition quiesce_noop ::
  "'w quiescer \<Rightarrow> quiescence \<Rightarrow> ('w, cmd_event, quiescence \<times> quiescence_error option) effect" where
  "quiesce_noop q stopped c s =
     (case q_snapshot q c s of
        (Inl e, s1) \<Rightarrow> ((stopped, Some (unavailable e ''final-snapshot'')), s1)
      | (Inr final, s1) \<Rightarrow>
          if correlate_snapshot final \<noteq> Inr []
          then ((stopped, Some (quiescence_failed ''pm2-final-state-unproven'')), s1)
          else ((stopped\<lparr>noop_verified := True\<rparr>, None), s1))"

definition quiesce ::
  "'w quiescer \<Rightarrow> ('w, cmd_event, quiescence \<times> quiescence_error option) effect" where
  "quiesce q c s =
     (case q_snapshot q c s of
        (Inl e, s1) \<Rightarrow> ((no_quiescence, Some (unavailable e ''initial-snapshot'')), s1)
      | (Inr initial, s1) \<Rightarrow>
          (case correlate_snapshot initial of
             Inl _ \<Rightarrow> ((no_quiescence, Some (quiescence_failed ''pm2-correlation-failed'')), s1)
           | Inr pending \<Rightarrow>
               let stopped = no_quiescence\<lparr>processes := pending\<rparr> in
               if pending = [] then quiesce_noop q stopped c s1
               else (case quiesce_loop q stopped pending c s1 of
                 ((stopped1, Some e), s2) \<Rightarrow> ((stopped1, Some e), s2)
               | ((stopped1, None), s2) \<Rightarrow>
                   (case q_snapshot q c s2 of
                      (Inr final, s3) \<Rightarrow>
                        if stopped_and_released final (processes stopped1)
                        then ((stopped1, None), s3)
                        else ((stopped1, Some (quiescence_failed ''pm2-final-state-unproven'')), s3)
                    | (Inl _, s3) \<Rightarrow>
                        ((stopped1, Some (quiescence_failed ''pm2-final-state-unproven'')), s3)))))"

section \<open>Recover\<close>

fun index_processes :: "(int \<rightharpoonup> pm2_identity) \<Rightarrow> pm2_identity list \<Rightarrow> (int \<rightharpoonup> pm2_identity) option" where
  "index_processes by_id [] = Some by_id"
| "index_processes by_id (i # is) =
     (if pmid i < 0 \<or> ident_pid i \<le> 0 \<or> ident_port i = 0 \<or> start_ticks i = 0 \<or> ident_cwd i = []
         \<or> ident_exec i = [] \<or> runtime_exec i = [] \<or> by_id (pmid i) \<noteq> None
      then None
      else index_processes (by_id(pmid i \<mapsto> i)) is)"

fun ack_targets ::
  "(int \<rightharpoonup> pm2_identity) \<Rightarrow> int set \<Rightarrow> stopped_evidence list \<Rightarrow> pm2_identity list option" where
  "ack_targets by_id seen [] = Some []"
| "ack_targets by_id seen (ev # evs) =
     (case by_id (ev_pmid ev) of
        None \<Rightarrow> None
      | Some i \<Rightarrow>
          if ev_pmid ev \<in> seen \<or> (\<not> stop_command_succeeded ev \<and> \<not> stop_verified ev)
             \<or> ident_pid i \<noteq> ev_pid ev \<or> ident_port i \<noteq> ev_port ev \<or> start_ticks i \<noteq> ev_ticks ev
          then None
          else map_option ((#) i) (ack_targets by_id (insert (ev_pmid ev) seen) evs))"

definition acknowledged_recovery_targets :: "quiescence \<Rightarrow> pm2_identity list option" where
  "acknowledged_recovery_targets stopped =
     (case index_processes Map.empty (processes stopped) of
        None \<Rightarrow> None
      | Some by_id \<Rightarrow>
          (case ack_targets by_id {} (evidence stopped) of
             None \<Rightarrow> None
           | Some ts \<Rightarrow> if ts = [] then None else Some ts))"

definition recovery_start_diagnostic ::
  "ctx_error option \<Rightarrow> cmd_error \<Rightarrow> pm2_identity \<Rightarrow> diagnostic" where
  "recovery_start_diagnostic ce e t =
     no_diagnostic\<lparr>d_stage := ''recovery-start'', d_operation := ''pm2-start'',
                   d_command := ''sudo -n pm2 start '' @ itoa (pmid t),
                   d_cause := observation_cause ce e, d_pmid := pmid t, d_port := ident_port t\<rparr>"

text \<open>One iteration of the recovery loop; the flag says whether the loop goes on.\<close>

definition recover_step ::
  "'w quiescer \<Rightarrow> recovery \<Rightarrow> pm2_identity \<Rightarrow> ('w, cmd_event, recovery \<times> bool) effect" where
  "recover_step q rc target c s =
     (case q_snapshot q c s of
        (Inl e, s1) \<Rightarrow>
          ((rc\<lparr>rec_diag := Some (with_observation_stage e ''pre-recovery-snapshot'')\<rparr>, False), s1)
      | (Inr prior, s1) \<Rightarrow>
          if \<not> recovery_snapshot_proves prior target False then ((rc, False), s1)
          else
            let rc1 = rc\<lparr>attempted := Suc (attempted rc)\<rparr> in
            (case controller_start (controller q) target c s1 of
               (Some e, s2) \<Rightarrow>
                 ((rc1\<lparr>rec_diag := Some (recovery_start_diagnostic (ctx_err c (clock s2)) e target)\<rparr>,
                   False), s2)
             | (None, s2) \<Rightarrow>
                 (case wait_for_recovery_proof q target c s2 of
                    (Some d, s3) \<Rightarrow> ((rc1\<lparr>rec_diag := Some d\<rparr>, False), s3)
                  | (None, s3) \<Rightarrow> ((rc1\<lparr>recovered := Suc (recovered rc1)\<rparr>, True), s3))))"

fun recover_loop ::
  "'w quiescer \<Rightarrow> recovery \<Rightarrow> pm2_identity list \<Rightarrow> ('w, cmd_event, recovery \<times> bool) effect" where
  "recover_loop q rc [] c s = ((rc, True), s)"
| "recover_loop q rc (target # rest) c s =
     (case recover_step q rc target c s of
        ((rc1, False), s1) \<Rightarrow> ((rc1, False), s1)
      | ((rc1, True), s1) \<Rightarrow> recover_loop q rc1 rest c s1)"

definition recovery_result :: "bool \<Rightarrow> string \<Rightarrow> recovery" where
  "recovery_result v code =
     \<lparr>attempted = 0, recovered = 0, verified = v, rec_code = code, rec_diag = None\<rparr>"

definition recover ::
  "'w quiescer \<Rightarrow> quiescence \<Rightarrow> ('w, cmd_event, recovery \<times> string option) effect" where
  "recover q stopped c s =
     (if noop_verified stopped \<and> processes stopped = [] \<and> evidence stopped = []
      then ((recovery_result True ''pm2-recovery-verified'', None), s)
      else (case acknowledged_recovery_targets stopped of
          None \<Rightarrow> ((recovery_result False ''pm2-recovery-invalid'', Some ''pm2 recovery is invalid''), s)
        | Some targets \<Rightarrow>
            if snapshots q = None \<or> controller q = None
            then ((recovery_result False ''pm2-recovery-invalid'', Some ''pm2 recovery is invalid''), s)
            else (case recover_loop q (recovery_result False ''pm2-recovery-unproven'') (rev targets) c s of
                ((rc, False), s1) \<Rightarrow> ((rc, Some ''pm2 recovery was not proven''), s1)
              | ((rc, True), s1) \<Rightarrow>
                  ((rc\<lparr>verified := True, rec_code := ''pm2-recovery-verified''\<rparr>, None), s1))))"

end
