(* ===== verification/Pm2Safety.thy ===== *)
theory Pm2Safety
  imports Pm2Quiescence
begin

text \<open>
  What \<open>PM2Quiescer\<close> promises.  Two abstract runs, \<open>stops\<close> and \<open>starts\<close>, say which
  commands that change a PM2 process may be issued, in which order and with which record
  of them; \<open>Quiesce\<close> and \<open>Recover\<close> are shown to implement them over every provider that
  satisfies the snapshot contract, and the production wiring is one.
\<close>

section \<open>Commands that change the host\<close>

definition mutations :: "cmd_event list \<Rightarrow> cmd_event list" where
  "mutations es = filter (\<lambda>e. \<not> is_observation e) es"

definition mutated :: "('w, cmd_event) sys \<Rightarrow> ('w, cmd_event) sys \<Rightarrow> cmd_event list \<Rightarrow> bool" where
  "mutated s s' ms \<longleftrightarrow> (\<exists>es. grew s s' es \<and> mutations es = ms)"

lemma mutated_refl [simp]: "mutated s s []"
  unfolding mutated_def mutations_def by (rule exI [of _ "[]"]) simp

lemma mutated_trans: "mutated s s' ms \<Longrightarrow> mutated s' s'' ms' \<Longrightarrow> mutated s s'' (ms @ ms')"
  unfolding mutated_def mutations_def by (metis filter_append grew_trans)

lemma observes_mutated: "observes s s' \<Longrightarrow> mutated s s' []"
  unfolding mutated_def mutations_def observes_def
  by (metis (no_types, lifting) filter_False list_all_iff)

lemma mutated_observed: "mutated s s' ms \<Longrightarrow> observes s' s'' \<Longrightarrow> mutated s s'' ms"
  using mutated_trans observes_mutated by fastforce

lemma observed_mutated: "observes s s' \<Longrightarrow> mutated s' s'' ms \<Longrightarrow> mutated s s'' ms"
  using mutated_trans observes_mutated by fastforce

definition pm2_command :: "string \<Rightarrow> pm2_identity \<Rightarrow> bool \<Rightarrow> cmd_event" where
  "pm2_command action i ok = Ran ''sudo'' [''-n'', ''pm2'', action, itoa (pmid i)] ok"

lemma pm2_command_mutates:
  "action \<in> {''stop'', ''start''} \<Longrightarrow> \<not> is_observation (pm2_command action i ok)"
  by (auto simp: pm2_command_def observation_argv_def)

lemma boundary_mutate_mutated:
  assumes "boundary_mutate (Some f) action i c s = (r, s')" and "complete_identity i"
    and "action \<in> {''stop'', ''start''}"
  shows "mutated s s' [pm2_command action i (r = None)]"
proof -
  from assms have "run_cmd f ''sudo'' [''-n'', ''pm2'', action, itoa (pmid i)] c s
      = (fst (run_cmd f ''sudo'' [''-n'', ''pm2'', action, itoa (pmid i)] c s), s')"
    and "r = cmd_err (fst (run_cmd f ''sudo'' [''-n'', ''pm2'', action, itoa (pmid i)] c s))"
    by (auto simp: boundary_mutate_def complete_identity_def split: prod.splits if_splits)
  then have "grew s s' [pm2_command action i (r = None)]"
    using run_cmd_grew pm2_command_def by metis
  then show ?thesis
    unfolding mutated_def mutations_def using pm2_command_mutates [OF assms(3)] by fastforce
qed

section \<open>The abstract runs\<close>

text \<open>
  \<open>stops ps evs ms ok\<close>: processing \<open>ps\<close> in order, with evidence \<open>evs\<close>, the commands \<open>ms\<close>
  and \<open>ok\<close> when every process was stopped.
\<close>

inductive stops :: "pm2_identity list \<Rightarrow> stopped_evidence list \<Rightarrow> cmd_event list \<Rightarrow> bool \<Rightarrow> bool" where
  stops_done: "stops [] [] [] True"
| stops_blocked: "stops (p # ps) [] [] False"
| stops_failed: "stops (p # ps) [] [pm2_command ''stop'' p False] False"
| stops_unproven: "stops (p # ps) [evidence_of False p] [pm2_command ''stop'' p True] False"
| stops_next: "stops ps evs ms ok \<Longrightarrow>
    stops (p # ps) (evidence_of True p # evs) (pm2_command ''stop'' p True # ms) ok"

text \<open>\<open>starts ps a n ms ok\<close>: \<open>a\<close> starts attempted and \<open>n\<close> of them proven.\<close>

inductive starts :: "pm2_identity list \<Rightarrow> nat \<Rightarrow> nat \<Rightarrow> cmd_event list \<Rightarrow> bool \<Rightarrow> bool" where
  starts_done: "starts [] 0 0 [] True"
| starts_blocked: "starts (p # ps) 0 0 [] False"
| starts_failed: "starts (p # ps) 1 0 [pm2_command ''start'' p ok] False"
| starts_next: "starts ps a n ms ok \<Longrightarrow>
    starts (p # ps) (Suc a) (Suc n) (pm2_command ''start'' p True # ms) ok"

inductive_cases stops_NilE: "stops [] evs ms ok"
inductive_cases stops_ConsE: "stops (p # ps) evs ms ok"

lemma stops_complete: "stops ps evs ms True \<Longrightarrow>
    evs = map (evidence_of True) ps \<and> ms = map (\<lambda>p. pm2_command ''stop'' p True) ps"
  by (induction ps evs ms "True" rule: stops.induct) auto

lemma stops_evidence: "stops ps evs ms ok \<Longrightarrow>
    map ev_pmid evs = map pmid (take (length evs) ps) \<and>
    list_all2 (\<lambda>e p. \<exists>v. e = evidence_of v p) evs (take (length evs) ps)"
  by (induction rule: stops.induct) (auto simp: evidence_of_def)

lemma stops_commands: "stops ps evs ms ok \<Longrightarrow>
    \<exists>oks. ms = map2 (pm2_command ''stop'') (take (length ms) ps) oks \<and> length oks = length ms \<and>
          length ms \<le> length ps \<and> length (filter (\<lambda>b. b) oks) = length evs"
proof (induction rule: stops.induct)
  case (stops_next ps evs ms ok p)
  then obtain oks where "ms = map2 (pm2_command ''stop'') (take (length ms) ps) oks"
    "length oks = length ms" "length ms \<le> length ps" "length (filter (\<lambda>b. b) oks) = length evs" by blast
  then show ?case by (intro exI [of _ "True # oks"]) simp
next
  case (stops_failed p ps)
  then show ?case by (intro exI [of _ "[False]"]) simp
next
  case (stops_unproven p ps)
  then show ?case by (intro exI [of _ "[True]"]) simp
qed simp_all

lemma starts_complete: "starts ps a n ms True \<Longrightarrow>
    a = length ps \<and> n = length ps \<and> ms = map (\<lambda>p. pm2_command ''start'' p True) ps"
  by (induction ps a n ms "True" rule: starts.induct) auto

lemma starts_counts: "starts ps a n ms ok \<Longrightarrow>
    n \<le> a \<and> a \<le> Suc n \<and> a \<le> length ps \<and> length ms = a"
  by (induction rule: starts.induct) auto

section \<open>Acknowledged targets\<close>

lemma index_processes_complete:
  "index_processes m ps = Some m' \<Longrightarrow>
   list_all complete_identity ps \<and> distinct (map pmid ps) \<and> (\<forall>p \<in> set ps. m (pmid p) = None) \<and>
   m' = m ++ map_of (map (\<lambda>p. (pmid p, p)) ps)"
proof (induction ps arbitrary: m)
  case (Cons p ps)
  then have "complete_identity p" "m (pmid p) = None"
    and "index_processes (m(pmid p \<mapsto> p)) ps = Some m'"
    by (auto simp: complete_identity_def split: if_splits)
  from Cons.IH [OF this(3)] have ps: "list_all complete_identity ps" "distinct (map pmid ps)"
    "m' = m(pmid p \<mapsto> p) ++ map_of (map (\<lambda>p. (pmid p, p)) ps)"
    and "\<forall>x \<in> set ps. (m(pmid p \<mapsto> p)) (pmid x) = None"
    by blast+
  then have new: "\<forall>x \<in> set ps. pmid x \<noteq> pmid p \<and> m (pmid x) = None"
    by (auto split: if_splits)
  from new have "pmid p \<notin> pmid ` set ps" by auto
  then have "m' = (m ++ map_of (map (\<lambda>p. (pmid p, p)) ps))(pmid p \<mapsto> p)"
    unfolding ps(3) by (intro map_add_upd_left) (simp add: dom_map_of_conv_image_fst image_image)
  with ps(1,2) new \<open>pmid p \<notin> pmid ` set ps\<close> \<open>complete_identity p\<close> \<open>m (pmid p) = None\<close>
  show ?case by (simp add: fun_eq_iff map_add_def)
qed simp

lemma index_processes_Some:
  "list_all complete_identity ps \<Longrightarrow> distinct (map pmid ps) \<Longrightarrow> \<forall>p \<in> set ps. m (pmid p) = None \<Longrightarrow>
   index_processes m ps = Some (m ++ map_of (map (\<lambda>p. (pmid p, p)) ps))"
proof (induction ps arbitrary: m)
  case (Cons p ps)
  then have "index_processes (m(pmid p \<mapsto> p)) ps =
      Some (m(pmid p \<mapsto> p) ++ map_of (map (\<lambda>p. (pmid p, p)) ps))"
    by (intro Cons.IH) (auto simp: image_iff)
  moreover have "m(pmid p \<mapsto> p) ++ map_of (map (\<lambda>p. (pmid p, p)) ps) =
      (m ++ map_of (map (\<lambda>p. (pmid p, p)) ps))(pmid p \<mapsto> p)"
    using Cons.prems by (intro map_add_upd_left) (auto simp: dom_map_of_conv_image_fst)
  moreover have "\<not> (pmid p < 0 \<or> ident_pid p \<le> 0 \<or> ident_port p = 0 \<or> start_ticks p = 0 \<or> ident_cwd p = []
      \<or> ident_exec p = [] \<or> runtime_exec p = [] \<or> m (pmid p) \<noteq> None)"
    using Cons.prems by (simp add: complete_identity_def)
  ultimately show ?case by (simp add: fun_eq_iff map_add_def)
qed simp

lemma index_lookup: "map_of (map (\<lambda>p. (pmid p, p)) ps) k = Some i \<Longrightarrow> pmid i = k \<and> i \<in> set ps"
  by (induction ps) (auto split: if_splits)

lemma ack_targets_sound:
  "ack_targets m seen evs = Some ts \<Longrightarrow> (\<And>k i. m k = Some i \<Longrightarrow> pmid i = k) \<Longrightarrow>
   map pmid ts = map ev_pmid evs \<and> distinct (map pmid ts) \<and> (\<forall>t \<in> set ts. m (pmid t) = Some t \<and> pmid t \<notin> seen)"
proof (induction evs arbitrary: seen ts)
  case (Cons ev evs)
  then obtain i ts' where i: "m (ev_pmid ev) = Some i" "ev_pmid ev \<notin> seen"
    and ts: "ack_targets m (insert (ev_pmid ev) seen) evs = Some ts'" "ts = i # ts'"
    by (auto split: option.splits if_splits)
  have "pmid i = ev_pmid ev" using i Cons.prems(2) by blast
  moreover have "map pmid ts' = map ev_pmid evs" "distinct (map pmid ts')"
    "\<forall>t \<in> set ts'. m (pmid t) = Some t \<and> pmid t \<noteq> ev_pmid ev \<and> pmid t \<notin> seen"
    using Cons.IH [OF ts(1) Cons.prems(2)] by auto
  moreover from this have "ev_pmid ev \<notin> set (map ev_pmid evs)"
    by (metis (no_types, lifting) image_iff set_map)
  ultimately show ?case using i ts(2) by auto
qed simp

lemma ack_targets_take:
  "list_all2 (\<lambda>e p. \<exists>v. e = evidence_of v p) evs ps \<Longrightarrow> \<forall>p \<in> set ps. m (pmid p) = Some p \<Longrightarrow>
   distinct (map pmid ps) \<Longrightarrow> \<forall>p \<in> set ps. pmid p \<notin> seen \<Longrightarrow> ack_targets m seen evs = Some ps"
proof (induction evs arbitrary: ps seen)
  case (Cons e es)
  then obtain p ps' v where ps: "ps = p # ps'" and e: "e = evidence_of v p"
    and rest: "list_all2 (\<lambda>e p. \<exists>v. e = evidence_of v p) es ps'"
    by (auto simp: list_all2_Cons1)
  have "ack_targets m (insert (pmid p) seen) es = Some ps'"
  proof (rule Cons.IH [OF rest])
    show "\<forall>q \<in> set ps'. m (pmid q) = Some q" using Cons.prems(2) ps by simp
    show "distinct (map pmid ps')" using Cons.prems(3) ps by simp
    show "\<forall>q \<in> set ps'. pmid q \<notin> insert (pmid p) seen"
      using Cons.prems(3,4) ps by (metis distinct.simps(2) image_eqI insertE list.set_intros(2) list.set_map list.simps(9))
  qed
  then show ?case using Cons.prems(2,4) by (simp add: ps e evidence_of_def)
qed simp

text \<open>Targets that are accepted are known processes, each once, one for every piece of evidence.\<close>

lemma acknowledged_sound:
  assumes "acknowledged_recovery_targets st = Some ts"
  shows "ts \<noteq> [] \<and> map pmid ts = map ev_pmid (evidence st) \<and> distinct (map pmid ts) \<and>
    set ts \<subseteq> set (processes st) \<and> list_all complete_identity ts"
proof -
  obtain m where m: "index_processes Map.empty (processes st) = Some m"
    and ts: "ack_targets m {} (evidence st) = Some ts" "ts \<noteq> []"
    using assms by (auto simp: acknowledged_recovery_targets_def split: option.splits if_splits)
  from index_processes_complete [OF m]
  have ps: "list_all complete_identity (processes st)" "m = map_of (map (\<lambda>p. (pmid p, p)) (processes st))"
    by (simp_all only: empty_map_add)
  then have known: "m k = Some i \<Longrightarrow> pmid i = k \<and> i \<in> set (processes st)" for k i
    using index_lookup by metis
  have sound: "map pmid ts = map ev_pmid (evidence st)" "distinct (map pmid ts)" "\<forall>t \<in> set ts. m (pmid t) = Some t"
    using ack_targets_sound [OF ts(1) conjunct1 [OF known]] by blast+
  then have "set ts \<subseteq> set (processes st)" using known by blast
  with sound(1,2) ps(1) ts(2) show ?thesis by (auto simp: list_all_iff)
qed

text \<open>Whatever a run of the stop loop leaves is acknowledged, so a recovery is never refused.\<close>

lemma acknowledged_stops:
  assumes "stops (processes st) (evidence st) ms ok" and "list_all complete_identity (processes st)"
    and "distinct (map pmid (processes st))" and "evidence st \<noteq> []"
  shows "acknowledged_recovery_targets st = Some (take (length (evidence st)) (processes st))"
proof -
  let ?m = "map_of (map (\<lambda>p. (pmid p, p)) (processes st))"
  have m: "index_processes Map.empty (processes st) = Some ?m"
    using index_processes_Some [OF assms(2,3), of Map.empty] by simp
  have known: "\<forall>p \<in> set (take (length (evidence st)) (processes st)). ?m (pmid p) = Some p"
    using assms(3) by (auto intro!: map_of_is_SomeI simp: comp_def dest: in_set_takeD)
  have "ack_targets ?m {} (evidence st) = Some (take (length (evidence st)) (processes st))"
    using stops_evidence [OF assms(1)] known distinct_take [OF assms(3)]
    by (intro ack_targets_take) (auto simp: take_map)
  moreover have "take (length (evidence st)) (processes st) \<noteq> []"
    using assms(1,4) by (cases rule: stops.cases) auto
  ultimately show ?thesis by (simp add: acknowledged_recovery_targets_def m)
qed

section \<open>The quiescer over any provider that keeps the contract\<close>

lemma same_identities_eq: "same_identities xs ys \<longleftrightarrow> xs = ys"
  by (auto simp: same_identities_def list_all_iff intro: nth_equalityI)

section \<open>The proof loops\<close>

lemma observes_wait: "observes s s' \<Longrightarrow> clock s' \<le> t \<Longrightarrow> observes s (s'\<lparr>clock := t\<rparr>)"
  by (auto simp: observes_def grew_def)

lemma proof_poll_inv [consumes 1, case_names ended proved gave_up again]:
  assumes "proof_poll q check_first ok stage pc final failure s = (r, s')"
    and "\<And>s d. fst pc \<le> clock s \<Longrightarrow> P s (Some d) s"
    and "\<And>s s1 sn. q_snapshot q (Some pc) s = (Inr sn, s1) \<Longrightarrow> ok sn \<Longrightarrow> clock s1 < fst pc \<Longrightarrow> P s None s1"
    and "\<And>s x s1 d. q_snapshot q (Some pc) s = (x, s1) \<Longrightarrow>
           P s (Some d) (s1\<lparr>clock := max (clock s1) (fst pc)\<rparr>)"
    and "\<And>s x s1 r s'. q_snapshot q (Some pc) s = (x, s1) \<Longrightarrow>
           P (s1\<lparr>clock := clock s1 + proof_interval q\<rparr>) r s' \<Longrightarrow> P s r s'"
  shows "P s r s'"
  using assms(1)
proof (induction "fst pc - clock s" arbitrary: s failure rule: less_induct)
  case less
  obtain x s1 where snap: "q_snapshot q (Some pc) s = (x, s1)" by fastforce
  have less_time: "fst pc - clock (s1\<lparr>clock := clock s1 + proof_interval q\<rparr>) < fst pc - clock s"
    if "\<not> fst pc \<le> clock s1 + proof_interval q"
    using that q_snapshot_clock [OF snap] proof_interval_pos [of q] by simp
  show ?case
  proof (cases "check_first \<and> ctx_err (Some pc) (clock s) \<noteq> None")
    case True
    then show ?thesis
      using less.prems assms(2) [of s] by (auto simp: proof_poll.simps ctx_err_def split: prod.splits if_splits)
  next
    case False
    show ?thesis
    proof (cases "case x of Inr sn \<Rightarrow> ctx_err (Some pc) (clock s1) = None \<and> ok sn | Inl _ \<Rightarrow> False")
      case True
      with less.prems snap False show ?thesis
        by (auto simp: proof_poll.simps [of q check_first] Let_def ctx_err_def
            split: sum.splits prod.splits if_splits intro!: assms(3))
    next
      case no_proof: False
      define failure1 where "failure1 = (case (x, failure) of
          (Inl e, None) \<Rightarrow> observation_failure stage (ctx_err (Some pc) (clock s1) \<noteq> None) e
        | _ \<Rightarrow> failure)"
      have run: "(if fst pc \<le> clock s1 + proof_interval q
          then (Some (case failure1 of Some d \<Rightarrow> d | None \<Rightarrow> final (snd pc)),
                s1\<lparr>clock := max (clock s1) (fst pc)\<rparr>)
          else proof_poll q check_first ok stage pc final failure1
                 (s1\<lparr>clock := clock s1 + proof_interval q\<rparr>)) = (r, s')"
        using less.prems [unfolded proof_poll.simps [of q check_first ok stage pc final failure s] snap]
          False no_proof
        by (cases x) (simp_all add: Let_def failure1_def del: not_None_eq split: if_split_asm)
      then show ?thesis
        using assms(4) [OF snap] assms(5) [OF snap] less.hyps [OF less_time]
        by (auto split: if_splits)
    qed
  qed
qed

lemma proof_poll_observes:
  assumes "\<And>c s r s'. q_snapshot q c s = (r, s') \<Longrightarrow> observes s s'"
    and "proof_poll q check_first ok stage pc final failure s = (r, s')"
  shows "observes s s'"
  using assms(2)
proof (induction rule: proof_poll_inv)
  case (again s x s1 r s')
  have "observes s (s1\<lparr>clock := clock s1 + proof_interval q\<rparr>)"
    by (rule observes_wait [OF assms(1) [OF again(1)]]) simp
  then show ?case using again(2) by (rule observes_trans)
qed (auto intro: observes_wait dest: assms(1))

text \<open>A proof is a snapshot that arrived before the deadline; giving up means the deadline has passed.\<close>

lemma proof_poll_result:
  assumes "proof_poll q check_first ok stage pc final failure s = (r, s')"
  shows "case r of
      None \<Rightarrow> \<exists>sn s1. q_snapshot q (Some pc) s1 = (Inr sn, s') \<and> ok sn \<and> clock s' < fst pc
    | Some _ \<Rightarrow> fst pc \<le> clock s'"
  using assms by (induction rule: proof_poll_inv) auto

locale boundary_quiescer = snapshot_provider snap
  for snap :: "('w, cmd_event, obs_error + pm2_snapshot) effect" +
  fixes q :: "'w quiescer" and f :: "'w runner"
  assumes provider: "snapshots q = Some snap"
    and boundary: "controller q = Some (RootBoundary (Some f))"
begin

lemma q_snapshot_snap: "q_snapshot q c s = snap c s"
proof -
  obtain r s1 where "snap c s = (r, s1)" by fastforce
  then show ?thesis
    using clock_mono [of c s r s1] by (simp add: q_snapshot_def provider boundary max_def)
qed

lemma q_snapshot_observes: "q_snapshot q c s = (r, s') \<Longrightarrow> observes s s'"
  using reads q_snapshot_snap by metis

lemma correlated:
  assumes "q_snapshot q c s = (Inr sn, s')" and "correlate_snapshot sn = Inr ids"
  shows "distinct (map pmid ids) \<and> list_all complete_identity ids"
  using assms correlated_distinct correlated_complete
  unfolding q_snapshot_snap correlate_snapshot_def by blast

lemma stop_mutated:
  "controller_stop (controller q) i c s = (r, s') \<Longrightarrow> complete_identity i \<Longrightarrow>
   mutated s s' [pm2_command ''stop'' i (r = None)]"
  using boundary_mutate_mutated [of f "''stop''"]
  by (auto simp: controller_stop_def boundary complete_identity_def)

lemma start_mutated:
  "controller_start (controller q) i c s = (r, s') \<Longrightarrow> complete_identity i \<Longrightarrow>
   mutated s s' [pm2_command ''start'' i (r = None)]"
  using boundary_mutate_mutated [of f "''start''"]
  by (auto simp: controller_start_def boundary complete_identity_def)

lemma q_observed: "q_snapshot q c s = (r, s1) \<Longrightarrow> mutated s1 s' ms \<Longrightarrow> mutated s s' ms"
  using observed_mutated q_snapshot_observes by blast

lemma wait_stopped_observes:
  "wait_for_stopped_and_released q t c s = (r, s') \<Longrightarrow> observes s s'"
  unfolding wait_for_stopped_and_released_def by (rule proof_poll_observes [OF q_snapshot_observes])

lemma wait_recovery_observes:
  "wait_for_recovery_proof q t c s = (r, s') \<Longrightarrow> observes s s'"
  unfolding wait_for_recovery_proof_def by (rule proof_poll_observes [OF q_snapshot_observes])

text \<open>One iteration of the stop loop is one step of the abstract run.\<close>

lemma quiesce_step_cases:
  assumes step: "quiesce_step q st p ps c s = ((st', r), s')" and "complete_identity p"
  shows "processes st' = processes st \<and> noop_verified st' = noop_verified st \<and>
    (if r = None
     then evidence st' = evidence st @ [evidence_of True p] \<and> mutated s s' [pm2_command ''stop'' p True]
     else \<exists>evs ms. evidence st' = evidence st @ evs \<and> mutated s s' ms \<and> stops (p # ps) evs ms False)"
proof -
  obtain x s1 where snap: "q_snapshot q c s = (x, s1)" by fastforce
  obtain y s2 where stop: "controller_stop (controller q) p c s1 = (y, s2)" by fastforce
  obtain z s3 where wait: "wait_for_stopped_and_released q p c s2 = (z, s3)" by fastforce
  have 1: "mutated s s1 []" using snap q_snapshot_observes observes_mutated by blast
  have 2: "mutated s s2 [pm2_command ''stop'' p (y = None)]"
    using q_observed [OF snap] stop_mutated [OF stop assms(2)] by blast
  have 3: "mutated s s3 [pm2_command ''stop'' p (y = None)]"
    using 2 wait wait_stopped_observes mutated_observed by blast
  from step snap stop wait 1 2 3 show ?thesis
    unfolding quiesce_step_def
    by (auto split: sum.splits option.splits if_splits intro: stops_blocked stops_failed)
       (blast intro: stops_unproven)
qed

lemma quiesce_loop_stops:
  "quiesce_loop q st ps c s = ((st', r), s') \<Longrightarrow> list_all complete_identity ps \<Longrightarrow>
   \<exists>evs ms. processes st' = processes st \<and> noop_verified st' = noop_verified st \<and>
     evidence st' = evidence st @ evs \<and> mutated s s' ms \<and> stops ps evs ms (r = None)"
proof (induction ps arbitrary: st s)
  case Nil
  then show ?case
    by (intro exI [of _ "[]"] exI [of _ "[] :: cmd_event list"]) (auto intro: stops_done)
next
  case (Cons p ps)
  obtain st1 r1 s1 where step: "quiesce_step q st p ps c s = ((st1, r1), s1)"
    by (metis surj_pair)
  note fact = quiesce_step_cases [OF step]
  show ?case
  proof (cases r1)
    case (Some e)
    with Cons.prems step fact show ?thesis by auto
  next
    case None
    with Cons.prems step have "quiesce_loop q st1 ps c s1 = ((st', r), s')" by simp
    from Cons.IH [OF this] Cons.prems(2) obtain evs ms where
      "processes st' = processes st1" "noop_verified st' = noop_verified st1"
      "evidence st' = evidence st1 @ evs" "mutated s1 s' ms" "stops ps evs ms (r = None)"
      by auto
    with None fact Cons.prems(2) mutated_trans [of s s1 "[pm2_command ''stop'' p True]" s' ms]
    show ?thesis
      by (intro exI [of _ "evidence_of True p # evs"] exI [of _ "pm2_command ''stop'' p True # ms"])
         (auto intro: stops_next)
  qed
qed

lemma stops_nil: "stops ps [] [] (ps = [])"
  by (cases ps) (auto intro: stops_done stops_blocked)

text \<open>\<open>Quiesce\<close> implements the abstract run on the processes it reports.\<close>

lemma quiesce_stops:
  assumes "quiesce q c s = ((res, r), s')"
  shows "\<exists>ms ok. mutated s s' ms \<and> stops (processes res) (evidence res) ms ok \<and> (r = None \<longrightarrow> ok) \<and>
    list_all complete_identity (processes res) \<and> distinct (map pmid (processes res)) \<and>
    (noop_verified res \<longrightarrow> r = None \<and> processes res = [])"
proof -
  obtain x s1 where snap: "q_snapshot q c s = (x, s1)" by fastforce
  have obs: "mutated s s1 []" using snap q_snapshot_observes observes_mutated by blast
  show ?thesis
  proof (cases "\<exists>sn ids. x = Inr sn \<and> correlate_snapshot sn = Inr ids \<and> ids \<noteq> []")
    case True
    then obtain sn ids where x: "x = Inr sn" "correlate_snapshot sn = Inr ids" "ids \<noteq> []" by blast
    have ids: "distinct (map pmid ids)" "list_all complete_identity ids"
      using correlated snap x by blast+
    obtain st r2 s2 where loop:
      "quiesce_loop q (no_quiescence\<lparr>processes := ids\<rparr>) ids c s1 = ((st, r2), s2)"
      by (metis surj_pair)
    from quiesce_loop_stops [OF loop ids(2)] obtain ms where
      st: "processes st = ids" "\<not> noop_verified st" "mutated s1 s2 ms" "stops ids (evidence st) ms (r2 = None)"
      by (auto simp: no_quiescence_def)
    have m: "mutated s s2 ms" using st(3) q_observed [OF snap] by blast
    obtain y s3 where final: "q_snapshot q c s2 = (y, s3)" by fastforce
    have m': "mutated s s3 ms" using m final q_snapshot_observes mutated_observed by blast
    have "res = st \<and> (r = None \<longrightarrow> r2 = None) \<and> (s' = s2 \<or> s' = s3)"
      using assms snap x loop final
      by (auto simp: quiesce_def Let_def split: option.splits sum.splits if_splits)
    with st m m' ids show ?thesis by auto
  next
    case False
    have "evidence res = [] \<and> processes res = [] \<and> (noop_verified res \<longrightarrow> r = None) \<and> mutated s s' []"
      using assms snap False obs
      by (auto simp: quiesce_def quiesce_noop_def Let_def no_quiescence_def
          split: sum.splits if_splits prod.splits
          dest!: q_snapshot_observes observes_mutated intro: mutated_trans [where ms = "[]", simplified])
    then show ?thesis using stops_done by fastforce
  qed
qed

text \<open>A successful \<open>Quiesce\<close> ends with a snapshot that shows what it reports.\<close>

lemma quiesce_final:
  assumes "quiesce q c s = ((res, None), s')"
  shows "\<exists>sn s1. snap c s1 = (Inr sn, s') \<and>
    (if processes res = [] then noop_verified res \<and> evidence res = [] \<and> correlate_snapshot sn = Inr []
     else evidence res = map (evidence_of True) (processes res) \<and> stopped_and_released sn (processes res))"
proof -
  obtain x s1 where snap: "q_snapshot q c s = (x, s1)" by fastforce
  obtain sn ids where x: "x = Inr sn" "correlate_snapshot sn = Inr ids"
    using assms snap by (auto simp: quiesce_def split: sum.splits)
  show ?thesis
  proof (cases "ids = []")
    case True
    with assms snap x show ?thesis
      by (auto simp: quiesce_def quiesce_noop_def Let_def no_quiescence_def q_snapshot_snap
          split: sum.splits if_splits prod.splits)
  next
    case False
    obtain st r2 s2 where loop:
      "quiesce_loop q (no_quiescence\<lparr>processes := ids\<rparr>) ids c s1 = ((st, r2), s2)"
      by (metis surj_pair)
    have "list_all complete_identity ids" using correlated snap x by blast
    from quiesce_loop_stops [OF loop this] obtain ms where
      st: "processes st = ids" "stops ids (evidence st) ms (r2 = None)"
      by (auto simp: no_quiescence_def)
    obtain y s3 where final: "snap c s2 = (y, s3)" by fastforce
    have "r2 = None \<and> res = st \<and> s' = s3 \<and> (\<exists>sn. y = Inr sn \<and> stopped_and_released sn ids)"
      using assms snap x loop final st(1) False
      by (auto simp: quiesce_def Let_def q_snapshot_snap split: option.splits sum.splits if_splits)
    with st False final stops_complete show ?thesis by auto
  qed
qed

text \<open>One iteration of the recovery loop is one step of the abstract run.\<close>

lemma recover_step_cases:
  assumes step: "recover_step q rc p c s = ((rc', go), s')" and "complete_identity p"
  shows "verified rc' = verified rc \<and> rec_code rc' = rec_code rc \<and>
    (if go
     then attempted rc' = Suc (attempted rc) \<and> recovered rc' = Suc (recovered rc) \<and>
          mutated s s' [pm2_command ''start'' p True]
     else \<exists>a ms. attempted rc' = attempted rc + a \<and> recovered rc' = recovered rc \<and>
          mutated s s' ms \<and> starts (p # ps) a 0 ms False)"
proof -
  obtain x s1 where snap: "q_snapshot q c s = (x, s1)" by fastforce
  obtain y s2 where start: "controller_start (controller q) p c s1 = (y, s2)" by fastforce
  obtain z s3 where wait: "wait_for_recovery_proof q p c s2 = (z, s3)" by fastforce
  have 1: "mutated s s1 []" using snap q_snapshot_observes observes_mutated by blast
  have 2: "mutated s s2 [pm2_command ''start'' p (y = None)]"
    using q_observed [OF snap] start_mutated [OF start assms(2)] by blast
  have 3: "mutated s s3 [pm2_command ''start'' p (y = None)]"
    using 2 wait wait_recovery_observes mutated_observed by blast
  show ?thesis
  proof (cases "\<exists>sn. x = Inr sn \<and> recovery_snapshot_proves sn p False")
    case False
    with step snap 1 show ?thesis
      by (auto simp: recover_step_def split: sum.splits if_splits) (blast intro: starts_blocked)+
  next
    case True
    with step snap start wait 2 3
    have "verified rc' = verified rc \<and> rec_code rc' = rec_code rc \<and>
      attempted rc' = Suc (attempted rc) \<and> mutated s s' [pm2_command ''start'' p (y = None)] \<and>
      (if go then recovered rc' = Suc (recovered rc) \<and> y = None else recovered rc' = recovered rc)"
      by (auto simp: recover_step_def Let_def split: option.splits if_splits)
    then show ?thesis
      using starts_failed [of p ps "y = None"] by (auto intro!: exI [of _ "1::nat"] split: if_splits)
  qed
qed

lemma recover_loop_starts:
  "recover_loop q rc ps c s = ((rc', go), s') \<Longrightarrow> list_all complete_identity ps \<Longrightarrow>
   \<exists>a n ms. verified rc' = verified rc \<and> rec_code rc' = rec_code rc \<and>
     attempted rc' = attempted rc + a \<and> recovered rc' = recovered rc + n \<and>
     mutated s s' ms \<and> starts ps a n ms go"
proof (induction ps arbitrary: rc s)
  case Nil
  then show ?case
    by (intro exI [of _ "0::nat"] exI [of _ "[] :: cmd_event list"]) (auto intro: starts_done)
next
  case (Cons p ps)
  obtain rc1 g1 s1 where step: "recover_step q rc p c s = ((rc1, g1), s1)"
    by (metis surj_pair)
  note fact = recover_step_cases [OF step, of ps]
  show ?case
  proof (cases g1)
    case False
    with Cons.prems step fact show ?thesis by (auto intro: exI [of _ "0::nat"])
  next
    case True
    with Cons.prems step have "recover_loop q rc1 ps c s1 = ((rc', go), s')" by simp
    from Cons.IH [OF this] Cons.prems(2) obtain a n ms where
      "verified rc' = verified rc1" "rec_code rc' = rec_code rc1" "attempted rc' = attempted rc1 + a"
      "recovered rc' = recovered rc1 + n" "mutated s1 s' ms" "starts ps a n ms go"
      by auto
    with True fact Cons.prems(2) mutated_trans [of s s1 "[pm2_command ''start'' p True]" s' ms]
    show ?thesis
      by (intro exI [of _ "Suc a"] exI [of _ "Suc n"] exI [of _ "pm2_command ''start'' p True # ms"])
         (auto intro: starts_next)
  qed
qed

text \<open>\<open>Recover\<close> starts acknowledged targets in reverse order, and only those.\<close>

lemma recover_starts:
  assumes "recover q st c s = ((rc, r), s')"
    and "acknowledged_recovery_targets st = Some ts"
  shows "\<exists>ms. mutated s s' ms \<and> starts (rev ts) (attempted rc) (recovered rc) ms (r = None) \<and>
    verified rc = (r = None)"
proof -
  have ev: "evidence st \<noteq> []" using acknowledged_sound [OF assms(2)] by auto
  obtain rc1 go s1 where loop:
    "recover_loop q (recovery_result False ''pm2-recovery-unproven'') (rev ts) c s = ((rc1, go), s1)"
    by (metis surj_pair)
  have "list_all complete_identity (rev ts)" using acknowledged_sound [OF assms(2)] by simp
  from recover_loop_starts [OF loop this] obtain ms where
    ms: "\<not> verified rc1" "mutated s s1 ms" "starts (rev ts) (attempted rc1) (recovered rc1) ms go"
    by (auto simp: recovery_result_def)
  have "s' = s1 \<and> attempted rc = attempted rc1 \<and> recovered rc = recovered rc1 \<and>
      (r = None) = go \<and> verified rc = go"
    using assms loop ev ms(1) by (auto simp: recover_def provider boundary split: bool.splits)
  with ms show ?thesis by auto
qed

lemma recover_refused:
  assumes "recover q st c s = ((rc, r), s')" and "acknowledged_recovery_targets st = None"
  shows "s' = s \<and> attempted rc = 0 \<and>
    (verified rc \<longleftrightarrow> noop_verified st \<and> processes st = [] \<and> evidence st = [])"
  using assms by (auto simp: recover_def recovery_result_def split: if_splits)

end

section \<open>The production quiescer\<close>

definition production_quiescer ::
  "(string \<Rightarrow> pm2_json list option) \<Rightarrow> 'w runner \<Rightarrow> 'w quiescer" where
  "production_quiescer unmarshal f =
     \<lparr>snapshots = Some (production_snapshot unmarshal (Some f)),
      controller = Some (RootBoundary (Some f)), stop_proof_timeout = 0, stop_proof_interval = 0\<rparr>"

interpretation pq: boundary_quiescer "production_snapshot unmarshal (Some f)"
  "production_quiescer unmarshal f" f
  for unmarshal :: "string \<Rightarrow> pm2_json list option" and f :: "'w runner"
  by unfold_locales (simp_all add: production_quiescer_def)

end
