(* ===== verification/Pm2Properties.thy ===== *)
theory Pm2Properties
  imports Pm2Safety
begin

text \<open>
  The properties of PM2 quiescence and recovery, over the production wiring.  Each rests on
  the interpretations of \<open>Pm2Snapshot\<close> and \<open>Pm2Safety\<close>; the witnesses run the code on
  the concrete host of the first section.
\<close>

section \<open>A concrete host\<close>

text \<open>
  A host with one legacy process: the world is the operating system process ID of
  \<open>front-guardian\<close>, 0 once it is stopped; a start gives it the ID 42.
\<close>

definition demo_stat :: "nat \<Rightarrow> string" where
  "demo_stat pid = dec_of_nat pid @ '' (node) S 1 1 1 0 -1 4 5 6 7 8 9 10 11 12 20 0 7 0 '' @ dec_of_nat (1000 + pid)"

definition demo_host :: "nat runner" where
  "demo_host name args c now w =
     (let reply = (\<lambda>text w'. (\<lparr>out = text, err_out = [], cmd_err = None\<rparr>, 1, w')) in
      if args = [''-n'', ''pm2'', ''jlist''] then reply (dec_of_nat w) w
      else if args = [''-n'', ''ss'', ''-H'', ''-ltnp''] then
        reply (if w = 0 then [] else ''LISTEN 0 511 *:8080 *:* users:((node,pid='' @ dec_of_nat w @ '',fd=18))'') w
      else if args = [''-n'', ''pm2'', ''stop'', ''0''] then reply [] 0
      else if args = [''-n'', ''pm2'', ''start'', ''0''] then reply [] 42
      else if suffix ''/cwd'' (last args) then reply ''/opt/alice-guardian'' w
      else if suffix ''/exe'' (last args) then reply ''/usr/local/bin/node'' w
      else reply (demo_stat w) w)"

definition demo_decode :: "string \<Rightarrow> pm2_json list option" where
  "demo_decode text = (case parse_uint 31 text of None \<Rightarrow> None | Some pid \<Rightarrow>
     Some [\<lparr>j_id = 0, j_pid = int pid, j_name = ''front-guardian'', j_exec_path = ''/usr/bin/bash'',
            env_cwd = ''/opt/alice-guardian'', env_pm_cwd = [],
            env_status = (if pid = 0 then ''stopped'' else ''online''), env_pid = 0, env_exec = []\<rparr>])"

definition demo_quiescer :: "nat quiescer" where
  "demo_quiescer = production_quiescer demo_decode demo_host"

definition demo_start :: "nat \<Rightarrow> (nat, cmd_event) sys" where
  "demo_start w = \<lparr>world = w, clock = 0, trace = []\<rparr>"

text \<open>What \<open>Quiesce\<close> leaves on this host, and what \<open>Recover\<close> then does.\<close>

definition demo_identity :: pm2_identity where
  "demo_identity =
     \<lparr>pmid = 0, ident_name = ''front-guardian'', ident_pid = 40, ident_cwd = ''/opt/alice-guardian'',
      ident_exec = ''/usr/bin/bash'', runtime_exec = ''/usr/local/bin/node'', ident_port = 8080,
      start_ticks = 1040\<rparr>"

definition demo_stopped :: quiescence where
  "demo_stopped =
     \<lparr>processes = [demo_identity], evidence = [evidence_of True demo_identity], noop_verified = False\<rparr>"

definition demo_idle :: "cmd_event list" where
  "demo_idle =
     [Ran ''sudo'' [''-n'', ''pm2'', ''jlist''] True, Ran ''sudo'' [''-n'', ''ss'', ''-H'', ''-ltnp''] True]"

definition demo_busy :: "cmd_event list" where
  "demo_busy = demo_idle @
     [Ran ''sudo'' [''-n'', ''readlink'', ''/proc/40/cwd''] True,
      Ran ''sudo'' [''-n'', ''readlink'', ''/proc/40/exe''] True,
      Ran ''sudo'' [''-n'', ''cat'', ''/proc/40/stat''] True]"

definition demo_mid :: "(nat, cmd_event) sys" where
  "demo_mid =
     \<lparr>world = 0, clock = 15,
      trace = demo_busy @ demo_busy @ [pm2_command ''stop'' demo_identity True] @ demo_idle @ demo_idle\<rparr>"

lemma demo_quiesce_run:
  "quiesce (production_quiescer demo_decode demo_host) background (demo_start 40) =
   ((demo_stopped, None), demo_mid)"
  by code_simp

definition demo_recovery :: recovery where
  "demo_recovery =
     \<lparr>attempted = 1, recovered = 1, verified = True, rec_code = ''pm2-recovery-verified'', rec_diag = None\<rparr>"

definition demo_end :: "(nat, cmd_event) sys" where
  "demo_end = snd (recover (production_quiescer demo_decode demo_host) demo_stopped background demo_mid)"

lemma demo_recover_result:
  "fst (recover (production_quiescer demo_decode demo_host) demo_stopped background demo_mid) =
   (demo_recovery, None)"
  by code_simp

lemma demo_recover_run:
  "recover (production_quiescer demo_decode demo_host) demo_stopped background demo_mid =
   ((demo_recovery, None), demo_end)"
  by (simp add: prod_eq_iff demo_recover_result demo_end_def)

lemmas demo_simps = demo_stopped_def demo_recovery_def

section \<open>Quiescence\<close>

text \<open>
  C1. When \<open>Quiesce\<close> reports no error it is complete: every process it reports has
  evidence, in the same order, whose stop was verified, and the last thing it did was to
  take a snapshot in which every one of them is stopped and has released its port; with
  no process to stop, the last snapshot has no legacy process online.
\<close>

theorem quiesce_complete:
  assumes "quiesce (production_quiescer unmarshal f) c s = ((res, None), s')"
  shows "\<exists>sn s1. production_snapshot unmarshal (Some f) c s1 = (Inr sn, s') \<and>
    (if processes res = []
     then noop_verified res \<and> evidence res = [] \<and> correlate_snapshot sn = Inr []
     else evidence res = map (evidence_of True) (processes res) \<and> stopped_and_released sn (processes res))"
  by (rule pq.quiesce_final [OF assms])

theorem quiesce_complete_witness:
  "\<exists>sn s1. production_snapshot demo_decode (Some demo_host) background s1 = (Inr sn, demo_mid) \<and>
     stopped_and_released sn (processes demo_stopped)"
  using quiesce_complete [OF demo_quiesce_run] by (auto simp: demo_simps)

text \<open>
  C2. Whatever its outcome, \<open>Quiesce\<close> changes the host only by \<open>pm2 stop\<close> commands for the
  processes it reports, in their order, each at most once and none after one that failed;
  the evidence is exactly the successful ones, so nothing is stopped without a record.
\<close>

theorem quiesce_stops_recorded:
  assumes "quiesce (production_quiescer unmarshal f) c s = ((res, r), s')"
  shows "\<exists>ms ok. mutated s s' ms \<and> stops (processes res) (evidence res) ms ok \<and>
    map succeeded ms = replicate (length (evidence res)) True @ replicate (length ms - length (evidence res)) False \<and>
    map ev_pmid (evidence res) = map pmid (take (length (evidence res)) (processes res)) \<and>
    distinct (map pmid (processes res))"
proof -
  from pq.quiesce_stops [OF assms] obtain ms ok where
    ms: "mutated s s' ms" "stops (processes res) (evidence res) ms ok" "distinct (map pmid (processes res))"
    by blast
  have "map succeeded ms =
      replicate (length (evidence res)) True @ replicate (length ms - length (evidence res)) False"
    using ms(2) by (induction rule: stops.induct) (auto simp: pm2_command_def)
  with ms stops_evidence [OF ms(2)] show ?thesis by blast
qed

theorem quiesce_stops_recorded_witness:
  "\<exists>ms ok. mutated (demo_start 40) demo_mid ms \<and>
     stops (processes demo_stopped) (evidence demo_stopped) ms ok"
  using quiesce_stops_recorded [OF demo_quiesce_run] by blast

section \<open>Recovery\<close>

text \<open>
  C3. Recovery undoes a quiescence: started on what a \<open>Quiesce\<close> left behind, whatever its
  outcome was, a \<open>Recover\<close> that succeeds has issued one \<open>pm2 start\<close> for each stopped
  process, in the reverse of the order in which they were stopped, nothing else, and
  counts them all as attempted and recovered.
\<close>

theorem recover_undoes_quiesce:
  assumes "quiesce (production_quiescer unmarshal f) c s = ((res, r), s1)"
    and "evidence res \<noteq> []"
    and "recover (production_quiescer unmarshal f) res c' s1 = ((rc, None), s2)"
  shows "mutated s1 s2 (map (\<lambda>p. pm2_command ''start'' p True) (rev (take (length (evidence res)) (processes res)))) \<and>
    verified rc \<and> attempted rc = length (evidence res) \<and> recovered rc = length (evidence res)"
proof -
  from pq.quiesce_stops [OF assms(1)] obtain ms ok where
    run: "stops (processes res) (evidence res) ms ok" "list_all complete_identity (processes res)"
      "distinct (map pmid (processes res))"
    by blast
  note ack = acknowledged_stops [OF run assms(2)]
  from pq.recover_starts [OF assms(3) ack] obtain ms' where
    ms': "mutated s1 s2 ms'" "verified rc"
      "starts (rev (take (length (evidence res)) (processes res))) (attempted rc) (recovered rc) ms' True"
    by auto
  have "length (take (length (evidence res)) (processes res)) = length (evidence res)"
    using stops_evidence [OF run(1)] by (metis list_all2_lengthD)
  with ms' starts_complete [OF ms'(3)] show ?thesis by simp
qed

theorem recover_undoes_quiesce_witness:
  "mutated demo_mid demo_end [pm2_command ''start'' demo_identity True] \<and>
   verified demo_recovery \<and> recovered demo_recovery = 1"
  using recover_undoes_quiesce [OF demo_quiesce_run _ demo_recover_run] by (simp add: demo_simps)

text \<open>
  C4. The evidence a \<open>Quiesce\<close> leaves is always acknowledged: a recovery is never refused,
  and its targets are the processes that were stopped, each once.
\<close>

theorem quiesce_recoverable:
  assumes "quiesce (production_quiescer unmarshal f) c s = ((res, r), s')" and "evidence res \<noteq> []"
  shows "acknowledged_recovery_targets res = Some (take (length (evidence res)) (processes res))"
  using pq.quiesce_stops [OF assms(1)] acknowledged_stops assms(2) by blast

theorem quiesce_recoverable_witness:
  "acknowledged_recovery_targets demo_stopped = Some (processes demo_stopped)"
  using quiesce_recoverable [OF demo_quiesce_run] by (simp add: demo_simps)

text \<open>
  C5. On evidence of any origin, \<open>Recover\<close> issues only starts of acknowledged targets, in
  reverse order and without a second attempt after a failure; it reports success exactly
  when every target was started and proven.  Evidence that is not acknowledged causes no
  command at all.
\<close>

theorem recover_safe:
  assumes "recover (production_quiescer unmarshal f) st c s = ((rc, r), s')"
  shows "case acknowledged_recovery_targets st of
      None \<Rightarrow> s' = s \<and> attempted rc = 0 \<and>
        (verified rc \<longleftrightarrow> noop_verified st \<and> processes st = [] \<and> evidence st = [])
    | Some ts \<Rightarrow> \<exists>ms. mutated s s' ms \<and> starts (rev ts) (attempted rc) (recovered rc) ms (r = None) \<and>
        verified rc = (r = None) \<and> length ms = attempted rc \<and> attempted rc \<le> Suc (recovered rc)"
proof (cases "acknowledged_recovery_targets st")
  case None
  with pq.recover_refused [OF assms] show ?thesis by simp
next
  case (Some ts)
  with pq.recover_starts [OF assms] starts_counts show ?thesis by fastforce
qed

theorem recover_safe_witness:
  "\<exists>ms. mutated demo_mid demo_end ms \<and> length ms = attempted demo_recovery"
proof -
  have "acknowledged_recovery_targets demo_stopped \<noteq> None"
    by code_simp
  with recover_safe [OF demo_recover_run] show ?thesis by (auto split: option.splits)
qed

end
