(* ===== verification/TargetEnv.thy ===== *)
theory TargetEnv
  imports Prelude
begin

text \<open>
  \<open>internal/workspace/target_env.go\<close>: reading the database settings of the generated
  environment file, and the credential file written from them.  The password of a
  \<open>TargetDatabaseConfig\<close> is a byte slice: copies of the struct share its backing array,
  and \<open>Release\<close> overwrites that array.  The arrays are kept in an explicit store, so
  that a config holds the address of its password.
\<close>

section \<open>The configuration and its store\<close>

record secret_store =
  contents :: "nat \<Rightarrow> string"
  next_addr :: nat

record target_config =
  t_host :: string
  t_port :: nat
  t_user :: string
  t_database :: string
  t_password :: "nat option"

definition no_target_config :: target_config where
  "no_target_config =
     \<lparr>t_host = [], t_port = 0, t_user = [], t_database = [], t_password = None\<rparr>"

definition password_bytes :: "target_config \<Rightarrow> secret_store \<Rightarrow> string" where
  "password_bytes cfg st = (case t_password cfg of None \<Rightarrow> [] | Some a \<Rightarrow> contents st a)"

definition target_config_string :: "target_config \<Rightarrow> string" where
  "target_config_string cfg =
     ''target database host='' @ t_host cfg @ '' port='' @ dec_of_nat (t_port cfg)
     @ '' user='' @ t_user cfg @ '' database='' @ t_database cfg"

text \<open>\<open>Release\<close> on one copy of a config: zero the shared array, forget it in this copy.\<close>

definition release :: "target_config \<Rightarrow> secret_store \<Rightarrow> target_config \<times> secret_store" where
  "release cfg st =
     (case t_password cfg of
        None \<Rightarrow> (cfg, st)
      | Some a \<Rightarrow>
          (cfg\<lparr>t_password := None\<rparr>,
           st\<lparr>contents := (contents st)(a := replicate (length (contents st a)) CHR 0x00)\<rparr>))"

definition pgpass_field :: "string \<Rightarrow> string" where
  "pgpass_field value =
     concat (map (\<lambda>c. if c = CHR 0x5C then [CHR 0x5C, CHR 0x5C]
                      else if c = CHR '':'' then [CHR 0x5C, CHR '':''] else [c]) value)"

text \<open>
  \<open>WritePGPass\<close>: what is written (or the error), the copy it was called on, and the store.
\<close>

definition write_pgpass ::
  "target_config \<Rightarrow> secret_store \<Rightarrow> (string + string) \<times> target_config \<times> secret_store" where
  "write_pgpass cfg st =
     (if password_bytes cfg st = [] then (Inl ''target-env-credential'', cfg, st)
      else (Inr (pgpass_field (t_host cfg) @ '':'' @ dec_of_nat (t_port cfg) @ '':*:''
                 @ pgpass_field (t_user cfg) @ '':'' @ pgpass_field (password_bytes cfg st) @ [CHR 0x0A]),
            release cfg st))"

section \<open>Parsing the environment file\<close>

definition target_identifier :: "string \<Rightarrow> bool" where
  "target_identifier value \<longleftrightarrow>
     value \<noteq> [] \<and> length value \<le> 63 \<and>
     list_all (\<lambda>i. let c = (of_char (value ! i) :: nat) in
                 (97 \<le> c \<and> c \<le> 122) \<or> (65 \<le> c \<and> c \<le> 90) \<or> c = 95 \<or> (0 < i \<and> 48 \<le> c \<and> c \<le> 57))
       [0..<length value]"

definition contains_any :: "string \<Rightarrow> string \<Rightarrow> bool" where
  "contains_any s chars \<longleftrightarrow> list_ex (\<lambda>c. c \<in> set chars) s"

definition target_keys :: "string list" where
  "target_keys =
     [''POSTGRES_HOST'', ''POSTGRES_PORT'', ''POSTGRES_USER'', ''POSTGRES_PASSWORD'', ''POSTGRES_DATABASE'']"

text \<open>The value's forbidden characters: backslash, both quotes, dollar and hash.\<close>

definition shell_specials :: string where
  "shell_specials = [CHR 0x5C, CHR 0x22, CHR 0x27, CHR ''$'', CHR ''#'']"

text \<open>One line: an error, no binding, or a binding.\<close>

definition target_line :: "(string \<rightharpoonup> string) \<Rightarrow> string \<Rightarrow> string + (string \<times> string) option" where
  "target_line values line =
     (let trimmed = trim_space line in
      if trimmed = [] \<or> prefix ''#'' trimmed then Inr None
      else case cut_char CHR ''='' line of
        None \<Rightarrow> Inl ''target-env-malformed''
      | Some (key, value) \<Rightarrow>
          if CHR ''='' \<in> set value \<or> trim_space key \<noteq> key \<or> key = [] \<or> prefix ''export '' key
          then Inl ''target-env-malformed''
          else if key \<notin> set target_keys then Inr None
          else if values key \<noteq> None then Inl ''target-env-duplicate-key''
          else if value = [] then Inl ''target-env-empty-key''
          else if contains_any value shell_specials \<or> CHR '' '' \<in> set value then Inl ''target-env-malformed''
          else Inr (Some (key, value)))"

fun target_lines :: "(string \<rightharpoonup> string) \<Rightarrow> string list \<Rightarrow> string + (string \<rightharpoonup> string)" where
  "target_lines values [] = Inr values"
| "target_lines values (line # lines) =
     (case target_line values line of
        Inl e \<Rightarrow> Inl e
      | Inr None \<Rightarrow> target_lines values lines
      | Inr (Some (k, v)) \<Rightarrow> target_lines (values(k \<mapsto> v)) lines)"

definition target_value :: "(string \<rightharpoonup> string) \<Rightarrow> string \<Rightarrow> string" where
  "target_value values key = (case values key of None \<Rightarrow> [] | Some v \<Rightarrow> v)"

text \<open>\<open>parseTargetEnv\<close>; the second component of a success is the password.\<close>

definition parse_target_env :: "string \<Rightarrow> string + (target_config \<times> string)" where
  "parse_target_env data =
     (if contains_any data [CHR 0x00, CHR 0x0D] then Inl ''target-env-malformed''
      else case target_lines Map.empty (split_char CHR 0x0A data) of
        Inl e \<Rightarrow> Inl e
      | Inr values \<Rightarrow>
          let v = target_value values in
          if list_ex (\<lambda>k. v k = []) target_keys then Inl ''target-env-missing-key''
          else if v ''POSTGRES_HOST'' \<noteq> ''127.0.0.1'' then Inl ''target-env-invalid-host''
          else (case parse_uint 16 (v ''POSTGRES_PORT'') of
            None \<Rightarrow> Inl ''target-env-invalid-port''
          | Some port \<Rightarrow>
              if v ''POSTGRES_PORT'' \<noteq> dec_of_nat port \<or> port = 0 then Inl ''target-env-invalid-port''
              else if \<not> target_identifier (v ''POSTGRES_USER'') then Inl ''target-env-invalid-user''
              else if \<not> target_identifier (v ''POSTGRES_DATABASE'') \<or> v ''POSTGRES_DATABASE'' = ''postgres''
              then Inl ''target-env-invalid-database''
              else Inr (\<lparr>t_host = v ''POSTGRES_HOST'', t_port = port, t_user = v ''POSTGRES_USER'',
                         t_database = v ''POSTGRES_DATABASE'', t_password = None\<rparr>,
                        v ''POSTGRES_PASSWORD'')))"

section \<open>Reading the file\<close>

text \<open>
  What the operating system reports about one path: \<open>Lstat\<close> (whether it is a regular
  file), \<open>Open\<close>, \<open>Stat\<close> of the open file (regular, and its size), \<open>os.SameFile\<close>, and
  the bytes a read returns.
\<close>

record env_file =
  lstat_regular :: "bool option"
  can_open :: bool
  open_stat :: "(bool \<times> int) option"
  same_file :: bool
  file_bytes :: "string option"

definition target_env_max_bytes :: nat where "target_env_max_bytes = 64 * 1024"

definition store_password ::
  "target_config \<times> string \<Rightarrow> secret_store \<Rightarrow> target_config \<times> secret_store" where
  "store_password parsed st =
     ((fst parsed)\<lparr>t_password := Some (next_addr st)\<rparr>,
      \<lparr>contents = (contents st)(next_addr st := snd parsed), next_addr = Suc (next_addr st)\<rparr>)"

definition read_target_database ::
  "bool \<Rightarrow> env_file \<Rightarrow> secret_store \<Rightarrow> (string + target_config) \<times> secret_store" where
  "read_target_database cancelled f st =
     (if cancelled then (Inl ''target-env-cancelled'', st)
      else if lstat_regular f \<noteq> Some True \<or> \<not> can_open f then (Inl ''target-env-unsafe-file'', st)
      else case open_stat f of
        None \<Rightarrow> (Inl ''target-env-unsafe-file'', st)
      | Some (regular, filesize) \<Rightarrow>
          if \<not> regular \<or> \<not> same_file f then (Inl ''target-env-unsafe-file'', st)
          else if filesize < 0 \<or> filesize > int target_env_max_bytes then (Inl ''target-env-too-large'', st)
          else (case file_bytes f of
            None \<Rightarrow> (Inl ''target-env-too-large'', st)
          | Some bytes \<Rightarrow>
              let data = take (target_env_max_bytes + 1) bytes in
              if length data > target_env_max_bytes then (Inl ''target-env-too-large'', st)
              else (case parse_target_env data of
                Inl e \<Rightarrow> (Inl e, st)
              | Inr parsed \<Rightarrow> (case store_password parsed st of (cfg, st1) \<Rightarrow> (Inr cfg, st1)))))"

section \<open>What a parsed configuration guarantees\<close>

definition valid_target :: "target_config \<Rightarrow> bool" where
  "valid_target cfg \<longleftrightarrow>
     t_host cfg = ''127.0.0.1'' \<and> 0 < t_port cfg \<and> t_port cfg < 65536 \<and>
     target_identifier (t_user cfg) \<and> target_identifier (t_database cfg) \<and> t_database cfg \<noteq> ''postgres''"

lemma target_line_Some:
  "target_line vs line = Inr (Some (k, v)) \<Longrightarrow>
   k \<in> set target_keys \<and> vs k = None \<and> v \<noteq> [] \<and> \<not> contains_any v shell_specials \<and>
   CHR '' '' \<notin> set v \<and> line = k @ ''='' @ v"
  by (auto simp: target_line_def Let_def split: if_splits option.splits prod.splits dest: cut_char_SomeD)

lemma target_lines_values:
  "target_lines vs lines = Inr vs' \<Longrightarrow> vs' k = Some v \<Longrightarrow>
   vs k = Some v \<or>
   k \<in> set target_keys \<and> v \<noteq> [] \<and> \<not> contains_any v shell_specials \<and> k @ ''='' @ v \<in> set lines"
proof (induction lines arbitrary: vs)
  case (Cons line lines)
  show ?case
  proof (cases "\<exists>k' v'. target_line vs line = Inr (Some (k', v'))")
    case True
    then obtain k' v' where kv: "target_line vs line = Inr (Some (k', v'))" by blast
    with Cons.prems have "target_lines (vs(k' \<mapsto> v')) lines = Inr vs'" by simp
    from Cons.IH [OF this Cons.prems(2)] target_line_Some [OF kv] show ?thesis
      by (cases "k = k'") auto
  next
    case False
    with Cons.prems have "target_lines vs lines = Inr vs'"
      by (auto split: sum.splits option.splits)
    from Cons.IH [OF this Cons.prems(2)] show ?thesis by auto
  qed
qed simp

lemma parse_target_env_valid:
  "parse_target_env data = Inr (cfg, pw) \<Longrightarrow>
   valid_target cfg \<and> t_password cfg = None \<and> pw \<noteq> [] \<and> \<not> contains_any pw shell_specials \<and>
   ''POSTGRES_PASSWORD='' @ pw \<in> set (split_char CHR 0x0A data)"
proof -
  assume parse: "parse_target_env data = Inr (cfg, pw)"
  then obtain vs where vs: "target_lines Map.empty (split_char CHR 0x0A data) = Inr vs"
    by (auto simp: parse_target_env_def split: if_splits sum.splits)
  have v: "\<exists>v. vs ''POSTGRES_PASSWORD'' = Some v \<and> v = pw" and valid: "valid_target cfg \<and> t_password cfg = None"
    using parse vs parse_uint_bound [of 16]
    by (auto simp: parse_target_env_def Let_def target_value_def target_keys_def valid_target_def
        split: if_splits option.splits)
  with target_lines_values [OF vs, of "''POSTGRES_PASSWORD''" pw] show ?thesis by auto
qed

end
