(* ===== verification/MigrationBase.thy ===== *)
theory MigrationBase
  imports TargetEnv
begin

text \<open>
  What the migration components share: the host they act on, the events they leave, and
  the process boundary of \<open>internal/migration/process.go\<close> and
  \<open>internal/migration/privileged_docker.go\<close>.  The operating system's file operations and
  the execution of a process are parameters; the store of secret byte arrays is the
  program's own memory and part of the state.
\<close>

section \<open>The host\<close>

record 'w host =
  outside :: 'w
  secrets :: secret_store

text \<open>File information as \<open>os.Lstat\<close> gives it, with the numeric owner.\<close>

record file_info =
  is_dir :: bool
  is_regular :: bool
  is_symlink :: bool
  perm :: nat
  file_size :: int
  owner :: "(int \<times> int) option"
  sticky :: bool

datatype file_op =
    MkdirTemp string string
  | Chmod string nat
  | RemoveAll string
  | RemoveFile string
  | CreateExclusive string nat
  | WriteTo string string
  | WriteWhole string string nat
  | CloseFile string
  | Lstat string
  | ReadWhole string
  | SyncFile string
  | SyncDirectory string
  | RenameNoReplace string string
  | RandomToken
  | OpenNoFollow string
  | StatOpened string
  | ReadOpened string
  | Mkdir string nat
  | Stat string

text \<open>Failures are told apart where the code asks \<open>os.IsNotExist\<close> or \<open>os.IsExist\<close>.\<close>

datatype os_reply =
    OsError | OsNotExist | OsExist | OsDone | OsPath string | OsInfo file_info | OsData string

definition os_success :: "os_reply \<Rightarrow> bool" where
  "os_success r \<longleftrightarrow> r \<notin> {OsError, OsNotExist, OsExist}"

lemma os_success_simps [simp]:
  "os_success OsDone" "os_success (OsPath p)" "os_success (OsInfo i)" "os_success (OsData d)"
  "\<not> os_success OsError" "\<not> os_success OsNotExist" "\<not> os_success OsExist"
  by (simp_all add: os_success_def)

type_synonym 'w os = "file_op \<Rightarrow> ('w, os_reply) oper"

section \<open>Processes\<close>

record process_spec =
  p_name :: string
  p_args :: "string list"
  p_timeout :: int

datatype process_outcome =
    ProcessSucceeded | ProcessFailed | ProcessCancelled | ProcessTimedOut | ProcessCleanupFailed

record process_result =
  p_outcome :: process_outcome
  stderr_code :: string

text \<open>
  A \<open>BinaryExecutor\<close>: the result, and the chunks it writes to the stdout writer it was
  given.
\<close>

type_synonym 'w executor = "process_spec \<Rightarrow> ('w, process_result \<times> string list) oper"

section \<open>Events\<close>

text \<open>
  File operations and processes, and the phases of the restore coordinator: the calls
  it makes to its collaborators, with whether they succeeded.
\<close>

datatype phase =
    WaitPhase | IdentityPhase | StopPhase | StartPhase | EnvPhase | RevalidatePhase string
  | ReachPhase | BackupPhase | ReplacePhase string bool | HealthPhase | StoppedPhase

datatype migration_event =
    FileOp file_op bool
  | Exec process_spec process_outcome
  | Command cmd_event
  | Phase phase bool

type_synonym 'w msys = "('w host, migration_event) sys"
type_synonym ('w, 'a) meff = "ctx \<Rightarrow> 'w msys \<Rightarrow> 'a \<times> 'w msys"

text \<open>A computation over external commands, run on the outside world.\<close>

definition lift_cmd :: "('w, cmd_event, 'a) effect \<Rightarrow> ('w, 'a) meff" where
  "lift_cmd m c s =
     (case m c \<lparr>world = outside (world s), clock = clock s, trace = []\<rparr> of
        (r, s1) \<Rightarrow>
          (r, \<lparr>world = (world s)\<lparr>outside := world s1\<rparr>, clock = max (clock s) (clock s1),
               trace = trace s @ map Command (trace s1)\<rparr>))"

text \<open>An operation of the outside world: it cannot reach the program's memory.\<close>

definition outer :: "('w, 'a) oper \<Rightarrow> ('w host, 'a) oper" where
  "outer f c now h = (case f c now (outside h) of (r, d, w) \<Rightarrow> (r, d, h\<lparr>outside := w\<rparr>))"

definition os_call :: "'w os \<Rightarrow> file_op \<Rightarrow> 'w msys \<Rightarrow> os_reply \<times> 'w msys" where
  "os_call os fop s = call (\<lambda>r. FileOp fop (os_success r)) (outer (os fop)) background s"

definition os_ok :: "'w os \<Rightarrow> file_op \<Rightarrow> 'w msys \<Rightarrow> bool \<times> 'w msys" where
  "os_ok os fop s = (case os_call os fop s of (r, s1) \<Rightarrow> (os_success r, s1))"

definition exec_call ::
  "'w executor \<Rightarrow> process_spec \<Rightarrow> ctx \<Rightarrow> 'w msys \<Rightarrow> (process_result \<times> string list) \<times> 'w msys" where
  "exec_call x spec c s = call (\<lambda>r. Exec spec (p_outcome (fst r))) (outer (x spec)) c s"

definition with_secrets :: "(secret_store \<Rightarrow> 'a \<times> secret_store) \<Rightarrow> 'w msys \<Rightarrow> 'a \<times> 'w msys" where
  "with_secrets f s =
     (case f (secrets (world s)) of (r, st) \<Rightarrow> (r, s\<lparr>world := (world s)\<lparr>secrets := st\<rparr>\<rparr>))"

lemma os_call_grew: "os_call os fop s = (r, s') \<Longrightarrow> grew s s' [FileOp fop (os_success r)]"
  unfolding os_call_def by (rule grew_call)

lemma os_ok_grew: "os_ok os fop s = (b, s') \<Longrightarrow> grew s s' [FileOp fop b]"
  by (auto simp: os_ok_def split: prod.splits dest: os_call_grew)

lemma exec_call_grew: "exec_call x spec c s = (r, s') \<Longrightarrow> grew s s' [Exec spec (p_outcome (fst r))]"
  unfolding exec_call_def by (rule grew_call)

lemma with_secrets_grew: "with_secrets f s = (r, s') \<Longrightarrow> grew s s' []"
  by (auto simp: with_secrets_def grew_def split: prod.splits)

lemma call_outer_secrets:
  "call ev (outer f) c s = (r, s') \<Longrightarrow> secrets (world s') = secrets (world s)"
  by (auto simp: call_def outer_def split: prod.splits)

lemma os_call_secrets: "os_call os fop s = (r, s') \<Longrightarrow> secrets (world s') = secrets (world s)"
  unfolding os_call_def by (rule call_outer_secrets)

lemma os_ok_secrets: "os_ok os fop s = (r, s') \<Longrightarrow> secrets (world s') = secrets (world s)"
  by (auto simp: os_ok_def split: prod.splits dest: os_call_secrets)

lemma exec_call_secrets: "exec_call x spec c s = (r, s') \<Longrightarrow> secrets (world s') = secrets (world s)"
  unfolding exec_call_def by (rule call_outer_secrets)

section \<open>The privileged Docker boundary\<close>

definition default_process_timeout :: int where "default_process_timeout = 30 * 60 * 1000000000"

definition sudo_docker_permission_code :: string where
  "sudo_docker_permission_code = ''sudo-docker-permission''"

definition process_failed :: "string \<Rightarrow> process_result" where
  "process_failed code = \<lparr>p_outcome = ProcessFailed, stderr_code = code\<rparr>"

text \<open>
  \<open>SudoDockerExecutor.Run\<close> with a writer (every caller passes one).  It is itself a
  \<open>BinaryExecutor\<close>; a specification it rejects runs nothing.
\<close>

definition sudo_docker :: "'w executor \<Rightarrow> 'w executor" where
  "sudo_docker x spec c now w =
     (if p_name spec \<noteq> ''docker'' \<or> p_args spec = []
      then ((process_failed ''process-precondition'', []), 0, w)
      else (case x \<lparr>p_name = ''sudo'', p_args = [''-n'', ''docker''] @ p_args spec,
                    p_timeout = p_timeout spec\<rparr> c now w of
        ((r, chunks), d, w1) \<Rightarrow>
          ((if p_outcome r = ProcessFailed \<and> stderr_code r = sudo_docker_permission_code
            then process_failed sudo_docker_permission_code else r, chunks), d, w1)))"

text \<open>
  A writer that keeps at most \<open>limit\<close> bytes: \<open>all_or_nothing\<close> says whether a chunk that
  does not fit is dropped (the inspector and listing buffers) or cut (\<open>boundedOutput\<close>).
\<close>

definition bounded_write :: "nat \<Rightarrow> bool \<Rightarrow> string \<Rightarrow> string \<Rightarrow> string" where
  "bounded_write limit all_or_nothing buf chunk =
     (if length buf + length chunk \<le> limit then buf @ chunk
      else if all_or_nothing then buf
      else buf @ take (limit - length buf) chunk)"

definition bounded_output :: "nat \<Rightarrow> bool \<Rightarrow> string list \<Rightarrow> string" where
  "bounded_output limit all_or_nothing chunks = foldl (bounded_write limit all_or_nothing) [] chunks"

lemma bounded_write_length: "length buf \<le> limit \<Longrightarrow> length (bounded_write limit b buf chunk) \<le> limit"
  by (simp add: bounded_write_def)

lemma bounded_output_length: "length (bounded_output limit b chunks) \<le> limit"
proof -
  have "length buf \<le> limit \<Longrightarrow> length (foldl (bounded_write limit b) buf chunks) \<le> limit" for buf
    by (induction chunks arbitrary: buf) (auto intro: bounded_write_length)
  then show ?thesis by (simp add: bounded_output_def)
qed

lemma bounded_output_cut: "bounded_output limit False chunks = take limit (concat chunks)"
proof -
  have "length buf \<le> limit \<Longrightarrow>
    foldl (bounded_write limit False) buf chunks = take limit (buf @ concat chunks)" for buf
  proof (induction chunks arbitrary: buf)
    case (Cons x xs)
    have "length (bounded_write limit False buf x) \<le> limit"
      using Cons.prems by (rule bounded_write_length)
    from Cons.IH [OF this] Cons.prems show ?case
      by (auto simp: bounded_write_def)
  qed simp
  then show ?thesis by (simp add: bounded_output_def)
qed

text \<open>\<open>RunDocker\<close>: the output, or the error.\<close>

definition run_docker ::
  "'w executor \<Rightarrow> string \<Rightarrow> string list \<Rightarrow> ctx \<Rightarrow> 'w msys \<Rightarrow> (string + string) \<times> 'w msys" where
  "run_docker x name args c s =
     (if name \<noteq> ''docker'' \<or> args = [] then (Inl ''migration process precondition failed'', s)
      else (case exec_call (sudo_docker x) \<lparr>p_name = name, p_args = args, p_timeout = 30 * 1000000000\<rparr> c s of
        ((r, chunks), s1) \<Rightarrow>
          if p_outcome r = ProcessSucceeded then (Inr (bounded_output (2 ^ 20) True chunks), s1)
          else if stderr_code r = sudo_docker_permission_code then (Inl sudo_docker_permission_code, s1)
          else (Inl ''migration process precondition failed'', s1)))"

section \<open>Credential files\<close>

record credential_file =
  host_path :: string
  cred_root :: string
  owner_uid :: int
  owner_gid :: int

definition credential_cleanup :: "'w os \<Rightarrow> credential_file \<Rightarrow> 'w msys \<Rightarrow> bool \<times> 'w msys" where
  "credential_cleanup os f s =
     (if cred_root f = [] then (True, s) else os_ok os (RemoveAll (cred_root f)) s)"

definition owned_by :: "file_info \<Rightarrow> int \<Rightarrow> int \<Rightarrow> bool" where
  "owned_by i uid gid \<longleftrightarrow> owner i = Some (uid, gid)"

definition safe_credential :: "'w os \<Rightarrow> credential_file \<Rightarrow> 'w msys \<Rightarrow> bool \<times> 'w msys" where
  "safe_credential os f s =
     (if cred_root f = [] \<or> host_path f \<noteq> path_join [cred_root f, ''pgpass''] \<or> \<not> is_abs (cred_root f)
         \<or> owner_uid f < 0 \<or> owner_gid f < 0
      then (False, s)
      else (case os_call os (Lstat (cred_root f)) s of
        (OsInfo dir, s1) \<Rightarrow>
          if \<not> is_dir dir \<or> is_symlink dir \<or> perm dir \<noteq> 0x1C0 \<or> \<not> owned_by dir (owner_uid f) (owner_gid f)
          then (False, s1)
          else (case os_call os (Lstat (host_path f)) s1 of
            (OsInfo file, s2) \<Rightarrow>
              (is_regular file \<and> \<not> is_symlink file \<and> perm file = 0x180
               \<and> owned_by file (owner_uid f) (owner_gid f), s2)
          | (_, s2) \<Rightarrow> (False, s2))
      | (_, s1) \<Rightarrow> (False, s1)))"

text \<open>The two failures of \<open>Prepare\<close> after the directory exists remove it.\<close>

definition drop_credential_root :: "'w os \<Rightarrow> string \<Rightarrow> 'w msys \<Rightarrow> credential_file option \<times> 'w msys" where
  "drop_credential_root os root s = (None, snd (os_ok os (RemoveAll root) s))"

definition finish_credential ::
  "'w os \<Rightarrow> string \<Rightarrow> string \<Rightarrow> 'w msys \<Rightarrow> credential_file option \<times> 'w msys" where
  "finish_credential os root path s =
     (case os_ok os (Chmod path 0x180) s of
        (False, s1) \<Rightarrow> drop_credential_root os root s1
      | (True, s1) \<Rightarrow>
          (case os_call os (Lstat path) s1 of
             (OsInfo i, s2) \<Rightarrow>
               (case owner i of
                  None \<Rightarrow> drop_credential_root os root s2
                | Some (uid, gid) \<Rightarrow>
                    (Some \<lparr>host_path = path, cred_root = root, owner_uid = uid, owner_gid = gid\<rparr>, s2))
           | (_, s2) \<Rightarrow> drop_credential_root os root s2))"

text \<open>
  Writing the credential through \<open>WritePGPass\<close> on the callee's copy of the config: the
  file gets the line, and the array both copies share is zeroed.
\<close>

definition write_target_pgpass ::
  "'w os \<Rightarrow> target_config \<Rightarrow> string \<Rightarrow> 'w msys \<Rightarrow> bool \<times> 'w msys" where
  "write_target_pgpass os cfg path s =
     (case with_secrets (\<lambda>st. case write_pgpass cfg st of (r, cfg1, st1) \<Rightarrow> (r, st1)) s of
        (Inl _, s1) \<Rightarrow> (False, s1)
      | (Inr line, s1) \<Rightarrow> os_ok os (WriteTo path line) s1)"

definition prepare_target_credential ::
  "'w os \<Rightarrow> string \<Rightarrow> string \<Rightarrow> target_config \<Rightarrow> 'w msys \<Rightarrow> credential_file option \<times> 'w msys" where
  "prepare_target_credential os temp_dir temp_root cfg s =
     (let parent = (if temp_root = [] then temp_dir else temp_root) in
      case os_call os (MkdirTemp parent ''alice-pgpass-'') s of
        (OsPath root, s1) \<Rightarrow>
          (case os_ok os (Chmod root 0x1C0) s1 of
             (False, s2) \<Rightarrow> drop_credential_root os root s2
           | (True, s2) \<Rightarrow>
               let path = path_join [root, ''pgpass''] in
               (case os_ok os (CreateExclusive path 0x180) s2 of
                  (False, s3) \<Rightarrow> drop_credential_root os root s3
                | (True, s3) \<Rightarrow>
                    (case write_target_pgpass os cfg path s3 of (written, s4) \<Rightarrow>
                      (case os_ok os (CloseFile path) s4 of (closed, s5) \<Rightarrow>
                         if \<not> written \<or> \<not> closed then drop_credential_root os root s5
                         else finish_credential os root path s5))))
      | (_, s1) \<Rightarrow> (None, s1))"

section \<open>Helper containers\<close>

text \<open>
  A helper container is named, so that it can be removed even when the client that
  started it lost control.
\<close>

record helper_run =
  h_name :: string
  h_operation_id :: string
  h_image :: string
  h_spec :: process_spec

definition cleanup_spec :: "string \<Rightarrow> process_spec" where
  "cleanup_spec name = \<lparr>p_name = ''docker'', p_args = [''rm'', ''--force'', name], p_timeout = 30 * 1000000000\<rparr>"

definition cleanup_helper :: "'w executor option \<Rightarrow> string \<Rightarrow> ('w, bool) meff" where
  "cleanup_helper x name c s =
     (case x of
        None \<Rightarrow> (False, s)
      | Some x' \<Rightarrow>
          if name = [] then (False, s)
          else (case exec_call x' (cleanup_spec name) c s of
            ((r, _), s1) \<Rightarrow>
              (p_outcome r = ProcessSucceeded \<or>
               p_outcome r = ProcessFailed \<and> stderr_code r = ''docker-container-absent'', s1)))"

text \<open>The bounded context of a cleanup, independent of the caller's.\<close>

definition cleanup_context :: "nat \<Rightarrow> ctx" where
  "cleanup_context now = with_timeout background now (30 * second)"

definition run_helper ::
  "'w os \<Rightarrow> 'w executor option \<Rightarrow> helper_run \<Rightarrow> credential_file \<Rightarrow>
   ('w, process_result \<times> string list) meff" where
  "run_helper os x run credential c s =
     (case x of
        None \<Rightarrow> ((process_failed ''process-precondition'', []), s)
      | Some x' \<Rightarrow>
          if h_name run = [] then ((process_failed ''process-precondition'', []), s)
          else (case exec_call x' (h_spec run) c s of
            ((r, chunks), s1) \<Rightarrow>
              (case cleanup_helper x (h_name run) (cleanup_context (clock s1)) s1 of
                 (cleaned, s2) \<Rightarrow>
                   (case credential_cleanup os credential s2 of
                      (removed, s3) \<Rightarrow>
                        if \<not> cleaned \<or> \<not> removed
                        then ((\<lparr>p_outcome = ProcessCleanupFailed, stderr_code = ''process-cleanup-failed''\<rparr>, chunks), s3)
                        else ((r, chunks), s3)))))"

text \<open>\<open>classifyStderr\<close>, on the (at most 4096) bytes that were kept.\<close>

definition classify_stderr :: "string \<Rightarrow> string" where
  "classify_stderr data =
     (if contains_str data ''No such container:'' then ''docker-container-absent''
      else if contains_str data ''a password is required'' \<or> contains_str data ''not allowed to execute''
              \<or> contains_str data ''permission denied''
      then sudo_docker_permission_code
      else ''process-failed'')"

section \<open>Computations that only touch files\<close>

fun is_file_op :: "migration_event \<Rightarrow> bool" where
  "is_file_op (FileOp fop ok) = True"
| "is_file_op e = False"

definition files_only :: "'w msys \<Rightarrow> 'w msys \<Rightarrow> bool" where
  "files_only s s' \<longleftrightarrow> (\<exists>es. grew s s' es \<and> list_all is_file_op es)"

lemma files_only_refl [simp]: "files_only s s"
  unfolding files_only_def by (rule exI [of _ "[]"]) simp

lemma files_only_trans: "files_only s s' \<Longrightarrow> files_only s' s'' \<Longrightarrow> files_only s s''"
  unfolding files_only_def by (metis grew_trans list_all_append)

lemma files_only_grew: "grew s s' es \<Longrightarrow> list_all is_file_op es \<Longrightarrow> files_only s s'"
  unfolding files_only_def by blast

lemma os_call_files: "os_call os fop s = (r, s') \<Longrightarrow> files_only s s'"
  by (drule os_call_grew, erule files_only_grew) simp

lemma os_ok_files: "os_ok os fop s = (r, s') \<Longrightarrow> files_only s s'"
  by (drule os_ok_grew, erule files_only_grew) simp

lemma os_ok_snd_files [simp]: "files_only s (snd (os_ok os fop s))"
  using os_ok_files by (metis prod.collapse)

lemma with_secrets_files: "with_secrets f s = (r, s') \<Longrightarrow> files_only s s'"
  by (drule with_secrets_grew, erule files_only_grew) simp

lemma credential_cleanup_files: "credential_cleanup os f s = (r, s') \<Longrightarrow> files_only s s'"
  by (auto simp: credential_cleanup_def split: if_splits dest: os_ok_files)

lemmas file_calls = os_call_files os_ok_files with_secrets_files credential_cleanup_files

lemma safe_credential_files: "safe_credential os f s = (r, s') \<Longrightarrow> files_only s s'"
  by (auto simp: safe_credential_def split: prod.splits if_splits os_reply.splits
      dest!: file_calls intro: files_only_trans)

lemma drop_credential_root_files: "drop_credential_root os root s = (r, s') \<Longrightarrow> files_only s s'"
  by (auto simp: drop_credential_root_def)

lemma finish_credential_files: "finish_credential os root path s = (r, s') \<Longrightarrow> files_only s s'"
  by (auto simp: finish_credential_def split: prod.splits bool.splits os_reply.splits option.splits
      dest!: file_calls drop_credential_root_files intro: files_only_trans)

lemma write_target_pgpass_files: "write_target_pgpass os cfg path s = (r, s') \<Longrightarrow> files_only s s'"
  by (auto simp: write_target_pgpass_def split: prod.splits sum.splits dest!: file_calls intro: files_only_trans)

lemma prepare_target_credential_files:
  "prepare_target_credential os dir root cfg s = (r, s') \<Longrightarrow> files_only s s'"
  unfolding prepare_target_credential_def Let_def
  by (auto split: prod.splits bool.splits os_reply.splits if_splits
      dest!: file_calls drop_credential_root_files finish_credential_files write_target_pgpass_files
      intro: files_only_trans) (meson files_only_trans)+

section \<open>The password after it was used\<close>

lemma release_zeroes:
  "release cfg st = (cfg', st') \<Longrightarrow>
   password_bytes cfg st' = replicate (length (password_bytes cfg st)) CHR 0x00"
  by (auto simp: release_def password_bytes_def split: option.splits)

lemma write_target_pgpass_secrets:
  assumes "write_target_pgpass os cfg path s = (True, s')"
  shows "password_bytes cfg (secrets (world s)) \<noteq> [] \<and>
    password_bytes cfg (secrets (world s')) =
      replicate (length (password_bytes cfg (secrets (world s)))) CHR 0x00"
proof -
  let ?st = "secrets (world s)"
  let ?s1 = "s\<lparr>world := (world s)\<lparr>secrets := snd (release cfg ?st)\<rparr>\<rparr>"
  obtain line where ne: "password_bytes cfg ?st \<noteq> []" and run: "os_ok os (WriteTo path line) ?s1 = (True, s')"
    using assms
    by (auto simp: write_target_pgpass_def with_secrets_def write_pgpass_def split: prod.splits if_splits)
  from os_ok_secrets [OF run] have "secrets (world s') = snd (release cfg ?st)" by simp
  then show ?thesis
    using ne release_zeroes [of cfg ?st "fst (release cfg ?st)" "snd (release cfg ?st)"] by simp
qed

lemma finish_credential_secrets:
  "finish_credential os root path s = (r, s') \<Longrightarrow> secrets (world s') = secrets (world s)"
  unfolding finish_credential_def drop_credential_root_def
  by (auto split: prod.splits bool.splits os_reply.splits option.splits
      dest!: os_ok_secrets os_call_secrets) (metis os_ok_secrets prod.collapse)+

text \<open>
  A credential that was prepared is the last one this config can be used for: the byte
  array it shares with every copy holds only zeros afterwards.
\<close>

lemma prepare_consumes_password:
  assumes "prepare_target_credential os dir root cfg s = (Some credential, s')"
  shows "password_bytes cfg (secrets (world s)) \<noteq> [] \<and>
    password_bytes cfg (secrets (world s')) =
      replicate (length (password_bytes cfg (secrets (world s)))) CHR 0x00"
proof -
  let ?parent = "if root = [] then dir else root"
  obtain r s1 where 1: "os_call os (MkdirTemp ?parent ''alice-pgpass-'') s = (r, s1)" by fastforce
  then obtain d where d: "r = OsPath d"
    using assms by (cases r) (auto simp: prepare_target_credential_def Let_def)
  let ?path = "path_join [d, ''pgpass'']"
  obtain a s2 where 2: "os_ok os (Chmod d 0x1C0) s1 = (a, s2)" by fastforce
  obtain b s3 where 3: "os_ok os (CreateExclusive ?path 0x180) s2 = (b, s3)" by fastforce
  obtain v s4 where 4: "write_target_pgpass os cfg ?path s3 = (v, s4)" by fastforce
  obtain e s5 where 5: "os_ok os (CloseFile ?path) s4 = (e, s5)" by fastforce
  have "a \<and> b \<and> v \<and> e \<and> finish_credential os d ?path s5 = (Some credential, s')"
    using assms 1 2 3 4 5 d
    by (auto simp: prepare_target_credential_def Let_def drop_credential_root_def split: bool.splits if_splits)
  then have w: "write_target_pgpass os cfg ?path s3 = (True, s4)" and c: "os_ok os (CloseFile ?path) s4 = (True, s5)"
    and f: "finish_credential os d ?path s5 = (Some credential, s')"
    using 4 5 by simp_all
  have "secrets (world s3) = secrets (world s)"
    using os_call_secrets [OF 1] os_ok_secrets [OF 2] os_ok_secrets [OF 3] by simp
  with write_target_pgpass_secrets [OF w] os_ok_secrets [OF c] finish_credential_secrets [OF f]
  show ?thesis by simp
qed

end
