(* ===== verification/RestoreProcess.thy ===== *)
theory RestoreProcess
  imports MigrationBase
begin

text \<open>
  \<open>internal/migration/restore_process.go\<close>: the fixed plan of five Docker processes that
  replaces the target database, its execution, and the evidence read from the last one.
\<close>

section \<open>Preconditions\<close>

definition replacement_identifier :: "string \<Rightarrow> bool" where
  "replacement_identifier value \<longleftrightarrow>
     value \<noteq> [] \<and> length value \<le> 63 \<and>
     list_all (\<lambda>i. let c = (of_char (value ! i) :: nat) in
                 (97 \<le> c \<and> c \<le> 122) \<or> (65 \<le> c \<and> c \<le> 90) \<or> c = 95 \<or> (0 < i \<and> 48 \<le> c \<and> c \<le> 57))
       [0..<length value]"

definition target_config_valid :: "target_config \<Rightarrow> bool" where
  "target_config_valid c \<longleftrightarrow>
     t_host c = ''127.0.0.1'' \<and> 0 < t_port c \<and> replacement_identifier (t_user c) \<and>
     replacement_identifier (t_database c) \<and> t_database c \<noteq> ''postgres''"

definition safe_dump_path :: "string \<Rightarrow> bool" where
  "safe_dump_path path \<longleftrightarrow> is_abs path \<and> path_base path \<noteq> ''.'' \<and> \<not> contains_str path ''..''"

section \<open>The plan\<close>

definition container_pgpass_path :: string where
  "container_pgpass_path = ''/run/alice-installer/pgpass''"

definition postgresql_client_image :: string where
  "postgresql_client_image = ''postgres:16-alpine''"

definition bind_mount :: "string \<Rightarrow> string \<Rightarrow> string" where
  "bind_mount src dst = ''type=bind,src='' @ src @ '',dst='' @ dst @ '',readonly''"

definition run_host :: "string list" where
  "run_host = [''run'', ''--rm'', ''--pull=never'', ''--network'', ''host'']"

definition replacement_common :: "credential_file \<Rightarrow> string \<Rightarrow> string list" where
  "replacement_common credential dump_path =
     run_host @
     [''--mount'', bind_mount (host_path credential) container_pgpass_path,
      ''--mount'', bind_mount (path_join [cred_root credential, ''terminate.sql'']) ''/run/alice-installer/terminate.sql'',
      ''--mount'', bind_mount (path_join [cred_root credential, ''validate.sql'']) ''/run/alice-installer/validate.sql'',
      ''--mount'', bind_mount dump_path ''/run/alice-installer/legacy.dump'',
      ''--env'', ''PGPASSFILE='' @ container_pgpass_path, postgresql_client_image]"

definition replacement_spec :: "string list \<Rightarrow> int \<Rightarrow> string \<Rightarrow> string list \<Rightarrow> process_spec" where
  "replacement_spec common timeout cmd args =
     \<lparr>p_name = ''docker'', p_args = common @ [cmd] @ args, p_timeout = timeout\<rparr>"

definition maintenance_args :: "target_config \<Rightarrow> string list" where
  "maintenance_args cfg =
     [''--host='' @ t_host cfg, ''--port='' @ dec_of_nat (t_port cfg), ''--username='' @ t_user cfg,
      ''--no-password'']"

definition replacement_specs :: "target_config \<Rightarrow> credential_file \<Rightarrow> string \<Rightarrow> int \<Rightarrow> process_spec list" where
  "replacement_specs cfg credential dump_path timeout =
     (let spec = replacement_spec (replacement_common credential dump_path) timeout;
          m = maintenance_args cfg; db = t_database cfg in
      [spec ''psql'' ([''--dbname=postgres'', ''--set=ON_ERROR_STOP=1'', ''-v'', ''target_db='' @ db,
                      ''-f'', ''/run/alice-installer/terminate.sql''] @ m),
       spec ''dropdb'' ([''--if-exists'', ''--force'', ''--maintenance-db=postgres''] @ m @ [db]),
       spec ''createdb'' ([''--maintenance-db=postgres''] @ m @ [db]),
       spec ''pg_restore'' ([''--exit-on-error'', ''--no-owner'', ''--no-privileges''] @ m @
                           [''--dbname='' @ db, ''/run/alice-installer/legacy.dump'']),
       spec ''psql'' ([''--dbname='' @ db, ''--set=ON_ERROR_STOP=1'', ''--tuples-only'', ''--no-align'',
                      ''-v'', ''target_db='' @ db, ''-f'', ''/run/alice-installer/validate.sql''] @ m)])"

definition replacement_sql :: "(string \<times> string) list" where
  "replacement_sql =
     [(''terminate.sql'', ''SELECT pg_terminate_backend(pid) FROM pg_stat_activity WHERE datname = :'' @ [CHR 0x27] @
        ''target_db'' @ [CHR 0x27] @ '' AND pid <> pg_backend_pid();'' @ [CHR 0x0A]),
      (''validate.sql'', ''SELECT current_database() = :'' @ [CHR 0x27] @ ''target_db'' @ [CHR 0x27] @
        ''; SELECT count(*) FROM pg_tables WHERE schemaname NOT IN ('' @ [CHR 0x27] @ ''pg_catalog'' @ [CHR 0x27] @ '','' @
        [CHR 0x27] @ ''information_schema'' @ [CHR 0x27] @ '','' @ [CHR 0x27] @ ''pg_toast'' @ [CHR 0x27] @ ''); SELECT true;'' @
        [CHR 0x0A])]"

text \<open>
  \<open>writeReplacementSQL\<close>.  The order in which Go iterates over the map of files is not
  specified; the first argument is the order taken.
\<close>

fun write_files :: "'w os \<Rightarrow> string \<Rightarrow> (string \<times> string) list \<Rightarrow> 'w msys \<Rightarrow> bool \<times> 'w msys" where
  "write_files os root [] s = (True, s)"
| "write_files os root ((name, text) # files) s =
     (case os_ok os (WriteWhole (path_join [root, name]) text 0x180) s of
        (False, s1) \<Rightarrow> (False, s1)
      | (True, s1) \<Rightarrow> write_files os root files s1)"

definition write_replacement_sql :: "bool \<Rightarrow> 'w os \<Rightarrow> string \<Rightarrow> 'w msys \<Rightarrow> bool \<times> 'w msys" where
  "write_replacement_sql backwards os root s =
     write_files os root (if backwards then rev replacement_sql else replacement_sql) s"

definition build_target_replacement ::
  "bool \<Rightarrow> 'w os \<Rightarrow> target_config \<Rightarrow> credential_file \<Rightarrow> string \<Rightarrow> int \<Rightarrow> 'w msys \<Rightarrow>
   process_spec list option \<times> 'w msys" where
  "build_target_replacement backwards os cfg credential dump_path timeout s =
     (if \<not> target_config_valid cfg then (None, s)
      else case safe_credential os credential s of
        (False, s1) \<Rightarrow> (None, s1)
      | (True, s1) \<Rightarrow>
          if \<not> safe_dump_path dump_path \<or> timeout < 0 then (None, s1)
          else (case write_replacement_sql backwards os (cred_root credential) s1 of
            (False, s2) \<Rightarrow> (None, s2)
          | (True, s2) \<Rightarrow>
              (Some (replacement_specs cfg credential dump_path
                       (if timeout = 0 then default_process_timeout else timeout)), s2)))"

section \<open>Execution\<close>

datatype replacement_step =
    ReplacementTerminateSessions | ReplacementDropDatabase | ReplacementCreateDatabase
  | ReplacementRestoreArchive | ReplacementValidate

record replacement_result =
  rr_process :: process_result
  failed_step :: replacement_step
  rr_mutated :: bool
  validation_output :: string

definition validation_output_limit :: nat where "validation_output_limit = 128"

definition replacement_failed ::
  "process_result \<Rightarrow> replacement_step \<Rightarrow> bool \<Rightarrow> replacement_result" where
  "replacement_failed p step m =
     \<lparr>rr_process = p, failed_step = step, rr_mutated = m, validation_output = []\<rparr>"

text \<open>
  The loop over the steps that are left; \<open>mutated\<close> becomes true before the drop is
  submitted.  The test of the output's length is the code's, although the writer never
  holds more than the limit.
\<close>

fun replacement_steps ::
  "'w executor \<Rightarrow> bool \<Rightarrow> string \<Rightarrow> (replacement_step \<times> process_spec) list \<Rightarrow> ctx \<Rightarrow> 'w msys \<Rightarrow>
   replacement_result \<times> 'w msys" where
  "replacement_steps x mutated validation [] c s =
     (\<lparr>rr_process = \<lparr>p_outcome = ProcessSucceeded, stderr_code = []\<rparr>,
       failed_step = ReplacementTerminateSessions, rr_mutated = mutated, validation_output = validation\<rparr>, s)"
| "replacement_steps x mutated validation ((step, spec) # rest) c s =
     (if ctx_err c (clock s) \<noteq> None
      then (replacement_failed \<lparr>p_outcome = ProcessCancelled, stderr_code = ''restore-cancelled''\<rparr> step mutated, s)
      else
        let mutated1 = (mutated \<or> step = ReplacementDropDatabase) in
        (case exec_call x spec c s of
          ((r, chunks), s1) \<Rightarrow>
            let validation1 = (if step = ReplacementValidate
                               then bounded_output validation_output_limit False chunks else validation) in
            if step = ReplacementValidate \<and> length validation1 > validation_output_limit
            then (replacement_failed (process_failed ''restore-validation-output'') step mutated1, s1)
            else if p_outcome r \<noteq> ProcessSucceeded
            then (replacement_failed \<lparr>p_outcome = p_outcome r, stderr_code = ''restore-process-failed''\<rparr> step mutated1, s1)
            else replacement_steps x mutated1 validation1 rest c s1))"

definition replacement_order :: "replacement_step list" where
  "replacement_order =
     [ReplacementTerminateSessions, ReplacementDropDatabase, ReplacementCreateDatabase,
      ReplacementRestoreArchive, ReplacementValidate]"

definition run_target_replacement ::
  "'w os \<Rightarrow> 'w executor option \<Rightarrow> process_spec list \<Rightarrow> credential_file \<Rightarrow> ctx \<Rightarrow> 'w msys \<Rightarrow>
   replacement_result \<times> 'w msys" where
  "run_target_replacement os x plan credential c s =
     (case (case x of
              None \<Rightarrow> (replacement_failed (process_failed ''restore-process-precondition'')
                         ReplacementTerminateSessions False, s)
            | Some x' \<Rightarrow> replacement_steps x' False [] (zip replacement_order plan) c s) of
        (result, s1) \<Rightarrow>
          (case credential_cleanup os credential s1 of
             (True, s2) \<Rightarrow> (result, s2)
           | (False, s2) \<Rightarrow>
               (result\<lparr>rr_process := \<lparr>p_outcome = ProcessCleanupFailed, stderr_code = ''restore-cleanup-failed''\<rparr>\<rparr>,
                s2)))"

section \<open>Evidence\<close>

record database_evidence =
  restore_exit_ok :: bool
  connection_ok :: bool
  application_tables :: nat
  postgresql_reachable :: bool

definition no_database_evidence :: database_evidence where
  "no_database_evidence =
     \<lparr>restore_exit_ok = False, connection_ok = False, application_tables = 0, postgresql_reachable = False\<rparr>"

definition parse_validation_evidence :: "string \<Rightarrow> database_evidence option" where
  "parse_validation_evidence output =
     (case str_fields output of
        [a, b, d] \<Rightarrow>
          if a \<noteq> ''t'' \<or> d \<noteq> ''t'' then None
          else (case parse_uint 64 b of
                  None \<Rightarrow> None
                | Some tables \<Rightarrow>
                    if tables = 0 then None
                    else Some \<lparr>restore_exit_ok = True, connection_ok = True, application_tables = tables,
                               postgresql_reachable = True\<rparr>)
      | _ \<Rightarrow> None)"

section \<open>The adapters\<close>

text \<open>
  \<open>TargetReplacementAdapter.Replace\<close> over the production \<open>Prepare\<close>; its result is the
  evidence, whether the database was mutated, and whether there is no error.
\<close>

record 'w replacement_adapter =
  ra_executor :: "'w executor option"
  ra_prepare :: "(target_config \<Rightarrow> 'w msys \<Rightarrow> credential_file option \<times> 'w msys) option"
  ra_timeout :: int

definition target_replace ::
  "bool \<Rightarrow> 'w os \<Rightarrow> 'w replacement_adapter \<Rightarrow> target_config \<Rightarrow> string \<Rightarrow> ctx \<Rightarrow> 'w msys \<Rightarrow>
   (database_evidence \<times> bool \<times> bool) \<times> 'w msys" where
  "target_replace backwards os a cfg dump_path c s =
     (case (ra_executor a, ra_prepare a) of
        (Some x, Some prep) \<Rightarrow>
          (case prep cfg s of
             (None, s1) \<Rightarrow> ((no_database_evidence, False, False), s1)
           | (Some credential, s1) \<Rightarrow>
               (case build_target_replacement backwards os cfg credential dump_path (ra_timeout a) s1 of
                  (None, s2) \<Rightarrow>
                    ((no_database_evidence, False, False), snd (credential_cleanup os credential s2))
                | (Some plan, s2) \<Rightarrow>
                    (case run_target_replacement os (Some x) plan credential c s2 of
                       (result, s3) \<Rightarrow>
                         if p_outcome (rr_process result) \<noteq> ProcessSucceeded
                         then ((no_database_evidence, rr_mutated result, False), s3)
                         else (case parse_validation_evidence (validation_output result) of
                                 None \<Rightarrow> ((no_database_evidence, rr_mutated result, False), s3)
                               | Some ev \<Rightarrow> ((ev, rr_mutated result, True), s3)))))
      | _ \<Rightarrow> ((no_database_evidence, False, False), s))"

definition reachability_spec :: "target_config \<Rightarrow> credential_file \<Rightarrow> int \<Rightarrow> process_spec" where
  "reachability_spec cfg credential timeout =
     \<lparr>p_name = ''docker'',
      p_args = run_host @
        [''--mount'', bind_mount (host_path credential) container_pgpass_path,
         ''--env'', ''PGPASSFILE='' @ container_pgpass_path, postgresql_client_image,
         ''psql'', ''--dbname=postgres'', ''--tuples-only'', ''--no-align'', ''--no-password'',
         ''--host='' @ t_host cfg, ''--port='' @ dec_of_nat (t_port cfg), ''--username='' @ t_user cfg,
         ''--command=SELECT 1''],
      p_timeout = timeout\<rparr>"

text \<open>\<open>PostgreSQLReachabilityAdapter.Reachable\<close>; the deferred cleanup runs on every path.\<close>

definition reachable ::
  "'w os \<Rightarrow> 'w replacement_adapter \<Rightarrow> target_config \<Rightarrow> ctx \<Rightarrow> 'w msys \<Rightarrow> bool \<times> 'w msys" where
  "reachable os a cfg c s =
     (case (ra_executor a, ra_prepare a) of
        (Some x, Some prep) \<Rightarrow>
          if \<not> target_config_valid cfg \<or> ctx_err c (clock s) \<noteq> None then (False, s)
          else (case prep cfg s of
            (None, s1) \<Rightarrow> (False, s1)
          | (Some credential, s1) \<Rightarrow>
              (case safe_credential os credential s1 of
                 (False, s2) \<Rightarrow> (False, snd (credential_cleanup os credential s2))
               | (True, s2) \<Rightarrow>
                   (case exec_call x (reachability_spec cfg credential
                            (if ra_timeout a = 0 then default_process_timeout else ra_timeout a)) c s2 of
                      ((r, chunks), s3) \<Rightarrow>
                        (p_outcome r = ProcessSucceeded \<and> ctx_err c (clock s3) = None \<and>
                         trim_space (bounded_output validation_output_limit False chunks) = ''1'',
                         snd (credential_cleanup os credential s3)))))
      | _ \<Rightarrow> (False, s))"

definition helper_cleanup_label :: string where
  "helper_cleanup_label = ''alice-installer.migration-helper''"

definition helper_operation_label :: string where
  "helper_operation_label = ''alice-installer.migration-operation''"

definition build_target_backup_dump ::
  "'w os \<Rightarrow> target_config \<Rightarrow> credential_file \<Rightarrow> string \<Rightarrow> 'w msys \<Rightarrow> process_spec option \<times> 'w msys" where
  "build_target_backup_dump os cfg credential operation_id s =
     (if \<not> target_config_valid cfg then (None, s)
      else case safe_credential os credential s of
        (False, s1) \<Rightarrow> (None, s1)
      | (True, s1) \<Rightarrow>
          if operation_id = [] then (None, s1)
          else (Some \<lparr>p_name = ''docker'',
                 p_args = run_host @
                   [''--label'', helper_cleanup_label @ ''=true'',
                    ''--label'', helper_operation_label @ ''='' @ operation_id,
                    ''--mount'', bind_mount (host_path credential) container_pgpass_path,
                    ''--env'', ''PGPASSFILE='' @ container_pgpass_path, postgresql_client_image,
                    ''pg_dump'', ''--format=custom'', ''--file=-'', ''--no-password'',
                    ''--host='' @ t_host cfg, ''--port='' @ dec_of_nat (t_port cfg),
                    ''--username='' @ t_user cfg, ''--dbname='' @ t_database cfg],
                 p_timeout = default_process_timeout\<rparr>, s1))"

section \<open>The processes of a replacement\<close>

fun is_exec :: "migration_event \<Rightarrow> bool" where
  "is_exec (Exec spec oc) = True"
| "is_exec e = False"

definition executed :: "'w msys \<Rightarrow> 'w msys \<Rightarrow> migration_event list \<Rightarrow> bool" where
  "executed s s' xs \<longleftrightarrow> (\<exists>es. grew s s' es \<and> filter is_exec es = xs)"

lemma executed_refl [simp]: "executed s s []"
  unfolding executed_def by (rule exI [of _ "[]"]) simp

lemma executed_trans: "executed s s' xs \<Longrightarrow> executed s' s'' ys \<Longrightarrow> executed s s'' (xs @ ys)"
  unfolding executed_def by (metis filter_append grew_trans)

lemma files_only_executed: "files_only s s' \<Longrightarrow> executed s s' []"
  unfolding files_only_def executed_def
  by (metis (no_types, lifting) filter_False is_exec.elims(2) is_file_op.simps(2) list_all_iff)

lemma executed_one: "grew s s' [Exec spec oc] \<Longrightarrow> executed s s' [Exec spec oc]"
  unfolding executed_def by (rule exI [of _ "[Exec spec oc]"]) simp

text \<open>
  A run of a plan: a prefix of its steps, all successful except possibly the last; the
  flag says whether the whole plan succeeded.
\<close>

inductive plan_run :: "process_spec list \<Rightarrow> migration_event list \<Rightarrow> bool \<Rightarrow> bool" where
  plan_done: "plan_run [] [] True"
| plan_stopped: "plan_run (spec # specs) [] False"
| plan_failed: "plan_run (spec # specs) [Exec spec oc] False"
| plan_next: "plan_run specs es ok \<Longrightarrow> plan_run (spec # specs) (Exec spec ProcessSucceeded # es) ok"

inductive_cases plan_run_ConsE: "plan_run (spec # specs) es ok"

lemma plan_run_complete: "plan_run specs es True \<Longrightarrow> es = map (\<lambda>sp. Exec sp ProcessSucceeded) specs"
  by (induction specs es "True" rule: plan_run.induct) auto

lemma plan_run_length: "plan_run specs es ok \<Longrightarrow> length es \<le> length specs"
  by (induction rule: plan_run.induct) auto

lemma replacement_steps_run:
  assumes "replacement_steps x mutated validation steps c s = (res, s')"
  shows "\<exists>es. executed s s' es \<and> plan_run (map snd steps) es (p_outcome (rr_process res) = ProcessSucceeded) \<and>
    (rr_mutated res \<longleftrightarrow> mutated \<or> ReplacementDropDatabase \<in> set (take (length es) (map fst steps)))"
  using assms
proof (induction steps arbitrary: mutated validation s)
  case Nil
  then show ?case by (intro exI [of _ "[]"]) (auto intro: plan_done)
next
  case (Cons st steps)
  obtain step spec where st: "st = (step, spec)" by fastforce
  show ?case
  proof (cases "ctx_err c (clock s) = None")
    case False
    with Cons.prems st show ?thesis
      by (intro exI [of _ "[]"]) (auto simp: replacement_failed_def intro: plan_stopped)
  next
    case True
    obtain r chunks s1 where run: "exec_call x spec c s = ((r, chunks), s1)" by (metis surj_pair)
    have one: "executed s s1 [Exec spec (p_outcome r)]"
      using executed_one exec_call_grew [OF run] by simp
    show ?thesis
    proof (cases "p_outcome r = ProcessSucceeded")
      case False
      with Cons.prems st True run one show ?thesis
        by (intro exI [of _ "[Exec spec (p_outcome r)]"])
           (auto simp: Let_def replacement_failed_def process_failed_def validation_output_limit_def
              bounded_output_cut split: if_splits intro: plan_failed)
    next
      case ok: True
      then obtain v where "replacement_steps x (mutated \<or> step = ReplacementDropDatabase) v steps c s1 = (res, s')"
        using Cons.prems st True run
        by (auto simp: Let_def validation_output_limit_def bounded_output_cut split: if_splits)
      from Cons.IH [OF this] obtain es where es: "executed s1 s' es"
        "plan_run (map snd steps) es (p_outcome (rr_process res) = ProcessSucceeded)"
        "rr_mutated res \<longleftrightarrow> (mutated \<or> step = ReplacementDropDatabase) \<or>
          ReplacementDropDatabase \<in> set (take (length es) (map fst steps))"
        by blast
      with executed_trans [OF one] ok st show ?thesis
        by (intro exI [of _ "Exec spec ProcessSucceeded # es"]) (auto intro: plan_next)
    qed
  qed
qed

lemma replacement_plan: "map fst (zip replacement_order (replacement_specs cfg credential path t)) = replacement_order"
  "map snd (zip replacement_order (replacement_specs cfg credential path t)) = replacement_specs cfg credential path t"
  by (simp_all add: replacement_order_def replacement_specs_def Let_def)

lemma replacement_drop_position:
  "n \<le> 5 \<Longrightarrow> ReplacementDropDatabase \<in> set (take n replacement_order) \<longleftrightarrow> 2 \<le> n"
  by (cases n rule: nat.exhaust; cases "n - 1") (auto simp: replacement_order_def)

lemma parse_validation_evidence_valid:
  "parse_validation_evidence output = Some ev \<Longrightarrow>
   restore_exit_ok ev \<and> connection_ok ev \<and> application_tables ev > 0 \<and> postgresql_reachable ev"
  by (auto simp: parse_validation_evidence_def split: list.splits option.splits if_splits)

lemma write_files_files: "write_files os root files s = (r, s') \<Longrightarrow> files_only s s'"
  by (induction os root files s rule: write_files.induct)
     (auto split: prod.splits bool.splits dest!: file_calls intro: files_only_trans)

lemma build_target_replacement_files:
  "build_target_replacement b os cfg credential path timeout s = (r, s') \<Longrightarrow> files_only s s'"
  unfolding build_target_replacement_def write_replacement_sql_def
  by (auto split: prod.splits bool.splits if_splits dest!: safe_credential_files write_files_files
      intro: files_only_trans)

lemma build_target_replacement_plan:
  "build_target_replacement b os cfg credential path timeout s = (Some plan, s') \<Longrightarrow>
   target_config_valid cfg \<and> safe_dump_path path \<and>
   plan = replacement_specs cfg credential path (if timeout = 0 then default_process_timeout else timeout)"
  by (auto simp: build_target_replacement_def split: if_splits prod.splits bool.splits)

text \<open>
  A replacement runs a prefix of its fixed plan; it counts as mutated exactly when the
  drop was submitted, and it is valid only when the whole plan succeeded.
\<close>

lemma target_replace_run:
  assumes "target_replace b os
      \<lparr>ra_executor = Some x, ra_prepare = Some (prepare_target_credential os dir root), ra_timeout = t\<rparr> cfg path c s
      = ((ev, mut, ok), s')"
  shows "\<exists>es. executed s s' es \<and>
    (es = [] \<and> \<not> mut \<and> \<not> ok \<or>
     (\<exists>credential done. target_config_valid cfg \<and> safe_dump_path path \<and>
        plan_run (replacement_specs cfg credential path (if t = 0 then default_process_timeout else t)) es done \<and>
        (mut \<longleftrightarrow> 2 \<le> length es) \<and>
        (ok \<longrightarrow> done \<and> restore_exit_ok ev \<and> connection_ok ev \<and> application_tables ev > 0 \<and> postgresql_reachable ev)))"
proof -
  obtain co s1 where 1: "prepare_target_credential os dir root cfg s = (co, s1)" by fastforce
  have f1: "executed s s1 []" using 1 prepare_target_credential_files files_only_executed by blast
  show ?thesis
  proof (cases co)
    case None
    with assms 1 f1 show ?thesis by (auto simp: target_replace_def)
  next
    case (Some credential)
    obtain pl s2 where 2: "build_target_replacement b os cfg credential path t s1 = (pl, s2)" by fastforce
    have f2: "executed s s2 []"
      using executed_trans [OF f1] build_target_replacement_files [OF 2] files_only_executed by fastforce
    show ?thesis
    proof (cases pl)
      case None
      have "executed s2 (snd (credential_cleanup os credential s2)) []"
        using credential_cleanup_files files_only_executed by (metis prod.collapse)
      with assms 1 2 Some None executed_trans [OF f2] show ?thesis by (auto simp: target_replace_def)
    next
      case (Some plan)
      note plan = build_target_replacement_plan [OF 2 [unfolded Some]]
      obtain res s3 where 3: "replacement_steps x False [] (zip replacement_order plan) c s2 = (res, s3)" by fastforce
      obtain cl s4 where 4: "credential_cleanup os credential s3 = (cl, s4)" by fastforce
      from replacement_steps_run [OF 3] obtain es where es: "executed s2 s3 es"
        "plan_run plan es (p_outcome (rr_process res) = ProcessSucceeded)"
        "rr_mutated res \<longleftrightarrow> ReplacementDropDatabase \<in> set (take (length es) replacement_order)"
        using plan replacement_plan by auto
      have "length es \<le> 5"
        using plan_run_length [OF es(2)] plan by (simp add: replacement_specs_def Let_def)
      with es(3) have mut: "rr_mutated res \<longleftrightarrow> 2 \<le> length es" using replacement_drop_position by blast
      have ex: "executed s s4 es"
        using executed_trans [OF executed_trans [OF f2 es(1)] files_only_executed [OF credential_cleanup_files [OF 4]]]
        by simp
      have "s' = s4 \<and> mut = rr_mutated res \<and> (ok \<longrightarrow> p_outcome (rr_process res) = ProcessSucceeded \<and>
          (\<exists>out. parse_validation_evidence out = Some ev))"
        using assms 1 2 3 4 \<open>co = Some credential\<close> Some
        by (auto simp: target_replace_def run_target_replacement_def split: option.splits bool.splits if_splits)
      with ex es(2) mut plan parse_validation_evidence_valid show ?thesis by blast
    qed
  qed
qed

end
