(* ===== verification/RestoreCoordinator.thy ===== *)
theory RestoreCoordinator
  imports RestoreProcess
begin

text \<open>
  \<open>internal/migration/restore.go\<close> and \<open>restore_types.go\<close>: the coordinator that takes a
  legacy backup into the generated deployment.  Its collaborators are interfaces; each
  call to one leaves a phase in the trace, so that the safety properties are statements
  about the order of phases.
\<close>

section \<open>Types\<close>

datatype restore_stage =
    StagePlatformGate | StageWait | StageCredentials | StageLegacyRevalidation | StageBackendStop
  | StagePostgresCheck | StageTargetBackup | StageTargetReplacement | StageRestoreValidation
  | StageBackendStart | StageBackendHealth | StageRollback

datatype restore_outcome =
    RestoreSucceeded | RestoreFailedBeforeCutover | RestoreCancelledBeforeCutover
  | RestorePartialCutover | RestoreUnsupported

datatype rollback_status = RollbackNotRequired | RollbackSucceeded | RollbackFailed | RollbackCancelled

record backup_ref =
  dump_path :: string
  manifest_path :: string
  sha256 :: string
  backup_size :: int

record backup_evidence =
  be_ref :: backup_ref
  be_validated :: bool

record validated_backup =
  vb_ref :: backup_ref
  target_rollback :: bool

definition no_backup_evidence :: backup_evidence where
  "no_backup_evidence =
     \<lparr>be_ref = \<lparr>dump_path = [], manifest_path = [], sha256 = [], backup_size = 0\<rparr>, be_validated = False\<rparr>"

record restore_result =
  r_outcome :: restore_outcome
  r_failed_stage :: restore_stage
  r_mutated :: bool
  r_rollback :: rollback_status
  r_legacy_backup :: backup_evidence
  r_target_backup :: backup_evidence
  r_database :: database_evidence
  r_backend_healthy :: bool
  r_code :: string

record restore_request =
  rq_goos :: string
  rq_goarch :: string
  compose_files :: "string list"
  env_file_path :: string
  backup_destination :: string
  rq_legacy :: backup_ref

text \<open>The collaborators, all of them non-nil; errors are only tested against nil.\<close>

record 'w restore_ports =
  wait_for :: "nat \<Rightarrow> ('w, bool) meff"
  read_env :: "string \<Rightarrow> ('w, target_config option) meff"
  revalidate :: "backup_ref \<Rightarrow> ('w, validated_backup option) meff"
  create_target_backup :: "target_config \<Rightarrow> string \<Rightarrow> ('w, validated_backup option) meff"
  stop_service :: "string list \<Rightarrow> string \<Rightarrow> string \<Rightarrow> ('w, bool) meff"
  start_service :: "string list \<Rightarrow> string \<Rightarrow> string \<Rightarrow> ('w, bool) meff"
  postgres_reachable :: "target_config \<Rightarrow> ('w, bool) meff"
  prove_identity :: "string list \<Rightarrow> string \<Rightarrow> ('w, bool) meff"
  replace_database :: "target_config \<Rightarrow> validated_backup \<Rightarrow> ('w, database_evidence \<times> bool \<times> bool) meff"
  wait_healthy :: "string list \<Rightarrow> string \<Rightarrow> ('w, bool) meff"
  backend_stopped :: "string list \<Rightarrow> string \<Rightarrow> ('w, bool option) meff"

text \<open>\<open>ports\<close> is \<open>None\<close> when some collaborator is nil.\<close>

record 'w restore_coordinator =
  ports :: "'w restore_ports option"
  rollback_context :: "(nat \<Rightarrow> ctx) option"

definition restore_wait_duration :: nat where "restore_wait_duration = 60 * second"
definition rollback_timeout :: nat where "rollback_timeout = 30 * second"
definition restore_backend_service :: string where "restore_backend_service = ''backend''"

section \<open>Phases\<close>

definition logged :: "('a \<Rightarrow> migration_event) \<Rightarrow> ('w, 'a) meff \<Rightarrow> ('w, 'a) meff" where
  "logged ev m c s = (case m c s of (r, s1) \<Rightarrow> (r, s1\<lparr>trace := trace s1 @ [ev r]\<rparr>))"

definition do_wait where
  "do_wait p d = logged (Phase WaitPhase) (wait_for p d)"
definition do_identity where
  "do_identity p rq = logged (Phase IdentityPhase) (prove_identity p (compose_files rq) (env_file_path rq))"
definition do_stop where
  "do_stop p rq = logged (Phase StopPhase)
     (stop_service p (compose_files rq) (env_file_path rq) restore_backend_service)"
definition do_start where
  "do_start p rq = logged (Phase StartPhase)
     (start_service p (compose_files rq) (env_file_path rq) restore_backend_service)"
definition do_env where
  "do_env p rq = logged (\<lambda>r. Phase EnvPhase (r \<noteq> None)) (read_env p (env_file_path rq))"
definition do_revalidate where
  "do_revalidate p b = logged (\<lambda>r. Phase (RevalidatePhase (dump_path b)) (r \<noteq> None)) (revalidate p b)"
definition do_reach where
  "do_reach p cfg = logged (Phase ReachPhase) (postgres_reachable p cfg)"
definition do_backup where
  "do_backup p cfg rq = logged (\<lambda>r. Phase BackupPhase (case r of None \<Rightarrow> False | Some b \<Rightarrow> target_rollback b))
     (create_target_backup p cfg (backup_destination rq))"
definition do_health where
  "do_health p rq = logged (Phase HealthPhase) (wait_healthy p (compose_files rq) (env_file_path rq))"
definition do_stopped where
  "do_stopped p rq = logged (\<lambda>r. Phase StoppedPhase (r = Some True))
     (backend_stopped p (compose_files rq) (env_file_path rq))"

definition database_valid :: "database_evidence \<Rightarrow> bool" where
  "database_valid e \<longleftrightarrow>
     restore_exit_ok e \<and> connection_ok e \<and> application_tables e > 0 \<and> postgresql_reachable e"

text \<open>The phase of a replacement records whether it mutated, and whether its result is valid.\<close>

definition do_replace where
  "do_replace p cfg b = logged
     (\<lambda>(ev, m, ok). Phase (ReplacePhase (dump_path (vb_ref b)) m) (ok \<and> database_valid ev))
     (replace_database p cfg b)"

section \<open>The coordinator\<close>

definition backup_evidence_of :: "validated_backup \<Rightarrow> backup_evidence" where
  "backup_evidence_of b = \<lparr>be_ref = vb_ref b, be_validated = True\<rparr>"

definition rollback_status_of :: "ctx \<Rightarrow> nat \<Rightarrow> rollback_status" where
  "rollback_status_of c now = (if ctx_err c now \<noteq> None then RollbackCancelled else RollbackFailed)"

definition before_cutover :: "restore_result \<Rightarrow> restore_stage \<Rightarrow> ctx \<Rightarrow> string \<Rightarrow> nat \<Rightarrow> restore_result" where
  "before_cutover result stage c code now =
     (if ctx_err c now \<noteq> None
      then result\<lparr>r_failed_stage := stage, r_code := ''restore-cancelled'',
                  r_outcome := RestoreCancelledBeforeCutover\<rparr>
      else result\<lparr>r_failed_stage := stage, r_code := code, r_outcome := RestoreFailedBeforeCutover\<rparr>)"

definition recovery_context :: "(nat \<Rightarrow> ctx) option \<Rightarrow> nat \<Rightarrow> ctx" where
  "recovery_context rb now =
     (case rb of Some f \<Rightarrow> f now | None \<Rightarrow> with_timeout background now rollback_timeout)"

text \<open>\<open>StartService\<close> and then \<open>WaitHealthy\<close>, the second only when the first succeeded.\<close>

definition start_and_verify :: "'w restore_ports \<Rightarrow> restore_request \<Rightarrow> ('w, bool) meff" where
  "start_and_verify p rq c s =
     (case do_start p rq c s of
        (False, s1) \<Rightarrow> (False, s1)
      | (True, s1) \<Rightarrow> do_health p rq c s1)"

definition identity_and_reach :: "'w restore_ports \<Rightarrow> restore_request \<Rightarrow> target_config \<Rightarrow> ('w, bool) meff" where
  "identity_and_reach p rq cfg c s =
     (case do_identity p rq c s of
        (False, s1) \<Rightarrow> (False, s1)
      | (True, s1) \<Rightarrow> do_reach p cfg c s1)"

text \<open>\<open>recoverBeforeCutover\<close>; every caller passes \<open>stopped\<close> as true.\<close>

definition recover_before_cutover ::
  "'w restore_ports \<Rightarrow> (nat \<Rightarrow> ctx) option \<Rightarrow> restore_request \<Rightarrow> restore_result \<Rightarrow> restore_stage \<Rightarrow>
   string \<Rightarrow> ('w, restore_result) meff" where
  "recover_before_cutover p rb rq result stage code c s =
     (case start_and_verify p rq (recovery_context rb (clock s)) s of
        (ok, s1) \<Rightarrow>
          (before_cutover result stage c (if ok then code else ''restore-backend-recovery'') (clock s1), s1))"

text \<open>The last part of \<open>rollback\<close>: put the target backup back and start the backend on it.\<close>

definition rollback_restore ::
  "'w restore_ports \<Rightarrow> restore_request \<Rightarrow> target_config \<Rightarrow> validated_backup \<Rightarrow> restore_result \<Rightarrow>
   ('w, restore_result) meff" where
  "rollback_restore p rq cfg target result c s =
     (case do_replace p cfg target c s of
        ((ev, m, ok), s1) \<Rightarrow>
          let result1 = result\<lparr>r_database := ev\<rparr> in
          if \<not> ok \<or> \<not> database_valid ev
          then (result1\<lparr>r_rollback := rollback_status_of c (clock s1), r_code := ''restore-rollback-failed''\<rparr>, s1)
          else (case start_and_verify p rq c s1 of
            (False, s2) \<Rightarrow>
              (case do_stop p rq c s2 of
                 (_, s3) \<Rightarrow>
                   (result1\<lparr>r_rollback := rollback_status_of c (clock s3),
                            r_code := ''restore-rollback-recovery''\<rparr>, s3))
          | (True, s2) \<Rightarrow> (result1\<lparr>r_rollback := RollbackSucceeded, r_backend_healthy := True\<rparr>, s2)))"

definition rollback ::
  "'w restore_ports \<Rightarrow> (nat \<Rightarrow> ctx) option \<Rightarrow> restore_request \<Rightarrow> target_config \<Rightarrow> validated_backup \<Rightarrow>
   restore_result \<Rightarrow> restore_stage \<Rightarrow> string \<Rightarrow> 'w msys \<Rightarrow> restore_result \<times> 'w msys" where
  "rollback p rb rq cfg target result0 stage code s =
     (let result = result0\<lparr>r_outcome := RestorePartialCutover, r_failed_stage := stage, r_code := code\<rparr>;
          c = recovery_context rb (clock s);
          failed = (\<lambda>code' s'. (result\<lparr>r_rollback := rollback_status_of c (clock s'), r_code := code'\<rparr>, s')) in
      case identity_and_reach p rq cfg c s of
        (False, s1) \<Rightarrow> failed ''restore-rollback-postgres'' s1
      | (True, s1) \<Rightarrow>
          (case do_stop p rq c s1 of
             (stop_ok, s2) \<Rightarrow>
               (case do_stopped p rq (recovery_context rb (clock s2)) s2 of
                  (stopped, s3) \<Rightarrow>
                    if \<not> stop_ok \<or> stopped \<noteq> Some True
                    then (result\<lparr>r_rollback :=
                                  (if rollback_status_of c (clock s3) = RollbackCancelled \<and> stopped \<noteq> Some True
                                   then RollbackFailed else rollback_status_of c (clock s3)),
                                r_code := ''restore-rollback-stop''\<rparr>, s3)
                    else (case do_revalidate p (vb_ref target) c s3 of
                      (None, s4) \<Rightarrow> failed ''restore-rollback-revalidate'' s4
                    | (Some _, s4) \<Rightarrow>
                        (case identity_and_reach p rq cfg c s4 of
                           (False, s5) \<Rightarrow> failed ''restore-rollback-postgres'' s5
                         | (True, s5) \<Rightarrow> rollback_restore p rq cfg target result c s5)))))"

text \<open>The part of \<open>Run\<close> after the replacement produced a valid database.\<close>

definition restore_finish ::
  "'w restore_ports \<Rightarrow> (nat \<Rightarrow> ctx) option \<Rightarrow> restore_request \<Rightarrow> target_config \<Rightarrow> validated_backup \<Rightarrow>
   restore_result \<Rightarrow> ('w, restore_result) meff" where
  "restore_finish p rb rq cfg target result c s =
     (case do_identity p rq c s of
        (False, s1) \<Rightarrow> rollback p rb rq cfg target result StageRestoreValidation ''restore-postgres-identity'' s1
      | (True, s1) \<Rightarrow>
          (case do_start p rq c s1 of
             (False, s2) \<Rightarrow> rollback p rb rq cfg target result StageBackendStart ''restore-backend-start'' s2
           | (True, s2) \<Rightarrow>
               (case do_health p rq c s2 of
                  (False, s3) \<Rightarrow> rollback p rb rq cfg target result StageBackendHealth ''restore-backend-health'' s3
                | (True, s3) \<Rightarrow>
                    (result\<lparr>r_outcome := RestoreSucceeded, r_rollback := RollbackNotRequired,
                            r_backend_healthy := True, r_code := ''restore-succeeded''\<rparr>, s3))))"

text \<open>The part of \<open>Run\<close> from the creation of the target backup.\<close>

definition restore_cutover ::
  "'w restore_ports \<Rightarrow> (nat \<Rightarrow> ctx) option \<Rightarrow> restore_request \<Rightarrow> target_config \<Rightarrow> validated_backup \<Rightarrow>
   restore_result \<Rightarrow> ('w, restore_result) meff" where
  "restore_cutover p rb rq cfg legacy result0 c s =
     (case do_backup p cfg rq c s of
        (target_opt, s1) \<Rightarrow>
          (case target_opt of
             None \<Rightarrow> recover_before_cutover p rb rq result0 StageTargetBackup ''restore-target-backup'' c s1
           | Some target \<Rightarrow>
               if \<not> target_rollback target
               then recover_before_cutover p rb rq result0 StageTargetBackup ''restore-target-backup'' c s1
               else (case do_replace p cfg legacy c s1 of
                 ((ev, m, ok), s2) \<Rightarrow>
                   let result = result0\<lparr>r_target_backup := backup_evidence_of target, r_database := ev, r_mutated := m\<rparr> in
                   if \<not> ok \<or> \<not> database_valid ev
                   then (if \<not> m
                         then recover_before_cutover p rb rq result StageTargetReplacement ''restore-primary-failed'' c s2
                         else rollback p rb rq cfg target result StageTargetReplacement ''restore-primary-failed'' s2)
                   else restore_finish p rb rq cfg target result c s2)))"

text \<open>The part of \<open>Run\<close> that uses the target's credentials.\<close>

definition restore_with_config ::
  "'w restore_ports \<Rightarrow> (nat \<Rightarrow> ctx) option \<Rightarrow> restore_request \<Rightarrow> restore_result \<Rightarrow> target_config \<Rightarrow>
   ('w, restore_result) meff" where
  "restore_with_config p rb rq result0 cfg c s =
     (case do_revalidate p (rq_legacy rq) c s of
        (None, s1) \<Rightarrow>
          recover_before_cutover p rb rq result0 StageLegacyRevalidation ''restore-legacy'' c s1
      | (Some legacy, s1) \<Rightarrow>
          let result = result0\<lparr>r_legacy_backup := backup_evidence_of legacy\<rparr> in
          (case identity_and_reach p rq cfg c s1 of
             (False, s2) \<Rightarrow> recover_before_cutover p rb rq result StagePostgresCheck ''restore-postgres'' c s2
           | (True, s2) \<Rightarrow> restore_cutover p rb rq cfg legacy result c s2))"

text \<open>The deferred \<open>cfg.Release()\<close>.\<close>

definition release_config :: "target_config \<Rightarrow> 'w msys \<Rightarrow> 'w msys" where
  "release_config cfg s = snd (with_secrets (\<lambda>st. ((), snd (release cfg st))) s)"

definition initial_result :: restore_result where
  "initial_result =
     \<lparr>r_outcome = RestoreSucceeded, r_failed_stage = StagePlatformGate, r_mutated = False,
      r_rollback = RollbackNotRequired, r_legacy_backup = no_backup_evidence,
      r_target_backup = no_backup_evidence, r_database = no_database_evidence,
      r_backend_healthy = False, r_code = ''restore-precondition''\<rparr>"

text \<open>The part of \<open>Run\<close> after the backend was stopped.\<close>

definition restore_stopped ::
  "'w restore_ports \<Rightarrow> (nat \<Rightarrow> ctx) option \<Rightarrow> restore_request \<Rightarrow> ('w, restore_result) meff" where
  "restore_stopped p rb rq c s =
     (case do_env p rq c s of
        (None, s1) \<Rightarrow> recover_before_cutover p rb rq initial_result StageCredentials ''restore-credentials'' c s1
      | (Some cfg, s1) \<Rightarrow>
          (case restore_with_config p rb rq initial_result cfg c s1 of
             (result, s2) \<Rightarrow> (result, release_config cfg s2)))"

definition restore_run ::
  "'w restore_coordinator \<Rightarrow> restore_request \<Rightarrow> ('w, restore_result) meff" where
  "restore_run co rq c s =
     (if rq_goos rq \<noteq> ''linux'' \<or> (rq_goarch rq \<noteq> ''amd64'' \<and> rq_goarch rq \<noteq> ''arm64'')
      then (initial_result\<lparr>r_outcome := RestoreUnsupported, r_code := ''restore-unsupported''\<rparr>, s)
      else case ports co of
        None \<Rightarrow> (before_cutover initial_result StagePlatformGate c ''restore-precondition'' (clock s), s)
      | Some p \<Rightarrow>
          (case do_wait p restore_wait_duration c s of
             (False, s1) \<Rightarrow> (before_cutover initial_result StageWait c ''restore-wait'' (clock s1), s1)
           | (True, s1) \<Rightarrow>
               (case do_identity p rq c s1 of
                  (False, s2) \<Rightarrow>
                    (before_cutover initial_result StagePostgresCheck c ''restore-postgres-identity'' (clock s2), s2)
                | (True, s2) \<Rightarrow>
                    (case do_stop p rq c s2 of
                       (False, s3) \<Rightarrow>
                         (before_cutover initial_result StageBackendStop c ''restore-backend-stop'' (clock s3), s3)
                     | (True, s3) \<Rightarrow> restore_stopped p (rollback_context co) rq c s3))))"

end
