(* ===== verification/RestoreSafety.thy ===== *)
theory RestoreSafety
  imports RestoreCoordinator
begin

text \<open>
  What the restore coordinator promises, over collaborators of which only one thing is
  assumed: they leave no phases of their own.  A monitor reads the phases of a run and
  rejects a replacement without a rollback backup, without proof of the database's
  identity or with the backend running, and a start of the backend on a database that a
  failed replacement left behind.
\<close>

section \<open>The phases of a run\<close>

fun phase_event :: "migration_event \<Rightarrow> bool" where
  "phase_event (Phase ph ok) = True"
| "phase_event e = False"

definition phased :: "'w msys \<Rightarrow> 'w msys \<Rightarrow> migration_event list \<Rightarrow> bool" where
  "phased s s' ps \<longleftrightarrow> (\<exists>es. grew s s' es \<and> filter phase_event es = ps)"

definition quiet :: "('w, 'a) meff \<Rightarrow> bool" where
  "quiet m \<longleftrightarrow> (\<forall>c s. phased s (snd (m c s)) [])"

lemma phased_refl [simp]: "phased s s []"
  unfolding phased_def by (rule exI [of _ "[]"]) simp

lemma phased_trans: "phased s s' ps \<Longrightarrow> phased s' s'' qs \<Longrightarrow> phased s s'' (ps @ qs)"
  unfolding phased_def by (metis filter_append grew_trans)

lemma phased_grew: "grew s s' es \<Longrightarrow> list_all (\<lambda>e. \<not> phase_event e) es \<Longrightarrow> phased s s' []"
  unfolding phased_def by (metis (no_types, lifting) filter_False list_all_iff)

lemma phased_unique: "phased s s' ps \<Longrightarrow> phased s s' qs \<Longrightarrow> ps = qs"
  unfolding phased_def using grew_unique by blast

lemma quietD: "quiet m \<Longrightarrow> m c s = (r, s') \<Longrightarrow> phased s s' []"
  unfolding quiet_def by (metis snd_conv)

lemma quietI: "(\<And>c s r s'. m c s = (r, s') \<Longrightarrow> phased s s' []) \<Longrightarrow> quiet m"
  unfolding quiet_def by (metis prod.collapse)

lemma logged_phased:
  assumes "quiet m" and "logged ev m c s = (r, s')" and "phase_event (ev r)"
  shows "phased s s' [ev r]"
proof -
  obtain s1 where m: "m c s = (r, s1)" and s': "s' = s1\<lparr>trace := trace s1 @ [ev r]\<rparr>"
    using assms(2) by (auto simp: logged_def split: prod.splits)
  have "phased s1 s' [ev r]"
    unfolding phased_def s' using assms(3) by (intro exI [of _ "[ev r]"]) (simp add: grew_def)
  with quietD [OF assms(1) m] show ?thesis
    using phased_trans by fastforce
qed

lemma release_config_phased [simp]: "phased s (release_config cfg s) []"
  unfolding release_config_def using with_secrets_grew phased_grew by (metis list.pred_inject(1) prod.collapse)

section \<open>The monitor\<close>

text \<open>
  The state: a rollback backup exists, the database identity is proven, the backend was
  stopped, the last replacement left an invalid database, and some replacement mutated.
\<close>

record monitor =
  backed_up :: bool
  proven :: bool
  down :: bool
  dirty :: bool
  changed :: bool

definition fresh :: monitor where
  "fresh = \<lparr>backed_up = False, proven = False, down = False, dirty = False, changed = False\<rparr>"

fun mon_step :: "monitor \<Rightarrow> migration_event \<Rightarrow> monitor option" where
  "mon_step m (Phase (ReplacePhase src mut) ok) =
     (if backed_up m \<and> proven m \<and> down m
      then Some (m\<lparr>dirty := (\<not> ok \<and> (mut \<or> dirty m)), changed := (changed m \<or> mut)\<rparr>) else None)"
| "mon_step m (Phase StartPhase ok) = (if dirty m then None else Some (m\<lparr>down := False\<rparr>))"
| "mon_step m (Phase StopPhase ok) = Some (m\<lparr>down := (down m \<or> ok)\<rparr>)"
| "mon_step m (Phase IdentityPhase ok) = Some (m\<lparr>proven := ok\<rparr>)"
| "mon_step m (Phase BackupPhase ok) = Some (m\<lparr>backed_up := (backed_up m \<or> ok)\<rparr>)"
| "mon_step m e = Some m"

fun monitored :: "monitor \<Rightarrow> migration_event list \<Rightarrow> monitor option" where
  "monitored m [] = Some m"
| "monitored m (e # es) = (case mon_step m e of None \<Rightarrow> None | Some m' \<Rightarrow> monitored m' es)"

lemma monitored_append:
  "monitored m (es @ es') = (case monitored m es of None \<Rightarrow> None | Some m' \<Rightarrow> monitored m' es')"
  by (induction es arbitrary: m) (auto split: option.splits)

definition passes :: "monitor \<Rightarrow> 'w msys \<Rightarrow> 'w msys \<Rightarrow> monitor \<Rightarrow> bool" where
  "passes m s s' m' \<longleftrightarrow> (\<exists>ps. phased s s' ps \<and> monitored m ps = Some m')"

lemma passes_refl [simp]: "passes m s s m"
  unfolding passes_def by (rule exI [of _ "[]"]) simp

lemma passes_trans: "passes m s s' m' \<Longrightarrow> passes m' s' s'' m'' \<Longrightarrow> passes m s s'' m''"
proof -
  assume "passes m s s' m'" "passes m' s' s'' m''"
  then obtain ps qs where "phased s s' ps" "monitored m ps = Some m'"
    "phased s' s'' qs" "monitored m' qs = Some m''"
    unfolding passes_def by blast
  then have "phased s s'' (ps @ qs) \<and> monitored m (ps @ qs) = Some m''"
    using phased_trans by (simp add: monitored_append)
  then show ?thesis unfolding passes_def by blast
qed

lemma passes_one: "phased s s' [e] \<Longrightarrow> mon_step m e = Some m' \<Longrightarrow> passes m s s' m'"
  unfolding passes_def by (rule exI [of _ "[e]"]) simp

text \<open>The outcome of a run, read off the monitor.\<close>

definition consistent :: "restore_result \<Rightarrow> monitor \<Rightarrow> bool" where
  "consistent res m \<longleftrightarrow>
     (r_outcome res = RestoreSucceeded \<longrightarrow>
        \<not> dirty m \<and> \<not> down m \<and> r_backend_healthy res \<and> database_valid (r_database res)) \<and>
     (r_outcome res \<in> {RestoreFailedBeforeCutover, RestoreCancelledBeforeCutover, RestoreUnsupported} \<longrightarrow>
        \<not> changed m \<and> \<not> r_mutated res) \<and>
     (r_outcome res = RestorePartialCutover \<and> r_rollback res = RollbackSucceeded \<longrightarrow>
        \<not> dirty m \<and> \<not> down m \<and> r_backend_healthy res \<and> database_valid (r_database res))"

text \<open>The phases of a run that succeeds.\<close>

definition success_phases :: "restore_request \<Rightarrow> string \<Rightarrow> bool \<Rightarrow> migration_event list" where
  "success_phases rq source m =
     [Phase WaitPhase True, Phase IdentityPhase True, Phase StopPhase True, Phase EnvPhase True,
      Phase (RevalidatePhase (dump_path (rq_legacy rq))) True, Phase IdentityPhase True, Phase ReachPhase True,
      Phase BackupPhase True, Phase (ReplacePhase source m) True,
      Phase IdentityPhase True, Phase StartPhase True, Phase HealthPhase True]"

section \<open>The coordinator over quiet collaborators\<close>

locale restore_services =
  fixes p :: "'w restore_ports"
  assumes quiet_wait: "quiet (wait_for p d)"
    and quiet_env: "quiet (read_env p path)"
    and quiet_revalidate: "quiet (revalidate p ref)"
    and quiet_backup: "quiet (create_target_backup p cfg path)"
    and quiet_stop: "quiet (stop_service p files path svc)"
    and quiet_start: "quiet (start_service p files path svc)"
    and quiet_reach: "quiet (postgres_reachable p cfg)"
    and quiet_identity: "quiet (prove_identity p files path)"
    and quiet_replace: "quiet (replace_database p cfg b)"
    and quiet_health: "quiet (wait_healthy p files path)"
    and quiet_stopped: "quiet (backend_stopped p files path)"
begin

lemma wait_phase: "do_wait p d c s = (r, s') \<Longrightarrow> phased s s' [Phase WaitPhase r]"
  unfolding do_wait_def by (drule logged_phased [OF quiet_wait]) simp_all
lemma identity_phase: "do_identity p rq c s = (r, s') \<Longrightarrow> phased s s' [Phase IdentityPhase r]"
  unfolding do_identity_def by (drule logged_phased [OF quiet_identity]) simp_all
lemma stop_phase: "do_stop p rq c s = (r, s') \<Longrightarrow> phased s s' [Phase StopPhase r]"
  unfolding do_stop_def by (drule logged_phased [OF quiet_stop]) simp_all
lemma start_phase: "do_start p rq c s = (r, s') \<Longrightarrow> phased s s' [Phase StartPhase r]"
  unfolding do_start_def by (drule logged_phased [OF quiet_start]) simp_all
lemma env_phase: "do_env p rq c s = (r, s') \<Longrightarrow> phased s s' [Phase EnvPhase (r \<noteq> None)]"
  unfolding do_env_def by (drule logged_phased [OF quiet_env]) simp_all
lemma revalidate_phase:
  "do_revalidate p b c s = (r, s') \<Longrightarrow> phased s s' [Phase (RevalidatePhase (dump_path b)) (r \<noteq> None)]"
  unfolding do_revalidate_def by (drule logged_phased [OF quiet_revalidate]) simp_all
lemma reach_phase: "do_reach p cfg c s = (r, s') \<Longrightarrow> phased s s' [Phase ReachPhase r]"
  unfolding do_reach_def by (drule logged_phased [OF quiet_reach]) simp_all
lemma backup_phase:
  "do_backup p cfg rq c s = (r, s') \<Longrightarrow>
   phased s s' [Phase BackupPhase (case r of None \<Rightarrow> False | Some b \<Rightarrow> target_rollback b)]"
  unfolding do_backup_def by (drule logged_phased [OF quiet_backup]) simp_all
lemma health_phase: "do_health p rq c s = (r, s') \<Longrightarrow> phased s s' [Phase HealthPhase r]"
  unfolding do_health_def by (drule logged_phased [OF quiet_health]) simp_all
lemma stopped_phase: "do_stopped p rq c s = (r, s') \<Longrightarrow> phased s s' [Phase StoppedPhase (r = Some True)]"
  unfolding do_stopped_def by (drule logged_phased [OF quiet_stopped]) simp_all
lemma replace_phase:
  "do_replace p cfg b c s = ((ev, m, ok), s') \<Longrightarrow>
   phased s s' [Phase (ReplacePhase (dump_path (vb_ref b)) m) (ok \<and> database_valid ev)]"
  unfolding do_replace_def by (drule logged_phased [OF quiet_replace]) simp_all

lemmas phase_rules = wait_phase identity_phase stop_phase start_phase env_phase revalidate_phase
  reach_phase backup_phase health_phase stopped_phase replace_phase

lemmas phase_passes = phase_rules [THEN passes_one]

lemma start_and_verify_passes:
  assumes "start_and_verify p rq c s = (ok, s')" and "\<not> dirty m"
  shows "passes m s s' (m\<lparr>down := False\<rparr>)"
proof -
  obtain a s1 where start: "do_start p rq c s = (a, s1)" by fastforce
  obtain b s2 where health: "do_health p rq c s1 = (b, s2)" by fastforce
  have 1: "passes m s s1 (m\<lparr>down := False\<rparr>)"
    using phase_passes(4) [OF start, of m] assms(2) by simp
  moreover have "passes (m\<lparr>down := False\<rparr>) s1 s2 (m\<lparr>down := False\<rparr>)"
    using phase_passes(9) [OF health] by simp
  ultimately show ?thesis
    using assms(1) start health by (auto simp: start_and_verify_def split: bool.splits intro: passes_trans)
qed

lemma recover_passes:
  assumes "recover_before_cutover p rb rq result stage code c s = (res, s')" and "\<not> dirty m"
  shows "passes m s s' (m\<lparr>down := False\<rparr>) \<and> r_mutated res = r_mutated result \<and>
    r_outcome res \<in> {RestoreFailedBeforeCutover, RestoreCancelledBeforeCutover}"
  using assms start_and_verify_passes
  by (auto simp: recover_before_cutover_def before_cutover_def split: prod.splits if_splits)

lemma identity_and_reach_passes:
  assumes "identity_and_reach p rq cfg c s = (ok, s')"
  shows "\<exists>b. passes m s s' (m\<lparr>proven := b\<rparr>) \<and> (ok \<longrightarrow> b)"
proof -
  obtain a s1 where ident: "do_identity p rq c s = (a, s1)" by fastforce
  obtain b s2 where reach: "do_reach p cfg c s1 = (b, s2)" by fastforce
  have "passes m s s1 (m\<lparr>proven := a\<rparr>)" using phase_passes(2) [OF ident, of m] by simp
  moreover have "passes (m\<lparr>proven := a\<rparr>) s1 s2 (m\<lparr>proven := a\<rparr>)" using phase_passes(7) [OF reach] by simp
  ultimately show ?thesis
    using assms ident reach
    by (auto simp: identity_and_reach_def split: bool.splits intro: passes_trans)
qed

lemma replace_passes:
  assumes "do_replace p cfg b c s = ((ev, mut, ok), s')" and "backed_up m" "proven m" "down m"
  shows "passes m s s' (m\<lparr>dirty := (\<not> (ok \<and> database_valid ev) \<and> (mut \<or> dirty m)), changed := (changed m \<or> mut)\<rparr>)"
  using phase_passes(11) [OF assms(1), of m] assms(2-4) by simp

lemma rollback_restore_passes:
  assumes "rollback_restore p rq cfg target result c s = (res, s')"
    and "backed_up m" "proven m" "down m"
  shows "\<exists>m'. passes m s s' m' \<and> (changed m \<longrightarrow> changed m') \<and> r_mutated res = r_mutated result \<and>
    r_outcome res = r_outcome result \<and>
    (r_rollback res = RollbackSucceeded \<longrightarrow> \<not> dirty m' \<and> \<not> down m' \<and> r_backend_healthy res \<and> database_valid (r_database res))"
proof -
  obtain ev mut ok s1 where rep: "do_replace p cfg target c s = ((ev, mut, ok), s1)"
    by (metis surj_pair)
  note rp = replace_passes [OF rep assms(2-4)]
  show ?thesis
  proof (cases "ok \<and> database_valid ev")
    case False
    with rp assms(1) rep show ?thesis
      by (auto simp: rollback_restore_def Let_def rollback_status_of_def split: if_splits)
  next
    case True
    define m1 where "m1 = m\<lparr>dirty := False, changed := (changed m \<or> mut)\<rparr>"
    have m1: "passes m s s1 m1" "\<not> dirty m1" using rp True by (simp_all add: m1_def)
    obtain b s2 where start: "start_and_verify p rq c s1 = (b, s2)" by fastforce
    have sv: "passes m s s2 (m1\<lparr>down := False\<rparr>)"
      using passes_trans [OF m1(1) start_and_verify_passes [OF start m1(2)]] .
    obtain d s3 where stop: "do_stop p rq c s2 = (d, s3)" by fastforce
    have "passes (m1\<lparr>down := False\<rparr>) s2 s3 (m1\<lparr>down := d\<rparr>)"
      using phase_passes(3) [OF stop, of "m1\<lparr>down := False\<rparr>"] by simp
    with sv have "passes m s s3 (m1\<lparr>down := d\<rparr>)" by (rule passes_trans)
    with sv assms(1) rep start stop True m1(2) show ?thesis
      by (auto simp: rollback_restore_def Let_def m1_def rollback_status_of_def split: bool.splits if_splits)
  qed
qed

lemma rollback_passes:
  assumes "rollback p rb rq cfg target result stage code s = (res, s')" and "backed_up m"
  shows "\<exists>m'. passes m s s' m' \<and> (changed m \<longrightarrow> changed m') \<and> r_mutated res = r_mutated result \<and>
    r_outcome res = RestorePartialCutover \<and>
    (r_rollback res = RollbackSucceeded \<and> r_rollback result \<noteq> RollbackSucceeded \<longrightarrow>
       \<not> dirty m' \<and> \<not> down m' \<and> r_backend_healthy res \<and> database_valid (r_database res))"
proof -
  let ?c = "recovery_context rb (clock s)"
  obtain a s1 where 1: "identity_and_reach p rq cfg ?c s = (a, s1)" by fastforce
  obtain b s2 where 2: "do_stop p rq ?c s1 = (b, s2)" by fastforce
  obtain d s3 where 3: "do_stopped p rq (recovery_context rb (clock s2)) s2 = (d, s3)" by fastforce
  obtain v s4 where 4: "do_revalidate p (vb_ref target) ?c s3 = (v, s4)" by fastforce
  obtain e s5 where 5: "identity_and_reach p rq cfg ?c s4 = (e, s5)" by fastforce
  let ?r = "result\<lparr>r_outcome := RestorePartialCutover, r_failed_stage := stage, r_code := code\<rparr>"
  from identity_and_reach_passes [OF 1, of m] obtain pa where p1: "passes m s s1 (m\<lparr>proven := pa\<rparr>)" by blast
  have p2: "passes m s s2 (m\<lparr>proven := pa, down := (down m \<or> b)\<rparr>)"
    using passes_trans [OF p1] phase_passes(3) [OF 2, of "m\<lparr>proven := pa\<rparr>"] by simp
  have p3: "passes m s s3 (m\<lparr>proven := pa, down := (down m \<or> b)\<rparr>)"
    using passes_trans [OF p2] phase_passes(10) [OF 3] by simp
  have p4: "passes m s s4 (m\<lparr>proven := pa, down := (down m \<or> b)\<rparr>)"
    using passes_trans [OF p3] phase_passes(6) [OF 4] by simp
  from identity_and_reach_passes [OF 5, of "m\<lparr>proven := pa, down := (down m \<or> b)\<rparr>"] obtain pe where
    q: "passes (m\<lparr>proven := pa, down := (down m \<or> b)\<rparr>) s4 s5 (m\<lparr>down := (down m \<or> b), proven := pe\<rparr>)"
    and pe: "e \<longrightarrow> pe"
    by auto
  have p5: "passes m s s5 (m\<lparr>down := (down m \<or> b), proven := pe\<rparr>)"
    by (rule passes_trans [OF p4 q])
  show ?thesis
  proof (cases "a \<and> b \<and> d = Some True \<and> v \<noteq> None \<and> e")
    case True
    then have run: "rollback_restore p rq cfg target ?r ?c s5 = (res, s')"
      using assms(1) 1 2 3 4 5 by (auto simp: rollback_def Let_def split: option.splits)
    have "backed_up (m\<lparr>down := (down m \<or> b), proven := pe\<rparr>)" "proven (m\<lparr>down := (down m \<or> b), proven := pe\<rparr>)"
      "down (m\<lparr>down := (down m \<or> b), proven := pe\<rparr>)"
      using True assms(2) pe by simp_all
    from rollback_restore_passes [OF run this] show ?thesis
      using passes_trans [OF p5] by fastforce
  next
    case False
    have "(s' = s1 \<or> s' = s3 \<or> s' = s4 \<or> s' = s5) \<and> r_mutated res = r_mutated result \<and>
        r_outcome res = RestorePartialCutover \<and> r_rollback res \<in> {RollbackFailed, RollbackCancelled}"
      using assms(1) 1 2 3 4 5 False
      by (auto simp: rollback_def Let_def rollback_status_of_def split: bool.splits option.splits if_splits)
    with p1 p3 p4 p5 show ?thesis by fastforce
  qed
qed

lemma restore_finish_passes:
  assumes "restore_finish p rb rq cfg target result c s = (res, s')"
    and "backed_up m" "\<not> dirty m" "database_valid (r_database result)" "r_rollback result \<noteq> RollbackSucceeded"
  shows "\<exists>m'. passes m s s' m' \<and> consistent res m'"
proof -
  obtain a s1 where 1: "do_identity p rq c s = (a, s1)" by fastforce
  obtain b s2 where 2: "do_start p rq c s1 = (b, s2)" by fastforce
  obtain d s3 where 3: "do_health p rq c s2 = (d, s3)" by fastforce
  have p1: "passes m s s1 (m\<lparr>proven := a\<rparr>)" using phase_passes(2) [OF 1, of m] by simp
  have p2: "passes m s s2 (m\<lparr>proven := a, down := False\<rparr>)"
    using passes_trans [OF p1] phase_passes(4) [OF 2, of "m\<lparr>proven := a\<rparr>"] assms(3) by simp
  have p3: "passes m s s3 (m\<lparr>proven := a, down := False\<rparr>)"
    using passes_trans [OF p2] phase_passes(9) [OF 3] by simp
  have rolled: "\<exists>m'. passes m s s' m' \<and> consistent res m'"
    if "passes m s si mi" "backed_up mi"
      "rollback p rb rq cfg target result stage code si = (res, s')" for si mi stage code
    using rollback_passes [OF that(3,2)] assms(5) passes_trans [OF that(1)]
    unfolding consistent_def by fastforce
  show ?thesis
  proof (cases "a \<and> b \<and> d")
    case True
    with assms 1 2 3 p3 show ?thesis
      by (auto simp: restore_finish_def consistent_def intro!: exI [of _ "m\<lparr>proven := a, down := False\<rparr>"])
  next
    case False
    with assms(1) 1 2 3 obtain si mi stage code where
      "rollback p rb rq cfg target result stage code si = (res, s')" "passes m s si mi" "backed_up mi"
      using p1 p2 p3 assms(2) by (auto simp: restore_finish_def split: bool.splits)
    with rolled show ?thesis by blast
  qed
qed

lemma recover_consistent:
  assumes "recover_before_cutover p rb rq result stage code c si = (res, s')" and "passes m s si mi"
    and "\<not> dirty mi" "\<not> changed mi" "\<not> r_mutated result"
  shows "\<exists>m'. passes m s s' m' \<and> consistent res m'"
  using recover_passes [OF assms(1,3)] passes_trans [OF assms(2)] assms(4,5)
  unfolding consistent_def by (intro exI [of _ "mi\<lparr>down := False\<rparr>"]) auto

lemma restore_cutover_passes:
  assumes "restore_cutover p rb rq cfg legacy result c s = (res, s')"
    and "proven m" "down m" "\<not> dirty m" "\<not> changed m"
    and "\<not> r_mutated result" "r_rollback result \<noteq> RollbackSucceeded"
  shows "\<exists>m'. passes m s s' m' \<and> consistent res m'"
proof -
  obtain tb s1 where 1: "do_backup p cfg rq c s = (tb, s1)" by fastforce
  let ?ok = "case tb of None \<Rightarrow> False | Some b \<Rightarrow> target_rollback b"
  define m1 where "m1 = m\<lparr>backed_up := (backed_up m \<or> ?ok)\<rparr>"
  have p1: "passes m s s1 m1" using phase_passes(8) [OF 1, of m] by (simp add: m1_def)
  have m1: "proven m1" "down m1" "\<not> dirty m1" "\<not> changed m1" using assms(2-5) by (simp_all add: m1_def)
  show ?thesis
  proof (cases "\<exists>t. tb = Some t \<and> target_rollback t")
    case False
    then have "recover_before_cutover p rb rq result StageTargetBackup ''restore-target-backup'' c s1 = (res, s')"
      using assms(1) 1 by (auto simp: restore_cutover_def split: option.splits)
    from recover_consistent [OF this p1 m1(3,4) assms(6)] show ?thesis .
  next
    case True
    then obtain t where t: "tb = Some t" "target_rollback t" by blast
    then have bu: "backed_up m1" by (simp add: m1_def)
    obtain ev mut ok s2 where 2: "do_replace p cfg legacy c s1 = ((ev, mut, ok), s2)" by (metis surj_pair)
    let ?r = "result\<lparr>r_target_backup := backup_evidence_of t, r_database := ev, r_mutated := mut\<rparr>"
    define m2 where "m2 = m1\<lparr>dirty := (\<not> (ok \<and> database_valid ev) \<and> mut), changed := mut\<rparr>"
    have p2: "passes m s s2 m2"
      using passes_trans [OF p1] replace_passes [OF 2 bu m1(1,2)] m1 by (simp add: m2_def)
    have m2: "backed_up m2" using bu by (simp add: m2_def)
    show ?thesis
    proof (cases "ok \<and> database_valid ev")
      case True
      then have fin: "restore_finish p rb rq cfg t ?r c s2 = (res, s')"
        using assms(1) 1 2 t by (simp add: restore_cutover_def Let_def)
      have "\<not> dirty m2" "database_valid (r_database ?r)" "r_rollback ?r \<noteq> RollbackSucceeded"
        using True assms(7) by (simp_all add: m2_def)
      from restore_finish_passes [OF fin m2 this] show ?thesis using passes_trans [OF p2] by blast
    next
      case no: False
      show ?thesis
      proof (cases mut)
        case True
        then have "rollback p rb rq cfg t ?r StageTargetReplacement ''restore-primary-failed'' s2 = (res, s')"
          using assms(1) 1 2 t no by (auto simp: restore_cutover_def Let_def split: if_splits)
        from rollback_passes [OF this m2] show ?thesis
          using passes_trans [OF p2] assms(7) unfolding consistent_def by fastforce
      next
        case False
        then have rec: "recover_before_cutover p rb rq ?r StageTargetReplacement ''restore-primary-failed'' c s2 = (res, s')"
          using assms(1) 1 2 t no by (auto simp: restore_cutover_def Let_def split: if_splits)
        show ?thesis by (rule recover_consistent [OF rec p2]) (use False in \<open>simp_all add: m2_def\<close>)
      qed
    qed
  qed
qed

lemma restore_with_config_passes:
  assumes "restore_with_config p rb rq result cfg c s = (res, s')"
    and "down m" "\<not> dirty m" "\<not> changed m" "\<not> r_mutated result" "r_rollback result \<noteq> RollbackSucceeded"
  shows "\<exists>m'. passes m s s' m' \<and> consistent res m'"
proof -
  obtain v s1 where 1: "do_revalidate p (rq_legacy rq) c s = (v, s1)" by fastforce
  obtain b s2 where 2: "identity_and_reach p rq cfg c s1 = (b, s2)" by fastforce
  have p1: "passes m s s1 m" using phase_passes(6) [OF 1] by simp
  from identity_and_reach_passes [OF 2, of m] obtain d where
    p2: "passes m s s2 (m\<lparr>proven := d\<rparr>)" "b \<longrightarrow> d"
    using passes_trans [OF p1] by blast
  show ?thesis
  proof (cases "v \<noteq> None \<and> b")
    case True
    then obtain l where l: "v = Some l" "b" by blast
    let ?r = "result\<lparr>r_legacy_backup := backup_evidence_of l\<rparr>"
    have run: "restore_cutover p rb rq cfg l ?r c s2 = (res, s')"
      using assms(1) 1 2 l by (simp add: restore_with_config_def Let_def)
    have "\<exists>m'. passes (m\<lparr>proven := d\<rparr>) s2 s' m' \<and> consistent res m'"
      by (rule restore_cutover_passes [OF run]) (use assms l p2(2) in simp_all)
    then show ?thesis using passes_trans [OF p2(1)] by blast
  next
    case False
    with assms(1) 1 2 consider stage code where
        "recover_before_cutover p rb rq result stage code c s1 = (res, s')"
      | l stage code where
        "recover_before_cutover p rb rq (result\<lparr>r_legacy_backup := backup_evidence_of l\<rparr>) stage code c s2 = (res, s')"
      by (cases v; cases b) (auto simp: restore_with_config_def Let_def)
    then show ?thesis
      by cases (erule recover_consistent, rule p1 p2(1), use assms in simp_all)+
  qed
qed

text \<open>Every run passes the monitor, and its result says what the phases show.\<close>

lemma restore_run_passes:
  assumes "restore_run co rq c s = (res, s')" and "ports co = Some p"
  shows "\<exists>m. passes fresh s s' m \<and> consistent res m"
proof -
  obtain a s1 where 1: "do_wait p restore_wait_duration c s = (a, s1)" by fastforce
  obtain b s2 where 2: "do_identity p rq c s1 = (b, s2)" by fastforce
  obtain d s3 where 3: "do_stop p rq c s2 = (d, s3)" by fastforce
  have p1: "passes fresh s s1 fresh" using phase_passes(1) [OF 1] by simp
  have p2: "passes fresh s s2 (fresh\<lparr>proven := b\<rparr>)"
    using passes_trans [OF p1] phase_passes(2) [OF 2, of fresh] by simp
  have p3: "passes fresh s s3 (fresh\<lparr>proven := b, down := d\<rparr>)"
    using passes_trans [OF p2] phase_passes(3) [OF 3, of "fresh\<lparr>proven := b\<rparr>"] by (simp add: fresh_def)
  have early: "consistent (before_cutover initial_result stage c code now) (fresh\<lparr>proven := x, down := y\<rparr>)"
    and unsupported: "consistent (initial_result\<lparr>r_outcome := RestoreUnsupported, r_code := code\<rparr>) fresh"
    for stage code now x y
    by (auto simp: consistent_def before_cutover_def initial_result_def fresh_def)
  show ?thesis
  proof (cases "rq_goos rq = ''linux'' \<and> rq_goarch rq \<in> {''amd64'', ''arm64''} \<and> a \<and> b \<and> d")
    case False
    with assms 1 2 3 have
      "s' = s \<and> (\<exists>code. res = initial_result\<lparr>r_outcome := RestoreUnsupported, r_code := code\<rparr>) \<or>
       (s' = s1 \<or> s' = s2 \<or> s' = s3) \<and> (\<exists>stage code now. res = before_cutover initial_result stage c code now)"
      by (auto simp: restore_run_def split: bool.splits if_splits)
    then have "consistent res fresh \<and> (s' = s \<or> s' = s1) \<or>
        consistent res (fresh\<lparr>proven := b\<rparr>) \<and> s' = s2 \<or>
        consistent res (fresh\<lparr>proven := b, down := d\<rparr>) \<and> s' = s3"
      using early unsupported
      by (auto simp: fresh_def)
    then show ?thesis using p1 p2 p3 passes_refl by blast
  next
    case True
    then have run: "restore_stopped p (rollback_context co) rq c s3 = (res, s')"
      using assms 1 2 3 by (auto simp: restore_run_def)
    obtain e s4 where 4: "do_env p rq c s3 = (e, s4)" by fastforce
    have p4: "passes fresh s s4 (fresh\<lparr>proven := b, down := d\<rparr>)"
      using passes_trans [OF p3] phase_passes(5) [OF 4] by simp
    show ?thesis
    proof (cases e)
      case None
      with run 4 have "recover_before_cutover p (rollback_context co) rq initial_result StageCredentials
          ''restore-credentials'' c s4 = (res, s')"
        by (simp add: restore_stopped_def)
      from recover_consistent [OF this p4] show ?thesis by (simp add: fresh_def initial_result_def)
    next
      case (Some cfg)
      then obtain s5 where 5: "restore_with_config p (rollback_context co) rq initial_result cfg c s4 = (res, s5)"
        and s': "s' = release_config cfg s5"
        using run 4 by (auto simp: restore_stopped_def split: prod.splits)
      have "\<exists>m'. passes (fresh\<lparr>proven := b, down := d\<rparr>) s4 s5 m' \<and> consistent res m'"
        by (rule restore_with_config_passes [OF 5]) (use True in \<open>simp_all add: fresh_def initial_result_def\<close>)
      then obtain m' where m': "passes fresh s s5 m'" "consistent res m'"
        using passes_trans [OF p4] by blast
      have "passes m' s5 s' m'"
        unfolding passes_def s' by (intro exI [of _ "[]"]) simp
      with m' show ?thesis using passes_trans by blast
    qed
  qed
qed

lemma rollback_outcome:
  "rollback p rb rq cfg target result stage code s = (res, s') \<Longrightarrow> r_outcome res \<noteq> RestoreSucceeded"
  using rollback_passes [where m = "fresh\<lparr>backed_up := True\<rparr>"] by fastforce

lemma recover_outcome:
  "recover_before_cutover p rb rq result stage code c s = (res, s') \<Longrightarrow> r_outcome res \<noteq> RestoreSucceeded"
  by (auto simp: recover_before_cutover_def before_cutover_def split: prod.splits if_splits)

lemma identity_and_reach_True:
  "identity_and_reach p rq cfg c s = (True, s') \<Longrightarrow>
   phased s s' [Phase IdentityPhase True, Phase ReachPhase True]"
  by (auto simp: identity_and_reach_def split: prod.splits bool.splits
      dest!: identity_phase reach_phase dest: phased_trans)

lemma restore_finish_success:
  assumes "restore_finish p rb rq cfg target result c s = (res, s')" and "r_outcome res = RestoreSucceeded"
  shows "phased s s' [Phase IdentityPhase True, Phase StartPhase True, Phase HealthPhase True]"
proof -
  obtain s1 s2 where "do_identity p rq c s = (True, s1)" "do_start p rq c s1 = (True, s2)"
    "do_health p rq c s2 = (True, s')"
    using assms rollback_outcome by (auto simp: restore_finish_def split: prod.splits bool.splits)
  from phased_trans [OF identity_phase [OF this(1)] phased_trans [OF start_phase [OF this(2)] health_phase [OF this(3)]]]
  show ?thesis by simp
qed

lemma restore_cutover_success:
  assumes "restore_cutover p rb rq cfg legacy result c s = (res, s')" and "r_outcome res = RestoreSucceeded"
  shows "\<exists>m. phased s s' ([Phase BackupPhase True, Phase (ReplacePhase (dump_path (vb_ref legacy)) m) True] @
    [Phase IdentityPhase True, Phase StartPhase True, Phase HealthPhase True])"
proof -
  obtain t s1 ev m s2 where 1: "do_backup p cfg rq c s = (Some t, s1)" "target_rollback t"
    and 2: "do_replace p cfg legacy c s1 = ((ev, m, True), s2)" "database_valid ev"
    and 3: "restore_finish p rb rq cfg t
              (result\<lparr>r_target_backup := backup_evidence_of t, r_database := ev, r_mutated := m\<rparr>) c s2 = (res, s')"
    using assms recover_outcome rollback_outcome
    by (auto simp: restore_cutover_def Let_def split: prod.splits option.splits if_splits)
  have "phased s s2 [Phase BackupPhase True, Phase (ReplacePhase (dump_path (vb_ref legacy)) m) True]"
    using phased_trans [OF backup_phase [OF 1(1)] replace_phase [OF 2(1)]] 1(2) 2(2) by simp
  from phased_trans [OF this restore_finish_success [OF 3 assms(2)]] show ?thesis by blast
qed

lemma restore_run_success:
  assumes "restore_run co rq c s = (res, s')" and "ports co = Some p" and "r_outcome res = RestoreSucceeded"
  shows "\<exists>source m. phased s s' (success_phases rq source m)"
proof -
  obtain s1 s2 s3 s4 cfg s5 legacy s6 s7 s8 where
    1: "do_wait p restore_wait_duration c s = (True, s1)" and 2: "do_identity p rq c s1 = (True, s2)"
    and 3: "do_stop p rq c s2 = (True, s3)" and 4: "do_env p rq c s3 = (Some cfg, s4)"
    and 5: "do_revalidate p (rq_legacy rq) c s4 = (Some legacy, s5)"
    and 6: "identity_and_reach p rq cfg c s5 = (True, s6)"
    and 7: "restore_cutover p (rollback_context co) rq cfg legacy
              (initial_result\<lparr>r_legacy_backup := backup_evidence_of legacy\<rparr>) c s6 = (res, s7)"
    and 8: "s' = release_config cfg s7"
    using assms recover_outcome
    by (auto simp: restore_run_def restore_stopped_def restore_with_config_def Let_def before_cutover_def
        split: prod.splits option.splits bool.splits if_splits)
  have a: "phased s s2 [Phase WaitPhase True, Phase IdentityPhase True]"
    using phased_trans [OF wait_phase [OF 1] identity_phase [OF 2]] by simp
  have b: "phased s2 s4 [Phase StopPhase True, Phase EnvPhase True]"
    using phased_trans [OF stop_phase [OF 3] env_phase [OF 4]] by simp
  have d: "phased s4 s6 [Phase (RevalidatePhase (dump_path (rq_legacy rq))) True,
      Phase IdentityPhase True, Phase ReachPhase True]"
    using phased_trans [OF revalidate_phase [OF 5] identity_and_reach_True [OF 6]] by simp
  from restore_cutover_success [OF 7 assms(3)] obtain m where
    e: "phased s6 s7 ([Phase BackupPhase True, Phase (ReplacePhase (dump_path (vb_ref legacy)) m) True] @
      [Phase IdentityPhase True, Phase StartPhase True, Phase HealthPhase True])"
    by blast
  have f: "phased s7 s' []" unfolding 8 by simp
  from phased_trans [OF phased_trans [OF phased_trans [OF phased_trans [OF a b] d] e] f] show ?thesis
    unfolding success_phases_def by auto
qed

end

end
