(* ===== verification/RestoreBackup.thy ===== *)
theory RestoreBackup
  imports RestoreCoordinator
begin

text \<open>
  \<open>internal/migration/restore_backup.go\<close>, \<open>validator.go\<close> and the staging adapter of
  \<open>restore_adapters.go\<close>: the validation of backup files, the creation and publication of
  the rollback backup.  SHA-256 and the JSON coding of the manifest are parameters.
\<close>

section \<open>Archive validation\<close>

definition container_dump_path :: string where
  "container_dump_path = ''/run/alice-installer/dump''"

definition postgresql11_image :: string where
  "postgresql11_image = ''bitnami/postgresql:11-debian-10''"

definition listing_valid :: "string \<Rightarrow> bool" where
  "listing_valid text =
     (let lines = map trim_space (split_char CHR 0x0A text) in
      list_ex (\<lambda>line. prefix ''; Archive'' line) lines \<and>
      list_ex (\<lambda>line. length line > 2 \<and> is_digit (line ! 0) \<and> contains_str line '';'') lines)"

definition safe_dump_info :: "file_info \<Rightarrow> bool" where
  "safe_dump_info i \<longleftrightarrow> is_regular i \<and> \<not> is_symlink i \<and> perm i = 0x180 \<and> file_size i > 0"

definition staged_dump_owner :: "'w os \<Rightarrow> string \<Rightarrow> 'w msys \<Rightarrow> (int \<times> int) option \<times> 'w msys" where
  "staged_dump_owner os path s =
     (if \<not> is_abs path \<or> path_clean path \<noteq> path then (None, s)
      else (case os_call os (Lstat path) s of
        (OsInfo i, s1) \<Rightarrow> (if safe_dump_info i then owner i else None, s1)
      | (_, s1) \<Rightarrow> (None, s1)))"

definition safe_owned_staged_dump :: "'w os \<Rightarrow> string \<Rightarrow> int \<Rightarrow> int \<Rightarrow> 'w msys \<Rightarrow> bool \<times> 'w msys" where
  "safe_owned_staged_dump os path uid gid s =
     (if uid < 0 \<or> gid < 0 \<or> \<not> is_abs path \<or> path_clean path \<noteq> path then (False, s)
      else (case os_call os (Lstat path) s of
        (OsInfo i, s1) \<Rightarrow> (safe_dump_info i \<and> owned_by i uid gid, s1)
      | (_, s1) \<Rightarrow> (False, s1)))"

definition validate_spec :: "string \<Rightarrow> string \<Rightarrow> int \<Rightarrow> int \<Rightarrow> int \<Rightarrow> process_spec" where
  "validate_spec name staged uid gid timeout =
     \<lparr>p_name = ''docker'',
      p_args = [''run'', ''--rm'', ''--pull=never'', ''--name'', name,
                ''--mount'', bind_mount staged container_dump_path,
                ''--user'', itoa uid @ '':'' @ itoa gid,
                postgresql11_image, ''pg_restore'', ''--list'', container_dump_path],
      p_timeout = timeout\<rparr>"

text \<open>\<open>PG11ArchiveValidator.Validate\<close>; the arguments are its executor and timeout.\<close>

definition archive_validate ::
  "'w os \<Rightarrow> 'w executor option \<Rightarrow> int \<Rightarrow> string \<Rightarrow> ('w, bool) meff" where
  "archive_validate os x timeout staged c s =
     (case staged_dump_owner os staged s of
        (owner_opt, s1) \<Rightarrow>
          if ctx_err c (clock s1) \<noteq> None then (False, s1)
          else (case (x, owner_opt) of
            (Some x', Some (uid, gid)) \<Rightarrow>
              (case safe_owned_staged_dump os staged uid gid s1 of
                 (False, s2) \<Rightarrow> (False, s2)
               | (True, s2) \<Rightarrow>
                   (case os_call os RandomToken s2 of
                      (OsPath token, s3) \<Rightarrow>
                        let name = ''alice-pg11-validate-'' @ token;
                            t = (if timeout \<le> 0 then default_process_timeout else timeout) in
                        (case exec_call x' (validate_spec name staged uid gid t) c s3 of
                           ((r, chunks), s4) \<Rightarrow>
                             (case cleanup_helper x name (cleanup_context (clock s4)) s4 of
                                (cleaned, s5) \<Rightarrow>
                                  (cleaned \<and> p_outcome r = ProcessSucceeded \<and>
                                   listing_valid (bounded_output (64 * 1024) True chunks) \<and>
                                   ctx_err c (clock s5) = None, s5)))
                    | (_, s3) \<Rightarrow> (False, s3)))
          | _ \<Rightarrow> (False, s1)))"

section \<open>Backup files\<close>

record restore_manifest =
  m_format :: string
  m_validation :: string
  m_sha256 :: string
  m_size :: int

text \<open>The codecs the package relies on: SHA-256 in hexadecimal, and JSON.\<close>

record codec =
  sha256_hex :: "string \<Rightarrow> string"
  encode_manifest :: "restore_manifest \<Rightarrow> string"
  decode_manifest :: "string \<Rightarrow> restore_manifest option"

definition default_backup_root :: string where "default_backup_root = ''/opt/alice/backups/''"

definition path_abs :: "string \<Rightarrow> string \<Rightarrow> string" where
  "path_abs cwd p = (if is_abs p then path_clean p else path_join [cwd, p])"

definition safe_restore_file :: "'w os \<Rightarrow> string \<Rightarrow> 'w msys \<Rightarrow> bool \<times> 'w msys" where
  "safe_restore_file os path s =
     (case os_call os (Lstat path) s of
        (OsInfo i, s1) \<Rightarrow> (is_abs path \<and> is_regular i \<and> \<not> is_symlink i \<and> file_size i > 0, s1)
      | (_, s1) \<Rightarrow> (False, s1))"

text \<open>The walk from the root to the file, component by component.\<close>

fun safe_walk :: "'w os \<Rightarrow> string \<Rightarrow> string \<Rightarrow> string list \<Rightarrow> 'w msys \<Rightarrow> bool \<times> 'w msys" where
  "safe_walk os path current [] s = (True, s)"
| "safe_walk os path current (component # rest) s =
     (let next = path_join [current, component] in
      case os_call os (Lstat next) s of
        (OsInfo i, s1) \<Rightarrow>
          if is_symlink i \<or> next \<noteq> path \<and> \<not> is_dir i
             \<or> next = path \<and> (\<not> is_regular i \<or> file_size i \<le> 0)
          then (False, s1)
          else safe_walk os path next rest s1
      | (_, s1) \<Rightarrow> (False, s1))"

definition safe_restore_file_in_root ::
  "'w os \<Rightarrow> string \<Rightarrow> string \<Rightarrow> string \<Rightarrow> 'w msys \<Rightarrow> bool \<times> 'w msys" where
  "safe_restore_file_in_root os cwd path0 root0 s =
     (let root = path_abs cwd root0; path = path_abs cwd path0 in
      case os_call os (Lstat root) s of
        (OsInfo i, s1) \<Rightarrow>
          if is_symlink i \<or> \<not> is_dir i then (False, s1)
          else (case path_rel root path of
            None \<Rightarrow> (False, s1)
          | Some rel \<Rightarrow>
              if rel = ''.'' \<or> rel = ''..'' \<or> prefix ''../'' rel then (False, s1)
              else safe_walk os path root (split_char CHR ''/'' rel) s1)
      | (_, s1) \<Rightarrow> (False, s1))"

definition restore_hash :: "codec \<Rightarrow> 'w os \<Rightarrow> string \<Rightarrow> 'w msys \<Rightarrow> (string \<times> int) option \<times> 'w msys" where
  "restore_hash cd os path s =
     (case os_call os (ReadWhole path) s of
        (OsData data, s1) \<Rightarrow> (Some (sha256_hex cd data, int (length data)), s1)
      | (_, s1) \<Rightarrow> (None, s1))"

definition manifest_matches :: "codec \<Rightarrow> string \<Rightarrow> string \<Rightarrow> int \<Rightarrow> bool" where
  "manifest_matches cd data hash n \<longleftrightarrow>
     (case decode_manifest cd data of
        None \<Rightarrow> False
      | Some m \<Rightarrow> m_format m = ''postgresql-custom'' \<and> m_validation m = ''validated'' \<and>
                  m_sha256 m = hash \<and> m_size m = n)"

definition valid_restore_backup :: "codec \<Rightarrow> 'w os \<Rightarrow> backup_ref \<Rightarrow> 'w msys \<Rightarrow> bool \<times> 'w msys" where
  "valid_restore_backup cd os ref s =
     (case safe_restore_file os (dump_path ref) s of
        (False, s1) \<Rightarrow> (False, s1)
      | (True, s1) \<Rightarrow>
          (case safe_restore_file os (manifest_path ref) s1 of
             (False, s2) \<Rightarrow> (False, s2)
           | (True, s2) \<Rightarrow>
               if sha256 ref = [] \<or> backup_size ref \<le> 0 then (False, s2)
               else (case restore_hash cd os (dump_path ref) s2 of
                 (None, s3) \<Rightarrow> (False, s3)
               | (Some (hash, n), s3) \<Rightarrow>
                   if hash \<noteq> sha256 ref \<or> n \<noteq> backup_size ref then (False, s3)
                   else (case os_call os (ReadWhole (manifest_path ref)) s3 of
                     (OsData data, s4) \<Rightarrow> (manifest_matches cd data hash n, s4)
                   | (_, s4) \<Rightarrow> (False, s4)))))"

definition valid_restore_backup_in_root ::
  "codec \<Rightarrow> 'w os \<Rightarrow> string \<Rightarrow> backup_ref \<Rightarrow> string \<Rightarrow> 'w msys \<Rightarrow> bool \<times> 'w msys" where
  "valid_restore_backup_in_root cd os cwd ref root s =
     (case safe_restore_file_in_root os cwd (dump_path ref) root s of
        (False, s1) \<Rightarrow> (False, s1)
      | (True, s1) \<Rightarrow>
          (case safe_restore_file_in_root os cwd (manifest_path ref) root s1 of
             (False, s2) \<Rightarrow> (False, s2)
           | (True, s2) \<Rightarrow> valid_restore_backup cd os ref s2))"

text \<open>
  \<open>BackupGate.Revalidate\<close>, with the validator as an argument: the files are checked, the
  archive is listed, and the files are checked again.
\<close>

definition gate_revalidate ::
  "codec \<Rightarrow> 'w os \<Rightarrow> string \<Rightarrow> (string \<Rightarrow> ('w, bool) meff) option \<Rightarrow> backup_ref \<Rightarrow>
   ('w, validated_backup option) meff" where
  "gate_revalidate cd os cwd validator ref c s =
     (if ctx_err c (clock s) \<noteq> None then (None, s)
      else case validator of
        None \<Rightarrow> (None, s)
      | Some validate \<Rightarrow>
          (case valid_restore_backup_in_root cd os cwd ref default_backup_root s of
             (False, s1) \<Rightarrow> (None, s1)
           | (True, s1) \<Rightarrow>
               (case validate (dump_path ref) c s1 of
                  (False, s2) \<Rightarrow> (None, s2)
                | (True, s2) \<Rightarrow>
                    if ctx_err c (clock s2) \<noteq> None then (None, s2)
                    else (case valid_restore_backup_in_root cd os cwd ref default_backup_root s2 of
                      (False, s3) \<Rightarrow> (None, s3)
                    | (True, s3) \<Rightarrow> (Some \<lparr>vb_ref = ref, target_rollback = False\<rparr>, s3)))))"

section \<open>Publication of the rollback backup\<close>

definition valid_operation_id :: "string \<Rightarrow> bool" where
  "valid_operation_id i \<longleftrightarrow>
     i \<noteq> [] \<and> length i \<le> 64 \<and>
     list_all (\<lambda>n. let c = (of_char (i ! n) :: nat) in
                 (97 \<le> c \<and> c \<le> 122) \<or> (65 \<le> c \<and> c \<le> 90) \<or> (48 \<le> c \<and> c \<le> 57)
                 \<or> 0 < n \<and> (c = 45 \<or> c = 95))
       [0..<length i]"

definition cleanup_path :: "'w os \<Rightarrow> string \<Rightarrow> 'w msys \<Rightarrow> 'w msys" where
  "cleanup_path os path s = (if path = [] then s else snd (os_ok os (RemoveFile path) s))"

definition write_protected_file :: "'w os \<Rightarrow> string \<Rightarrow> string \<Rightarrow> 'w msys \<Rightarrow> bool \<times> 'w msys" where
  "write_protected_file os path content s =
     (case os_ok os (CreateExclusive path 0x180) s of
        (False, s1) \<Rightarrow> (False, s1)
      | (True, s1) \<Rightarrow>
          (case os_ok os (WriteTo path content) s1 of
             (w, s2) \<Rightarrow>
               (case (if w then os_ok os (SyncFile path) s2 else (False, s2)) of
                  (synced, s3) \<Rightarrow>
                    (case os_ok os (CloseFile path) s3 of
                       (closed, s4) \<Rightarrow>
                         if \<not> synced \<or> \<not> closed then (False, cleanup_path os path s4)
                         else (True, s4)))))"

definition publish_target_rollback ::
  "codec \<Rightarrow> 'w os \<Rightarrow> string \<Rightarrow> string \<Rightarrow> string \<Rightarrow> 'w msys \<Rightarrow> backup_ref option \<times> 'w msys" where
  "publish_target_rollback cd os staged destination operation_id s =
     (case restore_hash cd os staged s of
        (None, s1) \<Rightarrow> (None, s1)
      | (Some (hash, n), s1) \<Rightarrow>
          let dump = path_join [destination, ''alice-target-rollback-'' @ operation_id @ ''-'' @ hash @ ''.dump''];
              manifest = dump @ ''.manifest.json'';
              text = encode_manifest cd \<lparr>m_format = ''postgresql-custom'', m_validation = ''validated'',
                                         m_sha256 = hash, m_size = n\<rparr> @ [CHR 0x0A] in
          (case write_protected_file os manifest text s1 of
             (False, s2) \<Rightarrow> (None, s2)
           | (True, s2) \<Rightarrow>
               (case os_ok os (RenameNoReplace staged dump) s2 of
                  (renamed, s3) \<Rightarrow>
                    (case (if renamed then os_ok os (SyncDirectory destination) s3 else (False, s3)) of
                       (False, s4) \<Rightarrow> (None, cleanup_path os manifest (cleanup_path os dump s4))
                     | (True, s4) \<Rightarrow>
                         (Some \<lparr>dump_path = dump, manifest_path = manifest, sha256 = hash, backup_size = n\<rparr>,
                          s4)))))"

definition safe_target_staging :: "'w os \<Rightarrow> string \<Rightarrow> string \<Rightarrow> string \<Rightarrow> 'w msys \<Rightarrow> bool \<times> 'w msys" where
  "safe_target_staging os path destination operation_id s =
     (case os_call os (Lstat path) s of
        (OsInfo i, s1) \<Rightarrow>
          if valid_operation_id operation_id \<and> perm i = 0x180 \<and> path_dir path = destination
             \<and> path_base path = ''.target-rollback-'' @ operation_id @ ''.part''
          then safe_restore_file os path s1 else (False, s1)
      | (_, s1) \<Rightarrow> (False, s1))"

section \<open>Creation of the rollback backup\<close>

fun write_chunks :: "'w os \<Rightarrow> string \<Rightarrow> string list \<Rightarrow> 'w msys \<Rightarrow> bool \<times> 'w msys" where
  "write_chunks os path [] s = (True, s)"
| "write_chunks os path (chunk # chunks) s =
     (case os_ok os (WriteTo path chunk) s of
        (False, s1) \<Rightarrow> (False, s1)
      | (True, s1) \<Rightarrow> write_chunks os path chunks s1)"

definition discard_staging :: "'w os \<Rightarrow> string \<Rightarrow> 'w msys \<Rightarrow> 'w msys" where
  "discard_staging os staged s =
     snd (os_ok os (RemoveFile staged) (snd (os_ok os (CloseFile staged) s)))"

text \<open>The part of \<open>stage\<close> after the staging file was opened.\<close>

definition fill_staging ::
  "'w os \<Rightarrow> 'w executor \<Rightarrow> target_config \<Rightarrow> credential_file \<Rightarrow> string \<Rightarrow> string \<Rightarrow> ('w, bool) meff" where
  "fill_staging os x cfg credential operation_id staged c s =
     (case build_target_backup_dump os cfg credential operation_id s of
        (None, s1) \<Rightarrow> (False, discard_staging os staged s1)
      | (Some spec, s1) \<Rightarrow>
          (case exec_call x spec c s1 of
             ((r, chunks), s2) \<Rightarrow>
               (case write_chunks os staged chunks s2 of
                  (written, s3) \<Rightarrow>
                    if p_outcome r \<noteq> ProcessSucceeded \<or> \<not> written \<or> ctx_err c (clock s3) \<noteq> None
                    then (False, discard_staging os staged s3)
                    else (case os_ok os (Chmod staged 0x180) s3 of
                      (False, s4) \<Rightarrow> (False, discard_staging os staged s4)
                    | (True, s4) \<Rightarrow>
                        (case os_ok os (CloseFile staged) s4 of
                           (False, s5) \<Rightarrow> (False, snd (os_ok os (RemoveFile staged) s5))
                         | (True, s5) \<Rightarrow> (True, s5))))))"

text \<open>
  \<open>TargetRollbackBackupAdapter.stage\<close>; \<open>prep\<close> is \<open>PrepareTargetCredential\<close> on the
  adapter's transport, and the deferred cleanup removes the credential on every path.
\<close>

definition target_stage ::
  "'w os \<Rightarrow> 'w executor \<Rightarrow> (target_config \<Rightarrow> 'w msys \<Rightarrow> credential_file option \<times> 'w msys) \<Rightarrow>
   target_config \<Rightarrow> string \<Rightarrow> string \<Rightarrow> ('w, string option) meff" where
  "target_stage os x prep cfg destination operation_id c s =
     (if \<not> valid_operation_id operation_id then (None, s)
      else case prep cfg s of
        (None, s1) \<Rightarrow> (None, s1)
      | (Some credential, s1) \<Rightarrow>
          let staged = path_join [destination, ''.target-rollback-'' @ operation_id @ ''.part''] in
          (case os_ok os (CreateExclusive staged 0x180) s1 of
             (False, s2) \<Rightarrow> (None, snd (credential_cleanup os credential s2))
           | (True, s2) \<Rightarrow>
               (case fill_staging os x cfg credential operation_id staged c s2 of
                  (ok, s3) \<Rightarrow>
                    (if ok then Some staged else None, snd (credential_cleanup os credential s3)))))"

text \<open>
  \<open>TargetRollbackBackupCreator.CreateValidated\<close>; the deferred function removes the staged
  file unless it was published.
\<close>

definition create_validated ::
  "codec \<Rightarrow> 'w os \<Rightarrow> (string \<Rightarrow> ('w, bool) meff) \<Rightarrow>
   (target_config \<Rightarrow> string \<Rightarrow> string \<Rightarrow> ('w, string option) meff) \<Rightarrow>
   ('w msys \<Rightarrow> string option \<times> 'w msys) \<Rightarrow> target_config \<Rightarrow> string \<Rightarrow> ('w, validated_backup option) meff" where
  "create_validated cd os validate stage operation_id cfg destination c s =
     (if ctx_err c (clock s) \<noteq> None \<or> \<not> is_abs destination then (None, s)
      else case operation_id s of
        (None, s1) \<Rightarrow> (None, s1)
      | (Some op, s1) \<Rightarrow>
          if \<not> valid_operation_id op then (None, s1)
          else (case stage cfg destination op c s1 of
            (None, s2) \<Rightarrow> (None, s2)
          | (Some staged, s2) \<Rightarrow>
              (case safe_target_staging os staged destination op s2 of
                 (False, s3) \<Rightarrow> (None, s3)
               | (True, s3) \<Rightarrow>
                   if ctx_err c (clock s3) \<noteq> None then (None, s3)
                   else (case validate staged c s3 of
                     (ok, s4) \<Rightarrow>
                       if \<not> ok \<or> ctx_err c (clock s4) \<noteq> None then (None, cleanup_path os staged s4)
                       else (case publish_target_rollback cd os staged destination op s4 of
                         (None, s5) \<Rightarrow> (None, cleanup_path os staged s5)
                       | (Some ref, s5) \<Rightarrow> (Some \<lparr>vb_ref = ref, target_rollback = True\<rparr>, s5))))))"

record 'w backup_adapter =
  ba_validator :: "(string \<Rightarrow> ('w, bool) meff) option"
  ba_executor :: "'w executor option"
  ba_prepare :: "target_config \<Rightarrow> 'w msys \<Rightarrow> credential_file option \<times> 'w msys"
  ba_operation_id :: "('w msys \<Rightarrow> string option \<times> 'w msys) option"

text \<open>\<open>TargetRollbackBackupAdapter.CreateValidated\<close>.\<close>

definition adapter_create_validated ::
  "codec \<Rightarrow> 'w os \<Rightarrow> 'w backup_adapter \<Rightarrow> target_config \<Rightarrow> string \<Rightarrow> ('w, validated_backup option) meff" where
  "adapter_create_validated cd os a cfg destination c s =
     (case (ba_validator a, ba_executor a, ba_operation_id a) of
        (Some validate, Some x, Some op) \<Rightarrow>
          if path_clean destination \<noteq> path_clean default_backup_root then (None, s)
          else create_validated cd os validate (target_stage os x (ba_prepare a)) op cfg default_backup_root c s
      | _ \<Rightarrow> (None, s))"

section \<open>The rollback backup of the production adapter\<close>

text \<open>
  The directory of a staged file is a cleaned path, and the fixed root is not one: it
  ends in a slash.  The staging check of the creator therefore never succeeds.
\<close>

lemma path_dir_not_root: "path_dir path \<noteq> default_backup_root"
proof
  assume "path_dir path = default_backup_root"
  then have "path_clean default_backup_root = default_backup_root"
    unfolding path_dir_def by (metis path_clean_idem)
  then show False by code_simp
qed

lemma safe_target_staging_root: "safe_target_staging os path default_backup_root op s = (ok, s') \<Longrightarrow> \<not> ok"
  by (auto simp: safe_target_staging_def path_dir_not_root split: prod.splits os_reply.splits)

lemma adapter_never_creates:
  assumes "adapter_create_validated cd os a cfg destination c s = (r, s')"
  shows "r = None"
  using assms
  by (auto simp: adapter_create_validated_def create_validated_def
      split: option.splits prod.splits if_splits bool.splits dest: safe_target_staging_root)

end
