(* ===== verification/Compose.thy ===== *)
theory Compose
  imports Prelude
begin

text \<open>
  \<open>internal/compose/runner.go\<close>: the Docker Compose client, one command per operation.
  The JSON decoder of a \<open>ps\<close> line is a parameter, and so is the command runner.
\<close>

definition backend_service :: string where "backend_service = ''backend''"
definition postgresql_service :: string where "postgresql_service = ''postgresql-master''"
definition postgresql_container :: string where "postgresql_container = ''alice_postgresql-master''"

record compose_version =
  v2_plugin :: bool
  version_raw :: string

record service_health =
  sh_service :: string
  sh_container :: string
  sh_status :: string
  sh_state :: string

definition is_ready :: "service_health \<Rightarrow> bool" where
  "is_ready h \<longleftrightarrow>
     sh_state h = ''running'' \<and> (sh_status h = ''healthy'' \<or> sh_status h = [] \<or> sh_status h = ''none'')"

section \<open>Arguments\<close>

definition compose_args :: "string list \<Rightarrow> string list" where
  "compose_args files = concat (map (\<lambda>f. [''-f'', f]) files)"

definition base_args :: "string list \<Rightarrow> string \<Rightarrow> string list \<Rightarrow> string list" where
  "base_args files env_file sub =
     [''compose''] @ compose_args files @ (if env_file = [] then [] else [''--env-file'', env_file]) @ sub"

section \<open>One-shot commands\<close>

text \<open>A command whose only result is its error; \<open>what\<close> is the text it is wrapped in.\<close>

definition compose_command ::
  "'w runner \<Rightarrow> string \<Rightarrow> string list \<Rightarrow> ('w, cmd_event, string option) effect" where
  "compose_command f what args c s =
     (case run_cmd f ''docker'' args c s of
        (r, s1) \<Rightarrow> (map_option (\<lambda>e. what @ '': '' @ err_text e) (cmd_err r), s1))"

definition compose_version_cmd :: "'w runner \<Rightarrow> ('w, cmd_event, string + compose_version) effect" where
  "compose_version_cmd f c s =
     (case run_cmd f ''docker'' [''compose'', ''version'', ''--short''] c s of
        (r, s1) \<Rightarrow>
          (case cmd_err r of
             Some e \<Rightarrow> (Inl (''docker compose version failed: '' @ err_text e), s1)
           | None \<Rightarrow>
               let raw = trim_space (out r) in
               if raw = [] then
                 (Inl ''docker compose version returned empty output; is docker compose v2 plugin installed?'', s1)
               else (Inr \<lparr>v2_plugin = True, version_raw = raw\<rparr>, s1)))"

definition compose_restart where
  "compose_restart f files env_file =
     compose_command f ''docker compose restart failed'' (base_args files env_file [''restart''])"

definition compose_down where
  "compose_down f files env_file =
     compose_command f ''docker compose down failed'' (base_args files env_file [''down''])"

definition validate_restore_service :: "string \<Rightarrow> string option" where
  "validate_restore_service service =
     (if service \<noteq> backend_service then Some ''compose service control rejected'' else None)"

definition compose_stop_service ::
  "'w runner \<Rightarrow> string list \<Rightarrow> string \<Rightarrow> string \<Rightarrow> ('w, cmd_event, string option) effect" where
  "compose_stop_service f files env_file service c s =
     (case validate_restore_service service of
        Some e \<Rightarrow> (Some e, s)
      | None \<Rightarrow> compose_command f ''docker compose backend stop failed''
                  (base_args files env_file [''stop'', backend_service]) c s)"

definition compose_start_service ::
  "'w runner \<Rightarrow> string list \<Rightarrow> string \<Rightarrow> string \<Rightarrow> ('w, cmd_event, string option) effect" where
  "compose_start_service f files env_file service c s =
     (case validate_restore_service service of
        Some e \<Rightarrow> (Some e, s)
      | None \<Rightarrow> compose_command f ''docker compose backend start failed''
                  (base_args files env_file [''start'', backend_service]) c s)"

section \<open>Streaming commands\<close>

text \<open>
  A \<open>StreamingCommandRunner\<close> delivers lines, each from stderr or from stdout, and an error.
\<close>

record stream_result =
  stream_lines :: "(bool \<times> string) list"
  stream_err :: "cmd_error option"

type_synonym 'w streamer = "string \<Rightarrow> string list \<Rightarrow> ('w, stream_result) oper"

definition run_stream :: "'w streamer \<Rightarrow> string \<Rightarrow> string list \<Rightarrow> ('w, cmd_event, stream_result) effect" where
  "run_stream f name args c s = call (\<lambda>r. Ran name args (stream_err r = None)) (f name args) c s"

definition stderr_lines :: nat where "stderr_lines = 20"

definition last_lines :: "string list \<Rightarrow> string list" where
  "last_lines buf = (if length buf > stderr_lines then drop (length buf - stderr_lines) buf else buf)"

text \<open>\<open>Up\<close>: the progress lines sent, and the error with the tail of stderr.\<close>

definition compose_up ::
  "'w streamer \<Rightarrow> string list \<Rightarrow> string \<Rightarrow> ('w, cmd_event, string list \<times> string option) effect" where
  "compose_up f files env_file c s =
     (case run_stream f ''docker'' (base_args files env_file [''up'', ''--detach'']) c s of
        (r, s1) \<Rightarrow>
          let progress = map snd (filter (\<lambda>l. \<not> fst l) (stream_lines r));
              errors = map snd (filter fst (stream_lines r)) in
          (case stream_err r of
             None \<Rightarrow> ((progress, None), s1)
           | Some e \<Rightarrow>
               if errors = [] then ((progress, Some (err_text e)), s1)
               else ((progress, Some (err_text e @ [CHR 0x0A] @ ''--- docker compose up stderr ---'' @ [CHR 0x0A]
                                      @ join [CHR 0x0A] (last_lines errors))), s1)))"

section \<open>Health\<close>

record ps_line =
  ps_service :: string
  ps_name :: string
  ps_state :: string
  ps_health :: string

definition max_scan_token :: nat where "max_scan_token = 64 * 1024"

text \<open>The lines of the scanner, until one is malformed or longer than its buffer.\<close>

fun health_lines ::
  "(string \<Rightarrow> ps_line option) \<Rightarrow> string list \<Rightarrow> string + service_health list" where
  "health_lines unmarshal [] = Inr []"
| "health_lines unmarshal (raw # lines) =
     (if length raw \<ge> max_scan_token then Inl ''docker compose ps output unreadable''
      else
        let line = trim_space raw in
        if line = [] then health_lines unmarshal lines
        else (case unmarshal line of
          None \<Rightarrow> Inl ''docker compose ps returned malformed output''
        | Some row \<Rightarrow>
            map_sum id ((#) \<lparr>sh_service = ps_service row, sh_container = ps_name row,
                             sh_status = ps_health row, sh_state = ps_state row\<rparr>)
              (health_lines unmarshal lines)))"

definition compose_health_status ::
  "(string \<Rightarrow> ps_line option) \<Rightarrow> 'w runner \<Rightarrow> string list \<Rightarrow> string \<Rightarrow>
   ('w, cmd_event, string + service_health list) effect" where
  "compose_health_status unmarshal f files env_file c s =
     (case run_cmd f ''docker'' (base_args files env_file [''ps'', ''--format'', ''json'']) c s of
        (r, s1) \<Rightarrow>
          (case cmd_err r of
             Some e \<Rightarrow> (Inl (''docker compose ps failed: '' @ err_text e), s1)
           | None \<Rightarrow> (health_lines unmarshal (split_char CHR 0x0A (out r)), s1)))"

section \<open>Facts\<close>

lemma compose_command_grew:
  "compose_command f what args c s = (r, s') \<Longrightarrow> grew s s' [Ran ''docker'' args (r = None)]"
  unfolding compose_command_def by (auto split: prod.splits dest: run_cmd_grew)

text \<open>The restore service control accepts the backend and nothing else.\<close>

lemma compose_stop_service_cases:
  "compose_stop_service f files env_file service c s = (r, s') \<Longrightarrow>
   if service = ''backend'' then grew s s' [Ran ''docker'' (base_args files env_file [''stop'', ''backend'']) (r = None)]
   else r \<noteq> None \<and> s' = s"
  by (auto simp: compose_stop_service_def validate_restore_service_def backend_service_def
      split: if_splits dest: compose_command_grew)

lemma compose_start_service_cases:
  "compose_start_service f files env_file service c s = (r, s') \<Longrightarrow>
   if service = ''backend'' then grew s s' [Ran ''docker'' (base_args files env_file [''start'', ''backend'']) (r = None)]
   else r \<noteq> None \<and> s' = s"
  by (auto simp: compose_start_service_def validate_restore_service_def backend_service_def
      split: if_splits dest: compose_command_grew)

lemma compose_health_status_grew:
  "compose_health_status um f files env_file c s = (r, s') \<Longrightarrow>
   \<exists>ok. grew s s' [Ran ''docker'' (base_args files env_file [''ps'', ''--format'', ''json'']) ok]"
  by (auto simp: compose_health_status_def split: prod.splits option.splits dest: run_cmd_grew)

end
