(* ===== verification/ProductionRestore.thy ===== *)
theory ProductionRestore
  imports RestoreSafety RestoreBackup Compose
begin

text \<open>
  \<open>internal/migration/restore_composition.go\<close> and the probes of \<open>restore_adapters.go\<close>: the
  collaborators the production coordinator is composed of, the proof that they keep the
  contract of \<open>RestoreSafety\<close>, and what follows for the composed program.
\<close>

section \<open>Probes\<close>

definition identity_proved :: "service_health list \<Rightarrow> bool" where
  "identity_proved statuses \<longleftrightarrow>
     (case filter (\<lambda>h. sh_service h = postgresql_service) statuses of
        [h] \<Rightarrow> sh_container h = postgresql_container \<and> sh_state h = ''running''
      | _ \<Rightarrow> False)"

definition backend_of :: "service_health list \<Rightarrow> service_health option" where
  "backend_of statuses =
     (case filter (\<lambda>h. sh_service h = backend_service) statuses of [h] \<Rightarrow> Some h | _ \<Rightarrow> None)"

type_synonym 'w health_source =
  "string list \<Rightarrow> string \<Rightarrow> ('w, cmd_event, string + service_health list) effect"

definition probe_statuses ::
  "'w health_source \<Rightarrow> string list \<Rightarrow> string \<Rightarrow> ('w, service_health list option) meff" where
  "probe_statuses compose files env_file c s =
     (if ctx_err c (clock s) \<noteq> None then (None, s)
      else (case lift_cmd (compose files env_file) c s of
        (Inl _, s1) \<Rightarrow> (None, s1)
      | (Inr statuses, s1) \<Rightarrow> (Some statuses, s1)))"

definition probe_identity :: "'w health_source \<Rightarrow> string list \<Rightarrow> string \<Rightarrow> ('w, bool) meff" where
  "probe_identity compose files env_file c s =
     (case probe_statuses compose files env_file c s of
        (None, s1) \<Rightarrow> (False, s1)
      | (Some statuses, s1) \<Rightarrow> (identity_proved statuses, s1))"

definition probe_backend_stopped ::
  "'w health_source \<Rightarrow> string list \<Rightarrow> string \<Rightarrow> ('w, bool option) meff" where
  "probe_backend_stopped compose files env_file c s =
     (case probe_statuses compose files env_file c s of
        (None, s1) \<Rightarrow> (None, s1)
      | (Some statuses, s1) \<Rightarrow>
          (case backend_of statuses of
             None \<Rightarrow> (None, s1)
           | Some h \<Rightarrow>
               (if sh_state h = [] then None else Some (sh_state h = ''exited'' \<or> sh_state h = ''created''), s1)))"

definition probe_healthy :: "'w health_source \<Rightarrow> string list \<Rightarrow> string \<Rightarrow> ('w, bool) meff" where
  "probe_healthy compose files env_file c s =
     (case probe_statuses compose files env_file c s of
        (None, s1) \<Rightarrow> (False, s1)
      | (Some statuses, s1) \<Rightarrow>
          (case backend_of statuses of None \<Rightarrow> (False, s1) | Some h \<Rightarrow> (is_ready h, s1)))"

section \<open>Waiting and reading\<close>

definition real_wait :: "nat \<Rightarrow> ('w, bool) meff" where
  "real_wait d c s =
     (case with_timeout_at c (clock s) d of
        (t, e) \<Rightarrow>
          (case c of
             None \<Rightarrow> (True, s\<lparr>clock := clock s + d\<rparr>)
           | Some (t0, _) \<Rightarrow>
               if t0 \<le> clock s + d then (False, s\<lparr>clock := max (clock s) t0\<rparr>)
               else (True, s\<lparr>clock := t\<rparr>)))"

record 'w restore_dependencies =
  d_os :: "'w os"
  d_executor :: "'w executor"
  d_runner :: "'w runner"
  d_ps :: "string \<Rightarrow> ps_line option"
  d_codec :: codec
  d_operation_id :: "('w, string option) oper"
  d_env_file :: "string \<Rightarrow> ('w, env_file) oper"
  d_temp_dir :: string
  d_temp_root :: string
  d_cwd :: string

text \<open>A call outside that leaves no event: reading random bytes, reading the environment file.\<close>

definition outer_call :: "('w, 'a) oper \<Rightarrow> 'w msys \<Rightarrow> 'a \<times> 'w msys" where
  "outer_call f s =
     (case f background (clock s) (outside (world s)) of
        (r, d, w) \<Rightarrow> (r, s\<lparr>world := (world s)\<lparr>outside := w\<rparr>, clock := clock s + d\<rparr>))"

definition read_env_file :: "(string \<Rightarrow> ('w, env_file) oper) \<Rightarrow> string \<Rightarrow> ('w, target_config option) meff" where
  "read_env_file src path c s =
     (if ctx_err c (clock s) \<noteq> None then (None, s)
      else (case outer_call (src path) s of
        (f, s1) \<Rightarrow>
          (case with_secrets (read_target_database False f) s1 of
             (Inl _, s2) \<Rightarrow> (None, s2)
           | (Inr cfg, s2) \<Rightarrow> (Some cfg, s2))))"

section \<open>The composition\<close>

definition prod_prepare ::
  "'w restore_dependencies \<Rightarrow> target_config \<Rightarrow> 'w msys \<Rightarrow> credential_file option \<times> 'w msys" where
  "prod_prepare d = prepare_target_credential (d_os d) (d_temp_dir d) (d_temp_root d)"

definition prod_validate :: "'w restore_dependencies \<Rightarrow> string \<Rightarrow> ('w, bool) meff" where
  "prod_validate d = archive_validate (d_os d) (Some (d_executor d)) 0"

definition prod_replacement :: "'w restore_dependencies \<Rightarrow> 'w replacement_adapter" where
  "prod_replacement d =
     \<lparr>ra_executor = Some (d_executor d), ra_prepare = Some (prod_prepare d), ra_timeout = 0\<rparr>"

definition prod_backup :: "'w restore_dependencies \<Rightarrow> 'w backup_adapter" where
  "prod_backup d =
     \<lparr>ba_validator = Some (prod_validate d), ba_executor = Some (d_executor d),
      ba_prepare = prod_prepare d, ba_operation_id = Some (outer_call (d_operation_id d))\<rparr>"

definition prod_health :: "'w restore_dependencies \<Rightarrow> 'w health_source" where
  "prod_health d = compose_health_status (d_ps d) (d_runner d)"

definition no_error :: "('w, string option) meff \<Rightarrow> ('w, bool) meff" where
  "no_error m c s = (case m c s of (r, s1) \<Rightarrow> (r = None, s1))"

definition production_ports :: "'w restore_dependencies \<Rightarrow> 'w restore_ports" where
  "production_ports d =
     \<lparr>wait_for = real_wait,
      read_env = read_env_file (d_env_file d),
      revalidate = gate_revalidate (d_codec d) (d_os d) (d_cwd d) (Some (prod_validate d)),
      create_target_backup = adapter_create_validated (d_codec d) (d_os d) (prod_backup d),
      stop_service = (\<lambda>files env svc. no_error (lift_cmd (compose_stop_service (d_runner d) files env svc))),
      start_service = (\<lambda>files env svc. no_error (lift_cmd (compose_start_service (d_runner d) files env svc))),
      postgres_reachable = reachable (d_os d) (prod_replacement d),
      prove_identity = probe_identity (prod_health d),
      replace_database = (\<lambda>cfg b. target_replace False (d_os d) (prod_replacement d) cfg (dump_path (vb_ref b))),
      wait_healthy = probe_healthy (prod_health d),
      backend_stopped = probe_backend_stopped (prod_health d)\<rparr>"

definition production_coordinator :: "'w restore_dependencies \<Rightarrow> 'w restore_coordinator" where
  "production_coordinator d = \<lparr>ports = Some (production_ports d), rollback_context = None\<rparr>"

section \<open>The collaborators leave no phases\<close>

abbreviation silent :: "'w msys \<Rightarrow> 'w msys \<Rightarrow> bool" where
  "silent s s' \<equiv> phased s s' []"

lemma silent_trans: "silent s s' \<Longrightarrow> silent s' s'' \<Longrightarrow> silent s s''"
  using phased_trans by fastforce

lemma os_call_silent: "os_call os fop s = (r, s') \<Longrightarrow> silent s s'"
  by (drule os_call_grew, erule phased_grew) simp

lemma os_ok_silent: "os_ok os fop s = (r, s') \<Longrightarrow> silent s s'"
  by (drule os_ok_grew, erule phased_grew) simp

lemma exec_call_silent: "exec_call x spec c s = (r, s') \<Longrightarrow> silent s s'"
  by (drule exec_call_grew, erule phased_grew) simp

lemma with_secrets_silent: "with_secrets f s = (r, s') \<Longrightarrow> silent s s'"
  by (drule with_secrets_grew, erule phased_grew) simp

lemma outer_call_silent: "outer_call f s = (r, s') \<Longrightarrow> silent s s'"
  by (rule phased_grew [of _ _ "[]"]) (auto simp: outer_call_def grew_def split: prod.splits)

lemma lift_cmd_silent: "lift_cmd m c s = (r, s') \<Longrightarrow> silent s s'"
  by (rule phased_grew [of _ _ "map Command (trace (snd (m c \<lparr>world = outside (world s), clock = clock s, trace = []\<rparr>)))"])
     (auto simp: lift_cmd_def grew_def list_all_iff split: prod.splits)

lemma os_ok_snd_silent [simp]: "silent s (snd (os_ok os fop s))"
  using os_ok_silent by (metis prod.collapse)

lemma credential_cleanup_silent: "credential_cleanup os f s = (r, s') \<Longrightarrow> silent s s'"
  by (auto simp: credential_cleanup_def split: if_splits dest: os_ok_silent)

lemma credential_cleanup_snd_silent [simp]: "silent s (snd (credential_cleanup os f s))"
  using credential_cleanup_silent by (metis prod.collapse)

lemmas silent_calls = os_call_silent os_ok_silent exec_call_silent with_secrets_silent
  outer_call_silent lift_cmd_silent credential_cleanup_silent

lemma cleanup_path_silent [simp]: "silent s (cleanup_path os path s)"
  by (simp add: cleanup_path_def)

lemma files_only_silent: "files_only s s' \<Longrightarrow> silent s s'"
  unfolding files_only_def
  by (metis (no_types, lifting) is_file_op.simps(4) list.pred_mono_strong phase_event.elims(2) phased_grew)

lemmas prepare_target_credential_silent = prepare_target_credential_files [THEN files_only_silent]
lemmas safe_credential_silent = safe_credential_files [THEN files_only_silent]
lemmas build_target_replacement_silent = build_target_replacement_files [THEN files_only_silent]

lemma replacement_steps_silent:
  "replacement_steps x mutated validation steps c s = (r, s') \<Longrightarrow> silent s s'"
proof (induction steps arbitrary: mutated validation s)
  case (Cons p steps)
  obtain step spec where p: "p = (step, spec)" by fastforce
  obtain y s1 where "exec_call x spec c s = (y, s1)" by fastforce
  with Cons p show ?case
    by (auto simp: Let_def split: prod.splits if_splits dest!: exec_call_silent intro: silent_trans)
qed simp

lemma run_target_replacement_silent:
  "run_target_replacement os x plan credential c s = (r, s') \<Longrightarrow> silent s s'"
  unfolding run_target_replacement_def
  by (auto split: prod.splits bool.splits option.splits
      dest!: replacement_steps_silent credential_cleanup_silent intro: silent_trans)

lemma target_replace_silent:
  assumes "\<And>s r s'. prep cfg s = (r, s') \<Longrightarrow> silent s s'"
    and "target_replace b os \<lparr>ra_executor = x, ra_prepare = Some prep, ra_timeout = t\<rparr> cfg path c s = (r, s')"
  shows "silent s s'"
  using assms(2) unfolding target_replace_def
  by (auto split: prod.splits option.splits if_splits
      dest!: assms(1) build_target_replacement_silent run_target_replacement_silent
      intro: silent_trans [OF _ credential_cleanup_snd_silent] intro: silent_trans)

lemma reachable_silent:
  assumes "\<And>s r s'. prep cfg s = (r, s') \<Longrightarrow> silent s s'"
    and "reachable os \<lparr>ra_executor = x, ra_prepare = Some prep, ra_timeout = t\<rparr> cfg c s = (r, s')"
  shows "silent s s'"
  using assms(2) unfolding reachable_def
  by (auto split: prod.splits option.splits if_splits bool.splits
      dest!: assms(1) safe_credential_silent exec_call_silent
      intro: silent_trans [OF _ credential_cleanup_snd_silent] intro: silent_trans)

lemma staged_dump_owner_silent: "staged_dump_owner os path s = (r, s') \<Longrightarrow> silent s s'"
  by (auto simp: staged_dump_owner_def split: if_splits prod.splits os_reply.splits dest!: silent_calls)

lemma safe_owned_staged_dump_silent: "safe_owned_staged_dump os path uid gid s = (r, s') \<Longrightarrow> silent s s'"
  by (auto simp: safe_owned_staged_dump_def split: if_splits prod.splits os_reply.splits dest!: silent_calls)

lemma cleanup_helper_silent: "cleanup_helper x name c s = (r, s') \<Longrightarrow> silent s s'"
  by (auto simp: cleanup_helper_def split: option.splits if_splits prod.splits dest!: silent_calls)

lemma archive_validate_silent: "archive_validate os x t staged c s = (r, s') \<Longrightarrow> silent s s'"
  unfolding archive_validate_def Let_def
  by (auto split: prod.splits if_splits option.splits bool.splits os_reply.splits
      dest!: staged_dump_owner_silent safe_owned_staged_dump_silent silent_calls cleanup_helper_silent
      intro: silent_trans) (meson silent_trans)+

lemma safe_restore_file_silent: "safe_restore_file os path s = (r, s') \<Longrightarrow> silent s s'"
  by (auto simp: safe_restore_file_def split: prod.splits os_reply.splits dest!: silent_calls)

lemma safe_walk_silent: "safe_walk os path current rest s = (r, s') \<Longrightarrow> silent s s'"
  by (induction rest arbitrary: current s)
     (auto simp: Let_def split: prod.splits os_reply.splits if_splits dest!: silent_calls intro: silent_trans)

lemma safe_restore_file_in_root_silent:
  "safe_restore_file_in_root os cwd path root s = (r, s') \<Longrightarrow> silent s s'"
  by (auto simp: safe_restore_file_in_root_def Let_def
      split: prod.splits os_reply.splits if_splits option.splits
      dest!: silent_calls safe_walk_silent intro: silent_trans)

lemma restore_hash_silent: "restore_hash cd os path s = (r, s') \<Longrightarrow> silent s s'"
  by (auto simp: restore_hash_def split: prod.splits os_reply.splits dest!: silent_calls)

lemma valid_restore_backup_silent: "valid_restore_backup cd os ref s = (r, s') \<Longrightarrow> silent s s'"
  unfolding valid_restore_backup_def
  by (auto split: prod.splits bool.splits if_splits option.splits os_reply.splits
      dest!: safe_restore_file_silent restore_hash_silent silent_calls intro: silent_trans)

lemma valid_restore_backup_in_root_silent:
  "valid_restore_backup_in_root cd os cwd ref root s = (r, s') \<Longrightarrow> silent s s'"
  by (auto simp: valid_restore_backup_in_root_def split: prod.splits bool.splits
      dest!: safe_restore_file_in_root_silent valid_restore_backup_silent intro: silent_trans)

lemma gate_revalidate_silent:
  assumes "\<And>path s r s'. validate path c s = (r, s') \<Longrightarrow> silent s s'"
    and "gate_revalidate cd os cwd (Some validate) ref c s = (r, s')"
  shows "silent s s'"
  using assms(2) unfolding gate_revalidate_def
  by (auto split: if_splits prod.splits bool.splits
      dest!: assms(1) valid_restore_backup_in_root_silent intro: silent_trans)

lemma write_chunks_silent: "write_chunks os path chunks s = (r, s') \<Longrightarrow> silent s s'"
  by (induction os path chunks s rule: write_chunks.induct)
     (auto split: prod.splits bool.splits dest!: silent_calls intro: silent_trans)

lemma discard_staging_silent [simp]: "silent s (discard_staging os staged s)"
  unfolding discard_staging_def by (rule silent_trans [OF os_ok_snd_silent os_ok_snd_silent])

lemma build_target_backup_dump_silent:
  "build_target_backup_dump os cfg credential op s = (r, s') \<Longrightarrow> silent s s'"
  by (auto simp: build_target_backup_dump_def split: if_splits prod.splits bool.splits
      dest!: safe_credential_silent)

lemma fill_staging_silent: "fill_staging os x cfg credential op staged c s = (r, s') \<Longrightarrow> silent s s'"
  unfolding fill_staging_def
  by (auto split: prod.splits option.splits bool.splits if_splits
      dest!: build_target_backup_dump_silent silent_calls write_chunks_silent
      intro: silent_trans)
     (meson silent_trans discard_staging_silent os_ok_snd_silent)+

lemma target_stage_silent:
  assumes "\<And>s r s'. prep cfg s = (r, s') \<Longrightarrow> silent s s'"
    and "target_stage os x prep cfg destination op c s = (r, s')"
  shows "silent s s'"
  using assms(2) unfolding target_stage_def Let_def
  by (auto split: if_splits prod.splits option.splits bool.splits
      dest!: assms(1) silent_calls fill_staging_silent
      intro: silent_trans [OF _ credential_cleanup_snd_silent] intro: silent_trans)

lemma safe_target_staging_silent: "safe_target_staging os path destination op s = (r, s') \<Longrightarrow> silent s s'"
  by (auto simp: safe_target_staging_def split: prod.splits os_reply.splits if_splits
      dest!: silent_calls safe_restore_file_silent intro: silent_trans)

lemma prod_validate_silent: "prod_validate d path c s = (r, s') \<Longrightarrow> silent s s'"
  unfolding prod_validate_def by (rule archive_validate_silent)

lemma prod_prepare_silent: "prod_prepare d cfg s = (r, s') \<Longrightarrow> silent s s'"
  unfolding prod_prepare_def by (rule prepare_target_credential_silent)

lemma write_protected_file_silent: "write_protected_file os path text s = (r, s') \<Longrightarrow> silent s s'"
  unfolding write_protected_file_def
  by (auto split: prod.splits bool.splits if_splits dest!: silent_calls
      intro: silent_trans silent_trans [OF _ cleanup_path_silent])

lemma publish_target_rollback_silent:
  "publish_target_rollback cd os staged destination op s = (r, s') \<Longrightarrow> silent s s'"
  unfolding publish_target_rollback_def Let_def
  by (auto split: prod.splits bool.splits option.splits if_splits
      dest!: restore_hash_silent write_protected_file_silent silent_calls intro: silent_trans)
     (meson silent_trans cleanup_path_silent)+

lemma create_validated_silent:
  assumes val: "\<And>path s r s'. validate path c s = (r, s') \<Longrightarrow> silent s s'"
    and stage: "\<And>op s r s'. stage cfg destination op c s = (r, s') \<Longrightarrow> silent s s'"
    and op: "\<And>s r s'. operation_id s = (r, s') \<Longrightarrow> silent s s'"
    and run: "create_validated cd os validate stage operation_id cfg destination c s = (r, s')"
  shows "silent s s'"
  using run unfolding create_validated_def
  by (auto split: if_splits prod.splits option.splits bool.splits
      dest!: val stage op safe_target_staging_silent publish_target_rollback_silent intro: silent_trans)
     (meson silent_trans cleanup_path_silent)+

lemma prod_create_silent:
  "adapter_create_validated cd os (prod_backup d) cfg destination c s = (r, s') \<Longrightarrow> silent s s'"
  by (auto simp: adapter_create_validated_def prod_backup_def split: if_splits
      elim!: create_validated_silent [rotated 3]
      dest: prod_validate_silent outer_call_silent)
     (erule target_stage_silent [rotated], rule prod_prepare_silent)

lemma read_env_file_silent: "read_env_file src path c s = (r, s') \<Longrightarrow> silent s s'"
  by (auto simp: read_env_file_def split: if_splits prod.splits sum.splits
      dest!: outer_call_silent with_secrets_silent intro: silent_trans)

lemma probe_statuses_silent: "probe_statuses h files env c s = (r, s') \<Longrightarrow> silent s s'"
  by (auto simp: probe_statuses_def split: if_splits prod.splits sum.splits dest!: lift_cmd_silent)

lemma real_wait_silent: "real_wait d c s = (r, s') \<Longrightarrow> silent s s'"
  by (rule phased_grew [of _ _ "[]"])
     (auto simp: real_wait_def grew_def with_timeout_at_def split: option.splits prod.splits if_splits)

text \<open>The production collaborators keep the contract.\<close>

interpretation production_restore: restore_services "production_ports d"
  for d :: "'w restore_dependencies"
proof
  fix path ref cfg files svc b n
  show "quiet (wait_for (production_ports d) n)"
    by (rule quietI) (simp add: production_ports_def real_wait_silent)
  show "quiet (read_env (production_ports d) path)"
    by (rule quietI) (simp add: production_ports_def read_env_file_silent)
  show "quiet (revalidate (production_ports d) ref)"
    by (rule quietI, unfold production_ports_def restore_ports.simps)
       (rule gate_revalidate_silent [OF prod_validate_silent])
  show "quiet (create_target_backup (production_ports d) cfg path)"
    by (rule quietI) (simp add: production_ports_def prod_create_silent)
  show "quiet (stop_service (production_ports d) files path svc)"
    and "quiet (start_service (production_ports d) files path svc)"
    by (rule quietI, auto simp: production_ports_def no_error_def split: prod.splits dest: lift_cmd_silent)+
  show "quiet (postgres_reachable (production_ports d) cfg)"
    by (rule quietI, unfold production_ports_def prod_replacement_def restore_ports.simps)
       (rule reachable_silent [OF prod_prepare_silent])
  show "quiet (replace_database (production_ports d) cfg b)"
    by (rule quietI, unfold production_ports_def prod_replacement_def restore_ports.simps)
       (rule target_replace_silent [OF prod_prepare_silent])
  show "quiet (prove_identity (production_ports d) files path)"
    and "quiet (wait_healthy (production_ports d) files path)"
    and "quiet (backend_stopped (production_ports d) files path)"
    by (rule quietI, auto simp: production_ports_def probe_identity_def probe_healthy_def
        probe_backend_stopped_def split: prod.splits option.splits dest: probe_statuses_silent)+
qed

end
