(* ===== verification/RestoreProperties.thy ===== *)
theory RestoreProperties
  imports ProductionRestore
begin

text \<open>
  The properties of the restore: the coordinator over any collaborators that keep the
  contract, the replacement of the target database, and the credential files.
\<close>

section \<open>A concrete restore\<close>

text \<open>Collaborators that always succeed, a request, and an operating system that agrees.\<close>

definition demo_ref :: backup_ref where
  "demo_ref = \<lparr>dump_path = ''/b/a.dump'', manifest_path = ''/b/a.json'', sha256 = ''00'', backup_size = 1\<rparr>"

definition demo_target :: target_config where
  "demo_target =
     \<lparr>t_host = ''127.0.0.1'', t_port = 5432, t_user = ''alice'', t_database = ''guardian'', t_password = Some 0\<rparr>"

definition demo_evidence :: database_evidence where
  "demo_evidence =
     \<lparr>restore_exit_ok = True, connection_ok = True, application_tables = 5, postgresql_reachable = True\<rparr>"

definition demo_ports :: "unit restore_ports" where
  "demo_ports =
     \<lparr>wait_for = (\<lambda>d c s. (True, s)), read_env = (\<lambda>p c s. (Some demo_target, s)),
      revalidate = (\<lambda>r c s. (Some \<lparr>vb_ref = r, target_rollback = False\<rparr>, s)),
      create_target_backup = (\<lambda>cfg p c s. (Some \<lparr>vb_ref = demo_ref, target_rollback = True\<rparr>, s)),
      stop_service = (\<lambda>f e v c s. (True, s)), start_service = (\<lambda>f e v c s. (True, s)),
      postgres_reachable = (\<lambda>cfg c s. (True, s)), prove_identity = (\<lambda>f e c s. (True, s)),
      replace_database = (\<lambda>cfg b c s. ((demo_evidence, True, True), s)),
      wait_healthy = (\<lambda>f e c s. (True, s)), backend_stopped = (\<lambda>f e c s. (Some True, s))\<rparr>"

definition demo_request :: restore_request where
  "demo_request =
     \<lparr>rq_goos = ''linux'', rq_goarch = ''amd64'', compose_files = [''compose.yml''], env_file_path = ''/w/.env'',
      backup_destination = ''/opt/alice/backups'', rq_legacy = demo_ref\<rparr>"

definition demo_host_state :: "unit msys" where
  "demo_host_state =
     \<lparr>world = \<lparr>outside = (), secrets = \<lparr>contents = (\<lambda>a. ''secret''), next_addr = 1\<rparr>\<rparr>, clock = 0, trace = []\<rparr>"

lemma demo_ports_services: "restore_services demo_ports"
  by unfold_locales (simp_all add: demo_ports_def quiet_def)

lemma demo_restore_outcome:
  "r_outcome (fst (restore_run \<lparr>ports = Some demo_ports, rollback_context = None\<rparr> demo_request background
     demo_host_state)) = RestoreSucceeded"
  by code_simp

definition demo_info :: file_info where
  "demo_info = \<lparr>is_dir = True, is_regular = True, is_symlink = False, perm = 0x1C0, file_size = 1, owner = Some (0, 0), sticky = False\<rparr>"

definition demo_os :: "unit os" where
  "demo_os fop c now w =
     ((case fop of
         MkdirTemp parent pat \<Rightarrow> OsPath ''/tmp/c''
       | Lstat p \<Rightarrow> OsInfo (if suffix ''pgpass'' p then demo_info\<lparr>perm := 0x180\<rparr> else demo_info)
       | _ \<Rightarrow> OsDone), 1, w)"

definition demo_executor :: "unit executor" where
  "demo_executor spec c now w =
     ((\<lparr>p_outcome = ProcessSucceeded, stderr_code = []\<rparr>,
       if suffix ''--no-password'' (last (p_args spec)) then [''t'' @ [CHR 0x0A], ''5'' @ [CHR 0x0A], ''t''] else []), 1, w)"

section \<open>The coordinator\<close>

text \<open>
  C6. Whatever the collaborators answer, a restore never replaces the database before a
  rollback backup exists, the identity of the PostgreSQL container is proven and the
  backend was stopped, and never starts the backend on a database that a failed
  replacement left behind; and its result is truthful: success and a successful rollback
  mean a valid database and a healthy backend, and a failure before the cutover means
  that no replacement mutated the target.
\<close>

theorem restore_run_safe:
  assumes "restore_services p"
    and "restore_run \<lparr>ports = Some p, rollback_context = rb\<rparr> rq c s = (res, s')"
  shows "\<exists>ps m. phased s s' ps \<and> monitored fresh ps = Some m \<and> consistent res m"
  using restore_services.restore_run_passes [OF assms] unfolding passes_def by auto

theorem restore_run_safe_witness:
  "\<exists>m. consistent (fst (restore_run \<lparr>ports = Some demo_ports, rollback_context = None\<rparr> demo_request background
     demo_host_state)) m \<and> \<not> dirty m"
proof -
  from restore_run_safe [OF demo_ports_services surjective_pairing] obtain m where
    "consistent (fst (restore_run \<lparr>ports = Some demo_ports, rollback_context = None\<rparr> demo_request background
       demo_host_state)) m"
    by blast
  then show ?thesis using demo_restore_outcome unfolding consistent_def by blast
qed

text \<open>
  C7. A restore that succeeds went through all of its phases once, in the documented
  order, each successful: the wait, the proof of identity, the stop, the environment, the
  revalidation of the legacy backup, identity and reachability, the rollback backup, the
  replacement, identity again, the start, and the health check.
\<close>

theorem restore_success_order:
  assumes "restore_services p"
    and "restore_run \<lparr>ports = Some p, rollback_context = rb\<rparr> rq c s = (res, s')"
    and "r_outcome res = RestoreSucceeded"
  shows "\<exists>source m. phased s s' (success_phases rq source m)"
  using restore_services.restore_run_success [OF assms(1,2) _ assms(3)] by simp

theorem restore_success_order_witness:
  "\<exists>source m. phased demo_host_state
     (snd (restore_run \<lparr>ports = Some demo_ports, rollback_context = None\<rparr> demo_request background demo_host_state))
     (success_phases demo_request source m)"
  by (rule restore_success_order [OF demo_ports_services surjective_pairing demo_restore_outcome])

text \<open>
  C8. Composed with the production adapters the coordinator cannot succeed: the staging
  check of the rollback backup compares the directory of the staged file with the fixed
  root, which ends in a slash, so no rollback backup is ever accepted and every restore
  ends before the cutover.
\<close>

theorem production_restore_stops_before_cutover:
  "r_outcome (fst (restore_run (production_coordinator d) rq c s)) \<notin> {RestoreSucceeded, RestorePartialCutover} \<and>
   \<not> r_mutated (fst (restore_run (production_coordinator d) rq c s))"
proof -
  obtain res s' where run: "restore_run (production_coordinator d) rq c s = (res, s')" by fastforce
  have never: "do_backup (production_ports d) cfg rq c s = (r, s') \<Longrightarrow> r = None" for cfg c s r s'
    by (auto simp: do_backup_def logged_def production_ports_def split: prod.splits dest: adapter_never_creates)
  have rec: "recover_before_cutover p rb rq result stage code c s = (res, s') \<Longrightarrow>
      r_outcome res \<in> {RestoreFailedBeforeCutover, RestoreCancelledBeforeCutover} \<and> r_mutated res = r_mutated result"
    for p :: "'a restore_ports" and rb result stage code c s s'
    by (auto simp: recover_before_cutover_def before_cutover_def split: prod.splits if_splits)
  have cut: "restore_cutover (production_ports d) rb rq cfg legacy result c s = (res, s') \<Longrightarrow>
      r_outcome res \<in> {RestoreFailedBeforeCutover, RestoreCancelledBeforeCutover} \<and> r_mutated res = r_mutated result"
    for rb cfg legacy result c s s'
    by (auto simp: restore_cutover_def split: prod.splits option.splits dest: never rec)
  show ?thesis
    using run
    by (auto simp: restore_run_def production_coordinator_def restore_stopped_def restore_with_config_def Let_def
        initial_result_def before_cutover_def split: prod.splits option.splits bool.splits if_splits dest!: rec cut)
qed

section \<open>The replacement\<close>

text \<open>
  C9. A replacement runs a prefix of its five fixed processes in order, stopping at the
  first that fails; it reports a mutation exactly when the drop was submitted, and
  reports success only when all five succeeded and the last one's output is evidence of a
  reachable database with application tables.  Nothing runs for a configuration that is
  not the loopback target with plain identifiers, or for an unsafe dump path.
\<close>

theorem target_replace_fixed_plan:
  assumes "target_replace b os
      \<lparr>ra_executor = Some x, ra_prepare = Some (prepare_target_credential os dir root), ra_timeout = t\<rparr> cfg path c s
      = ((ev, mut, ok), s')"
  shows "\<exists>es. executed s s' es \<and>
    (es = [] \<and> \<not> mut \<and> \<not> ok \<or>
     (\<exists>credential complete. target_config_valid cfg \<and> safe_dump_path path \<and>
        plan_run (replacement_specs cfg credential path (if t = 0 then default_process_timeout else t)) es complete \<and>
        (mut \<longleftrightarrow> 2 \<le> length es) \<and> (ok \<longrightarrow> complete \<and> database_valid ev)))"
  using target_replace_run [OF assms] unfolding database_valid_def by blast

theorem target_replace_fixed_plan_witness:
  "\<exists>es. executed demo_host_state (snd (target_replace False demo_os
      \<lparr>ra_executor = Some demo_executor, ra_prepare = Some (prepare_target_credential demo_os ''/tmp'' []), ra_timeout = 0\<rparr>
      demo_target ''/b/a.dump'' background demo_host_state)) es \<and> 2 \<le> length es"
proof -
  let ?run = "target_replace False demo_os
      \<lparr>ra_executor = Some demo_executor, ra_prepare = Some (prepare_target_credential demo_os ''/tmp'' []), ra_timeout = 0\<rparr>
      demo_target ''/b/a.dump'' background demo_host_state"
  have ok: "fst ?run = (demo_evidence, True, True)" by code_simp
  then have run: "?run = ((demo_evidence, True, True), snd ?run)" by (metis prod.collapse)
  from target_replace_fixed_plan [OF run] show ?thesis by auto
qed

section \<open>Credentials\<close>

text \<open>
  C10. The configuration read from a generated environment file is one the replacement
  accepts: the loopback host, a port in range, plain identifiers, and not the maintenance
  database.
\<close>

theorem parsed_target_accepted:
  assumes "parse_target_env data = Inr (cfg, password)"
  shows "target_config_valid cfg \<and> t_port cfg < 65536 \<and> password \<noteq> [] \<and>
    ''POSTGRES_PASSWORD='' @ password \<in> set (split_char CHR 0x0A data)"
  using parse_target_env_valid [OF assms]
  by (auto simp: valid_target_def target_config_valid_def target_identifier_def replacement_identifier_def)

definition demo_env :: string where
  "demo_env = join [CHR 0x0A]
     [''# generated'', ''POSTGRES_HOST=127.0.0.1'', ''POSTGRES_PORT=5432'', ''POSTGRES_USER=alice'',
      ''POSTGRES_PASSWORD=s3cret'', ''POSTGRES_DATABASE=guardian'', []]"

theorem parsed_target_accepted_witness:
  "target_config_valid (demo_target\<lparr>t_password := None\<rparr>)"
proof -
  have "parse_target_env demo_env = Inr (demo_target\<lparr>t_password := None\<rparr>, ''s3cret'')" by code_simp
  from parsed_target_accepted [OF this] show ?thesis by blast
qed

text \<open>
  How the client library reads one line of a password file: fields end at a colon, and a
  backslash makes the next byte literal.
\<close>

fun pgpass_read :: "string \<Rightarrow> string \<Rightarrow> string list" where
  "pgpass_read acc [] = [rev acc]"
| "pgpass_read acc [c] = (if c = CHR 0x5C then [rev acc] else if c = CHR '':'' then [rev acc, []] else [rev (c # acc)])"
| "pgpass_read acc (c # d # cs) =
     (if c = CHR 0x5C then pgpass_read (d # acc) cs
      else if c = CHR '':'' then rev acc # pgpass_read [] (d # cs)
      else pgpass_read (c # acc) (d # cs))"

lemma pgpass_read_colon: "pgpass_read acc (CHR '':'' # rest) = rev acc # pgpass_read [] rest"
  by (cases rest) simp_all

lemma pgpass_read_escaped: "pgpass_read acc (CHR 0x5C # d # cs) = pgpass_read (d # acc) cs"
  by simp

lemma pgpass_read_plain:
  "c \<noteq> CHR 0x5C \<Longrightarrow> c \<noteq> CHR '':'' \<Longrightarrow> cs \<noteq> [] \<Longrightarrow> pgpass_read acc (c # cs) = pgpass_read (c # acc) cs"
  by (cases cs) simp_all

lemma pgpass_field_Cons:
  "pgpass_field (c # cs) = (if c = CHR 0x5C \<or> c = CHR '':'' then CHR 0x5C # c # pgpass_field cs else c # pgpass_field cs)"
  by (simp add: pgpass_field_def)

lemma pgpass_read_field: "pgpass_read acc (pgpass_field v @ CHR '':'' # rest) = (rev acc @ v) # pgpass_read [] rest"
proof (induction v arbitrary: acc)
  case Nil
  show ?case using pgpass_read_colon by (simp add: pgpass_field_def)
next
  case (Cons c cs)
  show ?case
  proof (cases "c = CHR 0x5C \<or> c = CHR '':''")
    case True
    then have "pgpass_read acc (pgpass_field (c # cs) @ CHR '':'' # rest) =
        pgpass_read (c # acc) (pgpass_field cs @ CHR '':'' # rest)"
      by (simp only: pgpass_field_Cons if_True append_Cons pgpass_read_escaped)
    then show ?thesis using Cons.IH [of "c # acc"] by simp
  next
    case False
    then have "pgpass_read acc (pgpass_field (c # cs) @ CHR '':'' # rest) =
        pgpass_read (c # acc) (pgpass_field cs @ CHR '':'' # rest)"
      by (simp only: pgpass_field_Cons if_False append_Cons) (rule pgpass_read_plain, simp_all)
    then show ?thesis using Cons.IH [of "c # acc"] by simp
  qed
qed

lemma pgpass_read_last: "c \<noteq> CHR 0x5C \<Longrightarrow> c \<noteq> CHR '':'' \<Longrightarrow> pgpass_read acc (c # cs) = pgpass_read (c # acc) cs"
  by (cases cs) simp_all

lemma pgpass_read_end: "pgpass_read acc (pgpass_field v) = [rev acc @ v]"
proof (induction v arbitrary: acc)
  case Nil
  show ?case by (simp add: pgpass_field_def)
next
  case (Cons c cs)
  have "pgpass_read acc (pgpass_field (c # cs)) = pgpass_read (c # acc) (pgpass_field cs)"
  proof (cases "c = CHR 0x5C \<or> c = CHR '':''")
    case True
    then show ?thesis by (simp only: pgpass_field_Cons if_True pgpass_read_escaped)
  next
    case False
    then show ?thesis by (simp only: pgpass_field_Cons if_False) (rule pgpass_read_last, simp_all)
  qed
  then show ?case using Cons.IH [of "c # acc"] by simp
qed

lemma pgpass_field_plain: "list_all (\<lambda>c. c \<noteq> CHR 0x5C \<and> c \<noteq> CHR '':'') v \<Longrightarrow> pgpass_field v = v"
  by (induction v) (auto simp: pgpass_field_def)

lemma dec_of_nat_plain: "pgpass_field (dec_of_nat n) = dec_of_nat n"
  by (rule pgpass_field_plain) (use dec_of_nat_digits [of n] in \<open>auto simp: list_all_iff is_digit_def\<close>)

text \<open>
  C11. The line \<open>WritePGPass\<close> writes is read back as the host, the port, any database, the
  user and the password of the configuration, whatever bytes they consist of.
\<close>

theorem pgpass_line_reads_back:
  assumes "write_pgpass cfg st = (Inr line, cfg', st')"
  shows "\<exists>text. line = text @ [CHR 0x0A] \<and>
    pgpass_read [] text = [t_host cfg, dec_of_nat (t_port cfg), ''*'', t_user cfg, password_bytes cfg st]"
proof -
  let ?text = "pgpass_field (t_host cfg) @ '':'' @ pgpass_field (dec_of_nat (t_port cfg)) @ '':'' @
    pgpass_field ''*'' @ '':'' @ pgpass_field (t_user cfg) @ '':'' @ pgpass_field (password_bytes cfg st)"
  have "pgpass_field ''*'' = ''*''" by code_simp
  then have "line = ?text @ [CHR 0x0A]"
    using assms by (auto simp: write_pgpass_def dec_of_nat_plain split: if_splits)
  moreover have "pgpass_read [] ?text =
      [t_host cfg, dec_of_nat (t_port cfg), ''*'', t_user cfg, password_bytes cfg st]"
    by (simp add: pgpass_read_field pgpass_read_end)
  ultimately show ?thesis by blast
qed

theorem pgpass_line_reads_back_witness:
  "\<exists>text. pgpass_read [] text = [''127.0.0.1'', ''5432'', ''*'', ''alice'', ''a:b'' @ [CHR 0x5C]]"
proof -
  let ?st = "\<lparr>contents = (\<lambda>a. ''a:b'' @ [CHR 0x5C]), next_addr = 1\<rparr>"
  have "\<exists>line cfg' st'. write_pgpass demo_target ?st = (Inr line, cfg', st')"
    by (simp add: write_pgpass_def password_bytes_def demo_target_def release_def)
  then obtain line cfg' st' where "write_pgpass demo_target ?st = (Inr line, cfg', st')" by blast
  moreover have "dec_of_nat 5432 = ''5432''" by code_simp
  ultimately show ?thesis
    using pgpass_line_reads_back by (fastforce simp: demo_target_def password_bytes_def)
qed

text \<open>
  C12. Preparing a credential consumes the password for every copy of the configuration:
  the next credential prepared from it would carry zero bytes in place of the password.
\<close>

theorem credential_consumes_password:
  assumes "prepare_target_credential os dir root cfg s = (Some credential, s')"
  shows "password_bytes cfg (secrets (world s)) \<noteq> [] \<and>
    password_bytes cfg (secrets (world s')) =
      replicate (length (password_bytes cfg (secrets (world s)))) CHR 0x00"
  by (rule prepare_consumes_password [OF assms])

theorem credential_consumes_password_witness:
  "password_bytes demo_target (secrets (world
     (snd (prepare_target_credential demo_os ''/tmp'' [] demo_target demo_host_state)))) =
   [CHR 0x00, CHR 0x00, CHR 0x00, CHR 0x00, CHR 0x00, CHR 0x00]"
proof -
  let ?run = "prepare_target_credential demo_os ''/tmp'' [] demo_target demo_host_state"
  have "fst ?run = Some \<lparr>host_path = ''/tmp/c/pgpass'', cred_root = ''/tmp/c'', owner_uid = 0, owner_gid = 0\<rparr>"
    by code_simp
  then have "?run = (Some \<lparr>host_path = ''/tmp/c/pgpass'', cred_root = ''/tmp/c'', owner_uid = 0, owner_gid = 0\<rparr>, snd ?run)"
    by (metis prod.collapse)
  from credential_consumes_password [OF this] show ?thesis
    by (simp add: demo_host_state_def demo_target_def password_bytes_def)
qed

end
