(* ===== verification/Handoff.thy ===== *)
theory Handoff
  imports Pm2Safety ProductionRestore
begin

text \<open>
  \<open>internal/migration/handoff.go\<close> and \<open>internal/migration/disposition.go\<close>: the handoff
  before the installation.  \<open>Begin\<close> revalidates the backup, quiesces the legacy PM2
  processes and disposes of the legacy database container, and hands out a lease;
  \<open>CompleteSuccess\<close> and \<open>CompleteFailure\<close> consume it, the latter undoing what can be
  undone.  The specification is the sequence of commands that change the legacy
  installation; the production wiring of \<open>cmd/installer/main.go\<close> is shown to keep it.
\<close>

section \<open>The legacy container\<close>

definition is_lower_hex :: "char \<Rightarrow> bool" where
  "is_lower_hex c \<longleftrightarrow> (let n = (of_char c :: nat) in (48 \<le> n \<and> n \<le> 57) \<or> (97 \<le> n \<and> n \<le> 102))"

text \<open>\<open>fullContainerID\<close>: the regular expression \<open>^[a-f0-9]{64}$\<close>.\<close>

definition full_container_id :: "string \<Rightarrow> bool" where
  "full_container_id i \<longleftrightarrow> length i = 64 \<and> list_all is_lower_hex i"

text \<open>The disposition is a byte of which two values are named.\<close>

type_synonym disposition = nat

definition disposition_stop :: disposition where "disposition_stop = 0"
definition disposition_remove :: disposition where "disposition_remove = 1"

definition disposition_stopped_code :: string where
  "disposition_stopped_code = ''legacy-container-stopped''"
definition disposition_removed_code :: string where
  "disposition_removed_code = ''legacy-container-removed-volumes-preserved''"
definition disposition_restarted_code :: string where
  "disposition_restarted_code = ''legacy-container-restart-verified''"
definition disposition_manual_recovery_code :: string where
  "disposition_manual_recovery_code = ''legacy-container-removed-manual-recovery''"
definition disposition_recovery_unproven_code :: string where
  "disposition_recovery_unproven_code = ''legacy-container-recovery-unproven''"

record disposition_result =
  disp_code :: string
  disp_verified :: bool

definition disposed :: "string \<Rightarrow> bool \<Rightarrow> disposition_result" where
  "disposed code v = \<lparr>disp_code = code, disp_verified = v\<rparr>"

datatype disposition_error = DispositionFailed | DispositionPermission | DispositionPrecondition

type_synonym 'w disposition_op =
  "string \<Rightarrow> disposition \<Rightarrow> ('w, disposition_result \<times> disposition_error option) meff"

text \<open>\<open>run\<close>: one docker command on the container.\<close>

definition docker_spec :: "string list \<Rightarrow> process_spec" where
  "docker_spec args = \<lparr>p_name = ''docker'', p_args = args, p_timeout = 30 * 1000000000\<rparr>"

definition docker_run :: "'w executor \<Rightarrow> string list \<Rightarrow> ('w, process_result) meff" where
  "docker_run x args c s = (case exec_call x (docker_spec args) c s of ((r, _), s1) \<Rightarrow> (r, s1))"

definition disposition_failure :: "process_result \<Rightarrow> disposition_error" where
  "disposition_failure r =
     (if stderr_code r = sudo_docker_permission_code then DispositionPermission else DispositionFailed)"

definition container_apply :: "'w executor option \<Rightarrow> 'w disposition_op" where
  "container_apply x i disposition c s =
     (case x of
        None \<Rightarrow> ((disposed [] False, Some DispositionPrecondition), s)
      | Some x' \<Rightarrow>
          if \<not> full_container_id i \<or> disposition > disposition_remove
          then ((disposed [] False, Some DispositionPrecondition), s)
          else (case docker_run x' [''stop'', i] c s of (r, s1) \<Rightarrow>
            if p_outcome r \<noteq> ProcessSucceeded
            then ((disposed (stderr_code r) False, Some (disposition_failure r)), s1)
            else if disposition = disposition_remove
            then (case docker_run x' [''rm'', i] c s1 of (r2, s2) \<Rightarrow>
              if p_outcome r2 \<noteq> ProcessSucceeded
              then ((disposed disposition_stopped_code True, Some (disposition_failure r2)), s2)
              else ((disposed disposition_removed_code True, None), s2))
            else ((disposed disposition_stopped_code True, None), s1)))"

definition inspect_running_spec :: "string \<Rightarrow> process_spec" where
  "inspect_running_spec i = docker_spec [''inspect'', ''--format'', ''{{.State.Running}}'', i]"

definition container_recover :: "'w executor option \<Rightarrow> 'w disposition_op" where
  "container_recover x i disposition c s =
     (let unproven = (\<lambda>e. (disposed disposition_recovery_unproven_code False, Some e)) in
      case x of
        None \<Rightarrow> (unproven DispositionPrecondition, s)
      | Some x' \<Rightarrow>
          if \<not> full_container_id i then (unproven DispositionPrecondition, s)
          else if disposition = disposition_remove
          then ((disposed disposition_manual_recovery_code False, None), s)
          else (case docker_run x' [''start'', i] c s of (r, s1) \<Rightarrow>
            if p_outcome r \<noteq> ProcessSucceeded then (unproven DispositionFailed, s1)
            else (case exec_call x' (inspect_running_spec i) c s1 of ((r2, chunks), s2) \<Rightarrow>
              if p_outcome r2 \<noteq> ProcessSucceeded \<or> trim_space (concat chunks) \<noteq> ''true''
              then (unproven DispositionFailed, s2)
              else ((disposed disposition_restarted_code True, None), s2))))"

section \<open>The coordinator and its lease\<close>

text \<open>The collaborators; the receiver is \<open>None\<close> when some of them, or the coordinator, is nil.\<close>

record 'w handoff_ports =
  hp_revalidate :: "backup_ref \<Rightarrow> ('w, validated_backup option) meff"
  hp_quiesce :: "('w, quiescence \<times> quiescence_error option) meff"
  hp_recover :: "quiescence \<Rightarrow> ('w, recovery \<times> string option) meff"
  hp_apply :: "'w disposition_op"
  hp_container_recover :: "'w disposition_op"

record 'w handoff =
  h_ports :: "'w handoff_ports option"
  h_recovery_context :: "(nat \<Rightarrow> ctx) option"

text \<open>
  A lease.  Its owner is the coordinator that handed it out, told apart by an identity
  (the pointer of the source); \<open>consumed\<close> is the flag the mutex guards.
\<close>

record lease =
  l_owner :: nat
  l_quiescence :: quiescence
  l_container_id :: string
  l_disposition :: disposition
  l_pm2_only :: bool
  l_consumed :: bool

record pm2_target =
  tg_pmid :: int
  tg_name :: string
  tg_port :: nat

definition pm2_targets :: "lease option \<Rightarrow> pm2_target list" where
  "pm2_targets l =
     (case l of None \<Rightarrow> []
      | Some l \<Rightarrow> map (\<lambda>p. \<lparr>tg_pmid = pmid p, tg_name = ident_name p, tg_port = ident_port p\<rparr>)
          (processes (l_quiescence l)))"

definition evidence_matches :: "stopped_evidence \<Rightarrow> pm2_identity \<Rightarrow> bool" where
  "evidence_matches e p \<longleftrightarrow>
     stop_verified e \<and> ev_pmid e = pmid p \<and> ev_pid e = ident_pid p \<and> ev_port e = ident_port p \<and>
     ev_ticks e = start_ticks p"

definition complete_quiescence :: "quiescence \<Rightarrow> bool" where
  "complete_quiescence q \<longleftrightarrow>
     (if noop_verified q then processes q = [] \<and> evidence q = []
      else processes q \<noteq> [] \<and> length (processes q) = length (evidence q) \<and>
           list_all (\<lambda>i. evidence_matches (evidence q ! i) (processes q ! i)) [0..<length (evidence q)])"

definition clone_quiescence :: "quiescence \<Rightarrow> quiescence" where
  "clone_quiescence q =
     \<lparr>processes = processes q, evidence = evidence q, noop_verified = noop_verified q\<rparr>"

lemma clone_quiescence_same [simp]: "clone_quiescence q = (q :: quiescence)"
  by (simp add: clone_quiescence_def)

text \<open>\<open>recoveryContext\<close>: ten seconds, from a context of its own.\<close>

definition handoff_recovery_context :: "'w handoff \<Rightarrow> nat \<Rightarrow> ctx" where
  "handoff_recovery_context h now =
     with_timeout (case h_recovery_context h of None \<Rightarrow> background | Some f \<Rightarrow> f now) now (10 * second)"

datatype handoff_error =
    HandoffUnavailable | BackupInvalid
  | QuiescenceIncomplete "quiescence_error option"
  | QuiescenceUnrecovered string "diagnostic option" "quiescence_error option" "string option"
  | ContainerUnrecovered "disposition_error option" "string option"
  | ContainerPermission | ContainerFailed
  | LeaseInvalid

definition handoff_recover :: "'w handoff \<Rightarrow> 'w handoff_ports \<Rightarrow> quiescence \<Rightarrow>
    'w msys \<Rightarrow> (recovery \<times> string option) \<times> 'w msys" where
  "handoff_recover h p q s = hp_recover p q (handoff_recovery_context h (clock s)) s"

text \<open>The quiescence failed or is incomplete: what was stopped is recovered at once.\<close>

definition begin_unquiesced ::
  "'w handoff \<Rightarrow> nat \<Rightarrow> 'w handoff_ports \<Rightarrow> quiescence \<Rightarrow> quiescence_error option \<Rightarrow>
   'w msys \<Rightarrow> (lease option \<times> handoff_error option) \<times> 'w msys" where
  "begin_unquiesced h self p q err s =
     (if evidence q = [] then ((None, Some (QuiescenceIncomplete err)), s)
      else (case handoff_recover h p q s of ((rc, rc_err), s1) \<Rightarrow>
        if rc_err \<noteq> None \<or> \<not> verified rc
        then ((Some \<lparr>l_owner = self, l_quiescence = clone_quiescence q, l_container_id = [],
                     l_disposition = disposition_stop, l_pm2_only = True, l_consumed = False\<rparr>,
               Some (QuiescenceUnrecovered (if rec_code rc = [] then ''pm2-recovery-unproven'' else rec_code rc)
                       (rec_diag rc) err rc_err)), s1)
        else ((None, Some (QuiescenceIncomplete err)), s1)))"

text \<open>The disposition failed: a container that was only stopped is started again.\<close>

definition begin_undisposed ::
  "'w handoff \<Rightarrow> 'w handoff_ports \<Rightarrow> quiescence \<Rightarrow> string \<Rightarrow> disposition \<Rightarrow> disposition_result \<Rightarrow>
   disposition_error option \<Rightarrow> 'w msys \<Rightarrow> (lease option \<times> handoff_error option) \<times> 'w msys" where
  "begin_undisposed h p q i disposition result err s =
     (case (if disposition = disposition_remove \<and> disp_code result = disposition_stopped_code
            then (case hp_container_recover p i disposition_stop (handoff_recovery_context h (clock s)) s of
                    ((r, e), s1) \<Rightarrow> (if e \<noteq> None \<or> \<not> disp_verified r then Some e else None, s1))
            else (None, s)) of
        (container_err, s1) \<Rightarrow>
          (case handoff_recover h p q s1 of ((_, pm2_err), s2) \<Rightarrow>
            ((None, Some (case container_err of
                Some e \<Rightarrow> ContainerUnrecovered e pm2_err
              | None \<Rightarrow> if err = Some DispositionPermission then ContainerPermission else ContainerFailed)), s2)))"

definition handoff_begin ::
  "'w handoff \<Rightarrow> nat \<Rightarrow> backup_ref \<Rightarrow> string \<Rightarrow> disposition \<Rightarrow>
   ('w, lease option \<times> handoff_error option) meff" where
  "handoff_begin h self backup i disposition c s =
     (case h_ports h of
        None \<Rightarrow> ((None, Some HandoffUnavailable), s)
      | Some p \<Rightarrow>
          if \<not> full_container_id i \<or> disposition > disposition_remove \<or> ctx_err c (clock s) \<noteq> None
          then ((None, Some HandoffUnavailable), s)
          else (case hp_revalidate p backup c s of (v, s1) \<Rightarrow>
            if v = None \<or> ctx_err c (clock s1) \<noteq> None then ((None, Some BackupInvalid), s1)
            else (case hp_quiesce p c s1 of ((q, err), s2) \<Rightarrow>
              if err \<noteq> None \<or> ctx_err c (clock s2) \<noteq> None \<or> \<not> complete_quiescence q
              then begin_unquiesced h self p q err s2
              else (case hp_apply p i disposition c s2 of ((result, aerr), s3) \<Rightarrow>
                if aerr \<noteq> None \<or> ctx_err c (clock s3) \<noteq> None
                then begin_undisposed h p q i disposition result aerr s3
                else ((Some \<lparr>l_owner = self, l_quiescence = clone_quiescence q, l_container_id = i,
                             l_disposition = disposition, l_pm2_only = False, l_consumed = False\<rparr>,
                       None), s3)))))"

text \<open>
  \<open>consume\<close>: the quiescence and whether this is the first use, with the lease as it is
  afterwards.  \<open>self\<close> is the coordinator's identity, \<open>None\<close> for a nil one.
\<close>

definition consume_lease ::
  "nat option \<Rightarrow> lease option \<Rightarrow> (handoff_error + quiescence \<times> bool) \<times> lease option" where
  "consume_lease self l =
     (case (self, l) of
        (Some me, Some l') \<Rightarrow>
          if l_owner l' \<noteq> me then (Inl LeaseInvalid, l)
          else if l_consumed l' then (Inr (no_quiescence, False), l)
          else (Inr (clone_quiescence (l_quiescence l'), True), Some (l'\<lparr>l_consumed := True\<rparr>))
      | _ \<Rightarrow> (Inl LeaseInvalid, l))"

definition complete_success :: "nat option \<Rightarrow> lease option \<Rightarrow> handoff_error option \<times> lease option" where
  "complete_success self l =
     (case consume_lease self l of (Inl e, l1) \<Rightarrow> (Some e, l1) | (Inr _, l1) \<Rightarrow> (None, l1))"

definition no_recovery :: recovery where
  "no_recovery = \<lparr>attempted = 0, recovered = 0, verified = False, rec_code = [], rec_diag = None\<rparr>"

datatype completion_error =
    CompletionLease handoff_error
  | CompletionFailed "disposition_error option" "string option"

definition failure_code :: "lease \<Rightarrow> disposition_result \<times> disposition_error option \<Rightarrow> recovery \<Rightarrow> recovery" where
  "failure_code l container rc =
     (if \<not> l_pm2_only l \<and> l_disposition l = disposition_remove
      then rc\<lparr>rec_code := disposition_manual_recovery_code\<rparr>
      else if snd container \<noteq> None \<or> \<not> disp_verified (fst container)
      then rc\<lparr>rec_code := disposition_recovery_unproven_code\<rparr> else rc)"

definition complete_failure ::
  "'w handoff \<Rightarrow> nat option \<Rightarrow> lease option \<Rightarrow> 'w msys \<Rightarrow>
   ((recovery \<times> completion_error option) \<times> lease option) \<times> 'w msys" where
  "complete_failure h self l s =
     (case consume_lease self l of
        (Inl e, l1) \<Rightarrow> (((no_recovery, Some (CompletionLease e)), l1), s)
      | (Inr (q, first), l1) \<Rightarrow>
          (case (h_ports h, l1) of
             (Some p, Some l') \<Rightarrow>
               if \<not> first then (((no_recovery, None), l1), s)
               else (case (if l_pm2_only l' then ((disposed [] True, None), s)
                           else hp_container_recover p (l_container_id l') (l_disposition l')
                                  (handoff_recovery_context h (clock s)) s) of
                 (container, s1) \<Rightarrow>
                   (case handoff_recover h p q s1 of ((rc, pm2_err), s2) \<Rightarrow>
                      (((failure_code l' container rc,
                         if snd container = None \<and> pm2_err = None then None
                         else Some (CompletionFailed (snd container) pm2_err)), l1), s2)))
           | _ \<Rightarrow> (((no_recovery, None), l1), s)))"

end
