(* ===== verification/HandoffSafety.thy ===== *)
theory HandoffSafety
  imports Handoff
begin

text \<open>
  What the handoff promises: the commands that change the legacy installation, as a
  sequence.  \<open>handoff_services\<close> is the contract of the collaborators, proved for the
  production wiring at the end.
\<close>

section \<open>Changes of the legacy installation\<close>

definition legacy_argvs :: "string \<Rightarrow> string list set" where
  "legacy_argvs i = {[''stop'', i], [''rm'', i], [''start'', i]}"

fun legacy_change :: "string \<Rightarrow> migration_event \<Rightarrow> bool" where
  "legacy_change i (Command e) = (\<not> is_observation e)"
| "legacy_change i (Exec spec r) = (p_name spec = ''docker'' \<and> p_args spec \<in> legacy_argvs i)"
| "legacy_change i e = False"

definition changed :: "string \<Rightarrow> 'w msys \<Rightarrow> 'w msys \<Rightarrow> migration_event list \<Rightarrow> bool" where
  "changed i s s' ms \<longleftrightarrow> (\<exists>es. grew s s' es \<and> filter (legacy_change i) es = ms)"

lemma changed_refl [simp]: "changed i s s []"
  unfolding changed_def by (rule exI [of _ "[]"]) simp

lemma changed_trans: "changed i s s' ms \<Longrightarrow> changed i s' s'' ms' \<Longrightarrow> changed i s s'' (ms @ ms')"
  unfolding changed_def by (metis filter_append grew_trans)

lemma changed_grew: "grew s s' es \<Longrightarrow> changed i s s' (filter (legacy_change i) es)"
  unfolding changed_def by blast

abbreviation spares :: "string \<Rightarrow> 'w msys \<Rightarrow> 'w msys \<Rightarrow> bool" where
  "spares i s s' \<equiv> changed i s s' []"

lemma spares_trans: "spares i s s' \<Longrightarrow> spares i s' s'' \<Longrightarrow> spares i s s''"
  using changed_trans by fastforce

lemma os_call_spares: "os_call os fop s = (r, s') \<Longrightarrow> spares i s s'"
  by (drule os_call_grew, drule changed_grew [of _ _ _ i]) simp

lemma exec_call_changed:
  "exec_call x spec c s = (r, s') \<Longrightarrow>
   changed i s s' (if p_name spec = ''docker'' \<and> p_args spec \<in> legacy_argvs i
                   then [Exec spec (p_outcome (fst r))] else [])"
  by (drule exec_call_grew, drule changed_grew [of _ _ _ i]) (auto split: if_splits)

definition docker_event :: "string list \<Rightarrow> process_outcome \<Rightarrow> migration_event" where
  "docker_event args r = Exec (docker_spec args) r"

lemma docker_event_not_command [simp]: "docker_event args r \<noteq> Command e" "Command e \<noteq> docker_event args r"
  by (simp_all add: docker_event_def)

lemma disposition_distinct [simp]: "disposition_stop \<noteq> disposition_remove" "disposition_remove \<noteq> disposition_stop"
  by (simp_all add: disposition_stop_def disposition_remove_def)

lemma docker_run_changed:
  "docker_run x args c s = (r, s') \<Longrightarrow> args \<in> legacy_argvs i \<Longrightarrow>
   changed i s s' [docker_event args (p_outcome r)]"
  by (auto simp: docker_run_def docker_event_def docker_spec_def split: prod.splits
      dest!: exec_call_changed [where i = i])

text \<open>Commands lifted to the host keep their order.\<close>

lemma lift_cmd_run:
  assumes "lift_cmd m c s = (r, s')"
  obtains s0 s1 where "m c s0 = (r, s1)" "trace s0 = []" "trace s' = trace s @ map Command (trace s1)"
    "clock s \<le> clock s'"
  using assms by (auto simp: lift_cmd_def split: prod.splits)

lemma lifted_changed:
  assumes "trace s0 = []" "trace s' = trace s @ map Command (trace s1)" "clock s \<le> clock s'"
    and "mutated s0 s1 ms"
  shows "changed i s s' (map Command ms)"
proof -
  have "ms = mutations (trace s1)"
    using assms(1,4) by (auto simp: mutated_def grew_def)
  moreover have "filter (legacy_change i) (map Command es) = map Command (mutations es)" for es
    by (induction es) (auto simp: mutations_def)
  moreover have "grew s s' (map Command (trace s1))"
    using assms(2,3) by (simp add: grew_def)
  ultimately show ?thesis using changed_grew by metis
qed

section \<open>The disposition\<close>

text \<open>
  \<open>disposal i d res es\<close>: the commands \<open>es\<close> of a disposition \<open>d\<close> with the answer \<open>res\<close>.
\<close>

definition disposal_events :: "string \<Rightarrow> disposition \<Rightarrow> migration_event list" where
  "disposal_events i d = docker_event [''stop'', i] ProcessSucceeded #
     (if d = disposition_remove then [docker_event [''rm'', i] ProcessSucceeded] else [])"

definition disposal ::
  "string \<Rightarrow> disposition \<Rightarrow> disposition_result \<times> disposition_error option \<Rightarrow> migration_event list \<Rightarrow> bool" where
  "disposal i d res es \<longleftrightarrow>
     (if snd res = None then es = disposal_events i d \<and> disp_verified (fst res)
      else es = [] \<or> (\<exists>r. r \<noteq> ProcessSucceeded \<and>
             (es = [docker_event [''stop'', i] r] \<or>
              d = disposition_remove \<and> disp_code (fst res) = disposition_stopped_code \<and>
              es = [docker_event [''stop'', i] ProcessSucceeded, docker_event [''rm'', i] r])))"

lemma container_apply_disposal:
  assumes "container_apply x i d c s = (res, s')"
  shows "\<exists>es. changed i s s' es \<and> disposal i d res es"
proof -
  have refused: "snd res \<noteq> None \<and> s' = s \<Longrightarrow> ?thesis"
    by (auto simp: disposal_def intro!: exI [of _ "[]"])
  show ?thesis
  proof (cases "x = None \<or> \<not> full_container_id i \<or> d > disposition_remove")
    case True
    with assms show ?thesis by (intro refused) (auto simp: container_apply_def split: option.splits)
  next
    case False
    then obtain x' where x: "x = Some x'" and ok: "full_container_id i" "\<not> d > disposition_remove" by auto
    obtain r s1 where stop: "docker_run x' [''stop'', i] c s = (r, s1)" by fastforce
    have stop': "changed i s s1 [docker_event [''stop'', i] (p_outcome r)]"
      by (rule docker_run_changed [OF stop]) (simp add: legacy_argvs_def)
    obtain r2 s2 where rm: "docker_run x' [''rm'', i] c s1 = (r2, s2)" by fastforce
    have rm': "changed i s s2 [docker_event [''stop'', i] (p_outcome r), docker_event [''rm'', i] (p_outcome r2)]"
      using changed_trans [OF stop' docker_run_changed [OF rm]] by (simp add: legacy_argvs_def)
    show ?thesis
    proof (cases "p_outcome r = ProcessSucceeded \<and> d = disposition_remove")
      case True
      with assms x ok stop rm rm' show ?thesis
        by (intro exI [of _ "[docker_event [''stop'', i] ProcessSucceeded, docker_event [''rm'', i] (p_outcome r2)]"])
           (auto simp: container_apply_def disposal_def disposal_events_def disposed_def split: if_splits)
    next
      case False
      with assms x ok stop stop' show ?thesis
        by (intro exI [of _ "[docker_event [''stop'', i] (p_outcome r)]"])
           (auto simp: container_apply_def disposal_def disposal_events_def disposed_def split: if_splits)
    qed
  qed
qed

definition restart_events :: "string \<Rightarrow> disposition \<Rightarrow> process_outcome \<Rightarrow> migration_event list" where
  "restart_events i d r = (if d = disposition_remove then [] else [docker_event [''start'', i] r])"

lemma container_recover_restart:
  assumes "container_recover x i d c s = (res, s')"
  shows "spares i s s' \<and> snd res \<noteq> None \<or>
    (\<exists>r. changed i s s' (restart_events i d r) \<and>
       (snd res = None \<longrightarrow> r = ProcessSucceeded \<and> (disp_verified (fst res) \<longleftrightarrow> d \<noteq> disposition_remove)))"
proof (cases "x = None \<or> \<not> full_container_id i \<or> d = disposition_remove")
  case True
  with assms show ?thesis
    by (cases x) (auto simp: container_recover_def Let_def restart_events_def disposed_def split: if_splits)
next
  case False
  then obtain x' where x: "x = Some x'" and ok: "full_container_id i" "d \<noteq> disposition_remove" by auto
  obtain r s1 where start: "docker_run x' [''start'', i] c s = (r, s1)" by fastforce
  have start': "changed i s s1 [docker_event [''start'', i] (p_outcome r)]"
    by (rule docker_run_changed [OF start]) (simp add: legacy_argvs_def)
  obtain r2 s2 where inspect: "exec_call x' (inspect_running_spec i) c s1 = (r2, s2)" by fastforce
  have "spares i s1 s2"
    using exec_call_changed [OF inspect, of i]
    by (simp add: inspect_running_spec_def docker_spec_def legacy_argvs_def)
  then have inspect': "changed i s s2 [docker_event [''start'', i] (p_outcome r)]"
    using changed_trans [OF start'] by fastforce
  show ?thesis
  proof (cases "p_outcome r = ProcessSucceeded")
    case True
    with assms x ok start inspect inspect' show ?thesis
      by (intro disjI2 exI [of _ ProcessSucceeded])
         (auto simp: container_recover_def restart_events_def disposed_def Let_def split: prod.splits if_splits)
  next
    case False
    with assms x ok start start' show ?thesis
      by (intro disjI2 exI [of _ "p_outcome r"])
         (auto simp: container_recover_def restart_events_def Let_def)
  qed
qed

section \<open>The contract\<close>

locale handoff_services =
  fixes p :: "'w handoff_ports" and i :: string
  assumes revalidate_spares: "hp_revalidate p b c s = (v, s') \<Longrightarrow> spares i s s'"
    and quiesce_runs: "hp_quiesce p c s = ((q, err), s') \<Longrightarrow>
      \<exists>ms ok. changed i s s' (map Command ms) \<and> stops (processes q) (evidence q) ms ok \<and>
        list_all complete_identity (processes q) \<and> distinct (map pmid (processes q)) \<and>
        (noop_verified q \<longrightarrow> processes q = []) \<and>
        (err = None \<longrightarrow> ok \<and> (processes q = [] \<longrightarrow> noop_verified q))"
    and recover_runs: "hp_recover p q c s = ((rc, rerr), s') \<Longrightarrow>
      acknowledged_recovery_targets q = Some ts \<Longrightarrow>
      \<exists>ms. changed i s s' (map Command ms) \<and> starts (rev ts) (attempted rc) (recovered rc) ms (rerr = None) \<and>
        (verified rc \<longleftrightarrow> rerr = None)"
    and recover_idle: "hp_recover p q c s = ((rc, rerr), s') \<Longrightarrow>
      acknowledged_recovery_targets q = None \<Longrightarrow> spares i s s'"
    and apply_runs: "hp_apply p i d c s = (res, s') \<Longrightarrow> \<exists>es. changed i s s' es \<and> disposal i d res es"
    and restart_runs: "hp_container_recover p i d c s = (res, s') \<Longrightarrow>
      spares i s s' \<and> snd res \<noteq> None \<or>
      (\<exists>r. changed i s s' (restart_events i d r) \<and>
         (snd res = None \<longrightarrow> r = ProcessSucceeded \<and> (disp_verified (fst res) \<longleftrightarrow> d \<noteq> disposition_remove)))"
begin

text \<open>A recovery that follows a quiescence: the starts of what was stopped, in reverse.\<close>

lemma recover_after:
  assumes "stops (processes q) (evidence q) ms ok" "list_all complete_identity (processes q)"
    "distinct (map pmid (processes q))"
    and "hp_recover p q c s = ((rc, err), s')"
  shows "\<exists>ss a n. changed i s s' (map Command ss) \<and>
    starts (rev (take (length (evidence q)) (processes q))) a n ss (err = None \<or> evidence q = [])"
proof (cases "evidence q = []")
  case True
  then have "acknowledged_recovery_targets q = None"
    by (auto simp: acknowledged_recovery_targets_def split: option.splits)
  with recover_idle [OF assms(4)] True show ?thesis
    using starts_done by (intro exI [of _ "[] :: cmd_event list"] exI) auto
next
  case False
  from recover_runs [OF assms(4) acknowledged_stops [OF assms(1-3) False]] False show ?thesis by auto
qed

lemma complete_stops:
  assumes "stops (processes q) (evidence q) ms True" and "noop_verified q \<longrightarrow> processes q = []"
    and "processes q = [] \<longrightarrow> noop_verified q"
  shows "complete_quiescence q"
proof -
  from stops_complete [OF assms(1)] have ev: "evidence q = map (evidence_of True) (processes q)" by simp
  show ?thesis
  proof (cases "processes q = []")
    case True
    with assms(3) ev show ?thesis by (simp add: complete_quiescence_def)
  next
    case False
    with assms(2) show ?thesis
      by (simp add: complete_quiescence_def ev evidence_matches_def evidence_of_def list_all_iff)
  qed
qed

end

section \<open>What one handoff does\<close>

text \<open>
  The outcomes of \<open>Begin\<close>, as the list of changes \<open>es\<close>, the lease and the error:
  refused (nothing was changed), handed out (all stopped and disposed of), held (the
  processes could not be recovered, and the lease allows another attempt), or undone (the
  recovery ran: after an incomplete quiescence it succeeded, after a failed disposition
  its outcome is unknown).
\<close>

fun container_failure :: "handoff_error \<Rightarrow> bool" where
  "container_failure ContainerPermission = True"
| "container_failure ContainerFailed = True"
| "container_failure (ContainerUnrecovered e pm2) = True"
| "container_failure e = False"

inductive began ::
  "nat \<Rightarrow> string \<Rightarrow> disposition \<Rightarrow> lease option \<times> handoff_error option \<Rightarrow> migration_event list \<Rightarrow> bool"
  for self i d where
  began_refused: "e \<in> {HandoffUnavailable, BackupInvalid} \<Longrightarrow> began self i d (None, Some e) []"
| began_lease: "stops (processes q) (evidence q) ms True \<Longrightarrow> complete_quiescence q \<Longrightarrow>
    list_all complete_identity (processes q) \<Longrightarrow> distinct (map pmid (processes q)) \<Longrightarrow>
    l = \<lparr>l_owner = self, l_quiescence = clone_quiescence q, l_container_id = i,
         l_disposition = d, l_pm2_only = False, l_consumed = False\<rparr> \<Longrightarrow>
    began self i d (Some l, None) (map Command ms @ disposal_events i d)"
| began_held: "stops (processes q) (evidence q) ms ok \<Longrightarrow> evidence q \<noteq> [] \<Longrightarrow>
    list_all complete_identity (processes q) \<Longrightarrow> distinct (map pmid (processes q)) \<Longrightarrow>
    starts (rev (take (length (evidence q)) (processes q))) a n ss False \<Longrightarrow>
    l = \<lparr>l_owner = self, l_quiescence = clone_quiescence q, l_container_id = [],
         l_disposition = disposition_stop, l_pm2_only = True, l_consumed = False\<rparr> \<Longrightarrow>
    began self i d (Some l, Some (QuiescenceUnrecovered code diag qe re)) (map Command ms @ map Command ss)"
| began_unquiesced: "stops (processes (q :: quiescence)) (evidence q) ms ok \<Longrightarrow>
    starts (rev (take (length (evidence q)) (processes q))) a n ss True \<Longrightarrow>
    began self i d (None, Some (QuiescenceIncomplete qe)) (map Command ms @ map Command ss)"
| began_undisposed: "stops (processes (q :: quiescence)) (evidence q) ms True \<Longrightarrow>
    disposal i d (res, aerr) es \<Longrightarrow>
    rs = [] \<or> (d = disposition_remove \<and> (\<exists>r. rs = [docker_event [''start'', i] r])) \<Longrightarrow>
    starts (rev (processes q)) a n ss ok \<Longrightarrow>
    container_failure e \<Longrightarrow>
    began self i d (None, Some e) (map Command ms @ es @ rs @ map Command ss)"

inductive_cases began_leaseE: "began self i d (Some l, None) es"
inductive_cases began_NoneE: "began self i d (None, e) es"

context handoff_services begin

lemma unquiesced_began:
  assumes "begin_unquiesced h self p q err s = (res, s')" and "changed i s0 s (map Command ms)"
    and st: "stops (processes q) (evidence q) ms ok" "list_all complete_identity (processes q)"
      "distinct (map pmid (processes q))"
  shows "\<exists>es. changed i s0 s' es \<and> began self i d res es"
proof (cases "evidence q = []")
  case True
  have "starts (rev (take (length (evidence q)) (processes q))) 0 0 [] True"
    using True starts_done by simp
  from began_unquiesced [OF st(1) this] assms(1,2) True show ?thesis
    by (auto simp: begin_unquiesced_def)
next
  case False
  obtain rc rerr s1 where rec: "handoff_recover h p q s = ((rc, rerr), s1)" by (metis surj_pair)
  from recover_runs [OF rec [unfolded handoff_recover_def] acknowledged_stops [OF st False]] obtain ss where
    ss: "changed i s s1 (map Command ss)" "verified rc \<longleftrightarrow> rerr = None"
      "starts (rev (take (length (evidence q)) (processes q))) (attempted rc) (recovered rc) ss (rerr = None)"
    by blast
  note all = changed_trans [OF assms(2) ss(1)]
  show ?thesis
  proof (cases "rerr = None")
    case True
    with began_unquiesced [OF st(1), of _ _ ss self i d err] ss(3) all assms(1) rec ss(2) False show ?thesis
      by (auto simp: begin_unquiesced_def)
  next
    case unproven: False
    then have "starts (rev (take (length (evidence q)) (processes q))) (attempted rc) (recovered rc) ss False"
      using ss(3) by (simp only: simp_thms)
    from began_held [OF st(1) False st(2,3) this refl] assms(1) rec ss(2) False unproven all show ?thesis
      by (auto simp: begin_unquiesced_def)
  qed
qed

lemma undisposed_began:
  assumes "begin_undisposed h p q i d result aerr s = (res, s')"
    and "changed i s0 s (map Command ms @ es)" and dis: "disposal i d (result, aerr) es"
    and st: "stops (processes q) (evidence q) ms True" "list_all complete_identity (processes q)"
      "distinct (map pmid (processes q))"
  shows "\<exists>es. changed i s0 s' es \<and> began self i d res es"
proof -
  let ?restart = "d = disposition_remove \<and> disp_code result = disposition_stopped_code"
  define x where "x = hp_container_recover p i disposition_stop (handoff_recovery_context h (clock s)) s"
  define s1 where "s1 = (if ?restart then snd x else s)"
  obtain rs where rs: "changed i s s1 rs" "rs = [] \<or> (d = disposition_remove \<and> (\<exists>r. rs = [docker_event [''start'', i] r]))"
  proof (cases ?restart)
    case True
    have "hp_container_recover p i disposition_stop (handoff_recovery_context h (clock s)) s = (fst x, snd x)"
      by (simp add: x_def)
    from restart_runs [OF this] True that show ?thesis
      by (auto simp: s1_def restart_events_def disposition_stop_def disposition_remove_def)
  next
    case False
    then have "s1 = s" by (auto simp: s1_def)
    with that [of "[]"] show ?thesis by simp
  qed
  obtain rc rerr s2 where rec: "handoff_recover h p q s1 = ((rc, rerr), s2)" by (metis surj_pair)
  have ev: "length (evidence q) = length (processes q)"
    using stops_complete [OF st(1)] by simp
  from recover_after [OF st rec [unfolded handoff_recover_def]] ev obtain ss a n where
    ss: "changed i s1 s2 (map Command ss)" "starts (rev (processes q)) a n ss (rerr = None \<or> evidence q = [])"
    by auto
  have "s' = s2 \<and> fst res = None \<and>
      (\<exists>e. snd res = Some e \<and> container_failure e)"
    using assms(1) rec
    by (auto simp: begin_undisposed_def s1_def x_def split: prod.splits if_splits option.splits)
  then obtain e where e: "s' = s2" "res = (None, Some e)"
      "container_failure e"
    by (metis prod.collapse)
  have "changed i s0 s' (map Command ms @ es @ rs @ map Command ss)"
    using changed_trans [OF changed_trans [OF assms(2) rs(1)] ss(1)] e(1) by simp
  with began_undisposed [OF st(1) dis rs(2) ss(2) e(3)] e(2) show ?thesis by blast
qed

lemma begin_began:
  assumes "handoff_begin \<lparr>h_ports = Some p, h_recovery_context = rcx\<rparr> self b i d c s = (res, s')"
  shows "\<exists>es. changed i s s' es \<and> began self i d res es"
proof -
  let ?h = "\<lparr>h_ports = Some p, h_recovery_context = rcx\<rparr>"
  obtain v s1 where rv: "hp_revalidate p b c s = (v, s1)" by fastforce
  obtain q err s2 where qs: "hp_quiesce p c s1 = ((q, err), s2)" by (metis surj_pair)
  obtain result aerr s3 where ap: "hp_apply p i d c s2 = ((result, aerr), s3)" by (metis surj_pair)
  from quiesce_runs [OF qs] obtain ms ok where
    ms: "changed i s1 s2 (map Command ms)" "stops (processes q) (evidence q) ms ok"
      "list_all complete_identity (processes q)" "distinct (map pmid (processes q))"
      "noop_verified q \<longrightarrow> processes q = []" "err = None \<longrightarrow> ok \<and> (processes q = [] \<longrightarrow> noop_verified q)"
    by blast
  have c2: "changed i s s2 (map Command ms)"
    using changed_trans [OF revalidate_spares [OF rv] ms(1)] by simp
  have step: "handoff_begin ?h self b i d c s =
      (if \<not> full_container_id i \<or> d > disposition_remove \<or> ctx_err c (clock s) \<noteq> None
       then ((None, Some HandoffUnavailable), s)
       else if v = None \<or> ctx_err c (clock s1) \<noteq> None then ((None, Some BackupInvalid), s1)
       else if err \<noteq> None \<or> ctx_err c (clock s2) \<noteq> None \<or> \<not> complete_quiescence q
       then begin_unquiesced ?h self p q err s2
       else if aerr \<noteq> None \<or> ctx_err c (clock s3) \<noteq> None
       then begin_undisposed ?h p q i d result aerr s3
       else ((Some \<lparr>l_owner = self, l_quiescence = clone_quiescence q, l_container_id = i,
                    l_disposition = d, l_pm2_only = False, l_consumed = False\<rparr>, None), s3))"
    by (simp add: handoff_begin_def rv qs ap)
  have "(s' = s \<or> s' = s1) \<and> (\<exists>e. res = (None, Some e) \<and> e \<in> {HandoffUnavailable, BackupInvalid}) \<or>
      begin_unquiesced ?h self p q err s2 = (res, s') \<or>
      err = None \<and> complete_quiescence q \<and> begin_undisposed ?h p q i d result aerr s3 = (res, s') \<or>
      err = None \<and> aerr = None \<and> s' = s3 \<and> complete_quiescence q \<and>
        res = (Some \<lparr>l_owner = self, l_quiescence = clone_quiescence q, l_container_id = i,
                 l_disposition = d, l_pm2_only = False, l_consumed = False\<rparr>, None)"
    using assms unfolding step by (simp only: split: if_splits) auto
  then consider
      (refused) "s' = s \<or> s' = s1" "\<exists>e. res = (None, Some e) \<and> e \<in> {HandoffUnavailable, BackupInvalid}"
    | (unquiesced) "begin_unquiesced ?h self p q err s2 = (res, s')"
    | (applied) "err = None" "complete_quiescence q" "begin_undisposed ?h p q i d result aerr s3 = (res, s')"
    | (lease) "err = None" "aerr = None" "s' = s3" "complete_quiescence q"
        "res = (Some \<lparr>l_owner = self, l_quiescence = clone_quiescence q, l_container_id = i,
                 l_disposition = d, l_pm2_only = False, l_consumed = False\<rparr>, None)"
    by blast
  then show ?thesis
  proof cases
    case refused
    then have "spares i s s'" using revalidate_spares [OF rv] by auto
    with refused(2) show ?thesis using began_refused by blast
  next
    case unquiesced
    from unquiesced_began [OF this c2 ms(2-4)] show ?thesis .
  next
    case applied
    with ms(2,6) have st: "stops (processes q) (evidence q) ms True" by simp
    from apply_runs [OF ap] obtain es where es: "changed i s2 s3 es" "disposal i d (result, aerr) es" by blast
    from undisposed_began [OF applied(3) changed_trans [OF c2 es(1)] es(2) st ms(3,4)] show ?thesis .
  next
    case lease
    with ms(2,6) have st: "stops (processes q) (evidence q) ms True" by simp
    from apply_runs [OF ap] lease(2) have "changed i s2 s3 (disposal_events i d)"
      by (auto simp: disposal_def)
    from changed_trans [OF c2 this] began_lease [OF st lease(4) ms(3,4) refl] lease(3,5) show ?thesis by blast
  qed
qed

text \<open>\<open>CompleteFailure\<close> on a lease not consumed yet: the container first, then the processes.\<close>

lemma complete_failure_runs:
  assumes "complete_failure \<lparr>h_ports = Some p, h_recovery_context = rcx\<rparr> (Some self) (Some l) s = (((rc, err), l'), s')"
    and "l_owner l = self" "\<not> l_consumed l" "l_container_id l = i \<or> l_pm2_only l"
    and st: "stops (processes (l_quiescence l)) (evidence (l_quiescence l)) ms ok"
      "list_all complete_identity (processes (l_quiescence l))" "distinct (map pmid (processes (l_quiescence l)))"
  shows "\<exists>rs ss a n ok'. changed i s s' (rs @ map Command ss) \<and>
    starts (rev (take (length (evidence (l_quiescence l))) (processes (l_quiescence l)))) a n ss ok' \<and>
    (rs = [] \<or> (\<exists>r. rs = restart_events i (l_disposition l) r)) \<and>
    (err = None \<longrightarrow> ok' \<and> rs = (if l_pm2_only l then [] else restart_events i (l_disposition l) ProcessSucceeded)) \<and>
    l' = Some (l\<lparr>l_consumed := True\<rparr>)"
proof -
  let ?h = "\<lparr>h_ports = Some p, h_recovery_context = rcx\<rparr>"
  let ?q = "clone_quiescence (l_quiescence l)"
  define x where "x = (if l_pm2_only l then ((disposed [] True, None), s)
    else hp_container_recover p (l_container_id l) (l_disposition l) (handoff_recovery_context ?h (clock s)) s)"
  obtain container s1 where x': "x = (container, s1)" by fastforce
  obtain rc0 rerr s2 where rec: "handoff_recover ?h p ?q s1 = ((rc0, rerr), s2)" by (metis surj_pair)
  have "complete_failure ?h (Some self) (Some l) s =
      (((failure_code (l\<lparr>l_consumed := True\<rparr>) container rc0,
         if snd container = None \<and> rerr = None then None else Some (CompletionFailed (snd container) rerr)),
        Some (l\<lparr>l_consumed := True\<rparr>)), s2)"
  proof (cases "l_pm2_only l")
    case True
    with x' have c: "container = (disposed [] True, None)" "s1 = s" by (simp_all add: x_def)
    have "handoff_recover ?h p ?q s = ((rc0, rerr), s2)" using rec c by simp
    with True c(1) show ?thesis by (simp add: complete_failure_def consume_lease_def assms(2,3))
  next
    case False
    with x' have "hp_container_recover p (l_container_id l) (l_disposition l) (handoff_recovery_context ?h (clock s)) s = (container, s1)"
      by (simp add: x_def)
    with False rec show ?thesis by (simp add: complete_failure_def consume_lease_def assms(2,3))
  qed
  with assms(1) have res: "s' = s2" "l' = Some (l\<lparr>l_consumed := True\<rparr>)"
      "err = None \<longleftrightarrow> snd container = None \<and> rerr = None"
    by (auto split: if_splits)
  have "\<exists>rs. changed i s s1 rs \<and> (rs = [] \<or> (\<exists>r. rs = restart_events i (l_disposition l) r)) \<and>
      (snd container = None \<longrightarrow> rs = (if l_pm2_only l then [] else restart_events i (l_disposition l) ProcessSucceeded))"
  proof (cases "l_pm2_only l")
    case True
    with x' show ?thesis by (intro exI [of _ "[]"]) (simp add: x_def)
  next
    case False
    with x' assms(4) have "hp_container_recover p i (l_disposition l) (handoff_recovery_context ?h (clock s)) s = (container, s1)"
      by (simp add: x_def)
    from restart_runs [OF this] False show ?thesis by auto
  qed
  from exE [OF this] obtain rs where rs0: "changed i s s1 rs \<and>
      (rs = [] \<or> (\<exists>r. rs = restart_events i (l_disposition l) r)) \<and>
      (snd container = None \<longrightarrow> rs = (if l_pm2_only l then [] else restart_events i (l_disposition l) ProcessSucceeded))" .
  note rs = conjunct1 [OF rs0] conjunct1 [OF conjunct2 [OF rs0]] conjunct2 [OF conjunct2 [OF rs0]]
  have "stops (processes ?q) (evidence ?q) ms ok" "list_all complete_identity (processes ?q)"
    "distinct (map pmid (processes ?q))"
    using st by (simp_all add: clone_quiescence_def)
  from recover_after [OF this rec [unfolded handoff_recover_def]] obtain ss a n where
    ss: "changed i s1 s2 (map Command ss)"
      "starts (rev (take (length (evidence (l_quiescence l))) (processes (l_quiescence l)))) a n ss
         (rerr = None \<or> evidence (l_quiescence l) = [])"
    by (auto simp: clone_quiescence_def)
  have all: "changed i s s' (rs @ map Command ss)" using changed_trans [OF rs(1) ss(1)] res(1) by simp
  have finished: "err = None \<longrightarrow> (rerr = None \<or> evidence (l_quiescence l) = []) \<and>
      rs = (if l_pm2_only l then [] else restart_events i (l_disposition l) ProcessSucceeded)"
    using rs(3) res(3) by simp
  show ?thesis
    apply (rule exI [of _ rs], rule exI [of _ ss], rule exI [of _ a], rule exI [of _ n],
        rule exI [of _ "rerr = None \<or> evidence (l_quiescence l) = []"],
        (rule conjI, fact)+, fact)
    done
qed

end

section \<open>The production wiring\<close>

lemma files_only_spares: "files_only s s' \<Longrightarrow> spares i s s'"
proof -
  assume "files_only s s'"
  then obtain es where "grew s s' es" "list_all is_file_op es" unfolding files_only_def by blast
  moreover have "list_all is_file_op es \<Longrightarrow> filter (legacy_change i) es = []" for es
    by (induction es) (auto elim: is_file_op.elims)
  ultimately show ?thesis using changed_grew by metis
qed

lemma staged_dump_owner_files: "staged_dump_owner os path s = (r, s') \<Longrightarrow> files_only s s'"
  by (auto simp: staged_dump_owner_def split: if_splits prod.splits os_reply.splits dest!: file_calls)

lemma safe_owned_staged_dump_files: "safe_owned_staged_dump os path uid gid s = (r, s') \<Longrightarrow> files_only s s'"
  by (auto simp: safe_owned_staged_dump_def split: if_splits prod.splits os_reply.splits dest!: file_calls)

lemma safe_restore_file_files: "safe_restore_file os path s = (r, s') \<Longrightarrow> files_only s s'"
  by (auto simp: safe_restore_file_def split: prod.splits os_reply.splits dest!: file_calls)

lemma safe_walk_files: "safe_walk os path current rest s = (r, s') \<Longrightarrow> files_only s s'"
  by (induction os path current rest s arbitrary: r s' rule: safe_walk.induct)
     (auto simp: Let_def split: prod.splits os_reply.splits if_splits dest!: file_calls intro: files_only_trans)

lemma safe_restore_file_in_root_files:
  "safe_restore_file_in_root os cwd path root s = (r, s') \<Longrightarrow> files_only s s'"
  unfolding safe_restore_file_in_root_def Let_def
  by (auto split: prod.splits os_reply.splits if_splits option.splits
      dest!: file_calls safe_walk_files intro: files_only_trans)

lemma restore_hash_files: "restore_hash cd os path s = (r, s') \<Longrightarrow> files_only s s'"
  by (auto simp: restore_hash_def split: prod.splits os_reply.splits dest!: file_calls)

lemma valid_restore_backup_files: "valid_restore_backup cd os ref s = (r, s') \<Longrightarrow> files_only s s'"
  unfolding valid_restore_backup_def
  by (auto split: prod.splits bool.splits if_splits os_reply.splits option.splits
      dest!: safe_restore_file_files restore_hash_files file_calls intro: files_only_trans)

lemma valid_restore_backup_in_root_files:
  "valid_restore_backup_in_root cd os cwd ref root s = (r, s') \<Longrightarrow> files_only s s'"
  unfolding valid_restore_backup_in_root_def
  by (auto split: prod.splits bool.splits
      dest!: safe_restore_file_in_root_files valid_restore_backup_files intro: files_only_trans)

lemmas file_checks = staged_dump_owner_files [THEN files_only_spares]
  safe_owned_staged_dump_files [THEN files_only_spares]
  valid_restore_backup_in_root_files [THEN files_only_spares]
  os_call_files [THEN files_only_spares]

lemma validate_spec_spares: "exec_call x (validate_spec name staged uid gid t) c s = (r, s') \<Longrightarrow> spares i s s'"
  by (drule exec_call_changed [where i = i]) (simp add: validate_spec_def legacy_argvs_def)

lemma cleanup_helper_spares: "cleanup_helper x name c s = (r, s') \<Longrightarrow> spares i s s'"
  by (auto simp: cleanup_helper_def cleanup_spec_def legacy_argvs_def
      split: option.splits if_splits prod.splits dest!: exec_call_changed [where i = i])

lemma archive_validate_spares: "archive_validate os x t staged c s = (r, s') \<Longrightarrow> spares i s s'"
  unfolding archive_validate_def Let_def
  by (auto split: prod.splits option.splits if_splits bool.splits os_reply.splits
      dest!: file_checks [where i = i] validate_spec_spares [where i = i] cleanup_helper_spares [where i = i]
      intro: spares_trans) (meson spares_trans)+

lemma gate_revalidate_spares:
  assumes "\<And>path c s r s'. validate path c s = (r, s') \<Longrightarrow> spares i s s'"
    and "gate_revalidate cd os cwd (Some validate) ref c s = (r, s')"
  shows "spares i s s'"
  using assms(2) unfolding gate_revalidate_def
  by (auto split: prod.splits if_splits bool.splits
      dest!: file_checks [where i = i] assms(1) intro: spares_trans)

text \<open>The composition of \<open>cmd/installer/main.go\<close>.\<close>

record 'w handoff_dependencies =
  hd_codec :: codec
  hd_os :: "'w os"
  hd_cwd :: string
  hd_executor :: "'w executor"
  hd_runner :: "'w runner"
  hd_unmarshal :: "string \<Rightarrow> pm2_json list option"

definition production_handoff_ports :: "'w handoff_dependencies \<Rightarrow> 'w handoff_ports" where
  "production_handoff_ports d =
     (let x = sudo_docker (hd_executor d); q = production_quiescer (hd_unmarshal d) (hd_runner d) in
      \<lparr>hp_revalidate = gate_revalidate (hd_codec d) (hd_os d) (hd_cwd d)
         (Some (archive_validate (hd_os d) (Some x) (30 * 60 * 1000000000))),
       hp_quiesce = lift_cmd (quiesce q), hp_recover = (\<lambda>st. lift_cmd (recover q st)),
       hp_apply = container_apply (Some x), hp_container_recover = container_recover (Some x)\<rparr>)"

definition production_handoff :: "'w handoff_dependencies \<Rightarrow> 'w handoff" where
  "production_handoff d = \<lparr>h_ports = Some (production_handoff_ports d), h_recovery_context = None\<rparr>"

interpretation production_handoff: handoff_services "production_handoff_ports d" i
  for d :: "'w handoff_dependencies" and i
proof unfold_locales
  fix b c s v s'
  assume "hp_revalidate (production_handoff_ports d) b c s = (v, s')"
  then show "spares i s s'"
    by (auto simp: production_handoff_ports_def Let_def
        intro: gate_revalidate_spares archive_validate_spares)
next
  fix c s q err s'
  assume "hp_quiesce (production_handoff_ports d) c s = ((q, err), s')"
  then obtain s0 s1 where run: "quiesce (production_quiescer (hd_unmarshal d) (hd_runner d)) c s0 = ((q, err), s1)"
    and lifted: "trace s0 = []" "trace s' = trace s @ map Command (trace s1)" "clock s \<le> clock s'"
    by (auto simp: production_handoff_ports_def Let_def elim: lift_cmd_run)
  from pq.quiesce_stops [OF run] obtain ms ok where
    ms: "mutated s0 s1 ms" "stops (processes q) (evidence q) ms ok" "err = None \<longrightarrow> ok"
      "list_all complete_identity (processes q)" "distinct (map pmid (processes q))"
      "noop_verified q \<longrightarrow> processes q = []"
    by blast
  have "err = None \<longrightarrow> processes q = [] \<longrightarrow> noop_verified q"
    using pq.quiesce_final run by fastforce
  with ms lifted_changed [OF lifted ms(1)]
  show "\<exists>ms ok. changed i s s' (map Command ms) \<and> stops (processes q) (evidence q) ms ok \<and>
        list_all complete_identity (processes q) \<and> distinct (map pmid (processes q)) \<and>
        (noop_verified q \<longrightarrow> processes q = []) \<and>
        (err = None \<longrightarrow> ok \<and> (processes q = [] \<longrightarrow> noop_verified q))"
    by blast
next
  fix q c s rc rerr s' ts
  assume "hp_recover (production_handoff_ports d) q c s = ((rc, rerr), s')"
    and ack: "acknowledged_recovery_targets q = Some ts"
  then obtain s0 s1 where run: "recover (production_quiescer (hd_unmarshal d) (hd_runner d)) q c s0 = ((rc, rerr), s1)"
    and lifted: "trace s0 = []" "trace s' = trace s @ map Command (trace s1)" "clock s \<le> clock s'"
    by (auto simp: production_handoff_ports_def Let_def elim: lift_cmd_run)
  from pq.recover_starts [OF run ack] lifted_changed [OF lifted]
  show "\<exists>ms. changed i s s' (map Command ms) \<and> starts (rev ts) (attempted rc) (recovered rc) ms (rerr = None) \<and>
        (verified rc \<longleftrightarrow> rerr = None)"
    by blast
next
  fix q c s rc rerr s'
  assume "hp_recover (production_handoff_ports d) q c s = ((rc, rerr), s')"
    and ack: "acknowledged_recovery_targets q = None"
  then obtain s0 s1 where run: "recover (production_quiescer (hd_unmarshal d) (hd_runner d)) q c s0 = ((rc, rerr), s1)"
    and lifted: "trace s0 = []" "trace s' = trace s @ map Command (trace s1)" "clock s \<le> clock s'"
    by (auto simp: production_handoff_ports_def Let_def elim: lift_cmd_run)
  from pq.recover_refused [OF run ack] lifted_changed [OF lifted, of "[]"]
  show "spares i s s'" by simp
qed (auto simp: production_handoff_ports_def Let_def
      dest: container_apply_disposal container_recover_restart)

end
