(* ===== verification/HandoffProperties.thy ===== *)
theory HandoffProperties
  imports HandoffSafety Pm2Properties
begin

text \<open>
  The properties of the handoff with the production wiring, and its run on a concrete host
  with one legacy process and one legacy container.
\<close>

section \<open>A concrete handoff\<close>

definition demo_codec :: codec where
  "demo_codec =
     \<lparr>sha256_hex = (\<lambda>data. ''00''), encode_manifest = (\<lambda>m. []),
      decode_manifest = (\<lambda>text. Some \<lparr>m_format = ''postgresql-custom'', m_validation = ''validated'',
        m_sha256 = ''00'', m_size = 1\<rparr>)\<rparr>"

definition demo_legacy_ref :: backup_ref where
  "demo_legacy_ref =
     \<lparr>dump_path = ''/opt/alice/backups/a.dump'', manifest_path = ''/opt/alice/backups/a.json'',
      sha256 = ''00'', backup_size = 1\<rparr>"

text \<open>File operations and Docker commands that take no time, apart from a \<open>docker stop\<close>.\<close>

definition demo_reply :: "file_op \<Rightarrow> os_reply" where
  "demo_reply fop =
     (case fop of
        Lstat p \<Rightarrow> OsInfo (let f = suffix ''.dump'' p \<or> suffix ''.json'' p in
          \<lparr>is_dir = \<not> f, is_regular = f, is_symlink = False, perm = 0x180, file_size = 1, owner = Some (0, 0), sticky = False\<rparr>)
      | ReadWhole p \<Rightarrow> OsData ''x'' | RandomToken \<Rightarrow> OsPath ''t'' | _ \<Rightarrow> OsDone)"

definition demo_files :: "nat os" where
  "demo_files fop c now w = (demo_reply fop, 0, w)"

definition demo_output :: "string list \<Rightarrow> string list" where
  "demo_output args =
     (if ''inspect'' \<in> set args then [''true'']
      else if ''run'' \<in> set args then [''; Archive'' @ [CHR 0x0A] @ ''10; TABLE''] else [])"

definition demo_docker :: "nat executor" where
  "demo_docker spec c now w =
     ((\<lparr>p_outcome = ProcessSucceeded, stderr_code = []\<rparr>, demo_output (p_args spec)),
      (if ''stop'' \<in> set (p_args spec) then 1 else 0), w)"

definition demo_handoff :: "nat handoff_dependencies" where
  "demo_handoff =
     \<lparr>hd_codec = demo_codec, hd_os = demo_files, hd_cwd = ''/'', hd_executor = demo_docker,
      hd_runner = demo_host, hd_unmarshal = demo_decode\<rparr>"

definition demo_container :: string where "demo_container = replicate 64 CHR ''a''"

definition demo_before :: "nat msys" where
  "demo_before =
     \<lparr>world = \<lparr>outside = 40, secrets = \<lparr>contents = (\<lambda>a. []), next_addr = 0\<rparr>\<rparr>, clock = 0, trace = []\<rparr>"

definition demo_lease :: lease where
  "demo_lease =
     \<lparr>l_owner = 1, l_quiescence = demo_stopped, l_container_id = demo_container,
      l_disposition = disposition_stop, l_pm2_only = False, l_consumed = False\<rparr>"

definition demo_ran :: "nat msys \<Rightarrow> process_spec \<Rightarrow> nat msys" where
  "demo_ran s spec = s\<lparr>clock := clock s + (if ''stop'' \<in> set (p_args spec) then 1 else 0),
     trace := trace s @ [Exec spec ProcessSucceeded]\<rparr>"

definition demo_saw :: "nat msys \<Rightarrow> file_op \<Rightarrow> nat msys" where
  "demo_saw s fop = s\<lparr>trace := trace s @ [FileOp fop True]\<rparr>"

lemma demo_os_call: "os_call demo_files fop s = (demo_reply fop, demo_saw s fop)"
  by (cases fop) (simp_all add: os_call_def call_def outer_def demo_files_def demo_reply_def demo_saw_def Let_def)

lemma demo_exec_call:
  "p_name spec = ''docker'' \<Longrightarrow> p_args spec \<noteq> [] \<Longrightarrow> exec_call (sudo_docker demo_docker) spec c s =
   ((\<lparr>p_outcome = ProcessSucceeded, stderr_code = []\<rparr>, demo_output ([''-n'', ''docker''] @ p_args spec)),
    demo_ran s spec)"
  by (simp add: exec_call_def call_def outer_def sudo_docker_def demo_docker_def demo_ran_def)

lemma demo_states [simp]:
  "clock (demo_saw s fop) = clock s" "world (demo_saw s fop) = world s" "world (demo_ran s spec) = world s"
  "''stop'' \<notin> set (p_args spec) \<Longrightarrow> clock (demo_ran s spec) = clock s"
  by (simp_all add: demo_saw_def demo_ran_def)

lemma demo_dump_info:
  "demo_reply (Lstat ''/opt/alice/backups/a.dump'') = OsInfo
     \<lparr>is_dir = False, is_regular = True, is_symlink = False, perm = 0x180, file_size = 1, owner = Some (0, 0), sticky = False\<rparr>"
  "demo_reply (Lstat ''/opt/alice/backups/a.json'') = OsInfo
     \<lparr>is_dir = False, is_regular = True, is_symlink = False, perm = 0x180, file_size = 1, owner = Some (0, 0), sticky = False\<rparr>"
  "demo_reply (Lstat ''/opt/alice/backups'') = OsInfo
     \<lparr>is_dir = True, is_regular = False, is_symlink = False, perm = 0x180, file_size = 1, owner = Some (0, 0), sticky = False\<rparr>"
  "demo_reply (ReadWhole p) = OsData ''x''" "demo_reply RandomToken = OsPath ''t''"
  by (simp_all add: demo_reply_def suffix_def)

lemma demo_paths:
  "path_abs ''/'' default_backup_root = ''/opt/alice/backups''"
  "path_abs ''/'' ''/opt/alice/backups/a.dump'' = ''/opt/alice/backups/a.dump''"
  "path_abs ''/'' ''/opt/alice/backups/a.json'' = ''/opt/alice/backups/a.json''"
  "path_rel ''/opt/alice/backups'' ''/opt/alice/backups/a.dump'' = Some ''a.dump''"
  "path_rel ''/opt/alice/backups'' ''/opt/alice/backups/a.json'' = Some ''a.json''"
  "path_join [''/opt/alice/backups'', ''a.dump''] = ''/opt/alice/backups/a.dump''"
  "path_join [''/opt/alice/backups'', ''a.json''] = ''/opt/alice/backups/a.json''"
  "split_char CHR ''/'' ''a.dump'' = [''a.dump'']" "split_char CHR ''/'' ''a.json'' = [''a.json'']"
  "path_clean ''/opt/alice/backups/a.dump'' = ''/opt/alice/backups/a.dump''"
  "is_abs ''/opt/alice/backups/a.dump''" "is_abs ''/opt/alice/backups/a.json''"
  by code_simp+

definition demo_validate_spec :: process_spec where
  "demo_validate_spec =
     validate_spec ''alice-pg11-validate-t'' ''/opt/alice/backups/a.dump'' 0 0 1800000000000"

lemma demo_listing:
  "listing_valid (bounded_output 65536 True (demo_output (''-n'' # ''docker'' # p_args demo_validate_spec)))"
  "''stop'' \<notin> set (p_args demo_validate_spec)" "p_name demo_validate_spec = ''docker''"
  "p_args demo_validate_spec \<noteq> []"
  by code_simp+

lemma demo_valid_files:
  "\<exists>s'. valid_restore_backup_in_root demo_codec demo_files ''/'' demo_legacy_ref default_backup_root s = (True, s') \<and>
     clock s' = clock s \<and> world s' = world s"
  by (simp add: valid_restore_backup_in_root_def safe_restore_file_in_root_def demo_legacy_ref_def demo_paths
      demo_os_call demo_dump_info Let_def valid_restore_backup_def safe_restore_file_def restore_hash_def
      demo_codec_def manifest_matches_def)

lemma demo_validate:
  "ctx_err c (clock s) = None \<Longrightarrow>
   \<exists>s'. archive_validate demo_files (Some (sudo_docker demo_docker)) 1800000000000
       ''/opt/alice/backups/a.dump'' c s = (True, s') \<and> clock s' = clock s \<and> world s' = world s"
  by (simp add: archive_validate_def staged_dump_owner_def safe_owned_staged_dump_def demo_paths demo_os_call
      demo_dump_info safe_dump_info_def owned_by_def Let_def demo_validate_spec_def [symmetric] demo_exec_call
      demo_listing cleanup_helper_def cleanup_spec_def)

lemma demo_revalidate:
  assumes "ctx_err c (clock s) = None"
  shows "\<exists>v s'. hp_revalidate (production_handoff_ports demo_handoff) demo_legacy_ref c s = (Some v, s') \<and>
     clock s' = clock s \<and> world s' = world s"
proof -
  from demo_valid_files [of s] obtain s1 where
    1: "valid_restore_backup_in_root demo_codec demo_files ''/'' demo_legacy_ref default_backup_root s = (True, s1)"
      "clock s1 = clock s" "world s1 = world s" by blast
  with demo_validate [of c s1] assms obtain s2 where
    2: "archive_validate demo_files (Some (sudo_docker demo_docker)) 1800000000000 (dump_path demo_legacy_ref) c s1 = (True, s2)"
      "clock s2 = clock s" "world s2 = world s" by (auto simp: demo_legacy_ref_def)
  from demo_valid_files [of s2] obtain s3 where
    3: "valid_restore_backup_in_root demo_codec demo_files ''/'' demo_legacy_ref default_backup_root s2 = (True, s3)"
      "clock s3 = clock s" "world s3 = world s" using 2 by auto
  with 1 2 assms show ?thesis
    by (simp add: production_handoff_ports_def Let_def demo_handoff_def gate_revalidate_def)
qed

text \<open>What \<open>Begin\<close> leads to on this host, in a context that ends when the container was stopped.\<close>

lemma demo_quiesce_until:
  "quiesce (production_quiescer demo_decode demo_host) (Some (16, Canceled)) (demo_start 40) =
   ((demo_stopped, None), demo_mid)"
  by code_simp

lemma demo_hp_quiesce:
  assumes "c = background \<or> c = Some (16, Canceled)" and "clock s = 0" and "outside (world s) = 40"
  shows "\<exists>s'. hp_quiesce (production_handoff_ports demo_handoff) c s = ((demo_stopped, None), s') \<and>
    clock s' = 15 \<and> outside (world s') = 0"
proof -
  have "quiesce (production_quiescer demo_decode demo_host) c (demo_start 40) = ((demo_stopped, None), demo_mid)"
    using assms(1) demo_quiesce_run demo_quiesce_until by auto
  then show ?thesis using assms(2,3)
    by (simp add: production_handoff_ports_def Let_def demo_handoff_def lift_cmd_def demo_start_def demo_mid_def)
qed

lemma demo_stop:
  "\<exists>s'. hp_apply (production_handoff_ports demo_handoff) demo_container disposition_stop c s =
      ((disposed disposition_stopped_code True, None), s') \<and> clock s' = Suc (clock s) \<and> world s' = world s \<and>
      grew s s' [docker_event [''stop'', demo_container] ProcessSucceeded]"
proof -
  have "full_container_id demo_container" by code_simp
  then show ?thesis
    by (simp add: production_handoff_ports_def Let_def demo_handoff_def container_apply_def docker_run_def
        demo_exec_call docker_spec_def disposition_stop_def disposition_remove_def demo_ran_def grew_def
        docker_event_def)
qed

lemma demo_complete: "complete_quiescence demo_stopped" "full_container_id demo_container"
  by code_simp+

lemma demo_begin_run:
  "\<exists>s'. handoff_begin (production_handoff demo_handoff) 1 demo_legacy_ref demo_container disposition_stop
     background demo_before = ((Some demo_lease, None), s') \<and> outside (world s') = 0 \<and> clock s' = 16"
proof -
  obtain v s1 where 1: "hp_revalidate (production_handoff_ports demo_handoff) demo_legacy_ref background demo_before = (Some v, s1)"
      "clock s1 = 0" "outside (world s1) = 40"
    using demo_revalidate [of background demo_before] by (auto simp: demo_before_def)
  obtain s2 where 2: "hp_quiesce (production_handoff_ports demo_handoff) background s1 = ((demo_stopped, None), s2)"
      "clock s2 = 15" "outside (world s2) = 0"
    using demo_hp_quiesce [of background s1] 1 by auto
  obtain s3 where 3: "hp_apply (production_handoff_ports demo_handoff) demo_container disposition_stop background s2 =
      ((disposed disposition_stopped_code True, None), s3)" "clock s3 = 16" "world s3 = world s2"
    using demo_stop [of background s2] 2 by auto
  show ?thesis
    using 1 2 3 demo_complete
    by (simp add: handoff_begin_def production_handoff_def demo_lease_def clone_quiescence_def
        disposition_stop_def disposition_remove_def)
qed

section \<open>The handoff\<close>

text \<open>
  C13. Whatever its outcome, \<open>Begin\<close> changes the legacy installation only in one of five
  ways: not at all; by stopping every correlated PM2 process, in order, and then disposing
  of the container, for a lease; or, without one, by the stops it made followed by a
  recovery that starts what it stopped in reverse order; a lease that can only be used for
  recovery is handed out exactly when such a recovery was not proven.
\<close>

theorem handoff_begin_outcomes:
  assumes "handoff_begin (production_handoff d) self b i disposition c s = (res, s')"
  shows "\<exists>es. changed i s s' es \<and> began self i disposition res es"
  by (rule production_handoff.begin_began [OF assms [unfolded production_handoff_def]])

theorem handoff_begin_outcomes_witness:
  "\<exists>s' es. changed demo_container demo_before s' es \<and>
     began 1 demo_container disposition_stop (Some demo_lease, None) es"
  using handoff_begin_outcomes demo_begin_run by blast

lemma began_lease_shape:
  assumes "began self i d (Some l, None) es"
  shows "l_owner l = self \<and> \<not> l_consumed l \<and> \<not> l_pm2_only l \<and> l_container_id l = i \<and> l_disposition l = d \<and>
    evidence (l_quiescence l) = map (evidence_of True) (processes (l_quiescence l)) \<and>
    list_all complete_identity (processes (l_quiescence l)) \<and> distinct (map pmid (processes (l_quiescence l))) \<and>
    stops (processes (l_quiescence l)) (evidence (l_quiescence l))
      (map (\<lambda>p. pm2_command ''stop'' p True) (processes (l_quiescence l))) True \<and>
    es = map (\<lambda>p. Command (pm2_command ''stop'' p True)) (processes (l_quiescence l)) @ disposal_events i d"
proof -
  obtain q ms where q: "stops (processes q) (evidence q) ms True" "list_all complete_identity (processes q)"
      "distinct (map pmid (processes q))"
    and l: "l = \<lparr>l_owner = self, l_quiescence = clone_quiescence q, l_container_id = i,
      l_disposition = d, l_pm2_only = False, l_consumed = False\<rparr>" "es = map Command ms @ disposal_events i d"
    using assms by (auto elim: began_leaseE)
  from stops_complete [OF q(1)] have "ms = map (\<lambda>p. pm2_command ''stop'' p True) (processes q)"
    and "evidence q = map (evidence_of True) (processes q)" by simp_all
  with q l show ?thesis by (simp add: clone_quiescence_def comp_def)
qed

text \<open>
  C14. The handoff can be undone: when the installation fails, \<open>CompleteFailure\<close> on the lease
  that \<open>Begin\<close> handed out, in any later state, starts the container again (unless it was
  removed) and then every PM2 process \<open>Begin\<close> stopped, in reverse order, and nothing else,
  if it reports no error.
\<close>

theorem handoff_failure_undoes:
  assumes "handoff_begin (production_handoff d) self b i disposition c s = ((Some l, None), s1)"
    and "complete_failure (production_handoff d) (Some self) (Some l) s2 = (((rc, None), l'), s3)"
  shows "changed i s s1 (map (\<lambda>p. Command (pm2_command ''stop'' p True)) (processes (l_quiescence l)) @
      disposal_events i disposition) \<and>
    changed i s2 s3 (restart_events i disposition ProcessSucceeded @
      map (\<lambda>p. Command (pm2_command ''start'' p True)) (rev (processes (l_quiescence l))))"
proof -
  from production_handoff.begin_began [OF assms(1) [unfolded production_handoff_def]] obtain es where
    es: "changed i s s1 es" "began self i disposition (Some l, None) es"
    by blast
  note shape = began_lease_shape [OF es(2)]
  have mine: "l_owner l = self" "\<not> l_consumed l" "l_container_id l = i \<or> l_pm2_only l"
    "stops (processes (l_quiescence l)) (evidence (l_quiescence l))
      (map (\<lambda>p. pm2_command ''stop'' p True) (processes (l_quiescence l))) True"
    "list_all complete_identity (processes (l_quiescence l))" "distinct (map pmid (processes (l_quiescence l)))"
    using shape by blast+
  have kind: "\<not> l_pm2_only l" "l_disposition l = disposition" using shape by simp_all
  from production_handoff.complete_failure_runs [OF assms(2) [unfolded production_handoff_def] mine]
  obtain rs ss a n ok' where
    "changed i s2 s3 (rs @ map Command ss)" "ok' \<and> rs = restart_events i (l_disposition l) ProcessSucceeded"
    "starts (rev (take (length (evidence (l_quiescence l))) (processes (l_quiescence l)))) a n ss ok'"
    unfolding if_not_P [OF kind(1)] by blast
  then have ss: "changed i s2 s3 (restart_events i disposition ProcessSucceeded @ map Command ss)"
    "starts (rev (take (length (evidence (l_quiescence l))) (processes (l_quiescence l)))) a n ss True"
    using kind(2) by simp_all
  have "length (evidence (l_quiescence l)) = length (processes (l_quiescence l))"
    using shape by simp
  with starts_complete [OF ss(2)] have "ss = map (\<lambda>p. pm2_command ''start'' p True) (rev (processes (l_quiescence l)))"
    by simp
  with ss(1) es(1) shape show ?thesis by (simp add: comp_def)
qed

lemma demo_recover_again:
  "fst (recover (production_quiescer demo_decode demo_host) demo_stopped (Some (10000000016, DeadlineExceeded))
     \<lparr>world = 0, clock = 16, trace = []\<rparr>) = (demo_recovery, None)"
  by code_simp

lemma demo_restart:
  "\<exists>s'. hp_container_recover (production_handoff_ports demo_handoff) demo_container disposition_stop c s =
      ((disposed disposition_restarted_code True, None), s') \<and> clock s' = clock s \<and> world s' = world s"
proof -
  have "trim_space ''true'' = ''true''" "''stop'' \<noteq> demo_container" by code_simp+
  then show ?thesis
    using demo_complete(2)
    by (simp add: production_handoff_ports_def Let_def demo_handoff_def container_recover_def docker_run_def
        demo_exec_call docker_spec_def inspect_running_spec_def disposition_stop_def disposition_remove_def
        demo_output_def)
qed

lemma demo_failure_run:
  assumes "outside (world s) = 0" and "clock s = 16"
  shows "\<exists>s' rc l'. complete_failure (production_handoff demo_handoff) (Some 1) (Some demo_lease) s =
    (((rc, None), l'), s')"
proof -
  obtain s1 where 1: "hp_container_recover (production_handoff_ports demo_handoff) demo_container disposition_stop
      (Some (10000000016, DeadlineExceeded)) s = ((disposed disposition_restarted_code True, None), s1)"
      "clock s1 = 16" "outside (world s1) = 0"
    using demo_restart assms by metis
  have ctx: "handoff_recovery_context (production_handoff demo_handoff) 16 = Some (10000000016, DeadlineExceeded)"
    by (simp add: handoff_recovery_context_def production_handoff_def with_timeout_def with_timeout_at_def second_def)
  have "\<exists>s2. hp_recover (production_handoff_ports demo_handoff) demo_stopped (Some (10000000016, DeadlineExceeded)) s1 =
      ((demo_recovery, None), s2)"
  proof -
    obtain s2 where "recover (production_quiescer demo_decode demo_host) demo_stopped (Some (10000000016, DeadlineExceeded))
        \<lparr>world = 0, clock = 16, trace = []\<rparr> = ((demo_recovery, None), s2)"
      using demo_recover_again by (metis prod.collapse)
    with 1 show ?thesis
      by (simp add: production_handoff_ports_def Let_def demo_handoff_def lift_cmd_def)
  qed
  with 1 ctx assms show ?thesis
    by (auto simp: complete_failure_def consume_lease_def demo_lease_def handoff_recover_def
        production_handoff_def [of demo_handoff])
qed

theorem handoff_failure_undoes_witness:
  "\<exists>s1 s3. changed demo_container demo_before s1
      [Command (pm2_command ''stop'' demo_identity True), docker_event [''stop'', demo_container] ProcessSucceeded] \<and>
    changed demo_container s1 s3
      [docker_event [''start'', demo_container] ProcessSucceeded, Command (pm2_command ''start'' demo_identity True)]"
proof -
  obtain s1 where 1: "handoff_begin (production_handoff demo_handoff) 1 demo_legacy_ref demo_container
      disposition_stop background demo_before = ((Some demo_lease, None), s1)"
      "outside (world s1) = 0" "clock s1 = 16"
    using demo_begin_run by blast
  from demo_failure_run [OF 1(2,3)] obtain s3 rc l' where
    "complete_failure (production_handoff demo_handoff) (Some 1) (Some demo_lease) s1 = (((rc, None), l'), s3)"
    by blast
  from handoff_failure_undoes [OF 1(1) this] show ?thesis
    by (auto simp: demo_lease_def demo_stopped_def disposal_events_def restart_events_def
        disposition_stop_def disposition_remove_def)
qed

text \<open>
  C15. A lease works once: whoever completes it first, a second completion does nothing and
  reports no error, and a lease of another coordinator is refused without effect.
\<close>

theorem lease_completes_once:
  assumes "consume_lease self l = (r, l1)"
  shows "complete_failure h self l1 s = (((no_recovery,
      if (case (self, l) of (Some me, Some l') \<Rightarrow> l_owner l' = me | _ \<Rightarrow> False) then None
      else Some (CompletionLease LeaseInvalid)), l1), s) \<and>
    (complete_success self l1 = (None, l1) \<longleftrightarrow>
      (case (self, l) of (Some me, Some l') \<Rightarrow> l_owner l' = me | _ \<Rightarrow> False))"
proof (cases "self = None \<or> l = None \<or> l_owner (the l) \<noteq> the self")
  case True
  with assms have "l1 = l" by (auto simp: consume_lease_def split: option.splits)
  with True show ?thesis
    by (auto simp: complete_failure_def complete_success_def consume_lease_def split: option.splits)
next
  case False
  then obtain me l' where l: "self = Some me" "l = Some l'" "l_owner l' = me" by auto
  with assms obtain l'' where "l1 = Some l''" "l_owner l'' = me" "l_consumed l''"
    by (auto simp: consume_lease_def split: if_splits)
  with l show ?thesis
    by (cases "h_ports h") (simp_all add: complete_failure_def complete_success_def consume_lease_def)
qed

theorem lease_completes_once_witness:
  "complete_failure (production_handoff demo_handoff) (Some 1) (Some (demo_lease\<lparr>l_consumed := True\<rparr>)) demo_before =
     (((no_recovery, None), Some (demo_lease\<lparr>l_consumed := True\<rparr>)), demo_before)"
proof -
  have "consume_lease (Some 1) (Some demo_lease) = (Inr (demo_stopped, True), Some (demo_lease\<lparr>l_consumed := True\<rparr>))"
    by (simp add: consume_lease_def demo_lease_def clone_quiescence_def demo_stopped_def)
  from lease_completes_once [OF this, of "production_handoff demo_handoff" demo_before] show ?thesis
    by (simp add: demo_lease_def)
qed

lemma stop_disposal_no_start:
  "disposal i disposition_stop res es \<Longrightarrow> \<forall>r. docker_event [''start'', i] r \<notin> set es"
  unfolding disposal_def disposal_events_def
  by (cases "snd res") (auto simp: docker_event_def docker_spec_def disposition_stop_def disposition_remove_def)

text \<open>
  C16. With the disposition to stop, a \<open>Begin\<close> that hands out no lease never starts the
  container again, not even when the stop succeeded and only the caller's context ended
  meanwhile: the witness is a cancelled handoff that leaves the container stopped.
\<close>

theorem cancelled_stop_stays_stopped:
  assumes "handoff_begin (production_handoff d) self b i disposition_stop c s = ((None, e), s')"
  shows "\<exists>es. grew s s' es \<and> (\<forall>r. docker_event [''start'', i] r \<notin> set es)"
proof -
  from production_handoff.begin_began [OF assms [unfolded production_handoff_def]] obtain ms where
    ms: "changed i s s' ms" "began self i disposition_stop (None, e) ms" by blast
  have "docker_event [''start'', i] r \<notin> set ms" for r
    using ms(2) by (rule began_NoneE) (auto dest!: stop_disposal_no_start)
  moreover from ms(1) obtain es where es: "grew s s' es" "filter (legacy_change i) es = ms"
    unfolding changed_def by (elim exE conjE)
  moreover have "docker_event [''start'', i] r \<in> set es \<Longrightarrow> docker_event [''start'', i] r \<in> set ms" for r
    by (simp add: es(2) [symmetric] docker_event_def docker_spec_def legacy_argvs_def)
  ultimately show ?thesis by blast
qed

theorem cancelled_stop_stays_stopped_witness:
  "\<exists>s' es. handoff_begin (production_handoff demo_handoff) 1 demo_legacy_ref demo_container disposition_stop
      (Some (16, Canceled)) demo_before = ((None, Some ContainerFailed), s') \<and>
    grew demo_before s' es \<and> docker_event [''stop'', demo_container] ProcessSucceeded \<in> set es \<and>
    (\<forall>r. docker_event [''start'', demo_container] r \<notin> set es)"
proof -
  let ?c = "Some (16, Canceled)"
  obtain v s1 where 1: "hp_revalidate (production_handoff_ports demo_handoff) demo_legacy_ref ?c demo_before = (Some v, s1)"
      "clock s1 = 0" "outside (world s1) = 40"
    using demo_revalidate [of ?c demo_before] by (auto simp: demo_before_def ctx_err_def)
  obtain s2 where 2: "hp_quiesce (production_handoff_ports demo_handoff) ?c s1 = ((demo_stopped, None), s2)"
      "clock s2 = 15" "outside (world s2) = 0"
    using demo_hp_quiesce [of ?c s1] 1 by auto
  obtain s3 where 3: "hp_apply (production_handoff_ports demo_handoff) demo_container disposition_stop ?c s2 =
      ((disposed disposition_stopped_code True, None), s3)" "clock s3 = 16" "world s3 = world s2"
      "grew s2 s3 [docker_event [''stop'', demo_container] ProcessSucceeded]"
    using demo_stop [of ?c s2] 2 by auto
  obtain s4 rc rerr where 4: "handoff_recover (production_handoff demo_handoff) (production_handoff_ports demo_handoff)
      demo_stopped s3 = ((rc, rerr), s4)" by (metis surj_pair)
  have run: "handoff_begin (production_handoff demo_handoff) 1 demo_legacy_ref demo_container disposition_stop
      ?c demo_before = ((None, Some ContainerFailed), s4)"
    using 1 2 3 4 demo_complete
    by (simp add: handoff_begin_def begin_undisposed_def production_handoff_def
        disposition_stop_def disposition_remove_def ctx_err_def demo_before_def)
  from cancelled_stop_stays_stopped [OF run] obtain es where
    es: "grew demo_before s4 es" "\<forall>r. docker_event [''start'', demo_container] r \<notin> set es" by blast
  obtain x1 where x1: "grew demo_before s1 x1"
    using production_handoff.revalidate_spares [OF 1(1), of demo_container] unfolding changed_def by blast
  obtain x2 where x2: "grew s1 s2 x2"
    using production_handoff.quiesce_runs [OF 2(1), of demo_container] unfolding changed_def by blast
  note rec = 4 [unfolded handoff_recover_def]
  have "\<exists>ms. changed demo_container s3 s4 ms"
  proof (cases "acknowledged_recovery_targets demo_stopped")
    case None
    from production_handoff.recover_idle [where i = demo_container, OF rec this] show ?thesis by blast
  next
    case (Some ts)
    from production_handoff.recover_runs [where i = demo_container, OF rec this] show ?thesis by blast
  qed
  then obtain x3 where x3: "grew s3 s4 x3" unfolding changed_def by (elim exE conjE)
  have "es = (x1 @ x2) @ [docker_event [''stop'', demo_container] ProcessSucceeded] @ x3"
    using grew_unique [OF es(1) grew_trans [OF grew_trans [OF x1 x2] grew_trans [OF 3(4) x3]]] .
  with run es show ?thesis by (intro exI [of _ s4] exI [of _ es]) simp
qed

end
