(* ===== verification/ConfigParser.thy ===== *)
theory ConfigParser
  imports Prelude
begin

text \<open>
  \<open>internal/migration/config_parser.go\<close>: the lexer and the recursive descent parser of the
  static subset of JavaScript that a legacy \<open>config.js\<close> may use.  The position in the
  source, and in the token list, is the rest of it.  The nested loops of the parser
  take fuel; twice the number of tokens is enough (\<open>ConfigSyntax\<close>).
\<close>

section \<open>Tokens\<close>

datatype token_kind =
    TokenEOF | TokenIdentifier | TokenString | TokenNumber | TokenPunct | TokenOr | TokenNullish

datatype token = Token (tok_kind: token_kind) (tok_text: string)

definition is_identifier_start :: "char \<Rightarrow> bool" where
  "is_identifier_start c \<longleftrightarrow>
     (let n = (of_char c :: nat) in
      c = CHR ''_'' \<or> c = CHR ''$'' \<or> (97 \<le> n \<and> n \<le> 122) \<or> (65 \<le> n \<and> n \<le> 90))"

definition is_identifier_part :: "char \<Rightarrow> bool" where
  "is_identifier_part c \<longleftrightarrow> is_identifier_start c \<or> is_digit c"

definition puncts :: string where "puncts = ''{}[]:,.=;''"

abbreviation backslash :: char where "backslash \<equiv> CHR 0x5C"
abbreviation newline :: char where "newline \<equiv> CHR 0x0A"

text \<open>After \<open>/*\<close>: what follows the next \<open>*/\<close>.\<close>

fun skip_block :: "string \<Rightarrow> string option" where
  "skip_block (a # b # cs) = (if a = CHR ''*'' \<and> b = CHR ''/'' then Some cs else skip_block (b # cs))"
| "skip_block _ = None"

definition unescape :: "char \<Rightarrow> char \<Rightarrow> char option" where
  "unescape quote c =
     (if c = CHR ''n'' then Some newline else if c = CHR ''r'' then Some CHR 0x0D
      else if c = CHR ''t'' then Some CHR 0x09
      else if c = backslash \<or> c = quote then Some c else None)"

text \<open>After the opening quote: the contents and what follows the closing quote.\<close>

fun lex_string :: "char \<Rightarrow> string \<Rightarrow> (string \<times> string) option" where
  "lex_string quote [] = None"
| "lex_string quote (c # cs) =
     (if c = quote then Some ([], cs)
      else if c = backslash then
        (case cs of
           [] \<Rightarrow> None
         | d # ds \<Rightarrow>
             (case unescape quote d of
                None \<Rightarrow> None
              | Some e \<Rightarrow> map_option (\<lambda>(body, rest). (e # body, rest)) (lex_string quote ds)))
      else map_option (\<lambda>(body, rest). (c # body, rest)) (lex_string quote cs))"

lemma skip_block_shorter: "skip_block s = Some r \<Longrightarrow> length r < length s"
  by (induction s rule: skip_block.induct) (auto split: if_splits)

lemma lex_string_shorter: "lex_string q s = Some (body, r) \<Longrightarrow> length r < length s"
  by (induction q s arbitrary: body r rule: lex_string.induct)
     (fastforce split: if_splits list.splits option.splits)+

definition two :: "string \<Rightarrow> char \<Rightarrow> bool" where
  "two s c = (case s of a # b # _ \<Rightarrow> a = c \<and> b = c | _ \<Rightarrow> False)"

function lex :: "string \<Rightarrow> token list option" where
  "lex [] = Some [Token TokenEOF []]"
| "lex (c # cs) =
     (if is_latin1_space c then lex cs
      else if c = CHR ''/'' \<and> (case cs of d # _ \<Rightarrow> d = CHR ''/'' | [] \<Rightarrow> False)
      then lex (dropWhile (\<lambda>d. d \<noteq> newline) (tl cs))
      else if c = CHR ''/'' \<and> (case cs of d # _ \<Rightarrow> d = CHR ''*'' | [] \<Rightarrow> False)
      then (case skip_block (tl cs) of None \<Rightarrow> None | Some rest \<Rightarrow> lex rest)
      else if is_identifier_start c
      then map_option ((#) (Token TokenIdentifier (c # takeWhile is_identifier_part cs)))
             (lex (dropWhile is_identifier_part cs))
      else if is_digit c
      then map_option ((#) (Token TokenNumber (c # takeWhile is_digit cs))) (lex (dropWhile is_digit cs))
      else if c = CHR 0x27 \<or> c = CHR 0x22
      then (case lex_string c cs of
              None \<Rightarrow> None
            | Some (body, rest) \<Rightarrow> map_option ((#) (Token TokenString body)) (lex rest))
      else if two (c # cs) CHR ''|'' then map_option ((#) (Token TokenOr ''||'')) (lex (tl cs))
      else if two (c # cs) CHR ''?'' then map_option ((#) (Token TokenNullish ''??'')) (lex (tl cs))
      else if c \<in> set puncts then map_option ((#) (Token TokenPunct [c])) (lex cs)
      else None)"
  by pat_completeness auto
termination
proof (relation "measure length", goal_cases)
  case (3 c cs)
  have "length (dropWhile P (tl cs)) \<le> length cs" for P
    using length_dropWhile_le [of P "tl cs"] by simp
  then show ?case by (simp add: le_imp_less_Suc)
next
  case (4 c cs rest)
  then show ?case using skip_block_shorter [of "tl cs" rest] by simp
next
  case (5 c cs)
  then show ?case using length_dropWhile_le [of _ cs] by (simp add: le_imp_less_Suc)
next
  case (6 c cs)
  then show ?case using length_dropWhile_le [of _ cs] by (simp add: le_imp_less_Suc)
next
  case (7 c cs x word rest)
  then show ?case using lex_string_shorter [of c cs word rest] by simp
qed auto

declare lex.simps [simp del]

section \<open>Values\<close>

datatype value_kind = ValueLiteral | ValueEnvironment

datatype config_value =
  ConfigValue (cv_kind: value_kind) (cv_text: string) (cv_number: int) (cv_env: string)
    (cv_fallback: "config_value option")

text \<open>The fields that were read, the latest first; no key occurs twice.\<close>

type_synonym config_object = "(string \<times> config_value) list"

text \<open>The outcome of a parser: what it returns, the one error, or no fuel left.\<close>

datatype 'a outcome = Parsed 'a | ConfigInvalid | OutOfFuel

definition outcome_of :: "'a option \<Rightarrow> 'a outcome" where
  "outcome_of x = (case x of None \<Rightarrow> ConfigInvalid | Some v \<Rightarrow> Parsed v)"

fun and_then :: "'a outcome \<Rightarrow> ('a \<Rightarrow> 'b outcome) \<Rightarrow> 'b outcome" where
  "and_then (Parsed v) f = f v"
| "and_then ConfigInvalid f = ConfigInvalid"
| "and_then OutOfFuel f = OutOfFuel"

section \<open>The parser\<close>

type_synonym tokens = "token list"

definition current :: "tokens \<Rightarrow> token" where
  "current ts = (case ts of [] \<Rightarrow> Token TokenEOF [] | t # _ \<Rightarrow> t)"

definition take_token :: "token_kind \<Rightarrow> string \<Rightarrow> tokens \<Rightarrow> tokens option" where
  "take_token k want ts = (if current ts = Token k want then Some (tl ts) else None)"

definition take_identifier :: "string \<Rightarrow> tokens \<Rightarrow> tokens option" where
  "take_identifier = take_token TokenIdentifier"

definition take_punct :: "string \<Rightarrow> tokens \<Rightarrow> tokens option" where
  "take_punct = take_token TokenPunct"

definition parse_key :: "tokens \<Rightarrow> (string \<times> tokens) option" where
  "parse_key ts =
     (if tok_kind (current ts) = TokenIdentifier \<or> tok_kind (current ts) = TokenString
      then Some (tok_text (current ts), tl ts) else None)"

definition text_value :: "string \<Rightarrow> config_value" where
  "text_value text = ConfigValue ValueLiteral text 0 [] None"

definition number_value :: "int \<Rightarrow> config_value" where
  "number_value n = ConfigValue ValueLiteral [] n [] None"

definition value_literal :: "tokens \<Rightarrow> (config_value \<times> tokens) option" where
  "value_literal ts =
     (let t = current ts in
      if tok_kind t = TokenString then Some (text_value (tok_text t), tl ts)
      else if tok_kind t = TokenNumber
      then (case atoi_ok (tok_text t) of None \<Rightarrow> None | Some n \<Rightarrow> Some (number_value n, tl ts))
      else None)"

definition take_process_env :: "tokens \<Rightarrow> tokens option" where
  "take_process_env ts =
     Option.bind (take_identifier ''process'' ts) (\<lambda>ts1.
     Option.bind (take_punct ''.'' ts1) (\<lambda>ts2.
     Option.bind (take_identifier ''env'' ts2) (take_punct ''.'')))"

definition parse_value :: "tokens \<Rightarrow> (config_value \<times> tokens) option" where
  "parse_value ts =
     (let t = current ts in
      if tok_kind t = TokenString \<or> tok_kind t = TokenNumber then value_literal ts
      else (case take_process_env ts of
        None \<Rightarrow> None
      | Some ts1 \<Rightarrow>
          if tok_kind (current ts1) \<noteq> TokenIdentifier then None
          else (let name = tok_text (current ts1); ts2 = tl ts1 in
            if tok_kind (current ts2) \<noteq> TokenOr \<and> tok_kind (current ts2) \<noteq> TokenNullish then None
            else (case value_literal (tl ts2) of
              None \<Rightarrow> None
            | Some (fallback, ts3) \<Rightarrow>
                Some (ConfigValue ValueEnvironment [] 0 name (Some fallback), ts3)))))"

text \<open>
  \<open>skipStaticValue\<close>: the static values the parser reads over.  The loops over the members
  of an object and the elements of an array are functions of their own.
\<close>

definition is_constant :: "token \<Rightarrow> bool" where
  "is_constant t \<longleftrightarrow>
     tok_kind t = TokenString \<or> tok_kind t = TokenNumber \<or>
     tok_kind t = TokenIdentifier \<and> tok_text t \<in> {''true'', ''false'', ''null''}"

fun skip_static :: "nat \<Rightarrow> tokens \<Rightarrow> tokens outcome"
  and skip_members :: "nat \<Rightarrow> string set \<Rightarrow> tokens \<Rightarrow> tokens outcome"
  and skip_elements :: "nat \<Rightarrow> tokens \<Rightarrow> tokens outcome" where
  "skip_static 0 ts = OutOfFuel"
| "skip_static (Suc n) ts =
     (if is_constant (current ts) then Parsed (tl ts)
      else if current ts = Token TokenIdentifier ''process''
      then outcome_of (map_option snd (parse_value ts))
      else (case take_punct ''{'' ts of
        Some ts1 \<Rightarrow> skip_members n {} ts1
      | None \<Rightarrow>
          (case take_punct ''['' ts of
             Some ts1 \<Rightarrow> skip_elements n ts1
           | None \<Rightarrow> ConfigInvalid)))"
| "skip_members 0 seen ts = OutOfFuel"
| "skip_members (Suc n) seen ts =
     (case take_punct ''}'' ts of
        Some ts1 \<Rightarrow> Parsed ts1
      | None \<Rightarrow>
          (case parse_key ts of
             None \<Rightarrow> ConfigInvalid
           | Some (key, ts1) \<Rightarrow>
               if key \<in> seen then ConfigInvalid
               else (case take_punct '':'' ts1 of
                  None \<Rightarrow> ConfigInvalid
                | Some ts2 \<Rightarrow>
                    and_then (skip_static n ts2) (\<lambda>ts3.
                      (case take_punct ''}'' ts3 of
                         Some ts4 \<Rightarrow> Parsed ts4
                       | None \<Rightarrow>
                           (case take_punct '','' ts3 of
                              None \<Rightarrow> ConfigInvalid
                            | Some ts4 \<Rightarrow> skip_members n (insert key seen) ts4))))))"
| "skip_elements 0 ts = OutOfFuel"
| "skip_elements (Suc n) ts =
     (case take_punct '']'' ts of
        Some ts1 \<Rightarrow> Parsed ts1
      | None \<Rightarrow>
          and_then (skip_static n ts) (\<lambda>ts1.
            (case take_punct '']'' ts1 of
               Some ts2 \<Rightarrow> Parsed ts2
             | None \<Rightarrow>
                 (case take_punct '','' ts1 of
                    None \<Rightarrow> ConfigInvalid
                  | Some ts2 \<Rightarrow> skip_elements n ts2))))"

definition is_required_field :: "string \<Rightarrow> bool" where
  "is_required_field name \<longleftrightarrow>
     name \<in> set [''dialect'', ''database'', ''username'', ''password'', ''host'', ''port'']"

text \<open>
  \<open>fields\<close>: the loop over the members of the selected object.  Only the required fields
  are kept, so only their duplicates are refused.
\<close>

definition parse_field :: "nat \<Rightarrow> config_object \<Rightarrow> string \<Rightarrow> tokens \<Rightarrow> (config_object \<times> tokens) outcome" where
  "parse_field n result key ts =
     (if is_required_field key
      then outcome_of (map_option (\<lambda>(v, ts1). ((key, v) # result, ts1)) (parse_value ts))
      else and_then (skip_static n ts) (\<lambda>ts1. Parsed (result, ts1)))"

fun parse_fields :: "nat \<Rightarrow> config_object \<Rightarrow> tokens \<Rightarrow> (config_object \<times> tokens) outcome" where
  "parse_fields 0 result ts = OutOfFuel"
| "parse_fields (Suc n) result ts =
     (case take_punct ''}'' ts of
        Some ts1 \<Rightarrow> Parsed (result, ts1)
      | None \<Rightarrow>
          (case parse_key ts of
             None \<Rightarrow> ConfigInvalid
           | Some (key, ts1) \<Rightarrow>
               (case take_punct '':'' ts1 of
                  None \<Rightarrow> ConfigInvalid
                | Some ts2 \<Rightarrow>
                    if map_of result key \<noteq> None then ConfigInvalid
                    else and_then (parse_field n result key ts2)
                      (\<lambda>(result1, ts3).
                        (case take_punct ''}'' ts3 of
                           Some ts4 \<Rightarrow> Parsed (result1, ts4)
                         | None \<Rightarrow>
                             (case take_punct '','' ts3 of
                                None \<Rightarrow> ConfigInvalid
                              | Some ts4 \<Rightarrow> parse_fields n result1 ts4))))))"

definition parse_fields_object :: "nat \<Rightarrow> tokens \<Rightarrow> (config_object \<times> tokens) outcome" where
  "parse_fields_object n ts =
     (case take_punct ''{'' ts of None \<Rightarrow> ConfigInvalid | Some ts1 \<Rightarrow> parse_fields n [] ts1)"

text \<open>\<open>object\<close>: the loop over the environments, with the fields of the selected one.\<close>

definition parse_environment ::
  "nat \<Rightarrow> string \<Rightarrow> config_object option \<Rightarrow> string \<Rightarrow> tokens \<Rightarrow> (config_object option \<times> tokens) outcome" where
  "parse_environment n selected found key ts =
     (if key = selected
      then and_then (parse_fields_object n ts) (\<lambda>(fields, ts1). Parsed (Some fields, ts1))
      else and_then (skip_static n ts) (\<lambda>ts1. Parsed (found, ts1)))"

fun parse_environments ::
  "nat \<Rightarrow> string \<Rightarrow> string set \<Rightarrow> config_object option \<Rightarrow> tokens \<Rightarrow>
   (config_object option \<times> tokens) outcome" where
  "parse_environments 0 selected seen found ts = OutOfFuel"
| "parse_environments (Suc n) selected seen found ts =
     (case take_punct ''}'' ts of
        Some ts1 \<Rightarrow> Parsed (found, ts1)
      | None \<Rightarrow>
          (case parse_key ts of
             None \<Rightarrow> ConfigInvalid
           | Some (key, ts1) \<Rightarrow>
               (case take_punct '':'' ts1 of
                  None \<Rightarrow> ConfigInvalid
                | Some ts2 \<Rightarrow>
                    if key \<in> seen then ConfigInvalid
                    else and_then (parse_environment n selected found key ts2)
                      (\<lambda>(found1, ts3).
                        (case take_punct ''}'' ts3 of
                           Some ts4 \<Rightarrow> Parsed (found1, ts4)
                         | None \<Rightarrow>
                             (case take_punct '','' ts3 of
                                None \<Rightarrow> ConfigInvalid
                              | Some ts4 \<Rightarrow> parse_environments n selected (insert key seen) found1 ts4))))))"

definition parse_object :: "nat \<Rightarrow> string \<Rightarrow> tokens \<Rightarrow> (config_object option \<times> tokens) outcome" where
  "parse_object n selected ts =
     (case take_punct ''{'' ts of
        None \<Rightarrow> ConfigInvalid | Some ts1 \<Rightarrow> parse_environments n selected {} None ts1)"

definition take_module_exports :: "tokens \<Rightarrow> tokens option" where
  "take_module_exports ts =
     Option.bind (take_identifier ''module'' ts) (\<lambda>ts1.
     Option.bind (take_punct ''.'' ts1) (\<lambda>ts2.
     Option.bind (take_identifier ''exports'' ts2) (take_punct ''='')))"

definition parse_module :: "nat \<Rightarrow> string \<Rightarrow> tokens \<Rightarrow> config_object outcome" where
  "parse_module n selected ts =
     (case take_module_exports ts of
        None \<Rightarrow> ConfigInvalid
      | Some ts1 \<Rightarrow>
          and_then (parse_object n selected ts1) (\<lambda>(fields, ts2).
            (case take_punct '';'' ts2 of
               None \<Rightarrow> ConfigInvalid
             | Some ts3 \<Rightarrow>
                 if tok_kind (current ts3) \<noteq> TokenEOF then ConfigInvalid else outcome_of fields)))"

definition parser_fuel :: "tokens \<Rightarrow> nat" where
  "parser_fuel ts = 2 * length ts + 2"

definition parse_config :: "string \<Rightarrow> string \<Rightarrow> config_object outcome" where
  "parse_config source selected =
     (case lex source of
        None \<Rightarrow> ConfigInvalid
      | Some ts \<Rightarrow> parse_module (parser_fuel ts) selected ts)"

end
