(* ===== verification/ConfigRender.thy ===== *)
theory ConfigRender
  imports ConfigSyntax
begin

text \<open>
  Rendering: tokens as text, and configurations as tokens.  The lexer reads back what was
  rendered, and the parser returns the fields of the selected environment.
\<close>

section \<open>Tokens as text\<close>

definition escape_char :: "char \<Rightarrow> string" where
  "escape_char c =
     (if c = backslash \<or> c = CHR 0x22 then [backslash, c]
      else if c = newline then [backslash, CHR ''n''] else [c])"

definition render_token :: "token \<Rightarrow> string" where
  "render_token t =
     (if tok_kind t = TokenString then CHR 0x22 # concat (map escape_char (tok_text t)) @ [CHR 0x22]
      else tok_text t)"

definition valid_token :: "token \<Rightarrow> bool" where
  "valid_token t \<longleftrightarrow>
     (case tok_kind t of
        TokenEOF \<Rightarrow> False
      | TokenIdentifier \<Rightarrow>
          (case tok_text t of [] \<Rightarrow> False | c # cs \<Rightarrow> is_identifier_start c \<and> list_all is_identifier_part cs)
      | TokenString \<Rightarrow> True
      | TokenNumber \<Rightarrow> tok_text t \<noteq> [] \<and> list_all is_digit (tok_text t)
      | TokenPunct \<Rightarrow> (\<exists>c \<in> set puncts. tok_text t = [c])
      | TokenOr \<Rightarrow> tok_text t = ''||''
      | TokenNullish \<Rightarrow> tok_text t = ''??'')"

fun render :: "tokens \<Rightarrow> string" where
  "render [] = []"
| "render (t # ts) = render_token t @ '' '' @ render ts"

lemma char_classes:
  "is_identifier_start c \<Longrightarrow> \<not> is_latin1_space c \<and> c \<noteq> CHR ''/''"
  "is_digit c \<Longrightarrow> \<not> is_latin1_space c \<and> c \<noteq> CHR ''/'' \<and> \<not> is_identifier_start c"
  "c \<in> set puncts \<Longrightarrow> \<not> is_latin1_space c \<and> c \<noteq> CHR ''/'' \<and> \<not> is_identifier_start c \<and> \<not> is_digit c \<and>
     c \<noteq> CHR 0x27 \<and> c \<noteq> CHR 0x22 \<and> c \<noteq> CHR ''|'' \<and> c \<noteq> CHR ''?''"
  "is_latin1_space CHR '' ''" "\<not> is_identifier_part CHR '' ''" "\<not> is_digit CHR '' ''"
  by (auto simp: is_identifier_start_def is_identifier_part_def is_digit_def is_latin1_space_def puncts_def Let_def)

lemma lex_space: "lex (CHR '' '' # s) = lex s"
  by (subst lex.simps) (simp add: char_classes)

lemma lex_string_escaped:
  "lex_string CHR 0x22 (concat (map escape_char w) @ CHR 0x22 # s) = Some (w, s)"
  by (induction w) (auto simp: escape_char_def unescape_def)

lemma takeWhile_dropWhile_space:
  assumes "list_all P w" and "\<not> P CHR '' ''"
  shows "takeWhile P (w @ CHR '' '' # s) = w" "dropWhile P (w @ CHR '' '' # s) = CHR '' '' # s"
  using assms by (induction w) auto

lemma lex_token:
  assumes "valid_token t"
  shows "lex (render_token t @ '' '' @ s) = map_option ((#) t) (lex s)"
proof (cases t)
  case (Token k w)
  show ?thesis
  proof (cases k)
    case TokenIdentifier
    with assms Token obtain c cs where w: "w = c # cs" "is_identifier_start c" "list_all is_identifier_part cs"
      by (auto simp: valid_token_def split: list.splits)
    then show ?thesis using Token TokenIdentifier
      by (simp add: render_token_def lex.simps(2) [of c] char_classes(1) takeWhile_dropWhile_space
          char_classes(5) lex_space)
  next
    case TokenNumber
    with assms Token obtain c cs where w: "w = c # cs" "is_digit c" "list_all is_digit cs"
      by (cases w) (auto simp: valid_token_def)
    then show ?thesis using Token TokenNumber
      by (simp add: render_token_def lex.simps(2) [of c] char_classes(2) takeWhile_dropWhile_space
          char_classes(6) lex_space)
  next
    case TokenString
    have q: "\<not> is_latin1_space CHR 0x22 \<and> \<not> is_identifier_start CHR 0x22 \<and> \<not> is_digit CHR 0x22"
      by (simp add: is_latin1_space_def is_identifier_start_def is_digit_def)
    then show ?thesis using Token TokenString
      by (simp add: render_token_def lex.simps(2) [of "CHR 0x22"] lex_string_escaped lex_space)
  next
    case TokenPunct
    with assms Token obtain c where "c \<in> set puncts" "w = [c]" by (auto simp: valid_token_def)
    with Token TokenPunct char_classes(3) [of c] show ?thesis
      by (simp add: render_token_def lex.simps(2) [of c] two_def lex_space)
  next
    case TokenOr
    have "\<not> is_latin1_space CHR ''|'' \<and> \<not> is_identifier_start CHR ''|'' \<and> \<not> is_digit CHR ''|''"
      by (simp add: is_latin1_space_def is_identifier_start_def is_digit_def)
    with assms Token TokenOr show ?thesis
      by (simp add: valid_token_def render_token_def lex.simps(2) [of "CHR ''|''"] two_def lex_space)
  next
    case TokenNullish
    have "\<not> is_latin1_space CHR ''?'' \<and> \<not> is_identifier_start CHR ''?'' \<and> \<not> is_digit CHR ''?''"
      by (simp add: is_latin1_space_def is_identifier_start_def is_digit_def)
    with assms Token TokenNullish show ?thesis
      by (simp add: valid_token_def render_token_def lex.simps(2) [of "CHR ''?''"] two_def lex_space)
  next
    case TokenEOF
    with assms Token show ?thesis by (simp add: valid_token_def)
  qed
qed

lemma lex_render: "list_all valid_token ts \<Longrightarrow> lex (render ts) = Some (ts @ [Token TokenEOF []])"
  by (induction ts) (simp_all add: lex.simps(1) lex_token [simplified])

section \<open>Configurations as tokens\<close>

text \<open>
  The static values of the accepted language: constants, environment variables with an
  operator and a literal, objects and arrays.
\<close>

datatype js =
    JConst token
  | JEnv string bool token
  | JObject "(token \<times> js) list"
  | JArray "js list"

abbreviation punct :: "string \<Rightarrow> token" where "punct w \<equiv> Token TokenPunct w"
abbreviation ident :: "string \<Rightarrow> token" where "ident w \<equiv> Token TokenIdentifier w"

fun js_tokens :: "js \<Rightarrow> tokens"
  and member_tokens :: "(token \<times> js) list \<Rightarrow> tokens"
  and element_tokens :: "js list \<Rightarrow> tokens" where
  "js_tokens (JConst t) = [t]"
| "js_tokens (JEnv name nullish lit) =
     [ident ''process'', punct ''.'', ident ''env'', punct ''.'', ident name,
      if nullish then Token TokenNullish ''??'' else Token TokenOr ''||'', lit]"
| "js_tokens (JObject ms) = punct ''{'' # member_tokens ms"
| "js_tokens (JArray es) = punct ''['' # element_tokens es"
| "member_tokens [] = [punct ''}'']"
| "member_tokens ((k, v) # ms) = k # punct '':'' # js_tokens v @
     (if ms = [] then [punct ''}''] else punct '','' # member_tokens ms)"
| "element_tokens [] = [punct '']'']"
| "element_tokens (v # es) = js_tokens v @ (if es = [] then [punct '']''] else punct '','' # element_tokens es)"

definition key_token :: "token \<Rightarrow> bool" where
  "key_token t \<longleftrightarrow> tok_kind t = TokenIdentifier \<or> tok_kind t = TokenString"

definition literal_token :: "token \<Rightarrow> config_value option" where
  "literal_token t =
     (if tok_kind t = TokenString then Some (text_value (tok_text t))
      else if tok_kind t = TokenNumber then map_option number_value (atoi_ok (tok_text t)) else None)"

definition distinct_keys :: "(token \<times> 'a) list \<Rightarrow> bool" where
  "distinct_keys ms \<longleftrightarrow> distinct (map (tok_text \<circ> fst) ms) \<and> list_all (key_token \<circ> fst) ms"

fun valid_js :: "js \<Rightarrow> bool" where
  "valid_js (JConst t) = is_constant t"
| "valid_js (JEnv name nullish lit) = (literal_token lit \<noteq> None)"
| "valid_js (JObject ms) = (distinct_keys ms \<and> list_all (\<lambda>(k, v). valid_js v) ms)"
| "valid_js (JArray es) = list_all valid_js es"

text \<open>The value of a field: a literal or an environment variable.\<close>

fun field_value :: "js \<Rightarrow> config_value option" where
  "field_value (JConst t) = literal_token t"
| "field_value (JEnv name nullish lit) =
     map_option (\<lambda>f. ConfigValue ValueEnvironment [] 0 name (Some f)) (literal_token lit)"
| "field_value v = None"

lemma take_simps [simp]:
  "take_punct w (Token k w' # ts) = (if k = TokenPunct \<and> w' = w then Some ts else None)"
  "take_identifier w (Token k w' # ts) = (if k = TokenIdentifier \<and> w' = w then Some ts else None)"
  by (auto simp: take_punct_def take_identifier_def take_token_def current_def)

lemma current_Cons [simp]: "current (t # ts) = t"
  by (simp add: current_def)

lemma parse_key_Cons: "key_token k \<Longrightarrow> parse_key (k # ts) = Some (tok_text k, ts)"
  by (auto simp: parse_key_def key_token_def)

lemma key_not_punct: "key_token k \<Longrightarrow> take_punct w (k # ts) = None"
  by (cases k) (auto simp: key_token_def)

lemma value_literal_token: "value_literal (t # ts) = map_option (\<lambda>v. (v, ts)) (literal_token t)"
  by (auto simp: value_literal_def literal_token_def Let_def split: option.splits)

lemma parse_value_field:
  assumes "field_value v = Some c"
  shows "parse_value (js_tokens v @ ts) = Some (c, ts)"
proof (cases v)
  case (JConst t)
  with assms show ?thesis
    by (auto simp: parse_value_def Let_def value_literal_token literal_token_def split: if_splits)
next
  case (JEnv name nullish lit)
  with assms show ?thesis
    by (auto simp: parse_value_def Let_def take_process_env_def value_literal_token)
qed (use assms in auto)

lemma js_not_closing:
  assumes "valid_js v"
  shows "take_punct '']'' (js_tokens v @ ts) = None"
proof (cases v)
  case (JConst t)
  with assms show ?thesis by (cases t) (auto simp: is_constant_def)
qed (use assms in auto)

lemma skip_static_js:
  "valid_js v \<Longrightarrow> 2 * length (js_tokens v @ ts) < n \<Longrightarrow> skip_static n (js_tokens v @ ts) = Parsed ts"
  "distinct_keys ms \<Longrightarrow> list_all (\<lambda>(k, v). valid_js v) ms \<Longrightarrow> set (map (tok_text \<circ> fst) ms) \<inter> seen = {} \<Longrightarrow>
   2 * length (member_tokens ms @ ts) < n \<Longrightarrow> skip_members n seen (member_tokens ms @ ts) = Parsed ts"
  "list_all valid_js es \<Longrightarrow> 2 * length (element_tokens es @ ts) + 1 < n \<Longrightarrow>
   skip_elements n (element_tokens es @ ts) = Parsed ts"
proof (induction v and ms and es arbitrary: n ts and n ts seen and n ts
    rule: js_tokens_member_tokens_element_tokens.induct)
  case (1 t)
  then show ?case by (cases n) simp_all
next
  case (2 name nullish lit)
  then obtain m where n: "n = Suc m" by (cases n) auto
  from 2 obtain c where "field_value (JEnv name nullish lit) = Some c" by auto
  from parse_value_field [OF this, of ts] n show ?case
    by (simp add: is_constant_def)
next
  case (3 ms)
  then obtain m where n: "n = Suc m" by (cases n) auto
  with 3 show ?case by (simp add: is_constant_def)
next
  case (4 es)
  then obtain m where n: "n = Suc m" by (cases n) auto
  with 4 show ?case by (simp add: is_constant_def)
next
  case 5
  then show ?case by (cases n) simp_all
next
  case (6 k v ms)
  then obtain m where n: "n = Suc m" by (cases n) auto
  have k: "key_token k" "tok_text k \<notin> seen" "valid_js v" "distinct_keys ms" "list_all (\<lambda>(k, v). valid_js v) ms"
    "set (map (tok_text \<circ> fst) ms) \<inter> insert (tok_text k) seen = {}"
    using 6(3-5) by (auto simp: distinct_keys_def)
  let ?rest = "(if ms = [] then [punct ''}''] else punct '','' # member_tokens ms) @ ts"
  have v: "skip_static m (js_tokens v @ ?rest) = Parsed ?rest"
    using 6(6) n by (intro 6(1) k) (auto split: if_splits)
  show ?case
  proof (cases "ms = []")
    case True
    with v n k show ?thesis by (simp add: parse_key_Cons key_not_punct)
  next
    case False
    have "skip_members m (insert (tok_text k) seen) (member_tokens ms @ ts) = Parsed ts"
      using 6(6) n False by (intro 6(2) k) auto
    with v n k False show ?thesis by (simp add: parse_key_Cons key_not_punct)
  qed
next
  case 7
  then show ?case by (cases n) simp_all
next
  case (8 v es)
  then obtain m where n: "n = Suc m" by (cases n) auto
  let ?rest = "(if es = [] then [punct '']''] else punct '','' # element_tokens es) @ ts"
  have v: "skip_static m (js_tokens v @ ?rest) = Parsed ?rest"
    using 8(3,4) n by (intro 8(1)) (auto split: if_splits)
  have no: "take_punct '']'' (js_tokens v @ ?rest) = None" using 8(3) by (intro js_not_closing) simp
  show ?case
  proof (cases "es = []")
    case True
    with v n 8(3) no show ?thesis by simp
  next
    case False
    have "skip_elements m (element_tokens es @ ts) = Parsed ts"
      using 8(3,4) n False by (intro 8(2)) auto
    with v n 8(3) no False show ?thesis by simp
  qed
qed

section \<open>Whole configurations\<close>

definition required :: "token \<times> js \<Rightarrow> bool" where
  "required m \<longleftrightarrow> is_required_field (tok_text (fst m))"

definition valid_fields :: "(token \<times> js) list \<Rightarrow> bool" where
  "valid_fields fs \<longleftrightarrow>
     list_all (key_token \<circ> fst) fs \<and> distinct (map (tok_text \<circ> fst) (filter required fs)) \<and>
     list_all (\<lambda>m. if required m then field_value (snd m) \<noteq> None else valid_js (snd m)) fs"

text \<open>The parser keeps the required fields, the latest first.\<close>

definition fields_of :: "(token \<times> js) list \<Rightarrow> config_object" where
  "fields_of fs = rev (map (\<lambda>m. (tok_text (fst m), the (field_value (snd m)))) (filter required fs))"

lemma fields_of_Cons:
  "fields_of (m # fs) = fields_of fs @ (if required m then [(tok_text (fst m), the (field_value (snd m)))] else [])"
  by (simp add: fields_of_def)

lemma fields_of_keys: "fst ` set (fields_of fs) = set (map (tok_text \<circ> fst) (filter required fs))"
  by (auto simp: fields_of_def image_image)

lemma parse_field_render:
  assumes "if required (k, v) then field_value v \<noteq> None else valid_js v" and "2 * length (js_tokens v @ ts) < n"
  shows "parse_field n f (tok_text k) (js_tokens v @ ts) =
    Parsed (if required (k, v) then (tok_text k, the (field_value v)) # f else f, ts)"
  using assms parse_value_field skip_static_js(1) by (auto simp: parse_field_def required_def outcome_of_def)

lemma parse_fields_render:
  "valid_fields fs \<Longrightarrow> fst ` set f \<subseteq> Collect is_required_field \<Longrightarrow> fst ` set f \<inter> fst ` set (fields_of fs) = {} \<Longrightarrow>
   2 * length (member_tokens fs @ ts) < n \<Longrightarrow>
   parse_fields n f (member_tokens fs @ ts) = Parsed (fields_of fs @ f, ts)"
proof (induction fs arbitrary: f n)
  case Nil
  then show ?case by (cases n) (simp_all add: fields_of_def)
next
  case (Cons m fs)
  then obtain l where n: "n = Suc l" by (cases n) auto
  obtain k v where m: "m = (k, v)" by fastforce
  let ?rest = "(if fs = [] then [punct ''}''] else punct '','' # member_tokens fs) @ ts"
  let ?f = "if required (k, v) then (tok_text k, the (field_value v)) # f else f"
  have k: "key_token k" using Cons.prems(1) m by (simp add: valid_fields_def)
  have fresh: "required (k, v) \<Longrightarrow> tok_text k \<notin> fst ` set (fields_of fs)"
    using Cons.prems(1) m unfolding fields_of_keys by (auto simp: valid_fields_def)
  have new: "map_of f (tok_text k) = None"
  proof (cases "required m")
    case True
    then have "tok_text k \<in> fst ` set (fields_of (m # fs))" using m by (simp add: fields_of_Cons)
    with Cons.prems(3) show ?thesis by (auto simp: map_of_eq_None_iff)
  next
    case False
    with Cons.prems(2) m show ?thesis by (auto simp: required_def map_of_eq_None_iff)
  qed
  have parsed: "parse_field l f (tok_text k) (js_tokens v @ ?rest) = Parsed (?f, ?rest)"
    using Cons.prems(1,4) m n by (intro parse_field_render) (auto simp: valid_fields_def split: if_splits)
  have tail: "valid_fields fs" "fst ` set ?f \<subseteq> Collect is_required_field" "fst ` set ?f \<inter> fst ` set (fields_of fs) = {}"
  proof -
    show "valid_fields fs" using Cons.prems(1) by (auto simp: valid_fields_def split: if_splits)
    show "fst ` set ?f \<subseteq> Collect is_required_field" using Cons.prems(2) by (auto simp: required_def)
    show "fst ` set ?f \<inter> fst ` set (fields_of fs) = {}"
      using fresh Cons.prems(3) by (auto simp: fields_of_Cons)
  qed
  have all: "fields_of fs @ ?f = fields_of (m # fs) @ f"
    using m by (simp add: fields_of_Cons)
  show ?case
  proof (cases "fs = []")
    case True
    with parsed n m k new all show ?thesis by (simp add: parse_key_Cons key_not_punct fields_of_def)
  next
    case False
    have "parse_fields l ?f (member_tokens fs @ ts) = Parsed (fields_of fs @ ?f, ts)"
      using Cons.prems(4) n m False by (intro Cons.IH tail) auto
    with parsed n m k new all False show ?thesis by (simp add: parse_key_Cons key_not_punct)
  qed
qed

text \<open>The module: the environments, each an object, of which one is selected.\<close>

definition config_tokens :: "(token \<times> js) list \<Rightarrow> tokens" where
  "config_tokens envs =
     [ident ''module'', punct ''.'', ident ''exports'', punct ''=''] @ js_tokens (JObject envs) @ [punct '';'']"

definition valid_environment :: "string \<Rightarrow> token \<times> js \<Rightarrow> bool" where
  "valid_environment selected e \<longleftrightarrow>
     (if tok_text (fst e) = selected then (case snd e of JObject fs \<Rightarrow> valid_fields fs | _ \<Rightarrow> False)
      else valid_js (snd e))"

fun selected_fields :: "string \<Rightarrow> (token \<times> js) list \<Rightarrow> config_object option" where
  "selected_fields selected [] = None"
| "selected_fields selected ((k, v) # envs) =
     (if tok_text k = selected then (case v of JObject fs \<Rightarrow> Some (fields_of fs) | _ \<Rightarrow> None)
      else selected_fields selected envs)"

lemma selected_fields_absent:
  "selected \<notin> set (map (tok_text \<circ> fst) envs) \<Longrightarrow> selected_fields selected envs = None"
  by (induction selected envs rule: selected_fields.induct) auto

lemma parse_environment_render:
  assumes "valid_environment selected (k, v)" and "2 * length (js_tokens v @ ts) < n"
  shows "parse_environment n selected found (tok_text k) (js_tokens v @ ts) =
    Parsed (if tok_text k = selected then selected_fields selected [(k, v)] else found, ts)"
proof (cases "tok_text k = selected")
  case True
  with assms obtain fs where fs: "v = JObject fs" "valid_fields fs"
    by (auto simp: valid_environment_def split: js.splits)
  with assms(2) parse_fields_render [of fs "[]" ts n] True show ?thesis
    by (simp add: parse_environment_def parse_fields_object_def)
next
  case False
  with assms skip_static_js(1) show ?thesis by (simp add: parse_environment_def valid_environment_def)
qed

lemma parse_environments_render:
  "distinct_keys envs \<Longrightarrow> list_all (valid_environment selected) envs \<Longrightarrow>
   set (map (tok_text \<circ> fst) envs) \<inter> seen = {} \<Longrightarrow>
   (selected \<in> seen \<or> found = None) \<Longrightarrow> 2 * length (member_tokens envs @ ts) < n \<Longrightarrow>
   parse_environments n selected seen found (member_tokens envs @ ts) =
     Parsed (if selected \<in> seen then found else selected_fields selected envs, ts)"
proof (induction envs arbitrary: seen found n)
  case Nil
  then show ?case by (cases n) auto
next
  case (Cons m envs)
  then obtain l where n: "n = Suc l" by (cases n) auto
  obtain k v where m: "m = (k, v)" by fastforce
  let ?rest = "(if envs = [] then [punct ''}''] else punct '','' # member_tokens envs) @ ts"
  let ?found = "if tok_text k = selected then selected_fields selected [(k, v)] else found"
  have k: "key_token k" "tok_text k \<notin> seen" and tail: "distinct_keys envs" "list_all (valid_environment selected) envs"
    "set (map (tok_text \<circ> fst) envs) \<inter> insert (tok_text k) seen = {}"
    using Cons.prems(1-3) m by (auto simp: distinct_keys_def)
  have parsed: "parse_environment l selected found (tok_text k) (js_tokens v @ ?rest) = Parsed (?found, ?rest)"
    using Cons.prems(2,5) m n by (intro parse_environment_render) (auto split: if_splits)
  have found: "(if selected \<in> insert (tok_text k) seen then ?found else selected_fields selected envs) =
      (if selected \<in> seen then found else selected_fields selected (m # envs))"
    using k(2) m by (auto split: js.splits)
  show ?case
  proof (cases "envs = []")
    case True
    with parsed n m k found Cons.prems(4) show ?thesis
      by (auto simp: parse_key_Cons key_not_punct split: if_splits)
  next
    case False
    have "parse_environments l selected (insert (tok_text k) seen) ?found (member_tokens envs @ ts) =
        Parsed (if selected \<in> insert (tok_text k) seen then ?found else selected_fields selected envs, ts)"
      using Cons.prems(4,5) n m False by (intro Cons.IH tail) auto
    with parsed n m k found False show ?thesis by (simp add: parse_key_Cons key_not_punct)
  qed
qed

lemma parse_config_render:
  assumes "list_all valid_token (config_tokens envs)" and "distinct_keys envs"
    and "list_all (valid_environment selected) envs" and "selected_fields selected envs = Some fv"
  shows "parse_config (render (config_tokens envs)) selected = Parsed fv"
proof -
  let ?ts = "config_tokens envs @ [Token TokenEOF []]"
  have "parse_environments (parser_fuel ?ts) selected {} None (member_tokens envs @ [punct '';'', Token TokenEOF []]) =
      Parsed (Some fv, [punct '';'', Token TokenEOF []])"
    by (subst parse_environments_render [OF assms(2,3)]) (simp_all add: parser_fuel_def config_tokens_def assms(4))
  then have "parse_module (parser_fuel ?ts) selected ?ts = Parsed fv"
    by (simp add: parse_module_def take_module_exports_def config_tokens_def parse_object_def outcome_of_def)
  with lex_render [OF assms(1)] show ?thesis by (simp add: parse_config_def)
qed

end
