(* ===== verification/ConfigResolver.thy ===== *)
theory ConfigResolver
  imports ConfigRender MigrationBase
begin

text \<open>
  \<open>internal/migration/config.go\<close> and \<open>config_resolver.go\<close>: reading the fixed legacy
  configuration file and resolving the database settings from its fields, the process
  environment and the defaults.
\<close>

section \<open>Types\<close>

definition legacy_config_path :: string where
  "legacy_config_path = ''/opt/backend_alice_guardian/node/config/config.js''"

definition default_config_size_limit :: int where "default_config_size_limit = 2 ^ 20"

definition environment_production :: string where "environment_production = ''production''"
definition environment_development :: string where "environment_development = ''development''"
definition dialect_postgresql :: string where "dialect_postgresql = ''postgres''"

datatype value_source = SourceLiteral | SourceEnvironment | SourceDevelopmentDefault | SourcePostgreSQLDefault

record resolved_config =
  rc_environment :: string
  rc_dialect :: string
  rc_database :: string
  rc_username :: string
  rc_host :: string
  rc_port :: int
  rc_sources :: "string \<rightharpoonup> value_source"
  rc_password :: "nat option"

definition resolved_config_string :: "resolved_config \<Rightarrow> string" where
  "resolved_config_string c =
     ''migration config environment='' @ rc_environment c @ '' dialect='' @ rc_dialect c
     @ '' database='' @ rc_database c @ '' username='' @ rc_username c @ '' host='' @ rc_host c
     @ '' port='' @ itoa (rc_port c)"

text \<open>\<open>Release\<close> of one copy: the shared bytes are zeroed.\<close>

definition clear_secret :: "resolved_config \<Rightarrow> secret_store \<Rightarrow> secret_store" where
  "clear_secret c st =
     (case rc_password c of
        None \<Rightarrow> st
      | Some a \<Rightarrow> st\<lparr>contents := (contents st)(a := [])\<rparr>)"

definition select_environment :: "string \<Rightarrow> string option" where
  "select_environment request =
     (if request = [] \<or> request = environment_production then Some environment_production
      else if request = environment_development then Some environment_development else None)"

section \<open>Values\<close>

type_synonym env_lookup = "string \<Rightarrow> string option"

text \<open>An environment variable counts when it is set to more than white space.\<close>

definition env_override :: "env_lookup \<Rightarrow> string \<Rightarrow> string option" where
  "env_override host name =
     (case host name of None \<Rightarrow> None | Some v \<Rightarrow> if trim_space v \<noteq> [] then Some v else None)"

definition resolve_value :: "config_value \<Rightarrow> env_lookup \<Rightarrow> config_value option" where
  "resolve_value v host =
     (if cv_kind v = ValueLiteral then Some v
      else if cv_kind v \<noteq> ValueEnvironment \<or> cv_fallback v = None then None
      else (case env_override host (cv_env v) of
        Some override \<Rightarrow> Some (text_value override)
      | None \<Rightarrow> cv_fallback v))"

definition resolve_string :: "config_object \<Rightarrow> string \<Rightarrow> env_lookup \<Rightarrow> string option" where
  "resolve_string f name host =
     (case Option.bind (map_of f name) (\<lambda>v. resolve_value v host) of
        None \<Rightarrow> None
      | Some v \<Rightarrow> if cv_number v \<noteq> 0 \<or> cv_text v = [] then None else Some (cv_text v))"

definition resolve_port :: "config_object \<Rightarrow> env_lookup \<Rightarrow> int option" where
  "resolve_port f host =
     (case Option.bind (map_of f ''port'') (\<lambda>v. resolve_value v host) of
        None \<Rightarrow> None
      | Some v \<Rightarrow> if cv_number v \<noteq> 0 then Some (cv_number v) else atoi_ok (cv_text v))"

text \<open>\<open>sourceFor\<close>; a missing field is the zero value, a literal.\<close>

definition source_for :: "config_value option \<Rightarrow> env_lookup \<Rightarrow> value_source" where
  "source_for v host =
     (case v of
        None \<Rightarrow> SourceLiteral
      | Some v \<Rightarrow>
          if cv_kind v = ValueEnvironment \<and> env_override host (cv_env v) \<noteq> None
          then SourceEnvironment else SourceLiteral)"

definition field_names :: "string list" where
  "field_names = [''dialect'', ''database'', ''username'', ''password'', ''host'', ''port'']"

definition field_sources :: "config_object \<Rightarrow> env_lookup \<Rightarrow> string \<rightharpoonup> value_source" where
  "field_sources f host = map_of (map (\<lambda>n. (n, source_for (map_of f n) host)) field_names)"

text \<open>A setting with its default: the value, and the sources updated when the default is used.\<close>

definition or_default ::
  "'a option \<Rightarrow> string \<Rightarrow> 'a \<Rightarrow> value_source \<Rightarrow> (string \<rightharpoonup> value_source) \<Rightarrow> 'a option \<times> (string \<rightharpoonup> value_source)" where
  "or_default v name d src sources =
     (case v of Some x \<Rightarrow> (Some x, sources) | None \<Rightarrow> (Some d, sources(name \<mapsto> src)))"

definition with_defaults ::
  "string \<Rightarrow> string option \<Rightarrow> string option \<Rightarrow> string option \<Rightarrow> int option \<Rightarrow> (string \<rightharpoonup> value_source) \<Rightarrow>
   string option \<times> string option \<times> string option \<times> int option \<times> (string \<rightharpoonup> value_source)" where
  "with_defaults environment database username address port sources =
     (if environment = environment_development then
        (case or_default database ''database'' ''alice_guardian'' SourceDevelopmentDefault sources of (database, sources) \<Rightarrow>
         case or_default username ''username'' ''postgres'' SourceDevelopmentDefault sources of (username, sources) \<Rightarrow>
         case or_default address ''host'' ''127.0.0.1'' SourceDevelopmentDefault sources of (address, sources) \<Rightarrow>
         case or_default port ''port'' 5435 SourceDevelopmentDefault sources of (port, sources) \<Rightarrow>
           (database, username, address, port, sources))
      else
        (case or_default port ''port'' 5432 SourcePostgreSQLDefault sources of (port, sources) \<Rightarrow>
           (database, username, address, port, sources)))"

text \<open>\<open>resolveFields\<close>: the configuration and the password, which is not stored yet.\<close>

definition resolve_fields :: "string \<Rightarrow> config_object \<Rightarrow> env_lookup \<Rightarrow> (resolved_config \<times> string) option" where
  "resolve_fields environment f host =
     (if \<not> list_all (\<lambda>(name, v). is_required_field name) f then None
      else if resolve_string f ''dialect'' host \<noteq> Some dialect_postgresql then None
      else (case with_defaults environment (resolve_string f ''database'' host) (resolve_string f ''username'' host)
                   (resolve_string f ''host'' host) (resolve_port f host) (field_sources f host) of
        (Some database, Some username, Some address, Some port, sources) \<Rightarrow>
          (case resolve_string f ''password'' host of
             None \<Rightarrow> None
           | Some password \<Rightarrow>
               if database = [] \<or> username = [] \<or> password = [] \<or> address = [] \<or> port < 1 \<or> port > 65535
               then None
               else Some (\<lparr>rc_environment = environment, rc_dialect = dialect_postgresql, rc_database = database,
                           rc_username = username, rc_host = address, rc_port = port, rc_sources = sources,
                           rc_password = None\<rparr>, password))
      | _ \<Rightarrow> None))"

section \<open>Reading the file\<close>

definition new_secret :: "resolved_config \<times> string \<Rightarrow> secret_store \<Rightarrow> resolved_config \<times> secret_store" where
  "new_secret parsed st =
     ((fst parsed)\<lparr>rc_password := Some (next_addr st)\<rparr>,
      \<lparr>contents = (contents st)(next_addr st := snd parsed), next_addr = Suc (next_addr st)\<rparr>)"

text \<open>\<open>io.ReadAll(io.LimitReader(file, limit+1))\<close>, refused when more than the limit came.\<close>

definition read_limited :: "int \<Rightarrow> os_reply \<Rightarrow> string option" where
  "read_limited limit r =
     (case r of
        OsData bytes \<Rightarrow>
          (let data = take (nat (limit + 1)) bytes in if int (length data) > limit then None else Some data)
      | _ \<Rightarrow> None)"

definition config_limit :: "int \<Rightarrow> int" where
  "config_limit max_bytes = (if max_bytes = 0 then default_config_size_limit else max_bytes)"

definition safe_config_info :: "int \<Rightarrow> os_reply \<Rightarrow> bool" where
  "safe_config_info limit r =
     (case r of
        OsInfo i \<Rightarrow> \<not> is_symlink i \<and> is_regular i \<and> file_size i \<ge> 0 \<and> file_size i \<le> limit
      | _ \<Rightarrow> False)"

definition resolve_data ::
  "string \<Rightarrow> string \<Rightarrow> env_lookup \<Rightarrow> (resolved_config \<times> string) option" where
  "resolve_data request data host =
     (case select_environment request of
        None \<Rightarrow> None
      | Some selected \<Rightarrow>
          (case parse_config data selected of
             Parsed f \<Rightarrow> resolve_fields selected f host
           | _ \<Rightarrow> None))"

text \<open>\<open>Resolver.Resolve\<close>; the deferred close comes last.\<close>

definition resolver_resolve ::
  "'w os \<Rightarrow> env_lookup \<Rightarrow> int \<Rightarrow> string \<Rightarrow> ('w, resolved_config option) meff" where
  "resolver_resolve os host max_bytes request c s =
     (if ctx_err c (clock s) \<noteq> None then (None, s)
      else (case os_ok os (OpenNoFollow legacy_config_path) s of
        (False, s1) \<Rightarrow> (None, s1)
      | (True, s1) \<Rightarrow>
          (let limit = config_limit max_bytes;
               close = (\<lambda>r s. (r, snd (os_ok os (CloseFile legacy_config_path) s))) in
           case os_call os (StatOpened legacy_config_path) s1 of (info, s2) \<Rightarrow>
             if \<not> safe_config_info limit info then close None s2
             else (case os_call os (ReadOpened legacy_config_path) s2 of (bytes, s3) \<Rightarrow>
               (case read_limited limit bytes of
                  None \<Rightarrow> close None s3
                | Some data \<Rightarrow>
                    (case resolve_data request data host of
                       None \<Rightarrow> close None s3
                     | Some parsed \<Rightarrow>
                         (case with_secrets (new_secret parsed) s3 of (cfg, s4) \<Rightarrow> close (Some cfg) s4)))))))"

section \<open>Facts\<close>

definition valid_resolved :: "resolved_config \<Rightarrow> bool" where
  "valid_resolved c \<longleftrightarrow>
     rc_dialect c = dialect_postgresql \<and> rc_host c \<noteq> [] \<and> rc_database c \<noteq> [] \<and> rc_username c \<noteq> [] \<and>
     1 \<le> rc_port c \<and> rc_port c \<le> 65535"

lemma resolve_fields_valid: "resolve_fields e f host = Some (c, pw) \<Longrightarrow>
    valid_resolved c \<and> pw \<noteq> [] \<and> rc_environment c = e \<and> rc_password c = None"
  by (auto simp: resolve_fields_def valid_resolved_def split: if_splits option.splits prod.splits)

text \<open>Only the variables the fields name are looked at.\<close>

definition env_names :: "config_object \<Rightarrow> string set" where
  "env_names f = {cv_env v | k v. (k, v) \<in> set f \<and> cv_kind v = ValueEnvironment}"

lemma env_names_lookup: "map_of f k = Some v \<Longrightarrow> cv_kind v = ValueEnvironment \<Longrightarrow> cv_env v \<in> env_names f"
  by (auto simp: env_names_def dest: map_of_SomeD)

lemma resolve_value_cong:
  "(cv_kind v = ValueEnvironment \<Longrightarrow> host (cv_env v) = host' (cv_env v)) \<Longrightarrow> resolve_value v host = resolve_value v host'"
  by (cases "cv_kind v") (simp_all add: resolve_value_def env_override_def)

lemma bind_resolve_value_cong:
  assumes "\<forall>n \<in> env_names f. host n = host' n"
  shows "Option.bind (map_of f k) (\<lambda>v. resolve_value v host) = Option.bind (map_of f k) (\<lambda>v. resolve_value v host')"
  using assms env_names_lookup by (cases "map_of f k") (simp_all add: resolve_value_cong [of _ host host'])

lemma source_for_cong:
  assumes "\<forall>n \<in> env_names f. host n = host' n"
  shows "source_for (map_of f k) host = source_for (map_of f k) host'"
  using assms env_names_lookup by (cases "map_of f k") (auto simp: source_for_def env_override_def)

lemma resolve_fields_cong:
  assumes "\<forall>n \<in> env_names f. host n = host' n"
  shows "resolve_fields e f host = resolve_fields e f host'"
proof -
  have "resolve_string f k host = resolve_string f k host'" for k
    using bind_resolve_value_cong [OF assms] by (simp add: resolve_string_def)
  moreover have "resolve_port f host = resolve_port f host'"
    using bind_resolve_value_cong [OF assms] by (simp add: resolve_port_def)
  moreover have "field_sources f host = field_sources f host'"
    using source_for_cong [OF assms] by (simp add: field_sources_def)
  ultimately show ?thesis by (simp only: resolve_fields_def)
qed

end
