(* ===== verification/ConfigProperties.thy ===== *)
theory ConfigProperties
  imports ConfigResolver
begin

text \<open>
  The properties of the legacy configuration: the parser always answers, reads back what is
  rendered and accepts static values only; the resolver yields a usable configuration, from
  the named environment variables only.
\<close>

section \<open>A concrete configuration\<close>

text \<open>A production environment with a variable for the port, and one environment beside it.\<close>

definition demo_fields :: "(token \<times> js) list" where
  "demo_fields =
     [(ident ''dialect'', JConst (Token TokenString ''postgres'')),
      (ident ''database'', JConst (Token TokenString ''alice'')),
      (ident ''username'', JConst (Token TokenString ''guardian'')),
      (ident ''password'', JConst (Token TokenString (''p'' @ [CHR 0x22]))),
      (ident ''pool'', JObject [(ident ''max'', JConst (Token TokenNumber ''5''))]),
      (ident ''host'', JConst (Token TokenString ''db'')),
      (ident ''port'', JEnv ''DB_PORT'' False (Token TokenNumber ''5433''))]"

definition demo_environments :: "(token \<times> js) list" where
  "demo_environments =
     [(ident ''test'', JArray [JConst (ident ''null''), JConst (Token TokenNumber ''1'')]),
      (Token TokenString ''production'', JObject demo_fields)]"

definition demo_source :: string where "demo_source = render (config_tokens demo_environments)"

definition demo_object :: config_object where "demo_object = fields_of demo_fields"

lemma demo_config_valid:
  "list_all valid_token (config_tokens demo_environments)" "distinct_keys demo_environments"
  "list_all (valid_environment ''production'') demo_environments"
  "selected_fields ''production'' demo_environments = Some demo_object"
  by code_simp+

section \<open>The parser\<close>

text \<open>
  C17. The parser answers on every input: its fuel, twice the number of tokens, is never
  used up, however deeply the values are nested.
\<close>

theorem parse_config_total: "parse_config source selected \<noteq> OutOfFuel"
proof (cases "lex source")
  case (Some ts)
  have "2 * length ts < parser_fuel ts" by (simp add: parser_fuel_def)
  from parse_module_returns [OF this] Some show ?thesis by (simp add: parse_config_def)
qed (simp add: parse_config_def)

text \<open>
  C18. Round trip: every well-formed module of static values, rendered as text, is accepted,
  and the result is exactly the required fields of the selected environment; the other
  fields and the other environments are read over.
\<close>

theorem parse_config_reads_back:
  assumes "list_all valid_token (config_tokens envs)" and "distinct_keys envs"
    and "list_all (valid_environment selected) envs" and "selected_fields selected envs = Some fv"
  shows "parse_config (render (config_tokens envs)) selected = Parsed fv"
  using assms by (rule parse_config_render)

theorem parse_config_reads_back_witness: "parse_config demo_source ''production'' = Parsed demo_object"
  unfolding demo_source_def by (rule parse_config_reads_back [OF demo_config_valid])

text \<open>
  C19. Fail-closed: whatever text is accepted, the result binds only the six required fields,
  each once, to a literal or to an environment variable with a literal to fall back on.
\<close>

theorem parse_config_accepts_static:
  assumes "parse_config source selected = Parsed f"
  shows "distinct (map fst f) \<and> (\<forall>(k, v) \<in> set f. is_required_field k \<and> static_value v)"
  using parse_config_static [OF assms] by (simp add: static_object_def list_all_iff)

theorem parse_config_accepts_static_witness: "distinct (map fst demo_object)"
  using parse_config_accepts_static
    [OF parse_config_render [OF demo_config_valid]] by blast

section \<open>The resolver\<close>

definition demo_config_os :: "unit os" where
  "demo_config_os fop c now w =
     ((case fop of
         StatOpened p \<Rightarrow> OsInfo \<lparr>is_dir = False, is_regular = True, is_symlink = False, perm = 0x180,
           file_size = 9, owner = None, sticky = False\<rparr>
       | ReadOpened p \<Rightarrow> OsData demo_source | _ \<Rightarrow> OsDone), 1, w)"

definition demo_config_start :: "unit msys" where
  "demo_config_start =
     \<lparr>world = \<lparr>outside = (), secrets = \<lparr>contents = (\<lambda>a. []), next_addr = 0\<rparr>\<rparr>, clock = 0, trace = []\<rparr>"

definition demo_env :: env_lookup where
  "demo_env name = (if name = ''DB_PORT'' then Some '' '' else None)"

text \<open>The value of an environment variable is parsed as it is: a trailing space spoils it.\<close>

definition demo_bad_env :: env_lookup where
  "demo_bad_env name = (if name = ''DB_PORT'' then Some ''5433 '' else None)"

definition demo_resolved :: "env_lookup \<Rightarrow> (resolved_config \<times> string) option" where
  "demo_resolved host = resolve_fields ''production'' demo_object host"

lemma demo_resolves: "map_option snd (demo_resolved demo_env) = Some (''p'' @ [CHR 0x22])"
  "map_option (rc_port \<circ> fst) (demo_resolved demo_env) = Some 5433"
  "map_option (rc_port \<circ> fst) (demo_resolved demo_bad_env) = Some 5432"
  by code_simp+

lemma demo_resolve_run:
  "\<exists>cfg s'. resolver_resolve demo_config_os demo_env 0 [] background demo_config_start = (Some cfg, s') \<and> rc_port cfg = 5433"
proof -
  obtain cfg pw where r: "resolve_fields ''production'' demo_object demo_env = Some (cfg, pw)" "rc_port cfg = 5433"
    using demo_resolves by (auto simp: demo_resolved_def)
  have "int (length demo_source) < 2 ^ 20" by code_simp
  then have "take (nat (2 ^ 20 + 1)) demo_source = demo_source" "\<not> int (length demo_source) > 2 ^ 20"
    by (simp_all add: nat_le_iff)
  then have lim: "read_limited (config_limit 0) (OsData demo_source) = Some demo_source"
    by (simp add: read_limited_def config_limit_def default_config_size_limit_def Let_def)
  have "resolve_data [] demo_source demo_env = Some (cfg, pw)"
    using r parse_config_render [OF demo_config_valid]
    by (simp add: resolve_data_def select_environment_def environment_production_def demo_source_def)
  with lim r(2) show ?thesis
    by (simp add: resolver_resolve_def os_ok_def os_call_def call_def outer_def demo_config_os_def Let_def
        safe_config_info_def config_limit_def default_config_size_limit_def with_secrets_def new_secret_def)
qed

text \<open>
  C20. A configuration that is resolved is usable: the PostgreSQL dialect, a port in range,
  and non-empty host, database, user and password; the file had at most the limit of bytes,
  and resolving only touches files.
\<close>

theorem resolver_resolve_valid:
  assumes "resolver_resolve os host max_bytes request c s = (Some cfg, s')"
  shows "valid_resolved cfg \<and> rc_environment cfg \<in> {environment_production, environment_development} \<and>
    (\<exists>a data pw. rc_password cfg = Some a \<and> contents (secrets (world s')) a = pw \<and> pw \<noteq> [] \<and>
       int (length data) \<le> config_limit max_bytes \<and>
       resolve_data request data host = Some (cfg\<lparr>rc_password := None\<rparr>, pw)) \<and>
    files_only s s'"
proof -
  let ?path = legacy_config_path and ?limit = "config_limit max_bytes"
  obtain b s1 where 1: "os_ok os (OpenNoFollow ?path) s = (b, s1)" by fastforce
  obtain info s2 where 2: "os_call os (StatOpened ?path) s1 = (info, s2)" by fastforce
  obtain bytes s3 where 3: "os_call os (ReadOpened ?path) s2 = (bytes, s3)" by fastforce
  have "b \<and> (\<exists>data parsed. read_limited ?limit bytes = Some data \<and> resolve_data request data host = Some parsed)"
    using assms 1 2 3
    by (auto simp: resolver_resolve_def Let_def split: if_splits bool.splits option.splits prod.splits)
  then obtain data parsed where b: "b" and data: "read_limited ?limit bytes = Some data"
    and parsed: "resolve_data request data host = Some parsed" by blast
  obtain cfg' s4 where 4: "with_secrets (new_secret parsed) s3 = (cfg', s4)" by fastforce
  obtain ok s5 where 5: "os_ok os (CloseFile ?path) s4 = (ok, s5)" by fastforce
  have cfg: "cfg' = cfg" "s5 = s'"
    using assms 1 2 3 4 5 b data parsed by (auto simp: resolver_resolve_def Let_def split: if_splits)
  obtain c0 pw where p: "parsed = (c0, pw)" by fastforce
  then obtain selected f where
    sel: "select_environment request = Some selected" "resolve_fields selected f host = Some (c0, pw)"
    using parsed by (auto simp: resolve_data_def split: option.splits outcome.splits)
  note valid = resolve_fields_valid [OF sel(2)]
  have stored: "cfg = c0\<lparr>rc_password := Some (next_addr (secrets (world s3)))\<rparr>"
    "contents (secrets (world s')) (next_addr (secrets (world s3))) = pw"
    using 4 cfg p os_ok_secrets [OF 5] by (auto simp: with_secrets_def new_secret_def)
  have "int (length data) \<le> ?limit"
    using data by (auto simp: read_limited_def Let_def split: os_reply.splits if_splits)
  moreover have "resolve_data request data host = Some (cfg\<lparr>rc_password := None\<rparr>, pw)"
    using parsed p valid stored(1) by simp
  moreover have "files_only s s'"
    using 1 2 3 4 5 cfg by (meson file_calls files_only_trans)
  moreover have "rc_environment cfg \<in> {environment_production, environment_development}"
    using sel valid stored(1) by (auto simp: select_environment_def split: if_splits)
  moreover have "valid_resolved cfg" using valid stored(1) by (simp add: valid_resolved_def)
  ultimately show ?thesis using valid stored by auto
qed

theorem resolver_resolve_valid_witness:
  "\<exists>cfg s'. resolver_resolve demo_config_os demo_env 0 [] background demo_config_start = (Some cfg, s') \<and>
     valid_resolved cfg \<and> rc_port cfg = 5433 \<and> files_only demo_config_start s'"
  using demo_resolve_run resolver_resolve_valid by blast

text \<open>
  C21. The resolution looks at no environment variable but those the accepted fields name.
\<close>

theorem resolution_reads_named_variables:
  assumes "\<forall>selected f. select_environment request = Some selected \<and> parse_config data selected = Parsed f \<longrightarrow>
    (\<forall>n \<in> env_names f. host n = host' n)"
  shows "resolve_data request data host = resolve_data request data host'"
  using assms resolve_fields_cong
  by (cases "select_environment request") (auto simp: resolve_data_def split: outcome.splits)

theorem resolution_reads_named_variables_witness:
  "resolve_data [] demo_source demo_env = resolve_data [] demo_source (\<lambda>n. Some '' '')"
proof -
  have parsed: "parse_config demo_source ''production'' = Parsed demo_object"
    unfolding demo_source_def by (rule parse_config_render [OF demo_config_valid])
  have "list_all (\<lambda>(k, v). cv_kind v = ValueEnvironment \<longrightarrow> cv_env v = ''DB_PORT'') demo_object" by code_simp
  then have "\<forall>n \<in> env_names demo_object. demo_env n = Some '' ''"
    by (auto simp: env_names_def list_all_iff demo_env_def)
  with parsed show ?thesis
    by (intro resolution_reads_named_variables)
       (auto simp: select_environment_def environment_production_def)
qed

text \<open>
  A port that is set but is not a number does not fail the resolution: in production
  the PostgreSQL default is used and reported as its source.
\<close>

theorem unparsable_port_is_defaulted:
  assumes "resolve_fields environment_production f host = Some (cfg, pw)"
    and "Option.bind (map_of f ''port'') (\<lambda>v. resolve_value v host) = Some v"
    and "cv_number v = 0" and "atoi_ok (cv_text v) = None"
  shows "rc_port cfg = 5432 \<and> rc_sources cfg ''port'' = Some SourcePostgreSQLDefault"
  using assms
  by (auto simp: resolve_fields_def resolve_port_def with_defaults_def or_default_def environment_production_def
      environment_development_def split: if_splits option.splits)

theorem unparsable_port_is_defaulted_witness:
  "\<exists>cfg pw. resolve_fields ''production'' demo_object demo_bad_env = Some (cfg, pw) \<and> rc_port cfg = 5432 \<and>
     demo_bad_env ''DB_PORT'' = Some ''5433 ''"
proof -
  obtain cfg pw where r: "resolve_fields environment_production demo_object demo_bad_env = Some (cfg, pw)"
    using demo_resolves(3) by (auto simp: demo_resolved_def environment_production_def)
  have "Option.bind (map_of demo_object ''port'') (\<lambda>v. resolve_value v demo_bad_env) = Some (text_value ''5433 '')"
    "cv_number (text_value ''5433 '') = 0" "atoi_ok (cv_text (text_value ''5433 '')) = None"
    by code_simp+
  from unparsable_port_is_defaulted [OF r this] r show ?thesis
    by (auto simp: environment_production_def demo_bad_env_def)
qed

end
