(* ===== verification/GoNet.thy ===== *)
theory GoNet
  imports Prelude
begin

text \<open>
  The part of Go's \<open>net\<close> package the installer uses: \<open>ParseIP\<close>, with the predicates on
  addresses, and \<open>JoinHostPort\<close>.  An address is its sixteen bytes; an IPv4 address is
  mapped into them.
\<close>

section \<open>IPv4\<close>

text \<open>One octet: decimal digits without a leading zero, at most 255.\<close>

definition parse_octet :: "string \<Rightarrow> nat option" where
  "parse_octet s =
     (if s = [] \<or> \<not> list_all is_digit s \<or> (length s > 1 \<and> hd s = CHR ''0'') \<or> dec_val s > 255
      then None else Some (dec_val s))"

definition parse_ipv4_fields :: "string \<Rightarrow> nat list option" where
  "parse_ipv4_fields s =
     (let parts = map parse_octet (split_char CHR ''.'' s) in
      if length parts \<noteq> 4 \<or> None \<in> set parts then None else Some (map the parts))"

section \<open>IPv6\<close>

definition hex_val :: "char \<Rightarrow> nat option" where
  "hex_val c =
     (let n = (of_char c :: nat) in
      if 48 \<le> n \<and> n \<le> 57 then Some (n - 48)
      else if 97 \<le> n \<and> n \<le> 102 then Some (n - 87)
      else if 65 \<le> n \<and> n \<le> 70 then Some (n - 55) else None)"

definition is_hex :: "char \<Rightarrow> bool" where "is_hex c \<longleftrightarrow> hex_val c \<noteq> None"

definition hex_number :: "string \<Rightarrow> nat" where
  "hex_number s = foldl (\<lambda>n c. 16 * n + the (hex_val c)) 0 s"

text \<open>
  The loop over the groups: the bytes so far, where the ellipsis stands, and the rest.
  Every round that goes on adds two bytes, and there is room for sixteen.
\<close>

function ipv6_groups :: "nat list \<Rightarrow> nat option \<Rightarrow> string \<Rightarrow> (nat list \<times> nat option \<times> string) option" where
  "ipv6_groups ip ellipsis s =
     (if length ip \<ge> 16 then Some (ip, ellipsis, s)
      else
        let group = takeWhile is_hex s; rest = dropWhile is_hex s in
        if group = [] \<or> length group > 4 then None
        else if rest \<noteq> [] \<and> hd rest = CHR ''.'' then
          (if ellipsis = None \<and> length ip \<noteq> 12 \<or> length ip + 4 > 16 then None
           else (case parse_ipv4_fields s of None \<Rightarrow> None | Some bs \<Rightarrow> Some (ip @ bs, ellipsis, [])))
        else
          let ip1 = ip @ [hex_number group div 256, hex_number group mod 256] in
          (case rest of
             [] \<Rightarrow> Some (ip1, ellipsis, [])
           | c # cs \<Rightarrow>
               if c \<noteq> CHR '':'' \<or> cs = [] then None
               else if hd cs = CHR '':'' then
                 (if ellipsis \<noteq> None then None
                  else if tl cs = [] then Some (ip1, Some (length ip1), [])
                  else ipv6_groups ip1 (Some (length ip1)) (tl cs))
               else ipv6_groups ip1 ellipsis cs))"
  by pat_completeness auto
termination
  by (relation "measure (\<lambda>(ip, e, s). 16 - length ip)") auto

declare ipv6_groups.simps [simp del]

definition parse_ipv6 :: "string \<Rightarrow> nat list option" where
  "parse_ipv6 s =
     (let leading = (case s of a # b # _ \<Rightarrow> a = CHR '':'' \<and> b = CHR '':'' | _ \<Rightarrow> False);
          body = (if leading then drop 2 s else s) in
      if leading \<and> body = [] then Some (replicate 16 0)
      else (case ipv6_groups [] (if leading then Some 0 else None) body of
        None \<Rightarrow> None
      | Some (ip, ellipsis, rest) \<Rightarrow>
          if rest \<noteq> [] then None
          else (case ellipsis of
            None \<Rightarrow> if length ip < 16 then None else Some ip
          | Some e \<Rightarrow>
              if length ip < 16 then Some (take e ip @ replicate (16 - length ip) 0 @ drop e ip) else None)))"

section \<open>Addresses\<close>

definition ipv4_prefix :: "nat list" where
  "ipv4_prefix = replicate 10 0 @ [255, 255]"

definition first_separator :: "string \<Rightarrow> char option" where
  "first_separator s = find (\<lambda>c. c = CHR ''.'' \<or> c = CHR '':'' \<or> c = CHR ''%'') s"

text \<open>\<open>ParseIP\<close>; an address with a zone is not one.\<close>

definition parse_ip :: "string \<Rightarrow> nat list option" where
  "parse_ip s =
     (case first_separator s of
        None \<Rightarrow> None
      | Some c \<Rightarrow>
          if c = CHR ''.'' then map_option ((@) ipv4_prefix) (parse_ipv4_fields s)
          else if c = CHR ''%'' \<or> CHR ''%'' \<in> set s then None
          else parse_ipv6 s)"

definition ip_to4 :: "nat list \<Rightarrow> nat list option" where
  "ip_to4 ip = (if length ip = 16 \<and> take 12 ip = ipv4_prefix then Some (drop 12 ip) else None)"

definition ip_is_loopback :: "nat list \<Rightarrow> bool" where
  "ip_is_loopback ip =
     (case ip_to4 ip of Some b \<Rightarrow> hd b = 127 | None \<Rightarrow> ip = replicate 15 0 @ [1])"

definition ip_is_unspecified :: "nat list \<Rightarrow> bool" where
  "ip_is_unspecified ip \<longleftrightarrow> ip = ipv4_prefix @ replicate 4 0 \<or> ip = replicate 16 0"

definition join_host_port :: "string \<Rightarrow> string \<Rightarrow> string" where
  "join_host_port host port =
     (if CHR '':'' \<in> set host then ''['' @ host @ '']:'' @ port else host @ '':'' @ port)"

section \<open>Facts\<close>

lemma parse_octet_bound: "parse_octet s = Some n \<Longrightarrow> n \<le> 255"
  by (auto simp: parse_octet_def split: if_splits)

lemma parse_ipv4_length: "parse_ipv4_fields s = Some bs \<Longrightarrow> length bs = 4"
  by (auto simp: parse_ipv4_fields_def Let_def split: if_splits)

lemma ip_examples:
  "parse_ip ''127.0.0.1'' = Some (ipv4_prefix @ [127, 0, 0, 1])"
  "parse_ip ''::1'' = Some (replicate 15 0 @ [1])"
  "parse_ip ''::'' = Some (replicate 16 0)"
  "parse_ip ''1::ffff:10.0.0.1'' = Some ([0, 1] @ replicate 8 0 @ [255, 255, 10, 0, 0, 1])"
  "parse_ip ''127.0.0.01'' = None" "parse_ip ''localhost'' = None" "parse_ip ''1::2::3'' = None"
  "parse_ip ''fe80::1%eth0'' = None"
  by code_simp+

end
