(* ===== verification/Container.thy ===== *)
theory Container
  imports Handoff ConfigResolver GoNet "HOL-Library.List_Lexorder" "HOL-Library.Char_ord" "HOL-Library.Multiset"
begin

text \<open>
  \<open>internal/migration/container_selector.go\<close> and \<open>container_inspector.go\<close>: listing and
  inspecting the containers of the trusted image, and selecting the one legacy database
  container that the resolved configuration corroborates.  The JSON that \<open>docker inspect\<close>
  prints is decoded by a parameter; Go maps are association lists in the order in which
  they are iterated.
\<close>

section \<open>Types\<close>

definition legacy_postgresql_master_name :: string where
  "legacy_postgresql_master_name = ''postgres_postgresql-master_1''"

definition canonical_postgresql11_image :: "string \<Rightarrow> string option" where
  "canonical_postgresql11_image reference =
     (if reference \<in> {postgresql11_image, ''docker.io/bitnami/postgresql:11-debian-10''}
      then Some postgresql11_image else None)"

datatype container_state = ContainerUnknown | ContainerRunning | ContainerStopped
datatype health_status = HealthNone | HealthHealthy | HealthUnhealthy | HealthUnknown

record container_summary =
  cs_id :: string
  cs_image :: string

record container_endpoint =
  ep_host :: string
  ep_port :: int
  container_local :: bool

datatype port_binding =
  PortBinding (pb_container_port: int) (pb_host_port: int) (pb_host_ip: string)

record container_labels =
  compose_project :: string
  compose_service :: string

record container_details =
  cd_id :: string
  cd_name :: string
  cd_image :: string
  cd_digest :: string
  cd_state :: container_state
  cd_health :: health_status
  cd_network_mode :: string
  database_names :: "string list"
  usernames :: "string list"
  endpoints :: "container_endpoint list"
  published_ports :: "port_binding list"
  mount_kinds :: "string list"
  labels :: container_labels

record container_identity =
  ci_id :: string
  ci_image :: string
  ci_digest :: string

text \<open>
  The reasons the correlation gives, and the errors of the discovery.  A classified error
  wraps the precondition error and its reason.
\<close>

datatype container_reason =
    NoExactImageCandidate | IdentityMismatch | EndpointMismatch | UnsafeState | StoppedState

datatype container_error =
    ContainerPrecondition | AmbiguousContainer | ContainerPermission | Classified container_reason

section \<open>Endpoints\<close>

fun local_endpoint_evidence :: "container_endpoint list \<Rightarrow> string \<Rightarrow> int \<Rightarrow> bool \<times> bool" where
  "local_endpoint_evidence [] host port = (False, False)"
| "local_endpoint_evidence (e # es) host port =
     (case local_endpoint_evidence es host port of
        (matches, conflicts) \<Rightarrow>
          if \<not> container_local e \<or> ep_host e \<noteq> host then (matches, conflicts)
          else if ep_port e = port then (True, conflicts) else (matches, True))"

definition loopback_family :: "string \<Rightarrow> nat" where
  "loopback_family host =
     (if host = ''localhost'' then 46
      else (case parse_ip host of
        None \<Rightarrow> 0
      | Some ip \<Rightarrow> if \<not> ip_is_loopback ip then 0 else if ip_to4 ip \<noteq> None then 4 else 6))"

definition binding_reachable_from_loopback :: "string \<Rightarrow> nat \<Rightarrow> bool" where
  "binding_reachable_from_loopback host_ip family \<longleftrightarrow>
     (case parse_ip host_ip of
        None \<Rightarrow> False
      | Some ip \<Rightarrow>
          (ip_is_unspecified ip \<or> ip_is_loopback ip) \<and>
          (family = 46 \<or> family = (if ip_to4 ip \<noteq> None then 4 else 6)))"

definition published_endpoint_evidence :: "port_binding list \<Rightarrow> string \<Rightarrow> int \<Rightarrow> bool" where
  "published_endpoint_evidence bindings host host_port \<longleftrightarrow>
     loopback_family host \<noteq> 0 \<and>
     list_ex (\<lambda>b. pb_host_port b = host_port \<and> pb_container_port b = 5432 \<and>
                  binding_reachable_from_loopback (pb_host_ip b) (loopback_family host)) bindings"

section \<open>Correlation\<close>

text \<open>\<open>correlateCandidate\<close>: \<open>None\<close> for a corroborated candidate, or the reason against it.\<close>

definition endpoint_matches :: "container_details \<Rightarrow> resolved_config \<Rightarrow> bool" where
  "endpoint_matches d c \<longleftrightarrow>
     fst (local_endpoint_evidence (endpoints d) (rc_host c) (rc_port c)) \<or>
     loopback_family (rc_host c) \<noteq> 0 \<and> published_endpoint_evidence (published_ports d) (rc_host c) (rc_port c)"

definition labels_present :: "container_details \<Rightarrow> bool" where
  "labels_present d \<longleftrightarrow> compose_project (labels d) \<noteq> [] \<or> compose_service (labels d) \<noteq> []"

definition labels_match :: "container_details \<Rightarrow> bool" where
  "labels_match d \<longleftrightarrow>
     compose_project (labels d) = ''postgres'' \<and> compose_service (labels d) = ''postgresql-master''"

definition correlate_candidate :: "container_details \<Rightarrow> resolved_config \<Rightarrow> container_reason option" where
  "correlate_candidate d c =
     (if cd_name d \<noteq> legacy_postgresql_master_name \<or> \<not> full_container_id (cd_id d)
         \<or> canonical_postgresql11_image (cd_image d) = None
      then Some IdentityMismatch
      else if rc_database c \<notin> set (database_names d) \<or> rc_username c \<notin> set (usernames d)
      then Some IdentityMismatch
      else if labels_present d \<and> \<not> labels_match d then Some IdentityMismatch
      else if mount_kinds d = [] \<and> \<not> labels_match d then Some UnsafeState
      else if \<not> endpoint_matches d c then Some EndpointMismatch
      else if snd (local_endpoint_evidence (endpoints d) (rc_host c) (rc_port c)) then Some UnsafeState
      else if cd_state d = ContainerStopped then Some StoppedState
      else if cd_state d \<noteq> ContainerRunning \<or> cd_health d = HealthUnhealthy \<or> cd_health d = HealthUnknown
      then Some UnsafeState
      else None)"

section \<open>Discovery\<close>

text \<open>A \<open>ContainerInspector\<close>.\<close>

record 'w inspector =
  in_candidates :: "string \<Rightarrow> ('w, container_error + container_summary list) meff"
  in_inspect :: "string \<Rightarrow> ('w, container_error + container_details) meff"

text \<open>
  Inspection of every candidate: the details by ID and whether some inspection failed, or
  the permission error that ends it at once.
\<close>

fun inspect_all ::
  "'w inspector \<Rightarrow> container_summary list \<Rightarrow> (string \<rightharpoonup> container_details) \<Rightarrow> bool \<Rightarrow>
   ('w, container_error + (string \<rightharpoonup> container_details) \<times> bool) meff" where
  "inspect_all ins [] found failed c s = (Inr (found, failed), s)"
| "inspect_all ins (candidate # rest) found failed c s =
     (if canonical_postgresql11_image (cs_image candidate) = None \<or> \<not> full_container_id (cs_id candidate)
      then inspect_all ins rest found True c s
      else (case in_inspect ins (cs_id candidate) c s of
        (Inl e, s1) \<Rightarrow>
          if e = ContainerPermission then (Inl ContainerPermission, s1)
          else inspect_all ins rest found True c s1
      | (Inr details, s1) \<Rightarrow> inspect_all ins rest (found(cs_id candidate \<mapsto> details)) failed c s1))"

definition named_candidates :: "(string \<rightharpoonup> container_details) \<Rightarrow> container_summary list \<Rightarrow> container_details list" where
  "named_candidates found candidates =
     filter (\<lambda>d. cd_name d = legacy_postgresql_master_name) (List.map_filter (\<lambda>x. found (cs_id x)) candidates)"

definition identity_of :: "container_details \<Rightarrow> container_identity" where
  "identity_of d = \<lparr>ci_id = cd_id d, ci_image = postgresql11_image, ci_digest = cd_digest d\<rparr>"

definition select_container ::
  "container_details list \<Rightarrow> resolved_config \<Rightarrow> container_error + container_identity" where
  "select_container candidates config =
     (let reasons = map (\<lambda>d. correlate_candidate d config) candidates;
          corroborated = filter (\<lambda>d. correlate_candidate d config = None) candidates in
      case corroborated of
        [d] \<Rightarrow> Inr (identity_of d)
      | _ # _ # _ \<Rightarrow> Inl AmbiguousContainer
      | [] \<Rightarrow>
          Inl (if Some StoppedState \<in> set reasons then Classified StoppedState
               else if Some UnsafeState \<in> set reasons then Classified UnsafeState
               else if Some EndpointMismatch \<in> set reasons then Classified EndpointMismatch
               else if Some IdentityMismatch \<in> set reasons then Classified IdentityMismatch
               else ContainerPrecondition))"

definition discover_container ::
  "'w inspector option \<Rightarrow> resolved_config \<Rightarrow> ('w, container_error + container_identity) meff" where
  "discover_container ins config c s =
     (case ins of
        None \<Rightarrow> (Inl ContainerPrecondition, s)
      | Some i \<Rightarrow>
          if ctx_err c (clock s) \<noteq> None \<or> rc_host config = [] \<or> rc_port config < 1
             \<or> rc_database config = [] \<or> rc_username config = []
          then (Inl ContainerPrecondition, s)
          else (case in_candidates i postgresql11_image c s of
            (Inl e, s1) \<Rightarrow>
              (Inl (if e = ContainerPermission then ContainerPermission else ContainerPrecondition), s1)
          | (Inr candidates, s1) \<Rightarrow>
              if candidates = [] then (Inl (Classified NoExactImageCandidate), s1)
              else let sorted = sort_key cs_id candidates in
                (case inspect_all i sorted Map.empty False c s1 of
                   (Inl e, s2) \<Rightarrow> (Inl e, s2)
                 | (Inr (found, failed), s2) \<Rightarrow>
                     if failed then (Inl ContainerPrecondition, s2)
                     else (select_container (named_candidates found sorted) config, s2))))"

section \<open>The Docker inspector\<close>

type_synonym 'w docker_runner = "string \<Rightarrow> string list \<Rightarrow> ('w, string + string) meff"

definition docker_failure :: "string \<Rightarrow> container_error" where
  "docker_failure e = (if e = sudo_docker_permission_code then ContainerPermission else ContainerPrecondition)"

text \<open>One line of \<open>docker ps\<close>: skipped, a candidate, or malformed.\<close>

definition candidate_line :: "string \<Rightarrow> string \<Rightarrow> container_summary option option" where
  "candidate_line img line =
     (if line = [] then Some None
      else (case split_char CHR 0x09 line of
        [i, reference] \<Rightarrow>
          if \<not> full_container_id i then None
          else Some (if canonical_postgresql11_image reference = Some img
                     then Some \<lparr>cs_id = i, cs_image = img\<rparr> else None)
      | _ \<Rightarrow> None))"

fun candidate_lines :: "string \<Rightarrow> string list \<Rightarrow> container_summary list option" where
  "candidate_lines img [] = Some []"
| "candidate_lines img (line # lines) =
     (case candidate_line img line of
        None \<Rightarrow> None
      | Some found \<Rightarrow>
          map_option ((@) (case found of None \<Rightarrow> [] | Some x \<Rightarrow> [x])) (candidate_lines img lines))"

definition ps_args :: "string list" where
  "ps_args = [''ps'', ''--all'', ''--no-trunc'', ''--format'', ''{{.ID}}'' @ [CHR 0x09] @ ''{{.Image}}'']"

definition cli_candidates ::
  "'w docker_runner option \<Rightarrow> string \<Rightarrow> ('w, container_error + container_summary list) meff" where
  "cli_candidates r img c s =
     (case r of
        None \<Rightarrow> (Inl ContainerPrecondition, s)
      | Some run \<Rightarrow>
          if img \<noteq> postgresql11_image then (Inl ContainerPrecondition, s)
          else (case run ''docker'' ps_args c s of
            (Inl e, s1) \<Rightarrow> (Inl (docker_failure e), s1)
          | (Inr listing, s1) \<Rightarrow>
              (case candidate_lines img (split_char CHR 0x0A (trim_space listing)) of
                 None \<Rightarrow> (Inl ContainerPrecondition, s1)
               | Some cs \<Rightarrow> (Inr cs, s1))))"

text \<open>
  What \<open>docker inspect\<close> reports of one container (the struct \<open>dockerInspect\<close>); the maps
  \<open>Labels\<close>, \<open>Networks\<close> and \<open>Ports\<close> are association lists.
\<close>

record docker_inspect =
  di_id :: string
  di_name :: string
  di_image :: string
  di_env :: "string list"
  di_labels :: "(string \<times> string) list"
  di_running :: bool
  di_health :: "string option"
  di_network_mode :: string
  di_mounts :: "(string \<times> string) list"
  di_networks :: "(string \<times> string list) list"
  di_ports :: "(string \<times> (string \<times> string) list) list"

definition label_of :: "(string \<times> string) list \<Rightarrow> string \<Rightarrow> string" where
  "label_of m k = (case map_of m k of None \<Rightarrow> [] | Some v \<Rightarrow> v)"

definition health_of :: "string option \<Rightarrow> health_status" where
  "health_of h =
     (case h of
        None \<Rightarrow> HealthNone
      | Some status \<Rightarrow>
          if status = ''healthy'' then HealthHealthy
          else if status = ''unhealthy'' then HealthUnhealthy else HealthUnknown)"

definition env_entry :: "string \<Rightarrow> string \<Rightarrow> string option" where
  "env_entry name env =
     (case cut_char CHR ''='' env of
        None \<Rightarrow> None
      | Some (key, v) \<Rightarrow> if v \<noteq> [] \<and> key = name then Some v else None)"

definition mount_kind :: "string \<times> string \<Rightarrow> string option" where
  "mount_kind m =
     (if fst m \<noteq> [] \<and> snd m = ''/bitnami/postgresql'' then Some ''bitnami-postgresql-data'' else None)"

definition network_endpoints :: "(string \<times> string list) list \<Rightarrow> container_endpoint list" where
  "network_endpoints networks =
     concat (map (\<lambda>n. map (\<lambda>alias. \<lparr>ep_host = alias, ep_port = 5432, container_local = True\<rparr>) (snd n)) networks)"

definition max_published_bindings :: nat where "max_published_bindings = 64"

definition port_number :: "string \<Rightarrow> int option" where
  "port_number s = (case atoi_ok s of None \<Rightarrow> None | Some n \<Rightarrow> if n < 1 \<or> 65535 < n then None else Some n)"

fun add_bindings :: "int \<Rightarrow> (string \<times> string) list \<Rightarrow> port_binding list \<Rightarrow> port_binding list option" where
  "add_bindings port [] acc = Some acc"
| "add_bindings port ((host_ip, host_port) # bs) acc =
     (case port_number host_port of
        None \<Rightarrow> None
      | Some n \<Rightarrow>
          if host_ip = [] \<or> max_published_bindings \<le> length acc then None
          else add_bindings port bs (acc @ [PortBinding port n host_ip]))"

fun add_ports :: "(string \<times> (string \<times> string) list) list \<Rightarrow> port_binding list \<Rightarrow> port_binding list option" where
  "add_ports [] acc = Some acc"
| "add_ports ((port, bindings) # ps) acc =
     (case cut_char CHR ''/'' port of
        None \<Rightarrow> None
      | Some (number, protocol) \<Rightarrow>
          (case port_number number of
             None \<Rightarrow> None
           | Some n \<Rightarrow>
               if protocol \<noteq> ''tcp'' then add_ports ps acc
               else Option.bind (add_bindings n bindings acc) (add_ports ps)))"

definition binding_less_eq :: "port_binding \<Rightarrow> port_binding \<Rightarrow> bool" where
  "binding_less_eq a b \<longleftrightarrow>
     (if pb_container_port a \<noteq> pb_container_port b then pb_container_port a < pb_container_port b
      else if pb_host_port a \<noteq> pb_host_port b then pb_host_port a < pb_host_port b
      else pb_host_ip a \<le> pb_host_ip b)"

text \<open>\<open>PortBinding\<close> lists its fields in the order the code sorts by.\<close>

instantiation port_binding :: linorder
begin

definition less_eq_port_binding :: "port_binding \<Rightarrow> port_binding \<Rightarrow> bool" where
  "less_eq_port_binding = binding_less_eq"

definition less_port_binding :: "port_binding \<Rightarrow> port_binding \<Rightarrow> bool" where
  "less_port_binding a b \<longleftrightarrow> binding_less_eq a b \<and> \<not> binding_less_eq b a"

instance
proof
  fix a b c :: port_binding
  show "a < b \<longleftrightarrow> a \<le> b \<and> \<not> b \<le> a" by (simp add: less_port_binding_def less_eq_port_binding_def)
  show "a \<le> a" by (simp add: less_eq_port_binding_def binding_less_eq_def)
  show "a \<le> b \<Longrightarrow> b \<le> c \<Longrightarrow> a \<le> c"
    by (auto simp: less_eq_port_binding_def binding_less_eq_def split: if_splits)
  show "a \<le> b \<Longrightarrow> b \<le> a \<Longrightarrow> a = b"
    by (auto simp: less_eq_port_binding_def binding_less_eq_def split: if_splits
        intro: port_binding.expand)
  show "a \<le> b \<or> b \<le> a"
    by (auto simp: less_eq_port_binding_def binding_less_eq_def)
qed

end

definition safe_details :: "docker_inspect \<Rightarrow> container_details option" where
  "safe_details raw =
     (case canonical_postgresql11_image (di_image raw) of
        None \<Rightarrow> None
      | Some canonical \<Rightarrow>
          if \<not> full_container_id (di_id raw) then None
          else (case add_ports (di_ports raw) [] of
            None \<Rightarrow> None
          | Some bound \<Rightarrow> Some
              \<lparr>cd_id = di_id raw, cd_name = trim_prefix ''/'' (di_name raw), cd_image = canonical,
               cd_digest = [],
               cd_state = (if di_running raw then ContainerRunning else ContainerStopped),
               cd_health = health_of (di_health raw), cd_network_mode = di_network_mode raw,
               database_names = List.map_filter (env_entry ''POSTGRESQL_DATABASE'') (di_env raw),
               usernames = List.map_filter (env_entry ''POSTGRESQL_USERNAME'') (di_env raw),
               endpoints = network_endpoints (di_networks raw),
               published_ports = remdups_adj (sort bound),
               mount_kinds = List.map_filter mount_kind (di_mounts raw),
               labels = \<lparr>compose_project = label_of (di_labels raw) ''com.docker.compose.project'',
                         compose_service = label_of (di_labels raw) ''com.docker.compose.service''\<rparr>\<rparr>))"

definition cli_inspect ::
  "(string \<Rightarrow> docker_inspect list option) \<Rightarrow> 'w docker_runner option \<Rightarrow> string \<Rightarrow>
   ('w, container_error + container_details) meff" where
  "cli_inspect decode r i c s =
     (case r of
        None \<Rightarrow> (Inl ContainerPrecondition, s)
      | Some run \<Rightarrow>
          if \<not> full_container_id i then (Inl ContainerPrecondition, s)
          else (case run ''docker'' [''inspect'', i] c s of
            (Inl e, s1) \<Rightarrow> (Inl (docker_failure e), s1)
          | (Inr printed, s1) \<Rightarrow>
              (case decode printed of
                 Some [raw] \<Rightarrow>
                   (case safe_details raw of
                      None \<Rightarrow> (Inl ContainerPrecondition, s1)
                    | Some d \<Rightarrow> if cd_id d \<noteq> i then (Inl ContainerPrecondition, s1) else (Inr d, s1))
               | _ \<Rightarrow> (Inl ContainerPrecondition, s1))))"

definition cli_inspector ::
  "(string \<Rightarrow> docker_inspect list option) \<Rightarrow> 'w docker_runner option \<Rightarrow> 'w inspector" where
  "cli_inspector decode r = \<lparr>in_candidates = cli_candidates r, in_inspect = cli_inspect decode r\<rparr>"

end
