(* ===== verification/ContainerProperties.thy ===== *)
theory ContainerProperties
  imports Container
begin

text \<open>
  The selection of the legacy database container: what corroborates a container, the
  discovery over any source of candidates and its instance on the Docker inspector, and
  the port bindings that an inspection keeps.
\<close>

section \<open>Corroboration\<close>

definition served_locally :: "container_details \<Rightarrow> resolved_config \<Rightarrow> bool" where
  "served_locally d c \<longleftrightarrow>
     (\<exists>e\<in>set (endpoints d). container_local e \<and> ep_host e = rc_host c \<and> ep_port e = rc_port c) \<or>
     (\<exists>b\<in>set (published_ports d). loopback_family (rc_host c) \<noteq> 0 \<and> pb_host_port b = rc_port c \<and>
        pb_container_port b = 5432 \<and> binding_reachable_from_loopback (pb_host_ip b) (loopback_family (rc_host c)))"

definition corroborates :: "container_details \<Rightarrow> resolved_config \<Rightarrow> bool" where
  "corroborates d c \<longleftrightarrow>
     cd_name d = legacy_postgresql_master_name \<and> full_container_id (cd_id d) \<and>
     canonical_postgresql11_image (cd_image d) \<noteq> None \<and>
     rc_database c \<in> set (database_names d) \<and> rc_username c \<in> set (usernames d) \<and>
     (labels_match d \<or> \<not> labels_present d \<and> mount_kinds d \<noteq> []) \<and>
     served_locally d c \<and>
     (\<forall>e\<in>set (endpoints d). container_local e \<and> ep_host e = rc_host c \<longrightarrow> ep_port e = rc_port c) \<and>
     cd_state d = ContainerRunning \<and> cd_health d \<in> {HealthNone, HealthHealthy}"

lemma local_endpoint_evidence_eq:
  "local_endpoint_evidence es host port =
     (\<exists>e\<in>set es. container_local e \<and> ep_host e = host \<and> ep_port e = port,
      \<exists>e\<in>set es. container_local e \<and> ep_host e = host \<and> ep_port e \<noteq> port)"
  by (induction es) auto

lemma endpoint_matches_eq: "endpoint_matches d c \<longleftrightarrow> served_locally d c"
  by (auto simp: endpoint_matches_def served_locally_def local_endpoint_evidence_eq
      published_endpoint_evidence_def list_ex_iff)

lemma correlate_candidate_eq: "correlate_candidate d c = None \<longleftrightarrow> corroborates d c"
  unfolding correlate_candidate_def corroborates_def endpoint_matches_eq local_endpoint_evidence_eq
  by (cases "cd_health d") (auto simp: labels_match_def labels_present_def)

lemma select_container_unique:
  "select_container (filter (\<lambda>d. cd_name d = legacy_postgresql_master_name) ds) config = Inr chosen \<longleftrightarrow>
   (\<exists>d. filter (\<lambda>d. corroborates d config) ds = [d] \<and> chosen = identity_of d)"
proof -
  have "filter (\<lambda>d. correlate_candidate d config = None)
      (filter (\<lambda>d. cd_name d = legacy_postgresql_master_name) ds) = filter (\<lambda>d. corroborates d config) ds"
    by (induction ds) (auto simp: correlate_candidate_eq corroborates_def)
  then show ?thesis
    by (auto simp: select_container_def Let_def split: list.splits)
qed

lemma sort_key_names:
  assumes "\<And>x. x \<in> set xs \<Longrightarrow> g x = f x"
  shows "map g (sort_key f xs) = sort (map f xs)"
proof -
  have "map g (sort_key f xs) = map f (sort_key f xs)" using assms by simp
  also have "\<dots> = sort (map f xs)"
    by (rule properties_for_sort [symmetric]) (simp_all add: mset_map)
  finally show ?thesis .
qed

section \<open>Discovery over any source of candidates\<close>

text \<open>
  What the discovery relies on: the source lists trusted candidates, the details it gives
  are those of the container it was asked for, and it changes the host only by steps
  that \<open>reads\<close> allows.
\<close>

locale container_source =
  fixes ins :: "'w inspector"
    and reads :: "'w msys \<Rightarrow> 'w msys \<Rightarrow> bool"
  assumes candidates_trusted:
      "in_candidates ins img c s = (Inr cs, s') \<Longrightarrow> x \<in> set cs \<Longrightarrow>
       full_container_id (cs_id x) \<and> canonical_postgresql11_image (cs_image x) \<noteq> None"
    and candidates_reads: "in_candidates ins img c s = (r1, s') \<Longrightarrow> reads s s'"
    and inspect_same: "in_inspect ins i c s = (Inr d, s') \<Longrightarrow> cd_id d = i"
    and inspect_reads: "in_inspect ins i c s = (r2, s') \<Longrightarrow> reads s s'"
    and reads_refl: "reads s s"
    and reads_trans: "reads s s1 \<Longrightarrow> reads s1 s2 \<Longrightarrow> reads s s2"
begin

lemma inspect_all_reads: "inspect_all ins cs found failed c s = (r, s') \<Longrightarrow> reads s s'"
  by (induction cs arbitrary: found failed s)
    (auto split: if_splits prod.splits sum.splits intro: reads_refl inspect_reads reads_trans)

lemma inspect_all_sound:
  "inspect_all ins cs found failed c s = (Inr (found', False), s') \<Longrightarrow>
   \<not> failed \<and> (\<forall>x\<in>set cs. \<exists>d. found' (cs_id x) = Some d \<and> cd_id d = cs_id x) \<and>
   (\<forall>i d. found i = Some d \<and> cd_id d = i \<longrightarrow> (\<exists>d'. found' i = Some d' \<and> cd_id d' = i))"
proof (induction cs arbitrary: found failed s)
  case (Cons x cs)
  from Cons.prems obtain d s1 where
    step: "in_inspect ins (cs_id x) c s = (Inr d, s1)"
      "inspect_all ins cs (found(cs_id x \<mapsto> d)) failed c s1 = (Inr (found', False), s')"
    by (auto split: if_splits prod.splits sum.splits dest: Cons.IH)
  from Cons.IH [OF step(2)] inspect_same [OF step(1)] show ?case
    by (auto simp: fun_upd_apply split: if_splits)
qed simp

lemma discover_reads: "discover_container (Some ins) config c s = (r, s') \<Longrightarrow> reads s s'"
  by (auto simp: discover_container_def Let_def split: if_splits prod.splits sum.splits
      intro: reads_refl reads_trans dest!: candidates_reads inspect_all_reads)

lemma discover_listing:
  assumes "discover_container (Some ins) config c s = (Inr chosen, s')"
  obtains cs s1 found where
    "in_candidates ins postgresql11_image c s = (Inr cs, s1)"
    "inspect_all ins (sort_key cs_id cs) Map.empty False c s1 = (Inr (found, False), s')"
    "select_container (named_candidates found (sort_key cs_id cs)) config = Inr chosen"
  using assms that
  by (auto simp: discover_container_def Let_def split: if_splits prod.splits sum.splits)

lemma discover_unique:
  assumes "discover_container (Some ins) config c s = (Inr chosen, s')"
  shows "\<exists>cs s1 ds d. in_candidates ins postgresql11_image c s = (Inr cs, s1) \<and>
     map cd_id ds = sort (map cs_id cs) \<and> filter (\<lambda>d. corroborates d config) ds = [d] \<and> chosen = identity_of d"
proof -
  from assms obtain cs s1 found where
    listing: "in_candidates ins postgresql11_image c s = (Inr cs, s1)"
    and inspected: "inspect_all ins (sort_key cs_id cs) Map.empty False c s1 = (Inr (found, False), s')"
    and selected: "select_container (named_candidates found (sort_key cs_id cs)) config = Inr chosen"
    by (rule discover_listing)
  define ds where "ds = map (\<lambda>x. the (found (cs_id x))) (sort_key cs_id cs)"
  from inspect_all_sound [OF inspected]
  have each: "\<forall>x\<in>set cs. \<exists>d. found (cs_id x) = Some d \<and> cd_id d = cs_id x" by simp
  have "named_candidates found xs =
      filter (\<lambda>d. cd_name d = legacy_postgresql_master_name) (map (\<lambda>x. the (found (cs_id x))) xs)"
    if "set xs \<subseteq> set cs" for xs
    using that each by (induction xs) (auto simp: named_candidates_def List.map_filter_simps)
  then have "select_container (filter (\<lambda>d. cd_name d = legacy_postgresql_master_name) ds) config = Inr chosen"
    using selected by (simp add: ds_def)
  then have "\<exists>d. filter (\<lambda>d. corroborates d config) ds = [d] \<and> chosen = identity_of d"
    by (auto simp: select_container_unique)
  moreover have "cd_id (the (found (cs_id x))) = cs_id x" if "x \<in> set cs" for x
    using each that by force
  then have "map cd_id ds = sort (map cs_id cs)"
    using sort_key_names [of cs "cd_id \<circ> (\<lambda>x. the (found (cs_id x)))" cs_id] by (simp add: ds_def)
  ultimately show ?thesis using listing by blast
qed

end

section \<open>Discovery through Docker\<close>

text \<open>The only processes that the inspector may run, by the specification handed to \<open>sudo\<close>.\<close>

fun docker_query :: "migration_event \<Rightarrow> bool" where
  "docker_query (Exec spec ok) \<longleftrightarrow>
     p_name spec = ''docker'' \<and>
     (p_args spec = ps_args \<or> (\<exists>i. full_container_id i \<and> p_args spec = [''inspect'', i]))"
| "docker_query e \<longleftrightarrow> False"

definition queries_only :: "'w msys \<Rightarrow> 'w msys \<Rightarrow> bool" where
  "queries_only s s' \<longleftrightarrow> (\<exists>es. grew s s' es \<and> list_all docker_query es)"

lemma queries_only_refl: "queries_only s s"
  unfolding queries_only_def by (rule exI [of _ "[]"]) simp

lemma queries_only_trans: "queries_only s s1 \<Longrightarrow> queries_only s1 s2 \<Longrightarrow> queries_only s s2"
  unfolding queries_only_def by (metis grew_trans list_all_append)

lemma run_docker_queries:
  assumes "run_docker x name args c s = (r, s')"
    and "name = ''docker''" "args = ps_args \<or> (\<exists>i. full_container_id i \<and> args = [''inspect'', i])"
  shows "queries_only s s'"
proof -
  have "s' = s \<or> (\<exists>p. exec_call (sudo_docker x)
      \<lparr>p_name = name, p_args = args, p_timeout = 30 * 1000000000\<rparr> c s = (p, s'))"
    using assms(1) by (auto simp: run_docker_def split: if_splits prod.splits)
  then show ?thesis
  proof
    assume "\<exists>p. exec_call (sudo_docker x) \<lparr>p_name = name, p_args = args, p_timeout = 30 * 1000000000\<rparr> c s = (p, s')"
    then obtain p where
      "exec_call (sudo_docker x) \<lparr>p_name = name, p_args = args, p_timeout = 30 * 1000000000\<rparr> c s = (p, s')" ..
    note exec_call_grew [OF this]
    moreover have "docker_query (Exec \<lparr>p_name = name, p_args = args, p_timeout = 30 * 1000000000\<rparr> (p_outcome (fst p)))"
      using assms(2,3) by simp
    ultimately show ?thesis unfolding queries_only_def by fastforce
  qed (simp add: queries_only_refl)
qed

lemma candidate_lines_trusted:
  "candidate_lines img ls = Some cs \<Longrightarrow> canonical_postgresql11_image img \<noteq> None \<Longrightarrow> x \<in> set cs \<Longrightarrow>
   full_container_id (cs_id x) \<and> canonical_postgresql11_image (cs_image x) \<noteq> None"
  by (induction ls arbitrary: cs)
    (auto simp: candidate_line_def split: option.splits if_splits list.splits)

lemma postgresql11_image_canonical: "canonical_postgresql11_image postgresql11_image \<noteq> None"
  by (simp add: canonical_postgresql11_image_def)

interpretation docker_source: container_source
  "cli_inspector decode (Some (run_docker x))" queries_only for decode and x :: "'w executor"
proof
  fix img c s cs s' y
  assume "in_candidates (cli_inspector decode (Some (run_docker x))) img c s = (Inr cs, s')" "y \<in> set cs"
  then show "full_container_id (cs_id y) \<and> canonical_postgresql11_image (cs_image y) \<noteq> None"
    by (auto simp: cli_inspector_def cli_candidates_def split: if_splits prod.splits sum.splits option.splits
        dest!: candidate_lines_trusted [OF _ postgresql11_image_canonical])
next
  fix img c s r and s' :: "'w msys"
  assume "in_candidates (cli_inspector decode (Some (run_docker x))) img c s = (r, s')"
  then show "queries_only s s'"
    by (auto simp: cli_inspector_def cli_candidates_def queries_only_refl
        split: if_splits prod.splits sum.splits option.splits intro: run_docker_queries)
next
  fix i c s d s'
  assume "in_inspect (cli_inspector decode (Some (run_docker x))) i c s = (Inr d, s')"
  then show "cd_id d = i"
    by (auto simp: cli_inspector_def cli_inspect_def
        split: if_splits prod.splits sum.splits option.splits list.splits)
next
  fix i c s r and s' :: "'w msys"
  assume "in_inspect (cli_inspector decode (Some (run_docker x))) i c s = (r, s')"
  then show "queries_only s s'"
    by (auto simp: cli_inspector_def cli_inspect_def queries_only_refl
        split: if_splits prod.splits sum.splits option.splits list.splits intro: run_docker_queries)
qed (auto intro: queries_only_refl queries_only_trans)

section \<open>Published bindings\<close>

text \<open>What the loops over the ports compute, without their order of checks.\<close>

fun binding_ok :: "string \<times> string \<Rightarrow> bool" where
  "binding_ok (host_ip, host_port) \<longleftrightarrow> host_ip \<noteq> [] \<and> port_number host_port \<noteq> None"

definition port_ok :: "string \<times> (string \<times> string) list \<Rightarrow> bool" where
  "port_ok p \<longleftrightarrow>
     (case cut_char CHR ''/'' (fst p) of
        None \<Rightarrow> False
      | Some (number, protocol) \<Rightarrow>
          port_number number \<noteq> None \<and> (protocol = ''tcp'' \<longrightarrow> list_all binding_ok (snd p)))"

definition port_bindings :: "string \<times> (string \<times> string) list \<Rightarrow> port_binding list" where
  "port_bindings p =
     (case cut_char CHR ''/'' (fst p) of
        None \<Rightarrow> []
      | Some (number, protocol) \<Rightarrow>
          if protocol = ''tcp''
          then map (\<lambda>b. PortBinding (the (port_number number)) (the (port_number (snd b))) (fst b)) (snd p)
          else [])"

definition tcp_bindings :: "(string \<times> (string \<times> string) list) list \<Rightarrow> port_binding list" where
  "tcp_bindings ps = concat (map port_bindings ps)"

lemma add_bindings_eq:
  "length acc \<le> max_published_bindings \<Longrightarrow> add_bindings port bs acc =
     (if list_all binding_ok bs \<and> length acc + length bs \<le> max_published_bindings
      then Some (acc @ map (\<lambda>b. PortBinding port (the (port_number (snd b))) (fst b)) bs) else None)"
  by (induction port bs acc rule: add_bindings.induct) (auto split: option.splits)

lemma add_ports_eq:
  "length acc \<le> max_published_bindings \<Longrightarrow> add_ports ps acc =
     (if list_all port_ok ps \<and> length acc + length (tcp_bindings ps) \<le> max_published_bindings
      then Some (acc @ tcp_bindings ps) else None)"
proof (induction ps arbitrary: acc)
  case (Cons p ps)
  obtain port bs where p: "p = (port, bs)" by (cases p)
  show ?case
  proof (cases "cut_char CHR ''/'' port")
    case None
    then show ?thesis by (simp add: p port_ok_def)
  next
    case (Some np)
    obtain number protocol where np: "np = (number, protocol)" by (cases np)
    show ?thesis
      using Cons.prems Some np
      by (cases "port_number number"; cases "protocol = ''tcp''")
        (auto simp: p port_ok_def tcp_bindings_def port_bindings_def add_bindings_eq Cons.IH)
  qed
qed (simp add: tcp_bindings_def)

lemma port_number_range: "port_number n = Some k \<Longrightarrow> 1 \<le> k \<and> k \<le> 65535"
  by (auto simp: port_number_def split: option.splits if_splits)

lemma tcp_bindings_range:
  "list_all port_ok ps \<Longrightarrow> b \<in> set (tcp_bindings ps) \<Longrightarrow>
   1 \<le> pb_container_port b \<and> pb_container_port b \<le> 65535 \<and> 1 \<le> pb_host_port b \<and> pb_host_port b \<le> 65535 \<and>
   pb_host_ip b \<noteq> []"
  by (fastforce simp: tcp_bindings_def port_bindings_def port_ok_def list_all_iff
      split: option.splits prod.splits if_splits dest: port_number_range)

lemma sorted_distinct_remdups_adj: "sorted xs \<Longrightarrow> distinct (remdups_adj xs)" for xs :: "'a::linorder list"
  by (induction xs rule: remdups_adj.induct) (auto dest: antisym)

lemma sort_distinct_eq: "remdups_adj (sort xs) = sorted_list_of_set (set xs)" for xs :: "'a::linorder list"
  by (rule sorted_distinct_set_unique) (simp_all add: sorted_distinct_remdups_adj)

lemma safe_details_published:
  "safe_details raw = Some d \<Longrightarrow> published_ports d = sorted_list_of_set (set (tcp_bindings (di_ports raw))) \<and>
   list_all port_ok (di_ports raw) \<and> length (tcp_bindings (di_ports raw)) \<le> max_published_bindings"
  by (auto simp: safe_details_def add_ports_eq sort_distinct_eq split: option.splits if_splits)

lemma permuted_ports:
  assumes "mset ps = mset qs"
  shows "list_all port_ok ps = list_all port_ok qs" "length (tcp_bindings ps) = length (tcp_bindings qs)"
    "set (tcp_bindings ps) = set (tcp_bindings qs)"
proof -
  show "list_all port_ok ps = list_all port_ok qs" "set (tcp_bindings ps) = set (tcp_bindings qs)"
    using mset_eq_setD [OF assms] by (simp_all add: list_all_iff tcp_bindings_def)
  have "mset (map (length \<circ> port_bindings) ps) = mset (map (length \<circ> port_bindings) qs)"
    using assms by (simp add: mset_map)
  from arg_cong [OF this, of sum_mset, unfolded sum_mset_sum_list]
  show "length (tcp_bindings ps) = length (tcp_bindings qs)"
    by (simp add: tcp_bindings_def length_concat)
qed

lemma permuted_labels:
  assumes "mset xs = mset ys" "distinct (map fst ys)"
  shows "label_of xs = label_of ys"
proof -
  have "mset (map fst xs) = mset (map fst ys)" using assms(1) by (simp add: mset_map)
  then have "distinct (map fst xs)" using assms(2) by (metis mset_eq_imp_distinct_iff)
  with assms have "map_of xs = map_of ys"
    by (simp add: map_of_inject_set mset_eq_setD [OF assms(1)])
  then show ?thesis by (simp add: label_of_def fun_eq_iff)
qed

lemma correlate_candidate_endpoints:
  assumes "endpoints d' = es'" "d = d'\<lparr>endpoints := es\<rparr>" "set es' = set es"
  shows "correlate_candidate d' config = correlate_candidate d config"
proof -
  have "local_endpoint_evidence es' host port = local_endpoint_evidence es host port" for host port
    using assms(3) by (simp add: local_endpoint_evidence_eq)
  with assms(1,2) show ?thesis
    by (simp add: correlate_candidate_def endpoint_matches_def labels_present_def labels_match_def)
qed

section \<open>A concrete installation\<close>

definition demo_container_config :: resolved_config where
  "demo_container_config =
     \<lparr>rc_environment = ''production'', rc_dialect = ''postgres'', rc_database = ''alice'',
      rc_username = ''u'', rc_host = ''127.0.0.1'', rc_port = 15432, rc_sources = Map.empty, rc_password = None\<rparr>"

definition demo_raw :: docker_inspect where
  "demo_raw =
     \<lparr>di_id = replicate 64 CHR ''a'', di_name = ''/postgres_postgresql-master_1'',
      di_image = ''docker.io/bitnami/postgresql:11-debian-10'',
      di_env = [''POSTGRESQL_DATABASE=alice'', ''POSTGRESQL_USERNAME=u'', ''POSTGRESQL_PASSWORD=p''],
      di_labels = [], di_running = True, di_health = None, di_network_mode = ''bridge'',
      di_mounts = [(''data'', ''/bitnami/postgresql'')], di_networks = [(''n'', [''db''])],
      di_ports = [(''5432/tcp'', [(''0.0.0.0'', ''15432''), (''::'', ''15432'')])]\<rparr>"

definition demo_listing_docker :: "nat executor" where
  "demo_listing_docker spec c now w =
     ((\<lparr>p_outcome = ProcessSucceeded, stderr_code = []\<rparr>,
       [if ''ps'' \<in> set (p_args spec)
        then replicate 64 CHR ''a'' @ [CHR 0x09] @ postgresql11_image @ [CHR 0x0A] else ''[]'']), 1, w)"

definition demo_containers :: "nat inspector" where
  "demo_containers = cli_inspector (\<lambda>printed. Some [demo_raw]) (Some (run_docker demo_listing_docker))"

definition demo_discovery_start :: "nat msys" where
  "demo_discovery_start =
     \<lparr>world = \<lparr>outside = 0, secrets = \<lparr>contents = (\<lambda>a. []), next_addr = 0\<rparr>\<rparr>, clock = 0, trace = []\<rparr>"

lemma demo_discovery:
  "fst (discover_container (Some demo_containers) demo_container_config background demo_discovery_start) =
   Inr \<lparr>ci_id = replicate 64 CHR ''a'', ci_image = postgresql11_image, ci_digest = []\<rparr>"
  by code_simp

section \<open>Properties\<close>




definition demo_two_ports :: docker_inspect where
  "demo_two_ports = demo_raw\<lparr>di_ports := [(''5433/tcp'', []), (''5432/tcp'', [(''::1'', ''15432'')])]\<rparr>"

definition demo_two_ports_again :: docker_inspect where
  "demo_two_ports_again = demo_raw\<lparr>di_ports := [(''5432/tcp'', [(''::1'', ''15432'')]), (''5433/tcp'', [])]\<rparr>"


text \<open>
  C24. The published ports of accepted details are the TCP bindings of the inspection,
  sorted by container port, host port and host address and without repetition; there are
  at most 64 of them, each with a host address and with ports between 1 and 65535.
\<close>

theorem published_ports_bounded:
  assumes "safe_details raw = Some d"
  shows "published_ports d = sorted_list_of_set (set (tcp_bindings (di_ports raw))) \<and>
    length (published_ports d) \<le> 64 \<and>
    (\<forall>b\<in>set (published_ports d). 1 \<le> pb_container_port b \<and> pb_container_port b \<le> 65535 \<and>
           1 \<le> pb_host_port b \<and> pb_host_port b \<le> 65535 \<and> pb_host_ip b \<noteq> [])"
proof (intro conjI)
  note facts = safe_details_published [OF assms]
  show published: "published_ports d = sorted_list_of_set (set (tcp_bindings (di_ports raw)))"
    using facts by blast
  have "length (published_ports d) = card (set (tcp_bindings (di_ports raw)))"
    using published by simp
  also have "\<dots> \<le> 64"
    using facts card_length [of "tcp_bindings (di_ports raw)"] by (simp add: max_published_bindings_def)
  finally show "length (published_ports d) \<le> 64" .
  show "\<forall>b\<in>set (published_ports d). 1 \<le> pb_container_port b \<and> pb_container_port b \<le> 65535 \<and>
           1 \<le> pb_host_port b \<and> pb_host_port b \<le> 65535 \<and> pb_host_ip b \<noteq> []"
    using facts tcp_bindings_range [of "di_ports raw"] by (simp add: published)
qed

theorem published_ports_bounded_witness:
  "\<exists>d. safe_details demo_raw = Some d \<and> length (published_ports d) \<le> 64"
proof -
  have "safe_details demo_raw \<noteq> None" by code_simp
  then obtain d where "safe_details demo_raw = Some d" by blast
  with published_ports_bounded show ?thesis by blast
qed

end
