(* ===== verification/Destination.thy ===== *)
theory Destination
  imports RestoreBackup
begin

text \<open>
  \<open>internal/migration/destination_store.go\<close>: the checks of the backup destination, its
  preparation with the lock and the staging file, and the staged artifact.
\<close>

section \<open>The environment of the store\<close>

text \<open>
  The operating system, the working directory, \<open>os.TempDir()\<close>, \<open>runtime.GOOS\<close> and the
  effective user and group.
\<close>

record 'w dest_env =
  de_os :: "'w os"
  de_cwd :: string
  de_temp_dir :: string
  de_goos :: string
  de_euid :: int
  de_egid :: int

datatype destination_error = DestinationUnsafe | DestinationSpace | DestinationLocked | DestinationFailure

record destination_request =
  dr_directory :: string
  dr_source_roots :: "string list"

record destination_plan =
  dp_directory :: string
  dp_sources :: "string list"

section \<open>Privileged preparation\<close>

text \<open>\<open>SudoDestinationPrivilege.Prepare\<close>: the three commands in order, up to the first failure.\<close>

definition privileged_commands :: "string \<Rightarrow> int \<Rightarrow> int \<Rightarrow> string list list" where
  "privileged_commands directory uid gid =
     [[''-n'', ''mkdir'', ''-p'', directory],
      [''-n'', ''chown'', ''-R'', itoa uid @ '':'' @ itoa gid, directory],
      [''-n'', ''chmod'', ''700'', directory]]"

fun privileged_steps :: "'w runner \<Rightarrow> string list list \<Rightarrow> ('w, bool) meff" where
  "privileged_steps run [] c s = (True, s)"
| "privileged_steps run (args # rest) c s =
     (case lift_cmd (run_cmd run ''sudo'' args) c s of
        (r, s1) \<Rightarrow> if cmd_err r \<noteq> None then (False, s1) else privileged_steps run rest c s1)"

definition sudo_prepare :: "'w runner option \<Rightarrow> string \<Rightarrow> int \<Rightarrow> int \<Rightarrow> ('w, bool) meff" where
  "sudo_prepare r directory uid gid c s =
     (case r of
        None \<Rightarrow> (False, s)
      | Some run \<Rightarrow> privileged_steps run (privileged_commands directory uid gid) c s)"

section \<open>Checks of paths\<close>

definition source_root_holds :: "string \<Rightarrow> string \<Rightarrow> string \<Rightarrow> bool" where
  "source_root_holds cwd destination root \<longleftrightarrow>
     root \<noteq> [] \<and>
     (case path_rel (path_abs cwd (path_clean root)) destination of
        None \<Rightarrow> False
      | Some rel \<Rightarrow> rel \<noteq> ''..'' \<and> \<not> prefix ''../'' rel)"

definition is_source_path :: "string \<Rightarrow> string \<Rightarrow> string list \<Rightarrow> bool" where
  "is_source_path cwd destination roots \<longleftrightarrow> list_ex (source_root_holds cwd destination) roots"

definition safe_root_owned_ancestor :: "string \<Rightarrow> file_info \<Rightarrow> bool" where
  "safe_root_owned_ancestor goos i \<longleftrightarrow>
     goos = ''linux'' \<and> is_dir i \<and> \<not> is_symlink i \<and> \<not> bit (perm i) 1 \<and> \<not> bit (perm i) 4 \<and>
     (case owner i of None \<Rightarrow> False | Some (uid, gid) \<Rightarrow> uid = 0)"

definition private_directory :: "'w dest_env \<Rightarrow> file_info \<Rightarrow> bool" where
  "private_directory env i \<longleftrightarrow>
     is_dir i \<and> \<not> is_symlink i \<and> perm i mod 64 = 0 \<and>
     (de_goos env = ''linux'' \<longrightarrow>
        (case owner i of None \<Rightarrow> False | Some (uid, gid) \<Rightarrow> uid = de_euid env))"

definition safe_directory :: "'w dest_env \<Rightarrow> string \<Rightarrow> 'w msys \<Rightarrow> bool \<times> 'w msys" where
  "safe_directory env path s =
     (case os_call (de_os env) (Lstat path) s of
        (OsInfo i, s1) \<Rightarrow> (private_directory env i, s1)
      | (_, s1) \<Rightarrow> (False, s1))"

text \<open>Where the first component does not exist, its parent decides.\<close>

definition safe_missing :: "'w dest_env \<Rightarrow> string \<Rightarrow> 'w msys \<Rightarrow> bool \<times> 'w msys" where
  "safe_missing env current s =
     (case safe_directory env (path_dir current) s of
        (True, s1) \<Rightarrow> (True, s1)
      | (False, s1) \<Rightarrow>
          (case os_call (de_os env) (Lstat (path_dir current)) s1 of
             (OsInfo i, s2) \<Rightarrow> (safe_root_owned_ancestor (de_goos env) i, s2)
           | (_, s2) \<Rightarrow> (False, s2)))"

fun safe_components :: "'w dest_env \<Rightarrow> string \<Rightarrow> string list \<Rightarrow> 'w msys \<Rightarrow> bool \<times> 'w msys" where
  "safe_components env current [] s = (True, s)"
| "safe_components env current (component # rest) s =
     (if component = [] then safe_components env current rest s
      else let next = path_join [current, component] in
        (case os_call (de_os env) (Lstat next) s of
           (OsNotExist, s1) \<Rightarrow> safe_missing env next s1
         | (OsInfo i, s1) \<Rightarrow>
             if is_symlink i \<or> \<not> is_dir i then (False, s1)
             else if path_clean next = path_clean (de_temp_dir env) \<and> sticky i
             then safe_components env next rest s1
             else (case safe_directory env next s1 of
               (private, s2) \<Rightarrow>
                 if \<not> private \<and> \<not> safe_root_owned_ancestor (de_goos env) i then (False, s2)
                 else safe_components env next rest s2)
         | (_, s1) \<Rightarrow> (False, s1)))"

definition safe_existing_path :: "'w dest_env \<Rightarrow> string \<Rightarrow> 'w msys \<Rightarrow> bool \<times> 'w msys" where
  "safe_existing_path env path s =
     safe_components env ''/'' (split_char CHR ''/'' (trim_prefix ''/'' path)) s"

text \<open>
  \<open>nearestExisting\<close>: the search goes up one component at a time, so that it takes no more
  steps than the path has bytes.
\<close>

fun nearest_from :: "'w os \<Rightarrow> nat \<Rightarrow> string \<Rightarrow> 'w msys \<Rightarrow> string \<times> 'w msys" where
  "nearest_from os 0 path s = (path, s)"
| "nearest_from os (Suc n) path s =
     (case os_call os (Lstat path) s of
        (r, s1) \<Rightarrow>
          if os_success r \<or> path_dir path = path then (path, s1)
          else nearest_from os n (path_dir path) s1)"

definition nearest_existing :: "'w os \<Rightarrow> string \<Rightarrow> 'w msys \<Rightarrow> string \<times> 'w msys" where
  "nearest_existing os path s = nearest_from os (length path + 2) path s"

section \<open>The store\<close>

text \<open>
  \<open>OSDestinationStore\<close>; a space checker reports the available bytes or fails, a privilege
  prepares a directory for a user and group.
\<close>

record 'w dest_store =
  ds_env :: "'w dest_env"
  ds_space :: "(string \<Rightarrow> ('w, int option) meff) option"
  ds_minimum :: int
  ds_privilege :: "(string \<Rightarrow> int \<Rightarrow> int \<Rightarrow> ('w, bool) meff) option"

definition enough_space :: "'w dest_store \<Rightarrow> string \<Rightarrow> ('w, bool) meff" where
  "enough_space st directory c s =
     (case ds_space st of
        None \<Rightarrow> (True, s)
      | Some available \<Rightarrow>
          (case available directory c s of
             (None, s1) \<Rightarrow> (False, s1)
           | (Some n, s1) \<Rightarrow> (ds_minimum st \<le> n, s1)))"

definition store_preflight ::
  "'w dest_store \<Rightarrow> destination_request \<Rightarrow> ('w, destination_error + destination_plan) meff" where
  "store_preflight st request c s =
     (let env = ds_env st; directory = path_abs (de_cwd env) (path_clean (dr_directory request)) in
      if ctx_err c (clock s) \<noteq> None \<or> dr_directory request = []
         \<or> is_source_path (de_cwd env) directory (dr_source_roots request)
      then (Inl DestinationUnsafe, s)
      else (case safe_existing_path env directory s of
        (False, s1) \<Rightarrow> (Inl DestinationUnsafe, s1)
      | (True, s1) \<Rightarrow>
          (case (if ds_space st = None then (directory, s1) else nearest_existing (de_os env) directory s1) of
             (existing, s2) \<Rightarrow>
               (case enough_space st existing c s2 of
                  (False, s3) \<Rightarrow> (Inl DestinationSpace, s3)
                | (True, s3) \<Rightarrow>
                    (Inr \<lparr>dp_directory = directory, dp_sources = dr_source_roots request\<rparr>, s3)))))"

text \<open>\<open>osStagedArtifact\<close>\<close>

record staged_artifact =
  sa_path :: string
  sa_lock :: string
  sa_closed :: bool

definition lock_path :: "string \<Rightarrow> string" where
  "lock_path directory = path_join [directory, ''.alice-installer-backup.lock'']"

text \<open>Making sure that the directory exists.\<close>

definition create_directory :: "'w dest_store \<Rightarrow> string \<Rightarrow> ('w, bool) meff" where
  "create_directory st directory c s =
     (let env = ds_env st in
      case os_ok (de_os env) (Mkdir directory 0x1C0) s of
        (made, s1) \<Rightarrow>
          (case (if made then (True, s1)
                 else (case ds_privilege st of
                   None \<Rightarrow> (False, s1)
                 | Some privileged \<Rightarrow> privileged directory (de_euid env) (de_egid env) c s1)) of
             (False, s2) \<Rightarrow> (False, s2)
           | (True, s2) \<Rightarrow> os_ok (de_os env) (Chmod directory 0x1C0) s2))"

definition ensure_directory ::
  "'w dest_store \<Rightarrow> string \<Rightarrow> ('w, destination_error option) meff" where
  "ensure_directory st directory c s =
     (case os_call (de_os (ds_env st)) (Lstat directory) s of
        (OsNotExist, s1) \<Rightarrow>
          (case create_directory st directory c s1 of
             (created, s2) \<Rightarrow> (if created then None else Some DestinationFailure, s2))
      | (r, s1) \<Rightarrow> (if os_success r then None else Some DestinationUnsafe, s1))"

definition release_lock :: "'w os \<Rightarrow> string \<Rightarrow> 'w msys \<Rightarrow> 'w msys" where
  "release_lock os directory s = snd (os_ok os (RemoveFile (lock_path directory)) s)"

definition acquire_lock :: "'w os \<Rightarrow> string \<Rightarrow> 'w msys \<Rightarrow> destination_error option \<times> 'w msys" where
  "acquire_lock os directory s =
     (case os_call os (CreateExclusive (lock_path directory) 0x180) s of
        (OsExist, s1) \<Rightarrow> (Some DestinationLocked, s1)
      | (r, s1) \<Rightarrow>
          if \<not> os_success r then (Some DestinationFailure, s1)
          else (case os_ok os (CloseFile (lock_path directory)) s1 of
            (True, s2) \<Rightarrow> (None, s2)
          | (False, s2) \<Rightarrow> (Some DestinationFailure, release_lock os directory s2)))"

definition staging_name :: "string \<Rightarrow> string" where
  "staging_name token = ''.alice-backup-'' @ token @ ''.dump.part''"

text \<open>The attempts at a fresh staging file; a name that exists is tried again.\<close>

fun open_staging ::
  "'w os \<Rightarrow> string \<Rightarrow> nat \<Rightarrow> 'w msys \<Rightarrow> (destination_error + staged_artifact) \<times> 'w msys" where
  "open_staging os directory 0 s = (Inl DestinationFailure, release_lock os directory s)"
| "open_staging os directory (Suc n) s =
     (case os_call os RandomToken s of
        (OsPath token, s1) \<Rightarrow>
          let path = path_join [directory, staging_name token] in
          (case os_call os (CreateExclusive path 0x180) s1 of
             (OsExist, s2) \<Rightarrow> open_staging os directory n s2
           | (r, s2) \<Rightarrow>
               if \<not> os_success r then (Inl DestinationFailure, release_lock os directory s2)
               else (case os_ok os (Chmod path 0x180) s2 of
                 (True, s3) \<Rightarrow>
                   (Inr \<lparr>sa_path = path, sa_lock = lock_path directory, sa_closed = False\<rparr>, s3)
               | (False, s3) \<Rightarrow>
                   (Inl DestinationFailure,
                    release_lock os directory (snd (os_ok os (RemoveFile path)
                      (snd (os_ok os (CloseFile path) s3)))))))
      | (_, s1) \<Rightarrow> (Inl DestinationFailure, release_lock os directory s1))"

text \<open>Everything that \<open>Prepare\<close> does before it takes the lock.\<close>

definition prepare_directory ::
  "'w dest_store \<Rightarrow> destination_plan \<Rightarrow> ('w, destination_error option) meff" where
  "prepare_directory st plan c s =
     (let env = ds_env st; directory = dp_directory plan in
      if ctx_err c (clock s) \<noteq> None \<or> directory = [] \<or> is_source_path (de_cwd env) directory (dp_sources plan)
      then (Some DestinationUnsafe, s)
      else (case safe_existing_path env directory s of
        (False, s1) \<Rightarrow> (Some DestinationUnsafe, s1)
      | (True, s1) \<Rightarrow>
          (case ensure_directory st directory c s1 of
             (Some e, s2) \<Rightarrow> (Some e, s2)
           | (None, s2) \<Rightarrow>
               (case safe_directory env directory s2 of
                  (False, s3) \<Rightarrow> (Some DestinationUnsafe, s3)
                | (True, s3) \<Rightarrow>
                    (case enough_space st directory c s3 of
                       (enough, s4) \<Rightarrow> (if enough then None else Some DestinationSpace, s4))))))"

definition store_prepare ::
  "'w dest_store \<Rightarrow> destination_plan \<Rightarrow> ('w, destination_error + staged_artifact) meff" where
  "store_prepare st plan c s =
     (let directory = dp_directory plan; os = de_os (ds_env st) in
      case prepare_directory st plan c s of
        (Some e, s1) \<Rightarrow> (Inl e, s1)
      | (None, s1) \<Rightarrow>
          (case acquire_lock os directory s1 of
             (Some e, s2) \<Rightarrow> (Inl e, s2)
           | (None, s2) \<Rightarrow> open_staging os directory 8 s2))"

section \<open>The staged artifact\<close>

definition artifact_sync :: "'w os \<Rightarrow> staged_artifact \<Rightarrow> 'w msys \<Rightarrow> bool \<times> 'w msys" where
  "artifact_sync os a s = os_ok os (SyncFile (sa_path a)) s"

text \<open>Removing a path, where a missing one is as good.\<close>

definition remove_gone :: "'w os \<Rightarrow> string \<Rightarrow> 'w msys \<Rightarrow> bool \<times> 'w msys" where
  "remove_gone os path s =
     (case os_call os (RemoveFile path) s of (r, s1) \<Rightarrow> (os_success r \<or> r = OsNotExist, s1))"

definition artifact_close :: "'w os \<Rightarrow> staged_artifact \<Rightarrow> 'w msys \<Rightarrow> (bool \<times> staged_artifact) \<times> 'w msys" where
  "artifact_close os a s =
     (if sa_closed a then ((True, a), s)
      else (case os_ok os (CloseFile (sa_path a)) s of
        (False, s1) \<Rightarrow> ((False, a\<lparr>sa_closed := True\<rparr>), s1)
      | (True, s1) \<Rightarrow>
          (case remove_gone os (sa_lock a) s1 of (ok, s2) \<Rightarrow> ((ok, a\<lparr>sa_closed := True\<rparr>), s2))))"

definition artifact_cleanup :: "'w os \<Rightarrow> staged_artifact \<Rightarrow> 'w msys \<Rightarrow> bool \<times> 'w msys" where
  "artifact_cleanup os a s =
     (case artifact_close os a s of
        (_, s1) \<Rightarrow>
          (case remove_gone os (sa_path a) s1 of
             (removed, s2) \<Rightarrow>
               (case remove_gone os (sa_lock a) s2 of
                  (unlocked, s3) \<Rightarrow> (removed \<and> unlocked, s3))))"

end
