(* ===== verification/Publication.thy ===== *)
theory Publication
  imports Destination Container
begin

text \<open>
  \<open>internal/migration/manifest.go\<close> and the credential and dump of \<open>process.go\<close>: the
  helper that dumps the legacy database, and the publication of the staged dump with its
  manifest.  JSON encoding, SHA-256 and the formatted time are parameters.
\<close>

section \<open>The dump\<close>

definition valid_config :: "resolved_config \<Rightarrow> bool" where
  "valid_config c \<longleftrightarrow>
     rc_dialect c = dialect_postgresql \<and> rc_host c \<noteq> [] \<and> rc_port c > 0 \<and> rc_database c \<noteq> [] \<and> rc_username c \<noteq> []"

definition config_secret :: "resolved_config \<Rightarrow> secret_store \<Rightarrow> string" where
  "config_secret c st = (case rc_password c of None \<Rightarrow> [] | Some a \<Rightarrow> contents st a)"

definition legacy_pgpass :: "resolved_config \<Rightarrow> string \<Rightarrow> string" where
  "legacy_pgpass c secret =
     join '':'' [pgpass_field (rc_host c), itoa (rc_port c), pgpass_field (rc_database c),
                 pgpass_field (rc_username c), pgpass_field secret] @ [CHR 0x0A]"

text \<open>
  \<open>CredentialTransport.Prepare\<close>; the deferred \<open>Release\<close> empties the password that all
  copies of the configuration share, on every path.
\<close>

definition prepare_credential_root ::
  "'w os \<Rightarrow> string \<Rightarrow> resolved_config \<Rightarrow> 'w msys \<Rightarrow> credential_file option \<times> 'w msys" where
  "prepare_credential_root os parent config s =
     (case os_call os (MkdirTemp parent ''alice-pgpass-'') s of
        (OsPath root, s1) \<Rightarrow>
          (case os_ok os (Chmod root 0x1C0) s1 of
             (False, s2) \<Rightarrow> drop_credential_root os root s2
           | (True, s2) \<Rightarrow>
               let path = path_join [root, ''pgpass''];
                   line = legacy_pgpass config (config_secret config (secrets (world s2))) in
               (case os_ok os (WriteWhole path line 0x180) s2 of
                  (False, s3) \<Rightarrow> drop_credential_root os root s3
                | (True, s3) \<Rightarrow> finish_credential os root path s3))
      | (_, s1) \<Rightarrow> (None, s1))"

definition prepare_credential ::
  "'w os \<Rightarrow> string \<Rightarrow> string \<Rightarrow> resolved_config \<Rightarrow> 'w msys \<Rightarrow> credential_file option \<times> 'w msys" where
  "prepare_credential os temp_dir temp_root config s =
     (case (if \<not> valid_config config \<or> config_secret config (secrets (world s)) = [] then (None, s)
            else prepare_credential_root os (if temp_root = [] then temp_dir else temp_root) config s) of
        (r, s1) \<Rightarrow> (r, snd (with_secrets (\<lambda>st. ((), clear_secret config st)) s1)))"

record helper_dump_request =
  hr_goos :: string
  hr_container :: container_identity
  hr_config :: resolved_config
  hr_credential :: credential_file
  hr_timeout :: int

definition dump_args :: "string \<Rightarrow> helper_dump_request \<Rightarrow> string list" where
  "dump_args token r =
     [''run'', ''--rm'', ''--pull=never'', ''--name'', ''alice-pg11-'' @ token,
      ''--label'', ''alice-installer.migration-helper=true'',
      ''--label'', ''alice-installer.migration-operation='' @ token,
      ''--network'', ''host'', ''--mount'', bind_mount (host_path (hr_credential r)) container_pgpass_path,
      ''--env'', ''PGPASSFILE='' @ container_pgpass_path,
      ''--user'', itoa (owner_uid (hr_credential r)) @ '':'' @ itoa (owner_gid (hr_credential r)),
      ''--entrypoint'', ''/opt/bitnami/postgresql/bin/pg_dump'', postgresql11_image,
      ''--format=custom'', ''--no-password'',
      ''--host='' @ rc_host (hr_config r), ''--port='' @ itoa (rc_port (hr_config r)),
      ''--username='' @ rc_username (hr_config r), ''--dbname='' @ rc_database (hr_config r)]"

definition build_helper_dump ::
  "'w os \<Rightarrow> helper_dump_request \<Rightarrow> 'w msys \<Rightarrow> helper_run option \<times> 'w msys" where
  "build_helper_dump os r s =
     (if hr_goos r \<noteq> ''linux'' \<or> ci_image (hr_container r) \<noteq> postgresql11_image
         \<or> \<not> full_container_id (ci_id (hr_container r)) \<or> \<not> valid_config (hr_config r) \<or> hr_timeout r < 0
      then (None, s)
      else (case safe_credential os (hr_credential r) s of
        (False, s1) \<Rightarrow> (None, s1)
      | (True, s1) \<Rightarrow>
          (case os_call os RandomToken s1 of
             (OsPath token, s2) \<Rightarrow>
               (Some \<lparr>h_name = ''alice-pg11-'' @ token, h_operation_id = token, h_image = postgresql11_image,
                      h_spec = \<lparr>p_name = ''docker'', p_args = dump_args token r,
                                p_timeout = (if hr_timeout r = 0 then default_process_timeout else hr_timeout r)\<rparr>\<rparr>,
                s2)
           | (_, s2) \<Rightarrow> (None, s2))))"

section \<open>Publication\<close>

record backup_manifest =
  bm_schema_version :: nat
  bm_created_at :: string
  bm_container_id :: string
  bm_image :: string
  bm_image_digest :: string
  bm_environment :: string
  bm_database :: string
  bm_username :: string
  bm_host :: string
  bm_port :: int
  bm_format :: string
  bm_size :: int
  bm_sha256 :: string
  bm_dump_client :: string
  bm_restore_client :: string
  bm_validation :: string
  bm_tool_schema :: nat

definition backup_manifest_string :: "backup_manifest \<Rightarrow> string" where
  "backup_manifest_string m = ''backup manifest schema='' @ dec_of_nat (bm_schema_version m)"

record backup_codec =
  bc_restore :: codec
  bc_encode :: "backup_manifest \<Rightarrow> string option"
  bc_time :: "nat \<Rightarrow> string"

text \<open>
  \<open>operationCreatedPath\<close> is the path of the capability; a request without one has the empty
  path.  The creation time of the request is never set in production: the clock is read.
\<close>

record publication_request =
  pr_directory :: string
  pr_dump_path :: string
  pr_container :: container_identity
  pr_config :: resolved_config
  pr_ownership :: string

record backup_publication =
  pub_dump_path :: string
  pub_manifest_path :: string
  pub_sha256 :: string
  pub_size :: int

definition owned_publication_request :: "publication_request \<Rightarrow> string \<Rightarrow> publication_request" where
  "owned_publication_request r dump = r\<lparr>pr_ownership := dump\<rparr>"

definition safe_staged_dump :: "'w os \<Rightarrow> string \<Rightarrow> 'w msys \<Rightarrow> bool \<times> 'w msys" where
  "safe_staged_dump os path s =
     (if \<not> is_abs path then (False, s)
      else (case os_call os (Lstat path) s of
        (OsInfo i, s1) \<Rightarrow> (is_regular i \<and> \<not> is_symlink i \<and> file_size i > 0, s1)
      | (_, s1) \<Rightarrow> (False, s1)))"

definition valid_publication_request ::
  "'w os \<Rightarrow> string \<Rightarrow> publication_request \<Rightarrow> 'w msys \<Rightarrow> bool \<times> 'w msys" where
  "valid_publication_request os cwd r s =
     (if pr_directory r = [] then (False, s)
      else (case safe_staged_dump os (pr_dump_path r) s of
        (False, s1) \<Rightarrow> (False, s1)
      | (True, s1) \<Rightarrow>
          (ci_image (pr_container r) = postgresql11_image \<and> full_container_id (ci_id (pr_container r))
           \<and> valid_config (pr_config r) \<and> path_abs cwd (pr_directory r) = path_dir (pr_dump_path r), s1)))"

definition manifest_of :: "publication_request \<Rightarrow> string \<Rightarrow> string \<Rightarrow> int \<Rightarrow> backup_manifest" where
  "manifest_of r created hash n =
     \<lparr>bm_schema_version = 1, bm_created_at = created, bm_container_id = ci_id (pr_container r),
      bm_image = ci_image (pr_container r), bm_image_digest = ci_digest (pr_container r),
      bm_environment = rc_environment (pr_config r), bm_database = rc_database (pr_config r),
      bm_username = rc_username (pr_config r), bm_host = rc_host (pr_config r), bm_port = rc_port (pr_config r),
      bm_format = ''postgresql-custom'', bm_size = n, bm_sha256 = hash,
      bm_dump_client = ''postgresql-11'', bm_restore_client = ''postgresql-11'',
      bm_validation = ''validated'', bm_tool_schema = 1\<rparr>"

text \<open>
  The deferred cleanup: the paths this operation still owns, in the order of the code,
  with the empty path for those it does not.
\<close>

definition publication_cleanup :: "'w os \<Rightarrow> string list \<Rightarrow> 'w msys \<Rightarrow> 'w msys" where
  "publication_cleanup os owned s = foldl (\<lambda>s path. cleanup_path os path s) s owned"

definition publication_failed ::
  "'w os \<Rightarrow> string list \<Rightarrow> 'w msys \<Rightarrow> backup_publication option \<times> 'w msys" where
  "publication_failed os owned s = (None, publication_cleanup os owned s)"

text \<open>From the first rename on.\<close>

definition publish_renames ::
  "'w os \<Rightarrow> string \<Rightarrow> string \<Rightarrow> string \<Rightarrow> backup_publication \<Rightarrow> ('w, backup_publication option) meff" where
  "publish_renames os directory staged manifest_staged pub c s =
     (case os_ok os (RenameNoReplace staged (pub_dump_path pub)) s of
        (False, s1) \<Rightarrow> publication_failed os [staged, manifest_staged] s1
      | (True, s1) \<Rightarrow>
          (case os_ok os (RenameNoReplace manifest_staged (pub_manifest_path pub)) s1 of
             (False, s2) \<Rightarrow> publication_failed os [manifest_staged, pub_dump_path pub] s2
           | (True, s2) \<Rightarrow>
               (case (if ctx_err c (clock s2) \<noteq> None then (False, s2)
                      else os_ok os (SyncDirectory directory) s2) of
                  (False, s3) \<Rightarrow> publication_failed os [pub_dump_path pub, pub_manifest_path pub] s3
                | (True, s3) \<Rightarrow> (Some pub, s3))))"

definition publication_names :: "string \<Rightarrow> string \<Rightarrow> int \<Rightarrow> backup_publication" where
  "publication_names directory hash n =
     (let base = ''alice-backup-'' @ hash in
      \<lparr>pub_dump_path = path_join [directory, base @ ''.dump''],
       pub_manifest_path = path_join [directory, base @ ''.manifest.json''],
       pub_sha256 = hash, pub_size = n\<rparr>)"

definition manifest_staging :: "string \<Rightarrow> string \<Rightarrow> string" where
  "manifest_staging directory hash = path_join [directory, ''.'' @ ''alice-backup-'' @ hash @ ''.manifest.part'']"

definition publish_backup_pair ::
  "backup_codec \<Rightarrow> 'w os \<Rightarrow> string \<Rightarrow> publication_request \<Rightarrow> ('w, backup_publication option) meff" where
  "publish_backup_pair cd os cwd r c s =
     (case valid_publication_request os cwd r s of
        (valid, s1) \<Rightarrow>
          if \<not> valid \<or> pr_ownership r \<noteq> pr_dump_path r then (None, s1)
          else if ctx_err c (clock s1) \<noteq> None then publication_failed os [pr_dump_path r] s1
          else (case restore_hash (bc_restore cd) os (pr_dump_path r) s1 of
            (None, s2) \<Rightarrow> publication_failed os [pr_dump_path r] s2
          | (Some (hash, n), s2) \<Rightarrow>
              if n = 0 \<or> ctx_err c (clock s2) \<noteq> None then publication_failed os [pr_dump_path r] s2
              else (case bc_encode cd (manifest_of r (bc_time cd (clock s2)) hash n) of
                None \<Rightarrow> publication_failed os [pr_dump_path r] s2
              | Some encoded \<Rightarrow>
                  let manifest_staged = manifest_staging (pr_directory r) hash in
                  (case write_protected_file os manifest_staged (encoded @ [CHR 0x0A]) s2 of
                     (written, s3) \<Rightarrow>
                       if \<not> written \<or> ctx_err c (clock s3) \<noteq> None
                       then publication_failed os [pr_dump_path r] s3
                       else publish_renames os (pr_directory r) (pr_dump_path r) manifest_staged
                              (publication_names (pr_directory r) hash n) c s3))))"

end
