(* ===== verification/BackupAction.thy ===== *)
theory BackupAction
  imports Publication
begin

text \<open>
  \<open>internal/migration/backup_action.go\<close>: the backup of the legacy database, from the
  read-only preflight to the published pair, with its diagnostics.
\<close>

section \<open>Outcomes and diagnostics\<close>

datatype backup_outcome =
    BackupStaged | BackupValidated | BackupCancelled | BackupPreconditionFailed | BackupDestinationFailed
  | BackupDumpFailed | BackupTimedOut | BackupValidationFailed

datatype backup_stage =
    StagePreconditions | StageDestination | StageCredentials | StageDump | StageStagedFile
  | StageArchiveValidation | StagePublication

definition backup_stage_string :: "backup_stage \<Rightarrow> string" where
  "backup_stage_string st =
     (case st of
        StagePreconditions \<Rightarrow> ''Backup preconditions''
      | StageDestination \<Rightarrow> ''Destination preparation''
      | StageCredentials \<Rightarrow> ''Credential preparation''
      | StageDump \<Rightarrow> ''Dump execution''
      | StageStagedFile \<Rightarrow> ''Staged file sync and non-empty check''
      | StageArchiveValidation \<Rightarrow> ''Archive validation''
      | StagePublication \<Rightarrow> ''Publication, checksum, and manifest'')"

definition all_stages :: "backup_stage list" where
  "all_stages =
     [StagePreconditions, StageDestination, StageCredentials, StageDump, StageStagedFile,
      StageArchiveValidation, StagePublication]"

fun stage_index :: "backup_stage \<Rightarrow> nat" where
  "stage_index StagePreconditions = 0"
| "stage_index StageDestination = 1"
| "stage_index StageCredentials = 2"
| "stage_index StageDump = 3"
| "stage_index StageStagedFile = 4"
| "stage_index StageArchiveValidation = 5"
| "stage_index StagePublication = 6"

datatype stage_status = StageNotRun | StagePassed | StageFailed

definition stage_status_string :: "stage_status \<Rightarrow> string" where
  "stage_status_string st =
     (if st = StagePassed then ''passed'' else if st = StageFailed then ''failed'' else ''not run'')"

datatype backup_code =
    CodeNone | CodePrecondition | CodeEngineUnavailable | CodeResolvedConfigInvalid
  | CodeContainerInvalid | CodeImageUntrusted | CodeIdentityMismatch | CodeEndpointMismatch
  | CodeContainerUnsafe | CodeContainerAmbiguous | CodeCancelled | CodeDestination | CodeCredentials
  | CodeHelperPrecondition | CodeDumpTimeout | CodeDump | CodeHelperCleanup | CodeStagedSync
  | CodeStagedClose | CodeStagedEmpty | CodeArchiveValidation | CodePublication
  | CodeSudoDockerPermission | CodeContainerStopped

definition backup_code_string :: "backup_code \<Rightarrow> string" where
  "backup_code_string code =
     (case code of
        CodeNone \<Rightarrow> ''backup-failed''
      | CodePrecondition \<Rightarrow> ''backup-precondition''
      | CodeEngineUnavailable \<Rightarrow> ''backup-engine-unavailable''
      | CodeResolvedConfigInvalid \<Rightarrow> ''backup-resolved-config-invalid''
      | CodeContainerInvalid \<Rightarrow> ''backup-legacy-container-invalid''
      | CodeImageUntrusted \<Rightarrow> ''backup-legacy-container-image-untrusted''
      | CodeIdentityMismatch \<Rightarrow> ''backup-legacy-container-identity-mismatch''
      | CodeEndpointMismatch \<Rightarrow> ''backup-legacy-container-endpoint-mismatch''
      | CodeContainerUnsafe \<Rightarrow> ''backup-legacy-container-unsafe''
      | CodeContainerAmbiguous \<Rightarrow> ''backup-legacy-container-ambiguous''
      | CodeCancelled \<Rightarrow> ''backup-cancelled''
      | CodeDestination \<Rightarrow> ''backup-destination''
      | CodeCredentials \<Rightarrow> ''backup-credentials''
      | CodeHelperPrecondition \<Rightarrow> ''backup-helper-precondition''
      | CodeDumpTimeout \<Rightarrow> ''backup-dump-timeout''
      | CodeDump \<Rightarrow> ''backup-dump''
      | CodeHelperCleanup \<Rightarrow> ''backup-helper-cleanup''
      | CodeStagedSync \<Rightarrow> ''backup-staged-sync''
      | CodeStagedClose \<Rightarrow> ''backup-staged-close''
      | CodeStagedEmpty \<Rightarrow> ''backup-staged-empty''
      | CodeArchiveValidation \<Rightarrow> ''backup-archive-validation''
      | CodePublication \<Rightarrow> ''backup-publication''
      | CodeSudoDockerPermission \<Rightarrow> ''backup-sudo-docker-permission''
      | CodeContainerStopped \<Rightarrow> ''backup-legacy-container-stopped'')"

datatype backup_remediation =
    RemedyNone | RemedyRetry | RemedyPrerequisites | RemedyDestination | RemedyCredentials
  | RemedyHelperImage | RemedyDatabase | RemedyDocker | RemedyStorage | RemedyArchive
  | RemedyRestartLegacyContainer

definition backup_remediation_string :: "backup_remediation \<Rightarrow> string" where
  "backup_remediation_string r =
     (case r of
        RemedyNone \<Rightarrow> ''Review backup prerequisites and retry; do not continue migration.''
      | RemedyRetry \<Rightarrow> ''Retry the backup when ready.''
      | RemedyPrerequisites \<Rightarrow> ''Verify the legacy database and backup destination, then retry.''
      | RemedyDestination \<Rightarrow> ''Verify destination permissions and free space, then retry.''
      | RemedyCredentials \<Rightarrow> ''Verify local credential-file permissions, then retry.''
      | RemedyHelperImage \<Rightarrow> ''Verify the approved PostgreSQL helper image is available, then retry.''
      | RemedyDatabase \<Rightarrow> ''Verify database availability and retry the backup.''
      | RemedyDocker \<Rightarrow> ''Verify Docker and the legacy database are available, then retry.''
      | RemedyStorage \<Rightarrow> ''Verify destination storage health and free space, then retry.''
      | RemedyArchive \<Rightarrow> ''Verify the pinned PostgreSQL helper image and retry; do not continue migration.''
      | RemedyRestartLegacyContainer \<Rightarrow>
          ''Restart and verify the legacy PostgreSQL master, then retry the backup; the installer will not start it automatically.'')"

type_synonym stage_results = "(backup_stage \<times> stage_status) list"

record backup_result =
  br_outcome :: backup_outcome
  br_dump_path :: string
  br_manifest_path :: string
  br_sha256 :: string
  br_size :: int
  br_stages :: stage_results
  br_code :: backup_code
  br_remediation :: backup_remediation

fun outcome_number :: "backup_outcome \<Rightarrow> nat" where
  "outcome_number BackupStaged = 0"
| "outcome_number BackupValidated = 1"
| "outcome_number BackupCancelled = 2"
| "outcome_number BackupPreconditionFailed = 3"
| "outcome_number BackupDestinationFailed = 4"
| "outcome_number BackupDumpFailed = 5"
| "outcome_number BackupTimedOut = 6"
| "outcome_number BackupValidationFailed = 7"

definition backup_result_string :: "backup_result \<Rightarrow> string" where
  "backup_result_string r =
     ''backup outcome='' @ dec_of_nat (outcome_number (br_outcome r)) @ '' dump='' @ br_dump_path r
     @ '' manifest='' @ br_manifest_path r @ '' size='' @ itoa (br_size r)"

definition new_backup_diagnostics :: stage_results where
  "new_backup_diagnostics = map (\<lambda>st. (st, StageNotRun)) all_stages"

definition mark :: "backup_stage \<Rightarrow> stage_status \<Rightarrow> stage_results \<Rightarrow> stage_results" where
  "mark st status stages = stages[stage_index st := (fst (stages ! stage_index st), status)]"

definition backup_failure ::
  "backup_outcome \<Rightarrow> stage_results \<Rightarrow> backup_stage \<Rightarrow> backup_code \<Rightarrow> backup_remediation \<Rightarrow> backup_result" where
  "backup_failure outcome stages failed code remediation =
     \<lparr>br_outcome = outcome, br_dump_path = [], br_manifest_path = [], br_sha256 = [], br_size = 0,
      br_stages = mark failed StageFailed stages, br_code = code, br_remediation = remediation\<rparr>"

section \<open>Errors\<close>

text \<open>An error is the list of the sentinels in its chain, those \<open>errors.Is\<close> finds.\<close>

datatype sentinel =
    ErrBackupPrecondition | ErrBackupEngineUnavailable | ErrResolvedConfigInvalid | ErrLegacyContainerInvalid
  | ErrSudoDockerPermission | ErrContainerPrecondition | ErrAmbiguousContainer
  | ErrContainer container_reason | ErrDestination destination_error

fun container_sentinels :: "container_error \<Rightarrow> sentinel list" where
  "container_sentinels ContainerPrecondition = [ErrContainerPrecondition]"
| "container_sentinels AmbiguousContainer = [ErrAmbiguousContainer]"
| "container_sentinels ContainerPermission = [ErrSudoDockerPermission]"
| "container_sentinels (Classified reason) = [ErrContainerPrecondition, ErrContainer reason]"

definition backup_preflight_failure :: "sentinel list \<Rightarrow> backup_result" where
  "backup_preflight_failure err =
     (case
       (if ErrSudoDockerPermission \<in> set err
        then (CodeSudoDockerPermission, StagePreconditions, RemedyPrerequisites)
        else if ErrBackupEngineUnavailable \<in> set err
        then (CodeEngineUnavailable, StagePreconditions, RemedyPrerequisites)
        else if ErrResolvedConfigInvalid \<in> set err
        then (CodeResolvedConfigInvalid, StagePreconditions, RemedyPrerequisites)
        else if ErrContainer NoExactImageCandidate \<in> set err
        then (CodeImageUntrusted, StagePreconditions, RemedyPrerequisites)
        else if ErrContainer IdentityMismatch \<in> set err
        then (CodeIdentityMismatch, StagePreconditions, RemedyPrerequisites)
        else if ErrContainer EndpointMismatch \<in> set err
        then (CodeEndpointMismatch, StagePreconditions, RemedyPrerequisites)
        else if ErrContainer UnsafeState \<in> set err
        then (CodeContainerUnsafe, StagePreconditions, RemedyPrerequisites)
        else if ErrContainer StoppedState \<in> set err
        then (CodeContainerStopped, StagePreconditions, RemedyRestartLegacyContainer)
        else if ErrAmbiguousContainer \<in> set err
        then (CodeContainerAmbiguous, StagePreconditions, RemedyPrerequisites)
        else if ErrLegacyContainerInvalid \<in> set err
        then (CodeContainerInvalid, StagePreconditions, RemedyPrerequisites)
        else if list_ex (\<lambda>e. case e of ErrDestination _ \<Rightarrow> True | _ \<Rightarrow> False) err
        then (CodeDestination, StageDestination, RemedyDestination)
        else (CodePrecondition, StagePreconditions, RemedyPrerequisites))
      of (code, stage, remediation) \<Rightarrow>
        backup_failure BackupPreconditionFailed new_backup_diagnostics stage code remediation)"

section \<open>Plans\<close>

definition legacy_application_root :: string where
  "legacy_application_root = ''/opt/backend_alice_guardian/node''"

record backup_request =
  bq_destination :: string
  bq_source_roots :: "string list"
  bq_environment :: string

record backup_plan =
  bp_config :: resolved_config
  bp_container :: container_identity
  bp_destination :: destination_plan
  bp_timeout :: int
  bp_goos :: string

record backup_review =
  rv_environment :: string
  rv_endpoint :: string
  rv_database :: string
  rv_user :: string
  rv_container_id :: string
  rv_image :: string
  rv_destination :: string

definition backup_review_of :: "backup_plan \<Rightarrow> backup_review" where
  "backup_review_of p =
     \<lparr>rv_environment = rc_environment (bp_config p),
      rv_endpoint = join_host_port (rc_host (bp_config p)) (itoa (rc_port (bp_config p))),
      rv_database = rc_database (bp_config p), rv_user = rc_username (bp_config p),
      rv_container_id = ci_id (bp_container p), rv_image = ci_image (bp_container p),
      rv_destination = dp_directory (bp_destination p)\<rparr>"

text \<open>\<open>BackupPlan.Config\<close>: a copy without the password (maps are values here).\<close>

definition backup_plan_config :: "backup_plan \<Rightarrow> resolved_config" where
  "backup_plan_config p = (bp_config p)\<lparr>rc_password := None\<rparr>"

section \<open>The action\<close>

text \<open>
  \<open>BackupAction\<close> with its injected parts, and the host it acts on.  The progress callback
  is an arbitrary change of the state.
\<close>

record 'w backup_action =
  ba_resolver :: "(string \<Rightarrow> ('w, resolved_config option) meff) option"
  ba_inspector :: "(resolved_config \<Rightarrow> ('w, container_error + container_identity) meff) option"
  ba_store :: "'w dest_store option"
  ba_executor :: "'w executor option"
  ba_temp_root :: string
  ba_validator :: "(string \<Rightarrow> ('w, bool) meff) option"
  ba_goos :: string
  ba_timeout :: int
  ba_codec :: backup_codec
  ba_os :: "'w os"
  ba_cwd :: string
  ba_temp_dir :: string

datatype backup_progress =
    ProgressPreparing | ProgressDumping | ProgressSyncing | ProgressValidating | ProgressPublishing

type_synonym 'w progress = "(backup_progress \<Rightarrow> 'w msys \<Rightarrow> 'w msys) option"

definition emit_progress :: "'w progress \<Rightarrow> backup_progress \<Rightarrow> 'w msys \<Rightarrow> 'w msys" where
  "emit_progress progress st s = (case progress of None \<Rightarrow> s | Some f \<Rightarrow> f st s)"

definition trusted_container :: "container_identity \<Rightarrow> bool" where
  "trusted_container i \<longleftrightarrow> ci_image i = postgresql11_image \<and> full_container_id (ci_id i)"

definition backup_preflight ::
  "'w backup_action \<Rightarrow> backup_request \<Rightarrow> ('w, sentinel list + backup_plan) meff" where
  "backup_preflight a request c s =
     (if ctx_err c (clock s) \<noteq> None then (Inl [ErrBackupPrecondition], s)
      else case (ba_resolver a, ba_inspector a, ba_store a) of
        (Some resolve, Some discover, Some store) \<Rightarrow>
          (case resolve (bq_environment request) c s of
             (None, s1) \<Rightarrow> (Inl [ErrResolvedConfigInvalid], s1)
           | (Some config, s1) \<Rightarrow>
               if \<not> valid_config config then (Inl [ErrResolvedConfigInvalid], s1)
               else if ctx_err c (clock s1) \<noteq> None then (Inl [ErrBackupPrecondition], s1)
               else (case discover config c s1 of
                 (Inl e, s2) \<Rightarrow> (Inl (ErrLegacyContainerInvalid # container_sentinels e), s2)
               | (Inr chosen, s2) \<Rightarrow>
                   if \<not> trusted_container chosen then (Inl [ErrLegacyContainerInvalid], s2)
                   else if ctx_err c (clock s2) \<noteq> None then (Inl [ErrBackupPrecondition], s2)
                   else (case store_preflight store
                       \<lparr>dr_directory = bq_destination request,
                        dr_source_roots = bq_source_roots request @ [path_clean legacy_application_root]\<rparr> c s2 of
                     (Inl e, s3) \<Rightarrow> (Inl [ErrBackupPrecondition], s3)
                   | (Inr destination, s3) \<Rightarrow>
                       (Inr \<lparr>bp_config = config, bp_container = chosen, bp_destination = destination,
                             bp_timeout = ba_timeout a, bp_goos = ba_goos a\<rparr>, s3))))
      | _ \<Rightarrow> (Inl [ErrBackupEngineUnavailable], s))"

text \<open>
  \<open>RunHelper\<close> with the staged artifact as the writer of the process: what a failing
  write does to the process is a failure of the process.
\<close>

definition run_helper_staged ::
  "'w os \<Rightarrow> 'w executor \<Rightarrow> helper_run \<Rightarrow> credential_file \<Rightarrow> string \<Rightarrow> ('w, process_result) meff" where
  "run_helper_staged os x run credential staged c s =
     (if h_name run = [] then (process_failed ''process-precondition'', s)
      else (case exec_call x (h_spec run) c s of
        ((r, chunks), s1) \<Rightarrow>
          (case write_chunks os staged chunks s1 of
             (written, s2) \<Rightarrow>
               (case cleanup_helper (Some x) (h_name run) (cleanup_context (clock s2)) s2 of
                  (cleaned, s3) \<Rightarrow>
                    (case credential_cleanup os credential s3 of
                       (removed, s4) \<Rightarrow>
                         if \<not> cleaned \<or> \<not> removed
                         then (\<lparr>p_outcome = ProcessCleanupFailed, stderr_code = ''process-cleanup-failed''\<rparr>, s4)
                         else if \<not> written \<and> p_outcome r = ProcessSucceeded
                         then (process_failed ''process-failed'', s4)
                         else (r, s4))))))"

text \<open>
  The run, from its last stage to its first.  Each part returns the result and the staged
  artifact as it left it.
\<close>

type_synonym 'w staged_run = "('w, backup_result \<times> staged_artifact) meff"

definition stage_failed ::
  "backup_outcome \<Rightarrow> stage_results \<Rightarrow> backup_stage \<Rightarrow> backup_code \<Rightarrow> backup_remediation \<Rightarrow>
   staged_artifact \<Rightarrow> 'w msys \<Rightarrow> (backup_result \<times> staged_artifact) \<times> 'w msys" where
  "stage_failed outcome stages failed code remediation staged s =
     ((backup_failure outcome stages failed code remediation, staged), s)"

definition run_publication ::
  "'w backup_action \<Rightarrow> backup_plan \<Rightarrow> staged_artifact \<Rightarrow> stage_results \<Rightarrow> 'w staged_run" where
  "run_publication a plan staged stages c s =
     (if ctx_err c (clock s) \<noteq> None
      then stage_failed BackupCancelled stages StagePublication CodeCancelled RemedyRetry staged s
      else (case publish_backup_pair (ba_codec a) (ba_os a) (ba_cwd a)
            (owned_publication_request
              \<lparr>pr_directory = dp_directory (bp_destination plan), pr_dump_path = sa_path staged,
               pr_container = bp_container plan, pr_config = bp_config plan, pr_ownership = []\<rparr>
              (sa_path staged)) c s of
        (None, s1) \<Rightarrow>
          stage_failed BackupDestinationFailed stages StagePublication CodePublication RemedyStorage staged s1
      | (Some pub, s1) \<Rightarrow>
          ((\<lparr>br_outcome = BackupValidated, br_dump_path = pub_dump_path pub,
             br_manifest_path = pub_manifest_path pub, br_sha256 = pub_sha256 pub, br_size = pub_size pub,
             br_stages = mark StagePublication StagePassed stages, br_code = CodeNone,
             br_remediation = RemedyNone\<rparr>, staged), s1)))"

definition run_validation ::
  "'w backup_action \<Rightarrow> (string \<Rightarrow> ('w, bool) meff) \<Rightarrow> 'w progress \<Rightarrow> backup_plan \<Rightarrow> staged_artifact \<Rightarrow>
   stage_results \<Rightarrow> 'w staged_run" where
  "run_validation a validate progress plan staged stages c s =
     (if ctx_err c (clock s) \<noteq> None
      then stage_failed BackupCancelled stages StageArchiveValidation CodeCancelled RemedyRetry staged s
      else (case validate (sa_path staged) c s of
        (False, s1) \<Rightarrow>
          stage_failed BackupValidationFailed stages StageArchiveValidation CodeArchiveValidation
            RemedyArchive staged s1
      | (True, s1) \<Rightarrow>
          run_publication a plan staged (mark StageArchiveValidation StagePassed stages) c
            (emit_progress progress ProgressPublishing s1)))"

definition run_staged_file ::
  "'w backup_action \<Rightarrow> (string \<Rightarrow> ('w, bool) meff) \<Rightarrow> 'w progress \<Rightarrow> backup_plan \<Rightarrow> staged_artifact \<Rightarrow>
   stage_results \<Rightarrow> 'w staged_run" where
  "run_staged_file a validate progress plan staged stages c s =
     (if ctx_err c (clock s) \<noteq> None
      then stage_failed BackupCancelled stages StageStagedFile CodeCancelled RemedyRetry staged s
      else (case artifact_sync (ba_os a) staged s of
        (False, s1) \<Rightarrow>
          stage_failed BackupDestinationFailed stages StageStagedFile CodeStagedSync RemedyStorage staged s1
      | (True, s1) \<Rightarrow>
          (case artifact_close (ba_os a) staged s1 of
             ((False, closed), s2) \<Rightarrow>
               stage_failed BackupDestinationFailed stages StageStagedFile CodeStagedClose RemedyStorage closed s2
           | ((True, closed), s2) \<Rightarrow>
               (case os_call (ba_os a) (Stat (sa_path closed)) s2 of
                  (info, s3) \<Rightarrow>
                    if (case info of OsInfo i \<Rightarrow> file_size i = 0 | _ \<Rightarrow> True)
                    then stage_failed BackupDumpFailed stages StageStagedFile CodeStagedEmpty RemedyStorage closed s3
                    else run_validation a validate progress plan closed (mark StageStagedFile StagePassed stages) c
                           (emit_progress progress ProgressValidating s3)))))"

definition after_dump ::
  "'w backup_action \<Rightarrow> (string \<Rightarrow> ('w, bool) meff) \<Rightarrow> 'w progress \<Rightarrow> backup_plan \<Rightarrow> staged_artifact \<Rightarrow>
   stage_results \<Rightarrow> process_outcome \<Rightarrow> 'w staged_run" where
  "after_dump a validate progress plan staged stages result c s =
     (case result of
        ProcessSucceeded \<Rightarrow>
          run_staged_file a validate progress plan staged (mark StageDump StagePassed stages) c
            (emit_progress progress ProgressSyncing s)
      | ProcessCancelled \<Rightarrow>
          stage_failed BackupCancelled stages StageDump CodeCancelled RemedyRetry staged s
      | ProcessTimedOut \<Rightarrow>
          stage_failed BackupTimedOut stages StageDump CodeDumpTimeout RemedyDatabase staged s
      | ProcessCleanupFailed \<Rightarrow>
          stage_failed BackupDumpFailed stages StageDump CodeHelperCleanup RemedyDocker staged s
      | ProcessFailed \<Rightarrow>
          stage_failed BackupDumpFailed stages StageDump CodeDump RemedyDocker staged s)"

definition run_dump ::
  "'w backup_action \<Rightarrow> 'w executor \<Rightarrow> (string \<Rightarrow> ('w, bool) meff) \<Rightarrow> 'w progress \<Rightarrow> backup_plan \<Rightarrow>
   staged_artifact \<Rightarrow> credential_file \<Rightarrow> stage_results \<Rightarrow> 'w staged_run" where
  "run_dump a x validate progress plan staged credential stages c s =
     (case build_helper_dump (ba_os a)
        \<lparr>hr_goos = bp_goos plan, hr_container = bp_container plan, hr_config = bp_config plan,
         hr_credential = credential, hr_timeout = bp_timeout plan\<rparr> s of
        (None, s1) \<Rightarrow>
          stage_failed BackupPreconditionFailed stages StageDump CodeHelperPrecondition RemedyHelperImage staged
            (snd (credential_cleanup (ba_os a) credential s1))
      | (Some run, s1) \<Rightarrow>
          if ctx_err c (clock s1) \<noteq> None
          then stage_failed BackupCancelled stages StageDump CodeCancelled RemedyRetry staged
                 (snd (credential_cleanup (ba_os a) credential s1))
          else (case run_helper_staged (ba_os a) x run credential (sa_path staged) c
                  (emit_progress progress ProgressDumping s1) of
            (result, s2) \<Rightarrow> after_dump a validate progress plan staged stages (p_outcome result) c s2))"

definition run_credentials ::
  "'w backup_action \<Rightarrow> 'w executor \<Rightarrow> (string \<Rightarrow> ('w, bool) meff) \<Rightarrow> 'w progress \<Rightarrow> backup_plan \<Rightarrow>
   staged_artifact \<Rightarrow> stage_results \<Rightarrow> 'w staged_run" where
  "run_credentials a x validate progress plan staged stages c s =
     (if ctx_err c (clock s) \<noteq> None
      then stage_failed BackupCancelled stages StageCredentials CodeCancelled RemedyRetry staged s
      else (case prepare_credential (ba_os a) (ba_temp_dir a) (ba_temp_root a) (bp_config plan) s of
        (None, s1) \<Rightarrow>
          stage_failed BackupPreconditionFailed stages StageCredentials CodeCredentials RemedyCredentials staged s1
      | (Some credential, s1) \<Rightarrow>
          run_dump a x validate progress plan staged credential (mark StageCredentials StagePassed stages) c s1))"

definition run_prepared ::
  "'w backup_action \<Rightarrow> 'w dest_store \<Rightarrow> 'w executor \<Rightarrow> (string \<Rightarrow> ('w, bool) meff) \<Rightarrow> 'w progress \<Rightarrow>
   backup_plan \<Rightarrow> stage_results \<Rightarrow> ('w, backup_result) meff" where
  "run_prepared a store x validate progress plan stages c s =
     (case store_prepare store (bp_destination plan) c s of
        (Inl e, s1) \<Rightarrow>
          (backup_failure BackupDestinationFailed stages StageDestination CodeDestination RemedyDestination, s1)
      | (Inr staged, s1) \<Rightarrow>
          (case run_credentials a x validate progress plan staged
                  (mark StageDestination StagePassed stages) c s1 of
             ((result, left), s2) \<Rightarrow>
               (result, if br_outcome result = BackupValidated then s2
                        else snd (artifact_cleanup (ba_os a) left s2))))"

definition run_with_progress ::
  "'w backup_action \<Rightarrow> backup_plan \<Rightarrow> 'w progress \<Rightarrow> ('w, backup_result) meff" where
  "run_with_progress a plan progress c s =
     (let stages = new_backup_diagnostics in
      if ctx_err c (clock s) \<noteq> None
      then (backup_failure BackupCancelled stages StagePreconditions CodeCancelled RemedyRetry, s)
      else (case (ba_store a, ba_executor a, ba_validator a) of
        (Some store, Some x, Some validate) \<Rightarrow>
          if \<not> valid_config (bp_config plan)
          then (backup_failure BackupPreconditionFailed stages StagePreconditions CodeResolvedConfigInvalid
                  RemedyPrerequisites, s)
          else if \<not> trusted_container (bp_container plan)
          then (backup_failure BackupPreconditionFailed stages StagePreconditions CodeContainerInvalid
                  RemedyPrerequisites, s)
          else run_prepared a store x validate progress plan (mark StagePreconditions StagePassed stages) c
                 (emit_progress progress ProgressPreparing s)
      | _ \<Rightarrow> (backup_failure BackupPreconditionFailed stages StagePreconditions CodeEngineUnavailable
                RemedyPrerequisites, s)))"

definition backup_run :: "'w backup_action \<Rightarrow> backup_plan \<Rightarrow> ('w, backup_result) meff" where
  "backup_run a plan = run_with_progress a plan None"

text \<open>
  The production action: \<open>buildDependencies\<close> in \<open>cmd/installer/main.go\<close> connects the
  legacy resolver, the Docker inspector and validator behind \<open>sudo\<close>, and the store with
  its privileged preparation.
\<close>

definition production_backup ::
  "backup_codec \<Rightarrow> (string \<Rightarrow> docker_inspect list option) \<Rightarrow> 'w dest_env \<Rightarrow> env_lookup \<Rightarrow> 'w executor \<Rightarrow>
   'w runner \<Rightarrow> 'w backup_action" where
  "production_backup cd decode env host x run =
     \<lparr>ba_resolver = Some (resolver_resolve (de_os env) host 0),
      ba_inspector = Some (discover_container (Some (cli_inspector decode (Some (run_docker x))))),
      ba_store = Some \<lparr>ds_env = env, ds_space = None, ds_minimum = 0, ds_privilege = Some (sudo_prepare (Some run))\<rparr>,
      ba_executor = Some (sudo_docker x), ba_temp_root = [],
      ba_validator = Some (archive_validate (de_os env) (Some (sudo_docker x)) (30 * 60 * 1000000000)),
      ba_goos = de_goos env, ba_timeout = 30 * 60 * 1000000000, ba_codec = cd, ba_os = de_os env,
      ba_cwd = de_cwd env, ba_temp_dir = de_temp_dir env\<rparr>"

definition production_backup_request :: backup_request where
  "production_backup_request =
     \<lparr>bq_destination = ''/opt/alice/backups/'', bq_source_roots = [], bq_environment = []\<rparr>"

end
