(* ===== verification/BackupSafety.thy ===== *)
theory BackupSafety
  imports BackupAction ContainerProperties
begin

text \<open>
  What a backup leaves behind.  The ledger of a trace holds the files that were created
  and not removed since: an exclusive creation, a whole write and a rename enter a path,
  a removal takes it out.  A removal counts when it was attempted: whether it succeeds is
  up to the host.
\<close>

section \<open>The ledger\<close>

fun ledger_step :: "string set \<Rightarrow> migration_event \<Rightarrow> string set" where
  "ledger_step A (FileOp (CreateExclusive p m) True) = insert p A"
| "ledger_step A (FileOp (WriteWhole p d m) True) = insert p A"
| "ledger_step A (FileOp (RenameNoReplace p q) True) = insert q (A - {p})"
| "ledger_step A (FileOp (RemoveFile p) ok) = A - {p}"
| "ledger_step A (FileOp (RemoveAll d) ok) = A - range (\<lambda>x. path_join [d, x])"
| "ledger_step A e = A"

definition ledger :: "string set \<Rightarrow> migration_event list \<Rightarrow> string set" where
  "ledger A es = foldl ledger_step A es"

lemma ledger_step_mono: "A \<subseteq> B \<Longrightarrow> ledger_step A e \<subseteq> ledger_step B e"
  by (induction A e rule: ledger_step.induct) auto

lemma ledger_mono: "A \<subseteq> B \<Longrightarrow> ledger A es \<subseteq> ledger B es"
  unfolding ledger_def by (induction es arbitrary: A B) (auto dest: ledger_step_mono)

lemma ledger_append: "ledger A (xs @ ys) = ledger (ledger A xs) ys"
  by (simp add: ledger_def)

text \<open>From the files \<open>A\<close> at most the files \<open>B\<close> remain.\<close>

definition leaves :: "string set \<Rightarrow> 'w msys \<Rightarrow> 'w msys \<Rightarrow> string set \<Rightarrow> bool" where
  "leaves A s s' B \<longleftrightarrow> (\<exists>es. grew s s' es \<and> ledger A es \<subseteq> B)"

lemma leaves_refl: "A \<subseteq> B \<Longrightarrow> leaves A s s B"
  unfolding leaves_def by (rule exI [of _ "[]"]) (simp add: ledger_def)

lemma leaves_trans:
  assumes "leaves A s s1 B" "leaves B s1 s2 C"
  shows "leaves A s s2 C"
proof -
  from assms obtain xs ys where "grew s s1 xs" "ledger A xs \<subseteq> B" "grew s1 s2 ys" "ledger B ys \<subseteq> C"
    unfolding leaves_def by blast
  with ledger_mono [of "ledger A xs" B ys] have "grew s s2 (xs @ ys) \<and> ledger A (xs @ ys) \<subseteq> C"
    by (auto simp: ledger_append intro: grew_trans)
  then show ?thesis unfolding leaves_def ..
qed

lemma leaves_weaken: "leaves A s s' B \<Longrightarrow> A' \<subseteq> A \<Longrightarrow> B \<subseteq> B' \<Longrightarrow> leaves A' s s' B'"
  unfolding leaves_def by (meson ledger_mono subset_trans)

lemma leaves_grew: "grew s s' [e] \<Longrightarrow> leaves A s s' (ledger_step A e)"
  unfolding leaves_def by (rule exI [of _ "[e]"]) (simp add: ledger_def)

section \<open>Computations that enter nothing\<close>

fun entering :: "migration_event \<Rightarrow> bool" where
  "entering (FileOp (CreateExclusive p m) ok) \<longleftrightarrow> ok"
| "entering (FileOp (WriteWhole p d m) ok) \<longleftrightarrow> ok"
| "entering (FileOp (RenameNoReplace p q) ok) \<longleftrightarrow> ok"
| "entering e \<longleftrightarrow> False"

definition quiet :: "'w msys \<Rightarrow> 'w msys \<Rightarrow> bool" where
  "quiet s s' \<longleftrightarrow> (\<exists>es. grew s s' es \<and> list_all (\<lambda>e. \<not> entering e) es)"

lemma quiet_refl: "quiet s s"
  unfolding quiet_def by (rule exI [of _ "[]"]) simp

lemma quiet_trans: "quiet s s1 \<Longrightarrow> quiet s1 s2 \<Longrightarrow> quiet s s2"
  unfolding quiet_def by (metis grew_trans list_all_append)

lemma quiet_grew: "grew s s' es \<Longrightarrow> list_all (\<lambda>e. \<not> entering e) es \<Longrightarrow> quiet s s'"
  unfolding quiet_def by blast

lemma ledger_step_quiet: "\<not> entering e \<Longrightarrow> ledger_step A e \<subseteq> A"
  by (induction A e rule: ledger_step.induct) auto

lemma ledger_quiet: "list_all (\<lambda>e. \<not> entering e) es \<Longrightarrow> ledger A es \<subseteq> A"
proof (induction es arbitrary: A)
  case (Cons e es)
  then have "ledger (ledger_step A e) es \<subseteq> ledger_step A e" by simp
  also have "\<dots> \<subseteq> A" using Cons.prems by (simp add: ledger_step_quiet)
  finally show ?case by (simp add: ledger_def)
qed (simp add: ledger_def)

lemma quiet_leaves: "quiet s s' \<Longrightarrow> leaves A s s' A"
  unfolding quiet_def leaves_def using ledger_quiet by blast

fun entering_op :: "file_op \<Rightarrow> bool" where
  "entering_op (CreateExclusive p m) \<longleftrightarrow> True"
| "entering_op (WriteWhole p d m) \<longleftrightarrow> True"
| "entering_op (RenameNoReplace p q) \<longleftrightarrow> True"
| "entering_op fop \<longleftrightarrow> False"

lemma os_call_quiet: "os_call os fop s = (r, s') \<Longrightarrow> \<not> entering_op fop \<or> \<not> os_success r \<Longrightarrow> quiet s s'"
  by (drule os_call_grew, erule quiet_grew) (cases fop; auto)

lemma os_ok_quiet: "os_ok os fop s = (r, s') \<Longrightarrow> \<not> entering_op fop \<or> \<not> r \<Longrightarrow> quiet s s'"
  by (auto simp: os_ok_def split: prod.splits intro: os_call_quiet)

lemma exec_call_quiet: "exec_call x spec c s = (r, s') \<Longrightarrow> quiet s s'"
  by (drule exec_call_grew, erule quiet_grew) simp

lemma with_secrets_quiet: "with_secrets f s = (r, s') \<Longrightarrow> quiet s s'"
  by (drule with_secrets_grew, erule quiet_grew) simp

lemma lift_cmd_quiet: "lift_cmd m c s = (r, s') \<Longrightarrow> quiet s s'"
proof -
  assume "lift_cmd m c s = (r, s')"
  then obtain es where "trace s' = trace s @ map Command es" "clock s \<le> clock s'"
    by (auto simp: lift_cmd_def split: prod.splits)
  then show ?thesis by (intro quiet_grew [of _ _ "map Command es"]) (auto simp: grew_def list_all_iff)
qed

lemma credential_cleanup_quiet: "credential_cleanup os f s = (r, s') \<Longrightarrow> quiet s s'"
  by (auto simp: credential_cleanup_def quiet_refl split: if_splits intro: os_ok_quiet)

lemmas quiet_calls =
  os_call_quiet [OF _ disjI1] os_ok_quiet [OF _ disjI1] exec_call_quiet with_secrets_quiet lift_cmd_quiet
  credential_cleanup_quiet

lemma snd_os_ok_quiet: "\<not> entering_op fop \<Longrightarrow> quiet s (snd (os_ok os fop s))"
  by (metis os_ok_quiet prod.collapse)

lemma snd_credential_cleanup_quiet: "quiet s (snd (credential_cleanup os f s))"
  by (metis credential_cleanup_quiet prod.collapse)

lemma cleanup_path_quiet: "quiet s (cleanup_path os p s)"
  by (simp add: cleanup_path_def quiet_refl snd_os_ok_quiet)

lemmas quiet_intros = quiet_refl snd_os_ok_quiet snd_credential_cleanup_quiet cleanup_path_quiet

lemma safe_directory_quiet: "safe_directory env p s = (r, s') \<Longrightarrow> quiet s s'"
  by (auto simp: safe_directory_def split: prod.splits os_reply.splits dest: quiet_calls)

lemma safe_missing_quiet: "safe_missing env p s = (r, s') \<Longrightarrow> quiet s s'"
  by (auto simp: safe_missing_def split: prod.splits bool.splits os_reply.splits
      dest!: safe_directory_quiet dest: quiet_calls intro: quiet_trans)

lemma safe_components_quiet: "safe_components env cur cs s = (r, s') \<Longrightarrow> quiet s s'"
proof (induction env cur cs s arbitrary: r s' rule: safe_components.induct)
  case (2 env cur comp rest s)
  show ?case
  proof (cases "comp = []")
    case False
    obtain reply s1 where call: "os_call (de_os env) (Lstat (path_join [cur, comp])) s = (reply, s1)" by fastforce
    have q1: "quiet s s1" using call by (rule quiet_calls) simp
    have "quiet s1 s'"
      using 2 False call
      by (auto simp: Let_def quiet_refl split: os_reply.splits prod.splits if_splits
          dest: safe_missing_quiet safe_directory_quiet intro: quiet_trans)
    with q1 show ?thesis by (rule quiet_trans)
  qed (use 2 in simp)
qed (simp add: quiet_refl)

lemma safe_existing_path_quiet: "safe_existing_path env p s = (r, s') \<Longrightarrow> quiet s s'"
  unfolding safe_existing_path_def by (rule safe_components_quiet)

lemma write_chunks_quiet: "write_chunks os p chunks s = (r, s') \<Longrightarrow> quiet s s'"
  by (induction os p chunks s rule: write_chunks.induct)
    (auto simp: quiet_refl split: prod.splits bool.splits dest!: quiet_calls intro: quiet_trans)

lemma cleanup_helper_quiet: "cleanup_helper x name c s = (r, s') \<Longrightarrow> quiet s s'"
  by (auto simp: cleanup_helper_def quiet_refl split: option.splits if_splits prod.splits dest: quiet_calls)

lemma restore_hash_quiet: "restore_hash cd os p s = (r, s') \<Longrightarrow> quiet s s'"
  by (auto simp: restore_hash_def split: prod.splits os_reply.splits dest: quiet_calls)

lemma safe_credential_quiet: "safe_credential os f s = (r, s') \<Longrightarrow> quiet s s'"
  by (auto simp: safe_credential_def quiet_refl split: prod.splits if_splits os_reply.splits
      dest!: quiet_calls intro: quiet_trans)

lemma build_helper_dump_quiet: "build_helper_dump os r s = (run, s') \<Longrightarrow> quiet s s'"
  by (auto simp: build_helper_dump_def quiet_refl split: if_splits prod.splits bool.splits os_reply.splits
      dest!: safe_credential_quiet quiet_calls intro: quiet_trans)

lemma drop_credential_root_quiet: "drop_credential_root os root s = (r, s') \<Longrightarrow> quiet s s'"
  by (auto simp: drop_credential_root_def snd_os_ok_quiet)

lemma finish_credential_quiet: "finish_credential os root p s = (r, s') \<Longrightarrow> quiet s s'"
  by (auto simp: finish_credential_def split: prod.splits bool.splits os_reply.splits option.splits
      dest!: quiet_calls drop_credential_root_quiet intro: quiet_trans)

lemma artifact_close_quiet: "artifact_close os a s = (r, s') \<Longrightarrow> quiet s s'"
  by (auto simp: artifact_close_def remove_gone_def quiet_refl split: if_splits prod.splits bool.splits
      dest!: quiet_calls intro: quiet_trans)

lemma artifact_sync_quiet: "artifact_sync os a s = (r, s') \<Longrightarrow> quiet s s'"
  by (auto simp: artifact_sync_def dest: quiet_calls)

lemma staged_dump_owner_quiet: "staged_dump_owner os p s = (r, s') \<Longrightarrow> quiet s s'"
  by (auto simp: staged_dump_owner_def quiet_refl split: if_splits prod.splits os_reply.splits dest: quiet_calls)

lemma safe_owned_staged_dump_quiet: "safe_owned_staged_dump os p u g s = (r, s') \<Longrightarrow> quiet s s'"
  by (auto simp: safe_owned_staged_dump_def quiet_refl split: if_splits prod.splits os_reply.splits dest: quiet_calls)

lemma archive_validate_quiet: "archive_validate os x t p c s = (r, s') \<Longrightarrow> quiet s s'"
  unfolding archive_validate_def Let_def
  by (auto simp: quiet_refl split: prod.splits if_splits option.splits bool.splits os_reply.splits
      dest!: staged_dump_owner_quiet safe_owned_staged_dump_quiet cleanup_helper_quiet quiet_calls
      intro: quiet_trans) (meson quiet_trans)+

lemma run_helper_staged_quiet: "run_helper_staged os x run cred p c s = (r, s') \<Longrightarrow> quiet s s'"
  by (auto simp: run_helper_staged_def quiet_refl split: if_splits prod.splits
      dest!: write_chunks_quiet cleanup_helper_quiet quiet_calls intro: quiet_trans)

lemma privileged_steps_quiet: "privileged_steps run cmds c s = (r, s') \<Longrightarrow> quiet s s'"
  by (induction run cmds c s rule: privileged_steps.induct)
    (auto simp: quiet_refl split: prod.splits if_splits dest!: lift_cmd_quiet intro: quiet_trans)

lemma sudo_prepare_quiet: "sudo_prepare run d u g c s = (r, s') \<Longrightarrow> quiet s s'"
  by (auto simp: sudo_prepare_def quiet_refl split: option.splits dest: privileged_steps_quiet)

section \<open>The store\<close>

text \<open>What the theorems assume of the injected parts of a store: they enter no file.\<close>

definition quiet_store :: "'w dest_store \<Rightarrow> bool" where
  "quiet_store st \<longleftrightarrow>
     (\<forall>f d c s r s'. ds_space st = Some f \<longrightarrow> f d c s = (r, s') \<longrightarrow> quiet s s') \<and>
     (\<forall>f d u g c s r s'. ds_privilege st = Some f \<longrightarrow> f d u g c s = (r, s') \<longrightarrow> quiet s s')"

lemma enough_space_quiet: "quiet_store st \<Longrightarrow> enough_space st d c s = (r, s') \<Longrightarrow> quiet s s'"
  by (auto simp: enough_space_def quiet_store_def quiet_refl split: option.splits prod.splits)

lemma ensure_directory_quiet:
  assumes "quiet_store st" "ensure_directory st d c s = (r, s')"
  shows "quiet s s'"
proof -
  have "quiet s s'" if "create_directory st d c s = (b, s')" for b s s'
    using that assms(1)
    by (auto simp: create_directory_def Let_def quiet_store_def split: prod.splits if_splits option.splits bool.splits
        dest!: quiet_calls intro: quiet_trans) (meson quiet_trans)+
  with assms(2) show ?thesis
    by (auto simp: ensure_directory_def split: prod.splits os_reply.splits dest!: quiet_calls intro: quiet_trans)
qed

section \<open>The lock and the staging file\<close>

lemma clean_comps_nonempty: "[] \<notin> set st \<Longrightarrow> [] \<notin> set (clean_comps rooted st cs)"
  by (induction rooted st cs rule: clean_comps.induct) (auto split: list.splits)

lemma join_nonempty: "cs \<noteq> [] \<Longrightarrow> [] \<notin> set cs \<Longrightarrow> join sep cs \<noteq> []"
  by (induction sep cs rule: join.induct) auto

lemma path_clean_nonempty [simp]: "path_clean p \<noteq> []"
  using join_nonempty [OF _ clean_comps_nonempty] by (auto simp: path_clean_def Let_def)

lemma path_join_nonempty: "x \<noteq> [] \<Longrightarrow> path_join [d, x] \<noteq> []"
  by (simp add: path_join_def)

lemma leaves_quiet_left: "quiet s s1 \<Longrightarrow> leaves A s1 s2 B \<Longrightarrow> leaves A s s2 B"
  by (rule leaves_trans [OF quiet_leaves])

lemma leaves_quiet_right: "leaves A s s1 B \<Longrightarrow> quiet s1 s2 \<Longrightarrow> leaves A s s2 B"
  by (rule leaves_trans [OF _ quiet_leaves])

lemma os_call_leaves: "os_call os fop s = (r, s') \<Longrightarrow> leaves A s s' (ledger_step A (FileOp fop (os_success r)))"
  by (rule leaves_grew [OF os_call_grew])

lemma os_ok_leaves: "os_ok os fop s = (r, s') \<Longrightarrow> leaves A s s' (ledger_step A (FileOp fop r))"
  by (rule leaves_grew [OF os_ok_grew])

lemma remove_file_leaves: "leaves A s (snd (os_ok os (RemoveFile p) s)) (A - {p})"
  using os_ok_leaves [of os "RemoveFile p" s] by (metis ledger_step.simps(4) prod.collapse)

lemma release_lock_leaves: "leaves (insert (lock_path d) A) s (release_lock os d s) A"
  unfolding release_lock_def by (rule leaves_weaken [OF remove_file_leaves subset_refl]) blast

lemma create_leaves:
  "os_call os (CreateExclusive p m) s = (r, s') \<Longrightarrow> leaves A s s' (if os_success r then insert p A else A)"
  using os_call_leaves [of os "CreateExclusive p m" s r s' A] os_call_quiet [of os "CreateExclusive p m" s r s']
    quiet_leaves [of s s' A] by (cases "os_success r") simp_all

lemma acquire_lock_leaves:
  assumes "acquire_lock os d s = (r, s')"
  shows "leaves A s s' (if r = None then insert (lock_path d) A else A)"
proof -
  obtain reply s1 where call: "os_call os (CreateExclusive (lock_path d) 0x180) s = (reply, s1)" by fastforce
  note created = create_leaves [OF call, of A]
  show ?thesis
  proof (cases "os_success reply")
    case False
    with assms call created show ?thesis
      by (cases reply) (auto simp: acquire_lock_def)
  next
    case True
    obtain ok s2 where close: "os_ok os (CloseFile (lock_path d)) s1 = (ok, s2)" by fastforce
    then have "quiet s1 s2" by (rule quiet_calls) simp
    with created True have open2: "leaves A s s2 (insert (lock_path d) A)"
      by (auto intro: leaves_quiet_right)
    have "r = (if ok then None else Some DestinationFailure)" "s' = (if ok then s2 else release_lock os d s2)"
      using assms call True close by (cases reply; cases ok; simp add: acquire_lock_def)+
    with open2 show ?thesis
      by (auto intro: leaves_trans [OF _ release_lock_leaves])
  qed
qed

lemma open_staging_leaves:
  "open_staging os d n s = (r, s') \<Longrightarrow>
   (case r of
      Inl e \<Rightarrow> leaves (insert (lock_path d) A) s s' A
    | Inr a \<Rightarrow> leaves (insert (lock_path d) A) s s' (insert (sa_path a) (insert (lock_path d) A)) \<and>
        sa_lock a = lock_path d \<and> sa_path a \<noteq> [] \<and> \<not> sa_closed a)"
proof (induction n arbitrary: s)
  case 0
  then show ?case by (auto intro: release_lock_leaves)
next
  case (Suc n)
  let ?L = "lock_path d"
  obtain token s1 where rand: "os_call os RandomToken s = (token, s1)" by fastforce
  have q1: "quiet s s1" using rand by (rule quiet_calls) simp
  show ?case
  proof (cases "\<exists>t. token = OsPath t")
    case False
    then have "r = Inl DestinationFailure" "s' = release_lock os d s1"
      using Suc.prems rand by (cases token; simp)+
    with leaves_quiet_left [OF q1 release_lock_leaves [of d A s1 os]] show ?thesis by simp
  next
    case True
    then obtain t where t: "token = OsPath t" ..
    let ?p = "path_join [d, staging_name t]"
    have named: "?p \<noteq> []" by (rule path_join_nonempty) (simp add: staging_name_def)
    obtain reply s2 where call: "os_call os (CreateExclusive ?p 0x180) s1 = (reply, s2)" by fastforce
    note created = leaves_quiet_left [OF q1 create_leaves [OF call, of "insert ?L A"]]
    show ?thesis
    proof (cases "os_success reply")
      case False
      with call have q2: "quiet s s2" by (auto intro: quiet_trans [OF q1] os_call_quiet)
      show ?thesis
      proof (cases "reply = OsExist")
        case True
        with Suc.prems rand t call have "open_staging os d n s2 = (r, s')" by simp
        note ih = Suc.IH [OF this]
        show ?thesis
        proof (cases r)
          case (Inl e)
          with ih leaves_quiet_left [OF q2] show ?thesis by simp
        next
          case (Inr a)
          with ih leaves_quiet_left [OF q2] show ?thesis by simp
        qed
      next
        case neq: False
        with False Suc.prems rand t call have "r = Inl DestinationFailure" "s' = release_lock os d s2"
          by (cases reply; simp)+
        with leaves_quiet_left [OF q2 release_lock_leaves [of d A s2 os]] show ?thesis by simp
      qed
    next
      case True
      obtain ok s3 where chmod: "os_ok os (Chmod ?p 0x180) s2 = (ok, s3)" by fastforce
      then have "quiet s2 s3" by (rule quiet_calls) simp
      with created True have open3: "leaves (insert ?L A) s s3 (insert ?p (insert ?L A))"
        by (auto intro: leaves_quiet_right)
      define s4 where "s4 = snd (os_ok os (CloseFile ?p) s3)"
      define s5 where "s5 = snd (os_ok os (RemoveFile ?p) s4)"
      have step: "open_staging os d (Suc n) s =
          (if ok then (Inr \<lparr>sa_path = ?p, sa_lock = ?L, sa_closed = False\<rparr>, s3)
           else (Inl DestinationFailure, release_lock os d s5))"
        using True by (cases reply) (simp_all add: rand t call chmod s4_def s5_def Let_def)
      show ?thesis
      proof (cases ok)
        case True
        with Suc.prems step open3 named show ?thesis by auto
      next
        case False
        with Suc.prems step have "r = Inl DestinationFailure" "s' = release_lock os d s5" by simp_all
        moreover have "leaves (insert ?L A) s s4 (insert ?p (insert ?L A))"
          unfolding s4_def using open3 by (rule leaves_quiet_right) (rule snd_os_ok_quiet, simp)
        then have "leaves (insert ?L A) s s5 (insert ?p (insert ?L A) - {?p})"
          unfolding s5_def by (rule leaves_trans [OF _ remove_file_leaves])
        then have "leaves (insert ?L A) s s5 (insert ?L A)"
          by (rule leaves_weaken) blast+
        ultimately show ?thesis by (auto intro: leaves_trans [OF _ release_lock_leaves])
      qed
    qed
  qed
qed

lemma prepare_directory_quiet: 
  assumes "quiet_store st" "prepare_directory st plan c s = (r, s')"
  shows "quiet s s'"
  using assms(2) unfolding prepare_directory_def Let_def
  by (auto simp: quiet_refl split: if_splits prod.splits bool.splits option.splits
      dest!: safe_existing_path_quiet ensure_directory_quiet [OF assms(1)] safe_directory_quiet
        enough_space_quiet [OF assms(1)]
      intro: quiet_trans)

lemma store_prepare_leaves:
  assumes "quiet_store st" "store_prepare st plan c s = (r, s')"
  shows "case r of
      Inl e \<Rightarrow> leaves A s s' A
    | Inr a \<Rightarrow> leaves A s s' (insert (sa_path a) (insert (sa_lock a) A)) \<and> sa_path a \<noteq> [] \<and> \<not> sa_closed a"
proof -
  let ?d = "dp_directory plan"
  let ?os = "de_os (ds_env st)"
  obtain checked s1 where check: "prepare_directory st plan c s = (checked, s1)" by fastforce
  note q = prepare_directory_quiet [OF assms(1) check]
  obtain e s2 where lock: "acquire_lock ?os ?d s1 = (e, s2)" by fastforce
  note locked = leaves_quiet_left [OF q acquire_lock_leaves [OF lock, of A]]
  show ?thesis
  proof (cases checked)
    case (Some e')
    with assms(2) check q show ?thesis by (auto simp: store_prepare_def Let_def quiet_leaves)
  next
    case no_objection: None
    show ?thesis
    proof (cases e)
      case (Some e')
      with assms(2) check no_objection lock locked show ?thesis by (auto simp: store_prepare_def Let_def)
    next
      case None
      with assms(2) check no_objection lock have "open_staging ?os ?d 8 s2 = (r, s')"
        by (simp add: store_prepare_def Let_def)
      note opened = open_staging_leaves [OF this, of A]
      from locked None have "leaves A s s2 (insert (lock_path ?d) A)" by simp
      note after = leaves_trans [OF this]
      show ?thesis
      proof (cases r)
        case (Inl e')
        with opened after show ?thesis by simp
      next
        case (Inr a)
        with opened after show ?thesis by simp
      qed
    qed
  qed
qed

section \<open>The credential\<close>

definition pgpass_of :: "credential_file \<Rightarrow> string" where
  "pgpass_of f = path_join [cred_root f, ''pgpass'']"

lemma remove_all_leaves: "leaves (insert (path_join [root, x]) A) s (snd (os_ok os (RemoveAll root) s)) A"
proof -
  let ?r = "fst (os_ok os (RemoveAll root) s)"
  have "leaves (insert (path_join [root, x]) A) s (snd (os_ok os (RemoveAll root) s))
      (ledger_step (insert (path_join [root, x]) A) (FileOp (RemoveAll root) ?r))"
    by (rule os_ok_leaves) simp
  then show ?thesis by (rule leaves_weaken) auto
qed

lemma credential_cleanup_leaves:
  "cred_root f \<noteq> [] \<Longrightarrow> leaves (insert (pgpass_of f) A) s (snd (credential_cleanup os f s)) A"
  by (simp add: credential_cleanup_def pgpass_of_def remove_all_leaves)

lemma finish_credential_leaves:
  assumes "finish_credential os root (path_join [root, ''pgpass'']) s = (r, s')"
  shows "leaves (insert (path_join [root, ''pgpass'']) A) s s' (if r = None then A else insert (path_join [root, ''pgpass'']) A)
    \<and> (\<forall>f. r = Some f \<longrightarrow> cred_root f = root)"
proof -
  have "(\<exists>s1. quiet s s1 \<and> r = None \<and> s' = snd (os_ok os (RemoveAll root) s1)) \<or>
      quiet s s' \<and> (\<exists>f. r = Some f \<and> cred_root f = root)"
    using assms
    by (auto simp: finish_credential_def drop_credential_root_def
        split: prod.splits bool.splits os_reply.splits option.splits dest!: quiet_calls intro: quiet_trans)
  then show ?thesis
    by (auto intro: quiet_leaves leaves_quiet_left remove_all_leaves)
qed

lemma write_whole_leaves:
  "os_ok os (WriteWhole p d m) s = (r, s') \<Longrightarrow> leaves A s s' (if r then insert p A else A)"
  using os_ok_leaves [of os "WriteWhole p d m" s r s' A] os_ok_quiet [of os "WriteWhole p d m" s r s']
    quiet_leaves [of s s' A] by (cases r) simp_all

text \<open>\<open>os.MkdirTemp\<close> never answers with an empty name.\<close>

definition names_directories :: "'w os \<Rightarrow> bool" where
  "names_directories os \<longleftrightarrow> (\<forall>parent pattern c now w. fst (os (MkdirTemp parent pattern) c now w) \<noteq> OsPath [])"

lemma prepare_credential_root_leaves:
  assumes "names_directories os" "prepare_credential_root os parent config s = (r, s')"
  shows "case r of
      None \<Rightarrow> leaves A s s' A
    | Some f \<Rightarrow> leaves A s s' (insert (pgpass_of f) A) \<and> cred_root f \<noteq> []"
proof -
  obtain reply s1 where mk: "os_call os (MkdirTemp parent ''alice-pgpass-'') s = (reply, s1)" by fastforce
  then have q1: "quiet s s1" by (rule quiet_calls) simp
  show ?thesis
  proof (cases "\<exists>root. reply = OsPath root")
    case False
    with assms(2) mk q1 show ?thesis
      by (cases reply) (auto simp: prepare_credential_root_def quiet_leaves)
  next
    case True
    then obtain root where root: "reply = OsPath root" ..
    have named: "root \<noteq> []"
      using assms(1) mk root
      by (auto simp: os_call_def call_def outer_def names_directories_def split: prod.splits) (metis fst_conv)
    let ?p = "path_join [root, ''pgpass'']"
    obtain ok s2 where chmod: "os_ok os (Chmod root 0x1C0) s1 = (ok, s2)" by fastforce
    then have "quiet s1 s2" by (rule quiet_calls) simp
    with q1 have q2: "quiet s s2" by (rule quiet_trans)
    show ?thesis
    proof (cases ok)
      case False
      with assms(2) mk root chmod have "drop_credential_root os root s2 = (r, s')"
        by (simp add: prepare_credential_root_def)
      then have "r = None" "quiet s2 s'" by (auto simp: drop_credential_root_def snd_os_ok_quiet)
      with q2 show ?thesis by (auto intro: quiet_leaves quiet_trans)
    next
      case True
      define line where "line = legacy_pgpass config (config_secret config (secrets (world s2)))"
      obtain written s3 where wr: "os_ok os (WriteWhole ?p line 0x180) s2 = (written, s3)" by fastforce
      note entered = leaves_quiet_left [OF q2 write_whole_leaves [OF wr, of A]]
      show ?thesis
      proof (cases written)
        case False
        with assms(2) mk root chmod True wr have "drop_credential_root os root s3 = (r, s')"
          by (simp add: prepare_credential_root_def Let_def line_def)
        then have "r = None" "quiet s3 s'" by (auto simp: drop_credential_root_def snd_os_ok_quiet)
        with entered False show ?thesis by (auto intro: leaves_quiet_right)
      next
        case True
        with assms(2) mk root chmod \<open>ok\<close> wr have "finish_credential os root ?p s3 = (r, s')"
          by (simp add: prepare_credential_root_def Let_def line_def)
        note fin = finish_credential_leaves [OF this, of A]
        from entered True have "leaves A s s3 (insert ?p A)" by simp
        note after = leaves_trans [OF this]
        show ?thesis
        proof (cases r)
          case None
          with fin after show ?thesis by simp
        next
          case (Some f)
          with fin after named show ?thesis by (simp add: pgpass_of_def)
        qed
      qed
    qed
  qed
qed

lemma prepare_credential_leaves:
  assumes "names_directories os" "prepare_credential os td tr config s = (r, s')"
  shows "case r of
      None \<Rightarrow> leaves A s s' A
    | Some f \<Rightarrow> leaves A s s' (insert (pgpass_of f) A) \<and> cred_root f \<noteq> []"
proof -
  obtain s1 where
    "(if \<not> valid_config config \<or> config_secret config (secrets (world s)) = [] then (None, s)
      else prepare_credential_root os (if tr = [] then td else tr) config s) = (r, s1)"
    "s' = snd (with_secrets (\<lambda>st. ((), clear_secret config st)) s1)"
    using assms(2) by (auto simp: prepare_credential_def split: prod.splits)
  moreover have "quiet s1 (snd (with_secrets (\<lambda>st. ((), clear_secret config st)) s1))"
    by (metis with_secrets_quiet prod.collapse)
  ultimately show ?thesis
    using prepare_credential_root_leaves [OF assms(1), of "if tr = [] then td else tr" config s r s1 A]
    by (auto simp: quiet_leaves split: option.splits if_splits intro: leaves_quiet_right)
qed

section \<open>The publication\<close>

lemma cleanup_path_leaves: "p \<noteq> [] \<Longrightarrow> leaves A s (cleanup_path os p s) (A - {p})"
  by (simp add: cleanup_path_def remove_file_leaves)

lemma publication_failed_leaves:
  assumes "publication_failed os owned s = (r, s')" "[] \<notin> set owned"
  shows "leaves A s s' (A - set owned) \<and> r = None"
proof -
  have "leaves A s (foldl (\<lambda>s p. cleanup_path os p s) s owned) (A - set owned)" if "[] \<notin> set owned" for A s
    using that
  proof (induction owned arbitrary: A s)
    case (Cons p owned)
    then have "leaves A s (cleanup_path os p s) (A - {p})" by (intro cleanup_path_leaves) auto
    moreover have "leaves (A - {p}) (cleanup_path os p s)
        (foldl (\<lambda>s p. cleanup_path os p s) (cleanup_path os p s) owned) (A - {p} - set owned)"
      using Cons.prems by (intro Cons.IH) auto
    ultimately have "leaves A s (foldl (\<lambda>s p. cleanup_path os p s) s (p # owned)) (A - {p} - set owned)"
      by (simp add: leaves_trans)
    then show ?case by (rule leaves_weaken) auto
  qed (simp add: leaves_refl)
  with assms show ?thesis by (auto simp: publication_failed_def publication_cleanup_def)
qed

lemma write_protected_file_leaves:
  assumes "write_protected_file os p d s = (r, s')" "p \<noteq> []"
  shows "leaves A s s' (if r then insert p A else A)"
proof -
  obtain made s1 where mk: "os_ok os (CreateExclusive p 0x180) s = (made, s1)" by fastforce
  show ?thesis
  proof (cases made)
    case False
    with mk have "quiet s s1" by (auto intro: os_ok_quiet)
    with assms(1) mk False show ?thesis by (auto simp: write_protected_file_def quiet_leaves)
  next
    case True
    have created: "leaves A s s1 (insert p A)"
      using os_ok_leaves [OF mk, of A] True by simp
    have "(r \<and> quiet s1 s') \<or> (\<not> r \<and> (\<exists>s4. quiet s1 s4 \<and> s' = cleanup_path os p s4))"
      using assms(1) mk True
      by (auto simp: write_protected_file_def split: prod.splits if_splits bool.splits
          dest!: quiet_calls intro: quiet_trans)
    then show ?thesis
    proof (elim disjE conjE exE)
      assume "r" "quiet s1 s'"
      with created show ?thesis by (auto intro: leaves_quiet_right)
    next
      fix s4 assume nr: "\<not> r" and q: "quiet s1 s4" and s': "s' = cleanup_path os p s4"
      have "leaves A s s' (insert p A - {p})"
        unfolding s' by (rule leaves_trans [OF created leaves_quiet_left [OF q cleanup_path_leaves [OF assms(2)]]])
      with nr show ?thesis by (auto intro: leaves_weaken)
    qed
  qed
qed

lemma rename_leaves:
  "os_ok os (RenameNoReplace p q) s = (r, s') \<Longrightarrow> leaves A s s' (if r then insert q (A - {p}) else A)"
  using os_ok_leaves [of os "RenameNoReplace p q" s r s' A] os_ok_quiet [of os "RenameNoReplace p q" s r s']
    quiet_leaves [of s s' A] by (cases r) simp_all

definition pair_files :: "backup_publication \<Rightarrow> string set" where
  "pair_files pub = {pub_dump_path pub, pub_manifest_path pub}"

lemma publish_renames_leaves:
  assumes "publish_renames os d staged ms pub c s = (r, s')"
    and "staged \<noteq> []" "ms \<noteq> []" "pub_dump_path pub \<noteq> []" "pub_manifest_path pub \<noteq> []"
  shows "case r of
      None \<Rightarrow> leaves (insert ms A) s s' A
    | Some p \<Rightarrow> p = pub \<and> leaves (insert ms A) s s' (A - {staged} \<union> pair_files pub)"
proof -
  let ?D = "pub_dump_path pub" and ?M = "pub_manifest_path pub"
  obtain r1 s1 where ren1: "os_ok os (RenameNoReplace staged ?D) s = (r1, s1)" by fastforce
  note l1 = rename_leaves [OF ren1, of "insert ms A"]
  obtain r2 s2 where ren2: "os_ok os (RenameNoReplace ms ?M) s1 = (r2, s2)" by fastforce
  show ?thesis
  proof (cases r1)
    case False
    with assms(1) ren1 have "publication_failed os [staged, ms] s1 = (r, s')" by (simp add: publish_renames_def)
    from publication_failed_leaves [OF this, of "insert ms A"] assms(2,3) leaves_trans [of "insert ms A" s s1] l1 False
    show ?thesis by (auto intro: leaves_weaken)
  next
    case r1: True
    with l1 have l1: "leaves (insert ms A) s s1 (insert ?D (insert ms A - {staged}))" by simp
    note l2 = leaves_trans [OF l1 rename_leaves [OF ren2]]
    show ?thesis
    proof (cases r2)
      case False
      with assms(1) ren1 r1 ren2 have "publication_failed os [ms, ?D] s2 = (r, s')" by (simp add: publish_renames_def)
      note failed = publication_failed_leaves [OF this, of "insert ?D (insert ms A - {staged})"]
      from False l2 have "leaves (insert ms A) s s2 (insert ?D (insert ms A - {staged}))" by simp
      from leaves_trans [OF this] failed assms(3,4)
      have "r = None" "leaves (insert ms A) s s' (insert ?D (insert ms A - {staged}) - set [ms, ?D])" by simp_all
      then show ?thesis by (auto intro: leaves_weaken)
    next
      case r2: True
      with l2 have l2: "leaves (insert ms A) s s2 (insert ?M (insert ?D (insert ms A - {staged}) - {ms}))" by simp
      obtain r3 s3 where fin: "(if ctx_err c (clock s2) \<noteq> None then (False, s2) else os_ok os (SyncDirectory d) s2) = (r3, s3)"
        by fastforce
      then have "quiet s2 s3" by (auto simp: quiet_refl split: if_splits dest: quiet_calls)
      note l3 = leaves_quiet_right [OF l2 this]
      show ?thesis
      proof (cases r3)
        case False
        with assms(1) ren1 r1 ren2 r2 fin have "publication_failed os [?D, ?M] s3 = (r, s')"
          by (simp add: publish_renames_def)
        note failed = publication_failed_leaves [OF this, of "insert ?M (insert ?D (insert ms A - {staged}) - {ms})"]
        with leaves_trans [OF l3] assms(4,5)
        have "r = None"
          "leaves (insert ms A) s s' (insert ?M (insert ?D (insert ms A - {staged}) - {ms}) - set [?D, ?M])" by simp_all
        then show ?thesis by (auto intro: leaves_weaken)
      next
        case True
        with assms(1) ren1 r1 ren2 r2 fin have "r = Some pub" "s' = s3" by (simp_all add: publish_renames_def)
        with l3 show ?thesis by (auto simp: pair_files_def intro: leaves_weaken)
      qed
    qed
  qed
qed

lemma valid_publication_request_quiet: "valid_publication_request os cwd r s = (b, s') \<Longrightarrow> quiet s s'"
  by (auto simp: valid_publication_request_def safe_staged_dump_def quiet_refl
      split: if_splits prod.splits bool.splits os_reply.splits dest!: quiet_calls)

definition manifest_leftovers :: "string \<Rightarrow> string set" where
  "manifest_leftovers directory = range (manifest_staging directory)"

lemma publication_names_nonempty:
  "pub_dump_path (publication_names d h n) \<noteq> []" "pub_manifest_path (publication_names d h n) \<noteq> []"
  "manifest_staging d h \<noteq> []"
  unfolding publication_names_def manifest_staging_def Let_def by (simp_all add: path_join_nonempty)

lemma publish_backup_pair_leaves:
  assumes "publish_backup_pair cd os cwd req c s = (r, s')" "pr_dump_path req \<noteq> []"
  shows "case r of
      None \<Rightarrow> leaves A s s' (A \<union> manifest_leftovers (pr_directory req))
    | Some pub \<Rightarrow> leaves A s s' (A - {pr_dump_path req} \<union> pair_files pub)"
proof -
  let ?dump = "pr_dump_path req"
  have failed: "case r of None \<Rightarrow> leaves A s s' (A \<union> manifest_leftovers (pr_directory req)) | Some pub \<Rightarrow> P pub"
    if "publication_failed os [?dump] s1 = (r, s')" "leaves A s s1 (A \<union> manifest_leftovers (pr_directory req))" for s1 P
  proof -
    from publication_failed_leaves [OF that(1), of "A \<union> manifest_leftovers (pr_directory req)"] assms(2)
    have "r = None" and gone: "leaves (A \<union> manifest_leftovers (pr_directory req)) s1 s'
        (A \<union> manifest_leftovers (pr_directory req) - set [?dump])" by simp_all
    moreover from leaves_trans [OF that(2) gone]
    have "leaves A s s' (A \<union> manifest_leftovers (pr_directory req))" by (rule leaves_weaken) auto
    ultimately show ?thesis by simp
  qed
  obtain valid s1 where v: "valid_publication_request os cwd req s = (valid, s1)" by fastforce
  note q1 = valid_publication_request_quiet [OF v]
  have quiet_bound: "leaves A s t (A \<union> manifest_leftovers (pr_directory req))" if "quiet s t" for t
    using quiet_leaves [OF that] by (rule leaves_weaken) auto
  show ?thesis
  proof (cases "valid \<and> pr_ownership req = ?dump \<and> ctx_err c (clock s1) = None")
    case False
    with assms(1) v have "r = None \<and> s' = s1 \<or> publication_failed os [?dump] s1 = (r, s')"
      by (auto simp: publish_backup_pair_def split: if_splits)
    with failed quiet_bound [OF q1] show ?thesis by auto
  next
    case True
    obtain hashed s2 where h: "restore_hash (bc_restore cd) os ?dump s1 = (hashed, s2)" by fastforce
    have q2: "quiet s s2" using q1 restore_hash_quiet [OF h] by (rule quiet_trans)
    show ?thesis
    proof (cases "\<exists>hash n e. hashed = Some (hash, n) \<and> n \<noteq> 0 \<and> ctx_err c (clock s2) = None \<and>
        bc_encode cd (manifest_of req (bc_time cd (clock s2)) hash n) = Some e")
      case False
      with assms(1) v True h have "publication_failed os [?dump] s2 = (r, s')"
        by (auto simp: publish_backup_pair_def split: option.splits if_splits)
      then show ?thesis by (rule failed) (rule quiet_bound [OF q2])
    next
      case encoded: True
      then obtain hash n e where e: "hashed = Some (hash, n)" "n \<noteq> 0" "ctx_err c (clock s2) = None"
        "bc_encode cd (manifest_of req (bc_time cd (clock s2)) hash n) = Some e" by blast
      let ?ms = "manifest_staging (pr_directory req) hash"
      obtain written s3 where w: "write_protected_file os ?ms (e @ [CHR 0x0A]) s2 = (written, s3)" by fastforce
      note l3 = leaves_quiet_left [OF q2 write_protected_file_leaves [OF w publication_names_nonempty(3), of A]]
      show ?thesis
      proof (cases "written \<and> ctx_err c (clock s3) = None")
        case False
        with assms(1) v True h e w have "publication_failed os [?dump] s3 = (r, s')"
          by (simp add: publish_backup_pair_def Let_def)
        moreover have "leaves A s s3 (A \<union> manifest_leftovers (pr_directory req))"
          using l3 by (rule leaves_weaken) (auto simp: manifest_leftovers_def)
        ultimately show ?thesis by (rule failed)
      next
        case ok: True
        let ?pub = "publication_names (pr_directory req) hash n"
        from assms(1) v True h e w ok have
          "publish_renames os (pr_directory req) ?dump ?ms ?pub c s3 = (r, s')"
          by (simp add: publish_backup_pair_def Let_def)
        note renamed = publish_renames_leaves [OF this assms(2) publication_names_nonempty(3,1,2), of A]
        from l3 ok have "leaves A s s3 (insert ?ms A)" by simp
        note after = leaves_trans [OF this]
        show ?thesis
        proof (cases r)
          case None
          with renamed have "leaves (insert ?ms A) s3 s' A" by simp
          from after [OF this] None show ?thesis by (auto intro: leaves_weaken)
        next
          case (Some pub)
          with renamed after show ?thesis by simp
        qed
      qed
    qed
  qed
qed

section \<open>The run\<close>

lemma remove_gone_leaves: "remove_gone os p s = (r, s') \<Longrightarrow> leaves A s s' (A - {p})"
  using os_call_leaves [of os "RemoveFile p" s] by (auto simp: remove_gone_def split: prod.splits)

lemma artifact_cleanup_leaves: "leaves A s (snd (artifact_cleanup os a s)) (A - {sa_path a, sa_lock a})"
proof -
  obtain r1 s1 where 1: "artifact_close os a s = (r1, s1)" by fastforce
  obtain r2 s2 where 2: "remove_gone os (sa_path a) s1 = (r2, s2)" by fastforce
  obtain r3 s3 where 3: "remove_gone os (sa_lock a) s2 = (r3, s3)" by fastforce
  have "snd (artifact_cleanup os a s) = s3" by (simp add: artifact_cleanup_def 1 2 3)
  moreover have "leaves A s s3 (A - {sa_path a} - {sa_lock a})"
    by (rule leaves_quiet_left [OF artifact_close_quiet [OF 1]
        leaves_trans [OF remove_gone_leaves [OF 2] remove_gone_leaves [OF 3]]])
  ultimately show ?thesis by (auto intro: leaves_weaken)
qed

lemma artifact_close_leaves:
  assumes "artifact_close os a s = ((ok, b), s')"
  shows "sa_path b = sa_path a \<and> sa_lock b = sa_lock a \<and>
    leaves A s s' (if ok \<and> \<not> sa_closed a then A - {sa_lock a} else A)"
proof (cases "sa_closed a")
  case True
  with assms show ?thesis by (simp add: artifact_close_def leaves_refl)
next
  case False
  obtain r1 s1 where 1: "os_ok os (CloseFile (sa_path a)) s = (r1, s1)" by fastforce
  then have q: "quiet s s1" by (rule quiet_calls) simp
  obtain r2 s2 where 2: "remove_gone os (sa_lock a) s1 = (r2, s2)" by fastforce
  note removed = leaves_quiet_left [OF q remove_gone_leaves [OF 2, of A]]
  from assms False 1 2 have "(\<not> ok \<and> (s' = s1 \<or> s' = s2) \<or> ok \<and> s' = s2) \<and> b = a\<lparr>sa_closed := True\<rparr>"
    by (auto simp: artifact_close_def split: if_splits bool.splits)
  then show ?thesis
    using removed quiet_leaves [OF q, of A] False by (auto intro: leaves_weaken)
qed

text \<open>
  What a part of the run leaves of the files \<open>A\<close>: the pair when it validated the backup,
  otherwise at most the staged artifact, its lock, and a staged manifest.
\<close>

definition run_leaves ::
  "string \<Rightarrow> staged_artifact \<Rightarrow> string set \<Rightarrow> 'w msys \<Rightarrow> (backup_result \<times> staged_artifact) \<times> 'w msys \<Rightarrow> bool" where
  "run_leaves d staged A s run \<longleftrightarrow>
     (case run of ((r, left), s') \<Rightarrow>
        sa_path left = sa_path staged \<and> sa_lock left = sa_lock staged \<and>
        (if br_outcome r = BackupValidated then leaves A s s' {br_dump_path r, br_manifest_path r}
         else leaves A s s' ({sa_path staged, sa_lock staged} \<union> manifest_leftovers d)))"

lemma run_leaves_failed:
  assumes "leaves A s s' {sa_path staged, sa_lock staged}" "outcome \<noteq> BackupValidated"
    "sa_path left = sa_path staged" "sa_lock left = sa_lock staged"
  shows "run_leaves d staged A s (stage_failed outcome stages failed code remediation left s')"
proof -
  have "leaves A s s' ({sa_path staged, sa_lock staged} \<union> manifest_leftovers d)"
    using assms(1) by (rule leaves_weaken) auto
  with assms(2-4) show ?thesis by (simp add: run_leaves_def stage_failed_def backup_failure_def)
qed

lemma run_leaves_after:
  assumes "leaves A s s1 B" "run_leaves d staged B s1 run"
  shows "run_leaves d staged A s run"
  using assms(2) leaves_trans [OF assms(1)]
  by (auto simp: run_leaves_def split: prod.splits if_splits)

lemma run_leaves_artifact:
  assumes "run_leaves d staged' A s run" "sa_path staged' = sa_path staged" "sa_lock staged' = sa_lock staged"
  shows "run_leaves d staged A s run"
  using assms by (auto simp: run_leaves_def)

lemma run_publication_leaves:
  assumes "sa_path staged \<noteq> []"
  shows "run_leaves (dp_directory (bp_destination plan)) staged {sa_path staged} s
    (run_publication a plan staged stages c s)"
proof -
  let ?d = "dp_directory (bp_destination plan)"
  let ?req = "owned_publication_request
      \<lparr>pr_directory = ?d, pr_dump_path = sa_path staged, pr_container = bp_container plan,
       pr_config = bp_config plan, pr_ownership = []\<rparr> (sa_path staged)"
  obtain r s1 where pub: "publish_backup_pair (ba_codec a) (ba_os a) (ba_cwd a) ?req c s = (r, s1)" by fastforce
  have req: "pr_dump_path ?req = sa_path staged" "pr_directory ?req = ?d"
    by (simp_all add: owned_publication_request_def)
  from publish_backup_pair_leaves [OF pub, of "{sa_path staged}", unfolded req, OF assms]
  have published: "case r of
      None \<Rightarrow> leaves {sa_path staged} s s1 ({sa_path staged} \<union> manifest_leftovers ?d)
    | Some p \<Rightarrow> leaves {sa_path staged} s s1 (pair_files p)" by (cases r) simp_all
  show ?thesis
  proof (cases "ctx_err c (clock s)")
    case (Some e)
    then have "run_publication a plan staged stages c s =
        stage_failed BackupCancelled stages StagePublication CodeCancelled RemedyRetry staged s"
      by (simp add: run_publication_def)
    then show ?thesis by (simp add: run_leaves_failed leaves_refl)
  next
    case None
    show ?thesis
    proof (cases r)
      case none: None
      with published have "leaves {sa_path staged} s s1 ({sa_path staged, sa_lock staged} \<union> manifest_leftovers ?d)"
        by (auto intro: leaves_weaken)
      with None none pub show ?thesis
        by (simp add: run_publication_def stage_failed_def backup_failure_def run_leaves_def)
    next
      case (Some p)
      with None pub published show ?thesis
        by (simp add: run_publication_def run_leaves_def pair_files_def)
    qed
  qed
qed

text \<open>The validators that the theorems admit enter no file.\<close>

definition quiet_validator :: "(string \<Rightarrow> ('w, bool) meff) \<Rightarrow> bool" where
  "quiet_validator validate \<longleftrightarrow> (\<forall>p c s r s'. validate p c s = (r, s') \<longrightarrow> quiet s s')"

lemma run_validation_leaves:
  assumes "sa_path staged \<noteq> []" "quiet_validator validate"
  shows "run_leaves (dp_directory (bp_destination plan)) staged {sa_path staged} s
    (run_validation a validate None plan staged stages c s)"
proof -
  obtain ok s1 where v: "validate (sa_path staged) c s = (ok, s1)" by fastforce
  with assms(2) have "quiet s s1" by (auto simp: quiet_validator_def)
  note q = quiet_leaves [OF this, of "{sa_path staged}"]
  note next_part = run_leaves_after [OF q run_publication_leaves [OF assms(1)]]
  show ?thesis
  proof (cases "ctx_err c (clock s) = None \<and> ok")
    case True
    with v next_part show ?thesis by (simp add: run_validation_def emit_progress_def)
  next
    case False
    have bound: "leaves {sa_path staged} s s1 {sa_path staged, sa_lock staged}"
      using q by (rule leaves_weaken) auto
    show ?thesis
    proof (cases "ctx_err c (clock s)")
      case None
      with False v have "run_validation a validate None plan staged stages c s =
          stage_failed BackupValidationFailed stages StageArchiveValidation CodeArchiveValidation RemedyArchive staged s1"
        by (simp add: run_validation_def)
      then show ?thesis by (simp add: run_leaves_failed bound)
    next
      case (Some e)
      then have "run_validation a validate None plan staged stages c s =
          stage_failed BackupCancelled stages StageArchiveValidation CodeCancelled RemedyRetry staged s"
        by (simp add: run_validation_def)
      then show ?thesis by (simp add: run_leaves_failed leaves_refl)
    qed
  qed
qed

lemma run_staged_file_leaves:
  assumes "sa_path staged \<noteq> []" "\<not> sa_closed staged" "quiet_validator validate"
  shows "run_leaves (dp_directory (bp_destination plan)) staged {sa_path staged, sa_lock staged} s
    (run_staged_file a validate None plan staged stages c s)"
proof -
  let ?A = "{sa_path staged, sa_lock staged}"
  obtain ok1 s1 where 1: "artifact_sync (ba_os a) staged s = (ok1, s1)" by fastforce
  note q1 = artifact_sync_quiet [OF 1]
  obtain ok2 closed s2 where 2: "artifact_close (ba_os a) staged s1 = ((ok2, closed), s2)"
    by (metis prod.collapse)
  note closing = artifact_close_leaves [OF 2, of ?A]
  have l2: "leaves ?A s s2 (if ok2 then {sa_path staged} else ?A)"
  proof (rule leaves_quiet_left [OF q1])
    show "leaves ?A s1 s2 (if ok2 then {sa_path staged} else ?A)"
    proof (cases ok2)
      case True
      with closing assms(2) have "leaves ?A s1 s2 (?A - {sa_lock staged})" by simp
      then show ?thesis by (rule leaves_weaken) (use True in auto)
    qed (use closing in simp)
  qed
  obtain info s3 where 3: "os_call (ba_os a) (Stat (sa_path closed)) s2 = (info, s3)" by fastforce
  then have q3: "quiet s2 s3" by (rule quiet_calls) simp
  note l3 = leaves_quiet_right [OF l2 q3]
  consider (cancelled) "ctx_err c (clock s) \<noteq> None" | (unsynced) "ctx_err c (clock s) = None" "\<not> ok1"
    | (unclosed) "ctx_err c (clock s) = None" "ok1" "\<not> ok2"
    | (closed) "ctx_err c (clock s) = None" "ok1" "ok2" by blast
  then show ?thesis
  proof cases
    case cancelled
    then have "run_staged_file a validate None plan staged stages c s =
        stage_failed BackupCancelled stages StageStagedFile CodeCancelled RemedyRetry staged s"
      by (simp add: run_staged_file_def)
    then show ?thesis by (simp add: run_leaves_failed leaves_refl)
  next
    case unsynced
    with 1 have "run_staged_file a validate None plan staged stages c s =
        stage_failed BackupDestinationFailed stages StageStagedFile CodeStagedSync RemedyStorage staged s1"
      by (simp add: run_staged_file_def)
    then show ?thesis by (simp add: run_leaves_failed quiet_leaves [OF q1])
  next
    case unclosed
    with 1 2 have "run_staged_file a validate None plan staged stages c s =
        stage_failed BackupDestinationFailed stages StageStagedFile CodeStagedClose RemedyStorage closed s2"
      by (simp add: run_staged_file_def)
    with l2 unclosed closing show ?thesis by (simp add: run_leaves_failed)
  next
    case closed
    with l3 have l3: "leaves ?A s s3 {sa_path staged}" by simp
    have "run_leaves (dp_directory (bp_destination plan)) staged ?A s
        (run_validation a validate None plan closed (mark StageStagedFile StagePassed stages) c s3)"
    proof (rule run_leaves_after [OF l3 run_leaves_artifact])
      show "run_leaves (dp_directory (bp_destination plan)) closed {sa_path staged} s3
        (run_validation a validate None plan closed (mark StageStagedFile StagePassed stages) c s3)"
        using run_validation_leaves [OF _ assms(3), of closed plan s3 a] closing assms(1) by simp
    qed (use closing in simp_all)
    moreover have "run_leaves (dp_directory (bp_destination plan)) staged ?A s
        (stage_failed BackupDumpFailed stages StageStagedFile CodeStagedEmpty RemedyStorage closed s3)"
      using closing leaves_weaken [OF l3 subset_refl, of ?A] by (simp add: run_leaves_failed)
    moreover have "run_staged_file a validate None plan staged stages c s =
        (if (case info of OsInfo i \<Rightarrow> file_size i = 0 | _ \<Rightarrow> True)
         then stage_failed BackupDumpFailed stages StageStagedFile CodeStagedEmpty RemedyStorage closed s3
         else run_validation a validate None plan closed (mark StageStagedFile StagePassed stages) c s3)"
      using closed 1 2 3 by (simp add: run_staged_file_def emit_progress_def)
    ultimately show ?thesis by simp
  qed
qed

lemma run_helper_staged_leaves:
  assumes "run_helper_staged os x run cred p c s = (result, s')" "h_name run \<noteq> []" "cred_root cred \<noteq> []"
  shows "leaves (insert (pgpass_of cred) A) s s' A"
proof -
  obtain r chunks s1 where 1: "exec_call x (h_spec run) c s = ((r, chunks), s1)" by (metis prod.collapse)
  obtain w s2 where 2: "write_chunks os p chunks s1 = (w, s2)" by fastforce
  obtain cl s3 where 3: "cleanup_helper (Some x) (h_name run) (cleanup_context (clock s2)) s2 = (cl, s3)" by fastforce
  have "quiet s s3"
    using exec_call_quiet [OF 1] write_chunks_quiet [OF 2] cleanup_helper_quiet [OF 3] by (meson quiet_trans)
  moreover have "s' = snd (credential_cleanup os cred s3)"
    using assms(1,2) 1 2 3 by (auto simp: run_helper_staged_def split: prod.splits if_splits)
  ultimately show ?thesis by (simp add: leaves_quiet_left credential_cleanup_leaves [OF assms(3)])
qed

lemma build_helper_dump_named: "build_helper_dump os r s = (Some run, s') \<Longrightarrow> h_name run \<noteq> []"
  by (auto simp: build_helper_dump_def split: if_splits prod.splits bool.splits os_reply.splits)

text \<open>What the theorems assume of the injected parts of an action.\<close>

definition safe_action :: "'w backup_action \<Rightarrow> bool" where
  "safe_action a \<longleftrightarrow>
     names_directories (ba_os a) \<and>
     (\<forall>st. ba_store a = Some st \<longrightarrow> quiet_store st) \<and>
     (\<forall>v. ba_validator a = Some v \<longrightarrow> quiet_validator v)"

lemma after_dump_leaves:
  assumes "sa_path staged \<noteq> []" "\<not> sa_closed staged" "quiet_validator validate"
  shows "run_leaves (dp_directory (bp_destination plan)) staged {sa_path staged, sa_lock staged} s
    (after_dump a validate None plan staged stages result c s)"
  by (cases result)
    (simp_all add: after_dump_def emit_progress_def run_staged_file_leaves [OF assms] run_leaves_failed leaves_refl)

lemma run_dump_leaves:
  assumes "sa_path staged \<noteq> []" "\<not> sa_closed staged" "quiet_validator validate" "cred_root cred \<noteq> []"
  shows "run_leaves (dp_directory (bp_destination plan)) staged
    (insert (pgpass_of cred) {sa_path staged, sa_lock staged}) s
    (run_dump a x validate None plan staged cred stages c s)"
proof -
  let ?A = "{sa_path staged, sa_lock staged}"
  let ?req = "\<lparr>hr_goos = bp_goos plan, hr_container = bp_container plan, hr_config = bp_config plan,
         hr_credential = cred, hr_timeout = bp_timeout plan\<rparr>"
  obtain built s1 where 1: "build_helper_dump (ba_os a) ?req s = (built, s1)" by fastforce
  note q1 = build_helper_dump_quiet [OF 1]
  note dropped = leaves_quiet_left [OF q1 credential_cleanup_leaves [OF assms(4), of ?A s1 "ba_os a"]]
  show ?thesis
  proof (cases "\<exists>run. built = Some run \<and> ctx_err c (clock s1) = None")
    case False
    then have "\<exists>outcome code remedy. outcome \<noteq> BackupValidated \<and>
        run_dump a x validate None plan staged cred stages c s =
        stage_failed outcome stages StageDump code remedy staged (snd (credential_cleanup (ba_os a) cred s1))"
      using 1 by (cases built) (auto simp: run_dump_def)
    then show ?thesis
      using run_leaves_failed [OF dropped] by fastforce
  next
    case True
    then obtain run where run: "built = Some run" "ctx_err c (clock s1) = None" by blast
    obtain result s2 where 2: "run_helper_staged (ba_os a) x run cred (sa_path staged) c s1 = (result, s2)" by fastforce
    have "h_name run \<noteq> []"
      by (rule build_helper_dump_named [OF 1 [unfolded run(1)]])
    note left = leaves_quiet_left [OF q1 run_helper_staged_leaves [OF 2 this assms(4)]]
    from run_leaves_after [OF left after_dump_leaves [OF assms(1-3)]] 1 2 run show ?thesis
      by (simp add: run_dump_def emit_progress_def)
  qed
qed

lemma run_credentials_leaves:
  assumes "sa_path staged \<noteq> []" "\<not> sa_closed staged" "quiet_validator validate" "names_directories (ba_os a)"
  shows "run_leaves (dp_directory (bp_destination plan)) staged {sa_path staged, sa_lock staged} s
    (run_credentials a x validate None plan staged stages c s)"
proof -
  let ?A = "{sa_path staged, sa_lock staged}"
  obtain r s1 where 1: "prepare_credential (ba_os a) (ba_temp_dir a) (ba_temp_root a) (bp_config plan) s = (r, s1)"
    by fastforce
  note prepared = prepare_credential_leaves [OF assms(4) 1, of ?A]
  show ?thesis
  proof (cases "ctx_err c (clock s)")
    case (Some e)
    then show ?thesis by (simp add: run_credentials_def run_leaves_failed leaves_refl)
  next
    case live: None
    show ?thesis
    proof (cases r)
      case None
      with prepared live 1 show ?thesis by (simp add: run_credentials_def run_leaves_failed)
    next
      case (Some cred)
      with prepared have "leaves ?A s s1 (insert (pgpass_of cred) ?A)" "cred_root cred \<noteq> []" by simp_all
      from run_leaves_after [OF this(1) run_dump_leaves [OF assms(1-3) this(2)]] live 1 Some show ?thesis
        by (simp add: run_credentials_def)
    qed
  qed
qed

lemma run_prepared_leaves:
  assumes "quiet_store st" "quiet_validator validate" "names_directories (ba_os a)"
    "run_prepared a st x validate None plan stages c s = (r, s')"
  shows "leaves {} s s' (if br_outcome r = BackupValidated then {br_dump_path r, br_manifest_path r}
    else manifest_leftovers (dp_directory (bp_destination plan)))"
proof -
  let ?d = "dp_directory (bp_destination plan)"
  obtain prepared s1 where 1: "store_prepare st (bp_destination plan) c s = (prepared, s1)" by fastforce
  note store = store_prepare_leaves [OF assms(1) 1, of "{}"]
  show ?thesis
  proof (cases prepared)
    case (Inl e)
    with assms(4) 1 store show ?thesis
      by (auto simp: run_prepared_def backup_failure_def intro: leaves_weaken)
  next
    case (Inr staged)
    with store have l1: "leaves {} s s1 {sa_path staged, sa_lock staged}"
      and open_file: "sa_path staged \<noteq> []" "\<not> sa_closed staged" by simp_all
    obtain result left s2 where
      2: "run_credentials a x validate None plan staged (mark StageDestination StagePassed stages) c s1 = ((result, left), s2)"
      by (metis prod.collapse)
    have run: "run_leaves ?d staged {} s ((result, left), s2)"
      unfolding 2 [symmetric] by (rule run_leaves_after [OF l1 run_credentials_leaves [OF open_file assms(2,3)]])
    have r: "r = result" "s' = (if br_outcome result = BackupValidated then s2 else snd (artifact_cleanup (ba_os a) left s2))"
      using assms(4) 1 2 Inr by (auto simp: run_prepared_def)
    show ?thesis
    proof (cases "br_outcome result = BackupValidated")
      case True
      with run r show ?thesis by (simp add: run_leaves_def)
    next
      case False
      with run have l2: "leaves {} s s2 ({sa_path staged, sa_lock staged} \<union> manifest_leftovers ?d)"
        and same: "sa_path left = sa_path staged" "sa_lock left = sa_lock staged" by (simp_all add: run_leaves_def)
      have s': "s' = snd (artifact_cleanup (ba_os a) left s2)" using False r by simp
      have "leaves {} s s' (({sa_path staged, sa_lock staged} \<union> manifest_leftovers ?d) - {sa_path left, sa_lock left})"
        unfolding s' by (rule leaves_trans [OF l2 artifact_cleanup_leaves])
      then show ?thesis
        using False r same by (auto intro: leaves_weaken)
    qed
  qed
qed

lemma backup_run_leaves:
  assumes "safe_action a" "backup_run a plan c s = (r, s')"
  shows "leaves {} s s' (if br_outcome r = BackupValidated then {br_dump_path r, br_manifest_path r}
    else manifest_leftovers (dp_directory (bp_destination plan)))"
proof -
  have "s' = s \<and> br_outcome r \<noteq> BackupValidated \<or>
    (\<exists>st x v stages. ba_store a = Some st \<and> ba_validator a = Some v \<and> run_prepared a st x v None plan stages c s = (r, s'))"
    using assms(2)
    by (auto simp: backup_run_def run_with_progress_def Let_def backup_failure_def emit_progress_def
        split: if_splits option.splits prod.splits)
  then show ?thesis
  proof (elim disjE exE conjE)
    assume "s' = s" "br_outcome r \<noteq> BackupValidated"
    then show ?thesis by (simp add: leaves_refl)
  next
    fix st x v stages
    assume "ba_store a = Some st" "ba_validator a = Some v" "run_prepared a st x v None plan stages c s = (r, s')"
    with assms(1) show ?thesis by (intro run_prepared_leaves) (auto simp: safe_action_def)
  qed
qed

end
