(* ===== verification/BackupProperties.thy ===== *)
theory BackupProperties
  imports BackupSafety "HOL-Library.Sublist"
begin

text \<open>
  The properties of the backup action: the preflight only observes, the diagnostics tell
  the truth, a run leaves nothing but the published pair, and what it publishes was
  dumped, synced and validated before.
\<close>

section \<open>Observation\<close>

fun observes :: "migration_event \<Rightarrow> bool" where
  "observes (FileOp fop ok) \<longleftrightarrow>
     (case fop of
        OpenNoFollow p \<Rightarrow> True | StatOpened p \<Rightarrow> True | ReadOpened p \<Rightarrow> True | CloseFile p \<Rightarrow> True
      | Lstat p \<Rightarrow> True | _ \<Rightarrow> False)"
| "observes (Exec spec ok) \<longleftrightarrow> docker_query (Exec spec ok)"
| "observes e \<longleftrightarrow> False"

definition observes_only :: "'w msys \<Rightarrow> 'w msys \<Rightarrow> bool" where
  "observes_only s s' \<longleftrightarrow> (\<exists>es. grew s s' es \<and> list_all observes es)"

lemma observes_only_refl: "observes_only s s"
  unfolding observes_only_def by (rule exI [of _ "[]"]) simp

lemma observes_only_trans: "observes_only s s1 \<Longrightarrow> observes_only s1 s2 \<Longrightarrow> observes_only s s2"
  unfolding observes_only_def by (metis grew_trans list_all_append)

lemma observes_only_grew: "grew s s' es \<Longrightarrow> list_all observes es \<Longrightarrow> observes_only s s'"
  unfolding observes_only_def by blast

lemma docker_query_observes: "docker_query e \<Longrightarrow> observes e"
  by (cases e) auto

lemma queries_only_observes: "queries_only s s' \<Longrightarrow> observes_only s s'"
  unfolding queries_only_def observes_only_def by (meson docker_query_observes list.pred_mono_strong)

lemma os_call_observes: "os_call os fop s = (r, s') \<Longrightarrow> observes (FileOp fop True) \<Longrightarrow> observes_only s s'"
  by (drule os_call_grew, erule observes_only_grew) simp

lemma os_ok_observes: "os_ok os fop s = (r, s') \<Longrightarrow> observes (FileOp fop True) \<Longrightarrow> observes_only s s'"
  by (drule os_ok_grew, erule observes_only_grew) simp

lemma with_secrets_observes: "with_secrets f s = (r, s') \<Longrightarrow> observes_only s s'"
  by (drule with_secrets_grew, erule observes_only_grew) simp

lemma snd_os_ok_observes: "observes (FileOp fop True) \<Longrightarrow> observes_only s (snd (os_ok os fop s))"
  by (metis os_ok_observes prod.collapse)

lemma snd_close_observes: "observes_only s (snd (os_ok os (CloseFile p) s))"
  by (rule snd_os_ok_observes) simp

lemma resolver_resolve_observes: "resolver_resolve os host n request c s = (r, s') \<Longrightarrow> observes_only s s'"
  unfolding resolver_resolve_def Let_def
  by (auto simp: observes_only_refl snd_os_ok_observes
      split: if_splits prod.splits bool.splits option.splits
      dest!: os_call_observes os_ok_observes with_secrets_observes)
    (meson observes_only_trans snd_close_observes)+

lemma safe_directory_observes: "safe_directory env p s = (r, s') \<Longrightarrow> observes_only s s'"
  by (auto simp: safe_directory_def split: prod.splits os_reply.splits dest!: os_call_observes)

lemma safe_missing_observes: "safe_missing env p s = (r, s') \<Longrightarrow> observes_only s s'"
  by (auto simp: safe_missing_def split: prod.splits bool.splits os_reply.splits
      dest!: safe_directory_observes os_call_observes intro: observes_only_trans)

lemma safe_components_observes: "safe_components env cur cs s = (r, s') \<Longrightarrow> observes_only s s'"
proof (induction env cur cs s arbitrary: r s' rule: safe_components.induct)
  case (2 env cur comp rest s)
  show ?case
  proof (cases "comp = []")
    case False
    obtain reply s1 where call: "os_call (de_os env) (Lstat (path_join [cur, comp])) s = (reply, s1)" by fastforce
    have q1: "observes_only s s1" using call by (rule os_call_observes) simp
    have "observes_only s1 s'"
      using 2 False call
      by (auto simp: Let_def observes_only_refl split: os_reply.splits prod.splits if_splits
          dest: safe_missing_observes safe_directory_observes intro: observes_only_trans)
    with q1 show ?thesis by (rule observes_only_trans)
  qed (use 2 in simp)
qed (simp add: observes_only_refl)

lemma store_preflight_observes:
  assumes "ds_space st = None" "store_preflight st request c s = (r, s')"
  shows "observes_only s s'"
  using assms
  by (auto simp: store_preflight_def Let_def enough_space_def safe_existing_path_def observes_only_refl
      split: if_splits prod.splits bool.splits dest!: safe_components_observes)

section \<open>The preflight\<close>

lemma is_source_path_append: "is_source_path cwd d (xs @ ys) \<longleftrightarrow> is_source_path cwd d xs \<or> is_source_path cwd d ys"
  by (simp add: is_source_path_def)

lemma store_preflight_outside:
  "store_preflight st request c s = (Inr plan, s') \<Longrightarrow>
   dp_sources plan = dr_source_roots request \<and>
   \<not> is_source_path (de_cwd (ds_env st)) (dp_directory plan) (dr_source_roots request)"
  by (auto simp: store_preflight_def Let_def split: if_splits prod.splits bool.splits)

definition plan_ready :: "string \<Rightarrow> backup_plan \<Rightarrow> bool" where
  "plan_ready cwd plan \<longleftrightarrow>
     valid_config (bp_config plan) \<and> trusted_container (bp_container plan) \<and>
     \<not> is_source_path cwd (dp_directory (bp_destination plan)) [legacy_application_root]"

lemma legacy_root_clean: "path_clean legacy_application_root = legacy_application_root"
  by code_simp

lemma backup_preflight_ready:
  assumes "ba_store a = Some st" "backup_preflight a request c s = (Inr plan, s')"
  shows "plan_ready (de_cwd (ds_env st)) plan"
  using assms
  by (auto simp: backup_preflight_def plan_ready_def legacy_root_clean is_source_path_append
      split: if_splits option.splits prod.splits sum.splits dest!: store_preflight_outside)

lemma backup_preflight_parts:
  assumes "backup_preflight a request c s = (r, s')"
    and "\<And>f q c s r s'. ba_resolver a = Some f \<Longrightarrow> f q c s = (r, s') \<Longrightarrow> observes_only s s'"
    and "\<And>f q c s r s'. ba_inspector a = Some f \<Longrightarrow> f q c s = (r, s') \<Longrightarrow> observes_only s s'"
    and "\<And>st. ba_store a = Some st \<Longrightarrow> ds_space st = None"
  shows "observes_only s s'"
  using assms(1)
  by (auto simp: backup_preflight_def observes_only_refl
      split: if_splits option.splits prod.splits sum.splits
      dest!: store_preflight_observes [OF assms(4)] assms(2) assms(3)
      intro: observes_only_trans)

section \<open>Diagnostics\<close>

text \<open>The stages before \<open>n\<close> passed, the others did not run; or stage \<open>n\<close> failed.\<close>

definition passed_upto :: "nat \<Rightarrow> stage_results" where
  "passed_upto n = map (\<lambda>i. (all_stages ! i, if i < n then StagePassed else StageNotRun)) [0..<7]"

definition failed_at :: "nat \<Rightarrow> stage_results" where
  "failed_at n =
     map (\<lambda>i. (all_stages ! i, if i < n then StagePassed else if i = n then StageFailed else StageNotRun)) [0..<7]"

lemma stage_progress:
  "new_backup_diagnostics = passed_upto 0"
  "mark StagePreconditions StagePassed (passed_upto 0) = passed_upto 1"
  "mark StageDestination StagePassed (passed_upto 1) = passed_upto 2"
  "mark StageCredentials StagePassed (passed_upto 2) = passed_upto 3"
  "mark StageDump StagePassed (passed_upto 3) = passed_upto 4"
  "mark StageStagedFile StagePassed (passed_upto 4) = passed_upto 5"
  "mark StageArchiveValidation StagePassed (passed_upto 5) = passed_upto 6"
  "mark StagePublication StagePassed (passed_upto 6) = passed_upto 7"
  by code_simp+

lemma stage_failure:
  "mark StagePreconditions StageFailed (passed_upto 0) = failed_at 0"
  "mark StageDestination StageFailed (passed_upto 1) = failed_at 1"
  "mark StageCredentials StageFailed (passed_upto 2) = failed_at 2"
  "mark StageDump StageFailed (passed_upto 3) = failed_at 3"
  "mark StageStagedFile StageFailed (passed_upto 4) = failed_at 4"
  "mark StageArchiveValidation StageFailed (passed_upto 5) = failed_at 5"
  "mark StagePublication StageFailed (passed_upto 6) = failed_at 6"
  by code_simp+

definition diagnosed :: "backup_result \<Rightarrow> bool" where
  "diagnosed r \<longleftrightarrow>
     br_outcome r = BackupValidated \<and> br_stages r = passed_upto 7 \<and> br_code r = CodeNone \<or>
     br_outcome r \<notin> {BackupValidated, BackupStaged} \<and> (\<exists>n<7. br_stages r = failed_at n) \<and>
     br_code r \<noteq> CodeNone \<and> br_dump_path r = [] \<and> br_manifest_path r = []"

lemma diagnosed_failure:
  "mark st StageFailed stages = failed_at n \<Longrightarrow> n < 7 \<Longrightarrow> outcome \<notin> {BackupValidated, BackupStaged} \<Longrightarrow>
   code \<noteq> CodeNone \<Longrightarrow> diagnosed (backup_failure outcome stages st code remediation)"
  by (auto simp: diagnosed_def backup_failure_def)

lemmas diagnosed_failures =
  stage_failure(1) [THEN diagnosed_failure] stage_failure(2) [THEN diagnosed_failure]
  stage_failure(3) [THEN diagnosed_failure] stage_failure(4) [THEN diagnosed_failure]
  stage_failure(5) [THEN diagnosed_failure] stage_failure(6) [THEN diagnosed_failure]
  stage_failure(7) [THEN diagnosed_failure]

lemma run_publication_diagnosed: "diagnosed (fst (fst (run_publication a plan staged (passed_upto 6) c s)))"
  by (auto simp: run_publication_def stage_failed_def diagnosed_failures
      split: prod.splits option.splits)
    (simp add: diagnosed_def stage_progress)

lemma run_validation_diagnosed:
  "diagnosed (fst (fst (run_validation a v progress plan staged (passed_upto 5) c s)))"
  by (auto simp: run_validation_def stage_failed_def diagnosed_failures stage_progress run_publication_diagnosed
      split: prod.splits bool.splits)

lemma run_staged_file_diagnosed:
  "diagnosed (fst (fst (run_staged_file a v progress plan staged (passed_upto 4) c s)))"
  by (auto simp: run_staged_file_def stage_failed_def diagnosed_failures stage_progress run_validation_diagnosed
      split: prod.splits bool.splits)

lemma after_dump_diagnosed:
  "diagnosed (fst (fst (after_dump a v progress plan staged (passed_upto 3) result c s)))"
  by (cases result)
    (simp_all add: after_dump_def stage_failed_def diagnosed_failures stage_progress run_staged_file_diagnosed)

lemma run_dump_diagnosed:
  "diagnosed (fst (fst (run_dump a x v progress plan staged cred (passed_upto 3) c s)))"
  by (auto simp: run_dump_def stage_failed_def diagnosed_failures after_dump_diagnosed
      split: prod.splits option.splits)

lemma run_credentials_diagnosed:
  "diagnosed (fst (fst (run_credentials a x v progress plan staged (passed_upto 2) c s)))"
  by (auto simp: run_credentials_def stage_failed_def diagnosed_failures stage_progress run_dump_diagnosed
      split: prod.splits option.splits)

lemma run_prepared_diagnosed:
  "diagnosed (fst (run_prepared a st x v progress plan (passed_upto 1) c s))"
  using run_credentials_diagnosed [of a x v progress plan]
  by (auto simp: run_prepared_def diagnosed_failures stage_progress simp del: One_nat_def
      split: prod.splits sum.splits) (metis fst_conv)+

lemma run_with_progress_diagnosed: "diagnosed (fst (run_with_progress a plan progress c s))"
  by (auto simp: run_with_progress_def Let_def stage_progress diagnosed_failures run_prepared_diagnosed
      simp del: One_nat_def split: option.splits)

section \<open>The order of the steps\<close>

text \<open>The events between two states contain the given ones, in that order.\<close>

definition went :: "'w msys \<Rightarrow> 'w msys \<Rightarrow> migration_event list \<Rightarrow> bool" where
  "went s s' ms \<longleftrightarrow> (\<exists>es. grew s s' es \<and> subseq ms es)"

lemma went_trans: "went s s1 xs \<Longrightarrow> went s1 s2 ys \<Longrightarrow> went s s2 (xs @ ys)"
  unfolding went_def by (meson grew_trans list_emb_append_mono)

lemma went_grew: "grew s s' es \<Longrightarrow> went s s' es"
  unfolding went_def by blast

lemma went_quiet: "quiet s s' \<Longrightarrow> went s s' []"
  unfolding quiet_def went_def by auto

lemma went_skip: "quiet s s1 \<Longrightarrow> went s1 s2 ms \<Longrightarrow> went s s2 ms"
  using went_trans [OF went_quiet] by fastforce

lemma went_skip_right: "went s s1 ms \<Longrightarrow> quiet s1 s2 \<Longrightarrow> went s s2 ms"
  using went_trans [OF _ went_quiet] by fastforce

lemma went_drop: "went s s' (xs @ ys) \<Longrightarrow> went s s' ys"
  unfolding went_def by (meson subseq_order.trans suffixI suffix_imp_subseq)

definition publication_steps :: "string \<Rightarrow> string \<Rightarrow> backup_publication \<Rightarrow> migration_event list" where
  "publication_steps d staged pub =
     [FileOp (RenameNoReplace staged (pub_dump_path pub)) True,
      FileOp (RenameNoReplace (manifest_staging d (pub_sha256 pub)) (pub_manifest_path pub)) True,
      FileOp (SyncDirectory d) True]"

lemma publish_renames_went:
  assumes "publish_renames os d staged (manifest_staging d (pub_sha256 pub)) pub c s = (Some pub', s')"
  shows "pub' = pub \<and> went s s' (publication_steps d staged pub)"
proof -
  from assms obtain s1 s2 where
    1: "os_ok os (RenameNoReplace staged (pub_dump_path pub)) s = (True, s1)"
    and 2: "os_ok os (RenameNoReplace (manifest_staging d (pub_sha256 pub)) (pub_manifest_path pub)) s1 = (True, s2)"
    and 3: "os_ok os (SyncDirectory d) s2 = (True, s')" and "pub' = pub"
    by (auto simp: publish_renames_def publication_failed_def split: prod.splits bool.splits if_splits)
  with went_trans [OF went_grew [OF os_ok_grew [OF 1]] went_trans [OF went_grew [OF os_ok_grew [OF 2]] went_grew [OF os_ok_grew [OF 3]]]]
  show ?thesis by (simp add: publication_steps_def)
qed

lemma publish_backup_pair_went:
  assumes "publish_backup_pair cd os cwd req c s = (Some pub, s')"
  shows "went s s' (publication_steps (pr_directory req) (pr_dump_path req) pub) \<and>
    pub = publication_names (pr_directory req) (pub_sha256 pub) (pub_size pub) \<and> pub_size pub \<noteq> 0"
proof -
  from assms obtain s1 hash n s2 e s3 where
    1: "valid_publication_request os cwd req s = (True, s1)"
    and 2: "restore_hash (bc_restore cd) os (pr_dump_path req) s1 = (Some (hash, n), s2)" "n \<noteq> 0"
    and 3: "write_protected_file os (manifest_staging (pr_directory req) hash) (e @ [CHR 0x0A]) s2 = (True, s3)"
    and 4: "publish_renames os (pr_directory req) (pr_dump_path req) (manifest_staging (pr_directory req) hash)
        (publication_names (pr_directory req) hash n) c s3 = (Some pub, s')"
    by (auto simp: publish_backup_pair_def publication_failed_def Let_def
        split: prod.splits if_splits option.splits)
  have names: "pub_sha256 (publication_names (pr_directory req) hash n) = hash"
      "pub_size (publication_names (pr_directory req) hash n) = n"
    by (simp_all add: publication_names_def Let_def)
  from publish_renames_went [of os "pr_directory req" "pr_dump_path req" "publication_names (pr_directory req) hash n"] 4 names
  have "pub = publication_names (pr_directory req) hash n"
    and fin: "went s3 s' (publication_steps (pr_directory req) (pr_dump_path req) pub)" by auto
  moreover have "went s2 s3 []"
    using 3 by (auto simp: write_protected_file_def went_def grew_def split: prod.splits if_splits bool.splits
        dest!: os_ok_grew)
  moreover have "quiet s s2"
    using valid_publication_request_quiet [OF 1] restore_hash_quiet [OF 2(1)] by (rule quiet_trans)
  ultimately show ?thesis
    using went_skip [OF \<open>quiet s s2\<close> went_trans [OF \<open>went s2 s3 []\<close> fin]] 2(2) names by simp
qed

lemma leaves_went: "leaves A s s' B \<Longrightarrow> went s s' []"
  unfolding leaves_def went_def by auto

definition validation_event :: "string \<Rightarrow> migration_event \<Rightarrow> bool" where
  "validation_event p e \<longleftrightarrow> (\<exists>name uid gid t. e = Exec (validate_spec name p uid gid t) ProcessSucceeded)"

lemma archive_validate_went:
  assumes "archive_validate os x t p c s = (True, s')"
  shows "\<exists>e. validation_event p e \<and> went s s' [e]"
proof -
  from assms obtain uid gid s1 s2 tok s3 x' r chunks s4 where
    1: "staged_dump_owner os p s = (Some (uid, gid), s1)"
    and 2: "safe_owned_staged_dump os p uid gid s1 = (True, s2)"
    and 3: "os_call os RandomToken s2 = (OsPath tok, s3)"
    and 4: "exec_call x' (validate_spec (''alice-pg11-validate-'' @ tok) p uid gid
              (if t \<le> 0 then default_process_timeout else t)) c s3 = ((r, chunks), s4)" "p_outcome r = ProcessSucceeded"
    and 5: "cleanup_helper x (''alice-pg11-validate-'' @ tok) (cleanup_context (clock s4)) s4 = (True, s')"
    by (auto simp: archive_validate_def Let_def split: prod.splits if_splits option.splits bool.splits os_reply.splits)
  have "quiet s s3"
    using staged_dump_owner_quiet [OF 1] safe_owned_staged_dump_quiet [OF 2] os_call_quiet [OF 3]
    by (auto intro: quiet_trans)
  note went_skip [OF this went_skip_right [OF went_grew [OF exec_call_grew [OF 4(1)]] cleanup_helper_quiet [OF 5]],
      unfolded fst_conv 4(2)]
  then show ?thesis unfolding validation_event_def by blast
qed

text \<open>What a validated run did, from the publication back to the dump.\<close>

definition publication_of :: "backup_result \<Rightarrow> backup_publication" where
  "publication_of r =
     \<lparr>pub_dump_path = br_dump_path r, pub_manifest_path = br_manifest_path r, pub_sha256 = br_sha256 r,
      pub_size = br_size r\<rparr>"

definition validated_by :: "backup_plan \<Rightarrow> staged_artifact \<Rightarrow> migration_event list \<Rightarrow> backup_result \<Rightarrow> 'w msys \<Rightarrow> 'w msys \<Rightarrow> bool" where
  "validated_by plan staged before r s s' \<longleftrightarrow>
     (let d = dp_directory (bp_destination plan); pub = publication_of r in
      went s s' (before @ publication_steps d (sa_path staged) pub) \<and>
      pub = publication_names d (br_sha256 r) (br_size r) \<and> br_size r \<noteq> 0)"

lemma validated_by_went:
  assumes "went s s1 ms" "validated_by plan staged before r s1 s'"
  shows "validated_by plan staged (ms @ before) r s s'"
  using assms went_trans [OF assms(1)] by (auto simp: validated_by_def Let_def)

lemma failed_not_validated [simp]:
  "outcome \<noteq> BackupValidated \<Longrightarrow>
   (stage_failed outcome stages st code remedy staged s = ((r, left), s')) = False" if "br_outcome r = BackupValidated"
  using that by (auto simp: stage_failed_def backup_failure_def)

lemma run_publication_validated:
  assumes "run_publication a plan staged stages c s = ((r, left), s')" "br_outcome r = BackupValidated"
  shows "validated_by plan staged [] r s s'"
proof -
  let ?req = "owned_publication_request
      \<lparr>pr_directory = dp_directory (bp_destination plan), pr_dump_path = sa_path staged,
       pr_container = bp_container plan, pr_config = bp_config plan, pr_ownership = []\<rparr> (sa_path staged)"
  from assms obtain pub where
    pub: "publish_backup_pair (ba_codec a) (ba_os a) (ba_cwd a) ?req c s = (Some pub, s')"
    and r: "publication_of r = pub" "br_sha256 r = pub_sha256 pub" "br_size r = pub_size pub"
    by (auto simp: run_publication_def publication_of_def split: if_splits prod.splits option.splits)
  from publish_backup_pair_went [OF pub] r show ?thesis
    by (simp add: validated_by_def Let_def owned_publication_request_def)
qed

lemma run_validation_validated:
  assumes "run_validation a (archive_validate os x t) None plan staged stages c s = ((r, left), s')"
    "br_outcome r = BackupValidated"
  shows "\<exists>e. validation_event (sa_path staged) e \<and> validated_by plan staged [e] r s s'"
proof -
  from assms obtain s1 stages' where
    v: "archive_validate os x t (sa_path staged) c s = (True, s1)"
    and p: "run_publication a plan staged stages' c s1 = ((r, left), s')"
    by (auto simp: run_validation_def emit_progress_def split: if_splits prod.splits bool.splits)
  from archive_validate_went [OF v] obtain e where e: "validation_event (sa_path staged) e" "went s s1 [e]" by blast
  from validated_by_went [OF e(2) run_publication_validated [OF p assms(2)]] e(1) show ?thesis by auto
qed

definition staged_checks :: "string \<Rightarrow> migration_event list" where
  "staged_checks p = [FileOp (SyncFile p) True, FileOp (Stat p) True]"

lemma run_staged_file_validated:
  assumes "run_staged_file a (archive_validate os x t) None plan staged stages c s = ((r, left), s')"
    "br_outcome r = BackupValidated"
  shows "\<exists>e. validation_event (sa_path staged) e \<and>
    validated_by plan staged (staged_checks (sa_path staged) @ [e]) r s s'"
proof -
  from assms obtain s1 closed s2 info s3 stages' where
    1: "artifact_sync (ba_os a) staged s = (True, s1)"
    and 2: "artifact_close (ba_os a) staged s1 = ((True, closed), s2)"
    and 3: "os_call (ba_os a) (Stat (sa_path closed)) s2 = (OsInfo info, s3)"
    and v: "run_validation a (archive_validate os x t) None plan closed stages' c s3 = ((r, left), s')"
    by (auto simp: run_staged_file_def emit_progress_def split: if_splits prod.splits bool.splits os_reply.splits)
  have same: "sa_path closed = sa_path staged"
    using artifact_close_leaves [OF 2, of "{}"] by simp
  have "went s s1 [FileOp (SyncFile (sa_path staged)) True]"
    using 1 by (auto simp: artifact_sync_def dest: os_ok_grew went_grew)
  moreover have "went s1 s3 [FileOp (Stat (sa_path staged)) True]"
    using went_skip [OF artifact_close_quiet [OF 2] went_grew [OF os_call_grew [OF 3]]] same by simp
  ultimately have checks: "went s s3 (staged_checks (sa_path staged))"
    using went_trans by (fastforce simp: staged_checks_def)
  from run_validation_validated [OF v assms(2)] obtain e where
    e: "validation_event (sa_path staged) e" "validated_by plan closed [e] r s3 s'" using same by auto
  from e(2) have "validated_by plan staged [e] r s3 s'" by (simp add: validated_by_def same)
  from e(1) validated_by_went [OF checks this] show ?thesis by blast
qed

lemma run_helper_staged_went:
  assumes "run_helper_staged os x run cred p c s = (result, s')" "p_outcome result = ProcessSucceeded"
  shows "went s s' [Exec (h_spec run) ProcessSucceeded]"
proof -
  from assms obtain r chunks s1 w s2 cl s3 rm where
    1: "exec_call x (h_spec run) c s = ((r, chunks), s1)" "p_outcome r = ProcessSucceeded"
    and 2: "write_chunks os p chunks s1 = (w, s2)"
    and 3: "cleanup_helper (Some x) (h_name run) (cleanup_context (clock s2)) s2 = (cl, s3)"
    and 4: "credential_cleanup os cred s3 = (rm, s')"
    by (auto simp: run_helper_staged_def process_failed_def split: if_splits prod.splits)
  have "quiet s1 s'"
    using write_chunks_quiet [OF 2] cleanup_helper_quiet [OF 3] credential_cleanup_quiet [OF 4] by (meson quiet_trans)
  with went_skip_right [OF went_grew [OF exec_call_grew [OF 1(1)]]] 1(2) show ?thesis by simp
qed

definition dump_event :: "backup_plan \<Rightarrow> migration_event \<Rightarrow> bool" where
  "dump_event plan e \<longleftrightarrow>
     (\<exists>token cred t. e = Exec \<lparr>p_name = ''docker'',
        p_args = dump_args token \<lparr>hr_goos = bp_goos plan, hr_container = bp_container plan,
          hr_config = bp_config plan, hr_credential = cred, hr_timeout = bp_timeout plan\<rparr>,
        p_timeout = t\<rparr> ProcessSucceeded)"

lemma run_dump_validated:
  assumes "run_dump a x (archive_validate os y t) None plan staged cred stages c s = ((r, left), s')"
    "br_outcome r = BackupValidated"
  shows "\<exists>d e. dump_event plan d \<and> validation_event (sa_path staged) e \<and>
    validated_by plan staged ([d] @ staged_checks (sa_path staged) @ [e]) r s s'"
proof -
  let ?req = "\<lparr>hr_goos = bp_goos plan, hr_container = bp_container plan, hr_config = bp_config plan,
         hr_credential = cred, hr_timeout = bp_timeout plan\<rparr>"
  from assms obtain run s1 result s2 stages' where
    1: "build_helper_dump (ba_os a) ?req s = (Some run, s1)"
    and 2: "run_helper_staged (ba_os a) x run cred (sa_path staged) c s1 = (result, s2)" "p_outcome result = ProcessSucceeded"
    and 3: "run_staged_file a (archive_validate os y t) None plan staged stages' c s2 = ((r, left), s')"
    by (auto simp: run_dump_def after_dump_def emit_progress_def
        split: if_splits prod.splits option.splits process_outcome.splits)
  have "went s s2 [Exec (h_spec run) ProcessSucceeded]"
    by (rule went_skip [OF build_helper_dump_quiet [OF 1] run_helper_staged_went [OF 2]])
  moreover have "dump_event plan (Exec (h_spec run) ProcessSucceeded)"
    using 1 by (auto simp: build_helper_dump_def dump_event_def
        split: if_splits prod.splits bool.splits os_reply.splits) blast+
  moreover from run_staged_file_validated [OF 3 assms(2)] obtain e where
    "validation_event (sa_path staged) e" "validated_by plan staged (staged_checks (sa_path staged) @ [e]) r s2 s'" by blast
  ultimately show ?thesis using validated_by_went by blast
qed

lemma run_prepared_validated:
  assumes "quiet_store st" "names_directories (ba_os a)"
    "run_prepared a st x (archive_validate os y t) None plan stages c s = (r, s')" "br_outcome r = BackupValidated"
  shows "\<exists>staged d e. dump_event plan d \<and> validation_event (sa_path staged) e \<and>
    validated_by plan staged ([d] @ staged_checks (sa_path staged) @ [e]) r s s'"
proof -
  from assms(3,4) obtain staged s1 left stages' where
    1: "store_prepare st (bp_destination plan) c s = (Inr staged, s1)"
    and 2: "run_credentials a x (archive_validate os y t) None plan staged stages' c s1 = ((r, left), s')"
    by (auto simp: run_prepared_def backup_failure_def split: if_splits prod.splits sum.splits)
  from 2 assms(4) obtain cred s2 stages'' where
    3: "prepare_credential (ba_os a) (ba_temp_dir a) (ba_temp_root a) (bp_config plan) s1 = (Some cred, s2)"
    and 4: "run_dump a x (archive_validate os y t) None plan staged cred stages'' c s2 = ((r, left), s')"
    by (auto simp: run_credentials_def split: if_splits prod.splits option.splits)
  have "went s s1 []" using store_prepare_leaves [OF assms(1) 1, of "{}"] by (auto intro: leaves_went)
  moreover have "went s1 s2 []" using prepare_credential_leaves [OF assms(2) 3, of "{}"] by (auto intro: leaves_went)
  ultimately have "went s s2 []" using went_trans by fastforce
  from validated_by_went [OF this] run_dump_validated [OF 4 assms(4)] show ?thesis by fastforce
qed

section \<open>The production action\<close>

lemma production_backup_safe: "names_directories (de_os env) \<Longrightarrow> safe_action (production_backup cd decode env host x run)"
  by (auto simp: safe_action_def production_backup_def quiet_store_def quiet_validator_def
      dest: archive_validate_quiet sudo_prepare_quiet)

section \<open>A concrete backup\<close>

definition demo_backup_reply :: "file_op \<Rightarrow> os_reply" where
  "demo_backup_reply fop =
     (case fop of
        Lstat p \<Rightarrow> OsInfo (let f = suffix ''.part'' p \<or> suffix ''pgpass'' p in
          \<lparr>is_dir = \<not> f, is_regular = f, is_symlink = False, perm = (if f then 0x180 else 0x1C0), file_size = 1,
           owner = Some (0, 0), sticky = False\<rparr>)
      | Stat p \<Rightarrow> OsInfo \<lparr>is_dir = False, is_regular = True, is_symlink = False, perm = 0x180, file_size = 1,
           owner = Some (0, 0), sticky = False\<rparr>
      | StatOpened p \<Rightarrow> OsInfo \<lparr>is_dir = False, is_regular = True, is_symlink = False, perm = 0x180, file_size = 9,
           owner = Some (0, 0), sticky = False\<rparr>
      | ReadOpened p \<Rightarrow> OsData ''module.exports = {}'' | MkdirTemp d p \<Rightarrow> OsPath ''/tmp/c''
      | ReadWhole p \<Rightarrow> OsData ''x'' | RandomToken \<Rightarrow> OsPath ''t'' | _ \<Rightarrow> OsDone)"

definition demo_backup_env :: "nat dest_env" where
  "demo_backup_env = \<lparr>de_os = (\<lambda>fop c now w. (demo_backup_reply fop, 0, w)), de_cwd = ''/'', de_temp_dir = ''/tmp'',
     de_goos = ''linux'', de_euid = 0, de_egid = 0\<rparr>"

definition demo_backup_docker :: "nat executor" where
  "demo_backup_docker spec c now w =
     ((\<lparr>p_outcome = ProcessSucceeded, stderr_code = []\<rparr>,
       if ''ps'' \<in> set (p_args spec)
       then [replicate 64 CHR ''a'' @ [CHR 0x09] @ postgresql11_image @ [CHR 0x0A]]
       else if ''pg_restore'' \<in> set (p_args spec) then [''; Archive'' @ [CHR 0x0A] @ ''10; TABLE'']
       else if ''pg_dump'' \<in> set (p_args spec) then [''dump''] else [''[]'']), 0, w)"

definition demo_backup_codec :: backup_codec where
  "demo_backup_codec = \<lparr>bc_restore = \<lparr>sha256_hex = (\<lambda>data. ''00''), encode_manifest = (\<lambda>m. []), decode_manifest = (\<lambda>t. None)\<rparr>,
     bc_encode = (\<lambda>m. Some ''{}''), bc_time = (\<lambda>t. ''now'')\<rparr>"

definition demo_backup :: "nat backup_action" where
  "demo_backup = production_backup demo_backup_codec (\<lambda>printed. Some [demo_raw]) demo_backup_env (\<lambda>n. None)
     demo_backup_docker (\<lambda>name args c now w. (\<lparr>out = [], err_out = [], cmd_err = None\<rparr>, 0, w))"

definition demo_backup_config :: resolved_config where
  "demo_backup_config =
     \<lparr>rc_environment = ''production'', rc_dialect = ''postgres'', rc_database = ''alice'',
      rc_username = ''u'', rc_host = ''127.0.0.1'', rc_port = 15432, rc_sources = Map.empty, rc_password = Some 0\<rparr>"

definition demo_plan :: backup_plan where
  "demo_plan = \<lparr>bp_config = demo_backup_config,
     bp_container = \<lparr>ci_id = replicate 64 CHR ''a'', ci_image = postgresql11_image, ci_digest = []\<rparr>,
     bp_destination = \<lparr>dp_directory = ''/b'', dp_sources = []\<rparr>,
     bp_timeout = 1800000000000, bp_goos = ''linux''\<rparr>"

definition demo_backup_start :: "nat msys" where
  "demo_backup_start =
     \<lparr>world = \<lparr>outside = 0, secrets = \<lparr>contents = (\<lambda>a. ''pw''), next_addr = 1\<rparr>\<rparr>, clock = 0, trace = []\<rparr>"


text \<open>Its run, call by call: nothing takes time, and no context ends.\<close>

definition demo_looked :: "nat msys \<Rightarrow> file_op \<Rightarrow> nat msys" where
  "demo_looked s fop = s\<lparr>trace := trace s @ [FileOp fop (os_success (demo_backup_reply fop))]\<rparr>"

definition demo_executed :: "nat msys \<Rightarrow> process_spec \<Rightarrow> nat msys" where
  "demo_executed s spec = s\<lparr>trace := trace s @ [Exec spec ProcessSucceeded]\<rparr>"

definition demo_printed :: "string list \<Rightarrow> string list" where
  "demo_printed args =
     (if ''ps'' \<in> set args then [replicate 64 CHR ''a'' @ [CHR 0x09] @ postgresql11_image @ [CHR 0x0A]]
      else if ''pg_restore'' \<in> set args then [''; Archive'' @ [CHR 0x0A] @ ''10; TABLE'']
      else if ''pg_dump'' \<in> set args then [''dump''] else [''[]''])"

lemma demo_os_looked: "os_call (de_os demo_backup_env) fop s = (demo_backup_reply fop, demo_looked s fop)"
  by (simp add: os_call_def call_def outer_def demo_backup_env_def demo_looked_def)

lemma demo_os_ok: "os_ok (de_os demo_backup_env) fop s = (os_success (demo_backup_reply fop), demo_looked s fop)"
  by (simp add: os_ok_def demo_os_looked)

lemma demo_exec:
  "p_name spec = ''docker'' \<Longrightarrow> p_args spec \<noteq> [] \<Longrightarrow> exec_call (sudo_docker demo_backup_docker) spec c s =
   ((\<lparr>p_outcome = ProcessSucceeded, stderr_code = []\<rparr>, demo_printed ([''-n'', ''docker''] @ p_args spec)),
    demo_executed s spec)"
  by (simp add: exec_call_def call_def outer_def sudo_docker_def demo_backup_docker_def demo_executed_def demo_printed_def)

lemma demo_world [simp]: "world (demo_looked s fop) = world s" "world (demo_executed s spec) = world s"
  by (simp_all add: demo_looked_def demo_executed_def)

lemma demo_backup_paths:
  "split_char CHR ''/'' (trim_prefix ''/'' ''/b'') = [''b'']" "path_join [''/'', ''b''] = ''/b''"
  "path_join [''/b'', staging_name ''t''] = ''/b/.alice-backup-t.dump.part''"
  "path_join [''/tmp/c'', ''pgpass''] = ''/tmp/c/pgpass''" "is_abs ''/tmp/c''" "is_abs ''/b/.alice-backup-t.dump.part''"
  "path_clean ''/b/.alice-backup-t.dump.part'' = ''/b/.alice-backup-t.dump.part''"
  "path_abs ''/'' ''/b'' = path_dir ''/b/.alice-backup-t.dump.part''"
  by code_simp+

lemma demo_backup_info:
  "demo_backup_reply (Lstat ''/b'') = OsInfo
     \<lparr>is_dir = True, is_regular = False, is_symlink = False, perm = 0x1C0, file_size = 1, owner = Some (0, 0), sticky = False\<rparr>"
  "demo_backup_reply (Lstat ''/tmp/c'') = OsInfo
     \<lparr>is_dir = True, is_regular = False, is_symlink = False, perm = 0x1C0, file_size = 1, owner = Some (0, 0), sticky = False\<rparr>"
  "demo_backup_reply (Lstat ''/tmp/c/pgpass'') = OsInfo
     \<lparr>is_dir = False, is_regular = True, is_symlink = False, perm = 0x180, file_size = 1, owner = Some (0, 0), sticky = False\<rparr>"
  "demo_backup_reply (Lstat ''/b/.alice-backup-t.dump.part'') = OsInfo
     \<lparr>is_dir = False, is_regular = True, is_symlink = False, perm = 0x180, file_size = 1, owner = Some (0, 0), sticky = False\<rparr>"
  by (simp_all add: demo_backup_reply_def suffix_def)

lemma demo_backup_replies:
  "demo_backup_reply RandomToken = OsPath ''t''" "demo_backup_reply (MkdirTemp d q) = OsPath ''/tmp/c''"
  "demo_backup_reply (ReadWhole p) = OsData ''x''"
  "demo_backup_reply (Stat p) = OsInfo \<lparr>is_dir = False, is_regular = True, is_symlink = False, perm = 0x180,
     file_size = 1, owner = Some (0, 0), sticky = False\<rparr>"
  "demo_backup_reply (CreateExclusive p m) = OsDone" "demo_backup_reply (CloseFile p) = OsDone"
  "demo_backup_reply (Chmod p m) = OsDone" "demo_backup_reply (WriteWhole p d m) = OsDone"
  "demo_backup_reply (WriteTo p d) = OsDone" "demo_backup_reply (SyncFile p) = OsDone"
  "demo_backup_reply (RemoveFile p) = OsDone" "demo_backup_reply (RemoveAll p) = OsDone"
  "demo_backup_reply (RenameNoReplace p q) = OsDone" "demo_backup_reply (SyncDirectory p) = OsDone"
  by (simp_all add: demo_backup_reply_def)

lemmas demo_backup_calls = demo_os_looked demo_os_ok demo_backup_replies demo_backup_info demo_backup_paths

definition demo_artifact :: staged_artifact where
  "demo_artifact = \<lparr>sa_path = ''/b/.alice-backup-t.dump.part'', sa_lock = lock_path ''/b'', sa_closed = False\<rparr>"

definition demo_credential :: credential_file where
  "demo_credential = \<lparr>host_path = ''/tmp/c/pgpass'', cred_root = ''/tmp/c'', owner_uid = 0, owner_gid = 0\<rparr>"

lemma demo_private:
  "private_directory demo_backup_env
     \<lparr>is_dir = True, is_regular = False, is_symlink = False, perm = 0x1C0, file_size = 1, owner = Some (0, 0), sticky = False\<rparr>"
  by (simp add: private_directory_def demo_backup_env_def)

lemma demo_open_staging:
  "\<exists>s'. open_staging (de_os demo_backup_env) ''/b'' 8 s = (Inr demo_artifact, s') \<and> world s' = world s"
proof -
  have "(8::nat) = Suc 7" by simp
  then show ?thesis
    by (simp only: open_staging.simps) (simp add: demo_backup_calls demo_artifact_def Let_def)
qed

lemma demo_store_prepare:
  "\<exists>s'. store_prepare \<lparr>ds_env = demo_backup_env, ds_space = None, ds_minimum = 0, ds_privilege = p\<rparr>
     (bp_destination demo_plan) background s = (Inr demo_artifact, s') \<and> world s' = world s"
proof -
  have "\<exists>s1. safe_existing_path demo_backup_env ''/b'' s = (True, s1) \<and> world s1 = world s"
    by (simp add: safe_existing_path_def safe_directory_def demo_backup_calls demo_private Let_def)
  then obtain s1 where 1: "safe_existing_path demo_backup_env ''/b'' s = (True, s1)" "world s1 = world s" by blast
  define s4 where "s4 = demo_looked (demo_looked (demo_looked (demo_looked s1 (Lstat ''/b'')) (Lstat ''/b''))
      (CreateExclusive (lock_path ''/b'') 0x180)) (CloseFile (lock_path ''/b''))"
  obtain s5 where 2: "open_staging (de_os demo_backup_env) ''/b'' 8 s4 = (Inr demo_artifact, s5)" "world s5 = world s4"
    using demo_open_staging by blast
  have "store_prepare \<lparr>ds_env = demo_backup_env, ds_space = None, ds_minimum = 0, ds_privilege = p\<rparr>
     (bp_destination demo_plan) background s = (Inr demo_artifact, s5)"
    using 1 2(1)
    by (simp add: store_prepare_def prepare_directory_def demo_plan_def is_source_path_def ensure_directory_def
        safe_directory_def enough_space_def acquire_lock_def demo_backup_calls demo_private Let_def s4_def)
  then show ?thesis using 1 2 by (simp add: s4_def)
qed

lemma demo_prepare_credential:
  "contents (secrets (world s)) 0 = ''pw'' \<Longrightarrow>
   \<exists>s'. prepare_credential (de_os demo_backup_env) ''/tmp'' [] demo_backup_config s = (Some demo_credential, s')"
  by (simp add: prepare_credential_def prepare_credential_root_def finish_credential_def demo_backup_calls
      demo_credential_def demo_backup_config_def valid_config_def dialect_postgresql_def config_secret_def Let_def
      split: prod.splits)

lemma demo_container_id: "full_container_id (replicate 64 CHR ''a'')"
  by code_simp

lemma demo_build_dump:
  "\<exists>run s'. build_helper_dump (de_os demo_backup_env)
     \<lparr>hr_goos = ''linux'', hr_container = bp_container demo_plan, hr_config = demo_backup_config,
      hr_credential = demo_credential, hr_timeout = 1800000000000\<rparr> s = (Some run, s') \<and>
     h_name run \<noteq> [] \<and> p_name (h_spec run) = ''docker'' \<and> p_args (h_spec run) \<noteq> []"
  by (simp add: build_helper_dump_def safe_credential_def demo_backup_calls demo_credential_def demo_plan_def
      demo_container_id demo_backup_config_def valid_config_def dialect_postgresql_def owned_by_def dump_args_def)

lemma demo_write_chunks: "\<exists>s'. write_chunks (de_os demo_backup_env) p chunks s = (True, s')"
  by (induction chunks arbitrary: s) (auto simp: demo_backup_calls)

lemma demo_run_helper:
  assumes "h_name run \<noteq> []" "p_name (h_spec run) = ''docker''" "p_args (h_spec run) \<noteq> []"
  shows "\<exists>s'. run_helper_staged (de_os demo_backup_env) (sudo_docker demo_backup_docker) run demo_credential p background s =
     (\<lparr>p_outcome = ProcessSucceeded, stderr_code = []\<rparr>, s')"
proof -
  obtain s2 where "write_chunks (de_os demo_backup_env) p (demo_printed ([''-n'', ''docker''] @ p_args (h_spec run)))
      (demo_executed s (h_spec run)) = (True, s2)"
    using demo_write_chunks by blast
  with assms show ?thesis
    by (simp add: run_helper_staged_def demo_exec cleanup_helper_def cleanup_spec_def credential_cleanup_def
        demo_credential_def demo_backup_calls)
qed

lemma demo_archive:
  "\<exists>s'. archive_validate (de_os demo_backup_env) (Some (sudo_docker demo_backup_docker)) 1800000000000
     ''/b/.alice-backup-t.dump.part'' background s = (True, s')"
proof -
  have listed: "listing_valid (bounded_output 65536 True (demo_printed (''-n'' # ''docker'' #
      p_args (validate_spec (''alice-pg11-validate-'' @ ''t'') ''/b/.alice-backup-t.dump.part'' 0 0 1800000000000))))"
    by code_simp
  have spec: "p_name (validate_spec n p u g t) = ''docker''" "p_args (validate_spec n p u g t) \<noteq> []" for n p u g t
    by (simp_all add: validate_spec_def)
  show ?thesis
    using listed
    by (simp add: archive_validate_def staged_dump_owner_def safe_owned_staged_dump_def demo_backup_calls
        safe_dump_info_def owned_by_def Let_def demo_exec spec cleanup_helper_def cleanup_spec_def)
qed

lemma demo_publish:
  "\<exists>pub s'. publish_backup_pair demo_backup_codec (de_os demo_backup_env) ''/''
     (owned_publication_request \<lparr>pr_directory = ''/b'', pr_dump_path = ''/b/.alice-backup-t.dump.part'',
        pr_container = bp_container demo_plan, pr_config = demo_backup_config, pr_ownership = []\<rparr>
        ''/b/.alice-backup-t.dump.part'') background s = (Some pub, s')"
  by (simp add: publish_backup_pair_def valid_publication_request_def safe_staged_dump_def demo_backup_calls
      owned_publication_request_def demo_plan_def demo_container_id demo_backup_config_def valid_config_def
      dialect_postgresql_def restore_hash_def demo_backup_codec_def write_protected_file_def publish_renames_def Let_def)

lemma demo_backup_validates:
  "br_outcome (fst (backup_run demo_backup demo_plan background demo_backup_start)) = BackupValidated"
proof -
  let ?os = "de_os demo_backup_env" and ?p = "''/b/.alice-backup-t.dump.part''"
  obtain s1 where 1: "store_prepare \<lparr>ds_env = demo_backup_env, ds_space = None, ds_minimum = 0,
      ds_privilege = Some (sudo_prepare (Some (\<lambda>name args c now w. (\<lparr>out = [], err_out = [], cmd_err = None\<rparr>, 0, w))))\<rparr>
      (bp_destination demo_plan) background demo_backup_start = (Inr demo_artifact, s1)" "world s1 = world demo_backup_start"
    using demo_store_prepare by blast
  obtain s2 where 2: "prepare_credential ?os ''/tmp'' [] demo_backup_config s1 = (Some demo_credential, s2)"
    using demo_prepare_credential [of s1] 1(2) by (auto simp: demo_backup_start_def)
  obtain run s3 where 3: "build_helper_dump ?os
      \<lparr>hr_goos = ''linux'', hr_container = bp_container demo_plan, hr_config = demo_backup_config,
       hr_credential = demo_credential, hr_timeout = 1800000000000\<rparr> s2 = (Some run, s3)"
    and named: "h_name run \<noteq> []" "p_name (h_spec run) = ''docker''" "p_args (h_spec run) \<noteq> []"
    using demo_build_dump by blast
  obtain s4 where 4: "run_helper_staged ?os (sudo_docker demo_backup_docker) run demo_credential ?p background s3 =
      (\<lparr>p_outcome = ProcessSucceeded, stderr_code = []\<rparr>, s4)"
    using demo_run_helper [OF named] by blast
  have action: "ba_os demo_backup = ?os" "ba_cwd demo_backup = ''/''" "ba_temp_dir demo_backup = ''/tmp''"
    "ba_temp_root demo_backup = []" "ba_codec demo_backup = demo_backup_codec"
    "ba_store demo_backup = Some \<lparr>ds_env = demo_backup_env, ds_space = None, ds_minimum = 0,
      ds_privilege = Some (sudo_prepare (Some (\<lambda>name args c now w. (\<lparr>out = [], err_out = [], cmd_err = None\<rparr>, 0, w))))\<rparr>"
    "ba_executor demo_backup = Some (sudo_docker demo_backup_docker)"
    "backup_action.ba_validator demo_backup = Some (archive_validate ?os (Some (sudo_docker demo_backup_docker)) 1800000000000)"
    "sa_path demo_artifact = ?p"
    by (simp_all add: demo_backup_def production_backup_def demo_backup_env_def demo_artifact_def)
  have plan: "bp_config demo_plan = demo_backup_config" "dp_directory (bp_destination demo_plan) = ''/b''"
    "bp_goos demo_plan = ''linux''" "bp_timeout demo_plan = 1800000000000"
    by (simp_all add: demo_plan_def)
  have "trusted_container (bp_container demo_plan)" "valid_config demo_backup_config"
    by (simp_all add: trusted_container_def demo_plan_def demo_container_id demo_backup_config_def valid_config_def
        dialect_postgresql_def)
  moreover have "\<exists>r left s'. run_staged_file demo_backup (archive_validate ?os (Some (sudo_docker demo_backup_docker)) 1800000000000)
      None demo_plan demo_artifact stages background s4 = ((r, left), s') \<and> br_outcome r = BackupValidated" for stages
  proof -
    define s7 where "s7 = demo_looked (demo_looked (demo_looked (demo_looked s4 (SyncFile ?p)) (CloseFile ?p))
        (RemoveFile (lock_path ''/b''))) (Stat ?p)"
    obtain s8 where 8: "archive_validate ?os (Some (sudo_docker demo_backup_docker)) 1800000000000 ?p background s7 = (True, s8)"
      using demo_archive by blast
    obtain pub s9 where 9: "publish_backup_pair demo_backup_codec ?os ''/''
       (owned_publication_request \<lparr>pr_directory = ''/b'', pr_dump_path = ?p,
          pr_container = bp_container demo_plan, pr_config = demo_backup_config, pr_ownership = []\<rparr> ?p) background s8 = (Some pub, s9)"
      using demo_publish by blast
    show ?thesis
      using 8 9
      by (simp add: run_staged_file_def artifact_sync_def artifact_close_def remove_gone_def demo_artifact_def
          action plan demo_backup_calls run_validation_def run_publication_def emit_progress_def s7_def)
  qed
  then obtain r left s' where
    "run_staged_file demo_backup (archive_validate ?os (Some (sudo_docker demo_backup_docker)) 1800000000000)
      None demo_plan demo_artifact (mark StageDump StagePassed (mark StageCredentials StagePassed
        (mark StageDestination StagePassed (mark StagePreconditions StagePassed new_backup_diagnostics)))) background s4
      = ((r, left), s')" "br_outcome r = BackupValidated" by blast
  ultimately show ?thesis
    using 1(1) 2 3 4
    by (simp add: backup_run_def run_with_progress_def run_prepared_def run_credentials_def run_dump_def after_dump_def
        emit_progress_def action plan Let_def)
qed

lemma demo_names_directories: "names_directories (de_os demo_backup_env)"
  by (simp add: names_directories_def demo_backup_env_def demo_backup_reply_def)

section \<open>Properties\<close>

text \<open>
  C25. The production preflight of a backup only observes the host, whatever its result:
  it opens, reads and closes the legacy configuration, looks at paths without following
  links, and runs \<open>docker ps\<close> and \<open>docker inspect\<close>.  A plan it returns has a usable
  configuration, a trusted container, and a destination outside the legacy application.
\<close>

theorem backup_preflight_only_observes:
  assumes "backup_preflight (production_backup cd decode env host x run) request c s = (r, s')"
  shows "observes_only s s' \<and> (\<forall>plan. r = Inr plan \<longrightarrow> plan_ready (de_cwd env) plan)"
proof
  show "observes_only s s'"
    using assms
  proof (rule backup_preflight_parts)
    fix f q c s r s'
    assume "ba_resolver (production_backup cd decode env host x run) = Some f" "f q c s = (r, s')"
    then show "observes_only s s'" by (auto simp: production_backup_def dest: resolver_resolve_observes)
  next
    fix f q c s r s'
    assume "ba_inspector (production_backup cd decode env host x run) = Some f" "f q c s = (r, s')"
    then show "observes_only s s'"
      by (auto simp: production_backup_def dest: docker_source.discover_reads queries_only_observes)
  qed (auto simp: production_backup_def)
  show "\<forall>plan. r = Inr plan \<longrightarrow> plan_ready (de_cwd env) plan"
  proof (intro allI impI)
    fix plan assume "r = Inr plan"
    with assms show "plan_ready (de_cwd env) plan"
      using backup_preflight_ready [of "production_backup cd decode env host x run"]
      by (fastforce simp: production_backup_def)
  qed
qed

theorem backup_preflight_only_observes_witness:
  "\<exists>s'. backup_preflight demo_backup production_backup_request background demo_backup_start = (Inl [ErrResolvedConfigInvalid], s') \<and>
     observes_only demo_backup_start s'"
proof -
  let ?run = "backup_preflight demo_backup production_backup_request background demo_backup_start"
  have "case fst ?run of Inl e \<Rightarrow> e = [ErrResolvedConfigInvalid] | Inr plan \<Rightarrow> False" by code_simp
  moreover obtain r s' where "?run = (r, s')" by fastforce
  ultimately have "?run = (Inl [ErrResolvedConfigInvalid], s')" by (cases r) simp_all
  then show ?thesis
    using backup_preflight_only_observes [of demo_backup_codec "\<lambda>printed. Some [demo_raw]" demo_backup_env "\<lambda>n. None"
        demo_backup_docker "\<lambda>name args c now w. (\<lparr>out = [], err_out = [], cmd_err = None\<rparr>, 0, w)",
        folded demo_backup_def] by auto
qed

text \<open>
  C26. The diagnostics of a backup tell the truth about its stages: a validated backup has
  every stage passed and no failure code; any other run has a failure code, reports no
  files, and marks exactly one stage as failed, the stages before it as passed and those
  after it as not run.  This holds for every action, plan, callback and context.
\<close>

theorem backup_diagnostics_faithful: "diagnosed (fst (run_with_progress a plan progress c s))"
  by (rule run_with_progress_diagnosed)

text \<open>
  C27. A run of the production backup leaves no file behind but the published pair: a
  validated one leaves at most the dump and the manifest it reports; any other one has
  removed its staging dump, its lock, its credential and whatever it had renamed, and
  leaves at most a staged manifest.
\<close>

theorem backup_leaves_only_the_pair:
  assumes "names_directories (de_os env)"
    and "backup_run (production_backup cd decode env host x run) plan c s = (r, s')"
  shows "leaves {} s s' (if br_outcome r = BackupValidated then {br_dump_path r, br_manifest_path r}
           else manifest_leftovers (dp_directory (bp_destination plan)))"
  by (rule backup_run_leaves [OF production_backup_safe [OF assms(1)] assms(2)])

theorem backup_leaves_only_the_pair_witness:
  "\<exists>r s'. backup_run demo_backup demo_plan background demo_backup_start = (r, s') \<and>
     leaves {} demo_backup_start s' {br_dump_path r, br_manifest_path r}"
proof -
  obtain r s' where run: "backup_run demo_backup demo_plan background demo_backup_start = (r, s')" by fastforce
  with demo_backup_validates have "br_outcome r = BackupValidated" by simp
  with backup_leaves_only_the_pair [OF demo_names_directories run [unfolded demo_backup_def]] run
  show ?thesis by auto
qed

text \<open>
  C28. What a validated backup published went through all its checks, in order: the dump of
  the planned container and configuration succeeded, the staging file was synced and found
  not empty, \<open>pg_restore --list\<close> on that file succeeded, and only then the dump and the
  manifest were renamed to their names, which carry the hash, and the directory synced.
\<close>

theorem backup_validated_in_order:
  assumes "names_directories (de_os env)"
    and "backup_run (production_backup cd decode env host x run) plan c s = (r, s')"
    and "br_outcome r = BackupValidated"
  shows "\<exists>staged d e. dump_event plan d \<and> validation_event staged e \<and>
     went s s' (d # staged_checks staged @ e #
       publication_steps (dp_directory (bp_destination plan)) staged (publication_of r)) \<and>
     publication_of r = publication_names (dp_directory (bp_destination plan)) (br_sha256 r) (br_size r) \<and>
     br_size r \<noteq> 0"
proof -
  let ?a = "production_backup cd decode env host x run"
  note safe = production_backup_safe [OF assms(1), of cd decode host x run, unfolded safe_action_def]
  from assms(2,3) obtain st y stages where
    "ba_store ?a = Some st" "run_prepared ?a st y (archive_validate (de_os env) (Some (sudo_docker x)) (30 * 60 * 1000000000))
       None plan stages c s = (r, s')"
    by (auto simp: backup_run_def run_with_progress_def Let_def backup_failure_def emit_progress_def
        production_backup_def split: if_splits)
  with safe run_prepared_validated [OF _ _ this(2) assms(3)] show ?thesis
    by (fastforce simp: validated_by_def Let_def)
qed

theorem backup_validated_in_order_witness:
  "\<exists>r s' staged. backup_run demo_backup demo_plan background demo_backup_start = (r, s') \<and>
     went demo_backup_start s' (publication_steps ''/b'' staged (publication_of r))"
proof -
  obtain r s' where run: "backup_run demo_backup demo_plan background demo_backup_start = (r, s')" by fastforce
  with demo_backup_validates have "br_outcome r = BackupValidated" by simp
  from backup_validated_in_order [OF demo_names_directories run [unfolded demo_backup_def] this]
  obtain staged d e where "went demo_backup_start s' ((d # staged_checks staged @ [e]) @
       publication_steps ''/b'' staged (publication_of r))"
    by (auto simp: demo_plan_def)
  from went_drop [OF this] run show ?thesis by blast
qed

end
