(* ===== verification/InstallBase.thy ===== *)
theory InstallBase
  imports Prelude
begin

text \<open>
  What the installation components share: the operations of the file system and the
  events they leave.  As in the migration, the operating system is a parameter; a
  component is a function over the threaded system and its trace records every command,
  file operation and port test in order.
\<close>

section \<open>The file system\<close>

datatype fs_op =
    FsMkdirAll string nat
  | FsWriteFile string string nat
  | FsRename string string
  | FsRemove string
  | FsRemoveAll string
  | FsChmod string nat
  | FsSymlink string string
  | FsStat string
  | FsLstat string
  | FsReadFile string
  | FsReadLink string
  | FsWalkDir string

text \<open>What \<open>Stat\<close> and \<open>Lstat\<close> report: the kind of the file and its mode bits.\<close>

record fs_info =
  fi_dir :: bool
  fi_regular :: bool
  fi_symlink :: bool
  fi_mode :: nat

text \<open>A failure carries its text; \<open>FsMissing\<close> is one that is \<open>os.ErrNotExist\<close>.\<close>

datatype fs_reply =
    FsFailed string | FsMissing string | FsDone | FsInfo fs_info | FsBytes string | FsNames "string list"

fun fs_error :: "fs_reply \<Rightarrow> string option" where
  "fs_error (FsFailed e) = Some e"
| "fs_error (FsMissing e) = Some e"
| "fs_error r = None"

definition fs_success :: "fs_reply \<Rightarrow> bool" where
  "fs_success r \<longleftrightarrow> fs_error r = None"

lemma fs_success_simps [simp]:
  "fs_success FsDone" "fs_success (FsInfo i)" "fs_success (FsBytes b)" "fs_success (FsNames ns)"
  "\<not> fs_success (FsFailed e)" "\<not> fs_success (FsMissing e)"
  by (simp_all add: fs_success_def)

type_synonym 'w fs = "fs_op \<Rightarrow> ('w, fs_reply) oper"

text \<open>Operations that leave the file system as it is.\<close>

fun fs_reads :: "fs_op \<Rightarrow> bool" where
  "fs_reads (FsStat p) = True"
| "fs_reads (FsLstat p) = True"
| "fs_reads (FsReadFile p) = True"
| "fs_reads (FsReadLink p) = True"
| "fs_reads (FsWalkDir p) = True"
| "fs_reads fop = False"

section \<open>Events\<close>

datatype transport = TCP | UDP

datatype install_event =
    Invoked cmd_event
  | FsEvent fs_op bool
  | PortTest transport int bool
  | ActionRun string "string list" bool

type_synonym 'w isys = "('w, install_event) sys"
type_synonym ('w, 'a) ieff = "ctx \<Rightarrow> 'w isys \<Rightarrow> 'a \<times> 'w isys"

definition fs_call :: "'w fs \<Rightarrow> fs_op \<Rightarrow> 'w isys \<Rightarrow> fs_reply \<times> 'w isys" where
  "fs_call fs fop s = call (\<lambda>r. FsEvent fop (fs_success r)) (fs fop) background s"

definition fs_ok :: "'w fs \<Rightarrow> fs_op \<Rightarrow> 'w isys \<Rightarrow> bool \<times> 'w isys" where
  "fs_ok fs fop s = (case fs_call fs fop s of (r, s1) \<Rightarrow> (fs_success r, s1))"

text \<open>A command, and a computation over commands, run in the installation's system.\<close>

definition invoke :: "'w runner \<Rightarrow> string \<Rightarrow> string list \<Rightarrow> ('w, cmd_result) ieff" where
  "invoke f name args c s = call (\<lambda>r. Invoked (Ran name args (cmd_err r = None))) (f name args) c s"

definition invoking :: "('w, cmd_event, 'a) effect \<Rightarrow> ('w, 'a) ieff" where
  "invoking m c s =
     (case m c \<lparr>world = world s, clock = clock s, trace = []\<rparr> of
        (r, s1) \<Rightarrow>
          (r, \<lparr>world = world s1, clock = max (clock s) (clock s1),
               trace = trace s @ map Invoked (trace s1)\<rparr>))"

lemma fs_call_grew: "fs_call fs fop s = (r, s') \<Longrightarrow> grew s s' [FsEvent fop (fs_success r)]"
  unfolding fs_call_def by (rule grew_call)

lemma fs_ok_grew: "fs_ok fs fop s = (b, s') \<Longrightarrow> grew s s' [FsEvent fop b]"
  by (auto simp: fs_ok_def split: prod.splits dest: fs_call_grew)

lemma invoke_grew:
  "invoke f name args c s = (r, s') \<Longrightarrow> grew s s' [Invoked (Ran name args (cmd_err r = None))]"
  unfolding invoke_def by (rule grew_call)

lemma invoking_grew:
  "invoking m c s = (r, s') \<Longrightarrow> \<exists>es. grew s s' (map Invoked es)"
  by (auto simp: invoking_def grew_def split: prod.splits)

lemmas install_calls = fs_call_grew fs_ok_grew invoke_grew

section \<open>Events of a given kind\<close>

text \<open>A computation whose every new event satisfies a predicate.\<close>

definition emits :: "('e \<Rightarrow> bool) \<Rightarrow> ('w, 'e) sys \<Rightarrow> ('w, 'e) sys \<Rightarrow> bool" where
  "emits P s s' \<longleftrightarrow> (\<exists>es. grew s s' es \<and> list_all P es)"

lemma emits_refl [simp]: "emits P s s"
  unfolding emits_def by (rule exI [of _ "[]"]) simp

lemma emits_trans [trans]: "emits P s s' \<Longrightarrow> emits P s' s'' \<Longrightarrow> emits P s s''"
  unfolding emits_def by (metis grew_trans list_all_append)

lemma emits_grew: "grew s s' es \<Longrightarrow> list_all P es \<Longrightarrow> emits P s s'"
  unfolding emits_def by blast

lemma emits_mono: "emits P s s' \<Longrightarrow> (\<And>e. P e \<Longrightarrow> Q e) \<Longrightarrow> emits Q s s'"
  unfolding emits_def by (metis list.pred_mono_strong)

lemma emits_trace:
  "emits P s s' \<Longrightarrow> \<exists>es. trace s' = trace s @ es \<and> list_all P es"
  unfolding emits_def grew_def by blast

lemma emits_clock: "emits P s s' \<Longrightarrow> clock s \<le> clock s'"
  unfolding emits_def grew_def by blast

lemma emits_call: "call ev f c s = (r, s') \<Longrightarrow> P (ev r) \<Longrightarrow> emits P s s'"
  by (drule grew_call, erule emits_grew) simp

text \<open>A computation whose new events, as a list, satisfy a predicate.\<close>

definition yields :: "('e list \<Rightarrow> bool) \<Rightarrow> ('w, 'e) sys \<Rightarrow> ('w, 'e) sys \<Rightarrow> bool" where
  "yields Q s s' \<longleftrightarrow> (\<exists>es. grew s s' es \<and> Q es)"

lemma yieldsI: "grew s s' es \<Longrightarrow> Q es \<Longrightarrow> yields Q s s'"
  unfolding yields_def by blast

lemma yields_refl: "Q [] \<Longrightarrow> yields Q s s"
  by (rule yieldsI [OF grew_refl])

lemma yields_trans:
  "(\<And>xs ys. Q xs \<Longrightarrow> Q ys \<Longrightarrow> Q (xs @ ys)) \<Longrightarrow> yields Q s s' \<Longrightarrow> yields Q s' s'' \<Longrightarrow> yields Q s s''"
  unfolding yields_def by (meson grew_trans)

section \<open>Trimming\<close>

lemma strip_seqs_split:
  "\<exists>u. s = u @ strip_seqs ws s \<and> set u \<subseteq> \<Union> (set ` set ws)"
proof (induction ws s rule: strip_seqs.induct)
  case (1 ws s)
  show ?case
  proof (cases "find (\<lambda>w. w \<noteq> [] \<and> prefix w s) ws")
    case None
    then show ?thesis by (subst strip_seqs.simps) simp
  next
    case (Some w)
    then have w: "w \<in> set ws" "prefix w s" by (auto simp: find_Some_iff)
    from 1 [OF Some] obtain u where
      u: "drop (length w) s = u @ strip_seqs ws (drop (length w) s)" "set u \<subseteq> \<Union> (set ` set ws)" by blast
    have "s = (w @ u) @ strip_seqs ws s"
      using Some w u by (subst strip_seqs.simps) (auto simp: prefix_def)
    moreover have "set (w @ u) \<subseteq> \<Union> (set ` set ws)" using w u by auto
    ultimately show ?thesis by blast
  qed
qed

definition space_bytes :: "char set" where
  "space_bytes = \<Union> (set ` set space_seqs)"

text \<open>A string that starts with a byte that is in no space keeps its start.\<close>

lemma trim_right_split: "\<exists>u. s = trim_right s @ u \<and> set u \<subseteq> space_bytes"
proof -
  obtain u where u: "rev s = u @ strip_seqs (map rev space_seqs) (rev s)"
    "set u \<subseteq> \<Union> (set ` set (map rev space_seqs))"
    using strip_seqs_split by blast
  have "s = rev (u @ strip_seqs (map rev space_seqs) (rev s))" using u(1) by (metis rev_rev_ident)
  moreover have "set (rev u) \<subseteq> space_bytes" using u(2) by (simp add: space_bytes_def)
  ultimately show ?thesis unfolding trim_right_def by (metis rev_append)
qed

lemma trim_left_split: "\<exists>u. s = u @ trim_left s \<and> set u \<subseteq> space_bytes"
  using strip_seqs_split [of s space_seqs] by (simp add: trim_left_def space_bytes_def)

lemma trim_space_split:
  "\<exists>u v. s = u @ trim_space s @ v \<and> set u \<subseteq> space_bytes \<and> set v \<subseteq> space_bytes"
  using trim_left_split [of s] trim_right_split [of "trim_left s"]
  unfolding trim_space_def by metis

lemma trim_space_Cons:
  assumes "c \<notin> space_bytes"
  shows "\<exists>cs'. trim_space (c # cs) = c # cs'"
proof -
  from trim_space_split [of "c # cs"] obtain u v where
    uv: "c # cs = u @ trim_space (c # cs) @ v" "set u \<subseteq> space_bytes" "set v \<subseteq> space_bytes" by blast
  then have "u = []" using assms by (cases u) auto
  with uv assms show ?thesis by (cases "trim_space (c # cs)") auto
qed

end
