(* ===== verification/Ports.thy ===== *)
theory Ports
  imports InstallBase
begin

text \<open>
  \<open>internal/ports\<close>: testing whether a port can be bound, the search for a free one, and
  the legacy ports a migration leaves occupied.  \<open>net.Listen\<close> and \<open>net.ListenPacket\<close>
  are the parameter \<open>listen\<close>; a test that succeeds closes its listener again.
\<close>

type_synonym 'w listen = "transport \<Rightarrow> int \<Rightarrow> ('w, bool) oper"

record 'w port_scanner =
  is_available :: "int \<Rightarrow> ('w, bool) ieff"
  is_udp_available :: "int \<Rightarrow> ('w, bool) ieff"

definition test_port :: "'w listen \<Rightarrow> transport \<Rightarrow> int \<Rightarrow> ('w, bool) ieff" where
  "test_port listen t port c s = call (PortTest t port) (listen t port) background s"

definition net_port_scanner :: "'w listen \<Rightarrow> 'w port_scanner" where
  "net_port_scanner listen =
     \<lparr>is_available = test_port listen TCP, is_udp_available = test_port listen UDP\<rparr>"

definition max_search_window :: nat where "max_search_window = 100"

text \<open>The loop of \<open>FirstAvailable\<close>, with \<open>n\<close> candidates left.\<close>

fun first_from :: "'w port_scanner \<Rightarrow> int \<Rightarrow> nat \<Rightarrow> ctx \<Rightarrow> 'w isys \<Rightarrow> int option \<times> 'w isys" where
  "first_from sc candidate 0 c s = (None, s)"
| "first_from sc candidate (Suc n) c s =
     (case is_available sc candidate c s of
        (True, s1) \<Rightarrow> (Some candidate, s1)
      | (False, s1) \<Rightarrow> first_from sc (candidate + 1) n c s1)"

definition first_available :: "'w listen \<Rightarrow> int \<Rightarrow> ('w, int option) ieff" where
  "first_available listen start = first_from (net_port_scanner listen) start max_search_window"

definition exempt_tcp_ports :: "int list" where
  "exempt_tcp_ports = [6379, 8554, 1935, 8888, 8889, 19530, 9091, 9000, 9001]"

definition exempt_udp_ports :: "int list" where
  "exempt_udp_ports = [8890, 8189]"

section \<open>Facts\<close>

lemma test_port_grew: "test_port listen t p c s = (b, s') \<Longrightarrow> grew s s' [PortTest t p b]"
  unfolding test_port_def by (rule grew_call)

lemma net_scanner_grew:
  "is_available (net_port_scanner listen) p c s = (b, s') \<Longrightarrow> grew s s' [PortTest TCP p b]"
  "is_udp_available (net_port_scanner listen) p c s = (b, s') \<Longrightarrow> grew s s' [PortTest UDP p b]"
  by (auto simp: net_port_scanner_def dest: test_port_grew)

text \<open>The search tries the candidates in order and stops at the first free one.\<close>

lemma first_from_grew:
  "first_from (net_port_scanner listen) start n c s = (r, s') \<Longrightarrow>
   (case r of
      Some p \<Rightarrow> start \<le> p \<and> p < start + int n \<and>
        grew s s' (map (\<lambda>q. PortTest TCP q False) [start..p - 1] @ [PortTest TCP p True])
    | None \<Rightarrow> grew s s' (map (\<lambda>q. PortTest TCP q False) [start..start + int n - 1]))"
proof (induction n arbitrary: start s)
  case 0
  then show ?case by simp
next
  case (Suc n)
  obtain b s1 where t: "is_available (net_port_scanner listen) start c s = (b, s1)" by fastforce
  note g = net_scanner_grew(1) [OF t]
  show ?case
  proof (cases b)
    case True
    with Suc.prems t g show ?thesis by auto
  next
    case False
    with Suc.prems t have rest: "first_from (net_port_scanner listen) (start + 1) n c s1 = (r, s')" by simp
    have up: "[start..m] = start # [start + 1..m]" if "start \<le> m" for m
      using that by (rule upto_rec1)
    show ?thesis
    proof (cases r)
      case None
      with Suc.IH [OF rest] grew_trans [OF g, of s'] False up [of "start + int n"] show ?thesis
        by (simp add: add.commute)
    next
      case (Some p)
      with Suc.IH [OF rest] grew_trans [OF g, of s'] False up [of "p - 1"] show ?thesis
        by (auto simp: add.commute)
    qed
  qed
qed

end
