(* ===== verification/EnvGen.thy ===== *)
theory EnvGen
  imports InstallBase
begin

text \<open>
  \<open>internal/envgen\<close> with what it reads: the architecture (\<open>internal/platform/arch.go\<close>),
  the password generator (\<open>internal/secrets\<close>) and the AMI contract
  (\<open>internal/asterisk\<close>).  \<open>Render\<close> fills the managed keys of a template; the atomic
  writer puts the result in place by a rename.
\<close>

section \<open>Architecture\<close>

datatype arch = ArchAMD64 | ArchARM64 | ArchUnknown

definition detect_arch :: "string \<Rightarrow> arch" where
  "detect_arch goarch =
     (if goarch = ''amd64'' then ArchAMD64 else if goarch = ''arm64'' then ArchARM64 else ArchUnknown)"

definition arch_string :: "arch \<Rightarrow> string" where
  "arch_string a =
     (case a of ArchAMD64 \<Rightarrow> ''amd64'' | ArchARM64 \<Rightarrow> ''arm64'' | ArchUnknown \<Rightarrow> ''unknown'')"

section \<open>Passwords\<close>

text \<open>Standard base64, as \<open>base64.StdEncoding.EncodeToString\<close> produces it.\<close>

definition base64_digit :: "nat \<Rightarrow> char" where
  "base64_digit n =
     (if n < 26 then char_of (65 + n)
      else if n < 52 then char_of (97 + (n - 26))
      else if n < 62 then char_of (48 + (n - 52))
      else if n = 62 then CHR ''+'' else CHR ''/'')"

fun base64 :: "string \<Rightarrow> string" where
  "base64 (a # b # c # rest) =
     (let n = of_char a * 65536 + of_char b * 256 + (of_char c :: nat) in
      [base64_digit (n div 262144), base64_digit (n div 4096 mod 64),
       base64_digit (n div 64 mod 64), base64_digit (n mod 64)] @ base64 rest)"
| "base64 [a, b] =
     (let n = of_char a * 65536 + (of_char b :: nat) * 256 in
      [base64_digit (n div 262144), base64_digit (n div 4096 mod 64), base64_digit (n div 64 mod 64), CHR ''=''])"
| "base64 [a] =
     (let n = (of_char a :: nat) * 65536 in
      [base64_digit (n div 262144), base64_digit (n div 4096 mod 64), CHR ''='', CHR ''=''])"
| "base64 [] = []"

text \<open>\<open>CryptoRandGenerator.Generate\<close>, over what \<open>rand.Read\<close> fills the buffer with.\<close>

definition crypto_generate :: "(nat \<Rightarrow> 'e + string) \<Rightarrow> nat \<Rightarrow> 'e + string" where
  "crypto_generate rand byte_len =
     (if byte_len = 0 then Inr []
      else case rand byte_len of Inl e \<Rightarrow> Inl e | Inr b \<Rightarrow> Inr (base64 b))"

section \<open>The AMI contract\<close>

record ami_contract =
  ami_enabled :: bool
  ami_host :: string
  ami_port :: int
  ami_username :: string
  ami_password :: string
  ami_config_dir :: string

definition default_config_root :: string where "default_config_root = ''/opt/alice-config/asterisk''"
definition default_ami_host :: string where "default_ami_host = ''127.0.0.1''"
definition default_ami_port :: int where "default_ami_port = 5038"

definition normalize_contract :: "ami_contract \<Rightarrow> string \<Rightarrow> ami_contract" where
  "normalize_contract contract config_root =
     (let root = (if config_root = [] then default_config_root else config_root) in
      contract\<lparr>ami_host := (if ami_host contract = [] then default_ami_host else ami_host contract),
               ami_port := (if ami_port contract = 0 then default_ami_port else ami_port contract),
               ami_config_dir := (if ami_config_dir contract = [] then root else ami_config_dir contract),
               ami_enabled := True\<rparr>)"

definition bool_text :: "bool \<Rightarrow> string" where
  "bool_text b = (if b then ''true'' else ''false'')"

definition asterisk_env_values :: "ami_contract \<Rightarrow> (string \<times> string) list" where
  "asterisk_env_values contract =
     (if \<not> ami_enabled contract then
        [(''ASTERISK_ENABLED'', ''false''), (''ASTERISK_AMI_HOST'', default_ami_host),
         (''ASTERISK_AMI_PORT'', itoa default_ami_port), (''ASTERISK_AMI_USERNAME'', []),
         (''ASTERISK_AMI_PASSWORD'', []), (''ASTERISK_CONFIG_DIR'', default_config_root),
         (''ASTERISK_INTEGRATION_ENV'', default_config_root @ ''/integration.env'')]
      else let c = normalize_contract contract (ami_config_dir contract) in
        [(''ASTERISK_ENABLED'', bool_text (ami_enabled c)), (''ASTERISK_AMI_HOST'', ami_host c),
         (''ASTERISK_AMI_PORT'', itoa (ami_port c)), (''ASTERISK_AMI_USERNAME'', ami_username c),
         (''ASTERISK_AMI_PASSWORD'', ami_password c), (''ASTERISK_CONFIG_DIR'', ami_config_dir c),
         (''ASTERISK_INTEGRATION_ENV'', ami_config_dir c @ ''/integration.env'')])"

section \<open>The workspace name\<close>

datatype workspace_error =
    WorkspaceEmpty | WorkspaceSpace | WorkspaceDot | WorkspaceSeparator
  | WorkspaceTooLong nat | WorkspaceCharacters string

definition contains_any_of :: "string \<Rightarrow> string \<Rightarrow> bool" where
  "contains_any_of s chars \<longleftrightarrow> list_ex (\<lambda>c. c \<in> set chars) s"

definition workspace_char :: "char \<Rightarrow> bool" where
  "workspace_char ch \<longleftrightarrow>
     (let c = (of_char ch :: nat) in
      97 \<le> c \<and> c \<le> 122 \<or> 65 \<le> c \<and> c \<le> 90 \<or> 48 \<le> c \<and> c \<le> 57 \<or> ch = CHR ''_'' \<or> ch = CHR ''-'')"

definition validate_workspace :: "string \<Rightarrow> workspace_error option" where
  "validate_workspace ws =
     (let trimmed = trim_space ws in
      if trimmed = [] then Some WorkspaceEmpty
      else if contains_any_of ws [CHR '' '', CHR 0x09, CHR 0x0A, CHR 0x0D] then Some WorkspaceSpace
      else if prefix ''.'' trimmed then Some WorkspaceDot
      else if contains_any_of trimmed [CHR ''/'', CHR 0x5C] then Some WorkspaceSeparator
      else if length trimmed > 64 then Some (WorkspaceTooLong (length trimmed))
      else if \<not> list_all workspace_char trimmed then Some (WorkspaceCharacters trimmed)
      else None)"

section \<open>Rendering\<close>

record ports_config =
  postgres_port :: int
  backend_port :: int
  websocket_port :: int
  web_port :: int
  rtsp_port :: int
  redis_port :: int
  hls_port :: int
  hls_port2 :: int
  hls_port3 :: int
  webrtc_ice_port :: int
  rtmp_port :: int
  milvus_port :: int
  milvus_web_port :: int
  minio_api_port :: int
  minio_console_port :: int

record env_input =
  ei_workspace :: string
  ei_arch :: arch
  ei_ports :: ports_config
  ei_generate_password :: bool
  ei_password_override :: string
  ei_asterisk :: ami_contract

definition image_tags :: "arch \<Rightarrow> (string \<times> string) list" where
  "image_tags a =
     (let suffix = (if a = ArchARM64 then ''-arm'' else []) in
      [(''BACKEND_IMAGE'', ''jcaltamare/aliceguardian:backend'' @ suffix),
       (''WEBSOCKET_IMAGE'', ''jcaltamare/aliceguardian:socket1'' @ suffix),
       (''WEB_IMAGE'', ''jcaltamare/aliceguardian:web_ag'' @ suffix),
       (''REDIS_IMAGE'', ''redis:7-alpine'')])"

definition port_values :: "ports_config \<Rightarrow> (string \<times> string) list" where
  "port_values p =
     [(''POSTGRES_PORT'', itoa (postgres_port p)), (''BACKEND_PORT'', itoa (backend_port p)),
      (''WEBSOCKET_PORT'', itoa (websocket_port p)), (''WEB_PORT'', itoa (web_port p)),
      (''RTSP_PORT'', itoa (rtsp_port p)), (''REDIS_PORT'', itoa (redis_port p)),
      (''HLS_PORT'', itoa (hls_port p)), (''HLS_PORT2'', itoa (hls_port2 p)),
      (''HLS_PORT3'', itoa (hls_port3 p)), (''WEBRTC_ICE_PORT'', itoa (webrtc_ice_port p)),
      (''RTMP_PORT'', itoa (rtmp_port p)), (''MILVUS_PORT'', itoa (milvus_port p)),
      (''MILVUS_WEB_PORT'', itoa (milvus_web_port p)), (''MINIO_API_PORT'', itoa (minio_api_port p)),
      (''MINIO_CONSOLE_PORT'', itoa (minio_console_port p))]"

text \<open>The substitution map; later assignments win.\<close>

definition substitutions :: "env_input \<Rightarrow> string \<Rightarrow> (string \<rightharpoonup> string)" where
  "substitutions i password =
     map_of (image_tags (ei_arch i))
       ++ map_of [(''WORKSPACE'', ei_workspace i), (''POSTGRES_PASSWORD'', password)]
       ++ map_of (port_values (ei_ports i)) ++ map_of (asterisk_env_values (ei_asterisk i))"

definition trim_right_cr :: "string \<Rightarrow> string" where
  "trim_right_cr line = rev (dropWhile (\<lambda>c. c = CHR 0x0D) (rev line))"

definition template_lines :: "string \<Rightarrow> string list" where
  "template_lines template =
     (let lines = split_char CHR 0x0A template in
      if lines \<noteq> [] \<and> last lines = [] then butlast lines else lines)"

definition render_line :: "(string \<rightharpoonup> string) \<Rightarrow> string \<Rightarrow> string" where
  "render_line subs line =
     (let stripped = trim_right_cr line in
      if stripped = [] \<or> prefix ''#'' stripped then stripped
      else case cut_char CHR ''='' stripped of
        None \<Rightarrow> stripped
      | Some (key, _) \<Rightarrow> (case subs key of Some val \<Rightarrow> key @ ''='' @ val | None \<Rightarrow> stripped))"

definition write_lines :: "string list \<Rightarrow> string" where
  "write_lines lines = concat (map (\<lambda>l. l @ [CHR 0x0A]) lines)"

definition render_template :: "(string \<rightharpoonup> string) \<Rightarrow> string \<Rightarrow> string" where
  "render_template subs template =
     (let result = write_lines (map (render_line subs) (template_lines template)) in
      if result = [] \<or> last result \<noteq> CHR 0x0A then result @ [CHR 0x0A] else result)"

datatype 'e render_failure = RenderWorkspace workspace_error | RenderPassword 'e

definition render_password :: "(nat \<Rightarrow> 'e + string) \<Rightarrow> env_input \<Rightarrow> 'e + string" where
  "render_password gen i =
     (if ei_password_override i = [] \<and> ei_generate_password i then gen 32
      else Inr (ei_password_override i))"

definition render_env :: "(nat \<Rightarrow> 'e + string) \<Rightarrow> string \<Rightarrow> env_input \<Rightarrow> 'e render_failure + string" where
  "render_env gen template i =
     (case validate_workspace (ei_workspace i) of
        Some e \<Rightarrow> Inl (RenderWorkspace e)
      | None \<Rightarrow>
          (case render_password gen i of
             Inl e \<Rightarrow> Inl (RenderPassword e)
           | Inr password \<Rightarrow> Inr (render_template (substitutions i password) template)))"

section \<open>Writing\<close>

definition env_tmp :: "string \<Rightarrow> string" where
  "env_tmp path = path @ ''.tmp''"

definition write_env :: "'w fs \<Rightarrow> string \<Rightarrow> string \<Rightarrow> 'w isys \<Rightarrow> bool \<times> 'w isys" where
  "write_env fs path data s =
     (case fs_ok fs (FsMkdirAll (path_dir path) 0x1C0) s of
        (False, s1) \<Rightarrow> (False, s1)
      | (True, s1) \<Rightarrow>
          (case fs_ok fs (FsWriteFile (env_tmp path) data 0x180) s1 of
             (False, s2) \<Rightarrow> (False, s2)
           | (True, s2) \<Rightarrow>
               (case fs_ok fs (FsRename (env_tmp path) path) s2 of
                  (True, s3) \<Rightarrow> (True, s3)
                | (False, s3) \<Rightarrow> (False, snd (fs_ok fs (FsRemove (env_tmp path)) s3)))))"

text \<open>
  The only operation on the target is the rename of a temporary file that was written
  completely.
\<close>

definition env_write_events :: "string \<Rightarrow> string \<Rightarrow> bool \<Rightarrow> install_event list \<Rightarrow> bool" where
  "env_write_events path data ok es \<longleftrightarrow>
     (let mk = FsEvent (FsMkdirAll (path_dir path) 0x1C0);
          wr = FsEvent (FsWriteFile (env_tmp path) data 0x180);
          mv = FsEvent (FsRename (env_tmp path) path);
          rm = FsEvent (FsRemove (env_tmp path))
      in if ok then es = [mk True, wr True, mv True]
         else es = [mk False] \<or> es = [mk True, wr False] \<or>
              (\<exists>gone. es = [mk True, wr True, mv False, rm gone]))"

lemma write_env_grew:
  assumes "write_env fs path data s = (ok, s')"
  shows "\<exists>es. grew s s' es \<and> env_write_events path data ok es"
proof -
  obtain b1 s1 where 1: "fs_ok fs (FsMkdirAll (path_dir path) 0x1C0) s = (b1, s1)" by fastforce
  obtain b2 s2 where 2: "fs_ok fs (FsWriteFile (env_tmp path) data 0x180) s1 = (b2, s2)" by fastforce
  obtain b3 s3 where 3: "fs_ok fs (FsRename (env_tmp path) path) s2 = (b3, s3)" by fastforce
  obtain b4 s4 where 4: "fs_ok fs (FsRemove (env_tmp path)) s3 = (b4, s4)" by fastforce
  note g1 = fs_ok_grew [OF 1] and g2 = fs_ok_grew [OF 2] and g3 = fs_ok_grew [OF 3] and g4 = fs_ok_grew [OF 4]
  note g12 = grew_trans [OF g1 g2]
  note g123 = grew_trans [OF g12 g3]
  note g1234 = grew_trans [OF g123 g4]
  show ?thesis
    using assms 1 2 3 4 g1 g12 g123 g1234
    by (cases b1; cases b2; cases b3) (auto simp: write_env_def env_write_events_def Let_def)
qed


section \<open>The lines of a rendered file\<close>

abbreviation newline :: char where "newline \<equiv> CHR 0x0A"

definition line_safe :: "string \<Rightarrow> bool" where
  "line_safe v \<longleftrightarrow> newline \<notin> set v \<and> CHR 0x0D \<notin> set v"

lemma line_safe_append [simp]: "line_safe (a @ b) \<longleftrightarrow> line_safe a \<and> line_safe b"
  by (auto simp: line_safe_def)

lemma split_char_append_sep: "split_char sep (a @ sep # b) = split_char sep a @ split_char sep b"
proof (induction a)
  case (Cons c a)
  then show ?case by (cases "c = sep") (auto split: list.splits)
qed simp

lemma split_char_single: "sep \<notin> set l \<Longrightarrow> split_char sep l = [l]"
  by (induction l) auto

lemma split_write_lines:
  "split_char newline (write_lines ls) = concat (map (split_char newline) ls) @ [[]]"
  by (induction ls) (auto simp: write_lines_def split_char_append_sep)

lemma split_write_safe_lines:
  assumes "\<And>l. l \<in> set ls \<Longrightarrow> newline \<notin> set l"
  shows "split_char newline (write_lines ls) = ls @ [[]]"
proof -
  have "concat (map (split_char newline) ls) = ls"
    using assms by (induction ls) (simp_all add: split_char_single)
  then show ?thesis by (simp add: split_write_lines)
qed

lemma write_lines_simps [simp]:
  "write_lines [] = []" "write_lines (l # ls) = l @ newline # write_lines ls"
  by (simp_all add: write_lines_def)

lemma write_lines_last: "ls \<noteq> [] \<Longrightarrow> write_lines ls \<noteq> [] \<and> last (write_lines ls) = newline"
proof (induction ls)
  case (Cons l ls)
  then show ?case by (cases ls) auto
qed simp

lemma render_template_lines:
  "render_template subs t =
     (if template_lines t = [] then [newline] else write_lines (map (render_line subs) (template_lines t)))"
  using write_lines_last [of "map (render_line subs) (template_lines t)"]
  by (simp add: render_template_def Let_def)

lemma template_lines_safe: "l \<in> set (template_lines t) \<Longrightarrow> newline \<notin> set l"
  by (auto simp: template_lines_def Let_def split: if_splits dest: in_set_butlastD split_char_no_sep)

lemma template_lines_split:
  "split_char newline t = template_lines t \<or> split_char newline t = template_lines t @ [[]]"
  using append_butlast_last_id [OF split_char_nonempty [of newline t]]
  by (simp add: template_lines_def Let_def del: append_butlast_last_id) metis

lemma trim_right_cr_idem [simp]: "trim_right_cr (trim_right_cr l) = trim_right_cr l"
  by (simp add: trim_right_cr_def)

lemma trim_right_cr_safe: "CHR 0x0D \<notin> set (drop (length l - 1) l) \<Longrightarrow> trim_right_cr l = l"
  by (cases l rule: rev_cases) (auto simp: trim_right_cr_def)

lemma set_trim_right_cr: "set (trim_right_cr l) \<subseteq> set l"
  by (auto simp: trim_right_cr_def dest: set_dropWhileD)

text \<open>What a reader of the file sees: the first binding of a key on an uncommented line.\<close>

definition env_binding :: "string \<Rightarrow> (string \<times> string) option" where
  "env_binding line =
     (let s = trim_right_cr line in
      if s = [] \<or> prefix ''#'' s then None else cut_char CHR ''='' s)"

fun env_find :: "string \<Rightarrow> string list \<Rightarrow> string option" where
  "env_find k [] = None"
| "env_find k (l # ls) =
     (case env_binding l of
        Some (k', v) \<Rightarrow> if k' = k then Some v else env_find k ls
      | None \<Rightarrow> env_find k ls)"

definition env_value :: "string \<Rightarrow> string \<Rightarrow> string option" where
  "env_value k t = env_find k (split_char newline t)"

lemma env_find_append_empty [simp]: "env_find k (ls @ [[]]) = env_find k ls"
proof (induction ls)
  case Nil
  show ?case by (simp add: env_binding_def trim_right_cr_def)
qed (auto split: option.splits)

lemma env_value_template: "env_value k t = env_find k (template_lines t)"
  using template_lines_split [of t] by (auto simp: env_value_def)

lemma render_line_unbound:
  "env_binding l = None \<Longrightarrow> render_line subs l = trim_right_cr l"
  by (auto simp: env_binding_def render_line_def Let_def split: if_splits option.splits)

lemma render_line_bound:
  "env_binding l = Some (k, v) \<Longrightarrow>
   render_line subs l = (case subs k of Some w \<Rightarrow> k @ ''='' @ w | None \<Rightarrow> k @ ''='' @ v)"
  by (auto simp: env_binding_def render_line_def Let_def split: if_splits option.splits
      dest!: cut_char_SomeD)

lemma env_binding_trim [simp]: "env_binding (trim_right_cr l) = env_binding l"
  by (simp add: env_binding_def)

lemma env_binding_SomeD:
  "env_binding l = Some (k, v) \<Longrightarrow> trim_right_cr l = k @ ''='' @ v \<and> CHR ''='' \<notin> set k \<and> \<not> prefix ''#'' k"
  by (auto simp: env_binding_def Let_def prefix_def split: if_splits dest!: cut_char_SomeD)

lemma env_binding_of:
  assumes "CHR ''='' \<notin> set k" "\<not> prefix ''#'' k" "line_safe v"
  shows "env_binding (k @ ''='' @ v) = Some (k, v)"
proof -
  have "CHR 0x0D \<notin> set (drop (length (k @ ''='' @ v) - 1) (k @ ''='' @ v))"
    using assms(3) by (cases v rule: rev_cases) (auto simp: line_safe_def)
  then have "trim_right_cr (k @ ''='' @ v) = k @ ''='' @ v" by (rule trim_right_cr_safe)
  moreover have "\<not> prefix ''#'' (k @ ''='' @ v)"
    using assms(2) by (cases k) auto
  ultimately show ?thesis
    using assms(1) cut_char_append [of "CHR ''=''" k v] by (simp add: env_binding_def)
qed

lemma env_binding_rendered:
  assumes safe: "\<And>k v. subs k = Some v \<Longrightarrow> line_safe v"
  shows "env_binding (render_line subs l) =
    map_option (\<lambda>(k, v). (k, case subs k of Some w \<Rightarrow> w | None \<Rightarrow> v)) (env_binding l)"
proof (cases "env_binding l")
  case None
  then show ?thesis by (simp add: render_line_unbound)
next
  case (Some kv)
  then obtain k v where kv: "env_binding l = Some (k, v)" by (cases kv) auto
  note line = env_binding_SomeD [OF kv]
  show ?thesis
  proof (cases "subs k")
    case None
    have "env_binding (trim_right_cr l) = Some (k, v)" using kv by simp
    with line None kv show ?thesis by (simp add: render_line_bound)
  next
    case (Some w)
    with line kv env_binding_of [of k w] safe [OF Some] show ?thesis by (simp add: render_line_bound)
  qed
qed

lemma env_find_rendered:
  assumes "\<And>k v. subs k = Some v \<Longrightarrow> line_safe v"
  shows "env_find k (map (render_line subs) ls) =
    map_option (\<lambda>v. case subs k of Some w \<Rightarrow> w | None \<Rightarrow> v) (env_find k ls)"
  by (induction ls) (auto simp: env_binding_rendered [OF assms] split: option.splits)

lemma render_line_safe:
  assumes "\<And>k v. subs k = Some v \<Longrightarrow> line_safe v" and "newline \<notin> set l"
  shows "newline \<notin> set (render_line subs l)"
proof (cases "env_binding l")
  case None
  then show ?thesis using assms(2) set_trim_right_cr [of l] by (auto simp: render_line_unbound)
next
  case (Some kv)
  then obtain k v where kv: "env_binding l = Some (k, v)" by (cases kv) auto
  from env_binding_SomeD [OF kv] assms(2) set_trim_right_cr [of l]
  have "newline \<notin> set k" "newline \<notin> set v" by auto
  with kv assms(1) [of k] show ?thesis
    by (auto simp: render_line_bound line_safe_def split: option.splits)
qed

lemma render_line_idem:
  assumes "\<And>k v. subs k = Some v \<Longrightarrow> line_safe v"
  shows "render_line subs (render_line subs l) = render_line subs l"
proof (cases "env_binding l")
  case None
  with env_binding_rendered [of subs l, OF assms] show ?thesis by (simp add: render_line_unbound)
next
  case (Some kv)
  then obtain k v where kv: "env_binding l = Some (k, v)" by (cases kv) auto
  with env_binding_rendered [of subs l, OF assms]
  have "env_binding (render_line subs l) = Some (k, case subs k of Some w \<Rightarrow> w | None \<Rightarrow> v)" by simp
  from render_line_bound [OF this] render_line_bound [OF kv] show ?thesis
    by (simp split: option.splits)
qed

lemma template_lines_rendered:
  assumes "\<And>k v. subs k = Some v \<Longrightarrow> line_safe v"
  shows "template_lines (render_template subs t) =
    (if template_lines t = [] then [[]] else map (render_line subs) (template_lines t))"
proof -
  have "split_char newline (write_lines (map (render_line subs) (template_lines t))) =
    map (render_line subs) (template_lines t) @ [[]]"
    using render_line_safe [OF assms] template_lines_safe by (intro split_write_safe_lines) auto
  then show ?thesis
    by (simp add: render_template_lines template_lines_def [of "write_lines _"]
        template_lines_def [of "[newline]"] Let_def)
qed

lemma env_value_rendered:
  assumes "\<And>k v. subs k = Some v \<Longrightarrow> line_safe v"
  shows "env_value k (render_template subs t) =
    map_option (\<lambda>v. case subs k of Some w \<Rightarrow> w | None \<Rightarrow> v) (env_value k t)"
  using env_find_append_empty [of k "[]"]
  by (simp add: env_value_template template_lines_rendered [OF assms] env_find_rendered [OF assms])

lemma render_template_idem:
  assumes "\<And>k v. subs k = Some v \<Longrightarrow> line_safe v"
  shows "render_template subs (render_template subs t) = render_template subs t"
proof -
  have "render_line subs [] = []" by (simp add: render_line_def trim_right_cr_def)
  moreover have "render_line subs \<circ> render_line subs = render_line subs"
    using render_line_idem [OF assms] by (simp add: fun_eq_iff)
  ultimately show ?thesis
    by (simp only: render_template_lines [of subs "render_template subs t"] template_lines_rendered [OF assms])
       (simp add: render_template_lines [of subs t])
qed

section \<open>The substituted values\<close>

definition contract_safe :: "ami_contract \<Rightarrow> bool" where
  "contract_safe c \<longleftrightarrow>
     line_safe (ami_host c) \<and> line_safe (ami_username c) \<and> line_safe (ami_password c) \<and>
     line_safe (ami_config_dir c)"

lemma digit_line_safe: "list_all is_digit ds \<Longrightarrow> line_safe ds"
  by (auto simp: line_safe_def list_all_iff is_digit_def)

lemma itoa_safe [simp]: "line_safe (itoa i)"
  using digit_line_safe [OF dec_of_nat_digits] by (auto simp: itoa_def line_safe_def)

lemma map_of_safe: "\<forall>v \<in> set (map snd kvs). line_safe v \<Longrightarrow> map_of kvs k = Some v \<Longrightarrow> line_safe v"
  by (metis image_eqI list.set_map map_of_SomeD snd_conv)

lemma line_safe_eval: "line_safe v \<longleftrightarrow> list_all (\<lambda>c. c \<noteq> newline \<and> c \<noteq> CHR 0x0D) v"
  by (auto simp: line_safe_def list_all_iff)

lemma image_tags_safe: "\<forall>v \<in> set (map snd (image_tags a)). line_safe v"
  by (cases a) (simp_all add: image_tags_def line_safe_eval Let_def)

lemma asterisk_values_safe:
  "contract_safe c \<Longrightarrow> \<forall>v \<in> set (map snd (asterisk_env_values c)). line_safe v"
  by (simp add: asterisk_env_values_def contract_safe_def normalize_contract_def default_ami_host_def
      default_config_root_def bool_text_def Let_def)
     (simp add: line_safe_eval)

lemma port_values_safe: "\<forall>v \<in> set (map snd (port_values p)). line_safe v"
  by (simp add: port_values_def)

lemma valid_workspace_safe: "validate_workspace ws = None \<Longrightarrow> line_safe ws"
  by (auto simp: validate_workspace_def Let_def contains_any_of_def line_safe_def list_ex_iff split: if_splits)

lemma substitutions_safe:
  assumes "validate_workspace (ei_workspace i) = None" "line_safe pw" "contract_safe (ei_asterisk i)"
    and "substitutions i pw k = Some v"
  shows "line_safe v"
  using assms(4) map_of_safe [OF image_tags_safe] map_of_safe [OF port_values_safe]
    map_of_safe [OF asterisk_values_safe [OF assms(3)]] assms(2) valid_workspace_safe [OF assms(1)]
  by (auto simp: substitutions_def map_add_Some_iff split: if_splits)

lemma render_Inr:
  "render_env gen t i = Inr text_out \<Longrightarrow>
   \<exists>pw. validate_workspace (ei_workspace i) = None \<and> render_password gen i = Inr pw \<and>
        text_out = render_template (substitutions i pw) t"
  by (auto simp: render_env_def split: option.splits sum.splits)

section \<open>Generated passwords\<close>

lemma line_safe_Cons: "line_safe (c # cs) \<longleftrightarrow> c \<noteq> newline \<and> c \<noteq> CHR 0x0D \<and> line_safe cs"
  by (auto simp: line_safe_def)

lemma line_safe_Nil [simp]: "line_safe []"
  by (simp add: line_safe_def)

lemma line_safe_digit [simp]: "n < 64 \<Longrightarrow> line_safe (base64_digit n # cs) \<longleftrightarrow> line_safe cs"
proof -
  have "\<forall>n \<in> set [0..<64]. base64_digit n \<noteq> newline \<and> base64_digit n \<noteq> CHR 0x0D" by code_simp
  then show "n < 64 \<Longrightarrow> ?thesis" by (simp add: line_safe_Cons)
qed

lemma of_char_less: "(of_char c :: nat) < 256"
  by simp

lemma base64_safe: "line_safe (base64 b)"
proof (induction b rule: base64.induct)
  case (1 a b c rest)
  have "(of_char a * 65536 + of_char b * 256 + of_char c :: nat) div 262144 < 64"
    using of_char_less [of a] of_char_less [of b] of_char_less [of c] by linarith
  then show ?case using 1 by (simp add: Let_def)
next
  case (2 a b)
  have "(of_char a * 65536 + of_char b * 256 :: nat) div 262144 < 64"
    using of_char_less [of a] of_char_less [of b] by linarith
  then show ?case by (simp add: Let_def line_safe_Cons [of "CHR ''=''"])
next
  case (3 a)
  have "(of_char a * 65536 :: nat) div 262144 < 64" using of_char_less [of a] by linarith
  then show ?case by (simp add: Let_def line_safe_Cons [of "CHR ''=''"])
qed simp

lemma base64_padding: "length b mod 3 \<noteq> 0 \<Longrightarrow> CHR ''='' \<in> set (base64 b)"
  by (induction b rule: base64.induct) (auto simp: Let_def mod_Suc split: if_splits)

end
