(* ===== verification/Preflight.thy ===== *)
theory Preflight
  imports Ports EnvGen Compose "HOL-Library.List_Lexorder" "HOL-Library.Char_ord"
begin

text \<open>
  \<open>internal/preflight\<close> with the Docker client (\<open>internal/docker/client.go\<close>), the
  privileged Docker runner (\<open>internal/platform/command.go\<close>) and the GPU detector
  (\<open>internal/platform/gpu.go\<close>).  The JSON decoders are parameters.
\<close>

section \<open>The report\<close>

datatype check_status = StatusPass | StatusWarn | StatusFail

datatype check_id =
    CheckOS | CheckArch | CheckDockerDaemon | CheckDockerVersion | CheckComposeVersion | CheckGPU
  | CheckMediaWritable | CheckConfigWritable | CheckWorkspaceWritable | CheckPortsAvailable

fun check_id_string :: "check_id \<Rightarrow> string" where
  "check_id_string CheckOS = ''os''"
| "check_id_string CheckArch = ''arch''"
| "check_id_string CheckDockerDaemon = ''docker_daemon''"
| "check_id_string CheckDockerVersion = ''docker_version''"
| "check_id_string CheckComposeVersion = ''compose_version''"
| "check_id_string CheckGPU = ''gpu''"
| "check_id_string CheckMediaWritable = ''media_writable''"
| "check_id_string CheckConfigWritable = ''config_writable''"
| "check_id_string CheckWorkspaceWritable = ''workspace_writable''"
| "check_id_string CheckPortsAvailable = ''ports_available''"

record check_result =
  cr_id :: check_id
  cr_status :: check_status
  cr_title :: string
  cr_detail :: string
  cr_remediation :: string

type_synonym report = "check_result list"

definition has_blocking_failure :: "report \<Rightarrow> bool" where
  "has_blocking_failure r \<longleftrightarrow> list_ex (\<lambda>item. cr_status item = StatusFail) r"

definition can_continue :: "report \<Rightarrow> bool" where
  "can_continue r \<longleftrightarrow> \<not> has_blocking_failure r"

definition filter_by_status :: "report \<Rightarrow> check_status \<Rightarrow> report" where
  "filter_by_status items st = filter (\<lambda>item. cr_status item = st) items"

definition report_warnings :: "report \<Rightarrow> report" where
  "report_warnings r = filter_by_status r StatusWarn"

definition report_failures :: "report \<Rightarrow> report" where
  "report_failures r = filter_by_status r StatusFail"

definition report_passes :: "report \<Rightarrow> report" where
  "report_passes r = filter_by_status r StatusPass"

section \<open>The privileged Docker runner\<close>

definition err_non_docker_command :: cmd_error where
  "err_non_docker_command = plain_error ''sudo docker runner rejected non-docker command''"

definition sudo_docker_runner :: "'w runner \<Rightarrow> 'w runner" where
  "sudo_docker_runner f name args c now w =
     (if name \<noteq> ''docker'' then (\<lparr>out = [], err_out = [], cmd_err = Some err_non_docker_command\<rparr>, 0, w)
      else f ''sudo'' ([''-n'', ''docker''] @ args) c now w)"

definition sudo_docker_streamer :: "'w streamer \<Rightarrow> 'w streamer" where
  "sudo_docker_streamer f name args c now w =
     (if name \<noteq> ''docker'' then (\<lparr>stream_lines = [], stream_err = Some err_non_docker_command\<rparr>, 0, w)
      else f ''sudo'' ([''-n'', ''docker''] @ args) c now w)"

section \<open>The Docker client\<close>

record docker_version =
  dv_client :: string
  dv_server :: string

record docker_info =
  di_server_version :: string
  di_architecture :: string
  di_operating_system :: string
  di_runtimes :: "string list"

text \<open>
  The responses: of \<open>docker version\<close> the client version and those of the server's
  components, of \<open>docker info\<close> the fields with the keys of the runtimes map.
\<close>

record docker_json =
  decode_version :: "string \<Rightarrow> string + (string \<times> string list)"
  decode_info :: "string \<Rightarrow> string + docker_info"

definition json_format :: "string list" where
  "json_format = [''--format'', ''{{json .}}'']"

definition docker_probe :: "'w runner \<Rightarrow> ('w, string option) ieff" where
  "docker_probe f c s =
     (case invoke f ''docker'' (''info'' # json_format) c s of
        (r, s1) \<Rightarrow> (map_option (\<lambda>e. ''docker daemon unreachable: '' @ err_text e) (cmd_err r), s1))"

definition docker_version_cmd :: "docker_json \<Rightarrow> 'w runner \<Rightarrow> ('w, string + docker_version) ieff" where
  "docker_version_cmd j f c s =
     (case invoke f ''docker'' (''version'' # json_format) c s of
        (r, s1) \<Rightarrow>
          (case cmd_err r of
             Some e \<Rightarrow> (Inl (''docker version failed: '' @ err_text e), s1)
           | None \<Rightarrow>
               (case decode_version j (out r) of
                  Inl e \<Rightarrow> (Inl (''docker version parse error: '' @ e), s1)
                | Inr (client, components) \<Rightarrow>
                    (Inr \<lparr>dv_client = client,
                          dv_server = (case components of [] \<Rightarrow> [] | v # _ \<Rightarrow> v)\<rparr>, s1))))"

definition fetch_info :: "docker_json \<Rightarrow> 'w runner \<Rightarrow> ('w, string + docker_info) ieff" where
  "fetch_info j f c s =
     (case invoke f ''docker'' (''info'' # json_format) c s of
        (r, s1) \<Rightarrow>
          (case cmd_err r of
             Some e \<Rightarrow> (Inl (''docker info failed: '' @ err_text e), s1)
           | None \<Rightarrow>
               (case decode_info j (out r) of
                  Inl e \<Rightarrow> (Inl (''docker info parse error: '' @ e), s1)
                | Inr i \<Rightarrow> (Inr i, s1))))"

definition info_from_response :: "docker_info \<Rightarrow> docker_info" where
  "info_from_response i = i\<lparr>di_runtimes := sort (di_runtimes i)\<rparr>"

definition docker_info_cmd :: "docker_json \<Rightarrow> 'w runner \<Rightarrow> ('w, string + docker_info) ieff" where
  "docker_info_cmd j f c s =
     (case fetch_info j f c s of (r, s1) \<Rightarrow> (map_sum id info_from_response r, s1))"

definition has_runtime :: "docker_json \<Rightarrow> 'w runner \<Rightarrow> string \<Rightarrow> ('w, string + bool) ieff" where
  "has_runtime j f name c s =
     (case fetch_info j f c s of (r, s1) \<Rightarrow> (map_sum id (\<lambda>i. name \<in> set (di_runtimes i)) r, s1))"

section \<open>The GPU detector\<close>

record gpu_info =
  toolkit_installed :: bool
  runtime_available :: bool
  gpu_reason :: string

definition gpu_absent :: "string \<Rightarrow> gpu_info" where
  "gpu_absent reason = \<lparr>toolkit_installed = False, runtime_available = False, gpu_reason = reason\<rparr>"

definition gpu_detect :: "docker_json \<Rightarrow> 'w runner \<Rightarrow> ('w, gpu_info) ieff" where
  "gpu_detect j f c s =
     (case invoke f ''docker'' (''info'' # json_format) c s of
        (r, s1) \<Rightarrow>
          (case cmd_err r of
             Some e \<Rightarrow> (gpu_absent (''docker info failed: '' @ err_text e), s1)
           | None \<Rightarrow>
               (case decode_info j (out r) of
                  Inl e \<Rightarrow> (gpu_absent (''could not parse docker info output: '' @ e), s1)
                | Inr i \<Rightarrow>
                    if ''nvidia'' \<in> set (di_runtimes i)
                    then (\<lparr>toolkit_installed = True, runtime_available = True, gpu_reason = []\<rparr>, s1)
                    else (gpu_absent ''nvidia runtime not found in docker runtimes; install nvidia-container-toolkit and restart docker'', s1))))"

section \<open>Versions\<close>

fun cut_at :: "(char \<Rightarrow> bool) \<Rightarrow> string \<Rightarrow> string" where
  "cut_at p [] = []"
| "cut_at p (c # cs) = (if p c then [] else c # cut_at p cs)"

definition parse_semver :: "string \<Rightarrow> int \<times> int \<times> int" where
  "parse_semver v =
     (let v1 = cut_at (\<lambda>c. c = CHR ''-'' \<or> c = CHR ''+'') (trim_prefix ''v'' v);
          parts = splitn_char CHR ''.'' 3 v1;
          n = (\<lambda>i. if i < length parts then fst (atoi (parts ! i)) else 0)
      in (n 0, n 1, n 2))"

definition semver_gte :: "string \<Rightarrow> string \<Rightarrow> bool" where
  "semver_gte a b =
     (case (parse_semver a, parse_semver b) of
        ((a0, a1, a2), (b0, b1, b2)) \<Rightarrow>
          if a0 > b0 then True else if a0 < b0 then False
          else if a1 > b1 then True else if a1 < b1 then False
          else if a2 > b2 then True else if a2 < b2 then False
          else True)"

definition min_version :: "string \<Rightarrow> string \<Rightarrow> string" where
  "min_version a b = (if semver_gte b a then a else b)"

section \<open>Directories\<close>

definition probe_path :: "string \<Rightarrow> string" where
  "probe_path dir = path_join [dir, ''.alice_probe'']"

definition probe_dir :: "'w fs \<Rightarrow> string \<Rightarrow> 'w isys \<Rightarrow> (bool \<times> string) \<times> 'w isys" where
  "probe_dir fs dir s =
     (case fs_call fs (FsWriteFile (probe_path dir) [] 0x180) s of
        (r, s1) \<Rightarrow>
          (case fs_error r of
             Some e \<Rightarrow> ((False, ''cannot write to '' @ dir @ '': '' @ e), s1)
           | None \<Rightarrow> ((True, []), snd (fs_ok fs (FsRemove (probe_path dir)) s1))))"

definition stat_dir :: "fs_reply \<Rightarrow> bool" where
  "stat_dir r = (case r of FsInfo i \<Rightarrow> fi_dir i | _ \<Rightarrow> False)"

definition is_writable :: "'w fs \<Rightarrow> string \<Rightarrow> 'w isys \<Rightarrow> (bool \<times> string) \<times> 'w isys" where
  "is_writable fs path s =
     (case fs_call fs (FsStat path) s of
        (r, s1) \<Rightarrow>
          (case fs_error r of
             None \<Rightarrow>
               if \<not> stat_dir r then ((False, path @ '' exists but is not a directory''), s1)
               else probe_dir fs path s1
           | Some _ \<Rightarrow>
               let parent = path_dir path in
               (case fs_call fs (FsStat parent) s1 of
                  (r2, s2) \<Rightarrow>
                    (case fs_error r2 of
                       Some e \<Rightarrow> ((False, ''parent directory '' @ parent @ '' does not exist: '' @ e), s2)
                     | None \<Rightarrow>
                         if \<not> stat_dir r2 then ((False, ''parent '' @ parent @ '' is not a directory''), s2)
                         else probe_dir fs parent s2))))"

section \<open>The coordinator\<close>

record 'w preflight =
  pf_goos :: string
  pf_arch :: arch
  pf_docker_probe :: "('w, string option) ieff"
  pf_docker_version :: "('w, string + docker_version) ieff"
  pf_compose_version :: "('w, string + compose_version) ieff"
  pf_gpu :: "('w, gpu_info) ieff"
  pf_ports :: "'w port_scanner"
  pf_writable :: "string \<Rightarrow> 'w isys \<Rightarrow> (bool \<times> string) \<times> 'w isys"
  pf_media_dir :: string
  pf_config_dir :: string
  pf_workspace_dir :: string
  pf_tcp_ports :: "int list"
  pf_udp_ports :: "int list"
  pf_exempt_tcp :: "int list"
  pf_exempt_udp :: "int list"
  pf_min_docker :: string
  pf_min_compose :: string

definition check :: "check_id \<Rightarrow> check_status \<Rightarrow> string \<Rightarrow> string \<Rightarrow> string \<Rightarrow> check_result" where
  "check i st title detail remediation =
     \<lparr>cr_id = i, cr_status = st, cr_title = title, cr_detail = detail, cr_remediation = remediation\<rparr>"

definition check_os :: "'w preflight \<Rightarrow> check_result" where
  "check_os p =
     (if pf_goos p = ''linux'' then check CheckOS StatusPass ''Operating system'' ''Linux'' []
      else check CheckOS StatusFail ''Unsupported OS'' (''detected: '' @ pf_goos p)
             ''Run the installer on Linux (amd64 or arm64).'')"

definition check_arch :: "'w preflight \<Rightarrow> check_result" where
  "check_arch p =
     (case pf_arch p of
        ArchUnknown \<Rightarrow> check CheckArch StatusFail ''Unsupported architecture''
          (''detected: '' @ arch_string (pf_arch p)) ''Run the installer on amd64 or arm64.''
      | _ \<Rightarrow> check CheckArch StatusPass ''CPU architecture'' (arch_string (pf_arch p)) [])"

definition check_docker_daemon :: "'w preflight \<Rightarrow> ('w, check_result) ieff" where
  "check_docker_daemon p c s =
     (case pf_docker_probe p c s of
        (Some e, s1) \<Rightarrow> (check CheckDockerDaemon StatusFail ''Docker daemon unreachable'' e
          ''Start Docker (`sudo systemctl start docker`) and verify sudo authorization with `sudo -v`.'', s1)
      | (None, s1) \<Rightarrow> (check CheckDockerDaemon StatusPass ''Docker daemon'' ''reachable'' [], s1))"

definition check_docker_version :: "'w preflight \<Rightarrow> ('w, check_result) ieff" where
  "check_docker_version p c s =
     (case pf_docker_version p c s of
        (Inl e, s1) \<Rightarrow> (check CheckDockerVersion StatusWarn ''Docker version''
          (''could not determine version: '' @ e) [], s1)
      | (Inr ver, s1) \<Rightarrow>
          let effective = min_version (dv_client ver) (dv_server ver) in
          if \<not> semver_gte effective (pf_min_docker p)
          then (check CheckDockerVersion StatusWarn ''Docker version older than recommended''
                  (''effective version '' @ effective @ '' < required '' @ pf_min_docker p)
                  (''Upgrade Docker to '' @ pf_min_docker p
                   @ '' or later: https://docs.docker.com/engine/install/''), s1)
          else (check CheckDockerVersion StatusPass ''Docker version''
                  (''client '' @ dv_client ver @ '' / server '' @ dv_server ver) [], s1))"

definition compose_remediation :: string where
  "compose_remediation =
     ''Install the Docker Compose v2 plugin: https://docs.docker.com/compose/install/''"

definition check_compose_version :: "'w preflight \<Rightarrow> ('w, check_result) ieff" where
  "check_compose_version p c s =
     (case pf_compose_version p c s of
        (Inl e, s1) \<Rightarrow> (check CheckComposeVersion StatusFail ''Compose v2 plugin required''
          (''could not determine compose version: '' @ e) compose_remediation, s1)
      | (Inr ver, s1) \<Rightarrow>
          if \<not> v2_plugin ver \<or> \<not> semver_gte (version_raw ver) (pf_min_compose p)
          then (check CheckComposeVersion StatusFail ''Compose v2 plugin required''
                  (''version '' @ version_raw ver @ '', v2Plugin='' @ bool_text (v2_plugin ver))
                  compose_remediation, s1)
          else (check CheckComposeVersion StatusPass ''Docker Compose version'' (version_raw ver) [], s1))"

definition check_gpu :: "'w preflight \<Rightarrow> ('w, check_result) ieff" where
  "check_gpu p c s =
     (case pf_gpu p c s of
        (i, s1) \<Rightarrow>
          if toolkit_installed i \<and> runtime_available i
          then (check CheckGPU StatusPass ''NVIDIA Container Toolkit'' ''detected'' [], s1)
          else (check CheckGPU StatusWarn ''NVIDIA Container Toolkit not detected''
                  ''backend will run on CPU''
                  ''Install from https://docs.nvidia.com/datacenter/cloud-native/container-toolkit/install-guide.html'', s1))"

definition check_dir :: "'w preflight \<Rightarrow> check_id \<Rightarrow> string \<Rightarrow> 'w isys \<Rightarrow> check_result \<times> 'w isys" where
  "check_dir p i path s =
     (let title = ''Directory writable: '' @ path in
      case pf_writable p path s of
        ((True, _), s1) \<Rightarrow> (check i StatusPass title ''writable'' [], s1)
      | ((False, reason), s1) \<Rightarrow>
          (check i StatusFail title reason
             (''Run: sudo mkdir -p '' @ path @ '' && sudo chown $USER '' @ path), s1))"

text \<open>One of the two loops of \<open>checkPorts\<close>: the labels of the occupied ports.\<close>

fun occupied_ports ::
  "(int \<Rightarrow> ('w, bool) ieff) \<Rightarrow> string \<Rightarrow> int list \<Rightarrow> int list \<Rightarrow> ctx \<Rightarrow> 'w isys \<Rightarrow> string list \<times> 'w isys" where
  "occupied_ports free label exempt [] c s = ([], s)"
| "occupied_ports free label exempt (p # ps) c s =
     (if p \<in> set exempt then occupied_ports free label exempt ps c s
      else (case free p c s of
        (b, s1) \<Rightarrow>
          (case occupied_ports free label exempt ps c s1 of
             (os, s2) \<Rightarrow> ((if b then os else (label @ itoa p) # os), s2))))"

definition check_ports :: "'w preflight \<Rightarrow> ('w, check_result) ieff" where
  "check_ports p c s =
     (case occupied_ports (is_available (pf_ports p)) ''TCP '' (pf_exempt_tcp p) (pf_tcp_ports p) c s of
        (tcp, s1) \<Rightarrow>
          (case occupied_ports (is_udp_available (pf_ports p)) ''UDP '' (pf_exempt_udp p) (pf_udp_ports p) c s1 of
             (udp, s2) \<Rightarrow>
               let occupied = tcp @ udp in
               if occupied \<noteq> []
               then (check CheckPortsAvailable StatusWarn ''Port conflicts''
                       (''occupied: '' @ join '', '' occupied)
                       ''The installer will allow you to choose alternate ports for each conflict.'', s2)
               else (check CheckPortsAvailable StatusPass ''Required ports'' ''all available'' [], s2)))"

definition preflight_run :: "'w preflight \<Rightarrow> ('w, report) ieff" where
  "preflight_run p c s =
     (let os_result = check_os p; arch_result = check_arch p in
      if cr_status os_result = StatusFail then ([os_result], s)
      else if cr_status arch_result = StatusFail then ([os_result, arch_result], s)
      else
        (case check_docker_daemon p c s of (daemon, s1) \<Rightarrow>
        (case check_docker_version p c s1 of (version, s2) \<Rightarrow>
        (case check_compose_version p c s2 of (compose, s3) \<Rightarrow>
        (case check_gpu p c s3 of (gpu, s4) \<Rightarrow>
        (case check_dir p CheckMediaWritable (pf_media_dir p) s4 of (media, s5) \<Rightarrow>
        (case check_dir p CheckConfigWritable (pf_config_dir p) s5 of (config, s6) \<Rightarrow>
        (case (if pf_workspace_dir p = [] then ([], s6)
               else (case check_dir p CheckWorkspaceWritable (pf_workspace_dir p) s6 of
                       (ws, s7) \<Rightarrow> ([ws], s7))) of (workspace, s7) \<Rightarrow>
        (case check_ports p c s7 of (port_result, s8) \<Rightarrow>
          ([os_result, arch_result, daemon, version, compose, gpu, media, config] @ workspace
           @ [port_result], s8))))))))))"

section \<open>Production\<close>

text \<open>The environment of the process: what the installer reads of its host.\<close>

record 'w install_env =
  ie_goos :: string
  ie_goarch :: string
  ie_runner :: "'w runner"
  ie_streamer :: "'w streamer"
  ie_fs :: "'w fs"
  ie_listen :: "'w listen"
  ie_json :: docker_json

definition production_preflight ::
  "'w install_env \<Rightarrow> string \<Rightarrow> string \<Rightarrow> string \<Rightarrow> int list \<Rightarrow> int list \<Rightarrow> 'w preflight" where
  "production_preflight e media config workspace tcp udp =
     (let docker = sudo_docker_runner (ie_runner e) in
      \<lparr>pf_goos = ie_goos e, pf_arch = detect_arch (ie_goarch e),
       pf_docker_probe = docker_probe docker, pf_docker_version = docker_version_cmd (ie_json e) docker,
       pf_compose_version = invoking (compose_version_cmd docker), pf_gpu = gpu_detect (ie_json e) docker,
       pf_ports = net_port_scanner (ie_listen e), pf_writable = is_writable (ie_fs e),
       pf_media_dir = media, pf_config_dir = config, pf_workspace_dir = workspace,
       pf_tcp_ports = tcp, pf_udp_ports = udp, pf_exempt_tcp = [], pf_exempt_udp = [],
       pf_min_docker = ''24.0.0'', pf_min_compose = ''2.21.0''\<rparr>)"

end
