(* ===== verification/Bootstrap.thy ===== *)
theory Bootstrap
  imports Preflight
begin

text \<open>
  \<open>internal/bootstrap\<close>: the detection of the host's Docker set-up, the actions that
  remedy a blocked preflight, and the re-execution under the docker group with its shell
  quoting.
\<close>

section \<open>Actions\<close>

record action =
  act_id :: string
  act_description :: string
  act_command :: string
  act_args :: "string list"
  act_banner :: string

definition action_docker_install :: string where "action_docker_install = ''docker_install''"
definition action_systemd_start :: string where "action_systemd_start = ''systemd_start_docker''"
definition action_docker_group :: string where "action_docker_group = ''docker_group_add''"

definition docker_install_action :: action where
  "docker_install_action =
     \<lparr>act_id = action_docker_install, act_description = ''Install Docker engine via get.docker.com'',
      act_command = ''sudo'', act_args = [''sh'', ''-c'', ''curl -fsSL https://get.docker.com | sh''],
      act_banner = []\<rparr>"

definition systemd_start_docker_action :: action where
  "systemd_start_docker_action =
     \<lparr>act_id = action_systemd_start,
      act_description = ''Enable and start Docker daemon (systemctl enable --now docker)'',
      act_command = ''sudo'', act_args = [''systemctl'', ''enable'', ''--now'', ''docker''], act_banner = []\<rparr>"

definition docker_group_add_action :: "string \<Rightarrow> action" where
  "docker_group_add_action username =
     \<lparr>act_id = action_docker_group,
      act_description = ''Add '' @ username @ '' to the '' @ [CHR 0x27] @ ''docker'' @ [CHR 0x27] @ '' group'',
      act_command = ''sudo'', act_args = [''usermod'', ''-aG'', ''docker'', username],
      act_banner = ''Log out and back in (or run `newgrp docker`) for the new group membership to take effect.''\<rparr>"

definition build_dir_action :: "string \<Rightarrow> string \<Rightarrow> string \<Rightarrow> action" where
  "build_dir_action i dir username =
     \<lparr>act_id = i, act_description = ''Create '' @ dir @ '' and grant ownership to '' @ username,
      act_command = ''sudo'',
      act_args = [''sh'', ''-c'',
        ''mkdir -p '' @ dir @ '' && chown -R '' @ username @ '':'' @ username @ '' '' @ dir],
      act_banner = []\<rparr>"

definition build_user_dir_action :: "string \<Rightarrow> string \<Rightarrow> action" where
  "build_user_dir_action i dir =
     \<lparr>act_id = i, act_description = ''Create '' @ dir, act_command = ''mkdir'',
      act_args = [''-p'', dir], act_banner = []\<rparr>"

section \<open>The host\<close>

record bootstrap_env =
  user_name :: string
  docker_binary_present :: bool
  user_in_docker_group :: bool
  systemd_present :: bool

text \<open>
  What the injected functions of \<open>envDetector\<close> return, and the \<open>USER\<close> variable.  The
  current user is the name, the group ids and whether there was no error.
\<close>

record env_detector =
  ed_current_user :: "string \<times> string list \<times> bool"
  ed_user_var :: string
  ed_look_path :: "string \<Rightarrow> bool"
  ed_lookup_group :: "string \<Rightarrow> string option"
  ed_stat :: "string \<Rightarrow> bool"

definition detect_env :: "env_detector \<Rightarrow> bootstrap_env" where
  "detect_env d =
     (case ed_current_user d of
        (username, gids, ok) \<Rightarrow>
          \<lparr>user_name =
             (if ok \<and> username \<noteq> [] then username
              else if ed_user_var d \<noteq> [] then ed_user_var d else ''$USER''),
           docker_binary_present = ed_look_path d ''docker'',
           user_in_docker_group =
             (ok \<and> gids \<noteq> [] \<and>
              (case ed_lookup_group d ''docker'' of
                 None \<Rightarrow> False
               | Some gid \<Rightarrow> gid \<noteq> [] \<and> gid \<in> set gids)),
           systemd_present = (ed_look_path d ''systemctl'' \<and> ed_stat d ''/run/systemd/system'')\<rparr>)"

section \<open>Classification of blockers\<close>

text \<open>The four lists the loop appends to.\<close>

record blockers =
  bl_install :: "action list"
  bl_dirs :: "action list"
  bl_systemd :: "action list"
  bl_non_fixable :: report

definition no_blockers :: blockers where
  "no_blockers = \<lparr>bl_install = [], bl_dirs = [], bl_systemd = [], bl_non_fixable = []\<rparr>"

definition classify_item ::
  "bootstrap_env \<Rightarrow> string \<Rightarrow> string \<Rightarrow> string \<Rightarrow> string \<Rightarrow> blockers \<Rightarrow> check_result \<Rightarrow> blockers" where
  "classify_item env username media config workspace b item =
     (if cr_status item \<noteq> StatusFail then b
      else case cr_id item of
        CheckDockerDaemon \<Rightarrow>
          if \<not> docker_binary_present env then b\<lparr>bl_install := bl_install b @ [docker_install_action]\<rparr>
          else if systemd_present env then b\<lparr>bl_systemd := bl_systemd b @ [systemd_start_docker_action]\<rparr>
          else b\<lparr>bl_non_fixable := bl_non_fixable b @ [item]\<rparr>
      | CheckDockerVersion \<Rightarrow>
          if docker_binary_present env then b\<lparr>bl_non_fixable := bl_non_fixable b @ [item]\<rparr> else b
      | CheckComposeVersion \<Rightarrow>
          if docker_binary_present env then b\<lparr>bl_non_fixable := bl_non_fixable b @ [item]\<rparr> else b
      | CheckMediaWritable \<Rightarrow>
          b\<lparr>bl_dirs := bl_dirs b @ [build_dir_action (check_id_string CheckMediaWritable) media username]\<rparr>
      | CheckConfigWritable \<Rightarrow>
          b\<lparr>bl_dirs := bl_dirs b @ [build_dir_action (check_id_string CheckConfigWritable) config username]\<rparr>
      | CheckWorkspaceWritable \<Rightarrow>
          b\<lparr>bl_dirs := bl_dirs b @ [build_user_dir_action (check_id_string CheckWorkspaceWritable) workspace]\<rparr>
      | _ \<Rightarrow> b\<lparr>bl_non_fixable := bl_non_fixable b @ [item]\<rparr>)"

definition classify_blockers ::
  "report \<Rightarrow> bootstrap_env \<Rightarrow> string \<Rightarrow> string \<Rightarrow> string \<Rightarrow> action list \<times> report" where
  "classify_blockers r env media config workspace =
     (let username = (if user_name env = [] then ''$USER'' else user_name env);
          b = foldl (classify_item env username media config workspace) no_blockers r
      in (bl_install b @ bl_dirs b @ bl_systemd b, bl_non_fixable b))"

section \<open>The stale docker group\<close>

fun docker_group_lines :: "string list \<Rightarrow> string \<Rightarrow> int \<times> bool" where
  "docker_group_lines [] username = (0, False)"
| "docker_group_lines (raw # lines) username =
     (let line = trim_space raw; parts = splitn_char CHR '':'' 4 line in
      if line = [] \<or> length parts \<noteq> 4 \<or> parts ! 0 \<noteq> ''docker'' then docker_group_lines lines username
      else (case atoi_ok (parts ! 2) of
        None \<Rightarrow> docker_group_lines lines username
      | Some gid \<Rightarrow>
          if list_ex (\<lambda>member. trim_space member = username) (split_char CHR '','' (parts ! 3))
          then (gid, True) else (0, False)))"

definition parse_docker_group :: "string \<Rightarrow> string \<Rightarrow> int \<times> bool" where
  "parse_docker_group content username = docker_group_lines (split_char CHR 0x0A content) username"

record stale_group_result =
  sg_stale :: bool
  sg_docker_gid :: int

text \<open>The current user or the text of the error, the group file, and the process's groups.\<close>

record stale_detector =
  sd_current :: "string + string"
  sd_group_file :: "string option"
  sd_getgroups :: "int list option"

definition not_stale :: stale_group_result where
  "not_stale = \<lparr>sg_stale = False, sg_docker_gid = 0\<rparr>"

definition stale_detect :: "stale_detector \<Rightarrow> string + stale_group_result" where
  "stale_detect d =
     (case sd_current d of
        Inl e \<Rightarrow> Inl (''get current user: '' @ e)
      | Inr username \<Rightarrow>
          (case sd_group_file d of
             None \<Rightarrow> Inr not_stale
           | Some raw \<Rightarrow>
               (case parse_docker_group raw username of
                  (gid, False) \<Rightarrow> Inr not_stale
                | (gid, True) \<Rightarrow>
                    (case sd_getgroups d of
                       None \<Rightarrow> Inr not_stale
                     | Some gids \<Rightarrow> Inr \<lparr>sg_stale = (gid \<notin> set gids), sg_docker_gid = gid\<rparr>))))"

section \<open>Shell quoting and re-execution\<close>

definition quote_char :: char where "quote_char = CHR 0x27"

definition shell_quote :: "string \<Rightarrow> string" where
  "shell_quote s =
     [quote_char]
     @ concat (map (\<lambda>c. if c = quote_char then [quote_char, CHR 0x5C, quote_char, quote_char] else [c]) s)
     @ [quote_char]"

text \<open>The arguments \<open>sg\<close> is started with; the error when it is not found.\<close>

definition reexec :: "(string \<Rightarrow> string + string) \<Rightarrow> string list \<Rightarrow> string + (string \<times> string list)" where
  "reexec look_path args =
     (case look_path ''sg'' of
        Inl e \<Rightarrow> Inl (''sg not found: '' @ e)
      | Inr sg_path \<Rightarrow>
          Inr (sg_path, [''sg'', ''docker'', ''-c'', join '' '' (map shell_quote args)]))"

text \<open>
  How a POSIX shell splits a command line into words, as far as blanks, single quotes and
  backslashes go; a line with any other special character, or with an open quotation, is
  not a list of words (\<open>None\<close>).  The word being read is kept reversed, and \<open>None\<close>
  between words.
\<close>

definition shell_special :: "char \<Rightarrow> bool" where
  "shell_special c \<longleftrightarrow> c \<in> set (''|&;<>()$`*?[]#~=%!{}'' @ [CHR 0x22, CHR 0x09, CHR 0x0A])"

fun sh_words :: "bool \<Rightarrow> string option \<Rightarrow> string \<Rightarrow> string list option" where
  "sh_words quoted w [] =
     (if quoted then None else Some (case w of None \<Rightarrow> [] | Some x \<Rightarrow> [rev x]))"
| "sh_words True w (c # cs) =
     (if c = quote_char then sh_words False w cs
      else sh_words True (Some (c # (case w of None \<Rightarrow> [] | Some x \<Rightarrow> x))) cs)"
| "sh_words False w (c # cs) =
     (if c = CHR '' '' then map_option (\<lambda>ws. (case w of None \<Rightarrow> [] | Some x \<Rightarrow> [rev x]) @ ws) (sh_words False None cs)
      else if c = quote_char then sh_words True (Some (case w of None \<Rightarrow> [] | Some x \<Rightarrow> x)) cs
      else if c = CHR 0x5C then
        (case cs of
           [] \<Rightarrow> None
         | d # ds \<Rightarrow> sh_words False (Some (d # (case w of None \<Rightarrow> [] | Some x \<Rightarrow> x))) ds)
      else if shell_special c then None
      else sh_words False (Some (c # (case w of None \<Rightarrow> [] | Some x \<Rightarrow> x))) cs)"

section \<open>Facts about quoting\<close>

lemma sh_words_quoted:
  "sh_words True (Some w) (concat (map (\<lambda>c. if c = quote_char then [quote_char, CHR 0x5C, quote_char, quote_char] else [c]) s) @ quote_char # rest) =
   sh_words False (Some (rev s @ w)) rest"
proof (induction s arbitrary: w)
  case (Cons c s)
  then show ?case by (cases "c = quote_char") (auto simp: quote_char_def)
qed simp

lemma sh_words_shell_quote: "sh_words False None (shell_quote s @ rest) = sh_words False (Some (rev s)) rest"
  using sh_words_quoted [of "[]" s rest] by (simp add: shell_quote_def quote_char_def)

lemma sh_words_join: "sh_words False None (join '' '' (map shell_quote words)) = Some words"
proof (induction words)
  case (Cons a words)
  show ?case
  proof (cases words)
    case Nil
    then show ?thesis using sh_words_shell_quote [of a "[]"] by simp
  next
    case (Cons b bs)
    then have "sh_words False None (join '' '' (map shell_quote (a # words))) =
      sh_words False None (shell_quote a @ '' '' @ join '' '' (map shell_quote words))" by simp
    also have "\<dots> = sh_words False (Some (rev a)) ('' '' @ join '' '' (map shell_quote words))"
      by (rule sh_words_shell_quote)
    also have "\<dots> = Some (a # words)" using Cons.IH by simp
    finally show ?thesis .
  qed
qed simp

end
