(* ===== verification/Headless.thy ===== *)
theory Headless
  imports Bootstrap
begin

text \<open>
  \<open>internal/headless/run.go\<close>: the unattended installation, stage by stage, and its wiring
  in \<open>cmd/installer/main.go\<close>.  The log lines written to the output are left out.  A sleep
  lets at least a nanosecond pass.
\<close>

section \<open>Configuration and collaborators\<close>

record headless_config =
  hc_workspace_name :: string
  hc_accept_all :: bool
  hc_deploy :: bool
  hc_skip_pull :: bool
  hc_gpu_detected :: bool
  hc_verify_timeout :: nat
  hc_poll_interval :: nat

text \<open>Maps from environment keys to ports are lists in the order the iteration takes.\<close>

record 'w headless_deps =
  hd_preflight :: "'w preflight"
  hd_ports :: "'w port_scanner"
  hd_generate :: "nat \<Rightarrow> string + string"
  hd_writer :: "string \<Rightarrow> string \<Rightarrow> 'w isys \<Rightarrow> bool \<times> 'w isys"
  hd_fs :: "'w fs"
  hd_baseline :: string
  hd_overlay :: string
  hd_env_example :: string
  hd_pull :: "string list \<Rightarrow> string \<Rightarrow> ('w, cmd_event, string option) effect"
  hd_up :: "string list \<Rightarrow> string \<Rightarrow> ('w, cmd_event, string option) effect"
  hd_health :: "string list \<Rightarrow> string \<Rightarrow> ('w, cmd_event, string + service_health list) effect"
  hd_arch :: arch
  hd_env :: bootstrap_env
  hd_workspace_dir :: string
  hd_media_dir :: string
  hd_config_dir :: string
  hd_tcp :: "(string \<times> int) list"
  hd_udp :: "(string \<times> int) list"
  hd_exec :: "string \<Rightarrow> string list \<Rightarrow> ('w, string \<times> string option) oper"

datatype headless_error =
    HlNonFixable report
  | HlNoRemediation
  | HlNeedsAccept
  | HlBootstrapFailed string string string
  | HlStillFailing report
  | HlPortConflicts "string list"
  | HlWorkspaceDir
  | HlRender "string render_failure"
  | HlWriteEnv
  | HlWriteFile string
  | HlPull string
  | HlDeploy string
  | HlVerifyTimeout nat "string list"

section \<open>Preflight and bootstrap\<close>

definition run_action :: "'w headless_deps \<Rightarrow> action \<Rightarrow> 'w isys \<Rightarrow> (string \<times> string option) \<times> 'w isys" where
  "run_action d a s =
     call (\<lambda>r. ActionRun (act_command a) (act_args a) (snd r = None)) (hd_exec d (act_command a) (act_args a))
       background s"

fun run_actions :: "'w headless_deps \<Rightarrow> action list \<Rightarrow> 'w isys \<Rightarrow> headless_error option \<times> 'w isys" where
  "run_actions d [] s = (None, s)"
| "run_actions d (a # as) s =
     (case run_action d a s of
        ((output, Some e), s1) \<Rightarrow> (Some (HlBootstrapFailed (act_id a) e output), s1)
      | ((output, None), s1) \<Rightarrow> run_actions d as s1)"

definition headless_gate ::
  "headless_config \<Rightarrow> 'w headless_deps \<Rightarrow> ('w, headless_error option) ieff" where
  "headless_gate cfg d c s =
     (case preflight_run (hd_preflight d) c s of
        (report, s1) \<Rightarrow>
          if \<not> has_blocking_failure report then (None, s1)
          else
            (case classify_blockers report (hd_env d) (hd_media_dir d) (hd_config_dir d) (hd_workspace_dir d) of
               (fixable, non_fixable) \<Rightarrow>
                 if non_fixable \<noteq> [] then (Some (HlNonFixable non_fixable), s1)
                 else if fixable = [] then (Some HlNoRemediation, s1)
                 else if \<not> hc_accept_all cfg then (Some HlNeedsAccept, s1)
                 else
                   (case run_actions d fixable s1 of
                      (Some e, s2) \<Rightarrow> (Some e, s2)
                    | (None, s2) \<Rightarrow>
                        (case preflight_run (hd_preflight d) c s2 of
                           (report2, s3) \<Rightarrow>
                             if has_blocking_failure report2
                             then (Some (HlStillFailing (report_failures report2)), s3)
                             else (None, s3)))))"

section \<open>Ports\<close>

fun port_conflicts ::
  "(int \<Rightarrow> ('w, bool) ieff) \<Rightarrow> string \<Rightarrow> int list \<Rightarrow> ctx \<Rightarrow> 'w isys \<Rightarrow> string list \<times> 'w isys" where
  "port_conflicts free label [] c s = ([], s)"
| "port_conflicts free label (p # ps) c s =
     (case free p c s of
        (b, s1) \<Rightarrow>
          (case port_conflicts free label ps c s1 of
             (cs, s2) \<Rightarrow> ((if b then cs else (label @ itoa p) # cs), s2)))"

definition tcp_port_values :: "(string \<times> int) list \<Rightarrow> int list" where
  "tcp_port_values m = map snd m"

definition headless_ports :: "'w headless_deps \<Rightarrow> ('w, headless_error option) ieff" where
  "headless_ports d c s =
     (case port_conflicts (is_available (hd_ports d)) ''TCP '' (tcp_port_values (hd_tcp d)) c s of
        (tcp, s1) \<Rightarrow>
          (case port_conflicts (is_udp_available (hd_ports d)) ''UDP '' (tcp_port_values (hd_udp d)) c s1 of
             (udp, s2) \<Rightarrow>
               if tcp @ udp \<noteq> [] then (Some (HlPortConflicts (tcp @ udp)), s2) else (None, s2)))"

section \<open>The workspace files\<close>

definition port_at :: "(string \<rightharpoonup> int) \<Rightarrow> string \<Rightarrow> int" where
  "port_at m k = (case m k of None \<Rightarrow> 0 | Some p \<Rightarrow> p)"

definition ports_config_from_map :: "(string \<rightharpoonup> int) \<Rightarrow> ports_config" where
  "ports_config_from_map m =
     \<lparr>postgres_port = port_at m ''POSTGRES_PORT'', backend_port = port_at m ''BACKEND_PORT'',
      websocket_port = port_at m ''WEBSOCKET_PORT'', web_port = port_at m ''WEB_PORT'',
      rtsp_port = port_at m ''RTSP_PORT'', redis_port = port_at m ''REDIS_PORT'',
      hls_port = port_at m ''HLS_PORT'', hls_port2 = port_at m ''HLS_PORT2'',
      hls_port3 = port_at m ''HLS_PORT3'', webrtc_ice_port = port_at m ''WEBRTC_ICE_PORT'',
      rtmp_port = port_at m ''RTMP_PORT'', milvus_port = port_at m ''MILVUS_PORT'',
      milvus_web_port = port_at m ''MILVUS_WEB_PORT'', minio_api_port = port_at m ''MINIO_API_PORT'',
      minio_console_port = port_at m ''MINIO_CONSOLE_PORT''\<rparr>"

definition empty_contract :: ami_contract where
  "empty_contract = \<lparr>ami_enabled = False, ami_host = [], ami_port = 0, ami_username = [],
     ami_password = [], ami_config_dir = []\<rparr>"

definition headless_input :: "headless_config \<Rightarrow> 'w headless_deps \<Rightarrow> env_input" where
  "headless_input cfg d =
     \<lparr>ei_workspace = hc_workspace_name cfg, ei_arch = hd_arch d,
      ei_ports = ports_config_from_map (map_of (hd_tcp d) ++ map_of (hd_udp d)),
      ei_generate_password = True, ei_password_override = [], ei_asterisk = empty_contract\<rparr>"

definition workspace_file :: "'w headless_deps \<Rightarrow> string \<Rightarrow> string" where
  "workspace_file d name = path_join [hd_workspace_dir d, name]"

definition headless_env_write ::
  "headless_config \<Rightarrow> 'w headless_deps \<Rightarrow> 'w isys \<Rightarrow> headless_error option \<times> 'w isys" where
  "headless_env_write cfg d s =
     (case fs_ok (hd_fs d) (FsMkdirAll (hd_workspace_dir d) 0x1ED) s of
        (False, s1) \<Rightarrow> (Some HlWorkspaceDir, s1)
      | (True, s1) \<Rightarrow>
          (case render_env (hd_generate d) (hd_env_example d) (headless_input cfg d) of
             Inl e \<Rightarrow> (Some (HlRender e), s1)
           | Inr rendered \<Rightarrow>
               (case hd_writer d (workspace_file d ''.env'') rendered s1 of
                  (False, s2) \<Rightarrow> (Some HlWriteEnv, s2)
                | (True, s2) \<Rightarrow>
                    (case fs_ok (hd_fs d)
                        (FsWriteFile (workspace_file d ''docker-compose.yml'') (hd_baseline d) 0x1A4) s2 of
                       (False, s3) \<Rightarrow> (Some (HlWriteFile ''docker-compose.yml''), s3)
                     | (True, s3) \<Rightarrow>
                         (case fs_ok (hd_fs d)
                             (FsWriteFile (workspace_file d ''docker-compose.gpu.yml'') (hd_overlay d) 0x1A4) s3 of
                            (False, s4) \<Rightarrow> (Some (HlWriteFile ''docker-compose.gpu.yml''), s4)
                          | (True, s4) \<Rightarrow> (None, s4))))))"

definition compose_files :: "bool \<Rightarrow> string \<Rightarrow> string \<Rightarrow> string list" where
  "compose_files gpu baseline overlay = (if gpu then [baseline, overlay] else [baseline])"

definition headless_files :: "headless_config \<Rightarrow> 'w headless_deps \<Rightarrow> string list" where
  "headless_files cfg d =
     compose_files (hc_gpu_detected cfg) (workspace_file d ''docker-compose.yml'')
       (workspace_file d ''docker-compose.gpu.yml'')"

section \<open>Pull, deploy, verify\<close>

definition sleep :: "nat \<Rightarrow> 'w isys \<Rightarrow> 'w isys" where
  "sleep dur s = s\<lparr>clock := clock s + max 1 dur\<rparr>"

definition unhealthy_label :: "service_health \<Rightarrow> string" where
  "unhealthy_label h = sh_service h @ ''('' @ sh_status h @ ''/'' @ sh_state h @ '')''"

definition unhealthy :: "service_health list \<Rightarrow> string list" where
  "unhealthy hs = map unhealthy_label (filter (\<lambda>h. \<not> is_ready h) hs)"

definition all_ready :: "service_health list \<Rightarrow> bool" where
  "all_ready hs \<longleftrightarrow> list_all is_ready hs \<and> hs \<noteq> []"

definition health_call :: "'w headless_deps \<Rightarrow> string list \<Rightarrow> string \<Rightarrow> ('w, string + service_health list) ieff" where
  "health_call d files env_path = invoking (hd_health d files env_path)"

lemma health_call_clock: "health_call d files env_path c s = (r, s') \<Longrightarrow> clock s \<le> clock s'"
  by (auto simp: health_call_def invoking_def split: prod.splits)

text \<open>The polling loop; the clock reaches the deadline because every round sleeps.\<close>

function verify_loop ::
  "'w headless_deps \<Rightarrow> string list \<Rightarrow> string \<Rightarrow> nat \<Rightarrow> nat \<Rightarrow> nat \<Rightarrow> ctx \<Rightarrow> 'w isys \<Rightarrow>
   headless_error option \<times> 'w isys" where
  "verify_loop d files env_path interval timeout deadline c s =
     (if clock s < deadline then
        (case health_call d files env_path c s of
           (Inl e, s1) \<Rightarrow> verify_loop d files env_path interval timeout deadline c (sleep interval s1)
         | (Inr statuses, s1) \<Rightarrow>
             if all_ready statuses then (None, s1)
             else verify_loop d files env_path interval timeout deadline c (sleep interval s1))
      else
        (case health_call d files env_path c s of
           (r, s1) \<Rightarrow>
             (Some (HlVerifyTimeout timeout (case r of Inl e \<Rightarrow> [] | Inr statuses \<Rightarrow> unhealthy statuses)), s1)))"
  by pat_completeness auto
termination
  by (relation "measure (\<lambda>(d, files, env_path, interval, timeout, deadline, c, s). deadline - clock s)")
     (auto simp: sleep_def dest!: sym [of "(x, y)" "health_call d fs e c s" for x y d fs e c s] health_call_clock)

declare verify_loop.simps [simp del]

definition poll_interval :: "headless_config \<Rightarrow> nat" where
  "poll_interval cfg = (if hc_poll_interval cfg = 0 then 3 * second else hc_poll_interval cfg)"

definition verify_timeout :: "headless_config \<Rightarrow> nat" where
  "verify_timeout cfg = (if hc_verify_timeout cfg = 0 then 60 * second else hc_verify_timeout cfg)"

definition headless_verify ::
  "headless_config \<Rightarrow> 'w headless_deps \<Rightarrow> string list \<Rightarrow> string \<Rightarrow> ('w, headless_error option) ieff" where
  "headless_verify cfg d files env_path c s =
     verify_loop d files env_path (poll_interval cfg) (verify_timeout cfg) (clock s + verify_timeout cfg) c s"

definition headless_deploy ::
  "headless_config \<Rightarrow> 'w headless_deps \<Rightarrow> string list \<Rightarrow> string \<Rightarrow> ('w, headless_error option) ieff" where
  "headless_deploy cfg d files env_path c s =
     (if \<not> hc_deploy cfg then (None, s)
      else (case invoking (hd_up d files env_path) c s of
        (Some e, s1) \<Rightarrow> (Some (HlDeploy e), s1)
      | (None, s1) \<Rightarrow> headless_verify cfg d files env_path c s1))"

definition headless_pull ::
  "headless_config \<Rightarrow> 'w headless_deps \<Rightarrow> string list \<Rightarrow> string \<Rightarrow> ('w, headless_error option) ieff" where
  "headless_pull cfg d files env_path c s =
     (if hc_skip_pull cfg then (None, s)
      else (case invoking (hd_pull d files env_path) c s of
        (Some e, s1) \<Rightarrow> (Some (HlPull e), s1)
      | (None, s1) \<Rightarrow> (None, s1)))"

definition headless_run :: "headless_config \<Rightarrow> 'w headless_deps \<Rightarrow> ('w, headless_error option) ieff" where
  "headless_run cfg d c s =
     (case headless_gate cfg d c s of
        (Some e, s1) \<Rightarrow> (Some e, s1)
      | (None, s1) \<Rightarrow>
          (case headless_ports d c s1 of
             (Some e, s2) \<Rightarrow> (Some e, s2)
           | (None, s2) \<Rightarrow>
               (case headless_env_write cfg d s2 of
                  (Some e, s3) \<Rightarrow> (Some e, s3)
                | (None, s3) \<Rightarrow>
                    let files = headless_files cfg d; env_path = workspace_file d ''.env'' in
                    (case headless_pull cfg d files env_path c s3 of
                       (Some e, s4) \<Rightarrow> (Some e, s4)
                     | (None, s4) \<Rightarrow> headless_deploy cfg d files env_path c s4))))"

end
