(* ===== verification/PreflightSafety.thy ===== *)
theory PreflightSafety
  imports Bootstrap
begin

text \<open>
  What a preflight does to the host, whatever its probes are, as a locale over their
  contracts; the production probes as its interpretation; the shape of every report; and
  the classification of its failures item by item.
\<close>

section \<open>The contract of the probes\<close>

locale preflight_probes =
  fixes p :: "'w preflight" and Q :: "install_event list \<Rightarrow> bool"
  assumes no_events: "Q []"
    and append: "Q xs \<Longrightarrow> Q ys \<Longrightarrow> Q (xs @ ys)"
    and docker_probe: "pf_docker_probe p c s = (r1, s') \<Longrightarrow> yields Q s s'"
    and docker_version: "pf_docker_version p c s = (r2, s') \<Longrightarrow> yields Q s s'"
    and compose_version: "pf_compose_version p c s = (r3, s') \<Longrightarrow> yields Q s s'"
    and gpu: "pf_gpu p c s = (r4, s') \<Longrightarrow> yields Q s s'"
    and writable: "path \<in> {pf_media_dir p, pf_config_dir p, pf_workspace_dir p} \<Longrightarrow>
      pf_writable p path s = (r5, s') \<Longrightarrow> yields Q s s'"
    and tcp: "port \<in> set (pf_tcp_ports p) \<Longrightarrow> is_available (pf_ports p) port c s = (b, s') \<Longrightarrow> yields Q s s'"
    and udp: "port \<in> set (pf_udp_ports p) \<Longrightarrow> is_udp_available (pf_ports p) port c s = (b, s') \<Longrightarrow> yields Q s s'"
begin

lemma yields_append: "yields Q s s' \<Longrightarrow> yields Q s' s'' \<Longrightarrow> yields Q s s''"
  by (rule yields_trans [where Q = Q]) (auto intro: append)

lemma yields_none [simp]: "yields Q s s"
  unfolding yields_def by (rule exI [of _ "[]"]) (simp add: no_events)

lemma check_daemon: "check_docker_daemon p c s = (r, s') \<Longrightarrow> yields Q s s'"
  by (auto simp: check_docker_daemon_def split: prod.splits option.splits dest: docker_probe)

lemma check_version: "check_docker_version p c s = (r, s') \<Longrightarrow> yields Q s s'"
  by (auto simp: check_docker_version_def Let_def split: prod.splits sum.splits if_splits dest: docker_version)

lemma check_compose: "check_compose_version p c s = (r, s') \<Longrightarrow> yields Q s s'"
  by (auto simp: check_compose_version_def split: prod.splits sum.splits if_splits dest: compose_version)

lemma check_gpu: "check_gpu p c s = (r, s') \<Longrightarrow> yields Q s s'"
  by (auto simp: check_gpu_def split: prod.splits if_splits dest: gpu)

lemma check_directory:
  "path \<in> {pf_media_dir p, pf_config_dir p, pf_workspace_dir p} \<Longrightarrow>
   check_dir p i path s = (r, s') \<Longrightarrow> yields Q s s'"
  using writable [of path s "fst (pf_writable p path s)" "snd (pf_writable p path s)"]
  by (auto simp: check_dir_def Let_def split: prod.splits bool.splits)

lemma occupied:
  assumes "\<And>q s b s'. q \<in> set ps \<Longrightarrow> free q c s = (b, s') \<Longrightarrow> yields Q s s'"
    and "occupied_ports free label exempt ps c s = (r, s')"
  shows "yields Q s s'"
  using assms
proof (induction ps arbitrary: s r s')
  case Nil
  then show ?case by simp
next
  case (Cons q ps)
  obtain b s1 where t: "free q c s = (b, s1)" by fastforce
  obtain r1 s2 where o: "occupied_ports free label exempt ps c s1 = (r1, s2)" by fastforce
  show ?case
  proof (cases "q \<in> set exempt")
    case True
    with Cons.prems(2) have "occupied_ports free label exempt ps c s = (r, s')" by simp
    from Cons.IH [OF _ this] Cons.prems(1) show ?thesis by (meson list.set_intros(2))
  next
    case False
    with Cons.prems(2) t o have "s2 = s'" by simp
    moreover have "yields Q s s1" using Cons.prems(1) [OF _ t] by simp
    moreover have "yields Q s1 s2" using Cons.IH [OF _ o] Cons.prems(1) by (meson list.set_intros(2))
    ultimately show ?thesis by (auto intro: yields_append)
  qed
qed

lemma check_all_ports:
  assumes "check_ports p c s = (r, s')"
  shows "yields Q s s'"
proof -
  obtain tcp_labels s1 where 1:
    "occupied_ports (is_available (pf_ports p)) ''TCP '' (pf_exempt_tcp p) (pf_tcp_ports p) c s = (tcp_labels, s1)"
    by fastforce
  obtain udp_labels s2 where 2:
    "occupied_ports (is_udp_available (pf_ports p)) ''UDP '' (pf_exempt_udp p) (pf_udp_ports p) c s1 = (udp_labels, s2)"
    by fastforce
  have "s' = s2" using assms 1 2 by (auto simp: check_ports_def Let_def split: if_splits)
  moreover have "yields Q s s1" using occupied [OF _ 1] tcp by blast
  moreover have "yields Q s1 s2" using occupied [OF _ 2] udp by blast
  ultimately show ?thesis by (auto intro: yields_append)
qed

lemma run_yields:
  assumes run: "preflight_run p c s = (r, s')"
  shows "yields Q s s'"
proof -
  obtain r1 s1 where 1: "check_docker_daemon p c s = (r1, s1)" by fastforce
  obtain r2 s2 where 2: "check_docker_version p c s1 = (r2, s2)" by fastforce
  obtain r3 s3 where 3: "check_compose_version p c s2 = (r3, s3)" by fastforce
  obtain r4 s4 where 4: "Preflight.check_gpu p c s3 = (r4, s4)" by fastforce
  obtain r5 s5 where 5: "check_dir p CheckMediaWritable (pf_media_dir p) s4 = (r5, s5)" by fastforce
  obtain r6 s6 where 6: "check_dir p CheckConfigWritable (pf_config_dir p) s5 = (r6, s6)" by fastforce
  obtain r7 s7 where 7: "check_dir p CheckWorkspaceWritable (pf_workspace_dir p) s6 = (r7, s7)" by fastforce
  define s8 where "s8 = (if pf_workspace_dir p = [] then s6 else s7)"
  obtain r9 s9 where 9: "check_ports p c s8 = (r9, s9)" by fastforce
  have ws: "yields Q s6 s8"
    using check_directory [OF _ 7] by (simp add: s8_def)
  have "yields Q s s9"
    by (rule yields_append [OF check_daemon [OF 1] yields_append [OF check_version [OF 2]
      yields_append [OF check_compose [OF 3] yields_append [OF check_gpu [OF 4]
      yields_append [OF check_directory [OF _ 5] yields_append [OF check_directory [OF _ 6]
      yields_append [OF ws check_all_ports [OF 9]]]]]]]]) simp_all
  moreover have "s' = s \<or> s' = s9"
    using run 1 2 3 4 5 6 7 9 by (auto simp: preflight_run_def s8_def Let_def split: if_splits)
  ultimately show ?thesis by auto
qed

end

section \<open>The production probes\<close>

text \<open>
  The commands that may be asked of the Docker boundary, and the traces they leave
  together with the port tests and the directory probes: a probe file that was written is
  removed at once.
\<close>

definition docker_reads :: "string list list" where
  "docker_reads = [''info'' # json_format, ''version'' # json_format, [''compose'', ''version'', ''--short'']]"

fun probing :: "string list \<Rightarrow> install_event list \<Rightarrow> bool" where
  "probing dirs [] = True"
| "probing dirs (Invoked (Ran name args ok) # es) =
     (name = ''docker'' \<and> args \<in> set docker_reads \<and> probing dirs es)"
| "probing dirs (PortTest t q b # es) = probing dirs es"
| "probing dirs (ActionRun name args ok # es) = False"
| "probing dirs (FsEvent (FsStat path) ok # es) = probing dirs es"
| "probing dirs (FsEvent (FsWriteFile path d mode) True # FsEvent (FsRemove path') gone # es) =
     (path' = path \<and> d = [] \<and> path \<in> set (map probe_path dirs) \<and> probing dirs es)"
| "probing dirs (FsEvent (FsWriteFile path d mode) False # es) =
     (d = [] \<and> path \<in> set (map probe_path dirs) \<and> probing dirs es)"
| "probing dirs (FsEvent fop ok # es) = False"

lemma probing_append: "probing dirs xs \<Longrightarrow> probing dirs ys \<Longrightarrow> probing dirs (xs @ ys)"
  by (induction dirs xs rule: probing.induct) simp_all

text \<open>The directories whose probe file may be written.\<close>

definition probed_dirs :: "string list \<Rightarrow> string list" where
  "probed_dirs paths = paths @ map path_dir paths"

lemma probe_dir_probing:
  assumes "probe_dir fs dir s = (r, s')" "dir \<in> set dirs"
  shows "yields (probing dirs) s s'"
proof -
  obtain r1 s1 where w: "fs_call fs (FsWriteFile (probe_path dir) [] 0x180) s = (r1, s1)" by fastforce
  obtain b s2 where rm: "fs_ok fs (FsRemove (probe_path dir)) s1 = (b, s2)" by fastforce
  note g = fs_call_grew [OF w]
  note g2 = grew_trans [OF g fs_ok_grew [OF rm]]
  show ?thesis
  proof (cases "fs_error r1")
    case None
    with assms w rm have "s' = s2" by (auto simp: probe_dir_def)
    with g2 None assms(2) show ?thesis by (auto intro!: yieldsI [OF g2] simp: fs_success_def)
  next
    case (Some e)
    with assms w have "s' = s1" by (auto simp: probe_dir_def)
    with g Some assms(2) show ?thesis by (auto intro!: yieldsI [OF g] simp: fs_success_def)
  qed
qed

lemma stat_probing: "fs_call fs (FsStat path) s = (r, s') \<Longrightarrow> yields (probing dirs) s s'"
  by (drule fs_call_grew, erule yieldsI) simp

lemma yields_probing_trans:
  "yields (probing dirs) s s' \<Longrightarrow> yields (probing dirs) s' s'' \<Longrightarrow> yields (probing dirs) s s''"
  by (rule yields_trans [where Q = "probing dirs"]) (auto intro: probing_append)

lemma is_writable_probing:
  assumes "is_writable fs path s = (r, s')" "path \<in> set paths"
  shows "yields (probing (probed_dirs paths)) s s'"
proof -
  have in1: "path \<in> set (probed_dirs paths)" and in2: "path_dir path \<in> set (probed_dirs paths)"
    using assms(2) by (auto simp: probed_dirs_def)
  show ?thesis
    using assms(1) unfolding is_writable_def
    by (auto simp: Let_def split: prod.splits option.splits if_splits
        dest!: stat_probing [where dirs = "probed_dirs paths"]
          probe_dir_probing [OF _ in1] probe_dir_probing [OF _ in2]
        intro: yields_probing_trans)
qed

lemma invoke_probing:
  "invoke f ''docker'' args c s = (r, s') \<Longrightarrow> args \<in> set docker_reads \<Longrightarrow> yields (probing dirs) s s'"
  by (drule invoke_grew, erule yieldsI) simp

lemma invoking_compose_version:
  assumes "invoking (compose_version_cmd f) c s = (r, s')"
  shows "yields (probing dirs) s s'"
proof -
  let ?s = "\<lparr>world = world s, clock = clock s, trace = [] :: cmd_event list\<rparr>"
  obtain r1 s1 where rc: "run_cmd f ''docker'' [''compose'', ''version'', ''--short''] c ?s = (r1, s1)"
    by fastforce
  from run_cmd_grew [OF rc] have "trace s1 = [Ran ''docker'' [''compose'', ''version'', ''--short''] (cmd_err r1 = None)]"
    by (simp add: grew_def)
  moreover have "snd (compose_version_cmd f c ?s) = s1"
    using rc by (simp add: compose_version_cmd_def Let_def split: option.splits)
  ultimately have "grew s s' [Invoked (Ran ''docker'' [''compose'', ''version'', ''--short''] (cmd_err r1 = None))]"
    using assms by (auto simp: invoking_def grew_def split: prod.splits)
  then show ?thesis by (rule yieldsI) (simp add: docker_reads_def)
qed

interpretation production_probes:
  preflight_probes "production_preflight e media config ws tcp_ports udp_ports"
    "probing (probed_dirs [media, config, ws])"
  for e media config ws tcp_ports udp_ports
proof unfold_locales
  let ?p = "production_preflight e media config ws tcp_ports udp_ports"
  let ?Q = "probing (probed_dirs [media, config, ws])"
  show "?Q []" by simp
  show "?Q xs \<Longrightarrow> ?Q ys \<Longrightarrow> ?Q (xs @ ys)" for xs ys by (rule probing_append)
  show "pf_docker_probe ?p c s = (r, s') \<Longrightarrow> yields ?Q s s'" for c s r s'
    by (auto simp: production_preflight_def docker_probe_def Let_def docker_reads_def
        split: prod.splits elim: invoke_probing)
  show "pf_docker_version ?p c s = (r, s') \<Longrightarrow> yields ?Q s s'" for c s r s'
    by (auto simp: production_preflight_def docker_version_cmd_def Let_def docker_reads_def
        split: prod.splits option.splits sum.splits elim: invoke_probing)
  show "pf_compose_version ?p c s = (r, s') \<Longrightarrow> yields ?Q s s'" for c s r s'
    by (auto simp: production_preflight_def Let_def elim: invoking_compose_version)
  show "pf_gpu ?p c s = (r, s') \<Longrightarrow> yields ?Q s s'" for c s r s'
    by (auto simp: production_preflight_def gpu_detect_def Let_def docker_reads_def
        split: prod.splits option.splits sum.splits if_splits elim: invoke_probing)
  show "path \<in> {pf_media_dir ?p, pf_config_dir ?p, pf_workspace_dir ?p} \<Longrightarrow>
    pf_writable ?p path s = (r, s') \<Longrightarrow> yields ?Q s s'" for path s r s'
    using is_writable_probing [of "ie_fs e" path s r s' "[media, config, ws]"]
    by (simp add: production_preflight_def Let_def)
  show "port \<in> set (pf_tcp_ports ?p) \<Longrightarrow> is_available (pf_ports ?p) port c s = (b, s') \<Longrightarrow> yields ?Q s s'"
    for port c s b s'
    by (auto simp: production_preflight_def Let_def dest!: net_scanner_grew elim!: yieldsI)
  show "port \<in> set (pf_udp_ports ?p) \<Longrightarrow> is_udp_available (pf_ports ?p) port c s = (b, s') \<Longrightarrow> yields ?Q s s'"
    for port c s b s'
    by (auto simp: production_preflight_def Let_def dest!: net_scanner_grew elim!: yieldsI)
qed

section \<open>The shape of a report\<close>

definition full_checks :: "'w preflight \<Rightarrow> check_id list" where
  "full_checks p =
     [CheckOS, CheckArch, CheckDockerDaemon, CheckDockerVersion, CheckComposeVersion, CheckGPU,
      CheckMediaWritable, CheckConfigWritable]
     @ (if pf_workspace_dir p = [] then [] else [CheckWorkspaceWritable]) @ [CheckPortsAvailable]"

text \<open>The checks a report holds: all of them, or those up to an unsupported platform.\<close>

definition report_checks :: "'w preflight \<Rightarrow> check_id list" where
  "report_checks p =
     (if pf_goos p \<noteq> ''linux'' then [CheckOS]
      else if pf_arch p = ArchUnknown then [CheckOS, CheckArch] else full_checks p)"

text \<open>The checks that never block.\<close>

definition advisory :: "check_id set" where
  "advisory = {CheckDockerVersion, CheckGPU, CheckPortsAvailable}"

lemma check_simps [simp]:
  "cr_id (check i st t d rm) = i" "cr_status (check i st t d rm) = st"
  by (simp_all add: check_def)

lemma check_os_id: "cr_id (check_os p) = CheckOS" "cr_status (check_os p) = StatusFail \<longleftrightarrow> pf_goos p \<noteq> ''linux''"
  by (simp_all add: check_os_def)

lemma check_arch_id:
  "cr_id (check_arch p) = CheckArch" "cr_status (check_arch p) = StatusFail \<longleftrightarrow> pf_arch p = ArchUnknown"
  by (simp_all add: check_arch_def split: arch.splits)

lemma check_docker_daemon_id: "check_docker_daemon p c s = (r, s') \<Longrightarrow> cr_id r = CheckDockerDaemon"
  by (auto simp: check_docker_daemon_def split: prod.splits option.splits)

lemma check_docker_version_id:
  "check_docker_version p c s = (r, s') \<Longrightarrow> cr_id r = CheckDockerVersion \<and> cr_status r \<noteq> StatusFail"
  by (auto simp: check_docker_version_def Let_def split: prod.splits sum.splits if_splits)

lemma check_compose_version_id: "check_compose_version p c s = (r, s') \<Longrightarrow> cr_id r = CheckComposeVersion"
  by (auto simp: check_compose_version_def split: prod.splits sum.splits if_splits)

lemma check_gpu_id: "check_gpu p c s = (r, s') \<Longrightarrow> cr_id r = CheckGPU \<and> cr_status r \<noteq> StatusFail"
  by (auto simp: check_gpu_def split: prod.splits if_splits)

lemma check_dir_id: "check_dir p i path s = (r, s') \<Longrightarrow> cr_id r = i"
  by (auto simp: check_dir_def Let_def split: prod.splits bool.splits)

lemma check_ports_id: "check_ports p c s = (r, s') \<Longrightarrow> cr_id r = CheckPortsAvailable \<and> cr_status r \<noteq> StatusFail"
  by (auto simp: check_ports_def Let_def split: prod.splits if_splits)

lemma preflight_run_shape:
  assumes run: "preflight_run p c s = (r, s')"
  shows "map cr_id r = report_checks p \<and>
    (\<forall>item \<in> set r. cr_status item = StatusFail \<longrightarrow>
       cr_id item \<notin> advisory \<and> (cr_id item = CheckOS \<longrightarrow> pf_goos p \<noteq> ''linux'') \<and>
       (cr_id item = CheckArch \<longrightarrow> pf_arch p = ArchUnknown))"
proof -
  obtain r1 s1 where 1: "check_docker_daemon p c s = (r1, s1)" by fastforce
  obtain r2 s2 where 2: "check_docker_version p c s1 = (r2, s2)" by fastforce
  obtain r3 s3 where 3: "check_compose_version p c s2 = (r3, s3)" by fastforce
  obtain r4 s4 where 4: "check_gpu p c s3 = (r4, s4)" by fastforce
  obtain r5 s5 where 5: "check_dir p CheckMediaWritable (pf_media_dir p) s4 = (r5, s5)" by fastforce
  obtain r6 s6 where 6: "check_dir p CheckConfigWritable (pf_config_dir p) s5 = (r6, s6)" by fastforce
  obtain r7 s7 where 7: "check_dir p CheckWorkspaceWritable (pf_workspace_dir p) s6 = (r7, s7)" by fastforce
  obtain r9 s9 where 9: "check_ports p c (if pf_workspace_dir p = [] then s6 else s7) = (r9, s9)" by fastforce
  note ids = check_os_id [of p] check_arch_id [of p] check_docker_daemon_id [OF 1] check_docker_version_id [OF 2]
    check_compose_version_id [OF 3] check_gpu_id [OF 4] check_dir_id [OF 5] check_dir_id [OF 6]
    check_dir_id [OF 7] check_ports_id [OF 9]
  have "r = (if pf_goos p \<noteq> ''linux'' then [check_os p]
      else if pf_arch p = ArchUnknown then [check_os p, check_arch p]
      else [check_os p, check_arch p, r1, r2, r3, r4, r5, r6]
        @ (if pf_workspace_dir p = [] then [] else [r7]) @ [r9])"
    using run 1 2 3 4 5 6 7 9 check_os_id(2) [of p] check_arch_id(2) [of p]
    by (auto simp: preflight_run_def Let_def split: if_splits)
  with ids show ?thesis
    by (auto simp: report_checks_def full_checks_def advisory_def)
qed

lemma full_checks_distinct: "distinct (report_checks p)"
  by (simp add: report_checks_def full_checks_def)

section \<open>Item by item\<close>

text \<open>The action that remedies one failing check, if there is one.\<close>

definition remedy ::
  "bootstrap_env \<Rightarrow> string \<Rightarrow> string \<Rightarrow> string \<Rightarrow> check_result \<Rightarrow> action option" where
  "remedy env media config workspace item =
     (let username = (if user_name env = [] then ''$USER'' else user_name env) in
      case cr_id item of
        CheckDockerDaemon \<Rightarrow>
          if \<not> docker_binary_present env then Some docker_install_action
          else if systemd_present env then Some systemd_start_docker_action else None
      | CheckMediaWritable \<Rightarrow> Some (build_dir_action ''media_writable'' media username)
      | CheckConfigWritable \<Rightarrow> Some (build_dir_action ''config_writable'' config username)
      | CheckWorkspaceWritable \<Rightarrow> Some (build_user_dir_action ''workspace_writable'' workspace)
      | _ \<Rightarrow> None)"

text \<open>A version check that fails because Docker is not there is remedied by its installation.\<close>

definition subsumed :: "bootstrap_env \<Rightarrow> check_result \<Rightarrow> bool" where
  "subsumed env item \<longleftrightarrow>
     \<not> docker_binary_present env \<and> cr_id item \<in> {CheckDockerVersion, CheckComposeVersion}"

definition action_rank :: "action \<Rightarrow> nat" where
  "action_rank a =
     (if act_id a = action_docker_install then 0 else if act_id a = action_systemd_start then 2 else 1)"

definition failing :: "report \<Rightarrow> report" where
  "failing r = filter (\<lambda>item. cr_status item = StatusFail) r"

definition ranked :: "(check_result \<Rightarrow> action option) \<Rightarrow> nat \<Rightarrow> report \<Rightarrow> action list" where
  "ranked f k r = filter (\<lambda>a. action_rank a = k) (List.map_filter f (failing r))"

lemma failing_simps [simp]:
  "failing [] = []"
  "failing (item # r) = (if cr_status item = StatusFail then item # failing r else failing r)"
  by (simp_all add: failing_def)

lemma map_filter_Cons [simp]:
  "List.map_filter f (x # xs) = (case f x of None \<Rightarrow> List.map_filter f xs | Some y \<Rightarrow> y # List.map_filter f xs)"
  "List.map_filter f [] = []"
  by (simp_all add: List.map_filter_def split: option.splits)

lemma action_rank_simps [simp]:
  "action_rank docker_install_action = 0" "action_rank systemd_start_docker_action = 2"
  "action_rank (build_dir_action ''media_writable'' d u) = 1"
  "action_rank (build_dir_action ''config_writable'' d u) = 1"
  "action_rank (build_user_dir_action ''workspace_writable'' d) = 1"
  by (simp_all add: action_rank_def docker_install_action_def systemd_start_docker_action_def
      build_dir_action_def build_user_dir_action_def action_docker_install_def action_systemd_start_def)

lemma ranked_Cons: "ranked f k (item # r) = ranked f k [item] @ ranked f k r"
  by (simp add: ranked_def split: option.splits)

definition unremedied :: "(check_result \<Rightarrow> action option) \<Rightarrow> bootstrap_env \<Rightarrow> report \<Rightarrow> report" where
  "unremedied f env r = filter (\<lambda>i. f i = None \<and> \<not> subsumed env i) (failing r)"

lemma unremedied_Cons: "unremedied f env (item # r) = unremedied f env [item] @ unremedied f env r"
  by (simp add: unremedied_def)

lemma classify_item_ranked:
  fixes env media config workspace
  defines "f \<equiv> remedy env media config workspace"
  shows "classify_item env (if user_name env = [] then ''$USER'' else user_name env) media config workspace b item =
    \<lparr>bl_install = bl_install b @ ranked f 0 [item], bl_dirs = bl_dirs b @ ranked f 1 [item],
     bl_systemd = bl_systemd b @ ranked f 2 [item],
     bl_non_fixable = bl_non_fixable b @ unremedied f env [item]\<rparr>"
proof -
  define u where "u = (if user_name env = [] then ''$USER'' else user_name env)"
  have "f = remedy env media config workspace" by (simp add: f_def)
  then show ?thesis
    unfolding u_def [symmetric]
    by (cases "cr_id item")
       (simp_all add: ranked_def unremedied_def remedy_def u_def [symmetric] subsumed_def classify_item_def)
qed

lemma classify_fold:
  fixes env media config workspace
  defines "f \<equiv> remedy env media config workspace"
  shows "foldl (classify_item env (if user_name env = [] then ''$USER'' else user_name env) media config workspace) b r =
    \<lparr>bl_install = bl_install b @ ranked f 0 r, bl_dirs = bl_dirs b @ ranked f 1 r,
     bl_systemd = bl_systemd b @ ranked f 2 r, bl_non_fixable = bl_non_fixable b @ unremedied f env r\<rparr>"
proof (induction r arbitrary: b)
  case Nil
  show ?case by (simp add: ranked_def unremedied_def)
next
  case (Cons item r)
  show ?case
    unfolding foldl_Cons Cons unfolding classify_item_ranked f_def [symmetric]
    by (simp add: ranked_Cons [of f _ item r] unremedied_Cons [of f env item r])
qed

lemma classify_blockers_ranked:
  fixes env media config workspace
  defines "f \<equiv> remedy env media config workspace"
  shows "classify_blockers r env media config workspace =
    (ranked f 0 r @ ranked f 1 r @ ranked f 2 r,
     unremedied f env r)"
  using classify_fold [of env media config workspace no_blockers r]
  by (simp add: classify_blockers_def Let_def f_def no_blockers_def)

lemma action_rank_le: "action_rank a \<le> 2"
  by (simp add: action_rank_def)

lemma action_rank_cases: "action_rank a = 0 \<or> action_rank a = 1 \<or> action_rank a = 2"
  using action_rank_le [of a] by linarith

lemma mem_ranked: "a \<in> set (ranked f k r) \<longleftrightarrow> a \<in> set (List.map_filter f (failing r)) \<and> action_rank a = k"
  by (simp add: ranked_def)

lemma set_ranked:
  "set (ranked f 0 r @ ranked f 1 r @ ranked f 2 r) = set (List.map_filter f (failing r))"
proof (rule set_eqI)
  fix a
  show "a \<in> set (ranked f 0 r @ ranked f 1 r @ ranked f 2 r) \<longleftrightarrow> a \<in> set (List.map_filter f (failing r))"
    using action_rank_cases [of a] by (simp add: mem_ranked) blast
qed

lemma sorted_constant: "(\<And>x. x \<in> set xs \<Longrightarrow> x = k) \<Longrightarrow> sorted (xs :: nat list)"
  by (induction xs) auto

lemma sorted_ranked: "sorted (map action_rank (ranked f 0 r @ ranked f 1 r @ ranked f 2 r))"
proof -
  have "sorted (map action_rank (ranked f k r))" for k
    by (rule sorted_constant [of _ k]) (auto simp: mem_ranked)
  then show ?thesis by (auto simp: sorted_append mem_ranked)
qed

lemma mem_map_filter: "a \<in> set (List.map_filter f xs) \<longleftrightarrow> (\<exists>x \<in> set xs. f x = Some a)"
  by (induction xs) (auto split: option.splits)

text \<open>Each remedy carries the identity of its check.\<close>

lemma remedy_inj:
  "remedy env m cf ws i = Some a \<Longrightarrow> remedy env m cf ws j = Some a' \<Longrightarrow> act_id a = act_id a' \<Longrightarrow>
   cr_id i = cr_id j"
  by (cases "cr_id i"; cases "cr_id j")
     (auto simp: remedy_def Let_def docker_install_action_def systemd_start_docker_action_def
       build_dir_action_def build_user_dir_action_def action_docker_install_def action_systemd_start_def
       split: if_splits)

lemma distinct_remedies:
  "distinct (map cr_id r) \<Longrightarrow> distinct (map act_id (List.map_filter (remedy env m cf ws) (failing r)))"
proof (induction r)
  case (Cons item r)
  show ?case
  proof (cases "cr_status item = StatusFail \<and> remedy env m cf ws item \<noteq> None")
    case True
    then obtain a where a: "remedy env m cf ws item = Some a" by auto
    have "act_id a \<notin> act_id ` set (List.map_filter (remedy env m cf ws) (failing r))"
    proof
      assume "act_id a \<in> act_id ` set (List.map_filter (remedy env m cf ws) (failing r))"
      then obtain j a' where "j \<in> set (failing r)" "remedy env m cf ws j = Some a'" "act_id a = act_id a'"
        by (auto simp: mem_map_filter)
      with remedy_inj [OF a] have "cr_id item = cr_id j" "j \<in> set r" by (auto simp: failing_def)
      with Cons.prems show False by auto
    qed
    with Cons a show ?thesis by auto
  next
    case False
    with Cons show ?thesis by auto
  qed
qed simp

lemma distinct_ranked:
  assumes "distinct (map act_id (List.map_filter f (failing r)))"
  shows "distinct (map act_id (ranked f 0 r @ ranked f 1 r @ ranked f 2 r))"
proof -
  have d: "distinct (map act_id (ranked f k r))" for k
    using assms by (simp add: ranked_def distinct_map_filter)
  have rank: "a \<in> set (ranked f k r) \<Longrightarrow> b \<in> set (ranked f l r) \<Longrightarrow> k \<noteq> l \<Longrightarrow> act_id a \<noteq> act_id b" for a b k l
    by (auto simp: ranked_def action_rank_def split: if_splits)
  have "act_id ` set (ranked f k r) \<inter> act_id ` set (ranked f l r) = {}" if "k \<noteq> l" for k l
    using rank [OF _ _ that] by auto
  then show ?thesis using d by (simp only: map_append distinct_append set_append set_map) (simp add: Int_Un_distrib)
qed

end
