(* ===== verification/ComposePull.thy ===== *)
theory ComposePull
  imports Compose
begin

text \<open>
  The rest of \<open>internal/compose/runner.go\<close>: \<open>docker compose pull\<close> and the reading of its
  progress lines.  The JSON decoder and the floating-point percentages are parameters.
\<close>

section \<open>Progress messages\<close>

record pull_msg =
  pm_service :: string
  pm_status :: string
  pm_percent :: "int option"
  pm_raw :: string

record pull_event =
  pe_id :: string
  pe_parent_id :: string
  pe_status :: string
  pe_text :: string
  pe_details :: string
  pe_current :: int
  pe_total :: int

text \<open>
  \<open>json_percent\<close> is \<open>int(float64(current)*100/float64(total))\<close>; \<open>plain_percent\<close> is the
  percentage of a line that matches \<open>plainByteProgress\<close> with a positive total.
\<close>

record pull_codec =
  decode_pull :: "string \<Rightarrow> pull_event option"
  json_percent :: "int \<Rightarrow> int \<Rightarrow> int"
  plain_percent :: "string \<Rightarrow> int option"

definition equal_fold_ascii :: "string \<Rightarrow> string \<Rightarrow> bool" where
  "equal_fold_ascii a b \<longleftrightarrow> map ascii_lower a = map ascii_lower b"

definition parse_pull_status :: "string \<Rightarrow> string" where
  "parse_pull_status line =
     (let lower = to_lower line in
      if contains_str lower ''pulling'' then ''Pulling''
      else if contains_str lower ''downloading'' then ''Downloading''
      else if contains_str lower ''pulled'' then ''Pulled''
      else if contains_str lower ''error'' then ''Error''
      else [])"

definition hex_digit :: "char \<Rightarrow> bool" where
  "hex_digit ch \<longleftrightarrow>
     (let c = (of_char ch :: nat) in
      48 \<le> c \<and> c \<le> 57 \<or> 97 \<le> c \<and> c \<le> 102 \<or> 65 \<le> c \<and> c \<le> 70)"

definition looks_like_digest :: "string \<Rightarrow> bool" where
  "looks_like_digest v =
     (let value = trim_prefix ''sha256:'' v in 12 \<le> length value \<and> list_all hex_digit value)"

fun before_str :: "string \<Rightarrow> string \<Rightarrow> string" where
  "before_str sub [] = []"
| "before_str sub (c # cs) = (if prefix sub (c # cs) then [] else c # before_str sub cs)"

definition pull_resource_label :: "string \<Rightarrow> string" where
  "pull_resource_label resource = before_str ''@sha256:'' (trim_prefix ''Image '' resource)"

definition format_pull_progress :: "string \<Rightarrow> string \<Rightarrow> int option \<Rightarrow> string" where
  "format_pull_progress service st percent =
     (let status = (case percent of None \<Rightarrow> st | Some n \<Rightarrow> st @ '' '' @ itoa n @ ''%'') in
      if service = [] then status else trim_space (service @ '' '' @ status))"

definition pull_message :: "string \<Rightarrow> string \<Rightarrow> int option \<Rightarrow> pull_msg" where
  "pull_message service st percent =
     \<lparr>pm_service = service, pm_status = st, pm_percent = percent,
      pm_raw = format_pull_progress service st percent\<rparr>"

definition plain_candidates :: "string list" where
  "plain_candidates =
     [''Pulling fs layer'', ''Download complete'', ''Verifying Checksum'', ''Already exists'',
      ''Pull complete'', ''Downloading'', ''Extracting'', ''Preparing'', ''Waiting'', ''Pulling'',
      ''Pulled'', ''Error'']"

definition parse_plain_pull_progress :: "pull_codec \<Rightarrow> string \<Rightarrow> pull_msg option" where
  "parse_plain_pull_progress k line =
     (case str_fields line of
        resource # f1 # more_fields \<Rightarrow>
          let rest = join '' '' (f1 # more_fields) in
          (case find (\<lambda>candidate. rest = candidate \<or> prefix (candidate @ '' '') rest) plain_candidates of
             None \<Rightarrow> None
           | Some st \<Rightarrow>
               let service = (if looks_like_digest resource
                              then ''layer '' @ take 12 (trim_prefix ''sha256:'' resource) else resource)
               in Some (pull_message service st (map_option (\<lambda>n. min n 100) (plain_percent k rest))))
      | _ \<Rightarrow> None)"

definition unstructured_pull :: "string \<Rightarrow> pull_msg" where
  "unstructured_pull line =
     \<lparr>pm_service = [], pm_status = parse_pull_status line, pm_percent = None, pm_raw = line\<rparr>"

definition event_service :: "pull_event \<Rightarrow> string" where
  "event_service e =
     (let resource = (if pe_parent_id e = [] then pe_id e else pe_parent_id e);
          service = pull_resource_label resource
      in if pe_parent_id e = [] \<and> looks_like_digest service then [] else service)"

definition event_status :: "pull_event \<Rightarrow> string" where
  "event_status e =
     (let status = (if pe_text e = [] then pe_status e else pe_text e) in
      if equal_fold_ascii (pe_status e) ''Error''
      then (let details = (if pe_details e = [] \<and> \<not> equal_fold_ascii (pe_text e) ''Error''
                           then pe_text e else pe_details e)
            in if details = [] then ''Error'' else ''Error: '' @ details)
      else status)"

text \<open>\<open>parsePullProgress\<close>: the message, and whether the line was structured.\<close>

definition parse_pull_progress :: "pull_codec \<Rightarrow> string \<Rightarrow> pull_msg \<times> bool" where
  "parse_pull_progress k line =
     (case decode_pull k line of
        None \<Rightarrow>
          (case parse_plain_pull_progress k line of
             Some msg \<Rightarrow> (msg, False)
           | None \<Rightarrow> (unstructured_pull line, False))
      | Some e \<Rightarrow>
          if pe_id e = [] \<and> pe_parent_id e = [] \<and> pe_status e = [] \<and> pe_text e = [] \<and> pe_details e = []
          then (unstructured_pull line, False)
          else (pull_message (event_service e) (event_status e)
                  (if pe_total e > 0 \<and> pe_current e \<ge> 0
                   then Some (min (json_percent k (pe_current e) (pe_total e)) 100) else None), True))"

section \<open>Pull\<close>

definition pull_args :: "string list \<Rightarrow> string \<Rightarrow> string list" where
  "pull_args files env_file =
     [''compose'', ''--progress'', ''plain''] @ compose_args files
     @ (if env_file = [] then [] else [''--env-file'', env_file]) @ [''pull'']"

definition kept_on_stderr :: "pull_msg \<Rightarrow> bool" where
  "kept_on_stderr msg \<longleftrightarrow> pm_service msg = [] \<or> prefix ''Error'' (pm_status msg)"

definition compose_pull ::
  "pull_codec \<Rightarrow> 'w streamer \<Rightarrow> string list \<Rightarrow> string \<Rightarrow>
   ('w, cmd_event, pull_msg list \<times> string option) effect" where
  "compose_pull k f files env_file c s =
     (case run_stream f ''docker'' (pull_args files env_file) c s of
        (r, s1) \<Rightarrow>
          let msgs = map (\<lambda>(is_err, line). (is_err, fst (parse_pull_progress k line))) (stream_lines r);
              kept = map (pm_raw \<circ> snd) (filter (\<lambda>(is_err, msg). is_err \<and> kept_on_stderr msg) msgs)
          in (case stream_err r of
                None \<Rightarrow> ((map snd msgs, None), s1)
              | Some e \<Rightarrow>
                  ((map snd msgs,
                    Some (if kept = [] then err_text e
                          else err_text e @ [CHR 0x0A] @ ''--- docker compose pull stderr ---'' @ [CHR 0x0A]
                               @ join [CHR 0x0A] (last_lines kept))), s1)))"

section \<open>Facts\<close>

lemma run_stream_grew:
  "run_stream f name args c s = (r, s') \<Longrightarrow> grew s s' [Ran name args (stream_err r = None)]"
  unfolding run_stream_def by (rule grew_call)

lemma compose_pull_grew:
  "compose_pull k f files env_file c s = ((msgs, e), s') \<Longrightarrow>
   grew s s' [Ran ''docker'' (pull_args files env_file) (e = None)]"
  by (auto simp: compose_pull_def Let_def split: prod.splits option.splits dest: run_stream_grew)

lemma compose_up_grew:
  "compose_up f files env_file c s = ((msgs, e), s') \<Longrightarrow>
   grew s s' [Ran ''docker'' (base_args files env_file [''up'', ''--detach'']) (e = None)]"
  by (auto simp: compose_up_def Let_def split: prod.splits option.splits if_splits dest: run_stream_grew)

lemma pull_percent_le: "pm_percent (fst (parse_pull_progress k line)) = Some n \<Longrightarrow> n \<le> 100"
  by (auto simp: parse_pull_progress_def parse_plain_pull_progress_def pull_message_def
      unstructured_pull_def Let_def split: option.splits list.splits if_splits)

end
