(* ===== verification/HeadlessSafety.thy ===== *)
theory HeadlessSafety
  imports Headless PreflightSafety ComposePull
begin

text \<open>
  The order of effects of the unattended installation with its production collaborators,
  and the timing of its verification loop.
\<close>

section \<open>Production\<close>

record 'w headless_host =
  hh_install :: "'w install_env"
  hh_rand :: "nat \<Rightarrow> string + string"
  hh_exec :: "string \<Rightarrow> string list \<Rightarrow> ('w, string \<times> string option) oper"
  hh_pull :: pull_codec
  hh_ps :: "string \<Rightarrow> ps_line option"
  hh_baseline :: string
  hh_overlay :: string
  hh_env_example :: string

definition default_ports :: "(string \<times> int) list" where
  "default_ports =
     [(''POSTGRES_PORT'', 5432), (''BACKEND_PORT'', 9090), (''WEBSOCKET_PORT'', 4550), (''WEB_PORT'', 8080),
      (''RTSP_PORT'', 8554), (''REDIS_PORT'', 6379), (''HLS_PORT'', 8888), (''HLS_PORT2'', 8889),
      (''RTMP_PORT'', 1935), (''MILVUS_PORT'', 19530), (''MILVUS_WEB_PORT'', 9091),
      (''MINIO_API_PORT'', 9000), (''MINIO_CONSOLE_PORT'', 9001)]"

definition default_udp_ports :: "(string \<times> int) list" where
  "default_udp_ports = [(''HLS_PORT3'', 8890), (''WEBRTC_ICE_PORT'', 8189)]"

definition error_only :: "('w, cmd_event, 'a \<times> string option) effect \<Rightarrow> ('w, cmd_event, string option) effect" where
  "error_only m c s = (case m c s of ((_, e), s1) \<Rightarrow> (e, s1))"

definition production_headless ::
  "'w headless_host \<Rightarrow> bootstrap_env \<Rightarrow> string \<Rightarrow> string \<Rightarrow> string \<Rightarrow> 'w headless_deps" where
  "production_headless h env media config workspace =
     (let e = hh_install h; docker = sudo_docker_runner (ie_runner e);
          stream = sudo_docker_streamer (ie_streamer e) in
      \<lparr>hd_preflight = production_preflight e media config workspace
         (tcp_port_values default_ports) (tcp_port_values default_udp_ports),
       hd_ports = net_port_scanner (ie_listen e), hd_generate = crypto_generate (hh_rand h),
       hd_writer = write_env (ie_fs e), hd_fs = ie_fs e,
       hd_baseline = hh_baseline h, hd_overlay = hh_overlay h, hd_env_example = hh_env_example h,
       hd_pull = (\<lambda>files env_file. error_only (compose_pull (hh_pull h) stream files env_file)),
       hd_up = (\<lambda>files env_file. error_only (compose_up stream files env_file)),
       hd_health = compose_health_status (hh_ps h) docker,
       hd_arch = detect_arch (ie_goarch e), hd_env = env,
       hd_workspace_dir = workspace, hd_media_dir = media, hd_config_dir = config,
       hd_tcp = default_ports, hd_udp = default_udp_ports, hd_exec = hh_exec h\<rparr>)"

section \<open>Effects of the stages\<close>

definition action_event :: "action \<Rightarrow> bool \<Rightarrow> install_event" where
  "action_event a ok = ActionRun (act_command a) (act_args a) ok"

text \<open>The actions are run in order and none after a failure.\<close>

lemma run_actions_grew:
  "run_actions d as s = (res, s') \<Longrightarrow>
   \<exists>done_as failed. grew s s' (map (\<lambda>a. action_event a True) done_as @ map (\<lambda>a. action_event a False) failed) \<and>
     prefix (done_as @ failed) as \<and> length failed \<le> 1 \<and> (res = None \<longleftrightarrow> failed = []) \<and>
     (res = None \<longrightarrow> done_as = as)"
proof (induction as arbitrary: s)
  case Nil
  then show ?case by (intro exI [of _ "[]"]) simp
next
  case (Cons a as)
  obtain printed e s1 where r: "run_action d a s = ((printed, e), s1)" by (metis prod.exhaust)
  have g: "grew s s1 [action_event a (e = None)]"
    using grew_call [OF r [unfolded run_action_def]] by (simp add: action_event_def)
  show ?case
  proof (cases e)
    case None
    with Cons.prems r have "run_actions d as s1 = (res, s')" by simp
    from Cons.IH [OF this] obtain done_as failed where
      ih: "grew s1 s' (map (\<lambda>a. action_event a True) done_as @ map (\<lambda>a. action_event a False) failed)"
        "prefix (done_as @ failed) as" "length failed \<le> 1" "(res = None) = (failed = [])"
        "res = None \<longrightarrow> done_as = as" by blast
    have "grew s s' (map (\<lambda>a. action_event a True) (a # done_as) @ map (\<lambda>a. action_event a False) failed)"
      using grew_trans [OF g ih(1)] None by simp
    with ih show ?thesis by (intro exI [of _ "a # done_as"] exI [of _ failed]) auto
  next
    case (Some x)
    with Cons.prems r have "res \<noteq> None" "s' = s1" by auto
    with g Some show ?thesis by (intro exI [of _ "[]"] exI [of _ "[a]"]) simp
  qed
qed

text \<open>A scan tests its ports in order; there is no conflict when all of them are free.\<close>

lemma port_conflicts_grew:
  assumes "\<And>q c s b s'. free q c s = (b, s') \<Longrightarrow> grew s s' [PortTest t q b]"
  shows "port_conflicts free label ps c s = (cs, s') \<Longrightarrow>
    \<exists>bs. length bs = length ps \<and> grew s s' (map2 (PortTest t) ps bs) \<and> (cs = [] \<longleftrightarrow> (\<forall>b \<in> set bs. b))"
proof (induction ps arbitrary: s cs)
  case Nil
  then show ?case by simp
next
  case (Cons p ps)
  obtain b s1 where f: "free p c s = (b, s1)" by fastforce
  obtain cs1 s2 where rest: "port_conflicts free label ps c s1 = (cs1, s2)" by fastforce
  from Cons.prems f rest have s2: "s2 = s'" "cs = (if b then cs1 else (label @ itoa p) # cs1)" by auto
  from Cons.IH [OF rest [unfolded s2]] obtain bs where
    ih: "length bs = length ps" "grew s1 s' (map2 (PortTest t) ps bs)" "(cs1 = []) = (\<forall>b \<in> set bs. b)" by blast
  from grew_trans [OF assms [OF f] ih(2)] have "grew s s' (map2 (PortTest t) (p # ps) (b # bs))" by simp
  with ih s2 show ?case by (intro exI [of _ "b # bs"]) auto
qed

definition all_free :: "transport \<Rightarrow> (string \<times> int) list \<Rightarrow> install_event list" where
  "all_free t m = map (\<lambda>p. PortTest t p True) (tcp_port_values m)"

lemma map2_all_true: "length bs = length ps \<Longrightarrow> \<forall>b \<in> set bs. b \<Longrightarrow> map2 f ps bs = map (\<lambda>p. f p True) ps"
  by (induction ps arbitrary: bs) (auto simp: length_Suc_conv)

fun is_port_test :: "install_event \<Rightarrow> bool" where
  "is_port_test (PortTest t p b) = True"
| "is_port_test e = False"

lemma map2_port_tests: "list_all is_port_test (map2 (PortTest t) ps bs)"
  by (auto simp: list_all_iff)

lemma headless_ports_grew:
  assumes "hd_ports d = net_port_scanner listen" and run: "headless_ports d c s = (res, s')"
  shows "\<exists>scan. grew s s' scan \<and> list_all is_port_test scan \<and>
    (res = None \<longrightarrow> scan = all_free TCP (hd_tcp d) @ all_free UDP (hd_udp d))"
proof -
  obtain tcp s1 where t: "port_conflicts (is_available (hd_ports d)) ''TCP '' (tcp_port_values (hd_tcp d)) c s = (tcp, s1)"
    by fastforce
  obtain udp s2 where u: "port_conflicts (is_udp_available (hd_ports d)) ''UDP '' (tcp_port_values (hd_udp d)) c s1 = (udp, s2)"
    by fastforce
  from port_conflicts_grew [OF _ t, of TCP] net_scanner_grew(1) assms(1) obtain bs where
    b: "length bs = length (tcp_port_values (hd_tcp d))" "grew s s1 (map2 (PortTest TCP) (tcp_port_values (hd_tcp d)) bs)"
      "(tcp = []) = (\<forall>b \<in> set bs. b)" by metis
  from port_conflicts_grew [OF _ u, of UDP] net_scanner_grew(2) assms(1) obtain bs2 where
    b2: "length bs2 = length (tcp_port_values (hd_udp d))" "grew s1 s2 (map2 (PortTest UDP) (tcp_port_values (hd_udp d)) bs2)"
      "(udp = []) = (\<forall>b \<in> set bs2. b)" by metis
  have "s' = s2" "res = None \<longleftrightarrow> tcp = [] \<and> udp = []"
    using run t u by (auto simp: headless_ports_def split: if_splits)
  with grew_trans [OF b(2) b2(2)] b b2 show ?thesis
    using map2_all_true [OF b(1)] map2_all_true [OF b2(1)]
    by (intro exI [of _ "map2 (PortTest TCP) (tcp_port_values (hd_tcp d)) bs @ map2 (PortTest UDP) (tcp_port_values (hd_udp d)) bs2"])
       (auto simp: all_free_def map2_port_tests)
qed

section \<open>The gate\<close>

text \<open>
  What the gate did: a probing preflight, the remedies it ran, and a second one; when it
  opened, the last preflight did not block.
\<close>

definition gate_ran ::
  "'w headless_deps \<Rightarrow> string list \<Rightarrow> ctx \<Rightarrow> 'w isys \<Rightarrow> 'w isys \<Rightarrow> install_event list \<Rightarrow> bool \<Rightarrow> bool" where
  "gate_ran d dirs c s s' es opened \<longleftrightarrow>
     (\<exists>first acts second.
        es = first @ acts @ second \<and> probing dirs first \<and> probing dirs second \<and>
        (acts \<noteq> [] \<longrightarrow> (\<exists>r s1. preflight_run (hd_preflight d) c s = (r, s1) \<and> has_blocking_failure r \<and>
           (\<forall>ev \<in> set acts. \<exists>item \<in> set (failing r). \<exists>a ok.
              remedy (hd_env d) (hd_media_dir d) (hd_config_dir d) (hd_workspace_dir d) item = Some a \<and>
              ev = action_event a ok))) \<and>
        (opened \<longrightarrow> (\<exists>s1 r. preflight_run (hd_preflight d) c s1 = (r, s') \<and> \<not> has_blocking_failure r)))"

lemma gate_ran_weaken: "gate_ran d dirs c s s' es True \<Longrightarrow> gate_ran d dirs c s s' es b"
  unfolding gate_ran_def by blast

lemma headless_gate_ran:
  assumes probes: "\<And>c s r s'. preflight_run (hd_preflight d) c s = (r, s') \<Longrightarrow> yields (probing dirs) s s'"
    and run: "headless_gate cfg d c s = (res, s')"
  shows "\<exists>es. grew s s' es \<and> gate_ran d dirs c s s' es (res = None)"
proof -
  obtain r s1 where 1: "preflight_run (hd_preflight d) c s = (r, s1)" by fastforce
  from probes [OF 1] obtain first where g1: "grew s s1 first" "probing dirs first" by (auto simp: yields_def)
  obtain fixable non where cl:
    "classify_blockers r (hd_env d) (hd_media_dir d) (hd_config_dir d) (hd_workspace_dir d) = (fixable, non)"
    by fastforce
  have only_first: "gate_ran d dirs c s s1 first False"
    unfolding gate_ran_def using g1 by (intro exI [of _ first] exI [of _ "[]"]) simp
  show ?thesis
  proof (cases "has_blocking_failure r \<and> non = [] \<and> fixable \<noteq> [] \<and> hc_accept_all cfg")
    case False
    with run 1 cl have "s' = s1" "res = None \<longrightarrow> \<not> has_blocking_failure r"
      by (auto simp: headless_gate_def split: if_splits)
    moreover have "gate_ran d dirs c s s1 first True" if "\<not> has_blocking_failure r"
      unfolding gate_ran_def using g1 1 that by (intro exI [of _ first] exI [of _ "[]"]) auto
    ultimately show ?thesis using g1 only_first by (cases "res = None") auto
  next
    case True
    obtain e s2 where 2: "run_actions d fixable s1 = (e, s2)" by fastforce
    obtain r3 s3 where 3: "preflight_run (hd_preflight d) c s2 = (r3, s3)" by fastforce
    from probes [OF 3] obtain second where g3: "grew s2 s3 second" "probing dirs second" by (auto simp: yields_def)
    from run_actions_grew [OF 2] obtain as bs where
      g2: "grew s1 s2 (map (\<lambda>a. action_event a True) as @ map (\<lambda>a. action_event a False) bs)"
      and pre: "prefix (as @ bs) fixable" by blast
    let ?acts = "map (\<lambda>a. action_event a True) as @ map (\<lambda>a. action_event a False) bs"
    have sub: "set (as @ bs) \<subseteq> set fixable" using pre by (auto simp: prefix_def)
    have rem: "\<exists>item \<in> set (failing r). \<exists>a ok.
        remedy (hd_env d) (hd_media_dir d) (hd_config_dir d) (hd_workspace_dir d) item = Some a \<and>
        ev = action_event a ok" if "ev \<in> set ?acts" for ev
    proof -
      from that obtain a ok where a: "a \<in> set (as @ bs)" "ev = action_event a ok" by auto
      with sub cl have "a \<in> set (List.map_filter
          (remedy (hd_env d) (hd_media_dir d) (hd_config_dir d) (hd_workspace_dir d)) (failing r))"
        by (simp add: classify_blockers_ranked set_ranked [symmetric]) (metis set_append subsetD UnCI)
      with a(2) show ?thesis by (auto simp: mem_map_filter)
    qed
    show ?thesis
    proof (cases e)
      case (Some x)
      with run 1 cl True 2 have "res = Some x" "s' = s2" by (auto simp: headless_gate_def)
      moreover have "gate_ran d dirs c s s2 (first @ ?acts @ []) False"
        unfolding gate_ran_def using g1 1 True rem
        by (intro exI [of _ first] exI [of _ ?acts] exI [of _ "[]"]) auto
      ultimately show ?thesis using grew_trans [OF g1(1) g2] by auto
    next
      case None
      with run 1 cl True 2 3 have "s' = s3" "(res = None) = (\<not> has_blocking_failure r3)"
        by (auto simp: headless_gate_def split: if_splits)
      moreover have "gate_ran d dirs c s s3 (first @ ?acts @ second) (\<not> has_blocking_failure r3)"
        unfolding gate_ran_def using g1 g3 1 3 True rem
        by (intro exI [of _ first] exI [of _ ?acts] exI [of _ second]) auto
      ultimately show ?thesis using grew_trans [OF g1(1) grew_trans [OF g2 g3(1)]] by auto
    qed
  qed
qed

section \<open>Writing, pulling, deploying\<close>

lemma invoking_single:
  assumes "\<And>s r s'. m c s = (r, s') \<Longrightarrow> grew s s' [ev r]"
    and "invoking m c s = (r, s')"
  shows "grew s s' [Invoked (ev r)]"
proof -
  let ?s = "\<lparr>world = world s, clock = clock s, trace = []\<rparr>"
  obtain r1 s1 where m: "m c ?s = (r1, s1)" by fastforce
  from assms(1) [OF m] have "trace s1 = [ev r1]" by (simp add: grew_def)
  with m assms(2) show ?thesis by (auto simp: invoking_def grew_def)
qed

definition health_args :: "string list \<Rightarrow> string \<Rightarrow> string list" where
  "health_args files env_path = base_args files env_path [''ps'', ''--format'', ''json'']"

fun is_health :: "string list \<Rightarrow> string \<Rightarrow> install_event \<Rightarrow> bool" where
  "is_health files env_path (Invoked (Ran name args ok)) = (name = ''docker'' \<and> args = health_args files env_path)"
| "is_health files env_path e = False"

lemma health_status_grew:
  assumes "compose_health_status um f files env_path c s = (r, s')"
  shows "\<exists>ok. grew s s' [Ran ''docker'' (health_args files env_path) ok] \<and> (\<not> isl r \<longrightarrow> ok)"
proof -
  obtain rc s1 where rc: "run_cmd f ''docker'' (health_args files env_path) c s = (rc, s1)" by fastforce
  note g = run_cmd_grew [OF rc]
  have "s' = s1 \<and> (\<not> isl r \<longrightarrow> cmd_err rc = None)"
    using assms rc by (auto simp: compose_health_status_def health_args_def split: option.splits)
  with g show ?thesis by blast
qed

lemma health_call_grew:
  assumes "hd_health d = compose_health_status um f" "health_call d files env_path c s = (r, s')"
  shows "\<exists>ok. grew s s' [Invoked (Ran ''docker'' (health_args files env_path) ok)] \<and> (\<not> isl r \<longrightarrow> ok)"
proof -
  let ?s = "\<lparr>world = world s, clock = clock s, trace = []\<rparr>"
  obtain r1 s1 where m: "hd_health d files env_path c ?s = (r1, s1)" by fastforce
  from health_status_grew [OF m [unfolded assms(1)]] obtain ok where
    "trace s1 = [Ran ''docker'' (health_args files env_path) ok]" "\<not> isl r1 \<longrightarrow> ok" by (auto simp: grew_def)
  with m assms(2) show ?thesis by (auto simp: health_call_def invoking_def grew_def intro!: exI [of _ ok])
qed

lemma sleep_grew: "grew s s1 es \<Longrightarrow> grew s (sleep n s1) es"
  by (auto simp: grew_def sleep_def)

lemma verify_loop_grew:
  assumes d: "hd_health d = compose_health_status um f"
  shows "verify_loop d files env_path interval timeout deadline c s = (res, s') \<Longrightarrow>
    \<exists>hs. grew s s' hs \<and> hs \<noteq> [] \<and> list_all (is_health files env_path) hs \<and>
      (res = None \<longrightarrow> last hs = Invoked (Ran ''docker'' (health_args files env_path) True))"
  using d
proof (induction d files env_path interval timeout deadline c s rule: verify_loop.induct)
  case (1 d files env_path interval timeout deadline c s)
  obtain r s1 where h: "health_call d files env_path c s = (r, s1)" by fastforce
  from health_call_grew [OF 1(4) h] obtain ok where
    g: "grew s s1 [Invoked (Ran ''docker'' (health_args files env_path) ok)]" "\<not> isl r \<longrightarrow> ok" by blast
  have again: ?case
    if rest: "verify_loop d files env_path interval timeout deadline c (sleep interval s1) = (res, s')"
      and ih: "\<exists>hs. grew (sleep interval s1) s' hs \<and> hs \<noteq> [] \<and> list_all (is_health files env_path) hs \<and>
        (res = None \<longrightarrow> last hs = Invoked (Ran ''docker'' (health_args files env_path) True))"
  proof -
    from ih obtain hs where hs: "grew (sleep interval s1) s' hs" "hs \<noteq> []"
      "list_all (is_health files env_path) hs"
      "res = None \<longrightarrow> last hs = Invoked (Ran ''docker'' (health_args files env_path) True)" by blast
    from grew_trans [OF sleep_grew [OF g(1)] hs(1)] hs show ?thesis
      by (intro exI [of _ "Invoked (Ran ''docker'' (health_args files env_path) ok) # hs"]) auto
  qed
  show ?case
  proof (cases "clock s < deadline")
    case False
    with 1(3) h have "s' = s1" "res \<noteq> None" by (auto simp: verify_loop.simps [of d _ _ _ _ _ _ s])
    with g(1) show ?thesis by (intro exI [of _ "[Invoked (Ran ''docker'' (health_args files env_path) ok)]"]) auto
  next
    case True
    show ?thesis
    proof (cases r)
      case (Inl e)
      with True h 1(3) have rest: "verify_loop d files env_path interval timeout deadline c (sleep interval s1) = (res, s')"
        by (simp add: verify_loop.simps [of d _ _ _ _ _ _ s])
      from 1(1) [OF True h [symmetric] Inl rest 1(4)] show ?thesis by (rule again [OF rest])
    next
      case (Inr st)
      show ?thesis
      proof (cases "all_ready st")
        case True
        with \<open>clock s < deadline\<close> Inr h 1(3) have "s' = s1" "res = None"
          by (auto simp: verify_loop.simps [of d _ _ _ _ _ _ s])
        with g Inr show ?thesis by (intro exI [of _ "[Invoked (Ran ''docker'' (health_args files env_path) ok)]"]) auto
      next
        case False
        with True Inr h 1(3) have rest: "verify_loop d files env_path interval timeout deadline c (sleep interval s1) = (res, s')"
          by (simp add: verify_loop.simps [of d _ _ _ _ _ _ s])
        from 1(2) [OF True h [symmetric] Inr False rest 1(4)] show ?thesis by (rule again [OF rest])
      qed
    qed
  qed
qed

text \<open>The file operations of a complete environment stage.\<close>

definition workspace_writes :: "'w headless_deps \<Rightarrow> string \<Rightarrow> install_event list" where
  "workspace_writes d rendered =
     (let env_path = workspace_file d ''.env'' in
      [FsEvent (FsMkdirAll (hd_workspace_dir d) 0x1ED) True, FsEvent (FsMkdirAll (path_dir env_path) 0x1C0) True,
       FsEvent (FsWriteFile (env_tmp env_path) rendered 0x180) True, FsEvent (FsRename (env_tmp env_path) env_path) True,
       FsEvent (FsWriteFile (workspace_file d ''docker-compose.yml'') (hd_baseline d) 0x1A4) True,
       FsEvent (FsWriteFile (workspace_file d ''docker-compose.gpu.yml'') (hd_overlay d) 0x1A4) True])"

fun is_fs_event :: "install_event \<Rightarrow> bool" where
  "is_fs_event (FsEvent fop ok) = True"
| "is_fs_event e = False"

lemma env_write_events_fs: "env_write_events path data ok es \<Longrightarrow> list_all is_fs_event es"
  by (auto simp: env_write_events_def Let_def split: if_splits)

lemma headless_env_write_grew:
  assumes w: "hd_writer d = write_env (hd_fs d)" and run: "headless_env_write cfg d s = (res, s')"
  shows "\<exists>ws. grew s s' ws \<and> list_all is_fs_event ws \<and>
    (res = None \<longrightarrow> (\<exists>rendered. render_env (hd_generate d) (hd_env_example d) (headless_input cfg d) = Inr rendered \<and>
       ws = workspace_writes d rendered))"
proof -
  obtain b1 s1 where 1: "fs_ok (hd_fs d) (FsMkdirAll (hd_workspace_dir d) 0x1ED) s = (b1, s1)" by fastforce
  note g1 = fs_ok_grew [OF 1]
  show ?thesis
  proof (cases "b1 \<and> (\<exists>rendered. render_env (hd_generate d) (hd_env_example d) (headless_input cfg d) = Inr rendered)")
    case False
    with run 1 have "s' = s1" "res \<noteq> None"
      by (auto simp: headless_env_write_def split: bool.splits sum.splits)
    with g1 show ?thesis by (intro exI [of _ "[FsEvent (FsMkdirAll (hd_workspace_dir d) 0x1ED) b1]"]) auto
  next
    case True
    then obtain rendered where b1: "b1" and r: "render_env (hd_generate d) (hd_env_example d) (headless_input cfg d) = Inr rendered"
      by blast
    obtain b2 s2 where 2: "write_env (hd_fs d) (workspace_file d ''.env'') rendered s1 = (b2, s2)" by fastforce
    from write_env_grew [OF 2] obtain ws where
      g2: "grew s1 s2 ws" "env_write_events (workspace_file d ''.env'') rendered b2 ws" by blast
    obtain b3 s3 where 3: "fs_ok (hd_fs d) (FsWriteFile (workspace_file d ''docker-compose.yml'') (hd_baseline d) 0x1A4) s2 = (b3, s3)"
      by fastforce
    obtain b4 s4 where 4: "fs_ok (hd_fs d) (FsWriteFile (workspace_file d ''docker-compose.gpu.yml'') (hd_overlay d) 0x1A4) s3 = (b4, s4)"
      by fastforce
    note g12 = grew_trans [OF g1 g2(1)]
    note g123 = grew_trans [OF g12 fs_ok_grew [OF 3]]
    note g1234 = grew_trans [OF g123 fs_ok_grew [OF 4], unfolded append_assoc]
    have fs: "list_all is_fs_event ws" by (rule env_write_events_fs [OF g2(2)])
    consider "\<not> b2" "s' = s2" "res \<noteq> None" | "\<not> b3" "s' = s3" "res \<noteq> None" | "b2" "b3" "s' = s4" "res = None \<longleftrightarrow> b4"
      using run 1 b1 r 2 3 4 w by (auto simp: headless_env_write_def split: bool.splits)
    then show ?thesis
    proof cases
      case 1
      with g12 fs show ?thesis by (intro exI [of _ "[FsEvent (FsMkdirAll (hd_workspace_dir d) 0x1ED) b1] @ ws"]) auto
    next
      case 2
      with g123 fs show ?thesis
        by (intro exI [of _ "([FsEvent (FsMkdirAll (hd_workspace_dir d) 0x1ED) b1] @ ws)
          @ [FsEvent (FsWriteFile (workspace_file d ''docker-compose.yml'') (hd_baseline d) 0x1A4) b3]"]) auto
    next
      case 3
      have "res = None \<Longrightarrow> [FsEvent (FsMkdirAll (hd_workspace_dir d) 0x1ED) b1] @ ws
          @ [FsEvent (FsWriteFile (workspace_file d ''docker-compose.yml'') (hd_baseline d) 0x1A4) b3]
          @ [FsEvent (FsWriteFile (workspace_file d ''docker-compose.gpu.yml'') (hd_overlay d) 0x1A4) b4]
          = workspace_writes d rendered"
        using 3 b1 g2(2) by (simp add: env_write_events_def workspace_writes_def Let_def)
      with 3 g1234 fs r show ?thesis
        by (intro exI [of _ "[FsEvent (FsMkdirAll (hd_workspace_dir d) 0x1ED) b1] @ ws
          @ [FsEvent (FsWriteFile (workspace_file d ''docker-compose.yml'') (hd_baseline d) 0x1A4) b3]
          @ [FsEvent (FsWriteFile (workspace_file d ''docker-compose.gpu.yml'') (hd_overlay d) 0x1A4) b4]"]) auto
    qed
  qed
qed

section \<open>The Compose commands\<close>

definition up_args :: "string list \<Rightarrow> string \<Rightarrow> string list" where
  "up_args files env_path = base_args files env_path [''up'', ''--detach'']"

definition deploy_events :: "bool \<Rightarrow> string list \<Rightarrow> string \<Rightarrow> bool \<Rightarrow> install_event list \<Rightarrow> bool" where
  "deploy_events deploy files env_path succeeds es \<longleftrightarrow>
     (if \<not> deploy then es = []
      else (\<not> succeeds \<and> es = [Invoked (Ran ''docker'' (up_args files env_path) False)]) \<or>
        (\<exists>hs. es = Invoked (Ran ''docker'' (up_args files env_path) True) # hs \<and> hs \<noteq> [] \<and>
           list_all (is_health files env_path) hs \<and>
           (succeeds \<longrightarrow> last hs = Invoked (Ran ''docker'' (health_args files env_path) True))))"

definition compose_events ::
  "headless_config \<Rightarrow> string list \<Rightarrow> string \<Rightarrow> bool \<Rightarrow> install_event list \<Rightarrow> bool" where
  "compose_events cfg files env_path succeeds es \<longleftrightarrow>
     (if hc_skip_pull cfg then deploy_events (hc_deploy cfg) files env_path succeeds es
      else (\<not> succeeds \<and> es = [Invoked (Ran ''docker'' (pull_args files env_path) False)]) \<or>
        (\<exists>rest. es = Invoked (Ran ''docker'' (pull_args files env_path) True) # rest \<and>
           deploy_events (hc_deploy cfg) files env_path succeeds rest))"

lemma headless_deploy_grew:
  assumes up: "hd_up d = (\<lambda>files env_file. error_only (compose_up f files env_file))"
    and h: "hd_health d = compose_health_status um g"
    and run: "headless_deploy cfg d files env_path c s = (res, s')"
  shows "\<exists>es. grew s s' es \<and> deploy_events (hc_deploy cfg) files env_path (res = None) es"
proof (cases "hc_deploy cfg")
  case False
  with run show ?thesis by (auto simp: headless_deploy_def deploy_events_def)
next
  case True
  obtain e s1 where u: "invoking (hd_up d files env_path) c s = (e, s1)" by fastforce
  have gu: "grew s s1 [Invoked (Ran ''docker'' (up_args files env_path) (e = None))]"
    by (rule invoking_single [OF _ u, of "\<lambda>e. Ran ''docker'' (up_args files env_path) (e = None)"])
       (auto simp: up error_only_def up_args_def split: prod.splits dest: compose_up_grew)
  show ?thesis
  proof (cases e)
    case (Some x)
    with True run u have "s' = s1" "res \<noteq> None" by (auto simp: headless_deploy_def)
    with gu Some True show ?thesis by (auto simp: deploy_events_def)
  next
    case None
    with True run u have "verify_loop d files env_path (poll_interval cfg) (verify_timeout cfg)
        (clock s1 + verify_timeout cfg) c s1 = (res, s')"
      by (simp add: headless_deploy_def headless_verify_def)
    from verify_loop_grew [OF h this] obtain hs where
      hs: "grew s1 s' hs" "hs \<noteq> []" "list_all (is_health files env_path) hs"
        "res = None \<longrightarrow> last hs = Invoked (Ran ''docker'' (health_args files env_path) True)" by blast
    from grew_trans [OF gu hs(1)] hs None True show ?thesis
      by (intro exI [of _ "Invoked (Ran ''docker'' (up_args files env_path) True) # hs"])
         (simp add: deploy_events_def)
  qed
qed

lemma headless_compose_grew:
  assumes pull: "hd_pull d = (\<lambda>files env_file. error_only (compose_pull k f files env_file))"
    and up: "hd_up d = (\<lambda>files env_file. error_only (compose_up f files env_file))"
    and h: "hd_health d = compose_health_status um g"
    and run: "(case headless_pull cfg d files env_path c s of
        (Some e, s4) \<Rightarrow> (Some e, s4) | (None, s4) \<Rightarrow> headless_deploy cfg d files env_path c s4) = (res, s')"
  shows "\<exists>es. grew s s' es \<and> compose_events cfg files env_path (res = None) es"
proof (cases "hc_skip_pull cfg")
  case True
  with run have "headless_deploy cfg d files env_path c s = (res, s')" by (simp add: headless_pull_def)
  from headless_deploy_grew [OF up h this] True show ?thesis by (simp add: compose_events_def)
next
  case False
  obtain e s1 where p: "invoking (hd_pull d files env_path) c s = (e, s1)" by fastforce
  have gp: "grew s s1 [Invoked (Ran ''docker'' (pull_args files env_path) (e = None))]"
    by (rule invoking_single [OF _ p, of "\<lambda>e. Ran ''docker'' (pull_args files env_path) (e = None)"])
       (auto simp: pull error_only_def split: prod.splits dest: compose_pull_grew)
  show ?thesis
  proof (cases e)
    case (Some x)
    with False run p have "s' = s1" "res \<noteq> None" by (auto simp: headless_pull_def)
    with gp Some False show ?thesis by (auto simp: compose_events_def)
  next
    case None
    with False run p have "headless_deploy cfg d files env_path c s1 = (res, s')" by (simp add: headless_pull_def)
    from headless_deploy_grew [OF up h this] obtain es where
      es: "grew s1 s' es" "deploy_events (hc_deploy cfg) files env_path (res = None) es" by blast
    from grew_trans [OF gp es(1)] es None False show ?thesis
      by (intro exI [of _ "Invoked (Ran ''docker'' (pull_args files env_path) True) # es"])
         (simp add: compose_events_def)
  qed
qed

section \<open>The whole run\<close>

text \<open>
  The effects of a run: the gate, the scan, and then, only when every check passed and
  every port is free, the workspace files and the Compose commands.
\<close>

definition run_effects ::
  "headless_config \<Rightarrow> 'w headless_deps \<Rightarrow> string list \<Rightarrow> ctx \<Rightarrow> 'w isys \<Rightarrow> bool \<Rightarrow> install_event list \<Rightarrow> bool" where
  "run_effects cfg d dirs c s succeeds es \<longleftrightarrow>
     (\<exists>gate scan writes commands s1.
        es = gate @ scan @ writes @ commands \<and> grew s s1 gate \<and> list_all is_port_test scan \<and>
        list_all is_fs_event writes \<and>
        gate_ran d dirs c s s1 gate (succeeds \<or> scan @ writes @ commands \<noteq> []) \<and>
        (succeeds \<or> writes @ commands \<noteq> [] \<longrightarrow> scan = all_free TCP (hd_tcp d) @ all_free UDP (hd_udp d)) \<and>
        (succeeds \<or> commands \<noteq> [] \<longrightarrow>
           (\<exists>rendered. render_env (hd_generate d) (hd_env_example d) (headless_input cfg d) = Inr rendered \<and>
              writes = workspace_writes d rendered) \<and>
           compose_events cfg (headless_files cfg d) (workspace_file d ''.env'') succeeds commands))"

lemma headless_run_effects:
  assumes probes: "\<And>c s r s'. preflight_run (hd_preflight d) c s = (r, s') \<Longrightarrow> yields (probing dirs) s s'"
    and ports: "hd_ports d = net_port_scanner listen" and w: "hd_writer d = write_env (hd_fs d)"
    and pull: "hd_pull d = (\<lambda>files env_file. error_only (compose_pull k f files env_file))"
    and up: "hd_up d = (\<lambda>files env_file. error_only (compose_up f files env_file))"
    and h: "hd_health d = compose_health_status um g"
    and run: "headless_run cfg d c s = (res, s')"
  shows "\<exists>es. grew s s' es \<and> run_effects cfg d dirs c s (res = None) es"
proof -
  obtain e1 s1 where 1: "headless_gate cfg d c s = (e1, s1)" by fastforce
  have "\<exists>es. grew s s1 es \<and> gate_ran d dirs c s s1 es (e1 = None)"
    by (rule headless_gate_ran [OF _ 1]) (rule probes)
  then obtain gate where
    g1: "grew s s1 gate" "gate_ran d dirs c s s1 gate (e1 = None)" by blast
  obtain e2 s2 where 2: "headless_ports d c s1 = (e2, s2)" by fastforce
  from headless_ports_grew [OF ports 2] obtain scan where
    g2: "grew s1 s2 scan" "list_all is_port_test scan"
      "e2 = None \<longrightarrow> scan = all_free TCP (hd_tcp d) @ all_free UDP (hd_udp d)" by blast
  obtain e3 s3 where 3: "headless_env_write cfg d s2 = (e3, s3)" by fastforce
  from headless_env_write_grew [OF w 3] obtain ws where
    g3: "grew s2 s3 ws" "list_all is_fs_event ws"
      "e3 = None \<longrightarrow> (\<exists>rendered. render_env (hd_generate d) (hd_env_example d) (headless_input cfg d) = Inr rendered \<and>
         ws = workspace_writes d rendered)" by blast
  note g12 = grew_trans [OF g1(1) g2(1)]
  note g123 = grew_trans [OF g12 g3(1)]
  show ?thesis
  proof (cases "e1 = None \<and> e2 = None \<and> e3 = None")
    case True
    with run 1 2 3 have "(case headless_pull cfg d (headless_files cfg d) (workspace_file d ''.env'') c s3 of
        (Some e, s4) \<Rightarrow> (Some e, s4)
      | (None, s4) \<Rightarrow> headless_deploy cfg d (headless_files cfg d) (workspace_file d ''.env'') c s4) = (res, s')"
      by (simp add: headless_run_def Let_def)
    from headless_compose_grew [OF pull up h this] obtain cs where
      cs: "grew s3 s' cs" "compose_events cfg (headless_files cfg d) (workspace_file d ''.env'') (res = None) cs" by blast
    have "run_effects cfg d dirs c s (res = None) (gate @ scan @ ws @ cs)"
      unfolding run_effects_def using g1 g2 g3 cs(2) True
      by - (rule exI [of _ gate], rule exI [of _ scan], rule exI [of _ ws], rule exI [of _ cs], rule exI [of _ s1], simp add: gate_ran_weaken)
    with grew_trans [OF g123 cs(1)] show ?thesis by auto
  next
    case False
    then consider "e1 \<noteq> None" | "e1 = None" "e2 \<noteq> None" | "e1 = None" "e2 = None" "e3 \<noteq> None"
      by (cases "e1 = None"; cases "e2 = None") simp_all
    then show ?thesis
    proof cases
      case 1
      with run \<open>headless_gate cfg d c s = (e1, s1)\<close> have "s' = s1" "res \<noteq> None" by (auto simp: headless_run_def)
      with g1 1 have "run_effects cfg d dirs c s (res = None) (gate @ [] @ [] @ [])"
        unfolding run_effects_def
        by - (rule exI [of _ gate], rule exI [of _ "[]"], rule exI [of _ "[]"], rule exI [of _ "[]"], rule exI [of _ s1], simp del: not_None_eq)
      with g1 \<open>s' = s1\<close> show ?thesis by auto
    next
      case 2
      with run \<open>headless_gate cfg d c s = (e1, s1)\<close> \<open>headless_ports d c s1 = (e2, s2)\<close>
      have "s' = s2" "res \<noteq> None" by (auto simp: headless_run_def)
      with g1 g2 2 have "run_effects cfg d dirs c s (res = None) (gate @ scan @ [] @ [])"
        unfolding run_effects_def
        by - (rule exI [of _ gate], rule exI [of _ scan], rule exI [of _ "[]"], rule exI [of _ "[]"], rule exI [of _ s1], simp add: gate_ran_weaken del: not_None_eq)
      with g12 \<open>s' = s2\<close> show ?thesis by auto
    next
      case 3
      with run \<open>headless_gate cfg d c s = (e1, s1)\<close> \<open>headless_ports d c s1 = (e2, s2)\<close>
        \<open>headless_env_write cfg d s2 = (e3, s3)\<close>
      have "s' = s3" "res \<noteq> None" by (auto simp: headless_run_def)
      with g1 g2 g3 3 have "run_effects cfg d dirs c s (res = None) (gate @ scan @ ws @ [])"
        unfolding run_effects_def
        by - (rule exI [of _ gate], rule exI [of _ scan], rule exI [of _ ws], rule exI [of _ "[]"], rule exI [of _ s1], simp add: gate_ran_weaken del: not_None_eq)
      with g123 \<open>s' = s3\<close> show ?thesis by auto
    qed
  qed
qed

section \<open>The time a verification takes\<close>

text \<open>
  Health reports that take at most \<open>slow\<close>, and that show every service ready from the
  moment \<open>ready\<close> on.
\<close>

definition prompt_health :: "'w headless_deps \<Rightarrow> string list \<Rightarrow> string \<Rightarrow> ctx \<Rightarrow> nat \<Rightarrow> bool" where
  "prompt_health d files env_path c slow \<longleftrightarrow>
     (\<forall>s. clock (snd (health_call d files env_path c s)) \<le> clock s + slow)"

definition ready_from :: "'w headless_deps \<Rightarrow> string list \<Rightarrow> string \<Rightarrow> ctx \<Rightarrow> nat \<Rightarrow> bool" where
  "ready_from d files env_path c ready \<longleftrightarrow>
     (\<forall>s. ready \<le> clock s \<longrightarrow>
        (case fst (health_call d files env_path c s) of Inl e \<Rightarrow> False | Inr hs \<Rightarrow> all_ready hs))"

lemma prompt_healthD: "prompt_health d files env_path c slow \<Longrightarrow> health_call d files env_path c s = (r, s1) \<Longrightarrow>
   clock s1 \<le> clock s + slow"
  by (metis prompt_health_def snd_conv)

text \<open>One round of the loop, with the round that follows it.\<close>

lemma verify_loop_cases:
  assumes "verify_loop d files env_path interval timeout deadline c s = (res, s')"
  obtains r s1 where "health_call d files env_path c s = (r, s1)" and
    "clock s < deadline \<and> (\<exists>hs. r = Inr hs \<and> all_ready hs) \<and> res = None \<and> s' = s1 \<or>
     clock s < deadline \<and> \<not> (\<exists>hs. r = Inr hs \<and> all_ready hs) \<and>
       verify_loop d files env_path interval timeout deadline c (sleep interval s1) = (res, s') \<or>
     deadline \<le> clock s \<and> res \<noteq> None \<and> s' = s1"
proof -
  obtain r s1 where h: "health_call d files env_path c s = (r, s1)" by fastforce
  show thesis
    by (rule that [OF h], use assms h in \<open>auto simp: verify_loop.simps [of d _ _ _ _ _ _ s]
        split: if_splits sum.splits\<close>)
qed

lemma verify_loop_returns_by:
  assumes p: "prompt_health d files env_path c slow"
  shows "verify_loop d files env_path interval timeout deadline c s = (res, s') \<Longrightarrow>
    clock s \<le> deadline + slow + max 1 interval \<Longrightarrow> clock s' \<le> deadline + 2 * slow + max 1 interval"
proof (induction "deadline - clock s" arbitrary: s rule: less_induct)
  case less
  from less.prems(1) show ?case
  proof (rule verify_loop_cases)
    fix r s1
    assume h: "health_call d files env_path c s = (r, s1)"
      and cases: "clock s < deadline \<and> (\<exists>hs. r = Inr hs \<and> all_ready hs) \<and> res = None \<and> s' = s1 \<or>
        clock s < deadline \<and> \<not> (\<exists>hs. r = Inr hs \<and> all_ready hs) \<and>
          verify_loop d files env_path interval timeout deadline c (sleep interval s1) = (res, s') \<or>
        deadline \<le> clock s \<and> res \<noteq> None \<and> s' = s1"
    note slow = prompt_healthD [OF p h] and forward = health_call_clock [OF h]
    have sl: "clock (sleep interval s1) = clock s1 + max 1 interval" by (simp add: sleep_def)
    show ?thesis
    proof (cases "clock s < deadline \<and> verify_loop d files env_path interval timeout deadline c (sleep interval s1) = (res, s')")
      case True
      have "deadline - clock (sleep interval s1) < deadline - clock s" using True forward sl by auto
      moreover have "clock (sleep interval s1) \<le> deadline + slow + max 1 interval" using True slow sl by auto
      ultimately show ?thesis using less.hyps True by blast
    next
      case False
      with cases have "s' = s1" by blast
      with slow less.prems(2) show ?thesis by auto
    qed
  qed
qed

lemma verify_loop_succeeds:
  assumes p: "prompt_health d files env_path c slow" and r: "ready_from d files env_path c ready"
  shows "verify_loop d files env_path interval timeout deadline c s = (res, s') \<Longrightarrow>
    clock s < deadline \<Longrightarrow> ready + slow + max 1 interval \<le> deadline \<Longrightarrow> res = None"
proof (induction "deadline - clock s" arbitrary: s rule: less_induct)
  case less
  from less.prems(1) show ?case
  proof (rule verify_loop_cases)
    fix reply s1
    assume h: "health_call d files env_path c s = (reply, s1)"
      and cases: "clock s < deadline \<and> (\<exists>hs. reply = Inr hs \<and> all_ready hs) \<and> res = None \<and> s' = s1 \<or>
        clock s < deadline \<and> \<not> (\<exists>hs. reply = Inr hs \<and> all_ready hs) \<and>
          verify_loop d files env_path interval timeout deadline c (sleep interval s1) = (res, s') \<or>
        deadline \<le> clock s \<and> res \<noteq> None \<and> s' = s1"
    note slow = prompt_healthD [OF p h] and forward = health_call_clock [OF h]
    have sl: "clock (sleep interval s1) = clock s1 + max 1 interval" by (simp add: sleep_def)
    show ?thesis
    proof (cases "\<exists>hs. reply = Inr hs \<and> all_ready hs")
      case True
      with cases less.prems(2) show ?thesis by auto
    next
      case False
      with cases less.prems(2) have rest: "verify_loop d files env_path interval timeout deadline c (sleep interval s1) = (res, s')"
        by auto
      have "\<not> ready \<le> clock s"
        using r False h by (cases reply) (auto simp: ready_from_def dest!: spec [of _ s])
      then have "clock (sleep interval s1) < deadline" using slow sl less.prems(3) by auto
      moreover have "deadline - clock (sleep interval s1) < deadline - clock s" using less.prems(2) forward sl by auto
      ultimately show ?thesis using less.hyps rest less.prems(3) by blast
    qed
  qed
qed

end
