(* ===== verification/InstallProperties.thy ===== *)
theory InstallProperties
  imports HeadlessSafety TargetEnv
begin

text \<open>
  Properties of the installation: the generated environment file, the preflight, the
  bootstrap and the unattended run.
\<close>

section \<open>The generated environment file\<close>


definition demo_ports :: ports_config where
  "demo_ports = \<lparr>postgres_port = 5432, backend_port = 9090, websocket_port = 4550, web_port = 8080,
     rtsp_port = 8554, redis_port = 6379, hls_port = 8888, hls_port2 = 8889, hls_port3 = 8890,
     webrtc_ice_port = 8189, rtmp_port = 1935, milvus_port = 19530, milvus_web_port = 9091,
     minio_api_port = 9000, minio_console_port = 9001\<rparr>"

definition no_contract :: ami_contract where
  "no_contract = \<lparr>ami_enabled = False, ami_host = [], ami_port = 0, ami_username = [],
     ami_password = [], ami_config_dir = []\<rparr>"

definition demo_input :: env_input where
  "demo_input = \<lparr>ei_workspace = ''alice'', ei_arch = ArchARM64, ei_ports = demo_ports,
     ei_generate_password = True, ei_password_override = [], ei_asterisk = no_contract\<rparr>"

definition demo_template :: string where
  "demo_template = ''# database'' @ [newline] @ ''POSTGRES_PORT=1'' @ [newline] @
     ''POSTGRES_PASSWORD='' @ [newline] @ ''HOST=x''"

definition demo_gen :: "nat \<Rightarrow> unit + string" where
  "demo_gen = crypto_generate (\<lambda>n. Inr (replicate n CHR ''a''))"

definition demo_env :: string where
  "demo_env = (case render_env demo_gen demo_template demo_input of Inr t \<Rightarrow> t | Inl _ \<Rightarrow> [])"

lemma demo_rendered: "render_env demo_gen demo_template demo_input = Inr demo_env"
proof -
  have "\<not> isl (render_env demo_gen demo_template demo_input)" by code_simp
  then show ?thesis by (auto simp: demo_env_def split: sum.splits)
qed

lemma demo_password: "render_password demo_gen demo_input = Inr (base64 (replicate 32 CHR ''a''))"
  by (simp add: render_password_def demo_input_def demo_gen_def crypto_generate_def)


section \<open>The generated file and its reader\<close>

lemma target_lines_all:
  "target_lines vs lines = Inr vs' \<Longrightarrow> l \<in> set lines \<Longrightarrow> \<exists>vs1 r. target_line vs1 l = Inr r"
proof (induction lines arbitrary: vs)
  case (Cons line lines)
  then obtain r where r: "target_line vs line = Inr r" by (cases "target_line vs line") auto
  with Cons.prems(1) obtain vs2 where "target_lines vs2 lines = Inr vs'"
    by (cases r) auto
  with Cons r show ?case by auto
qed simp

lemma target_line_equals:
  assumes "CHR ''='' \<in> set v"
  shows "target_line vs (''POSTGRES_PASSWORD='' @ v) = Inl ''target-env-malformed''"
proof -
  have "CHR ''P'' \<notin> space_bytes" unfolding space_bytes_def by code_simp
  from trim_space_Cons [OF this, of "''OSTGRES_PASSWORD='' @ v"] obtain cs where
    t: "trim_space (''POSTGRES_PASSWORD='' @ v) = CHR ''P'' # cs" by auto
  moreover have "cut_char CHR ''='' (''POSTGRES_PASSWORD='' @ v) = Some (''POSTGRES_PASSWORD'', v)"
    by simp
  ultimately show ?thesis using assms by (simp add: target_line_def Let_def)
qed

lemma rendered_line_in_file:
  assumes "l \<in> set (template_lines t)" "newline \<notin> set (render_line subs l)"
  shows "render_line subs l \<in> set (split_char newline (render_template subs t))"
proof -
  have "render_line subs l \<in> set (concat (map (split_char newline) (map (render_line subs) (template_lines t))))"
    using assms by (auto simp: split_char_single intro!: bexI [of _ l])
  moreover from assms(1) have "template_lines t \<noteq> []" by auto
  ultimately show ?thesis by (simp add: render_template_lines split_write_lines)
qed

text \<open>
  C30. The reader of the restore rejects every environment file the installer generates with
  a password of its own.  The generator encodes 32 bytes in base64, which pads the last
  group with an equals sign, and \<open>parseTargetEnv\<close> takes an equals sign in a value for a
  malformed line.
\<close>

theorem generated_env_rejected:
  assumes rand: "\<And>n b. rand n = Inr b \<Longrightarrow> length b = n"
    and rendered: "render_env (crypto_generate rand) template i = Inr text_out"
    and generated: "ei_generate_password i" "ei_password_override i = []"
    and template: "''POSTGRES_PASSWORD='' @ old \<in> set (template_lines template)"
  shows "\<exists>e. parse_target_env text_out = Inl e"
proof (rule ccontr)
  assume "\<nexists>e. parse_target_env text_out = Inl e"
  then obtain cfg where accepted: "parse_target_env text_out = Inr cfg"
    by (cases "parse_target_env text_out") auto
  from render_Inr [OF rendered] obtain pw where
    pw: "render_password (crypto_generate rand) i = Inr pw"
    and out: "text_out = render_template (substitutions i pw) template" by blast
  from pw generated obtain b where b: "rand 32 = Inr b" "pw = base64 b"
    by (auto simp: render_password_def crypto_generate_def split: sum.splits)
  with rand have eq: "CHR ''='' \<in> set pw" using base64_padding [of b] by simp
  have "substitutions i pw ''POSTGRES_PASSWORD'' = Some pw"
    by (simp add: substitutions_def map_add_def port_values_def asterisk_env_values_def Let_def
        split: option.splits)
  moreover have "\<exists>v. env_binding (''POSTGRES_PASSWORD='' @ old) = Some (''POSTGRES_PASSWORD'', v)"
  proof -
    have "trim_right_cr (''POSTGRES_PASSWORD='' @ old) = ''POSTGRES_PASSWORD='' @ trim_right_cr old"
      by (simp add: trim_right_cr_def dropWhile_append)
    then show ?thesis by (simp add: env_binding_def)
  qed
  ultimately have line: "render_line (substitutions i pw) (''POSTGRES_PASSWORD='' @ old) = ''POSTGRES_PASSWORD='' @ pw"
    by (auto simp: render_line_bound)
  have "newline \<notin> set (''POSTGRES_PASSWORD='' @ pw)"
    using base64_safe [of b] b by (simp add: line_safe_def)
  with rendered_line_in_file [OF template, of "substitutions i pw"] line
  have "''POSTGRES_PASSWORD='' @ pw \<in> set (split_char newline text_out)" by (simp add: out)
  moreover from accepted obtain vs where "target_lines Map.empty (split_char newline text_out) = Inr vs"
    by (auto simp: parse_target_env_def split: if_splits sum.splits)
  ultimately obtain vs1 r where "target_line vs1 (''POSTGRES_PASSWORD='' @ pw) = Inr r"
    using target_lines_all by metis
  with target_line_equals [OF eq] show False by simp
qed

lemma generated_env_rejected_witness: "\<exists>e. parse_target_env demo_env = Inl e"
proof (rule generated_env_rejected)
  show "render_env (crypto_generate (\<lambda>n. Inr (replicate n CHR ''a''))) demo_template demo_input =
      (Inr demo_env :: unit render_failure + string)"
    using demo_rendered by (simp add: demo_gen_def)
  show "''POSTGRES_PASSWORD='' @ [] \<in> set (template_lines demo_template)" by code_simp
qed (auto simp: demo_input_def)

section \<open>The preflight\<close>


definition quiet_runner :: "unit runner" where
  "quiet_runner name args c now w = (\<lparr>out = ''24.0.7'', err_out = [], cmd_err = None\<rparr>, 5, w)"

definition quiet_streamer :: "unit streamer" where
  "quiet_streamer name args c now w = (\<lparr>stream_lines = [], stream_err = None\<rparr>, 5, w)"

fun quiet_fs :: "unit fs" where
  "quiet_fs (FsStat path) c now w =
     (if path = ''/opt'' then (FsInfo \<lparr>fi_dir = True, fi_regular = False, fi_symlink = False, fi_mode = 493\<rparr>, 1, w)
      else (FsMissing ''no such file or directory'', 1, w))"
| "quiet_fs fop c now w = (FsDone, 1, w)"

definition demo_install_env :: "unit install_env" where
  "demo_install_env =
     \<lparr>ie_goos = ''linux'', ie_goarch = ''arm64'', ie_runner = quiet_runner, ie_streamer = quiet_streamer,
      ie_fs = quiet_fs, ie_listen = (\<lambda>t p c now w. (p \<noteq> 5432, 1, w)),
      ie_json = \<lparr>decode_version = (\<lambda>text_in. Inr (text_in, [text_in])),
        decode_info = (\<lambda>text_in. Inr \<lparr>di_server_version = text_in, di_architecture = [], di_operating_system = [],
          di_runtimes = [''runc'', ''nvidia'']\<rparr>)\<rparr>\<rparr>"

definition demo_preflight :: "unit preflight" where
  "demo_preflight =
     production_preflight demo_install_env ''/opt/media'' ''/opt/config'' ''/opt/ws'' [5432, 9090] [8890]"

definition idle :: "(unit, install_event) sys" where
  "idle = \<lparr>world = (), clock = 0, trace = []\<rparr>"


section \<open>The bootstrap\<close>

text \<open>
  C32. The classification of a preflight's failures is complete and without repetition.
  The fixable actions are exactly the remedies of the failing checks, each once, Docker's
  installation first and its start last; the rest are the failing checks without a remedy,
  in the order of the report.  A blocked preflight is left without either only when
  Docker's binary is missing and Compose alone failed.
\<close>

theorem blockers_classified:
  assumes run: "preflight_run p c s = (r, s')"
    and classified: "classify_blockers r env media config ws = (fixable, non_fixable)"
  shows "set fixable = {a. \<exists>item. item \<in> set (failing r) \<and> remedy env media config ws item = Some a} \<and>
    distinct (map act_id fixable) \<and> sorted (map action_rank fixable) \<and>
    non_fixable = filter (\<lambda>i. remedy env media config ws i = None \<and> \<not> subsumed env i) (failing r) \<and>
    (has_blocking_failure r \<and> fixable = [] \<and> non_fixable = [] \<longrightarrow>
       \<not> docker_binary_present env \<and> cr_id ` set (failing r) = {CheckComposeVersion})"
proof -
  let ?f = "remedy env media config ws"
  have listed: "fixable = ranked ?f 0 r @ ranked ?f 1 r @ ranked ?f 2 r"
    and non: "non_fixable = unremedied ?f env r"
    using classified by (simp_all add: classify_blockers_ranked)
  note shape = preflight_run_shape [OF run]
  have "distinct (map cr_id r)" using shape full_checks_distinct [of p] by simp
  note d = distinct_ranked [OF distinct_remedies [OF this]]
  have set_fix: "set fixable = {a. \<exists>item. item \<in> set (failing r) \<and> ?f item = Some a}"
    unfolding listed set_ranked by (auto simp: mem_map_filter)
  moreover have "\<not> docker_binary_present env \<and> cr_id ` set (failing r) = {CheckComposeVersion}"
    if blocked: "has_blocking_failure r" "fixable = []" "non_fixable = []"
  proof -
    have "failing r \<noteq> []"
      using blocked(1) by (auto simp: has_blocking_failure_def failing_def list_ex_iff filter_empty_conv)
    moreover have "\<not> docker_binary_present env \<and> cr_id item = CheckComposeVersion" if item: "item \<in> set (failing r)" for item
    proof -
      have "?f item = None" using set_fix blocked(2) item by (cases "?f item") auto
      moreover from this have "subsumed env item"
        using non [unfolded unremedied_def blocked(3), symmetric] item by (auto simp: filter_empty_conv)
      ultimately show ?thesis using shape item by (auto simp: subsumed_def failing_def advisory_def)
    qed
    ultimately show ?thesis by (cases "failing r") auto
  qed
  ultimately show ?thesis
    using d sorted_ranked [of ?f r] non by (simp add: listed unremedied_def)
qed

definition bare_host :: bootstrap_env where
  "bare_host = \<lparr>user_name = ''ana'', docker_binary_present = False, user_in_docker_group = False,
     systemd_present = True\<rparr>"

definition unwritable_preflight :: "unit preflight" where
  "unwritable_preflight = demo_preflight\<lparr>pf_docker_probe := (\<lambda>c s. (Some ''down'', s)),
     pf_writable := (\<lambda>path s. ((path = ''/opt/ws'', []), s))\<rparr>"

lemma blockers_classified_witness:
  "sorted (map action_rank (fst (classify_blockers (fst (preflight_run unwritable_preflight background idle))
     bare_host ''/opt/media'' ''/opt/config'' ''/opt/ws'')))"
  using blockers_classified [of unwritable_preflight background idle
      "fst (preflight_run unwritable_preflight background idle)" "snd (preflight_run unwritable_preflight background idle)"
      bare_host "''/opt/media''" "''/opt/config''" "''/opt/ws''"]
  by (cases "classify_blockers (fst (preflight_run unwritable_preflight background idle))
     bare_host ''/opt/media'' ''/opt/config'' ''/opt/ws''") simp

text \<open>
  Quoting is undone by a shell: whatever the arguments are, the command line that
  \<open>reexec\<close> hands to \<open>sg docker -c\<close> is split by a POSIX shell into exactly these arguments.
\<close>

theorem reexec_words:
  "case reexec look_path words of
     Inl e \<Rightarrow> \<exists>e'. look_path ''sg'' = Inl e' \<and> e = ''sg not found: '' @ e'
   | Inr (path, args) \<Rightarrow> look_path ''sg'' = Inr path \<and>
       (\<exists>line. args = [''sg'', ''docker'', ''-c'', line] \<and> sh_words False None line = Some words)"
  by (simp add: reexec_def sh_words_join split: sum.splits)

section \<open>The unattended installation\<close>

text \<open>
  C33. The unattended installation writes and deploys only behind its checks.  Whatever it
  returns, its effects are a preflight that probes, remedies of checks that failed in it, a
  second preflight, the tests of the required ports, the file operations of the workspace,
  and Compose commands, in this order.  No port is tested unless the last report had no
  blocking failure, no file is written unless every required port was just found free, and
  no image is pulled or service started unless all files are in place, the environment file
  among them as the rendered template.  A run without error did all of it, and when it
  deployed, ended with a health report.
\<close>

theorem headless_behind_checks:
  assumes run: "headless_run cfg (production_headless h env media config ws) c s = (res, s')"
  shows "\<exists>es. grew s s' es \<and>
    run_effects cfg (production_headless h env media config ws) (probed_dirs [media, config, ws]) c s (res = None) es"
proof (rule headless_run_effects [OF _ _ _ _ _ _ run])
  let ?d = "production_headless h env media config ws"
  show "preflight_run (hd_preflight ?d) c s = (r, s') \<Longrightarrow> yields (probing (probed_dirs [media, config, ws])) s s'"
    for c s r s'
    unfolding production_headless_def Let_def by (simp add: production_probes.run_yields)
qed (simp_all add: production_headless_def Let_def)

definition demo_headless_host :: "unit headless_host" where
  "demo_headless_host =
     \<lparr>hh_install = demo_install_env, hh_rand = (\<lambda>n. Inr (replicate n CHR ''a'')),
      hh_exec = (\<lambda>name args c now w. (([], None), 1, w)),
      hh_pull = \<lparr>decode_pull = (\<lambda>line. None), json_percent = (\<lambda>a b. 0), plain_percent = (\<lambda>line. None)\<rparr>,
      hh_ps = (\<lambda>line. None), hh_baseline = [], hh_overlay = [], hh_env_example = demo_template\<rparr>"

definition demo_headless :: "unit headless_deps" where
  "demo_headless = production_headless demo_headless_host bare_host ''/opt/media'' ''/opt/config'' ''/opt/ws''"

definition demo_config :: headless_config where
  "demo_config = \<lparr>hc_workspace_name = ''alice'', hc_accept_all = False, hc_deploy = True, hc_skip_pull = True,
     hc_gpu_detected = False, hc_verify_timeout = 0, hc_poll_interval = 0\<rparr>"

lemma headless_behind_checks_witness:
  "\<exists>es. grew idle (snd (headless_run demo_config demo_headless background idle)) es \<and>
     run_effects demo_config demo_headless (probed_dirs [''/opt/media'', ''/opt/config'', ''/opt/ws'']) background idle
       (fst (headless_run demo_config demo_headless background idle) = None) es"
  unfolding demo_headless_def by (rule headless_behind_checks) simp

text \<open>
  C34. The verification of a deployment always comes to an end, and it succeeds when the
  services come up in time.  If a health report takes at most \<open>slow\<close>, the loop returns within
  two reports and one pause of its deadline; and if all services are reported ready from
  some moment that leaves one report and one pause before the deadline, the result is a
  success.
\<close>

theorem verification_ends:
  assumes run: "headless_verify cfg d files env_path c s = (res, s')"
    and prompt: "prompt_health d files env_path c slow"
  shows "clock s' \<le> clock s + verify_timeout cfg + 2 * slow + poll_interval cfg \<and>
    (ready_from d files env_path c ready \<longrightarrow>
     ready + slow + poll_interval cfg \<le> clock s + verify_timeout cfg \<longrightarrow> res = None)"
proof -
  have pos: "max 1 (poll_interval cfg) = poll_interval cfg" "0 < verify_timeout cfg"
    by (auto simp: poll_interval_def verify_timeout_def second_def)
  note loop = run [unfolded headless_verify_def]
  from verify_loop_returns_by [OF prompt loop]
  have "clock s' \<le> clock s + verify_timeout cfg + 2 * slow + poll_interval cfg" by (simp add: pos del: One_nat_def)
  moreover have "res = None" if "ready_from d files env_path c ready"
    "ready + slow + poll_interval cfg \<le> clock s + verify_timeout cfg"
    using verify_loop_succeeds [OF prompt that(1) loop] that(2) pos by simp
  ultimately show ?thesis by blast
qed

text \<open>A host on which the services come up half a minute after the deployment.\<close>

definition booting_health :: "string list \<Rightarrow> string \<Rightarrow> (unit, cmd_event, string + service_health list) effect" where
  "booting_health files env_path c s =
     (Inr [\<lparr>sh_service = ''backend'', sh_container = ''b'', sh_status = ''healthy'',
            sh_state = (if clock s < 30 * second then ''created'' else ''running'')\<rparr>],
      s\<lparr>clock := clock s + second\<rparr>)"

definition booting_host :: "unit headless_deps" where
  "booting_host = demo_headless\<lparr>hd_health := booting_health\<rparr>"

lemma verification_ends_witness:
  "fst (headless_verify demo_config booting_host [] [] background idle) = None"
proof -
  have call: "health_call booting_host [] [] background s =
    (fst (booting_health [] [] background \<lparr>world = world s, clock = clock s, trace = []\<rparr>),
     \<lparr>world = world s, clock = clock s + second, trace = trace s\<rparr>)" for s
    by (simp add: health_call_def invoking_def booting_host_def booting_health_def)
  have "prompt_health booting_host [] [] background second"
    by (simp add: prompt_health_def call)
  moreover have "ready_from booting_host [] [] background (30 * second)"
    by (simp add: ready_from_def call booting_health_def all_ready_def is_ready_def)
  moreover have "30 * second + second + poll_interval demo_config \<le> clock idle + verify_timeout demo_config"
    by (simp add: poll_interval_def verify_timeout_def demo_config_def idle_def)
  ultimately show ?thesis
    using verification_ends [of demo_config booting_host "[]" "[]" background idle
        "fst (headless_verify demo_config booting_host [] [] background idle)"
        "snd (headless_verify demo_config booting_host [] [] background idle)" second "30 * second"] by simp
qed

end
