(* ===== verification/AsteriskConfig.thy ===== *)
theory AsteriskConfig
  imports EnvGen
begin

text \<open>
  The texts of \<open>internal/asterisk/templates.go\<close>: the rendered sections and environment,
  and the managed section of a configuration file, which is found by its two marker lines
  and replaced or removed without touching the rest.
\<close>

section \<open>Rendering\<close>

abbreviation nl :: string where "nl \<equiv> [CHR 0x0A]"

text \<open>\<open>renderAMIEnv\<close>: the seven variables in the order \<open>sort.Strings\<close> gives their names.\<close>

definition render_ami_env :: "ami_contract \<Rightarrow> string" where
  "render_ami_env contract =
     (let c = normalize_contract contract (ami_config_dir contract) in
      write_lines
        [''ASTERISK_AMI_HOST='' @ ami_host c, ''ASTERISK_AMI_PASSWORD='' @ ami_password c,
         ''ASTERISK_AMI_PORT='' @ itoa (ami_port c), ''ASTERISK_AMI_USERNAME='' @ ami_username c,
         ''ASTERISK_CONFIG_DIR='' @ ami_config_dir c, ''ASTERISK_ENABLED='' @ bool_text (ami_enabled c),
         ''ASTERISK_INTEGRATION_ENV='' @ ami_config_dir c @ ''/integration.env''])"

definition render_manager_ami_section :: "ami_contract \<Rightarrow> string" where
  "render_manager_ami_section contract =
     (let c = normalize_contract contract (ami_config_dir contract) in
      write_lines
        [''[general]'', ''enabled=yes'', ''webenabled=no'', ''bindaddr='' @ ami_host c,
         ''port='' @ itoa (ami_port c), [], ''['' @ ami_username c @ '']'',
         ''; username='' @ ami_username c, ''secret='' @ ami_password c,
         ''read=system,call,log,verbose,command,agent,user,config,dtmf,reporting,cdr,dialplan,originate'',
         ''write=system,call,command,agent,user,config,originate''])"

definition render_extensions_section :: string where
  "render_extensions_section =
     write_lines [''[alice-guardian]'', ''; Reserved context for Alice Guardian managed SIP resources.'']"

section \<open>The managed section\<close>

definition managed_begin :: "string \<Rightarrow> string" where
  "managed_begin name = ''; BEGIN alice-installer managed: '' @ name"

definition managed_end :: "string \<Rightarrow> string" where
  "managed_end name = ''; END alice-installer managed: '' @ name"

text \<open>\<open>strings.Index\<close>: what stands before and after the first occurrence.\<close>

fun index_str :: "string \<Rightarrow> string \<Rightarrow> (string \<times> string) option" where
  "index_str sub [] = (if sub = [] then Some ([], []) else None)"
| "index_str sub (c # cs) =
     (if prefix sub (c # cs) then Some ([], drop (length sub) (c # cs))
      else map_option (\<lambda>(a, b). (c # a, b)) (index_str sub cs))"

definition trim_right_nl :: "string \<Rightarrow> string" where
  "trim_right_nl s = rev (dropWhile (\<lambda>c. c = CHR 0x0A) (rev s))"

definition managed_section :: "string \<Rightarrow> string \<Rightarrow> string" where
  "managed_section name body = managed_begin name @ nl @ trim_right_nl body @ nl @ managed_end name @ nl"

definition skip_newline :: "string \<Rightarrow> string" where
  "skip_newline s = (case s of c # cs \<Rightarrow> if c = CHR 0x0A then cs else s | [] \<Rightarrow> [])"

definition replace_managed_section :: "string \<Rightarrow> string \<Rightarrow> string \<Rightarrow> string" where
  "replace_managed_section original name body =
     (let body_section = managed_section name body in
      case index_str (managed_begin name) original of
        None \<Rightarrow>
          (if original \<noteq> [] \<and> \<not> suffix nl original then original @ nl else original) @ body_section
      | Some (before, after) \<Rightarrow>
          (case index_str (managed_end name) (managed_begin name @ after) of
             None \<Rightarrow>
               (let kept = trim_right_nl before in (if kept \<noteq> [] then kept @ nl else kept) @ body_section)
           | Some (_, rest) \<Rightarrow> before @ body_section @ skip_newline rest))"

definition remove_managed_section :: "string \<Rightarrow> string \<Rightarrow> string" where
  "remove_managed_section original name =
     (case index_str (managed_begin name) original of
        None \<Rightarrow> original
      | Some (before, after) \<Rightarrow>
          (case index_str (managed_end name) (managed_begin name @ after) of
             None \<Rightarrow> original
           | Some (_, rest) \<Rightarrow> before @ skip_newline rest))"

section \<open>Occurrences\<close>

lemma index_str_None: "index_str sub s = None \<longleftrightarrow> \<not> sublist sub s"
proof (induction s)
  case (Cons c s)
  then show ?case by (auto simp: sublist_Cons_right)
qed auto

lemma index_str_SomeD: "index_str sub s = Some (a, b) \<Longrightarrow> s = a @ sub @ b"
proof (induction s arbitrary: a)
  case (Cons c s)
  then show ?case by (auto simp: prefix_def split: if_splits)
qed (auto split: if_splits)

text \<open>A string without line breaks cannot straddle one.\<close>

lemma sublist_line:
  assumes "CHR 0x0A \<notin> set sub" "sublist sub (a @ nl @ b)"
  shows "sublist sub a \<or> sublist sub b"
proof -
  from assms(2) obtain u v where uv: "a @ nl @ b = u @ sub @ v" by (auto simp: sublist_def)
  then consider w where "a = u @ w" "w @ nl @ b = sub @ v" | w where "a @ w = u" "nl @ b = w @ sub @ v"
    by (auto simp: append_eq_append_conv2)
  then show ?thesis
  proof cases
    case 1
    then consider x where "w = sub @ x" | x where "sub = w @ x" "nl @ b = x @ v"
      by (auto simp: append_eq_append_conv2)
    then show ?thesis
    proof cases
      case 1
      with \<open>a = u @ w\<close> show ?thesis by (auto simp: sublist_def)
    next
      case 2
      with assms(1) have "x = []" by (cases x) auto
      with 2 \<open>a = u @ w\<close> have "a = u @ sub @ []" by simp
      then have "sublist sub a" unfolding sublist_def by blast
      then show ?thesis ..
    qed
  next
    case 2
    show ?thesis
    proof (cases w)
      case Nil
      with 2 assms(1) have "sub = []" by (cases sub) auto
      then show ?thesis by simp
    next
      case (Cons d w')
      with 2 have "b = w' @ sub @ v" by simp
      then show ?thesis by (auto simp: sublist_def)
    qed
  qed
qed

lemma index_str_first:
  assumes "CHR 0x0A \<notin> set sub" "sub \<noteq> []" "\<not> sublist sub a" "a = [] \<or> suffix nl a"
  shows "index_str sub (a @ sub @ b) = Some (a, b)"
proof -
  have "\<not> sublist sub a \<Longrightarrow> a = [] \<or> suffix nl a \<Longrightarrow> index_str sub (a @ sub @ b) = Some (a, b)"
  proof (induction a)
    case Nil
    then show ?case using assms(2) by (cases sub) auto
  next
    case (Cons c a)
    have nopre: "\<not> prefix sub (c # a @ sub @ b)"
    proof
      assume pre: "prefix sub (c # a @ sub @ b)"
      from Cons.prems(2) obtain a0 where a0: "c # a = a0 @ nl" by (auto simp: suffix_def)
      from pre obtain r where "a0 @ nl @ sub @ b = sub @ r"
        using a0 by (metis append_Cons append_assoc prefixE)
      then consider x where "a0 = sub @ x" | x where "sub = a0 @ x" "nl @ sub @ b = x @ r"
        by (auto simp: append_eq_append_conv2)
      then show False
      proof cases
        case 1
        with a0 Cons.prems(1) show False by (auto simp: sublist_def)
      next
        case 2
        with assms(1) have "x = []" by (cases x) auto
        with 2 a0 Cons.prems(1) show False by (auto simp: sublist_def)
      qed
    qed
    have "\<not> sublist sub a" using Cons.prems(1) by (auto simp: sublist_Cons_right)
    moreover have "a = [] \<or> suffix nl a" using Cons.prems(2) by (cases a) (auto simp: suffix_Cons)
    ultimately show ?case using Cons.IH nopre by simp
  qed
  with assms(3,4) show ?thesis by blast
qed

section \<open>The section in its file\<close>

text \<open>A text before the section: it has no begin marker and ends a line.\<close>

definition before_section :: "string \<Rightarrow> string \<Rightarrow> bool" where
  "before_section name a \<longleftrightarrow> \<not> sublist (managed_begin name) a \<and> (a = [] \<or> suffix nl a)"

definition line_ended :: "string \<Rightarrow> string" where
  "line_ended s = (if s \<noteq> [] \<and> \<not> suffix nl s then s @ nl else s)"

lemma marker_lines:
  "newline \<notin> set name \<Longrightarrow> CHR 0x0A \<notin> set (managed_begin name) \<and> CHR 0x0A \<notin> set (managed_end name)"
  by (simp add: managed_begin_def managed_end_def)

lemma markers_nonempty: "managed_begin name \<noteq> []" "managed_end name \<noteq> []"
  by (simp_all add: managed_begin_def managed_end_def)

lemma end_not_in_begin: "\<not> sublist (managed_end name) (managed_begin name)"
proof
  assume "sublist (managed_end name) (managed_begin name)"
  then obtain u v where uv: "managed_begin name = u @ managed_end name @ v" by (auto simp: sublist_def)
  then have "length (managed_begin name) = length u + length (managed_end name) + length v" by simp
  then have "length u \<le> 2" by (simp add: managed_begin_def managed_end_def)
  then consider "u = []" | x where "u = [x]" | x y where "u = [x, y]"
    by (cases u; cases "tl u"; cases "tl (tl u)") auto
  then show False by cases (use uv in \<open>auto simp: managed_begin_def managed_end_def\<close>)
qed

lemma before_line_ended:
  assumes "newline \<notin> set name" "\<not> sublist (managed_begin name) a"
  shows "before_section name (line_ended a)"
  using assms sublist_line [of "managed_begin name" a "[]"] marker_lines [of name] markers_nonempty
  by (auto simp: before_section_def line_ended_def suffix_def)

lemma set_trim_right_nl: "sublist (trim_right_nl b) b"
proof -
  have "suffix (dropWhile (\<lambda>c. c = CHR 0x0A) (rev b)) (rev b)" by (rule suffix_dropWhile)
  then have "prefix (trim_right_nl b) b" by (simp add: trim_right_nl_def suffix_to_prefix)
  then show ?thesis by (rule prefix_imp_sublist)
qed

lemma find_section:
  assumes name: "newline \<notin> set name" and body: "\<not> sublist (managed_end name) body"
    and pre: "before_section name pre"
  shows "index_str (managed_begin name) (pre @ managed_section name body @ post) =
      Some (pre, nl @ trim_right_nl body @ nl @ managed_end name @ nl @ post)"
    and "index_str (managed_end name) (managed_begin name @ nl @ trim_right_nl body @ nl @ managed_end name @ nl @ post) =
      Some (managed_begin name @ nl @ trim_right_nl body @ nl, nl @ post)"
proof -
  note lines = marker_lines [OF name]
  show "index_str (managed_begin name) (pre @ managed_section name body @ post) =
      Some (pre, nl @ trim_right_nl body @ nl @ managed_end name @ nl @ post)"
    using index_str_first [of "managed_begin name" pre] lines markers_nonempty pre
    by (simp add: before_section_def managed_section_def)
  have inner: "\<not> sublist (managed_end name) (trim_right_nl body)"
    using body set_trim_right_nl [of body] sublist_order.order_trans by blast
  have "\<not> sublist (managed_end name) (managed_begin name @ nl @ trim_right_nl body @ nl @ [])"
    using sublist_line [of "managed_end name" "managed_begin name" "trim_right_nl body @ nl @ []"]
      sublist_line [of "managed_end name" "trim_right_nl body" "[]"] lines end_not_in_begin inner markers_nonempty
    by auto
  moreover have "suffix nl (managed_begin name @ nl @ trim_right_nl body @ nl)"
    by (simp add: suffix_def)
  ultimately show "index_str (managed_end name) (managed_begin name @ nl @ trim_right_nl body @ nl @ managed_end name @ nl @ post) =
      Some (managed_begin name @ nl @ trim_right_nl body @ nl, nl @ post)"
    using index_str_first [of "managed_end name" "managed_begin name @ nl @ trim_right_nl body @ nl" "nl @ post"]
      lines markers_nonempty by simp
qed

lemma replace_existing:
  assumes "newline \<notin> set name" "\<not> sublist (managed_end name) body" "before_section name pre"
  shows "replace_managed_section (pre @ managed_section name body @ post) name body' =
      pre @ managed_section name body' @ post"
    and "remove_managed_section (pre @ managed_section name body @ post) name = pre @ post"
  using find_section [OF assms]
  by (simp_all add: replace_managed_section_def remove_managed_section_def skip_newline_def Let_def)

lemma replace_absent:
  assumes "\<not> sublist (managed_begin name) original"
  shows "replace_managed_section original name body = line_ended original @ managed_section name body"
  using assms index_str_None [of "managed_begin name" original]
  by (simp add: replace_managed_section_def line_ended_def Let_def)

end
