(* ===== verification/Asterisk.thy ===== *)
theory Asterisk
  imports AsteriskConfig
begin

text \<open>
  \<open>internal/asterisk\<close>: the host detector, the installer with its snapshot and its rollback
  (\<open>installer.go\<close>), and the production implementations of its interfaces
  (\<open>production.go\<close> and the file stores).  Every call to an interface leaves an event with
  what it returned, so that a trace says what the host was asked to do.
\<close>

section \<open>The host\<close>

datatype package_manager = PmUnknown | PmAPT | PmDNF | PmYUM | PmPacman

record host_state =
  hs_os :: string
  hs_package_manager :: package_manager
  hs_systemd :: bool

definition no_package_manager :: string where
  "no_package_manager =
     ''unsupported Linux host: install apt, dnf, yum, or pacman before selecting Asterisk''"

definition only_linux :: string where
  "only_linux = ''Asterisk setup is supported only on Linux hosts''"

definition needs_systemd :: string where
  "needs_systemd = ''unsupported Linux host: systemd is required to manage the asterisk service''"

text \<open>The detected state, and the reason when the host is unsupported.\<close>

definition host_detect :: "string \<Rightarrow> (string \<Rightarrow> bool) \<Rightarrow> host_state \<times> string option" where
  "host_detect goos look_path =
     (if goos \<noteq> ''linux''
      then (\<lparr>hs_os = goos, hs_package_manager = PmUnknown, hs_systemd = False\<rparr>, Some only_linux)
      else
        let pm = (case find (\<lambda>(binary, kind). look_path binary)
                    [(''apt-get'', PmAPT), (''dnf'', PmDNF), (''yum'', PmYUM), (''pacman'', PmPacman)] of
                    None \<Rightarrow> PmUnknown | Some (binary, kind) \<Rightarrow> kind)
        in if pm = PmUnknown
           then (\<lparr>hs_os = goos, hs_package_manager = pm, hs_systemd = False\<rparr>, Some no_package_manager)
           else if \<not> look_path ''systemctl''
           then (\<lparr>hs_os = goos, hs_package_manager = pm, hs_systemd = False\<rparr>, Some needs_systemd)
           else (\<lparr>hs_os = goos, hs_package_manager = pm, hs_systemd = True\<rparr>, None))"

definition host_validate :: "host_state \<Rightarrow> string option" where
  "host_validate h =
     (if hs_os h \<noteq> ''linux'' then Some only_linux
      else if hs_package_manager h = PmUnknown then Some no_package_manager
      else if \<not> hs_systemd h then Some needs_systemd
      else None)"

section \<open>Snapshots, interfaces and events\<close>

record resource_entry =
  re_path :: string
  re_mode :: nat
  re_dir :: bool
  re_symlink :: bool
  re_target :: string
  re_content :: string

record bundle_snapshot =
  bs_root :: string
  bs_exists :: bool
  bs_entries :: "resource_entry list"

record config_snapshot =
  cs_path :: string
  cs_content :: string
  cs_exists :: bool

record install_snapshot =
  is_package :: bool
  is_enabled :: bool
  is_active :: bool
  is_configs :: "config_snapshot list"
  is_resources :: bundle_snapshot

text \<open>Queries with their answer (\<open>None\<close> for an error), changes with whether they succeeded.\<close>

datatype asterisk_event =
    AskDetect "host_state option"
  | AskInstalled "bool option"
  | AskEnabled "bool option"
  | AskActive "bool option"
  | AskConfig string "(string \<times> bool) option"
  | AskBundle string "bundle_snapshot option"
  | AskAMI bool
  | DoInstall bool
  | DoRemove bool
  | DoWrite string string bool
  | DoDelete string bool
  | DoCreate string ami_contract bool
  | DoRestore bundle_snapshot bool
  | DoEnable bool
  | DoRestart bool
  | DoDisable bool
  | DoStop bool

type_synonym 'w asys = "('w, asterisk_event) sys"

text \<open>The interfaces; \<open>ad_complete\<close> says that none of them is nil.  An error is its text.\<close>

record 'w asterisk_deps =
  ad_complete :: bool
  ad_detect :: "('w, host_state \<times> string option) oper"
  ad_is_installed :: "string \<Rightarrow> ('w, string + bool) oper"
  ad_install :: "string \<Rightarrow> ('w, string option) oper"
  ad_remove :: "string \<Rightarrow> ('w, string option) oper"
  ad_is_enabled :: "string \<Rightarrow> ('w, string + bool) oper"
  ad_is_active :: "string \<Rightarrow> ('w, string + bool) oper"
  ad_enable :: "string \<Rightarrow> ('w, string option) oper"
  ad_restart :: "string \<Rightarrow> ('w, string option) oper"
  ad_disable :: "string \<Rightarrow> ('w, string option) oper"
  ad_stop :: "string \<Rightarrow> ('w, string option) oper"
  ad_read :: "string \<Rightarrow> ('w, string + string \<times> bool) oper"
  ad_write :: "string \<Rightarrow> string \<Rightarrow> ('w, string option) oper"
  ad_delete :: "string \<Rightarrow> ('w, string option) oper"
  ad_bundle :: "string \<Rightarrow> ('w, string + bundle_snapshot) oper"
  ad_create :: "string \<Rightarrow> ami_contract \<Rightarrow> ('w, string option) oper"
  ad_restore :: "bundle_snapshot \<Rightarrow> ('w, string option) oper"
  ad_verify :: "string \<Rightarrow> int \<Rightarrow> string \<Rightarrow> string \<Rightarrow> ('w, string option) oper"

definition answer :: "string + 'a \<Rightarrow> 'a option" where
  "answer r = (case r of Inl e \<Rightarrow> None | Inr x \<Rightarrow> Some x)"

definition ask :: "('a option \<Rightarrow> asterisk_event) \<Rightarrow> ('w, string + 'a) oper \<Rightarrow> ctx \<Rightarrow> 'w asys \<Rightarrow> (string + 'a) \<times> 'w asys" where
  "ask ev f c s = call (\<lambda>r. ev (answer r)) f c s"

definition change :: "(bool \<Rightarrow> asterisk_event) \<Rightarrow> ('w, string option) oper \<Rightarrow> ctx \<Rightarrow> 'w asys \<Rightarrow> string option \<times> 'w asys" where
  "change ev f c s = call (\<lambda>r. ev (r = None)) f c s"

section \<open>The installer\<close>

definition asterisk_service :: string where "asterisk_service = ''asterisk''"
definition manager_config_path :: string where "manager_config_path = ''/etc/asterisk/manager.conf''"
definition extensions_config_path :: string where "extensions_config_path = ''/etc/asterisk/extensions.conf''"

definition optional_setup_error :: "string \<Rightarrow> string \<Rightarrow> string" where
  "optional_setup_error stage e = ''asterisk optional setup failed during '' @ stage @ '': '' @ e"

fun snapshot_configs ::
  "'w asterisk_deps \<Rightarrow> string list \<Rightarrow> ctx \<Rightarrow> 'w asys \<Rightarrow> (string + config_snapshot list) \<times> 'w asys" where
  "snapshot_configs d [] c s = (Inr [], s)"
| "snapshot_configs d (path # paths) c s =
     (case ask (AskConfig path) (ad_read d path) background s of
        (Inl e, s1) \<Rightarrow> (Inl e, s1)
      | (Inr (content, there), s1) \<Rightarrow>
          (case snapshot_configs d paths c s1 of
             (Inl e, s2) \<Rightarrow> (Inl e, s2)
           | (Inr saved, s2) \<Rightarrow>
               (Inr (\<lparr>cs_path = path, cs_content = content, cs_exists = there\<rparr> # saved), s2)))"

definition take_snapshot ::
  "'w asterisk_deps \<Rightarrow> string \<Rightarrow> ctx \<Rightarrow> 'w asys \<Rightarrow> (string + install_snapshot) \<times> 'w asys" where
  "take_snapshot d root c s =
     (case ask AskInstalled (ad_is_installed d asterisk_service) c s of
        (Inl e, s1) \<Rightarrow> (Inl e, s1)
      | (Inr installed, s1) \<Rightarrow>
     (case ask AskEnabled (ad_is_enabled d asterisk_service) c s1 of
        (Inl e, s2) \<Rightarrow> (Inl e, s2)
      | (Inr enabled, s2) \<Rightarrow>
     (case ask AskActive (ad_is_active d asterisk_service) c s2 of
        (Inl e, s3) \<Rightarrow> (Inl e, s3)
      | (Inr active, s3) \<Rightarrow>
     (case snapshot_configs d [manager_config_path, extensions_config_path] c s3 of
        (Inl e, s4) \<Rightarrow> (Inl e, s4)
      | (Inr configs, s4) \<Rightarrow>
     (case ask (AskBundle root) (ad_bundle d root) background s4 of
        (Inl e, s5) \<Rightarrow> (Inl e, s5)
      | (Inr resources, s5) \<Rightarrow>
          (Inr \<lparr>is_package = installed, is_enabled = enabled, is_active = active, is_configs = configs,
                is_resources = resources\<rparr>, s5))))))"

text \<open>
  \<open>validateExistingManagerConfig\<close>: the bind addresses outside the managed section.  A
  line that does not fit the scanner's buffer is its error.
\<close>

definition bind_error :: string where
  "bind_error = ''existing AMI bindaddr must be '' @ default_ami_host
     @ '' before alice-installer can manage Asterisk safely''"

definition equal_fold_bindaddr :: "string \<Rightarrow> bool" where
  "equal_fold_bindaddr key \<longleftrightarrow> map ascii_lower key = ''bindaddr''"

fun manager_lines :: "bool \<Rightarrow> string list \<Rightarrow> string option" where
  "manager_lines in_managed [] = None"
| "manager_lines in_managed (raw # lines) =
     (if length raw \<ge> 64 * 1024 then Some ''bufio.Scanner: token too long''
      else
        let line = trim_space raw in
        if line = managed_begin ''ami'' then manager_lines True lines
        else if line = managed_end ''ami'' then manager_lines False lines
        else if in_managed \<or> line = [] \<or> prefix '';'' line \<or> prefix ''#'' line
        then manager_lines in_managed lines
        else (case cut_char CHR ''='' line of
          None \<Rightarrow> manager_lines in_managed lines
        | Some (key, value) \<Rightarrow>
            if equal_fold_bindaddr (trim_space key) \<and> trim_space value \<noteq> default_ami_host
            then Some bind_error
            else manager_lines in_managed lines))"

definition validate_existing_manager_config :: "string \<Rightarrow> string option" where
  "validate_existing_manager_config content = manager_lines False (split_char CHR 0x0A content)"

definition write_managed_configs ::
  "'w asterisk_deps \<Rightarrow> ami_contract \<Rightarrow> 'w asys \<Rightarrow> string option \<times> 'w asys" where
  "write_managed_configs d contract s =
     (case ask (AskConfig manager_config_path) (ad_read d manager_config_path) background s of
        (Inl e, s1) \<Rightarrow> (Some e, s1)
      | (Inr (manager, _), s1) \<Rightarrow>
     (case validate_existing_manager_config manager of
        Some e \<Rightarrow> (Some e, s1)
      | None \<Rightarrow>
     let manager' = replace_managed_section manager ''ami'' (render_manager_ami_section contract) in
     (case change (DoWrite manager_config_path manager') (ad_write d manager_config_path manager') background s1 of
        (Some e, s2) \<Rightarrow> (Some e, s2)
      | (None, s2) \<Rightarrow>
     (case ask (AskConfig extensions_config_path) (ad_read d extensions_config_path) background s2 of
        (Inl e, s3) \<Rightarrow> (Some e, s3)
      | (Inr (extensions, _), s3) \<Rightarrow>
          let extensions' = replace_managed_section extensions ''extensions'' render_extensions_section in
          change (DoWrite extensions_config_path extensions') (ad_write d extensions_config_path extensions')
            background s3))))"

fun restore_configs :: "'w asterisk_deps \<Rightarrow> config_snapshot list \<Rightarrow> 'w asys \<Rightarrow> 'w asys" where
  "restore_configs d [] s = s"
| "restore_configs d (saved # rest) s =
     restore_configs d rest
       (snd (if cs_exists saved
             then change (DoWrite (cs_path saved) (cs_content saved)) (ad_write d (cs_path saved) (cs_content saved))
                    background s
             else change (DoDelete (cs_path saved)) (ad_delete d (cs_path saved)) background s))"

definition rollback_host :: "'w asterisk_deps \<Rightarrow> install_snapshot \<Rightarrow> bool \<Rightarrow> ctx \<Rightarrow> 'w asys \<Rightarrow> 'w asys" where
  "rollback_host d snap installed_by_us c s =
     (let s1 = snd (change (DoRestore (is_resources snap)) (ad_restore d (is_resources snap)) background s);
          s2 = restore_configs d (is_configs snap) s1;
          s3 = (if is_active snap then s2 else snd (change DoStop (ad_stop d asterisk_service) c s2));
          s4 = (if is_enabled snap then s3 else snd (change DoDisable (ad_disable d asterisk_service) c s3))
      in if installed_by_us \<and> \<not> is_package snap
         then snd (change DoRemove (ad_remove d asterisk_service) c s4) else s4)"

record asterisk_options =
  ao_enabled :: bool
  ao_config_root :: string
  ao_ami :: ami_contract

record asterisk_result =
  ar_installed :: bool
  ar_endpoint :: string
  ar_resources :: string

definition no_asterisk :: asterisk_result where
  "no_asterisk = \<lparr>ar_installed = False, ar_endpoint = [], ar_resources = []\<rparr>"

text \<open>The steps after the package is there, each with its stage; the first failure ends them.\<close>

definition configure_host ::
  "'w asterisk_deps \<Rightarrow> ami_contract \<Rightarrow> ctx \<Rightarrow> 'w asys \<Rightarrow> (string \<times> string) option \<times> 'w asys" where
  "configure_host d contract c s =
     (case write_managed_configs d contract s of
        (Some e, s1) \<Rightarrow> (Some (''configuration'', e), s1)
      | (None, s1) \<Rightarrow>
     (case change (DoCreate (ami_config_dir contract) contract) (ad_create d (ami_config_dir contract) contract)
             background s1 of
        (Some e, s2) \<Rightarrow> (Some (''shared resources'', e), s2)
      | (None, s2) \<Rightarrow>
     (case change DoEnable (ad_enable d asterisk_service) c s2 of
        (Some e, s3) \<Rightarrow> (Some (''service enable'', e), s3)
      | (None, s3) \<Rightarrow>
     (case change DoRestart (ad_restart d asterisk_service) c s3 of
        (Some e, s4) \<Rightarrow> (Some (''service restart'', e), s4)
      | (None, s4) \<Rightarrow>
     (case change AskAMI (ad_verify d (ami_host contract) (ami_port contract) (ami_username contract)
             (ami_password contract)) c s4 of
        (Some e, s5) \<Rightarrow> (Some (''ami verification'', e), s5)
      | (None, s5) \<Rightarrow> (None, s5))))))"

definition asterisk_changes ::
  "'w asterisk_deps \<Rightarrow> ami_contract \<Rightarrow> install_snapshot \<Rightarrow> ctx \<Rightarrow> 'w asys \<Rightarrow> (string + asterisk_result) \<times> 'w asys" where
  "asterisk_changes d contract snap c s =
     (case (if is_package snap then (None, s) else change DoInstall (ad_install d asterisk_service) c s) of
        (Some e, s1) \<Rightarrow> (Inl (optional_setup_error ''package install'' e), s1)
      | (None, s1) \<Rightarrow>
          (case configure_host d contract c s1 of
             (Some (stage, e), s2) \<Rightarrow>
               (Inl (optional_setup_error stage e), rollback_host d snap (\<not> is_package snap) c s2)
           | (None, s2) \<Rightarrow>
               (Inr \<lparr>ar_installed = True,
                     ar_endpoint = ami_host contract @ '':'' @ itoa (ami_port contract),
                     ar_resources = ami_config_dir contract\<rparr>, s2)))"

text \<open>The set-up behind the validation of its options.\<close>

definition asterisk_setup ::
  "'w asterisk_deps \<Rightarrow> ami_contract \<Rightarrow> ctx \<Rightarrow> 'w asys \<Rightarrow> (string + asterisk_result) \<times> 'w asys" where
  "asterisk_setup d contract c s =
     (case call (\<lambda>(h, e). AskDetect (if e = None then Some h else None)) (ad_detect d) c s of
        ((_, Some e), s1) \<Rightarrow> (Inl e, s1)
      | ((h, None), s1) \<Rightarrow>
          (case host_validate h of
             Some e \<Rightarrow> (Inl e, s1)
           | None \<Rightarrow>
               (case take_snapshot d (ami_config_dir contract) c s1 of
                  (Inl e, s2) \<Rightarrow> (Inl (optional_setup_error ''host snapshot'' e), s2)
                | (Inr snap, s2) \<Rightarrow> asterisk_changes d contract snap c s2)))"

definition asterisk_install ::
  "'w asterisk_deps \<Rightarrow> asterisk_options \<Rightarrow> ctx \<Rightarrow> 'w asys \<Rightarrow> (string + asterisk_result) \<times> 'w asys" where
  "asterisk_install d opts c s =
     (if \<not> ao_enabled opts then (Inr no_asterisk, s)
      else if \<not> ad_complete d then (Inl ''asterisk installer dependencies are incomplete'', s)
      else
        let contract = normalize_contract (ao_ami opts) (ao_config_root opts) in
        if ami_username contract = [] \<or> ami_password contract = []
        then (Inl (optional_setup_error ''credential validation'' ''AMI username and password are required''), s)
        else if ami_host contract \<noteq> default_ami_host
        then (Inl (optional_setup_error ''ami configuration''
                (''AMI must bind to '' @ default_ami_host @ '', got '' @ ami_host contract)), s)
        else if ami_port contract \<noteq> default_ami_port
        then (Inl (optional_setup_error ''ami configuration''
                (''AMI must listen on port '' @ itoa default_ami_port @ '', got '' @ itoa (ami_port contract))), s)
        else
          asterisk_setup d contract c s)"

end
