(* ===== verification/AsteriskSafety.thy ===== *)
theory AsteriskSafety
  imports Asterisk
begin

text \<open>
  What a failed Asterisk set-up leaves behind.  A host is what the interfaces let one see;
  the step relation says what a documented operation does to it, failures included, and a
  trace is replayed on it.
\<close>

section \<open>Hosts\<close>

record host_view =
  hv_package :: bool
  hv_enabled :: bool
  hv_active :: bool
  hv_configs :: "string \<Rightarrow> string option"
  hv_bundle :: bundle_snapshot

text \<open>
  Answers are true.  A change that succeeded has its effect.  A failed write or bundle
  operation may leave anything in its place, a failed restart may leave the service in any
  state, and installing a package may bring configuration files and services with it.
\<close>

fun host_step :: "asterisk_event \<Rightarrow> host_view \<Rightarrow> host_view \<Rightarrow> bool" where
  "host_step (AskDetect r) h h' = (h' = h)"
| "host_step (AskInstalled r) h h' = (h' = h \<and> (r = None \<or> r = Some (hv_package h)))"
| "host_step (AskEnabled r) h h' = (h' = h \<and> (r = None \<or> r = Some (hv_enabled h)))"
| "host_step (AskActive r) h h' = (h' = h \<and> (r = None \<or> r = Some (hv_active h)))"
| "host_step (AskConfig p r) h h' =
     (h' = h \<and> (case r of
        None \<Rightarrow> True
      | Some (content, there) \<Rightarrow> hv_configs h p = (if there then Some content else None)))"
| "host_step (AskBundle root r) h h' = (h' = h \<and> (r = None \<or> r = Some (hv_bundle h)))"
| "host_step (AskAMI ok) h h' = (h' = h)"
| "host_step (DoInstall ok) h h' =
     (hv_bundle h' = hv_bundle h \<and> (ok \<longrightarrow> hv_package h') \<and> (hv_enabled h \<longrightarrow> hv_enabled h'))"
| "host_step (DoRemove ok) h h' = (h' = (if ok then h\<lparr>hv_package := False\<rparr> else h))"
| "host_step (DoWrite p t ok) h h' =
     (\<exists>v. h' = h\<lparr>hv_configs := (hv_configs h)(p := v)\<rparr> \<and> (ok \<longrightarrow> v = Some t))"
| "host_step (DoDelete p ok) h h' =
     (\<exists>v. h' = h\<lparr>hv_configs := (hv_configs h)(p := v)\<rparr> \<and> (ok \<longrightarrow> v = None))"
| "host_step (DoCreate root k ok) h h' = (\<exists>b. h' = h\<lparr>hv_bundle := b\<rparr>)"
| "host_step (DoRestore b ok) h h' = (\<exists>b'. h' = h\<lparr>hv_bundle := b'\<rparr> \<and> (ok \<longrightarrow> b' = b))"
| "host_step (DoEnable ok) h h' = (h' = (if ok then h\<lparr>hv_enabled := True\<rparr> else h))"
| "host_step (DoRestart ok) h h' = (\<exists>a. h' = h\<lparr>hv_active := a\<rparr> \<and> (ok \<longrightarrow> a))"
| "host_step (DoDisable ok) h h' = (h' = (if ok then h\<lparr>hv_enabled := False\<rparr> else h))"
| "host_step (DoStop ok) h h' = (h' = (if ok then h\<lparr>hv_active := False\<rparr> else h))"

inductive host_run :: "host_view \<Rightarrow> asterisk_event list \<Rightarrow> host_view \<Rightarrow> bool" where
  host_run_Nil: "host_run h [] h"
| host_run_Cons: "host_step e h h1 \<Longrightarrow> host_run h1 es h' \<Longrightarrow> host_run h (e # es) h'"

inductive_simps host_run_simps [simp]: "host_run h [] h'" "host_run h (e # es) h'"

lemma host_run_append: "host_run h (xs @ ys) h' \<longleftrightarrow> (\<exists>m. host_run h xs m \<and> host_run m ys h')"
  by (induction xs arbitrary: h) auto

section \<open>The snapshot\<close>

definition managed_paths :: "string list" where
  "managed_paths = [manager_config_path, extensions_config_path]"

text \<open>The queries of a snapshot, as far as they were answered.\<close>

fun is_query :: "asterisk_event \<Rightarrow> bool" where
  "is_query (AskDetect r) = True"
| "is_query (AskInstalled r) = True"
| "is_query (AskEnabled r) = True"
| "is_query (AskActive r) = True"
| "is_query (AskConfig p r) = True"
| "is_query (AskBundle root r) = True"
| "is_query (AskAMI ok) = True"
| "is_query e = False"

definition config_events :: "config_snapshot list \<Rightarrow> asterisk_event list" where
  "config_events saved = map (\<lambda>k. AskConfig (cs_path k) (Some (cs_content k, cs_exists k))) saved"

definition snapshot_events :: "string \<Rightarrow> install_snapshot \<Rightarrow> asterisk_event list" where
  "snapshot_events root snap =
     [AskInstalled (Some (is_package snap)), AskEnabled (Some (is_enabled snap)), AskActive (Some (is_active snap))]
     @ config_events (is_configs snap) @ [AskBundle root (Some (is_resources snap))]"

lemma ask_grew: "ask ev f c s = (r, s') \<Longrightarrow> grew s s' [ev (answer r)]"
  unfolding ask_def by (rule grew_call)

lemma change_grew: "change ev f c s = (r, s') \<Longrightarrow> grew s s' [ev (r = None)]"
  unfolding change_def by (rule grew_call)

lemma answer_simps [simp]: "answer (Inl e) = None" "answer (Inr x) = Some x"
  by (simp_all add: answer_def)

definition asked_only :: "'w asys \<Rightarrow> 'w asys \<Rightarrow> bool" where
  "asked_only s s' \<longleftrightarrow> (\<exists>es. grew s s' es \<and> list_all is_query es)"

lemma asked_only_grew: "grew s s' es \<Longrightarrow> list_all is_query es \<Longrightarrow> asked_only s s'"
  unfolding asked_only_def by blast

lemma asked_only_refl [simp]: "asked_only s s"
  by (rule asked_only_grew [OF grew_refl]) simp

lemma asked_only_trans: "asked_only s s' \<Longrightarrow> asked_only s' s'' \<Longrightarrow> asked_only s s''"
  unfolding asked_only_def by (metis grew_trans list_all_append)

lemma config_events_queries: "list_all is_query (config_events saved)"
  by (simp add: config_events_def list_all_iff)

lemma snapshot_events_queries: "list_all is_query (snapshot_events root snap)"
  using config_events_queries by (simp add: snapshot_events_def)

lemma snapshot_configs_grew:
  "snapshot_configs d paths c s = (r, s') \<Longrightarrow>
   (case r of
      Inl e \<Rightarrow> asked_only s s'
    | Inr saved \<Rightarrow> grew s s' (config_events saved) \<and> map cs_path saved = paths)"
proof (induction paths arbitrary: s r s')
  case Nil
  then have "r = Inr []" "s' = s" by auto
  then show ?case by (simp add: config_events_def)
next
  case (Cons path paths)
  obtain a s1 where a: "ask (AskConfig path) (ad_read d path) background s = (a, s1)" by fastforce
  note g = ask_grew [OF a]
  show ?case
  proof (cases a)
    case (Inl e)
    with Cons.prems a asked_only_grew [OF g] show ?thesis by auto
  next
    case (Inr p)
    then obtain content there where p: "a = Inr (content, there)" by (cases p) auto
    obtain b s2 where b: "snapshot_configs d paths c s1 = (b, s2)" by fastforce
    note rest = Cons.IH [OF b]
    show ?thesis
    proof (cases b)
      case (Inl e)
      with Cons.prems a b p rest asked_only_trans [OF asked_only_grew [OF g], of s'] show ?thesis by auto
    next
      case (Inr saved)
      with Cons.prems a b p rest grew_trans [OF g] show ?thesis
        by (auto simp: config_events_def)
    qed
  qed
qed

lemma take_snapshot_grew:
  assumes "take_snapshot d root c s = (r, s')"
  shows "case r of
      Inl e \<Rightarrow> asked_only s s'
    | Inr snap \<Rightarrow> grew s s' (snapshot_events root snap) \<and> map cs_path (is_configs snap) = managed_paths"
proof -
  obtain r1 s1 where 1: "ask AskInstalled (ad_is_installed d asterisk_service) c s = (r1, s1)" by fastforce
  obtain r2 s2 where 2: "ask AskEnabled (ad_is_enabled d asterisk_service) c s1 = (r2, s2)" by fastforce
  obtain r3 s3 where 3: "ask AskActive (ad_is_active d asterisk_service) c s2 = (r3, s3)" by fastforce
  obtain r4 s4 where 4: "snapshot_configs d [manager_config_path, extensions_config_path] c s3 = (r4, s4)" by fastforce
  obtain r5 s5 where 5: "ask (AskBundle root) (ad_bundle d root) background s4 = (r5, s5)" by fastforce
  note g1 = ask_grew [OF 1] and g2 = ask_grew [OF 2] and g3 = ask_grew [OF 3] and g5 = ask_grew [OF 5]
    and g4 = snapshot_configs_grew [OF 4]
  have q: "asked_only s s1" "asked_only s1 s2" "asked_only s2 s3" "asked_only s4 s5"
    using g1 g2 g3 g5 by (auto intro: asked_only_grew)
  have q4: "asked_only s3 s4"
    using g4 config_events_queries by (cases r4) (auto intro: asked_only_grew)
  have to: "asked_only s s2" "asked_only s s3" "asked_only s s4" "asked_only s s5"
    using q q4 by (meson asked_only_trans)+
  show ?thesis
  proof (cases "\<exists>i e a cs b. r1 = Inr i \<and> r2 = Inr e \<and> r3 = Inr a \<and> r4 = Inr cs \<and> r5 = Inr b")
    case True
    then obtain i e a cs b where all: "r1 = Inr i" "r2 = Inr e" "r3 = Inr a" "r4 = Inr cs" "r5 = Inr b" by blast
    have "r = Inr \<lparr>is_package = i, is_enabled = e, is_active = a, is_configs = cs, is_resources = b\<rparr>" "s' = s5"
      using assms 1 2 3 4 5 all by (auto simp: take_snapshot_def)
    with grew_trans [OF g1 grew_trans [OF g2 grew_trans [OF g3 grew_trans [OF _ g5]]]] g4 all show ?thesis
      by (auto simp: snapshot_events_def managed_paths_def)
  next
    case False
    have "(\<exists>e. r = Inl e) \<and> s' \<in> {s1, s2, s3, s4, s5}"
      using assms 1 2 3 4 5 False by (auto simp: take_snapshot_def split: sum.splits prod.splits)
    with q to show ?thesis by auto
  qed
qed

text \<open>A snapshot tells the truth about the host it was taken of.\<close>

definition true_of :: "install_snapshot \<Rightarrow> host_view \<Rightarrow> bool" where
  "true_of snap h \<longleftrightarrow>
     is_package snap = hv_package h \<and> is_enabled snap = hv_enabled h \<and> is_active snap = hv_active h \<and>
     is_resources snap = hv_bundle h \<and>
     (\<forall>k \<in> set (is_configs snap). hv_configs h (cs_path k) = (if cs_exists k then Some (cs_content k) else None))"

lemma config_events_true:
  "host_run h (config_events saved) h' \<Longrightarrow>
   h' = h \<and> (\<forall>k \<in> set saved. hv_configs h (cs_path k) = (if cs_exists k then Some (cs_content k) else None))"
  by (induction saved) (auto simp: config_events_def)

lemma snapshot_true: "host_run h (snapshot_events root snap) h' \<Longrightarrow> h' = h \<and> true_of snap h"
  by (auto simp: snapshot_events_def host_run_append true_of_def dest!: config_events_true)

lemma queries_keep: "host_run h es h' \<Longrightarrow> list_all is_query es \<Longrightarrow> h' = h"
proof (induction rule: host_run.induct)
  case (host_run_Cons e h h1 es h')
  from host_run_Cons.hyps(1) host_run_Cons.prems have "h1 = h" by (cases e) auto
  with host_run_Cons show ?case by simp
qed simp

section \<open>The changes\<close>

fun is_configuring :: "asterisk_event \<Rightarrow> bool" where
  "is_configuring (AskConfig p r) = True"
| "is_configuring (AskAMI ok) = True"
| "is_configuring (DoWrite p t ok) = (p \<in> set managed_paths)"
| "is_configuring (DoCreate root k ok) = True"
| "is_configuring (DoEnable ok) = True"
| "is_configuring (DoRestart ok) = True"
| "is_configuring e = False"

definition configuring :: "'w asys \<Rightarrow> 'w asys \<Rightarrow> bool" where
  "configuring s s' \<longleftrightarrow> (\<exists>es. grew s s' es \<and> list_all is_configuring es)"

lemma configuring_grew: "grew s s' es \<Longrightarrow> list_all is_configuring es \<Longrightarrow> configuring s s'"
  unfolding configuring_def by blast

lemma configuring_trans: "configuring s s' \<Longrightarrow> configuring s' s'' \<Longrightarrow> configuring s s''"
  unfolding configuring_def by (metis grew_trans list_all_append)

lemma ask_configuring: "ask ev f c s = (r, s') \<Longrightarrow> (\<And>a. is_configuring (ev a)) \<Longrightarrow> configuring s s'"
  by (drule ask_grew, erule configuring_grew) simp

lemma change_configuring: "change ev f c s = (r, s') \<Longrightarrow> (\<And>a. is_configuring (ev a)) \<Longrightarrow> configuring s s'"
  by (drule change_grew, erule configuring_grew) simp

lemma write_managed_configs_configuring:
  "write_managed_configs d contract s = (r, s') \<Longrightarrow> configuring s s'"
  unfolding write_managed_configs_def Let_def
  by (auto simp: managed_paths_def split: prod.splits sum.splits option.splits
      dest!: ask_configuring change_configuring intro: configuring_trans)

lemma configure_host_configuring: "configure_host d contract c s = (r, s') \<Longrightarrow> configuring s s'"
  unfolding configure_host_def
  by (auto split: prod.splits option.splits
      dest!: write_managed_configs_configuring change_configuring)
     (meson configuring_trans)+

lemma configuring_keeps:
  "host_run h es h' \<Longrightarrow> list_all is_configuring es \<Longrightarrow>
   hv_package h' = hv_package h \<and> (hv_enabled h \<longrightarrow> hv_enabled h')"
proof (induction rule: host_run.induct)
  case (host_run_Cons e h h1 es h')
  from host_run_Cons.hyps(1) host_run_Cons.prems
  have "hv_package h1 = hv_package h \<and> (hv_enabled h \<longrightarrow> hv_enabled h1)" by (cases e) auto
  with host_run_Cons show ?case by simp
qed simp

section \<open>The rollback\<close>

definition restore_config :: "config_snapshot \<Rightarrow> bool \<Rightarrow> asterisk_event" where
  "restore_config k = (if cs_exists k then DoWrite (cs_path k) (cs_content k) else DoDelete (cs_path k))"

definition rollback_plan :: "install_snapshot \<Rightarrow> bool \<Rightarrow> (bool \<Rightarrow> asterisk_event) list" where
  "rollback_plan snap ours =
     [DoRestore (is_resources snap)] @ map restore_config (is_configs snap)
     @ (if is_active snap then [] else [DoStop]) @ (if is_enabled snap then [] else [DoDisable])
     @ (if ours \<and> \<not> is_package snap then [DoRemove] else [])"

text \<open>Every step of a plan is tried, whatever became of the others.\<close>

definition carried_out :: "(bool \<Rightarrow> asterisk_event) list \<Rightarrow> 'w asys \<Rightarrow> 'w asys \<Rightarrow> bool list \<Rightarrow> bool" where
  "carried_out plan s s' oks \<longleftrightarrow> length oks = length plan \<and> grew s s' (map2 (\<lambda>f ok. f ok) plan oks)"

lemma carried_out_append:
  "carried_out p s s1 xs \<Longrightarrow> carried_out q s1 s2 ys \<Longrightarrow> carried_out (p @ q) s s2 (xs @ ys)"
  by (auto simp: carried_out_def dest: grew_trans)

lemma carried_out_change: "carried_out [ev] s (snd (change ev f c s)) [fst (change ev f c s) = None]"
  using change_grew [of ev f c s "fst (change ev f c s)" "snd (change ev f c s)"] by (simp add: carried_out_def)

lemma carried_out_Nil: "carried_out [] s s []"
  by (simp add: carried_out_def)

lemma restore_configs_carried:
  "\<exists>oks. carried_out (map restore_config saved) s (restore_configs d saved s) oks"
proof (induction saved arbitrary: s)
  case Nil
  then show ?case using carried_out_Nil by auto
next
  case (Cons k saved)
  define ev where "ev = restore_config k"
  define s1 where "s1 = (if cs_exists k
     then snd (change (DoWrite (cs_path k) (cs_content k)) (ad_write d (cs_path k) (cs_content k)) background s)
     else snd (change (DoDelete (cs_path k)) (ad_delete d (cs_path k)) background s))"
  have "\<exists>ok. carried_out [ev] s s1 [ok]"
    using carried_out_change unfolding ev_def s1_def restore_config_def by (cases "cs_exists k") (simp; blast)+
  moreover obtain oks where "carried_out (map restore_config saved) s1 (restore_configs d saved s1) oks"
    using Cons.IH by blast
  moreover have "restore_configs d (k # saved) s = restore_configs d saved s1" by (simp add: s1_def)
  ultimately show ?case using carried_out_append [of "[ev]"] by (fastforce simp: ev_def)
qed

lemma rollback_carried: "\<exists>oks. carried_out (rollback_plan snap ours) s (rollback_host d snap ours c s) oks"
proof -
  define s1 where "s1 = snd (change (DoRestore (is_resources snap)) (ad_restore d (is_resources snap)) background s)"
  define s2 where "s2 = restore_configs d (is_configs snap) s1"
  define s3 where "s3 = (if is_active snap then s2 else snd (change DoStop (ad_stop d asterisk_service) c s2))"
  define s4 where "s4 = (if is_enabled snap then s3 else snd (change DoDisable (ad_disable d asterisk_service) c s3))"
  define s5 where "s5 = (if ours \<and> \<not> is_package snap then snd (change DoRemove (ad_remove d asterisk_service) c s4) else s4)"
  have opt: "\<exists>oks. carried_out (if b then [] else [ev]) t (if b then t else snd (change ev f c t)) oks" for b ev f and t :: "'a asys"
    using carried_out_Nil [of t] carried_out_change [of ev t f c] by (cases b) auto
  have opt2: "\<exists>oks. carried_out (if b then [ev] else []) t (if b then snd (change ev f c t) else t) oks" for b ev f and t :: "'a asys"
    using carried_out_Nil [of t] carried_out_change [of ev t f c] by (cases b) auto
  obtain k1 where 1: "carried_out [DoRestore (is_resources snap)] s s1 k1"
    using carried_out_change unfolding s1_def by blast
  obtain k2 where 2: "carried_out (map restore_config (is_configs snap)) s1 s2 k2"
    using restore_configs_carried unfolding s2_def by blast
  obtain k3 where 3: "carried_out (if is_active snap then [] else [DoStop]) s2 s3 k3"
    using opt unfolding s3_def by blast
  obtain k4 where 4: "carried_out (if is_enabled snap then [] else [DoDisable]) s3 s4 k4"
    using opt unfolding s4_def by blast
  obtain k5 where 5: "carried_out (if ours \<and> \<not> is_package snap then [DoRemove] else []) s4 s5 k5"
    using opt2 unfolding s5_def by blast
  have "rollback_host d snap ours c s = s5"
    by (simp add: rollback_host_def s1_def s2_def s3_def s4_def s5_def Let_def)
  with carried_out_append [OF 1 carried_out_append [OF 2 carried_out_append [OF 3 carried_out_append [OF 4 5]]]]
  show ?thesis unfolding rollback_plan_def by metis
qed

text \<open>A rollback whose every step succeeds brings back what the snapshot recorded.\<close>

definition host_restored :: "host_view \<Rightarrow> host_view \<Rightarrow> bool" where
  "host_restored h h' \<longleftrightarrow>
     hv_package h' = hv_package h \<and> hv_enabled h' = hv_enabled h \<and> hv_bundle h' = hv_bundle h \<and>
     (\<forall>p \<in> set managed_paths. hv_configs h' p = hv_configs h p) \<and> (\<not> hv_active h \<longrightarrow> \<not> hv_active h')"

lemma restore_configs_run:
  "host_run m (map (\<lambda>k. restore_config k True) saved) h' \<Longrightarrow> distinct (map cs_path saved) \<Longrightarrow>
   h' = m\<lparr>hv_configs := hv_configs h'\<rparr> \<and>
   (\<forall>k \<in> set saved. hv_configs h' (cs_path k) = (if cs_exists k then Some (cs_content k) else None)) \<and>
   (\<forall>p. p \<notin> cs_path ` set saved \<longrightarrow> hv_configs h' p = hv_configs m p)"
proof (induction saved arbitrary: m)
  case (Cons k saved)
  let ?m = "m\<lparr>hv_configs := (hv_configs m)(cs_path k := (if cs_exists k then Some (cs_content k) else None))\<rparr>"
  have "host_run ?m (map (\<lambda>k. restore_config k True) saved) h'"
    using Cons.prems(1) by (auto simp: restore_config_def split: if_splits)
  from Cons.IH [OF this] Cons.prems(2) show ?case by auto
qed simp

lemma map2_all_ok: "length oks = length plan \<Longrightarrow> \<forall>ok \<in> set oks. ok \<Longrightarrow> map2 (\<lambda>f ok. f ok) plan oks = map (\<lambda>f. f True) plan"
  by (induction plan arbitrary: oks) (auto simp: length_Suc_conv)

lemma rollback_restores:
  assumes snap: "true_of snap h" "map cs_path (is_configs snap) = managed_paths"
    and keeps: "hv_package h \<longrightarrow> hv_package m" "hv_enabled h \<longrightarrow> hv_enabled m"
    and ours: "ours \<longleftrightarrow> \<not> is_package snap"
    and run: "host_run m (map (\<lambda>f. f True) (rollback_plan snap ours)) h'"
  shows "host_restored h h'"
proof -
  let ?m1 = "m\<lparr>hv_bundle := is_resources snap\<rparr>"
  from run obtain m2 where
    configs: "host_run ?m1 (map (\<lambda>k. restore_config k True) (is_configs snap)) m2" and
    rest: "host_run m2 (map (\<lambda>f. f True) ((if is_active snap then [] else [DoStop]) @
        (if is_enabled snap then [] else [DoDisable]) @ (if ours \<and> \<not> is_package snap then [DoRemove] else []))) h'"
    by (auto simp: rollback_plan_def host_run_append comp_def)
  have "distinct (map cs_path (is_configs snap))"
    by (simp add: snap(2) managed_paths_def manager_config_path_def extensions_config_path_def)
  note c = restore_configs_run [OF configs this]
  from rest have h': "h' = m2\<lparr>hv_active := (if is_active snap then hv_active m2 else False),
      hv_enabled := (if is_enabled snap then hv_enabled m2 else False),
      hv_package := (if ours \<and> \<not> is_package snap then False else hv_package m2)\<rparr>"
    by (auto split: if_splits)
  from c obtain configs' where m2_eq: "m2 = ?m1\<lparr>hv_configs := configs'\<rparr>" by blast
  have m2: "hv_package m2 = hv_package m" "hv_enabled m2 = hv_enabled m" "hv_bundle m2 = is_resources snap"
    by (simp_all add: m2_eq)
  have "hv_configs h' p = hv_configs h p" if "p \<in> set managed_paths" for p
  proof -
    from that snap(2) obtain k where k: "k \<in> set (is_configs snap)" "p = cs_path k"
      by (metis imageE list.set_map)
    from c k(1) have "hv_configs m2 (cs_path k) = (if cs_exists k then Some (cs_content k) else None)" by blast
    moreover from snap(1) k(1) have "hv_configs h (cs_path k) = (if cs_exists k then Some (cs_content k) else None)"
      by (simp add: true_of_def)
    ultimately show ?thesis using h' k(2) by simp
  qed
  moreover have "hv_package h' = hv_package h"
    using h' m2(1) snap(1) keeps(1) ours by (simp add: true_of_def)
  moreover have "hv_enabled h' = hv_enabled h"
    using h' m2(2) snap(1) keeps(2) by (simp add: true_of_def)
  moreover have "hv_bundle h' = hv_bundle h" using h' m2(3) snap(1) by (simp add: true_of_def)
  moreover have "\<not> hv_active h \<longrightarrow> \<not> hv_active h'" using h' snap(1) by (simp add: true_of_def)
  ultimately show ?thesis by (simp add: host_restored_def)
qed

end
