(* ===== verification/AsteriskHost.thy ===== *)
theory AsteriskHost
  imports Asterisk
begin

text \<open>
  The production side of \<open>internal/asterisk\<close>: the package managers, systemd, the file
  stores and the AMI probe, and their wiring.  Each is an operation over the host made of
  commands, file operations or the lines of a connection.
\<close>

section \<open>Sequences of operations\<close>

definition done_with :: "'a \<Rightarrow> ('w, 'a) oper" where
  "done_with a c now w = (a, 0, w)"

definition and_then :: "('w, 'a) oper \<Rightarrow> ('a \<Rightarrow> ('w, 'b) oper) \<Rightarrow> ('w, 'b) oper" where
  "and_then m k c now w =
     (case m c now w of (a, d1, w1) \<Rightarrow> (case k a c (now + d1) w1 of (b, d2, w2) \<Rightarrow> (b, d1 + d2, w2)))"

text \<open>Run the steps until one reports an error.\<close>

fun steps :: "('w, string option) oper list \<Rightarrow> ('w, string option) oper" where
  "steps [] = done_with None"
| "steps (m # ms) = and_then m (\<lambda>r. case r of Some e \<Rightarrow> done_with (Some e) | None \<Rightarrow> steps ms)"

definition fs_step :: "'w fs \<Rightarrow> fs_op \<Rightarrow> ('w, string option) oper" where
  "fs_step fs fop = and_then (fs fop) (\<lambda>r. done_with (fs_error r))"

section \<open>Packages and services\<close>

definition query_command :: "package_manager \<Rightarrow> string \<Rightarrow> string + (string \<times> string list)" where
  "query_command kind name =
     (case kind of
        PmAPT \<Rightarrow> Inr (''dpkg'', [''-s'', name])
      | PmDNF \<Rightarrow> Inr (''rpm'', [''-q'', name])
      | PmYUM \<Rightarrow> Inr (''rpm'', [''-q'', name])
      | PmPacman \<Rightarrow> Inr (''pacman'', [''-Q'', name])
      | PmUnknown \<Rightarrow> Inl no_package_manager)"

definition install_command :: "package_manager \<Rightarrow> string \<Rightarrow> string + (string \<times> string list)" where
  "install_command kind name =
     (case kind of
        PmAPT \<Rightarrow> Inr (''sudo'', [''apt-get'', ''install'', ''-y'', name])
      | PmDNF \<Rightarrow> Inr (''sudo'', [''dnf'', ''install'', ''-y'', name])
      | PmYUM \<Rightarrow> Inr (''sudo'', [''yum'', ''install'', ''-y'', name])
      | PmPacman \<Rightarrow> Inr (''sudo'', [''pacman'', ''-S'', ''--noconfirm'', name])
      | PmUnknown \<Rightarrow> Inl no_package_manager)"

definition remove_command :: "package_manager \<Rightarrow> string \<Rightarrow> string + (string \<times> string list)" where
  "remove_command kind name =
     (case kind of
        PmAPT \<Rightarrow> Inr (''sudo'', [''apt-get'', ''remove'', ''-y'', name])
      | PmDNF \<Rightarrow> Inr (''sudo'', [''dnf'', ''remove'', ''-y'', name])
      | PmYUM \<Rightarrow> Inr (''sudo'', [''yum'', ''remove'', ''-y'', name])
      | PmPacman \<Rightarrow> Inr (''sudo'', [''pacman'', ''-Rns'', ''--noconfirm'', name])
      | PmUnknown \<Rightarrow> Inl no_package_manager)"

definition command_error :: "string \<Rightarrow> cmd_result \<Rightarrow> string option" where
  "command_error what r =
     (case cmd_err r of
        None \<Rightarrow> None
      | Some e \<Rightarrow>
          let detail = trim_space (err_out r) in
          if detail = [] then Some (what @ '': '' @ err_text e)
          else Some (what @ '': '' @ err_text e @ '': '' @ detail))"

definition run_for_error :: "'w runner \<Rightarrow> string \<Rightarrow> string + (string \<times> string list) \<Rightarrow> ('w, string option) oper" where
  "run_for_error f what cmd =
     (case cmd of
        Inl e \<Rightarrow> done_with (Some e)
      | Inr (name, args) \<Rightarrow> and_then (f name args) (\<lambda>r. done_with (command_error what r)))"

definition pm_is_installed :: "package_manager \<Rightarrow> 'w runner \<Rightarrow> string \<Rightarrow> ('w, string + bool) oper" where
  "pm_is_installed kind f name =
     (case query_command kind name of
        Inl e \<Rightarrow> done_with (Inl e)
      | Inr (cmd, args) \<Rightarrow> and_then (f cmd args) (\<lambda>r. done_with (Inr (cmd_err r = None))))"

definition pm_install :: "package_manager \<Rightarrow> 'w runner \<Rightarrow> string \<Rightarrow> ('w, string option) oper" where
  "pm_install kind f name = run_for_error f (''install '' @ name) (install_command kind name)"

definition pm_remove :: "package_manager \<Rightarrow> 'w runner \<Rightarrow> string \<Rightarrow> ('w, string option) oper" where
  "pm_remove kind f name = run_for_error f (''remove '' @ name) (remove_command kind name)"

definition systemd_query :: "'w runner \<Rightarrow> string \<Rightarrow> string \<Rightarrow> ('w, string + bool) oper" where
  "systemd_query f verb name =
     and_then (f ''systemctl'' [verb, ''--quiet'', name]) (\<lambda>r. done_with (Inr (cmd_err r = None)))"

definition systemd_change :: "'w runner \<Rightarrow> string \<Rightarrow> string \<Rightarrow> ('w, string option) oper" where
  "systemd_change f verb name =
     run_for_error f (verb @ '' '' @ name) (Inr (''sudo'', [''systemctl'', verb, name]))"

section \<open>The configuration store\<close>

definition config_read :: "'w fs \<Rightarrow> string \<Rightarrow> ('w, string + string \<times> bool) oper" where
  "config_read fs path =
     and_then (fs (FsReadFile path))
       (\<lambda>r. done_with (case r of
          FsBytes b \<Rightarrow> Inr (b, True) | FsMissing e \<Rightarrow> Inr ([], False) | FsFailed e \<Rightarrow> Inl e | _ \<Rightarrow> Inr ([], True)))"

definition config_write :: "'w fs \<Rightarrow> string \<Rightarrow> string \<Rightarrow> ('w, string option) oper" where
  "config_write fs path content =
     steps [fs_step fs (FsMkdirAll (path_dir path) 0x1ED), fs_step fs (FsWriteFile path content 0x1A0)]"

definition config_delete :: "'w fs \<Rightarrow> string \<Rightarrow> ('w, string option) oper" where
  "config_delete fs path =
     and_then (fs (FsRemove path)) (\<lambda>r. done_with (case r of FsMissing e \<Rightarrow> None | _ \<Rightarrow> fs_error r))"

section \<open>The resource store\<close>

text \<open>One entry: the link's target, or the content unless it is a directory.\<close>

definition snapshot_entry :: "'w fs \<Rightarrow> string \<Rightarrow> string \<Rightarrow> fs_info \<Rightarrow> ('w, string + resource_entry) oper" where
  "snapshot_entry fs root path i =
     (case path_rel root path of
        None \<Rightarrow> done_with (Inl ''Rel: cannot make path relative'')
      | Some relative \<Rightarrow>
          let entry = \<lparr>re_path = relative, re_mode = fi_mode i, re_dir = fi_dir i, re_symlink = fi_symlink i,
                       re_target = [], re_content = []\<rparr> in
          if fi_symlink i then
            and_then (fs (FsReadLink path)) (\<lambda>r. done_with (case fs_error r of
              Some e \<Rightarrow> Inl e
            | None \<Rightarrow> Inr (entry\<lparr>re_target := (case r of FsBytes t \<Rightarrow> t | _ \<Rightarrow> [])\<rparr>)))
          else if \<not> fi_dir i then
            and_then (fs (FsReadFile path)) (\<lambda>r. done_with (case fs_error r of
              Some e \<Rightarrow> Inl e
            | None \<Rightarrow> Inr (entry\<lparr>re_content := (case r of FsBytes t \<Rightarrow> t | _ \<Rightarrow> [])\<rparr>)))
          else done_with (Inr entry))"

definition no_info :: fs_info where
  "no_info = \<lparr>fi_dir = False, fi_regular = False, fi_symlink = False, fi_mode = 0\<rparr>"

definition info_of :: "fs_reply \<Rightarrow> fs_info" where
  "info_of r = (case r of FsInfo i \<Rightarrow> i | _ \<Rightarrow> no_info)"

fun snapshot_paths :: "'w fs \<Rightarrow> string \<Rightarrow> string list \<Rightarrow> ('w, string + resource_entry list) oper" where
  "snapshot_paths fs root [] = done_with (Inr [])"
| "snapshot_paths fs root (path # paths) =
     and_then (fs (FsLstat path)) (\<lambda>r. case fs_error r of
        Some e \<Rightarrow> done_with (Inl e)
      | None \<Rightarrow> and_then (snapshot_entry fs root path (info_of r)) (\<lambda>x. case x of
          Inl e \<Rightarrow> done_with (Inl e)
        | Inr entry \<Rightarrow> and_then (snapshot_paths fs root paths) (\<lambda>xs. done_with (map_sum id ((#) entry) xs))))"

definition snapshot_bundle :: "'w fs \<Rightarrow> string \<Rightarrow> ('w, string + bundle_snapshot) oper" where
  "snapshot_bundle fs root =
     and_then (fs (FsLstat root)) (\<lambda>r. case r of
        FsMissing e \<Rightarrow> done_with (Inr \<lparr>bs_root = root, bs_exists = False, bs_entries = []\<rparr>)
      | FsFailed e \<Rightarrow> done_with (Inl e)
      | _ \<Rightarrow>
          if \<not> fi_dir (info_of r) then
            and_then (snapshot_entry fs root root (info_of r))
              (\<lambda>x. done_with (map_sum id (\<lambda>entry. \<lparr>bs_root = root, bs_exists = True, bs_entries = [entry]\<rparr>) x))
          else
            and_then (fs (FsWalkDir root)) (\<lambda>w. case fs_error w of
               Some e \<Rightarrow> done_with (Inl e)
             | None \<Rightarrow>
                 and_then (snapshot_paths fs root (case w of FsNames ps \<Rightarrow> ps | _ \<Rightarrow> []))
                   (\<lambda>xs. done_with (map_sum id (\<lambda>es. \<lparr>bs_root = root, bs_exists = True, bs_entries = es\<rparr>) xs))))"

definition private_dir :: "'w fs \<Rightarrow> string \<Rightarrow> ('w, string option) oper list" where
  "private_dir fs path = [fs_step fs (FsMkdirAll path 0x1E8), fs_step fs (FsChmod path 0x1E8)]"

definition create_bundle :: "'w fs \<Rightarrow> string \<Rightarrow> ami_contract \<Rightarrow> ('w, string option) oper" where
  "create_bundle fs root contract =
     (let c = normalize_contract contract root; integration = path_join [root, ''integration.env''] in
      steps (concat (map (private_dir fs)
               (root # map (\<lambda>d. path_join [root, d]) [''templates'', ''sounds'', ''recordings'', ''backups'']))
        @ [fs_step fs (FsWriteFile integration (render_ami_env c) 0x180), fs_step fs (FsChmod integration 0x180)]))"

definition restore_entry :: "'w fs \<Rightarrow> string \<Rightarrow> resource_entry \<Rightarrow> ('w, string option) oper list" where
  "restore_entry fs root entry =
     (let path = path_join [root, re_path entry]; mode = re_mode entry mod 512 in
      if re_symlink entry
      then [fs_step fs (FsMkdirAll (path_dir path) 0x1E8), fs_step fs (FsSymlink (re_target entry) path)]
      else if re_dir entry then [fs_step fs (FsMkdirAll path mode), fs_step fs (FsChmod path mode)]
      else [fs_step fs (FsMkdirAll (path_dir path) 0x1E8), fs_step fs (FsWriteFile path (re_content entry) mode),
            fs_step fs (FsChmod path mode)])"

definition restore_bundle :: "'w fs \<Rightarrow> bundle_snapshot \<Rightarrow> ('w, string option) oper" where
  "restore_bundle fs b =
     (if bs_root b = [] then done_with None
      else steps (fs_step fs (FsRemoveAll (bs_root b))
        # (if bs_exists b then concat (map (restore_entry fs (bs_root b)) (bs_entries b)) else [])))"

section \<open>The AMI probe\<close>

text \<open>
  A connection: whether dialling succeeded, the login that was written and whether that
  succeeded, and the lines one can read before an error.
\<close>

record ami_connection =
  dial_error :: "string option"
  send_error :: "string \<Rightarrow> string option"
  received :: "string list"
  read_error :: string

definition equal_fold :: "string \<Rightarrow> string \<Rightarrow> bool" where
  "equal_fold a b \<longleftrightarrow> map ascii_lower a = map ascii_lower b"

fun login_response :: "string \<Rightarrow> string list \<Rightarrow> string option" where
  "login_response err [] = Some (''read AMI login response: '' @ err)"
| "login_response err (raw # lines) =
     (let line = trim_space raw in
      if equal_fold line ''Response: Success'' then None
      else if equal_fold line ''Response: Error'' then Some ''AMI login rejected''
      else if line = [] then Some ''AMI login did not return success''
      else login_response err lines)"

definition crlf :: string where "crlf = [CHR 0x0D, CHR 0x0A]"

definition login_message :: "string \<Rightarrow> string \<Rightarrow> string" where
  "login_message username password =
     ''Action: Login'' @ crlf @ ''Username: '' @ username @ crlf @ ''Secret: '' @ password @ crlf
     @ ''Events: off'' @ crlf @ crlf"

definition verify_ami :: "ami_connection \<Rightarrow> string \<Rightarrow> string \<Rightarrow> string option" where
  "verify_ami conn username password =
     (case dial_error conn of
        Some e \<Rightarrow> Some e
      | None \<Rightarrow>
          (case received conn of
             [] \<Rightarrow> Some (''read AMI greeting: '' @ read_error conn)
           | greeting # lines \<Rightarrow>
               (case send_error conn (login_message username password) of
                  Some e \<Rightarrow> Some (''send AMI login: '' @ e)
                | None \<Rightarrow> login_response (read_error conn) lines)))"

text \<open>A login is accepted only by a success line before any error or empty line.\<close>

lemma login_response_None:
  "login_response err lines = None \<Longrightarrow>
   \<exists>before line after. lines = before @ line # after \<and> equal_fold (trim_space line) ''Response: Success'' \<and>
     (\<forall>l \<in> set before. trim_space l \<noteq> [] \<and> \<not> equal_fold (trim_space l) ''Response: Error'')"
proof (induction lines)
  case (Cons l lines)
  show ?case
  proof (cases "equal_fold (trim_space l) ''Response: Success''")
    case True
    then show ?thesis by (intro exI [of _ "[]"] exI [of _ l] exI [of _ lines]) simp
  next
    case False
    with Cons.prems have rest: "login_response err lines = None"
      and l: "trim_space l \<noteq> [] \<and> \<not> equal_fold (trim_space l) ''Response: Error''"
      by (simp_all add: Let_def split: if_splits)
    from Cons.IH [OF rest] obtain before line after where
      "lines = before @ line # after" "equal_fold (trim_space line) ''Response: Success''"
      "\<forall>l \<in> set before. trim_space l \<noteq> [] \<and> \<not> equal_fold (trim_space l) ''Response: Error''" by blast
    with l show ?thesis by (intro exI [of _ "l # before"]) auto
  qed
qed simp

section \<open>Wiring\<close>

record 'w asterisk_env =
  ae_goos :: string
  ae_look_path :: "string \<Rightarrow> bool"
  ae_runner :: "'w runner"
  ae_fs :: "'w fs"
  ae_dial :: "string \<Rightarrow> int \<Rightarrow> ('w, ami_connection) oper"

definition production_asterisk :: "'w asterisk_env \<Rightarrow> 'w asterisk_deps" where
  "production_asterisk e =
     (let kind = hs_package_manager (fst (host_detect (ae_goos e) (ae_look_path e))); f = ae_runner e; fs = ae_fs e in
      \<lparr>ad_complete = True, ad_detect = done_with (host_detect (ae_goos e) (ae_look_path e)),
       ad_is_installed = pm_is_installed kind f, ad_install = pm_install kind f, ad_remove = pm_remove kind f,
       ad_is_enabled = systemd_query f ''is-enabled'', ad_is_active = systemd_query f ''is-active'',
       ad_enable = systemd_change f ''enable'', ad_restart = systemd_change f ''restart'',
       ad_disable = systemd_change f ''disable'', ad_stop = systemd_change f ''stop'',
       ad_read = config_read fs, ad_write = config_write fs, ad_delete = config_delete fs,
       ad_bundle = snapshot_bundle fs, ad_create = create_bundle fs, ad_restore = restore_bundle fs,
       ad_verify = (\<lambda>host port username password.
         and_then (ae_dial e host port) (\<lambda>conn. done_with (verify_ami conn username password)))\<rparr>)"

text \<open>\<open>newAsteriskOptions\<close>: a password that could not be generated is empty.\<close>

definition new_asterisk_options :: "string \<Rightarrow> (nat \<Rightarrow> string + string) \<Rightarrow> asterisk_options" where
  "new_asterisk_options config_dir gen =
     (let root = path_join [config_dir, ''asterisk''];
          password = (case gen 32 of Inl e \<Rightarrow> [] | Inr p \<Rightarrow> p) in
      \<lparr>ao_enabled = False, ao_config_root = root,
       ao_ami = normalize_contract
         \<lparr>ami_enabled = True, ami_host = [], ami_port = 0, ami_username = ''alice_guardian_ami'',
          ami_password = password, ami_config_dir = []\<rparr> root\<rparr>)"

end
