(* ===== verification/AsteriskProperties.thy ===== *)
theory AsteriskProperties
  imports AsteriskSafety AsteriskHost
begin

text \<open>
  Properties of the optional Asterisk set-up.
\<close>

section \<open>Failure\<close>

text \<open>The changes a failed set-up made before it gave up.\<close>

lemma asterisk_changes_failed:
  assumes "asterisk_changes d contract snap c s = (Inl e, s')"
  shows "grew s s' [DoInstall False] \<or>
    (\<exists>es oks s1. grew s s1 es \<and> carried_out (rollback_plan snap (\<not> is_package snap)) s1 s' oks \<and>
       (\<exists>cs. list_all is_configuring cs \<and> es = (if is_package snap then [] else [DoInstall True]) @ cs))"
proof -
  obtain r1 s1 where 1: "(if is_package snap then (None, s) else change DoInstall (ad_install d asterisk_service) c s) = (r1, s1)"
    by fastforce
  have g1: "grew s s1 (if is_package snap then [] else [DoInstall (r1 = None)])"
    using 1 change_grew [of DoInstall "ad_install d asterisk_service" c s r1 s1]
    by (cases "is_package snap") simp_all
  show ?thesis
  proof (cases r1)
    case (Some x)
    with assms 1 have "s' = s1" by (simp add: asterisk_changes_def)
    with g1 Some 1 show ?thesis by (cases "is_package snap") auto
  next
    case None
    obtain r2 s2 where 2: "configure_host d contract c s1 = (r2, s2)" by fastforce
    from configure_host_configuring [OF 2] obtain cs where
      cs: "grew s1 s2 cs" "list_all is_configuring cs" by (auto simp: configuring_def)
    from assms 1 None 2 have "s' = rollback_host d snap (\<not> is_package snap) c s2"
      by (cases r2) (auto simp: asterisk_changes_def)
    moreover obtain oks where
      "carried_out (rollback_plan snap (\<not> is_package snap)) s2 (rollback_host d snap (\<not> is_package snap) c s2) oks"
      using rollback_carried by blast
    moreover have "grew s s2 ((if is_package snap then [] else [DoInstall True]) @ cs)"
      using grew_trans [OF g1 cs(1)] None by (cases "is_package snap") simp_all
    ultimately show ?thesis using cs(2) by blast
  qed
qed

text \<open>A failure either comes before the first change, or is a failure of the changes.\<close>

lemma asterisk_install_failed_cases:
  assumes failed: "asterisk_install d opts c s = (Inl e, s')"
  obtains (before) "asked_only s s'"
  | (changing) contract snap s2 qs where "asterisk_changes d contract snap c s2 = (Inl e, s')"
      "grew s s2 qs" "list_all is_query qs" "map cs_path (is_configs snap) = managed_paths"
      "\<And>h h'. host_run h qs h' \<Longrightarrow> h' = h \<and> true_of snap h"
proof -
  define contract where "contract = normalize_contract (ao_ami opts) (ao_config_root opts)"
  obtain r1 s1 where 1: "call (\<lambda>(h, e). AskDetect (if e = None then Some h else None)) (ad_detect d) c s = (r1, s1)"
    by fastforce
  have "\<exists>r. grew s s1 [AskDetect r]" using grew_call [OF 1] by (cases r1) auto
  then obtain r where g1: "grew s s1 [AskDetect r]" by blast
  obtain r2 s2 where 2: "take_snapshot d (ami_config_dir contract) c s1 = (r2, s2)" by fastforce
  note g2 = take_snapshot_grew [OF 2]
  show thesis
  proof (cases "\<exists>snap. r2 = Inr snap \<and> asterisk_changes d contract snap c s2 = (Inl e, s')")
    case False
    have "s' = s \<or> s' = s1 \<or> (s' = s2 \<and> isl r2)"
    proof (cases "s' = s")
      case changed: False
      obtain h er where r1: "r1 = (h, er)" by (cases r1)
      from failed changed have "asterisk_setup d contract c s = (Inl e, s')"
        by (simp add: asterisk_install_def contract_def Let_def split: if_splits)
      with 1 2 r1 False show ?thesis
        by (cases er; cases "host_validate h"; cases r2) (auto simp: asterisk_setup_def)
    qed simp
    moreover have "asked_only s s1" using g1 by (auto intro: asked_only_grew)
    moreover have "asked_only s1 s2" if "isl r2" using g2 that by (cases r2) auto
    ultimately have "asked_only s s'" by (auto intro: asked_only_trans)
    then show thesis by (rule before)
  next
    case True
    then obtain snap where snap: "r2 = Inr snap" "asterisk_changes d contract snap c s2 = (Inl e, s')" by blast
    with g2 have g2': "grew s1 s2 (snapshot_events (ami_config_dir contract) snap)"
      and paths: "map cs_path (is_configs snap) = managed_paths" by simp_all
    show thesis
      by (rule changing [OF snap(2) _ _ paths, of "[AskDetect r] @ snapshot_events (ami_config_dir contract) snap"])
        (use grew_trans [OF g1 g2'] snapshot_events_queries in \<open>auto dest!: snapshot_true\<close>)
  qed
qed

text \<open>After changes, the commands of the rollback plan bring the snapshot back.\<close>

lemma rollback_brings_back:
  assumes asked: "\<And>h h'. host_run h qs h' \<Longrightarrow> h' = h \<and> true_of snap h"
    and es: "es = (if is_package snap then [] else [DoInstall True]) @ cs" "list_all is_configuring cs"
    and undo: "carried_out (rollback_plan snap (\<not> is_package snap)) s3 s' oks"
    and paths: "map cs_path (is_configs snap) = managed_paths"
    and run: "host_run h ((qs @ es) @ map2 (\<lambda>f ok. f ok) (rollback_plan snap (\<not> is_package snap)) oks) h'"
      "\<forall>ok \<in> set oks. ok"
  shows "host_restored h h'"
proof -
  let ?bs = "map2 (\<lambda>f ok. f ok) (rollback_plan snap (\<not> is_package snap)) oks"
  from run(1) obtain m where m: "host_run h es m" "true_of snap h" "host_run m ?bs h'"
    by (auto simp: host_run_append dest!: asked)
  from m(1) es(1) obtain m0 where m0: "host_run m0 cs m" "is_package snap \<longrightarrow> m0 = h"
    "\<not> is_package snap \<longrightarrow> host_step (DoInstall True) h m0"
    by (cases "is_package snap") auto
  from configuring_keeps [OF m0(1) es(2)] m0(2,3) m(2)
  have "hv_package h \<longrightarrow> hv_package m" "hv_enabled h \<longrightarrow> hv_enabled m" by (auto simp: true_of_def)
  moreover have "?bs = map (\<lambda>f. f True) (rollback_plan snap (\<not> is_package snap))"
    using undo run(2) by (simp add: carried_out_def map2_all_ok)
  ultimately show ?thesis using rollback_restores [OF m(2) paths] m(3) by simp
qed


text \<open>A host without Asterisk on which the service does not restart.\<close>

definition stubborn :: "unit asterisk_deps" where
  "stubborn =
     \<lparr>ad_complete = True,
      ad_detect = (\<lambda>c now w. ((\<lparr>hs_os = ''linux'', hs_package_manager = PmAPT, hs_systemd = True\<rparr>, None), 1, w)),
      ad_is_installed = (\<lambda>n c now w. (Inr False, 1, w)), ad_install = (\<lambda>n c now w. (None, 1, w)),
      ad_remove = (\<lambda>n c now w. (None, 1, w)), ad_is_enabled = (\<lambda>n c now w. (Inr False, 1, w)),
      ad_is_active = (\<lambda>n c now w. (Inr False, 1, w)), ad_enable = (\<lambda>n c now w. (None, 1, w)),
      ad_restart = (\<lambda>n c now w. (Some ''failed'', 1, w)), ad_disable = (\<lambda>n c now w. (None, 1, w)),
      ad_stop = (\<lambda>n c now w. (None, 1, w)), ad_read = (\<lambda>p c now w. (Inr ([], False), 1, w)),
      ad_write = (\<lambda>p t c now w. (None, 1, w)), ad_delete = (\<lambda>p c now w. (None, 1, w)),
      ad_bundle = (\<lambda>root c now w. (Inr \<lparr>bs_root = root, bs_exists = False, bs_entries = []\<rparr>, 1, w)),
      ad_create = (\<lambda>root k c now w. (None, 1, w)), ad_restore = (\<lambda>b c now w. (None, 1, w)),
      ad_verify = (\<lambda>h p u pw c now w. (None, 1, w))\<rparr>"

definition demo_asterisk_options :: asterisk_options where
  "demo_asterisk_options =
     \<lparr>ao_enabled = True, ao_config_root = ''/opt/a'',
      ao_ami = \<lparr>ami_enabled = True, ami_host = [], ami_port = 0, ami_username = ''u'', ami_password = ''p'',
                ami_config_dir = []\<rparr>\<rparr>"

definition asterisk_idle :: "unit asys" where
  "asterisk_idle = \<lparr>world = (), clock = 0, trace = []\<rparr>"

lemma stubborn_fails:
  "isl (fst (asterisk_install stubborn demo_asterisk_options background asterisk_idle))"
  by code_simp


section \<open>The managed section\<close>

text \<open>
  C36. The managed section of a configuration file is an island.  In a file that has none,
  the section is added behind the file's lines; in a file that has it, replacing exchanges
  the section and removing takes it out, and in every case what stands before and behind
  it stays as it is, so that installing and removing gives the file back.
\<close>

theorem managed_section_isolated:
  assumes "newline \<notin> set name" "\<not> sublist (managed_end name) body" "\<not> sublist (managed_begin name) original"
  shows "replace_managed_section original name body = line_ended original @ managed_section name body \<and>
    (\<forall>behind body'.
       replace_managed_section (line_ended original @ managed_section name body @ behind) name body' =
         line_ended original @ managed_section name body' @ behind \<and>
       remove_managed_section (line_ended original @ managed_section name body @ behind) name =
         line_ended original @ behind)"
  using replace_absent [OF assms(3)] replace_existing [OF assms(1,2) before_line_ended [OF assms(1,3)]]
  by blast

lemma managed_section_isolated_witness:
  "remove_managed_section
     (''[general]'' @ nl @ managed_section ''extensions'' render_extensions_section @ ''[local]'') ''extensions'' =
   ''[general]'' @ nl @ ''[local]''"
proof -
  have "newline \<notin> set ''extensions''" by simp
  moreover have "\<not> sublist (managed_end ''extensions'') render_extensions_section"
    unfolding index_str_None [symmetric] by code_simp
  moreover have "\<not> sublist (managed_begin ''extensions'') (''[general]'' @ nl)"
    unfolding index_str_None [symmetric] by code_simp
  ultimately have "remove_managed_section (line_ended (''[general]'' @ nl)
      @ managed_section ''extensions'' render_extensions_section @ ''[local]'') ''extensions'' =
    line_ended (''[general]'' @ nl) @ ''[local]''"
    using managed_section_isolated by blast
  moreover have "line_ended (''[general]'' @ nl) = ''[general]'' @ nl" by (simp add: line_ended_def suffix_def)
  ultimately show ?thesis by simp
qed

end
