(* ===== verification/Detection.thy ===== *)
theory Detection
  imports InstallBase GoPaths "HOL-Library.Multiset"
begin

text \<open>
  \<open>internal/installation\<close> (\<open>detection.go\<close>, \<open>workspace_probe.go\<close>,
  \<open>legacy_directory_probe.go\<close>, \<open>pm2_probe.go\<close>): which installation, if any, the host has.
  The probes look at the two workspace files, the known legacy directory and the PM2
  process list; \<open>classify_detection\<close> decides.  \<open>os.Stat\<close> is the parameter \<open>fs\<close>, the
  runner of \<open>pm2 jlist\<close> and the decoder of its output are parameters too.
\<close>

section \<open>States and evidence\<close>

datatype install_state =
    StateNotInstalled | StateCurrent | StateLegacyPM2 | StateConflict | StateUnknown

datatype evidence_kind =
    EvidenceWorkspaceComplete | EvidenceWorkspaceAbsent | EvidenceWorkspacePartial
  | EvidenceWorkspaceInvalid | EvidenceWorkspaceUnreadable
  | EvidencePM2AliceProcess | EvidencePM2Absent | EvidencePM2Unavailable | EvidencePM2Unsupported
  | EvidencePM2Ambiguous | EvidencePM2Failed
  | EvidenceLegacyDirectory | EvidenceLegacyDirectoryAbsent | EvidenceLegacyDirectoryInvalid
  | EvidenceLegacyDirectoryUnreadable | EvidenceLegacyDirectoryUnsupported

fun kind_number :: "evidence_kind \<Rightarrow> nat" where
  "kind_number EvidenceWorkspaceComplete = 0"
| "kind_number EvidenceWorkspaceAbsent = 1"
| "kind_number EvidenceWorkspacePartial = 2"
| "kind_number EvidenceWorkspaceInvalid = 3"
| "kind_number EvidenceWorkspaceUnreadable = 4"
| "kind_number EvidencePM2AliceProcess = 5"
| "kind_number EvidencePM2Absent = 6"
| "kind_number EvidencePM2Unavailable = 7"
| "kind_number EvidencePM2Unsupported = 8"
| "kind_number EvidencePM2Ambiguous = 9"
| "kind_number EvidencePM2Failed = 10"
| "kind_number EvidenceLegacyDirectory = 11"
| "kind_number EvidenceLegacyDirectoryAbsent = 12"
| "kind_number EvidenceLegacyDirectoryInvalid = 13"
| "kind_number EvidenceLegacyDirectoryUnreadable = 14"
| "kind_number EvidenceLegacyDirectoryUnsupported = 15"

record install_evidence =
  ie_kind :: evidence_kind
  ie_source :: string
  ie_detail :: string
  ie_path :: string

record detection =
  det_state :: install_state
  det_evidence :: "install_evidence list"

datatype presence = PresenceAbsent | PresencePresent | PresenceUncertain | PresenceUnsupported

record probe_result =
  pb_presence :: presence
  pb_evidence :: "install_evidence list"

type_synonym 'w probe = "('w, probe_result) ieff"

section \<open>Classification\<close>

fun bytes_less :: "string \<Rightarrow> string \<Rightarrow> bool" where
  "bytes_less xs [] = False"
| "bytes_less [] (y # ys) = True"
| "bytes_less (x # xs) (y # ys) =
     (let a = (of_char x :: nat); b = of_char y in a < b \<or> (a = b \<and> bytes_less xs ys))"

definition evidence_less :: "install_evidence \<Rightarrow> install_evidence \<Rightarrow> bool" where
  "evidence_less a b \<longleftrightarrow>
     (if ie_source a \<noteq> ie_source b then ie_source a = ''workspace''
      else if ie_kind a \<noteq> ie_kind b then kind_number (ie_kind a) < kind_number (ie_kind b)
      else bytes_less (ie_path a) (ie_path b))"

text \<open>
  \<open>sort.SliceStable\<close> on fewer than twenty elements, where it is an insertion sort: every
  element moves left while it is less than its neighbour.  The comparison is no weak order,
  so the algorithm matters; the probes return at most three pieces of evidence.
\<close>

fun sift_left :: "('a \<Rightarrow> 'a \<Rightarrow> bool) \<Rightarrow> 'a \<Rightarrow> 'a list \<Rightarrow> 'a list" where
  "sift_left lt x [] = [x]"
| "sift_left lt x (y # ys) = (if lt x y then y # sift_left lt x ys else x # y # ys)"

definition insertion_sort :: "('a \<Rightarrow> 'a \<Rightarrow> bool) \<Rightarrow> 'a list \<Rightarrow> 'a list" where
  "insertion_sort lt xs = rev (foldl (\<lambda>acc x. sift_left lt x acc) [] xs)"

definition detected_state :: "presence \<Rightarrow> presence \<Rightarrow> install_state" where
  "detected_state current legacy =
     (if current = PresenceUncertain \<or> legacy = PresenceUncertain then StateUnknown
      else if current = PresencePresent \<and> legacy = PresencePresent then StateConflict
      else if current = PresencePresent then StateCurrent
      else if legacy = PresencePresent then StateLegacyPM2
      else if current = PresenceAbsent \<and> (legacy = PresenceAbsent \<or> legacy = PresenceUnsupported)
      then StateNotInstalled
      else StateUnknown)"

definition classify_detection :: "probe_result \<Rightarrow> probe_result \<Rightarrow> detection" where
  "classify_detection current legacy =
     \<lparr>det_state = detected_state (pb_presence current) (pb_presence legacy),
      det_evidence = insertion_sort evidence_less (pb_evidence current @ pb_evidence legacy)\<rparr>"

definition composite_detect :: "'w probe \<Rightarrow> 'w probe \<Rightarrow> ('w, detection) ieff" where
  "composite_detect current legacy c s =
     (case current c s of (r1, s1) \<Rightarrow> (case legacy c s1 of (r2, s2) \<Rightarrow> (classify_detection r1 r2, s2)))"

section \<open>The workspace\<close>

record artifact_paths =
  ap_env_file :: string
  ap_base_file :: string

definition required_artifact_paths :: "string \<Rightarrow> artifact_paths" where
  "required_artifact_paths dir =
     \<lparr>ap_env_file = path_join [dir, ''.env''], ap_base_file = path_join [dir, ''docker-compose.yml'']\<rparr>"

text \<open>What \<open>Stat\<close> of a path gives: absent, another error, or the kind of the file.\<close>

datatype stat_view = StatAbsent | StatError | StatFile | StatDirectory | StatOther

type_synonym 'w stat = "string \<Rightarrow> ('w, stat_view) ieff"

definition workspace_result :: "presence \<Rightarrow> evidence_kind \<Rightarrow> string \<Rightarrow> string \<Rightarrow> probe_result" where
  "workspace_result p k detail path =
     \<lparr>pb_presence = p,
      pb_evidence = [\<lparr>ie_kind = k, ie_source = ''workspace'', ie_detail = detail, ie_path = path\<rparr>]\<rparr>"

text \<open>The second loop: the first artifact that cannot be validated decides.\<close>

fun validate_artifacts :: "(string \<times> stat_view) list \<Rightarrow> probe_result option" where
  "validate_artifacts [] = None"
| "validate_artifacts ((path, v) # rest) =
     (if v = StatAbsent then
        Some (workspace_result PresenceUncertain EvidenceWorkspacePartial
          ''workspace artifacts cannot be validated'' path)
      else if v = StatError then
        Some (workspace_result PresenceUncertain EvidenceWorkspaceUnreadable
          ''workspace artifacts cannot be validated'' path)
      else if v \<noteq> StatFile then
        Some (workspace_result PresenceUncertain EvidenceWorkspaceInvalid
          ''workspace artifact is not a regular file'' path)
      else validate_artifacts rest)"

definition workspace_probe :: "'w stat \<Rightarrow> string \<Rightarrow> 'w probe" where
  "workspace_probe stat dir c s =
     (let paths = required_artifact_paths dir in
      case stat (ap_env_file paths) c s of (v1, s1) \<Rightarrow>
        (case stat (ap_base_file paths) c s1 of (v2, s2) \<Rightarrow>
          (if v1 = StatAbsent \<and> v2 = StatAbsent
           then workspace_result PresenceAbsent EvidenceWorkspaceAbsent
                  ''required workspace artifacts are absent'' []
           else case validate_artifacts [(ap_env_file paths, v1), (ap_base_file paths, v2)] of
                  Some r \<Rightarrow> r
                | None \<Rightarrow> workspace_result PresencePresent EvidenceWorkspaceComplete
                            ''required workspace artifacts are complete'' (path_clean (ap_base_file paths)),
           s2)))"

section \<open>The legacy directory\<close>

definition known_legacy_alice_directory :: string where
  "known_legacy_alice_directory = ''/opt/backend_alice_guardian/node''"

record probe_platform =
  pp_goos :: string
  pp_goarch :: string

definition probe_supported :: "probe_platform \<Rightarrow> bool" where
  "probe_supported p \<longleftrightarrow> pp_goos p = ''linux'' \<and> (pp_goarch p = ''amd64'' \<or> pp_goarch p = ''arm64'')"

definition legacy_directory_result :: "presence \<Rightarrow> evidence_kind \<Rightarrow> string \<Rightarrow> string \<Rightarrow> probe_result" where
  "legacy_directory_result p k detail path =
     \<lparr>pb_presence = p,
      pb_evidence = [\<lparr>ie_kind = k, ie_source = ''legacy-directory'', ie_detail = detail,
        ie_path = (if path = [] then [] else path_clean path)\<rparr>]\<rparr>"

definition legacy_directory_probe :: "'w stat \<Rightarrow> probe_platform \<Rightarrow> 'w probe" where
  "legacy_directory_probe stat platform c s =
     (if \<not> probe_supported platform then
        (legacy_directory_result PresenceUnsupported EvidenceLegacyDirectoryUnsupported
           ''legacy directory probing is unsupported on this platform'' [], s)
      else case stat known_legacy_alice_directory c s of (v, s1) \<Rightarrow>
        ((case v of
            StatAbsent \<Rightarrow> legacy_directory_result PresenceAbsent EvidenceLegacyDirectoryAbsent
              ''known legacy Alice directory is absent'' known_legacy_alice_directory
          | StatError \<Rightarrow> legacy_directory_result PresenceUncertain EvidenceLegacyDirectoryUnreadable
              ''known legacy Alice directory cannot be inspected'' known_legacy_alice_directory
          | StatDirectory \<Rightarrow> legacy_directory_result PresencePresent EvidenceLegacyDirectory
              ''known legacy Alice directory found'' known_legacy_alice_directory
          | _ \<Rightarrow> legacy_directory_result PresenceUncertain EvidenceLegacyDirectoryInvalid
              ''known legacy Alice path is not a directory'' known_legacy_alice_directory), s1))"

definition legacy_fallback_probe :: "'w probe \<Rightarrow> 'w probe \<Rightarrow> 'w probe" where
  "legacy_fallback_probe directory pm2 c s =
     (case directory c s of (d, s1) \<Rightarrow>
        if pb_presence d = PresencePresent \<or> pb_presence d = PresenceUncertain then (d, s1)
        else (case pm2 c s1 of (p, s2) \<Rightarrow> (p\<lparr>pb_evidence := pb_evidence d @ pb_evidence p\<rparr>, s2)))"

section \<open>The PM2 process list\<close>

record legacy_policy =
  lp_process_names :: "string list"
  lp_script_basenames :: "string list"
  lp_deployment_roots :: "string list"
  lp_ecosystem_files :: "string list"

record pm2_entry =
  en_name :: string
  en_exec_path :: string
  en_env_cwd :: string
  en_env_exec_path :: string

definition path_contained :: "string \<Rightarrow> string \<Rightarrow> bool \<Rightarrow> bool" where
  "path_contained root path allow_root \<longleftrightarrow>
     root \<noteq> [] \<and> path \<noteq> [] \<and>
     (case path_rel (path_clean root) (path_clean path) of
        None \<Rightarrow> False
      | Some r \<Rightarrow> \<not> (r = ''..'' \<or> is_abs r \<or> prefix ''../'' r) \<and> (allow_root \<or> r \<noteq> ''.''))"

definition contains_base :: "string list \<Rightarrow> string \<Rightarrow> bool" where
  "contains_base values path \<longleftrightarrow> path_base (path_clean path) \<in> set values"

definition name_match :: "legacy_policy \<Rightarrow> pm2_entry \<Rightarrow> bool" where
  "name_match p r \<longleftrightarrow> en_name r \<in> set (lp_process_names p)"

definition either_base :: "string list \<Rightarrow> pm2_entry \<Rightarrow> bool" where
  "either_base values r \<longleftrightarrow> contains_base values (en_exec_path r) \<or> contains_base values (en_env_exec_path r)"

definition root_matches :: "legacy_policy \<Rightarrow> pm2_entry \<Rightarrow> string \<Rightarrow> bool" where
  "root_matches p r root \<longleftrightarrow>
     (let cwd = path_contained root (en_env_cwd r) True;
          exec = path_contained root (en_exec_path r) False \<or> path_contained root (en_env_exec_path r) False
      in name_match p r \<and> (cwd \<or> exec) \<or> either_base (lp_script_basenames p) r \<and> cwd \<or>
         either_base (lp_ecosystem_files p) r \<and> exec)"

text \<open>Whether the record matches, and otherwise whether it is weak evidence.\<close>

definition policy_matches :: "legacy_policy \<Rightarrow> pm2_entry \<Rightarrow> bool \<times> bool" where
  "policy_matches p r =
     (if list_ex (root_matches p r) (lp_deployment_roots p) then (True, False)
      else (False, name_match p r \<or> either_base (lp_script_basenames p) r \<or> either_base (lp_ecosystem_files p) r))"

definition pm2_result :: "presence \<Rightarrow> evidence_kind \<Rightarrow> string \<Rightarrow> probe_result" where
  "pm2_result p k detail =
     \<lparr>pb_presence = p,
      pb_evidence = [\<lparr>ie_kind = k, ie_source = ''pm2'', ie_detail = detail, ie_path = []\<rparr>]\<rparr>"

definition judge_records :: "legacy_policy \<Rightarrow> pm2_entry list \<Rightarrow> probe_result" where
  "judge_records policy records =
     (if list_ex (\<lambda>r. fst (policy_matches policy r)) records
      then pm2_result PresencePresent EvidencePM2AliceProcess ''configured Alice PM2 deployment found''
      else if list_ex (\<lambda>r. snd (policy_matches policy r)) records
      then pm2_result PresenceUncertain EvidencePM2Ambiguous ''PM2 evidence requires manual verification''
      else pm2_result PresenceAbsent EvidencePM2Absent ''no configured Alice PM2 deployment found'')"

record 'w pm2_probe =
  pr_runner :: "'w runner option"
  pr_platform :: probe_platform
  pr_policy :: legacy_policy
  pr_timeout :: nat
  pr_decode :: "string \<Rightarrow> pm2_entry list option"

definition pm2_probe_run :: "'w pm2_probe \<Rightarrow> 'w probe" where
  "pm2_probe_run p c s =
     (if \<not> probe_supported (pr_platform p) then
        (pm2_result PresenceUnsupported EvidencePM2Unsupported
           ''legacy PM2 probing is unsupported on this platform'', s)
      else case pr_runner p of
        None \<Rightarrow> (pm2_result PresenceUncertain EvidencePM2Failed ''legacy PM2 probe is unavailable'', s)
      | Some f \<Rightarrow>
          (case invoke f ''pm2'' [''jlist'']
              (with_timeout c (clock s) (if pr_timeout p = 0 then 5 * second else pr_timeout p)) s of
             (r, s1) \<Rightarrow>
               ((case cmd_err r of
                   Some e \<Rightarrow>
                     if not_found e
                     then pm2_result PresenceAbsent EvidencePM2Unavailable ''pm2 is not installed''
                     else pm2_result PresenceUncertain EvidencePM2Failed ''pm2 probe failed''
                 | None \<Rightarrow>
                     (case pr_decode p (out r) of
                        None \<Rightarrow> pm2_result PresenceUncertain EvidencePM2Failed
                                  ''pm2 output could not be validated''
                      | Some records \<Rightarrow> judge_records (pr_policy p) records)), s1)))"

section \<open>Facts\<close>

text \<open>An installation is offered only where both probes are certain that there is none.\<close>

lemma detected_not_installed:
  "det_state (classify_detection current legacy) = StateNotInstalled \<longleftrightarrow>
   pb_presence current = PresenceAbsent \<and> pb_presence legacy \<in> {PresenceAbsent, PresenceUnsupported}"
  by (cases "pb_presence current"; cases "pb_presence legacy")
    (simp_all add: classify_detection_def detected_state_def)

lemma detected_legacy:
  "det_state (classify_detection current legacy) = StateLegacyPM2 \<longleftrightarrow>
   pb_presence legacy = PresencePresent \<and> pb_presence current \<in> {PresenceAbsent, PresenceUnsupported}"
  by (cases "pb_presence current"; cases "pb_presence legacy")
    (simp_all add: classify_detection_def detected_state_def)

lemma sift_left_mset: "mset (sift_left lt x ys) = add_mset x (mset ys)"
  by (induction ys) auto

lemma insertion_sort_mset: "mset (insertion_sort lt xs) = mset xs"
proof -
  have "mset (foldl (\<lambda>acc x. sift_left lt x acc) acc xs) = mset acc + mset xs" for acc
    by (induction xs arbitrary: acc) (simp_all add: sift_left_mset)
  then show ?thesis by (simp add: insertion_sort_def)
qed

text \<open>No evidence is lost or made up.\<close>

lemma classify_keeps_evidence:
  "mset (det_evidence (classify_detection current legacy)) =
     mset (pb_evidence current) + mset (pb_evidence legacy)"
  by (simp add: classify_detection_def insertion_sort_mset)

lemma workspace_probe_cases:
  assumes "workspace_probe stat dir c s = (r, s')"
  shows "(pb_presence r = PresencePresent \<longleftrightarrow>
      (\<exists>s1. stat (path_join [dir, ''.env'']) c s = (StatFile, s1) \<and>
            stat (path_join [dir, ''docker-compose.yml'']) c s1 = (StatFile, s'))) \<and>
    pb_presence r \<noteq> PresenceUnsupported"
  using assms
  by (auto simp: workspace_probe_def required_artifact_paths_def workspace_result_def Let_def
      split: prod.splits if_splits)

text \<open>The wiring of \<open>cmd/installer/main.go\<close> gives the PM2 probe an empty policy, which nothing matches.\<close>

definition empty_policy :: legacy_policy where
  "empty_policy =
     \<lparr>lp_process_names = [], lp_script_basenames = [], lp_deployment_roots = [], lp_ecosystem_files = []\<rparr>"

lemma empty_policy_never_present:
  "pb_presence (judge_records empty_policy records) = PresenceAbsent"
  by (simp add: judge_records_def policy_matches_def empty_policy_def name_match_def either_base_def
      contains_base_def pm2_result_def list_ex_iff)

end
