(* ===== verification/TuiModel.thy ===== *)
theory TuiModel
  imports Detection Headless Handoff BackupAction Asterisk ComposePull
begin

text \<open>
  \<open>internal/tui\<close>, the interactive installer: its messages, the commands its models hand to
  the runtime, and the sub-models, one record and one \<open>Update\<close> each.  A command is a value
  here; what running it may answer is the runtime's business.  What the environment says
  during one call of \<open>Update\<close> (a port test, the health of the services, the GPU probe) is the
  record \<open>tui_world\<close>.  Spinners, styles and the \<open>View\<close> functions are left out; a text field
  is its value, and what the field's own \<open>Update\<close> makes of it is a parameter.
\<close>

section \<open>Screens\<close>

datatype screen =
    StateSplash | StatePreflight | StateBootstrap | StateWorkspaceInput | StateOptionalPackages
  | StatePortScan | StateEnvWrite | StateAsteriskSetup | StatePull | StateDeploy | StateVerify
  | StateResult | StateDetecting | StateContextMenu | StateUpdating | StateBlockedOperation
  | StateActionResult | StateMigrationEnv | StateMigrationAuth | StateMigrationAuthFailed
  | StateBackupPreflight | StateBackupConfirm | StateBackupRunning | StateBackupResult
  | StateMigrationBlocked | StateDatabaseRestore | StateMigrationResult | StateMigrationQuiescence
  | StateMigrationRecovery | StateMigrationSuccess | StateMigrationConfirm | StateMigrationCancelled
  | StateMigrationDisposition | StateMigrationRemoveConfirm | StateDockerAuth | StateDockerAuthFailed
  | StateMigrationAuthCheck | StateMigrationAuthRefresh

fun state_name :: "screen \<Rightarrow> string" where
  "state_name StateSplash = ''splash''"
| "state_name StatePreflight = ''preflight''"
| "state_name StateBootstrap = ''bootstrap''"
| "state_name StateWorkspaceInput = ''workspace-input''"
| "state_name StateOptionalPackages = ''optional-packages''"
| "state_name StatePortScan = ''port-scan''"
| "state_name StateEnvWrite = ''env-write''"
| "state_name StateAsteriskSetup = ''asterisk-setup''"
| "state_name StatePull = ''pull''"
| "state_name StateDeploy = ''deploy''"
| "state_name StateVerify = ''verify''"
| "state_name StateResult = ''result''"
| "state_name StateDetecting = ''detecting''"
| "state_name StateContextMenu = ''context-menu''"
| "state_name StateUpdating = ''updating''"
| "state_name StateBlockedOperation = ''blocked-operation''"
| "state_name StateActionResult = ''action-result''"
| "state_name StateMigrationEnv = ''migration-environment''"
| "state_name StateMigrationAuth = ''migration-auth''"
| "state_name StateMigrationAuthFailed = ''migration-auth-failed''"
| "state_name StateBackupPreflight = ''backup-preflight''"
| "state_name StateBackupConfirm = ''backup-confirm''"
| "state_name StateBackupRunning = ''backup-running''"
| "state_name StateBackupResult = ''backup-result''"
| "state_name StateMigrationBlocked = ''migration-blocked''"
| "state_name StateDatabaseRestore = ''database-restore''"
| "state_name StateMigrationResult = ''migration-result''"
| "state_name StateMigrationQuiescence = ''migration-quiescence''"
| "state_name StateMigrationRecovery = ''migration-recovery''"
| "state_name StateMigrationSuccess = ''migration-success''"
| "state_name StateMigrationConfirm = ''migration-confirm''"
| "state_name StateMigrationCancelled = ''migration-cancelled''"
| "state_name StateMigrationDisposition = ''migration-disposition''"
| "state_name StateMigrationRemoveConfirm = ''migration-remove-confirm''"
| "state_name StateDockerAuth = ''docker-auth''"
| "state_name StateDockerAuthFailed = ''docker-auth-failed''"
| "state_name StateMigrationAuthCheck = ''migration-authorization-check''"
| "state_name StateMigrationAuthRefresh = ''migration-authorization-refresh''"

definition restore_stage_name :: "restore_stage \<Rightarrow> string" where
  "restore_stage_name st =
     (case st of
        StagePlatformGate \<Rightarrow> ''platform-gate'' | StageWait \<Rightarrow> ''wait''
      | RestoreCoordinator.StageCredentials \<Rightarrow> ''credentials''
      | StageLegacyRevalidation \<Rightarrow> ''legacy-revalidation'' | StageBackendStop \<Rightarrow> ''backend-stop''
      | StagePostgresCheck \<Rightarrow> ''postgres-check'' | StageTargetBackup \<Rightarrow> ''target-backup''
      | StageTargetReplacement \<Rightarrow> ''target-replacement''
      | StageRestoreValidation \<Rightarrow> ''restore-validation'' | StageBackendStart \<Rightarrow> ''backend-start''
      | StageBackendHealth \<Rightarrow> ''backend-health'' | StageRollback \<Rightarrow> ''rollback'')"

definition restore_outcome_name :: "restore_outcome \<Rightarrow> string" where
  "restore_outcome_name r =
     (case r of
        RestoreSucceeded \<Rightarrow> ''succeeded'' | RestoreFailedBeforeCutover \<Rightarrow> ''failed-before-cutover''
      | RestoreCancelledBeforeCutover \<Rightarrow> ''cancelled-before-cutover''
      | RestorePartialCutover \<Rightarrow> ''partial-cutover'' | RestoreUnsupported \<Rightarrow> ''unsupported'')"

section \<open>Messages\<close>

datatype tui_key = KeyCtrlC | KeyEsc | KeyEnter | KeyUp | KeyDown | KeySpace | KeyCtrlR | KeyRunes string | KeyOther

datatype context_action =
    ContextActionInstall | ContextActionUpdate | ContextActionUninstall | ContextActionMigration

record port_conflict =
  pc_key :: string
  pc_requested :: int
  pc_reason :: string

record up_msg =
  um_service :: string
  um_status :: string

record install_success =
  is_workspace_dir :: string
  is_env_path :: string
  is_services :: "service_health list"

record install_failure =
  if_err :: "string option"
  if_stage :: string

text \<open>The errors of the handoff's calls, a recovered panic among them.\<close>

datatype handoff_failure = HandoffFailed handoff_error | HandoffPanicked
datatype completion_failure = CompletionReported completion_error | CompletionPanicked

text \<open>
  The messages \<open>Update\<close> distinguishes.  A set of selected packages is a list, a map from
  environment keys to ports an association list without duplicates.
\<close>

type_synonym port_plan = "(string \<times> int) list"

datatype tui_msg =
    ResizeMsg nat nat
  | KeyMsg tui_key
  | DetectionStartedMsg
  | DetectionCompletedMsg detection
  | ContextActionSelectedMsg context_action
  | DockerAuthenticationCompletedMsg "string option"
  | MigrationEnvironmentSelectedMsg string
  | MigrationAuthenticationCompletedMsg "string option"
  | PullCompleteMsg
  | MigrationAuthorizationCheckedMsg "string option"
  | MigrationAuthorizationRefreshCompletedMsg "string option"
  | BackupPreflightCompletedMsg "sentinel list + backup_plan"
  | BackupConfirmedMsg
  | BackupProgressMsg backup_progress
  | BackupProgressClosedMsg
  | BackupElapsedMsg
  | SpinnerTickMsg
  | BackupCompletedMsg backup_result
  | MigrationDispositionSelectedMsg disposition
  | MigrationRemoveConfirmedMsg
  | MigrationQuiescenceCompletedMsg "lease option" "handoff_failure option"
  | MigrationRecoveryCompletedMsg recovery "completion_failure option"
  | MigrationSuccessCompletedMsg install_success "handoff_failure option"
  | MigrationAbandonedMsg
  | UpdateCompletedMsg "string option"
  | BlockedOperationDismissedMsg
  | PreflightStartedMsg
  | PreflightResultMsg report
  | BootstrapActionResultMsg string "string option"
  | BootstrapFailedMsg string string
  | BootstrapCompleteMsg
  | BootstrapSkippedMsg
  | PreflightPassedMsg
  | WorkspaceEnteredMsg string
  | OptionalPackagesConfirmedMsg "string list"
  | PortScanResultMsg "port_conflict list" port_plan
  | PortsConfirmedMsg port_plan
  | EnvWrittenMsg string
  | AsteriskSetupCompleteMsg asterisk_result
  | PullStartedMsg
  | PullProgressMsg pull_msg
  | DeployStartedMsg
  | DeployProgressMsg up_msg
  | DeployCompleteMsg
  | RestoreCompletedMsg restore_result
  | HealthTickMsg
  | HealthReportMsg "service_health list" bool
  | InstallSuccessMsg install_success
  | InstallFailureMsg install_failure
  | UnhandledMsg

section \<open>Commands\<close>

text \<open>
  What \<open>Update\<close> and \<open>Init\<close> hand to the runtime; a batch or a sequence is a list.  The
  commands that close over a sub-model or over the dependencies carry what they read from
  them: the scan of the ports its maps and exemptions, the preflight its exemptions.
\<close>

datatype tui_cmd =
    QuitCmd
  | Emit tui_msg
  | PrintLine string
  | Detect
  | AuthenticateDocker
  | AuthenticateMigration
  | ValidateAuthorization
  | RefreshAuthorization
  | RunUpdate
  | PreflightBackup backup_request
  | RunBackup backup_plan
  | TickSpinner
  | TickElapsed
  | WaitBackupProgress
  | BeginQuiescence backup_ref string disposition
  | RecoverLease lease
  | CompleteLease lease install_success
  | RunPreflight "int list" "int list"
  | ExecuteAction action
  | BlinkField
  | ScanPorts port_plan port_plan "int list" "int list"
  | WriteEnvFiles string env_input
  | InstallAsterisk asterisk_options
  | PullImages "string list" string
  | DrainPull
  | DeployStack "string list" string
  | DrainDeploy
  | RunRestore restore_request
  | HealthTickAfter nat

record tui_world =
  tw_tcp_free :: "int \<Rightarrow> bool"
  tw_udp_free :: "int \<Rightarrow> bool"
  tw_health :: "string + service_health list"
  tw_gpu :: bool
  tw_arch :: arch
  tw_env :: bootstrap_env
  tw_asterisk :: bool
  tw_field :: "string \<Rightarrow> string"

section \<open>Splash, menu, blocked operation\<close>

fun splash_update :: "tui_msg \<Rightarrow> tui_cmd list" where
  "splash_update (KeyMsg KeyEnter) = [Emit DetectionStartedMsg]"
| "splash_update msg = []"

record context_menu =
  menu_detection :: detection
  menu_actions :: "context_action list"
  menu_cursor :: nat
  menu_migration_available :: bool

definition menu_actions_of :: "install_state \<Rightarrow> context_action list" where
  "menu_actions_of st =
     (case st of
        StateNotInstalled \<Rightarrow> [ContextActionInstall]
      | StateCurrent \<Rightarrow> [ContextActionUpdate, ContextActionUninstall]
      | StateLegacyPM2 \<Rightarrow> [ContextActionMigration]
      | _ \<Rightarrow> [])"

definition new_context_menu :: "detection \<Rightarrow> context_menu" where
  "new_context_menu d =
     \<lparr>menu_detection = d, menu_actions = menu_actions_of (det_state d), menu_cursor = 0,
      menu_migration_available = False\<rparr>"

definition has_action :: "context_menu \<Rightarrow> context_action \<Rightarrow> bool" where
  "has_action m a \<longleftrightarrow> a \<in> set (menu_actions m)"

definition context_menu_update :: "tui_msg \<Rightarrow> context_menu \<Rightarrow> context_menu \<times> tui_cmd list" where
  "context_menu_update msg m =
     (case msg of
        KeyMsg KeyUp \<Rightarrow> (m\<lparr>menu_cursor := menu_cursor m - 1\<rparr>, [])
      | KeyMsg KeyDown \<Rightarrow>
          ((if menu_cursor m + 1 < length (menu_actions m) then m\<lparr>menu_cursor := menu_cursor m + 1\<rparr> else m), [])
      | KeyMsg KeyEnter \<Rightarrow>
          (m, if menu_actions m = [] then []
              else [Emit (ContextActionSelectedMsg (menu_actions m ! menu_cursor m))])
      | _ \<Rightarrow> (m, []))"

fun blocked_operation_update :: "tui_msg \<Rightarrow> tui_cmd list" where
  "blocked_operation_update (KeyMsg KeyEsc) = [Emit BlockedOperationDismissedMsg]"
| "blocked_operation_update msg = []"

section \<open>Environment and disposition of a migration\<close>

definition migration_environments :: "string list" where
  "migration_environments = [environment_development, environment_production]"

definition migration_environment_update :: "tui_msg \<Rightarrow> nat \<Rightarrow> nat \<times> tui_cmd list" where
  "migration_environment_update msg cursor =
     (case msg of
        KeyMsg KeyUp \<Rightarrow> (cursor - 1, [])
      | KeyMsg KeyDown \<Rightarrow> ((if cursor + 1 < length migration_environments then cursor + 1 else cursor), [])
      | KeyMsg KeyEnter \<Rightarrow> (cursor, [Emit (MigrationEnvironmentSelectedMsg (migration_environments ! cursor))])
      | _ \<Rightarrow> (cursor, []))"

definition migration_disposition_update :: "tui_msg \<Rightarrow> nat \<Rightarrow> nat \<times> tui_cmd list" where
  "migration_disposition_update msg cursor =
     (case msg of
        KeyMsg KeyUp \<Rightarrow> (0, [])
      | KeyMsg KeyDown \<Rightarrow> (1, [])
      | KeyMsg KeyEnter \<Rightarrow>
          (cursor, [Emit (MigrationDispositionSelectedMsg
                           (if cursor = 1 then disposition_remove else disposition_stop))])
      | _ \<Rightarrow> (cursor, []))"

section \<open>Preflight and bootstrap\<close>

record preflight_screen =
  pfm_exempt_tcp :: "int list"
  pfm_exempt_udp :: "int list"
  pfm_report :: "report option"

definition preflight_init :: "preflight_screen \<Rightarrow> tui_cmd list" where
  "preflight_init p = [RunPreflight (pfm_exempt_tcp p) (pfm_exempt_udp p)]"

definition preflight_rearm :: "preflight_screen \<Rightarrow> preflight_screen \<times> tui_cmd list" where
  "preflight_rearm p = (p\<lparr>pfm_report := None\<rparr>, preflight_init p)"

definition preflight_screen_update :: "tui_msg \<Rightarrow> preflight_screen \<Rightarrow> preflight_screen \<times> tui_cmd list" where
  "preflight_screen_update msg p =
     (case msg of
        PreflightResultMsg r \<Rightarrow> (p\<lparr>pfm_report := Some r\<rparr>, [])
      | KeyMsg KeyEnter \<Rightarrow>
          (p, case pfm_report p of
                Some r \<Rightarrow> if has_blocking_failure r then [] else [Emit PreflightPassedMsg]
              | None \<Rightarrow> [])
      | SpinnerTickMsg \<Rightarrow> (p, [TickSpinner])
      | _ \<Rightarrow> (p, []))"

record bootstrap_screen =
  boot_actions :: "action list"
  boot_current :: nat
  boot_results :: "(string \<times> string option) list"
  boot_confirming :: bool
  boot_done :: bool
  boot_failed :: "(string \<times> string) option"
  boot_declined :: bool
  boot_showing_banner :: bool
  boot_banners :: "string list"

definition new_bootstrap_screen :: "action list \<Rightarrow> bootstrap_screen" where
  "new_bootstrap_screen actions =
     \<lparr>boot_actions = actions, boot_current = 0, boot_results = [], boot_confirming = True, boot_done = False,
      boot_failed = None, boot_declined = False, boot_showing_banner = False, boot_banners = []\<rparr>"

definition banner_commands :: "string list \<Rightarrow> tui_cmd list" where
  "banner_commands banners =
     [PrintLine [], PrintLine ''Bootstrap complete. Action required before continuing:'']
     @ map (\<lambda>b. PrintLine (''  '' @ map char_of [0xE2, 0x80, 0xA2 :: nat] @ '' '' @ b)) banners
     @ [PrintLine [], PrintLine ''Once done, re-run `alice-installer`.'', QuitCmd]"

definition bootstrap_start :: "bootstrap_screen \<Rightarrow> bootstrap_screen \<times> tui_cmd list" where
  "bootstrap_start m =
     (m\<lparr>boot_confirming := False\<rparr>,
      if boot_actions m = [] then [Emit BootstrapCompleteMsg]
      else [ExecuteAction (boot_actions m ! boot_current m)])"

definition bootstrap_decline :: "bootstrap_screen \<Rightarrow> bootstrap_screen \<times> tui_cmd list" where
  "bootstrap_decline m = (m\<lparr>boot_declined := True\<rparr>, [Emit BootstrapSkippedMsg])"

definition bootstrap_key :: "tui_key \<Rightarrow> bootstrap_screen \<Rightarrow> bootstrap_screen \<times> tui_cmd list" where
  "bootstrap_key k m =
     (if boot_showing_banner m then
        (m, if k = KeyEnter
            then (if boot_banners m \<noteq> [] then banner_commands (boot_banners m) else [Emit BootstrapCompleteMsg])
            else [])
      else if boot_confirming m then
        (case k of
           KeyRunes r \<Rightarrow>
             if r = ''y'' \<or> r = ''Y'' then bootstrap_start m
             else if r = ''n'' \<or> r = ''N'' then bootstrap_decline m else (m, [])
         | KeyEnter \<Rightarrow> bootstrap_start m
         | KeyEsc \<Rightarrow> bootstrap_decline m
         | _ \<Rightarrow> (m, []))
      else (m, []))"

definition bootstrap_result :: "string \<Rightarrow> string option \<Rightarrow> bootstrap_screen \<Rightarrow> bootstrap_screen \<times> tui_cmd list" where
  "bootstrap_result i err m0 =
     (let m = m0\<lparr>boot_results := boot_results m0 @ [(i, err)]\<rparr> in
      case err of
        Some e \<Rightarrow> (m\<lparr>boot_failed := Some (i, e)\<rparr>, [Emit (BootstrapFailedMsg i e)])
      | None \<Rightarrow>
          (let m1 = m\<lparr>boot_current := boot_current m + 1\<rparr> in
           if boot_current m1 \<ge> length (boot_actions m1) then
             (let banners = filter (\<lambda>b. b \<noteq> []) (map act_banner (boot_actions m1)) in
              if banners \<noteq> []
              then (m1\<lparr>boot_done := True, boot_showing_banner := True, boot_banners := banners\<rparr>, [])
              else (m1\<lparr>boot_done := True\<rparr>, [Emit BootstrapCompleteMsg]))
           else (m1, [ExecuteAction (boot_actions m1 ! boot_current m1)])))"

definition bootstrap_screen_update :: "tui_msg \<Rightarrow> bootstrap_screen \<Rightarrow> bootstrap_screen \<times> tui_cmd list" where
  "bootstrap_screen_update msg m =
     (case msg of
        KeyMsg k \<Rightarrow> bootstrap_key k m
      | BootstrapActionResultMsg i err \<Rightarrow> bootstrap_result i err m
      | _ \<Rightarrow> (m, []))"

section \<open>Workspace name and optional packages\<close>

record workspace_screen =
  wsi_value :: string
  wsi_err :: "workspace_error option"

definition workspace_screen_update ::
  "tui_world \<Rightarrow> tui_msg \<Rightarrow> workspace_screen \<Rightarrow> workspace_screen \<times> tui_cmd list" where
  "workspace_screen_update w msg m =
     (case msg of
        KeyMsg KeyEnter \<Rightarrow>
          (let val = trim_space (wsi_value m) in
           case validate_workspace val of
             Some e \<Rightarrow> (m\<lparr>wsi_err := Some e\<rparr>, [])
           | None \<Rightarrow> (m\<lparr>wsi_err := None\<rparr>, [Emit (WorkspaceEnteredMsg val)]))
      | _ \<Rightarrow> (m\<lparr>wsi_value := tw_field w (wsi_value m)\<rparr>, [BlinkField]))"

definition asterisk_package :: string where "asterisk_package = ''asterisk''"

record packages_screen =
  opk_items :: "string list"
  opk_cursor :: nat
  opk_selected :: "string list"

definition new_packages_screen :: "bool \<Rightarrow> packages_screen" where
  "new_packages_screen available =
     \<lparr>opk_items = (if available then [asterisk_package] else []), opk_cursor = 0, opk_selected = []\<rparr>"

definition toggle :: "string \<Rightarrow> string list \<Rightarrow> string list" where
  "toggle i sel = (if i \<in> set sel then filter (\<lambda>j. j \<noteq> i) sel else i # sel)"

definition packages_screen_update :: "tui_msg \<Rightarrow> packages_screen \<Rightarrow> packages_screen \<times> tui_cmd list" where
  "packages_screen_update msg m =
     (case msg of
        KeyMsg KeyUp \<Rightarrow> (m\<lparr>opk_cursor := opk_cursor m - 1\<rparr>, [])
      | KeyMsg KeyDown \<Rightarrow>
          ((if opk_cursor m + 1 < length (opk_items m) then m\<lparr>opk_cursor := opk_cursor m + 1\<rparr> else m), [])
      | KeyMsg KeySpace \<Rightarrow>
          ((if opk_items m = [] then m
            else m\<lparr>opk_selected := toggle (opk_items m ! opk_cursor m) (opk_selected m)\<rparr>), [])
      | KeyMsg KeyEnter \<Rightarrow> (m, [Emit (OptionalPackagesConfirmedMsg (opk_selected m))])
      | _ \<Rightarrow> (m, []))"

end
