(* ===== verification/TuiInstall.thy ===== *)
theory TuiInstall
  imports TuiModel "HOL-Library.AList"
begin

text \<open>
  \<open>internal/tui\<close>, the screens of the installation itself: the port scan with its conflict
  resolution, the environment files, Asterisk, pulling, deploying, verifying and the result;
  and what the commands of these screens do when the runtime runs them.
\<close>

section \<open>Port scan\<close>

datatype port_error = PortNotNumeric string | PortOutOfRange int | PortOccupied int

record port_screen =
  psc_required :: port_plan
  psc_udp :: port_plan
  psc_exempt_tcp :: "int list"
  psc_exempt_udp :: "int list"
  psc_result :: "(port_conflict list \<times> port_plan) option"
  psc_resolving :: bool
  psc_conflicts :: "port_conflict list"
  psc_free_plan :: port_plan
  psc_key :: string
  psc_port :: int
  psc_value :: string
  psc_err :: "port_error option"

definition new_port_screen :: "port_plan \<Rightarrow> port_plan \<Rightarrow> port_screen" where
  "new_port_screen tcp_ports udp_ports =
     \<lparr>psc_required = tcp_ports, psc_udp = udp_ports, psc_exempt_tcp = [], psc_exempt_udp = [], psc_result = None,
      psc_resolving = False, psc_conflicts = [], psc_free_plan = [], psc_key = [], psc_port = 0,
      psc_value = [], psc_err = None\<rparr>"

definition set_exempt_ports :: "int list \<Rightarrow> int list \<Rightarrow> port_screen \<Rightarrow> port_screen" where
  "set_exempt_ports tcp udp_ports p = p\<lparr>psc_exempt_tcp := tcp, psc_exempt_udp := udp_ports\<rparr>"

definition port_screen_init :: "port_screen \<Rightarrow> tui_cmd list" where
  "port_screen_init p = [ScanPorts (psc_required p) (psc_udp p) (psc_exempt_tcp p) (psc_exempt_udp p)]"

text \<open>
  \<open>scanAll\<close>: the keys in the order of their bytes, TCP before UDP; a key of both maps has
  the UDP port in the plan.
\<close>

definition sorted_keys :: "port_plan \<Rightarrow> string list" where
  "sorted_keys m = insertion_sort bytes_less (map fst m)"

fun scan_ports ::
  "(int \<Rightarrow> ('w, bool) ieff) \<Rightarrow> int list \<Rightarrow> port_plan \<Rightarrow> string list \<Rightarrow> port_conflict list \<times> port_plan \<Rightarrow>
   ctx \<Rightarrow> 'w isys \<Rightarrow> (port_conflict list \<times> port_plan) \<times> 'w isys" where
  "scan_ports free exempt m [] acc c s = (acc, s)"
| "scan_ports free exempt m (k # ks) (conflicts, plan) c s =
     (let port = port_at (map_of m) k in
      case (if port \<in> set exempt then (True, s) else free port c s) of
        (ok, s1) \<Rightarrow>
          scan_ports free exempt m ks
            (if ok then (conflicts, AList.update k port plan)
             else (conflicts @ [\<lparr>pc_key = k, pc_requested = port, pc_reason = ''occupied''\<rparr>], plan)) c s1)"

definition scan_all ::
  "'w port_scanner \<Rightarrow> port_plan \<Rightarrow> port_plan \<Rightarrow> int list \<Rightarrow> int list \<Rightarrow> 'w isys \<Rightarrow> tui_msg \<times> 'w isys" where
  "scan_all sc tcp_ports udp_ports exempt_tcp exempt_udp s =
     (case scan_ports (is_available sc) exempt_tcp tcp_ports (sorted_keys tcp_ports) ([], []) background s of
        (acc, s1) \<Rightarrow>
          (case scan_ports (is_udp_available sc) exempt_udp udp_ports (sorted_keys udp_ports) acc background s1 of
             ((conflicts, plan), s2) \<Rightarrow> (PortScanResultMsg conflicts plan, s2)))"

definition port_scan_result :: "port_conflict list \<Rightarrow> port_plan \<Rightarrow> port_screen \<Rightarrow> port_screen \<times> tui_cmd list" where
  "port_scan_result conflicts plan p0 =
     (let p = p0\<lparr>psc_result := Some (conflicts, plan), psc_free_plan := plan\<rparr> in
      case conflicts of
        [] \<Rightarrow> (p, [Emit (PortsConfirmedMsg plan)])
      | first # _ \<Rightarrow>
          (p\<lparr>psc_conflicts := conflicts, psc_resolving := True, psc_key := pc_key first,
             psc_port := pc_requested first, psc_value := []\<rparr>, [BlinkField]))"

definition port_accepted :: "int \<Rightarrow> port_screen \<Rightarrow> port_screen \<times> tui_cmd list" where
  "port_accepted port p0 =
     (let p = p0\<lparr>psc_err := None, psc_free_plan := AList.update (psc_key p0) port (psc_free_plan p0),
                 psc_conflicts := tl (psc_conflicts p0)\<rparr> in
      case psc_conflicts p of
        [] \<Rightarrow> (p\<lparr>psc_resolving := False\<rparr>, [Emit (PortsConfirmedMsg (psc_free_plan p))])
      | next # _ \<Rightarrow>
          (p\<lparr>psc_key := pc_key next, psc_port := pc_requested next, psc_value := []\<rparr>, []))"

definition handle_alternate_port :: "tui_world \<Rightarrow> port_screen \<Rightarrow> port_screen \<times> tui_cmd list" where
  "handle_alternate_port w p =
     (let raw = trim_space (psc_value p) in
      case atoi_ok raw of
        None \<Rightarrow> (p\<lparr>psc_err := Some (PortNotNumeric raw)\<rparr>, [])
      | Some port \<Rightarrow>
          if port \<le> 0 \<or> port > 65535 then (p\<lparr>psc_err := Some (PortOutOfRange port)\<rparr>, [])
          else if \<not> (if psc_key p \<in> fst ` set (psc_udp p) then tw_udp_free w port else tw_tcp_free w port)
          then (p\<lparr>psc_err := Some (PortOccupied port)\<rparr>, [])
          else port_accepted port p)"

definition port_field :: "tui_world \<Rightarrow> port_screen \<Rightarrow> port_screen \<times> tui_cmd list" where
  "port_field w p =
     (if psc_resolving p then (p\<lparr>psc_value := tw_field w (psc_value p)\<rparr>, [BlinkField]) else (p, []))"

definition port_screen_update :: "tui_world \<Rightarrow> tui_msg \<Rightarrow> port_screen \<Rightarrow> port_screen \<times> tui_cmd list" where
  "port_screen_update w msg p =
     (case msg of
        PortScanResultMsg conflicts plan \<Rightarrow> port_scan_result conflicts plan p
      | KeyMsg KeyCtrlR \<Rightarrow> (p, port_screen_init p)
      | KeyMsg KeyEnter \<Rightarrow> if psc_resolving p then handle_alternate_port w p else port_field w p
      | _ \<Rightarrow> port_field w p)"

section \<open>Environment files\<close>

record env_write_screen =
  ewm_target :: string
  ewm_input :: env_input
  ewm_err :: "string option"
  ewm_done :: bool
  ewm_written :: string

definition new_env_write_screen :: "string \<Rightarrow> env_input \<Rightarrow> env_write_screen" where
  "new_env_write_screen target input =
     \<lparr>ewm_target = target, ewm_input = input, ewm_err = None, ewm_done = False, ewm_written = []\<rparr>"

definition env_write_screen_init :: "env_write_screen \<Rightarrow> tui_cmd list" where
  "env_write_screen_init e = [WriteEnvFiles (ewm_target e) (ewm_input e)]"

definition env_write_screen_update :: "tui_msg \<Rightarrow> env_write_screen \<Rightarrow> env_write_screen \<times> tui_cmd list" where
  "env_write_screen_update msg e =
     (case msg of
        EnvWrittenMsg path \<Rightarrow> (e\<lparr>ewm_done := True, ewm_written := path\<rparr>, [])
      | InstallFailureMsg f \<Rightarrow> (e\<lparr>ewm_err := if_err f\<rparr>, [])
      | SpinnerTickMsg \<Rightarrow> (e, [TickSpinner])
      | _ \<Rightarrow> (e, []))"

text \<open>
  \<open>Init\<close>, run: the directory, the rendered file, the two compose files.  The texts of the
  errors stand for the errors of the five steps.
\<close>

definition stage_failure_msg :: "string \<Rightarrow> string \<Rightarrow> tui_msg" where
  "stage_failure_msg stage e = InstallFailureMsg \<lparr>if_err = Some e, if_stage = stage\<rparr>"

definition write_env_files ::
  "'w headless_deps \<Rightarrow> string \<Rightarrow> env_input \<Rightarrow> 'w isys \<Rightarrow> tui_msg \<times> 'w isys" where
  "write_env_files d target input s =
     (let dir = path_dir target; failed = stage_failure_msg ''env-write'' in
      case fs_ok (hd_fs d) (FsMkdirAll dir 0x1C0) s of
        (False, s1) \<Rightarrow> (failed ''mkdir'', s1)
      | (True, s1) \<Rightarrow>
          (case render_env (hd_generate d) (hd_env_example d) input of
             Inl e \<Rightarrow> (failed ''render'', s1)
           | Inr rendered \<Rightarrow>
               (case hd_writer d target rendered s1 of
                  (False, s2) \<Rightarrow> (failed ''write'', s2)
                | (True, s2) \<Rightarrow>
                    (case fs_ok (hd_fs d)
                        (FsWriteFile (path_join [dir, ''docker-compose.yml'']) (hd_baseline d) 0x1A4) s2 of
                       (False, s3) \<Rightarrow> (failed ''compose'', s3)
                     | (True, s3) \<Rightarrow>
                         (case fs_ok (hd_fs d)
                             (FsWriteFile (path_join [dir, ''docker-compose.gpu.yml'']) (hd_overlay d) 0x1A4) s3 of
                            (False, s4) \<Rightarrow> (failed ''overlay'', s4)
                          | (True, s4) \<Rightarrow> (EnvWrittenMsg target, s4))))))"

section \<open>Asterisk\<close>

record asterisk_screen =
  asm_options :: asterisk_options
  asm_done :: bool
  asm_err :: "string option"
  asm_result :: asterisk_result

definition new_asterisk_screen :: "asterisk_options \<Rightarrow> asterisk_screen" where
  "new_asterisk_screen opts =
     \<lparr>asm_options = opts, asm_done = False, asm_err = None, asm_result = no_asterisk\<rparr>"

definition asterisk_screen_init :: "asterisk_screen \<Rightarrow> tui_cmd list" where
  "asterisk_screen_init a = [InstallAsterisk (asm_options a)]"

definition asterisk_screen_update :: "tui_msg \<Rightarrow> asterisk_screen \<Rightarrow> asterisk_screen \<times> tui_cmd list" where
  "asterisk_screen_update msg a =
     (case msg of
        AsteriskSetupCompleteMsg r \<Rightarrow> (a\<lparr>asm_done := True, asm_result := r\<rparr>, [Emit PullStartedMsg])
      | InstallFailureMsg f \<Rightarrow> (a\<lparr>asm_err := if_err f\<rparr>, [])
      | SpinnerTickMsg \<Rightarrow> (a, [TickSpinner])
      | _ \<Rightarrow> (a, []))"

text \<open>\<open>Init\<close>, run, with the installer of the dependencies or without one.\<close>

definition setup_asterisk ::
  "(asterisk_options \<Rightarrow> ctx \<Rightarrow> 's \<Rightarrow> ('e + asterisk_result) \<times> 's) option \<Rightarrow> ('e \<Rightarrow> string) \<Rightarrow> asterisk_options \<Rightarrow>
   's \<Rightarrow> tui_msg \<times> 's" where
  "setup_asterisk installer text_of opts s =
     (case installer of
        None \<Rightarrow> (stage_failure_msg ''asterisk-setup'' ''asterisk installer dependency is not configured'', s)
      | Some install \<Rightarrow>
          (case install opts background s of
             (Inl e, s1) \<Rightarrow> (stage_failure_msg ''asterisk-setup'' (text_of e), s1)
           | (Inr r, s1) \<Rightarrow> (AsteriskSetupCompleteMsg r, s1)))"

section \<open>Pull and deploy\<close>

record pull_screen =
  plm_files :: "string list"
  plm_env :: string
  plm_services :: "string \<rightharpoonup> string"
  plm_err :: "string option"
  plm_done :: bool

definition new_pull_screen :: "string list \<Rightarrow> string \<Rightarrow> pull_screen" where
  "new_pull_screen files env =
     \<lparr>plm_files = files, plm_env = env, plm_services = Map.empty, plm_err = None, plm_done = False\<rparr>"

definition pull_screen_init :: "pull_screen \<Rightarrow> tui_cmd list" where
  "pull_screen_init p = [PullImages (plm_files p) (plm_env p), DrainPull]"

definition pull_status :: "pull_msg \<Rightarrow> string" where
  "pull_status m =
     (case pm_percent m of None \<Rightarrow> pm_status m | Some n \<Rightarrow> pm_status m @ '' '' @ itoa n @ ''%'')"

definition pull_screen_update :: "tui_msg \<Rightarrow> pull_screen \<Rightarrow> pull_screen \<times> tui_cmd list" where
  "pull_screen_update msg p =
     (case msg of
        PullProgressMsg m \<Rightarrow>
          ((if pm_service m = [] then p
            else p\<lparr>plm_services := (plm_services p)(pm_service m \<mapsto> pull_status m)\<rparr>), [DrainPull])
      | PullCompleteMsg \<Rightarrow> (p\<lparr>plm_done := True\<rparr>, [Emit DeployStartedMsg])
      | InstallFailureMsg f \<Rightarrow> (p\<lparr>plm_err := if_err f\<rparr>, [])
      | SpinnerTickMsg \<Rightarrow> (p, [TickSpinner])
      | _ \<Rightarrow> (p, []))"

definition pull_answer :: "string option \<Rightarrow> tui_msg" where
  "pull_answer err = (case err of Some e \<Rightarrow> stage_failure_msg ''pull'' e | None \<Rightarrow> PullCompleteMsg)"

record deploy_screen =
  dpm_files :: "string list"
  dpm_env :: string
  dpm_services :: "string \<rightharpoonup> string"
  dpm_err :: "string option"
  dpm_done :: bool

definition new_deploy_screen :: "string list \<Rightarrow> string \<Rightarrow> deploy_screen" where
  "new_deploy_screen files env =
     \<lparr>dpm_files = files, dpm_env = env, dpm_services = Map.empty, dpm_err = None, dpm_done = False\<rparr>"

definition deploy_screen_init :: "deploy_screen \<Rightarrow> tui_cmd list" where
  "deploy_screen_init d = [DeployStack (dpm_files d) (dpm_env d), DrainDeploy]"

definition deploy_screen_update :: "tui_msg \<Rightarrow> deploy_screen \<Rightarrow> deploy_screen \<times> tui_cmd list" where
  "deploy_screen_update msg d =
     (case msg of
        DeployProgressMsg m \<Rightarrow>
          ((if um_service m = [] then d
            else d\<lparr>dpm_services := (dpm_services d)(um_service m \<mapsto> um_status m)\<rparr>), [DrainDeploy])
      | DeployCompleteMsg \<Rightarrow> (d\<lparr>dpm_done := True\<rparr>, [Emit HealthTickMsg])
      | InstallFailureMsg f \<Rightarrow> (d\<lparr>dpm_err := if_err f\<rparr>, [])
      | SpinnerTickMsg \<Rightarrow> (d, [TickSpinner])
      | _ \<Rightarrow> (d, []))"

definition deploy_answer :: "string option \<Rightarrow> tui_msg" where
  "deploy_answer err = (case err of Some e \<Rightarrow> stage_failure_msg ''deploy'' e | None \<Rightarrow> DeployCompleteMsg)"

section \<open>Verification\<close>

text \<open>The timeout is always the three minutes of \<open>NewVerifyModel\<close>, which its error names.\<close>

record verify_screen =
  vfm_files :: "string list"
  vfm_env :: string
  vfm_services :: "service_health list"
  vfm_elapsed :: nat
  vfm_timeout :: nat
  vfm_interval :: nat
  vfm_err :: "string option"
  vfm_done :: bool

definition new_verify_screen :: "string list \<Rightarrow> string \<Rightarrow> verify_screen" where
  "new_verify_screen files env =
     \<lparr>vfm_files = files, vfm_env = env, vfm_services = [], vfm_elapsed = 0, vfm_timeout = 180 * second,
      vfm_interval = 3 * second, vfm_err = None, vfm_done = False\<rparr>"

definition verify_screen_init :: "verify_screen \<Rightarrow> tui_cmd list" where
  "verify_screen_init v = [HealthTickAfter (vfm_interval v)]"

definition verify_poll :: "tui_world \<Rightarrow> tui_msg" where
  "verify_poll w =
     (case tw_health w of
        Inl e \<Rightarrow> stage_failure_msg ''verify'' e
      | Inr services \<Rightarrow>
          if all_ready services
          then InstallSuccessMsg \<lparr>is_workspace_dir = [], is_env_path = [], is_services = services\<rparr>
          else HealthReportMsg services False)"

definition verify_tick :: "tui_world \<Rightarrow> verify_screen \<Rightarrow> verify_screen \<times> tui_cmd list" where
  "verify_tick w v0 =
     (if vfm_elapsed v0 \<ge> vfm_timeout v0
      then (v0, [Emit (stage_failure_msg ''verify'' ''healthcheck timeout after 3m0s'')])
      else (let v = v0\<lparr>vfm_elapsed := vfm_elapsed v0 + vfm_interval v0\<rparr> in
        case verify_poll w of
          InstallSuccessMsg r \<Rightarrow>
            (v\<lparr>vfm_done := True, vfm_services := is_services r\<rparr>, [Emit (InstallSuccessMsg r)])
        | InstallFailureMsg r \<Rightarrow> (v\<lparr>vfm_err := if_err r\<rparr>, [Emit (InstallFailureMsg r)])
        | HealthReportMsg services fin \<Rightarrow>
            (v\<lparr>vfm_services := services\<rparr>, [HealthTickAfter (vfm_interval v)])
        | _ \<Rightarrow> (v, [])))"

definition verify_screen_update :: "tui_world \<Rightarrow> tui_msg \<Rightarrow> verify_screen \<Rightarrow> verify_screen \<times> tui_cmd list" where
  "verify_screen_update w msg v =
     (case msg of
        HealthTickMsg \<Rightarrow> verify_tick w v
      | KeyMsg (KeyRunes r) \<Rightarrow> (v, if r = ''r'' then [Emit HealthTickMsg] else [])
      | SpinnerTickMsg \<Rightarrow> (v, [TickSpinner])
      | _ \<Rightarrow> (v, []))"

section \<open>Result\<close>

record result_screen =
  rsm_success :: bool
  rsm_detail :: "install_success option"
  rsm_failure :: "install_failure option"
  rsm_log :: string

definition new_result_screen :: "install_success option \<Rightarrow> install_failure option \<Rightarrow> string \<Rightarrow> result_screen" where
  "new_result_screen ok failed log =
     \<lparr>rsm_success = (ok \<noteq> None), rsm_detail = ok, rsm_failure = failed, rsm_log = log\<rparr>"

definition result_screen_update :: "tui_msg \<Rightarrow> tui_cmd list" where
  "result_screen_update msg =
     (case msg of
        KeyMsg KeyEnter \<Rightarrow> [QuitCmd]
      | KeyMsg (KeyRunes r) \<Rightarrow> if r = ''q'' \<or> r = ''r'' then [QuitCmd] else []
      | _ \<Rightarrow> [])"

end
