(* ===== verification/TuiRoot.thy ===== *)
theory TuiRoot
  imports TuiInstall
begin

text \<open>
  \<open>internal/tui/model.go\<close> with \<open>migration_quiescence.go\<close>: the root model and its \<open>Update\<close>.
  The handler of every message is a definition of its own; \<open>tui_update\<close> puts them in the
  order of the source: the global keys, the transition messages, then the active screen.
  What \<open>Update\<close> does besides (writing the run log, calling a cancel function) is appended to
  \<open>tm_effects\<close>.  The details in the \<open>Fields\<close> of a log event are left out.
\<close>

section \<open>The model\<close>

text \<open>A collaborator is a flag: whether it is there.\<close>

record tui_deps =
  td_debug :: bool
  td_run_log :: bool
  td_log_path :: string
  td_detector :: bool
  td_update :: bool
  td_backup :: bool
  td_restore :: bool
  td_handoff :: bool
  td_authenticator :: bool
  td_validator :: bool
  td_refresher :: bool
  td_docker_auth :: bool
  td_backup_request :: backup_request
  td_asterisk_options :: asterisk_options
  td_env :: bootstrap_env
  td_media_dir :: string
  td_config_dir :: string
  td_workspace_dir :: string
  td_tcp :: port_plan
  td_udp :: port_plan
  td_exempt_tcp :: "int list"
  td_exempt_udp :: "int list"
  td_goos :: string
  td_goarch :: string

record log_entry =
  le_event :: string
  le_stage :: string
  le_status :: string
  le_code :: string

datatype tui_effect = Logged log_entry | CancelledBackup | CancelledQuiescence | CancelledRestore

record tui_model =
  tm_deps :: tui_deps
  tm_state :: screen
  tm_width :: nat
  tm_height :: nat
  tm_preflight :: preflight_screen
  tm_bootstrap :: bootstrap_screen
  tm_workspace :: workspace_screen
  tm_packages :: packages_screen
  tm_portscan :: port_screen
  tm_envwrite :: env_write_screen
  tm_asterisk :: asterisk_screen
  tm_pull :: pull_screen
  tm_deploy :: deploy_screen
  tm_verify :: verify_screen
  tm_result :: result_screen
  tm_menu :: context_menu
  tm_blocked :: context_action
  tm_action_err :: "string option"
  tm_env_choice :: nat
  tm_disposition_choice :: nat
  tm_disposition :: disposition
  tm_backup_plan :: "backup_plan option"
  tm_backup_result :: backup_result
  tm_backup_cancel :: bool
  tm_backup_cancelling :: bool
  tm_backup_stage :: backup_progress
  tm_backup_elapsed :: nat
  tm_restore_cancel :: bool
  tm_quiescence_cancel :: bool
  tm_restore_result :: "restore_result option"
  tm_lease :: "lease option"
  tm_recovery_code :: string
  tm_diagnostic :: "diagnostic option"
  tm_original_failure :: "install_failure option"
  tm_quiescence_auth_pending :: bool
  tm_recovery_auth_pending :: bool
  tm_pending_docker_action :: context_action
  tm_workspace_name :: string
  tm_optional :: "string list"
  tm_asterisk_options :: asterisk_options
  tm_confirmed_ports :: port_plan
  tm_env_path :: string
  tm_compose_files :: "string list"
  tm_gpu :: bool
  tm_migration_pending :: bool
  tm_migration_env :: string
  tm_attempted :: "string list"
  tm_effects :: "tui_effect list"

type_synonym tui_step = "tui_model \<times> tui_cmd list"

definition no_backup_result :: backup_result where
  "no_backup_result =
     \<lparr>br_outcome = BackupStaged, br_dump_path = [], br_manifest_path = [], br_sha256 = [], br_size = 0,
      br_stages = [], br_code = CodeNone, br_remediation = RemedyNone\<rparr>"

definition no_asterisk_options :: asterisk_options where
  "no_asterisk_options = \<lparr>ao_enabled = False, ao_config_root = [], ao_ami = empty_contract\<rparr>"

definition no_env_input :: env_input where
  "no_env_input =
     \<lparr>ei_workspace = [], ei_arch = ArchUnknown, ei_ports = ports_config_from_map Map.empty,
      ei_generate_password = False, ei_password_override = [], ei_asterisk = empty_contract\<rparr>"

text \<open>The zero values of the sub-models that are set up lazily are never looked at.\<close>

definition new_tui_model :: "tui_deps \<Rightarrow> bool \<Rightarrow> tui_model" where
  "new_tui_model d asterisk =
     \<lparr>tm_deps = d, tm_state = StateSplash, tm_width = 0, tm_height = 0,
      tm_preflight = \<lparr>pfm_exempt_tcp = td_exempt_tcp d, pfm_exempt_udp = td_exempt_udp d, pfm_report = None\<rparr>,
      tm_bootstrap = (new_bootstrap_screen [])\<lparr>boot_confirming := False\<rparr>,
      tm_workspace = \<lparr>wsi_value = [], wsi_err = None\<rparr>,
      tm_packages = new_packages_screen asterisk,
      tm_portscan = new_port_screen (td_tcp d) (td_udp d),
      tm_envwrite = new_env_write_screen [] no_env_input,
      tm_asterisk = new_asterisk_screen no_asterisk_options,
      tm_pull = new_pull_screen [] [], tm_deploy = new_deploy_screen [] [],
      tm_verify = new_verify_screen [] [], tm_result = new_result_screen None None [],
      tm_menu = \<lparr>menu_detection = \<lparr>det_state = StateNotInstalled, det_evidence = []\<rparr>, menu_actions = [],
        menu_cursor = 0, menu_migration_available = False\<rparr>,
      tm_blocked = ContextActionInstall, tm_action_err = None, tm_env_choice = 0, tm_disposition_choice = 0,
      tm_disposition = disposition_stop, tm_backup_plan = None, tm_backup_result = no_backup_result,
      tm_backup_cancel = False, tm_backup_cancelling = False, tm_backup_stage = ProgressPreparing,
      tm_backup_elapsed = 0, tm_restore_cancel = False, tm_quiescence_cancel = False,
      tm_restore_result = None, tm_lease = None, tm_recovery_code = [], tm_diagnostic = None,
      tm_original_failure = None, tm_quiescence_auth_pending = False, tm_recovery_auth_pending = False,
      tm_pending_docker_action = ContextActionInstall, tm_workspace_name = [], tm_optional = [],
      tm_asterisk_options = no_asterisk_options, tm_confirmed_ports = [], tm_env_path = [],
      tm_compose_files = [], tm_gpu = False, tm_migration_pending = False, tm_migration_env = [],
      tm_attempted = [], tm_effects = []\<rparr>"

section \<open>Helpers\<close>

definition effect :: "tui_effect \<Rightarrow> tui_model \<Rightarrow> tui_model" where
  "effect e m = m\<lparr>tm_effects := tm_effects m @ [e]\<rparr>"

definition log_event :: "string \<Rightarrow> string \<Rightarrow> string \<Rightarrow> string \<Rightarrow> tui_model \<Rightarrow> tui_model" where
  "log_event ev stage status code m =
     (if td_run_log (tm_deps m)
      then effect (Logged \<lparr>le_event = ev, le_stage = stage, le_status = status, le_code = code\<rparr>) m else m)"

definition has_migration_capability :: "tui_deps \<Rightarrow> bool" where
  "has_migration_capability d \<longleftrightarrow> td_authenticator d \<and> td_backup d \<and> td_restore d \<and> td_handoff d"

definition has_live_lease :: "tui_model \<Rightarrow> bool" where
  "has_live_lease m \<longleftrightarrow> tm_migration_pending m \<and> tm_lease m \<noteq> None \<and> td_handoff (tm_deps m)"

definition apply_port_policy :: "tui_model \<Rightarrow> tui_model" where
  "apply_port_policy m =
     (let tcp = (if has_live_lease m then exempt_tcp_ports else []);
          udp = (if has_live_lease m then exempt_udp_ports else []) in
      m\<lparr>tm_deps := (tm_deps m)\<lparr>td_exempt_tcp := tcp, td_exempt_udp := udp\<rparr>,
        tm_preflight := (tm_preflight m)\<lparr>pfm_exempt_tcp := tcp, pfm_exempt_udp := udp\<rparr>,
        tm_portscan := set_exempt_ports tcp udp (tm_portscan m)\<rparr>)"

text \<open>The \<open>defer\<close> of \<open>Update\<close>: a change of state is logged.  Nested calls log it once more.\<close>

definition entering :: "(tui_model \<Rightarrow> tui_step) \<Rightarrow> tui_model \<Rightarrow> tui_step" where
  "entering handler m =
     (case handler m of (m', cmds) \<Rightarrow>
        ((if tm_state m' = tm_state m then m'
          else log_event ''tui-transition'' (state_name (tm_state m')) ''entered'' [] m'), cmds))"

definition go :: "screen \<Rightarrow> tui_model \<Rightarrow> tui_model" where
  "go st m = m\<lparr>tm_state := st\<rparr>"

definition quit :: "tui_model \<Rightarrow> tui_step" where
  "quit m = (log_event ''terminal'' (state_name (tm_state m)) ''quit'' ''user-quit'' m, [QuitCmd])"

definition backup_reference :: "tui_model \<Rightarrow> backup_ref" where
  "backup_reference m =
     (let r = tm_backup_result m in
      \<lparr>dump_path = br_dump_path r, manifest_path = br_manifest_path r, sha256 = br_sha256 r,
       backup_size = br_size r\<rparr>)"

text \<open>\<open>m.backupPlan.ContainerID()\<close>; the zero plan has an empty one.\<close>

definition planned_container :: "tui_model \<Rightarrow> string" where
  "planned_container m = (case tm_backup_plan m of None \<Rightarrow> [] | Some p \<Rightarrow> ci_id (bp_container p))"

section \<open>Bounded codes\<close>

definition bounded_recovery_code :: "recovery \<Rightarrow> completion_failure option \<Rightarrow> string" where
  "bounded_recovery_code r err =
     (if rec_code r = disposition_manual_recovery_code then rec_code r
      else if rec_code r = disposition_recovery_unproven_code then rec_code r
      else if err \<noteq> None then ''pm2-recovery-unproven''
      else if verified r \<and> rec_code r = ''pm2-recovery-verified'' then rec_code r
      else ''pm2-recovery-unproven'')"

text \<open>What \<open>errors.As\<close> and \<open>errors.Is\<close> find in the chain of an error of \<open>Begin\<close>.\<close>

definition as_quiescence_error :: "handoff_failure \<Rightarrow> quiescence_error option" where
  "as_quiescence_error f =
     (case f of
        HandoffFailed (QuiescenceIncomplete e) \<Rightarrow> e
      | HandoffFailed (QuiescenceUnrecovered code diag e r) \<Rightarrow> Some \<lparr>q_code = code, q_diag = diag\<rparr>
      | _ \<Rightarrow> None)"

definition is_docker_permission :: "handoff_failure \<Rightarrow> bool" where
  "is_docker_permission f =
     (case f of
        HandoffFailed handoff_error.ContainerPermission \<Rightarrow> True
      | HandoffFailed (ContainerUnrecovered (Some DispositionPermission) e) \<Rightarrow> True
      | _ \<Rightarrow> False)"

definition reported_quiescence_codes :: "string list" where
  "reported_quiescence_codes =
     [''pm2-observation-unavailable'', ''pm2-correlation-failed'', ''pm2-state-changed'', ''pm2-stop-failed'',
      ''pm2-stop-unproven'', ''pm2-final-state-unproven'']"

definition bounded_quiescence_code :: "handoff_failure option \<Rightarrow> string" where
  "bounded_quiescence_code err =
     (case Option.bind err as_quiescence_error of
        Some e \<Rightarrow>
          if q_code e \<in> set reported_quiescence_codes then q_code e
          else if (case err of None \<Rightarrow> False | Some f \<Rightarrow> is_docker_permission f)
          then sudo_docker_permission_code else ''pm2-quiescence-unavailable''
      | None \<Rightarrow>
          if (case err of None \<Rightarrow> False | Some f \<Rightarrow> is_docker_permission f)
          then sudo_docker_permission_code else ''pm2-quiescence-unavailable'')"

definition bounded_quiescence_diagnostic :: "handoff_failure option \<Rightarrow> diagnostic option" where
  "bounded_quiescence_diagnostic err =
     (case Option.bind err as_quiescence_error of
        None \<Rightarrow> None
      | Some e \<Rightarrow>
          if q_code e = ''pm2-observation-unavailable'' \<or> q_code e = ''pm2-stop-unproven'' then q_diag e
          else None)"

section \<open>Quiescence and recovery\<close>

definition begin_migration_quiescence :: "tui_model \<Rightarrow> tui_step" where
  "begin_migration_quiescence m =
     (m\<lparr>tm_quiescence_cancel := True, tm_state := StateMigrationQuiescence\<rparr>,
      [BeginQuiescence (backup_reference m) (planned_container m) (tm_disposition m)])"

definition authorize_migration_quiescence :: "tui_model \<Rightarrow> tui_step" where
  "authorize_migration_quiescence m =
     (if \<not> td_refresher (tm_deps m) then begin_migration_quiescence m
      else (m\<lparr>tm_state := StateMigrationAuthRefresh, tm_quiescence_auth_pending := True\<rparr>,
            [RefreshAuthorization]))"

definition cancel_pending :: "tui_model \<Rightarrow> tui_model" where
  "cancel_pending m =
     (let m1 = (if tm_restore_cancel m then effect CancelledRestore (m\<lparr>tm_restore_cancel := False\<rparr>) else m) in
      if tm_quiescence_cancel m1 then effect CancelledQuiescence (m1\<lparr>tm_quiescence_cancel := False\<rparr>) else m1)"

definition begin_migration_recovery :: "tui_model \<Rightarrow> tui_step" where
  "begin_migration_recovery m =
     (if \<not> has_live_lease m then (go StateMigrationResult m, [])
      else (log_event ''migration-auth-refresh'' ''recovery-authorization'' ''requested'' []
              ((cancel_pending m)\<lparr>tm_state := StateMigrationAuthRefresh, tm_recovery_auth_pending := True\<rparr>),
            if td_refresher (tm_deps m) then [RefreshAuthorization]
            else [Emit (MigrationAuthorizationRefreshCompletedMsg
                          (Some ''migration authorization refresher is unavailable''))]))"

definition begin_authorized_recovery :: "tui_model \<Rightarrow> tui_step" where
  "begin_authorized_recovery m =
     (case tm_lease m of
        Some l \<Rightarrow>
          if has_live_lease m
          then (log_event ''recovery-start'' ''recovery'' ''started'' [] (go StateMigrationRecovery m),
                [RecoverLease l])
          else (go StateMigrationResult m, [])
      | None \<Rightarrow> (go StateMigrationResult m, []))"

definition complete_migration_success :: "tui_model \<Rightarrow> install_success \<Rightarrow> tui_cmd list" where
  "complete_migration_success m ok = (case tm_lease m of None \<Rightarrow> [] | Some l \<Rightarrow> [CompleteLease l ok])"

end
