(* ===== verification/TuiUpdate.thy ===== *)
theory TuiUpdate
  imports TuiRoot
begin

text \<open>
  \<open>Model.Update\<close> of \<open>internal/tui/model.go\<close>, message by message.  A handler that may leave a
  message to the active screen gives \<open>None\<close> for that.
\<close>

section \<open>Keys\<close>

definition cancel_backup :: "tui_model \<Rightarrow> tui_step" where
  "cancel_backup m = (effect CancelledBackup (m\<lparr>tm_backup_cancelling := True\<rparr>), [])"

definition cancel_migration :: "tui_model \<Rightarrow> tui_step" where
  "cancel_migration m =
     (log_event ''terminal'' ''migration'' ''cancelled'' ''migration-cancelled'' (go StateMigrationCancelled m), [])"

text \<open>What Ctrl-C and \<open>q\<close> share: cancel what runs, or recover under a live lease.\<close>

definition stop_or_recover :: "tui_model \<Rightarrow> tui_step option" where
  "stop_or_recover m =
     (if tm_state m = StateBackupRunning \<and> tm_backup_cancel m then Some (cancel_backup m)
      else if tm_state m = StateMigrationQuiescence \<and> tm_quiescence_cancel m
      then Some (effect CancelledQuiescence m, [])
      else if tm_state m = StateDatabaseRestore \<and> tm_restore_cancel m then Some (effect CancelledRestore m, [])
      else if has_live_lease m then Some (begin_migration_recovery m)
      else None)"

definition on_ctrl_c :: "tui_model \<Rightarrow> tui_step" where
  "on_ctrl_c m = (case stop_or_recover m of Some r \<Rightarrow> r | None \<Rightarrow> quit m)"

definition on_esc :: "tui_model \<Rightarrow> tui_step option" where
  "on_esc m =
     (if tm_state m = StateBackupRunning then Some (if tm_backup_cancel m then cancel_backup m else (m, []))
      else if tm_state m \<in> {StateMigrationConfirm, StateMigrationDisposition, StateMigrationRemoveConfirm}
      then Some (cancel_migration m)
      else if tm_state m = StateMigrationQuiescence \<and> tm_quiescence_cancel m
      then Some (effect CancelledQuiescence m, [])
      else if tm_state m = StateDatabaseRestore
      then Some ((if tm_restore_cancel m then effect CancelledRestore m else m), [])
      else if has_live_lease m then Some (begin_migration_recovery m)
      else if tm_state m = StateDetecting \<or> tm_state m = StateContextMenu then Some (quit m)
      else None)"

definition on_q :: "tui_model \<Rightarrow> tui_step option" where
  "on_q m =
     (if tm_state m = StateMigrationConfirm then Some (cancel_migration m)
      else case stop_or_recover m of
             Some r \<Rightarrow> Some r
           | None \<Rightarrow> if tm_state m = StateWorkspaceInput then None else Some (quit m))"

definition on_key :: "tui_key \<Rightarrow> tui_model \<Rightarrow> tui_step option" where
  "on_key k m =
     (case k of
        KeyCtrlC \<Rightarrow> Some (on_ctrl_c m)
      | KeyEsc \<Rightarrow> on_esc m
      | KeyRunes r \<Rightarrow> if r = ''q'' then on_q m else None
      | _ \<Rightarrow> None)"

section \<open>Detection and the menu\<close>

definition on_detection_started :: "tui_model \<Rightarrow> tui_step" where
  "on_detection_started m =
     (go StateDetecting m,
      [if td_detector (tm_deps m) then Detect
       else Emit (DetectionCompletedMsg \<lparr>det_state = StateUnknown, det_evidence = []\<rparr>)])"

definition on_detection_completed :: "detection \<Rightarrow> tui_model \<Rightarrow> tui_step" where
  "on_detection_completed d m =
     (m\<lparr>tm_state := StateContextMenu,
        tm_menu := (new_context_menu d)\<lparr>menu_migration_available := has_migration_capability (tm_deps m)\<rparr>\<rparr>, [])"

definition start_preflight :: "tui_model \<Rightarrow> tui_step" where
  "start_preflight m = (go StatePreflight m, preflight_init (tm_preflight m))"

definition start_update :: "tui_model \<Rightarrow> tui_step" where
  "start_update m =
     (go StateUpdating m,
      [if td_update (tm_deps m) then RunUpdate else Emit (UpdateCompletedMsg (Some ''update action is unavailable''))])"

definition blocked :: "context_action \<Rightarrow> tui_model \<Rightarrow> tui_step" where
  "blocked a m = (m\<lparr>tm_state := StateBlockedOperation, tm_blocked := a\<rparr>, [])"

definition authenticate_docker :: "context_action \<Rightarrow> tui_model \<Rightarrow> tui_step" where
  "authenticate_docker a m =
     (m\<lparr>tm_pending_docker_action := a, tm_state := StateDockerAuth\<rparr>, [AuthenticateDocker])"

definition on_context_action :: "context_action \<Rightarrow> tui_model \<Rightarrow> tui_step" where
  "on_context_action a m =
     (if tm_state m \<noteq> StateContextMenu \<or> \<not> has_action (tm_menu m) a then (m, [])
      else case a of
        ContextActionInstall \<Rightarrow>
          if td_docker_auth (tm_deps m) then authenticate_docker a m else start_preflight m
      | ContextActionUpdate \<Rightarrow>
          if td_docker_auth (tm_deps m) then authenticate_docker a m else start_update m
      | ContextActionUninstall \<Rightarrow> blocked a m
      | ContextActionMigration \<Rightarrow>
          if \<not> has_migration_capability (tm_deps m) then blocked a m
          else (m\<lparr>tm_state := StateMigrationEnv, tm_env_choice := 0\<rparr>, []))"

definition on_docker_authenticated :: "tui_world \<Rightarrow> string option \<Rightarrow> tui_model \<Rightarrow> tui_step" where
  "on_docker_authenticated w err m =
     (if tm_state m \<noteq> StateDockerAuth then (m, [])
      else if err \<noteq> None then
        (go StateDockerAuthFailed (log_event ''docker-auth'' ''authentication'' ''failed'' ''docker-auth-failed'' m), [])
      else (let m1 = (log_event ''docker-auth'' ''authentication'' ''succeeded'' [] m)\<lparr>tm_gpu := tw_gpu w\<rparr> in
        case tm_pending_docker_action m1 of
          ContextActionInstall \<Rightarrow> start_preflight m1
        | ContextActionUpdate \<Rightarrow> start_update m1
        | _ \<Rightarrow> (m1, [])))"

section \<open>Migration: environment, authorization, backup\<close>

definition on_environment_selected :: "string \<Rightarrow> tui_model \<Rightarrow> tui_step" where
  "on_environment_selected env m =
     (if tm_state m \<noteq> StateMigrationEnv \<or> env \<noteq> environment_development \<and> env \<noteq> environment_production
      then (m, [])
      else (go StateMigrationAuth
              (log_event ''migration-environment'' ''environment'' ''selected'' [] (m\<lparr>tm_migration_env := env\<rparr>)),
            [AuthenticateMigration]))"

definition on_migration_authenticated :: "string option \<Rightarrow> tui_model \<Rightarrow> tui_step" where
  "on_migration_authenticated err m =
     (if tm_state m \<noteq> StateMigrationAuth then (m, [])
      else if err \<noteq> None then
        (go StateMigrationAuthFailed
           (log_event ''migration-auth'' ''authentication'' ''failed'' ''migration-auth-failed'' m), [])
      else (log_event ''migration-auth'' ''authentication'' ''succeeded'' [] (go StateBackupPreflight m),
            [PreflightBackup ((td_backup_request (tm_deps m))\<lparr>bq_environment := tm_migration_env m\<rparr>)]))"

definition on_backup_preflight :: "sentinel list + backup_plan \<Rightarrow> tui_model \<Rightarrow> tui_step" where
  "on_backup_preflight r m =
     (if tm_state m \<noteq> StateBackupPreflight then (m, [])
      else case r of
        Inl es \<Rightarrow>
          ((log_event ''backup-preflight'' ''backup-preflight'' ''failed'' ''backup-preflight-failed'' m)
             \<lparr>tm_state := StateBackupResult, tm_backup_result := backup_preflight_failure es\<rparr>, [])
      | Inr plan \<Rightarrow>
          (go StateBackupConfirm (log_event ''backup-preflight'' ''backup-preflight'' ''succeeded'' []
             (m\<lparr>tm_backup_plan := Some plan\<rparr>)), []))"

text \<open>The plan is there whenever the state is: \<open>on_backup_preflight\<close> sets both.\<close>

definition on_backup_confirmed :: "tui_model \<Rightarrow> tui_step" where
  "on_backup_confirmed m =
     (if tm_state m \<noteq> StateBackupConfirm \<or> \<not> td_backup (tm_deps m) then (m, [])
      else (m\<lparr>tm_state := StateBackupRunning, tm_backup_cancel := True, tm_backup_stage := ProgressPreparing,
              tm_backup_elapsed := 0, tm_backup_cancelling := False\<rparr>,
            (case tm_backup_plan m of None \<Rightarrow> [] | Some p \<Rightarrow> [RunBackup p])
            @ [TickSpinner, TickElapsed, WaitBackupProgress]))"

definition on_backup_progress :: "backup_progress \<Rightarrow> tui_model \<Rightarrow> tui_step" where
  "on_backup_progress st m =
     (if tm_state m \<noteq> StateBackupRunning \<or> tm_backup_cancelling m then (m, [])
      else (m\<lparr>tm_backup_stage := st\<rparr>, [WaitBackupProgress]))"

definition on_backup_elapsed :: "tui_model \<Rightarrow> tui_step" where
  "on_backup_elapsed m =
     (if tm_state m \<noteq> StateBackupRunning \<or> tm_backup_cancelling m then (m, [])
      else (m\<lparr>tm_backup_elapsed := tm_backup_elapsed m + second\<rparr>, [TickElapsed]))"

definition on_spinner_tick :: "tui_model \<Rightarrow> tui_step option" where
  "on_spinner_tick m =
     (if tm_state m = StateBackupRunning \<and> \<not> tm_backup_cancelling m then Some (m, [TickSpinner]) else None)"

definition on_backup_completed :: "backup_result \<Rightarrow> tui_model \<Rightarrow> tui_step" where
  "on_backup_completed r m =
     (if tm_state m \<noteq> StateBackupRunning then (m, [])
      else (let m1 = log_event ''backup-result'' ''backup'' (dec_of_nat (outcome_number (br_outcome r)))
                  (backup_code_string (br_code r))
                  (m\<lparr>tm_backup_cancel := False, tm_backup_cancelling := False, tm_backup_result := r\<rparr>) in
        if br_outcome r = BackupValidated then
          (if \<not> td_restore (tm_deps m) \<or> \<not> td_handoff (tm_deps m) then (go StateMigrationBlocked m1, [])
           else (go StateMigrationConfirm m1, []))
        else (go StateBackupResult m1, [])))"

section \<open>Migration: disposition and quiescence\<close>

definition on_disposition_selected :: "disposition \<Rightarrow> tui_model \<Rightarrow> tui_step" where
  "on_disposition_selected d m =
     (if tm_state m \<noteq> StateMigrationDisposition \<or> d > disposition_remove then (m, [])
      else (let m1 = log_event ''container-disposition'' ''quiescence'' ''selected'' [] (m\<lparr>tm_disposition := d\<rparr>) in
        if d = disposition_remove then (go StateMigrationRemoveConfirm m1, [])
        else authorize_migration_quiescence m1))"

definition on_remove_confirmed :: "tui_model \<Rightarrow> tui_step" where
  "on_remove_confirmed m =
     (if tm_state m \<noteq> StateMigrationRemoveConfirm \<or> tm_disposition m \<noteq> disposition_remove then (m, [])
      else authorize_migration_quiescence m)"

text \<open>The error shown with a recovery is represented by its bounded code.\<close>

definition failure_text :: "handoff_failure \<Rightarrow> string" where
  "failure_text f = bounded_quiescence_code (Some f)"

definition quiescence_failed :: "lease option \<Rightarrow> handoff_failure option \<Rightarrow> tui_model \<Rightarrow> tui_step" where
  "quiescence_failed l err m =
     (case l of
        Some l' \<Rightarrow>
          begin_migration_recovery
            (m\<lparr>tm_lease := Some l', tm_migration_pending := True,
               tm_original_failure := Some \<lparr>if_err = map_option failure_text err,
                                            if_stage = ''migration-quiescence-recovery''\<rparr>\<rparr>)
      | None \<Rightarrow>
          (let code = bounded_quiescence_code err;
               m1 = log_event ''pm2-quiescence'' ''quiescence'' ''failed'' code
                      (m\<lparr>tm_state := StateMigrationResult, tm_recovery_code := code\<rparr>) in
           ((if td_debug (tm_deps m) then m1\<lparr>tm_diagnostic := bounded_quiescence_diagnostic err\<rparr> else m1), [])))"

definition quiescence_verified :: "lease option \<Rightarrow> tui_model \<Rightarrow> tui_step" where
  "quiescence_verified l m =
     start_preflight (apply_port_policy
       ((log_event ''container-disposition'' ''quiescence'' ''verified''
           (if tm_disposition m = disposition_remove then disposition_removed_code else disposition_stopped_code)
           (log_event ''pm2-quiescence'' ''quiescence'' ''verified'' ''pm2-stop-verified'' (m\<lparr>tm_lease := l\<rparr>)))
        \<lparr>tm_migration_pending := True\<rparr>))"

definition on_quiescence_completed :: "lease option \<Rightarrow> handoff_failure option \<Rightarrow> tui_model \<Rightarrow> tui_step" where
  "on_quiescence_completed l err m0 =
     (if tm_state m0 \<noteq> StateMigrationQuiescence then (m0, [])
      else (let m = m0\<lparr>tm_quiescence_cancel := False\<rparr> in
        if err \<noteq> None \<or> l = None then quiescence_failed l err m else quiescence_verified l m))"

section \<open>Migration: authorization before the deployment, recovery, success\<close>

definition on_deploy_started :: "tui_model \<Rightarrow> tui_step" where
  "on_deploy_started m =
     (let d = new_deploy_screen (tm_compose_files m) (tm_env_path m) in
      (m\<lparr>tm_state := StateDeploy, tm_deploy := d\<rparr>, deploy_screen_init d))"

definition on_pull_complete :: "tui_model \<Rightarrow> tui_step option" where
  "on_pull_complete m =
     (if \<not> has_live_lease m then None
      else Some
        (log_event ''migration-auth-refresh'' ''authorization-refresh'' ''requested'' []
           (m\<lparr>tm_pull := (tm_pull m)\<lparr>plm_done := True\<rparr>, tm_state := StateMigrationAuthCheck\<rparr>),
         [if td_validator (tm_deps m) then ValidateAuthorization
          else Emit (MigrationAuthorizationCheckedMsg (Some ''migration authorization validator is unavailable''))]))"

definition recovery_authorized :: "string option \<Rightarrow> tui_model \<Rightarrow> tui_step" where
  "recovery_authorized err m =
     (let m1 = log_event ''migration-auth-refresh'' ''recovery-authorization''
                 (if err = None then ''succeeded'' else ''failed'') [] (m\<lparr>tm_recovery_auth_pending := False\<rparr>) in
      begin_authorized_recovery
        (if err \<noteq> None \<and> tm_original_failure m1 = None
         then m1\<lparr>tm_original_failure := Some \<lparr>if_err = err, if_stage = ''migration-recovery-authorization''\<rparr>\<rparr>
         else m1))"

definition quiescence_authorized :: "string option \<Rightarrow> tui_model \<Rightarrow> tui_step" where
  "quiescence_authorized err m0 =
     (let m = m0\<lparr>tm_quiescence_auth_pending := False\<rparr> in
      if err \<noteq> None
      then (m\<lparr>tm_state := StateMigrationResult, tm_recovery_code := ''migration-auth-refresh-failed''\<rparr>, [])
      else begin_migration_quiescence m)"

definition on_refresh_completed :: "string option \<Rightarrow> tui_model \<Rightarrow> tui_step" where
  "on_refresh_completed err m =
     (if tm_state m \<noteq> StateMigrationAuthRefresh then (m, [])
      else if tm_recovery_auth_pending m then recovery_authorized err m
      else if tm_quiescence_auth_pending m then quiescence_authorized err m
      else if err = None then
        entering on_deploy_started
          (log_event ''migration-auth-refresh'' ''authorization-refresh'' ''succeeded'' [] m)
      else begin_authorized_recovery
        ((log_event ''migration-auth-refresh'' ''authorization-refresh'' ''failed'' ''migration-auth-refresh-failed'' m)
           \<lparr>tm_original_failure := Some \<lparr>if_err = err, if_stage = ''migration-authorization-refresh''\<rparr>\<rparr>))"

definition on_authorization_checked :: "string option \<Rightarrow> tui_model \<Rightarrow> tui_step" where
  "on_authorization_checked err m =
     (if tm_state m \<noteq> StateMigrationAuthCheck then (m, [])
      else if err = None then
        entering on_deploy_started
          (log_event ''migration-auth-refresh'' ''authorization-refresh'' ''not-required'' [] m)
      else if td_refresher (tm_deps m) then (go StateMigrationAuthRefresh m, [RefreshAuthorization])
      else entering (on_refresh_completed (Some ''migration authorization refresher is unavailable''))
             (go StateMigrationAuthRefresh m))"

definition drop_lease :: "tui_model \<Rightarrow> tui_model" where
  "drop_lease m = apply_port_policy (m\<lparr>tm_lease := None, tm_migration_pending := False\<rparr>)"

definition on_recovery_completed :: "recovery \<Rightarrow> completion_failure option \<Rightarrow> tui_model \<Rightarrow> tui_step" where
  "on_recovery_completed r err m =
     (if tm_state m \<noteq> StateMigrationRecovery then (m, [])
      else (let code = bounded_recovery_code r err;
                m1 = log_event ''pm2-recovery'' ''recovery'' ''completed'' code
                       ((drop_lease m)\<lparr>tm_recovery_code := code\<rparr>) in
        (m1\<lparr>tm_diagnostic := (if td_debug (tm_deps m1) then rec_diag r else None),
            tm_state := StateMigrationResult\<rparr>, [])))"

definition on_success_completed :: "install_success \<Rightarrow> handoff_failure option \<Rightarrow> tui_model \<Rightarrow> tui_step" where
  "on_success_completed ok err m =
     (if tm_state m \<noteq> StateMigrationSuccess then (m, [])
      else if err \<noteq> None then
        ((drop_lease m)\<lparr>tm_recovery_code := ''pm2-lease-completion-failed'', tm_state := StateMigrationResult\<rparr>, [])
      else ((drop_lease m)\<lparr>tm_state := StateResult, tm_result := new_result_screen (Some ok) None []\<rparr>, []))"

definition on_abandoned :: "tui_model \<Rightarrow> tui_step" where
  "on_abandoned m =
     (if tm_state m = StateMigrationQuiescence \<and> tm_quiescence_cancel m then (effect CancelledQuiescence m, [])
      else if tm_state m = StateDatabaseRestore \<and> tm_restore_cancel m then (effect CancelledRestore m, [])
      else if has_live_lease m then begin_migration_recovery m
      else (m, []))"

section \<open>Update, preflight, bootstrap\<close>

definition on_update_completed :: "string option \<Rightarrow> tui_model \<Rightarrow> tui_step" where
  "on_update_completed err m = (m\<lparr>tm_state := StateActionResult, tm_action_err := err\<rparr>, [])"

definition delegate_preflight :: "tui_msg \<Rightarrow> tui_model \<Rightarrow> tui_step" where
  "delegate_preflight msg m =
     (case preflight_screen_update msg (tm_preflight m) of (p, cmds) \<Rightarrow> (m\<lparr>tm_preflight := p\<rparr>, cmds))"

definition on_preflight_result :: "report \<Rightarrow> tui_model \<Rightarrow> tui_step" where
  "on_preflight_result r m =
     (case classify_blockers r (td_env (tm_deps m)) (td_media_dir (tm_deps m)) (td_config_dir (tm_deps m))
             (td_workspace_dir (tm_deps m)) of
        (fixable, non_fixable) \<Rightarrow>
          (let fresh = filter (\<lambda>a. act_id a \<notin> set (tm_attempted m)) fixable in
           if non_fixable \<noteq> [] \<or> (fixable \<noteq> [] \<and> fresh = []) then delegate_preflight (PreflightResultMsg r) m
           else if fresh \<noteq> [] then
             ((fst (delegate_preflight (PreflightResultMsg r) m))
                \<lparr>tm_state := StateBootstrap, tm_bootstrap := new_bootstrap_screen fresh\<rparr>, [])
           else delegate_preflight (PreflightResultMsg r) m))"

definition on_bootstrap_complete :: "tui_world \<Rightarrow> tui_model \<Rightarrow> tui_step" where
  "on_bootstrap_complete w m =
     (case preflight_rearm (tm_preflight m) of (p, cmds) \<Rightarrow>
        (m\<lparr>tm_attempted := tm_attempted m @ map act_id (boot_actions (tm_bootstrap m)),
           tm_deps := (tm_deps m)\<lparr>td_env := tw_env w\<rparr>, tm_state := StatePreflight, tm_preflight := p\<rparr>, cmds))"

section \<open>Workspace, packages, ports, files\<close>

definition on_workspace_entered :: "tui_world \<Rightarrow> string \<Rightarrow> tui_model \<Rightarrow> tui_step" where
  "on_workspace_entered w v m =
     (m\<lparr>tm_workspace_name := v, tm_state := StateOptionalPackages,
        tm_packages := new_packages_screen (tw_asterisk w)\<rparr>, [])"

definition chosen_asterisk_options :: "asterisk_options \<Rightarrow> asterisk_options" where
  "chosen_asterisk_options opts =
     (let root = (if ao_config_root opts = [] then default_config_root else ao_config_root opts) in
      opts\<lparr>ao_enabled := True, ao_config_root := root, ao_ami := normalize_contract (ao_ami opts) root\<rparr>)"

definition on_packages_confirmed :: "tui_world \<Rightarrow> string list \<Rightarrow> tui_model \<Rightarrow> tui_step" where
  "on_packages_confirmed w sel m =
     (let chosen = (if tw_asterisk w then sel else filter (\<lambda>i. i \<noteq> asterisk_package) sel) in
      (m\<lparr>tm_optional := chosen,
         tm_asterisk_options :=
           (if asterisk_package \<in> set chosen then chosen_asterisk_options (td_asterisk_options (tm_deps m))
            else no_asterisk_options),
         tm_state := StatePortScan\<rparr>,
       port_screen_init (tm_portscan m)))"

definition artifacts_dir :: "tui_model \<Rightarrow> string" where
  "artifacts_dir m =
     (if td_workspace_dir (tm_deps m) = [] then td_media_dir (tm_deps m) else td_workspace_dir (tm_deps m))"

definition tui_env_input :: "tui_world \<Rightarrow> port_plan \<Rightarrow> tui_model \<Rightarrow> env_input" where
  "tui_env_input w plan m =
     \<lparr>ei_workspace = tm_workspace_name m, ei_arch = tw_arch w, ei_ports = ports_config_from_map (map_of plan),
      ei_generate_password = True, ei_password_override = [],
      ei_asterisk = (if asterisk_package \<in> set (tm_optional m) then ao_ami (tm_asterisk_options m)
                     else empty_contract)\<rparr>"

definition on_ports_confirmed :: "tui_world \<Rightarrow> port_plan \<Rightarrow> tui_model \<Rightarrow> tui_step" where
  "on_ports_confirmed w plan m =
     (let e = new_env_write_screen (path_join [artifacts_dir m, ''.env'']) (tui_env_input w plan m) in
      (m\<lparr>tm_confirmed_ports := plan, tm_state := StateEnvWrite, tm_envwrite := e\<rparr>, env_write_screen_init e))"

definition start_pull :: "tui_model \<Rightarrow> tui_step" where
  "start_pull m =
     (let p = new_pull_screen (tm_compose_files m) (tm_env_path m) in
      (m\<lparr>tm_state := StatePull, tm_pull := p\<rparr>, pull_screen_init p))"

definition on_env_written :: "string \<Rightarrow> tui_model \<Rightarrow> tui_step" where
  "on_env_written path m0 =
     (let m = m0\<lparr>tm_env_path := path,
            tm_compose_files := Headless.compose_files (tm_gpu m0)
              (path_join [artifacts_dir m0, ''docker-compose.yml''])
              (path_join [artifacts_dir m0, ''docker-compose.gpu.yml''])\<rparr> in
      if asterisk_package \<in> set (tm_optional m) then
        (let a = new_asterisk_screen (tm_asterisk_options m) in
         (m\<lparr>tm_state := StateAsteriskSetup, tm_asterisk := a\<rparr>, asterisk_screen_init a))
      else start_pull m)"

definition delegate_asterisk :: "tui_msg \<Rightarrow> tui_model \<Rightarrow> tui_step" where
  "delegate_asterisk msg m =
     (case asterisk_screen_update msg (tm_asterisk m) of (a, cmds) \<Rightarrow> (m\<lparr>tm_asterisk := a\<rparr>, cmds))"

section \<open>Restore, verification, result\<close>

definition tui_restore_request :: "tui_model \<Rightarrow> restore_request" where
  "tui_restore_request m =
     restore_request.make (td_goos (tm_deps m)) (td_goarch (tm_deps m)) (tm_compose_files m) (tm_env_path m)
       ''/opt/alice/backups/'' (backup_reference m)"

definition on_deploy_complete :: "tui_model \<Rightarrow> tui_step option" where
  "on_deploy_complete m =
     (if tm_state m = StateDeploy \<and> tm_migration_pending m
      then Some (m\<lparr>tm_state := StateDatabaseRestore, tm_restore_cancel := True\<rparr>,
                 [RunRestore (tui_restore_request m)])
      else None)"

definition on_restore_completed :: "restore_result \<Rightarrow> tui_model \<Rightarrow> tui_step" where
  "on_restore_completed r m =
     (if tm_state m \<noteq> StateDatabaseRestore then (m, [])
      else (let m1 = log_event ''restore-result'' (restore_stage_name (r_failed_stage r))
                  (restore_outcome_name (r_outcome r)) (r_code r)
                  (m\<lparr>tm_restore_cancel := False, tm_restore_result := Some r\<rparr>) in
        if r_outcome r = RestoreSucceeded then (go StateDeploy m1, [Emit HealthTickMsg])
        else begin_migration_recovery m1))"

definition on_health_tick :: "tui_model \<Rightarrow> tui_step option" where
  "on_health_tick m =
     (if tm_state m = StateDeploy
      then (let v = new_verify_screen (tm_compose_files m) (tm_env_path m) in
            Some (m\<lparr>tm_state := StateVerify, tm_verify := v\<rparr>, verify_screen_init v))
      else None)"

definition on_install_success :: "install_success \<Rightarrow> tui_model \<Rightarrow> tui_step" where
  "on_install_success ok m0 =
     (let m = log_event ''terminal'' ''install'' ''success'' ''install-succeeded'' m0 in
      if has_live_lease m then (go StateMigrationSuccess m, complete_migration_success m ok)
      else (m\<lparr>tm_state := StateResult,
              tm_result := new_result_screen (Some ok) None (td_log_path (tm_deps m))\<rparr>, []))"

definition failure_event_code :: "string \<Rightarrow> string" where
  "failure_event_code stage = (if stage = [] then ''install-failed'' else stage @ ''-failed'')"

definition on_install_failure :: "install_failure \<Rightarrow> tui_model \<Rightarrow> tui_step" where
  "on_install_failure f m0 =
     (let m = log_event ''original-failure'' (if_stage f) ''failed'' (failure_event_code (if_stage f))
                (m0\<lparr>tm_original_failure := Some f\<rparr>) in
      if has_live_lease m then begin_migration_recovery m
      else (m\<lparr>tm_state := StateResult,
              tm_result := new_result_screen None (Some f) (td_log_path (tm_deps m))\<rparr>, []))"

section \<open>The active screen\<close>

text \<open>A sub-model's \<open>Update\<close> on the part of the root model it owns.\<close>

definition within :: "(tui_model \<Rightarrow> 'a) \<Rightarrow> ('a \<Rightarrow> tui_model \<Rightarrow> tui_model) \<Rightarrow>
    ('a \<Rightarrow> 'a \<times> tui_cmd list) \<Rightarrow> tui_model \<Rightarrow> tui_step" where
  "within get put upd m = (case upd (get m) of (a, cmds) \<Rightarrow> (put a m, cmds))"

definition is_enter :: "tui_msg \<Rightarrow> bool" where
  "is_enter msg = (case msg of KeyMsg KeyEnter \<Rightarrow> True | _ \<Rightarrow> False)"

definition on_enter :: "(tui_model \<Rightarrow> tui_step) \<Rightarrow> tui_msg \<Rightarrow> tui_model \<Rightarrow> tui_step" where
  "on_enter handler msg m = (if is_enter msg then handler m else (m, []))"

definition choose_disposition :: "tui_model \<Rightarrow> tui_step" where
  "choose_disposition m = (m\<lparr>tm_state := StateMigrationDisposition, tm_disposition_choice := 0\<rparr>, [])"

definition delegate :: "tui_world \<Rightarrow> tui_msg \<Rightarrow> tui_model \<Rightarrow> tui_step" where
  "delegate w msg m =
     (case tm_state m of
        StateSplash \<Rightarrow> (m, splash_update msg)
      | StateContextMenu \<Rightarrow>
          within tm_menu (\<lambda>a m. m\<lparr>tm_menu := a\<rparr>) (context_menu_update msg) m
      | StateBlockedOperation \<Rightarrow> (m, blocked_operation_update msg)
      | StateMigrationEnv \<Rightarrow>
          within tm_env_choice (\<lambda>a m. m\<lparr>tm_env_choice := a\<rparr>) (migration_environment_update msg) m
      | StateMigrationDisposition \<Rightarrow>
          within tm_disposition_choice (\<lambda>a m. m\<lparr>tm_disposition_choice := a\<rparr>)
            (migration_disposition_update msg) m
      | StatePreflight \<Rightarrow> delegate_preflight msg m
      | StateBootstrap \<Rightarrow>
          within tm_bootstrap (\<lambda>a m. m\<lparr>tm_bootstrap := a\<rparr>) (bootstrap_screen_update msg) m
      | StateWorkspaceInput \<Rightarrow>
          within tm_workspace (\<lambda>a m. m\<lparr>tm_workspace := a\<rparr>) (workspace_screen_update w msg) m
      | StateOptionalPackages \<Rightarrow>
          within tm_packages (\<lambda>a m. m\<lparr>tm_packages := a\<rparr>) (packages_screen_update msg) m
      | StatePortScan \<Rightarrow>
          within tm_portscan (\<lambda>a m. m\<lparr>tm_portscan := a\<rparr>) (port_screen_update w msg) m
      | StateEnvWrite \<Rightarrow>
          within tm_envwrite (\<lambda>a m. m\<lparr>tm_envwrite := a\<rparr>) (env_write_screen_update msg) m
      | StateAsteriskSetup \<Rightarrow> delegate_asterisk msg m
      | StatePull \<Rightarrow> within tm_pull (\<lambda>a m. m\<lparr>tm_pull := a\<rparr>) (pull_screen_update msg) m
      | StateDeploy \<Rightarrow> within tm_deploy (\<lambda>a m. m\<lparr>tm_deploy := a\<rparr>) (deploy_screen_update msg) m
      | StateVerify \<Rightarrow> within tm_verify (\<lambda>a m. m\<lparr>tm_verify := a\<rparr>) (verify_screen_update w msg) m
      | StateResult \<Rightarrow> (m, result_screen_update msg)
      | StateBackupConfirm \<Rightarrow> on_enter (entering on_backup_confirmed) msg m
      | StateMigrationConfirm \<Rightarrow> on_enter choose_disposition msg m
      | StateMigrationRemoveConfirm \<Rightarrow> on_enter (entering on_remove_confirmed) msg m
      | _ \<Rightarrow> (m, []))"

section \<open>Update\<close>

definition on_message :: "tui_world \<Rightarrow> tui_msg \<Rightarrow> tui_model \<Rightarrow> tui_step option" where
  "on_message w msg m =
     (case msg of
        DetectionStartedMsg \<Rightarrow> Some (on_detection_started m)
      | DetectionCompletedMsg d \<Rightarrow> Some (on_detection_completed d m)
      | ContextActionSelectedMsg a \<Rightarrow> Some (on_context_action a m)
      | DockerAuthenticationCompletedMsg err \<Rightarrow> Some (on_docker_authenticated w err m)
      | MigrationEnvironmentSelectedMsg env \<Rightarrow> Some (on_environment_selected env m)
      | MigrationAuthenticationCompletedMsg err \<Rightarrow> Some (on_migration_authenticated err m)
      | PullCompleteMsg \<Rightarrow> on_pull_complete m
      | MigrationAuthorizationCheckedMsg err \<Rightarrow> Some (on_authorization_checked err m)
      | MigrationAuthorizationRefreshCompletedMsg err \<Rightarrow> Some (on_refresh_completed err m)
      | BackupPreflightCompletedMsg r \<Rightarrow> Some (on_backup_preflight r m)
      | BackupConfirmedMsg \<Rightarrow> Some (on_backup_confirmed m)
      | BackupProgressMsg st \<Rightarrow> Some (on_backup_progress st m)
      | BackupProgressClosedMsg \<Rightarrow> Some (m, [])
      | BackupElapsedMsg \<Rightarrow> Some (on_backup_elapsed m)
      | SpinnerTickMsg \<Rightarrow> on_spinner_tick m
      | BackupCompletedMsg r \<Rightarrow> Some (on_backup_completed r m)
      | MigrationDispositionSelectedMsg d \<Rightarrow> Some (on_disposition_selected d m)
      | MigrationRemoveConfirmedMsg \<Rightarrow> Some (on_remove_confirmed m)
      | MigrationQuiescenceCompletedMsg l err \<Rightarrow> Some (on_quiescence_completed l err m)
      | MigrationRecoveryCompletedMsg r err \<Rightarrow> Some (on_recovery_completed r err m)
      | MigrationSuccessCompletedMsg ok err \<Rightarrow> Some (on_success_completed ok err m)
      | MigrationAbandonedMsg \<Rightarrow> Some (on_abandoned m)
      | UpdateCompletedMsg err \<Rightarrow> Some (on_update_completed err m)
      | BlockedOperationDismissedMsg \<Rightarrow> Some (go StateContextMenu m, [])
      | PreflightStartedMsg \<Rightarrow> Some (start_preflight m)
      | PreflightResultMsg r \<Rightarrow> Some (on_preflight_result r m)
      | BootstrapCompleteMsg \<Rightarrow> Some (on_bootstrap_complete w m)
      | BootstrapSkippedMsg \<Rightarrow> Some (go StatePreflight m, [])
      | PreflightPassedMsg \<Rightarrow> Some (go StateWorkspaceInput m, [BlinkField])
      | WorkspaceEnteredMsg v \<Rightarrow> Some (on_workspace_entered w v m)
      | OptionalPackagesConfirmedMsg sel \<Rightarrow> Some (on_packages_confirmed w sel m)
      | PortsConfirmedMsg plan \<Rightarrow> Some (on_ports_confirmed w plan m)
      | EnvWrittenMsg path \<Rightarrow> Some (on_env_written path m)
      | AsteriskSetupCompleteMsg r \<Rightarrow> Some (delegate_asterisk msg m)
      | PullStartedMsg \<Rightarrow> Some (start_pull m)
      | DeployStartedMsg \<Rightarrow> Some (on_deploy_started m)
      | DeployCompleteMsg \<Rightarrow> on_deploy_complete m
      | RestoreCompletedMsg r \<Rightarrow> Some (on_restore_completed r m)
      | HealthTickMsg \<Rightarrow> on_health_tick m
      | InstallSuccessMsg ok \<Rightarrow> Some (on_install_success ok m)
      | InstallFailureMsg f \<Rightarrow> Some (on_install_failure f m)
      | _ \<Rightarrow> None)"

definition globally :: "tui_msg \<Rightarrow> tui_model \<Rightarrow> tui_step option" where
  "globally msg m = (case msg of KeyMsg k \<Rightarrow> on_key k m | _ \<Rightarrow> None)"

definition resized :: "tui_msg \<Rightarrow> tui_model \<Rightarrow> tui_model" where
  "resized msg m = (case msg of ResizeMsg w h \<Rightarrow> m\<lparr>tm_width := w, tm_height := h\<rparr> | _ \<Rightarrow> m)"

definition tui_handle :: "tui_world \<Rightarrow> tui_msg \<Rightarrow> tui_model \<Rightarrow> tui_step" where
  "tui_handle w msg m0 =
     (let m = resized msg m0 in
      case globally msg m of
        Some r \<Rightarrow> r
      | None \<Rightarrow> (case on_message w msg m of Some r \<Rightarrow> r | None \<Rightarrow> delegate w msg m))"

definition tui_update :: "tui_world \<Rightarrow> tui_msg \<Rightarrow> tui_model \<Rightarrow> tui_step" where
  "tui_update w msg m = entering (tui_handle w msg) m"

end
