(* ===== verification/TuiProtocol.thy ===== *)
theory TuiProtocol
  imports TuiUpdate
begin

text \<open>
  The migration as a protocol.  \<open>migration\<close> is the part of the root model a migration
  depends on, \<open>migration_step\<close> the abstract automaton over it, with a rule for every way the
  protocol goes on; every other move between screens is the rule \<open>move\<close>.  The main result,
  \<open>update_refines\<close>, is that \<open>tui_update\<close> refines the automaton, whatever the message, the
  model and the environment; safety is then an invariant of the automaton.
\<close>

section \<open>The automaton\<close>

record migration =
  mg_at :: screen
  mg_lease :: "lease option"
  mg_asking :: bool
  mg_plan :: "backup_plan option"
  mg_backup :: backup_result
  mg_disposition :: disposition
  mg_boot :: bootstrap_screen
  mg_refresher :: bool

definition migration_of :: "tui_model \<Rightarrow> migration" where
  "migration_of m =
     \<lparr>mg_at = tm_state m, mg_lease = (if has_live_lease m then tm_lease m else None),
      mg_asking = tm_quiescence_auth_pending m, mg_plan = tm_backup_plan m, mg_backup = tm_backup_result m,
      mg_disposition = tm_disposition m, mg_boot = tm_bootstrap m, mg_refresher = td_refresher (tm_deps m)\<rparr>"

text \<open>The screens that only the rules of the protocol enter.\<close>

definition guarded_screens :: "screen list" where
  "guarded_screens =
     [StateContextMenu, StateMigrationEnv, StateMigrationAuth, StateBackupPreflight, StateBackupConfirm,
      StateBackupRunning, StateMigrationConfirm, StateMigrationDisposition, StateMigrationRemoveConfirm,
      StateMigrationQuiescence, StateMigrationAuthCheck, StateMigrationAuthRefresh, StateMigrationRecovery,
      StateMigrationSuccess, StateResult]"

definition open_screen :: "screen \<Rightarrow> bool" where
  "open_screen s \<longleftrightarrow> s \<notin> set guarded_screens"

text \<open>A command that neither ends the program nor touches the legacy installation.\<close>

fun plain :: "tui_cmd \<Rightarrow> bool" where
  "plain QuitCmd = False"
| "plain (BeginQuiescence ref i d) = False"
| "plain (RecoverLease l) = False"
| "plain (CompleteLease l ok) = False"
| "plain cmd = True"

text \<open>A bootstrap that has no banner to show, now or later.\<close>

definition quiet_bootstrap :: "bootstrap_screen \<Rightarrow> bool" where
  "quiet_bootstrap b \<longleftrightarrow> boot_banners b = [] \<and> list_all (\<lambda>a. act_banner a = []) (boot_actions b)"

definition reopens_menu :: "tui_msg \<Rightarrow> bool" where
  "reopens_menu msg =
     (case msg of DetectionCompletedMsg d \<Rightarrow> True | BlockedOperationDismissedMsg \<Rightarrow> True | _ \<Rightarrow> False)"

definition begins :: "migration \<Rightarrow> tui_cmd" where
  "begins c =
     BeginQuiescence
       \<lparr>dump_path = br_dump_path (mg_backup c), manifest_path = br_manifest_path (mg_backup c),
        sha256 = br_sha256 (mg_backup c), backup_size = br_size (mg_backup c)\<rparr>
       (case mg_plan c of None \<Rightarrow> [] | Some p \<Rightarrow> ci_id (bp_container p)) (mg_disposition c)"

text \<open>The disposition is chosen: authorization is asked for, or the quiescence begins at once.\<close>

definition authorizing :: "migration \<Rightarrow> tui_cmd list \<Rightarrow> migration \<Rightarrow> bool" where
  "authorizing c cmds c' \<longleftrightarrow>
     (if mg_refresher c
      then list_all plain cmds \<and> c' = c\<lparr>mg_at := StateMigrationAuthRefresh, mg_asking := True\<rparr>
      else cmds = [begins c] \<and> c' = c\<lparr>mg_at := StateMigrationQuiescence\<rparr>)"

inductive migration_step :: "tui_msg \<Rightarrow> migration \<Rightarrow> tui_cmd list \<Rightarrow> migration \<Rightarrow> bool" where
  move: "s = mg_at c \<or> open_screen s \<Longrightarrow> list_all plain cmds \<Longrightarrow>
    (quiet_bootstrap (mg_boot c) \<longrightarrow> quiet_bootstrap b) \<Longrightarrow>
    migration_step msg c cmds (c\<lparr>mg_at := s, mg_boot := b\<rparr>)"
| leave: "mg_lease c = None \<or> mg_at c = StateResult \<Longrightarrow> list_all (\<lambda>x. plain x \<or> x = QuitCmd) cmds \<Longrightarrow>
    migration_step msg c cmds c"
| noisy: "\<not> quiet_bootstrap (mg_boot c) \<Longrightarrow> migration_step msg c cmds (c\<lparr>mg_boot := b\<rparr>)"
| menu: "reopens_menu msg \<Longrightarrow> migration_step msg c [] (c\<lparr>mg_at := StateContextMenu\<rparr>)"
| migrate: "mg_at c = StateContextMenu \<Longrightarrow> migration_step msg c [] (c\<lparr>mg_at := StateMigrationEnv\<rparr>)"
| environment: "mg_at c = StateMigrationEnv \<Longrightarrow> list_all plain cmds \<Longrightarrow>
    migration_step msg c cmds (c\<lparr>mg_at := StateMigrationAuth\<rparr>)"
| review: "mg_at c = StateMigrationAuth \<Longrightarrow> list_all plain cmds \<Longrightarrow>
    migration_step msg c cmds (c\<lparr>mg_at := StateBackupPreflight\<rparr>)"
| unplanned: "mg_at c = StateBackupPreflight \<Longrightarrow>
    migration_step msg c [] (c\<lparr>mg_at := StateBackupResult, mg_backup := r\<rparr>)"
| planned: "mg_at c = StateBackupPreflight \<Longrightarrow> msg = BackupPreflightCompletedMsg (Inr plan) \<Longrightarrow>
    migration_step msg c [] (c\<lparr>mg_at := StateBackupConfirm, mg_plan := Some plan\<rparr>)"
| back_up: "mg_at c = StateBackupConfirm \<Longrightarrow> is_enter msg \<or> msg = BackupConfirmedMsg \<Longrightarrow> list_all plain cmds \<Longrightarrow>
    migration_step msg c cmds (c\<lparr>mg_at := StateBackupRunning\<rparr>)"
| backed_up: "mg_at c = StateBackupRunning \<Longrightarrow> msg = BackupCompletedMsg r \<Longrightarrow>
    s = StateMigrationConfirm \<and> br_outcome r = BackupValidated \<or> open_screen s \<Longrightarrow>
    migration_step msg c [] (c\<lparr>mg_backup := r, mg_at := s\<rparr>)"
| proceed: "mg_at c = StateMigrationConfirm \<Longrightarrow> is_enter msg \<Longrightarrow>
    migration_step msg c [] (c\<lparr>mg_at := StateMigrationDisposition\<rparr>)"
| remove: "mg_at c = StateMigrationDisposition \<Longrightarrow> msg = MigrationDispositionSelectedMsg disposition_remove \<Longrightarrow>
    migration_step msg c [] (c\<lparr>mg_at := StateMigrationRemoveConfirm, mg_disposition := disposition_remove\<rparr>)"
| stop: "mg_at c = StateMigrationDisposition \<Longrightarrow> msg = MigrationDispositionSelectedMsg disposition_stop \<Longrightarrow>
    c1 = c\<lparr>mg_disposition := disposition_stop\<rparr> \<Longrightarrow>
    authorizing c1 cmds c' \<Longrightarrow> migration_step msg c cmds c'"
| removal: "mg_at c = StateMigrationRemoveConfirm \<Longrightarrow> is_enter msg \<or> msg = MigrationRemoveConfirmedMsg \<Longrightarrow>
    authorizing c cmds c' \<Longrightarrow> migration_step msg c cmds c'"
| authorized: "mg_at c = StateMigrationAuthRefresh \<Longrightarrow> mg_asking c \<Longrightarrow>
    migration_step msg c [begins c] (c\<lparr>mg_asking := False, mg_at := StateMigrationQuiescence\<rparr>)"
| unauthorized: "mg_at c = StateMigrationAuthRefresh \<or> mg_at c = StateMigrationAuthCheck \<Longrightarrow>
    migration_step msg c [] (c\<lparr>mg_asking := False, mg_at := StateMigrationResult\<rparr>)"
| leased: "mg_at c = StateMigrationQuiescence \<Longrightarrow> list_all plain cmds \<Longrightarrow>
    open_screen s \<or> s = StateMigrationAuthRefresh \<and> l \<noteq> None \<Longrightarrow>
    mg_lease c = None \<or> l \<noteq> None \<Longrightarrow>
    migration_step msg c cmds (c\<lparr>mg_lease := l, mg_at := s\<rparr>)"
| check: "mg_lease c \<noteq> None \<Longrightarrow> list_all plain cmds \<Longrightarrow>
    migration_step msg c cmds (c\<lparr>mg_at := StateMigrationAuthCheck\<rparr>)"
| recheck: "mg_at c = StateMigrationAuthCheck \<Longrightarrow> list_all plain cmds \<Longrightarrow>
    migration_step msg c cmds (c\<lparr>mg_at := StateMigrationAuthRefresh\<rparr>)"
| abandon: "mg_lease c \<noteq> None \<Longrightarrow> list_all plain cmds \<Longrightarrow>
    migration_step msg c cmds (c\<lparr>mg_at := StateMigrationAuthRefresh\<rparr>)"
| recover: "mg_lease c = Some l \<Longrightarrow> mg_at c = StateMigrationAuthRefresh \<or> mg_at c = StateMigrationAuthCheck \<Longrightarrow>
    migration_step msg c [RecoverLease l] (c\<lparr>mg_at := StateMigrationRecovery\<rparr>)"
| recovered: "mg_at c = StateMigrationRecovery \<Longrightarrow> msg = MigrationRecoveryCompletedMsg r err \<Longrightarrow>
    migration_step msg c [] (c\<lparr>mg_lease := None, mg_at := StateMigrationResult\<rparr>)"
| succeed: "mg_lease c = Some l \<Longrightarrow> msg = InstallSuccessMsg ok \<Longrightarrow>
    migration_step msg c [CompleteLease l ok] (c\<lparr>mg_at := StateMigrationSuccess\<rparr>)"
| completed: "mg_at c = StateMigrationSuccess \<Longrightarrow> msg = MigrationSuccessCompletedMsg ok err \<Longrightarrow>
    s = (if err = None then StateResult else StateMigrationResult) \<Longrightarrow>
    migration_step msg c [] (c\<lparr>mg_lease := None, mg_at := s\<rparr>)"
| finish: "mg_lease c = None \<Longrightarrow> migration_step msg c [] (c\<lparr>mg_at := StateResult\<rparr>)"

section \<open>Refinement\<close>

definition refines :: "tui_msg \<Rightarrow> tui_model \<Rightarrow> tui_step \<Rightarrow> bool" where
  "refines msg m p \<longleftrightarrow> migration_step msg (migration_of m) (snd p) (migration_of (fst p))"

text \<open>The log and the other effects are no part of the protocol.\<close>

lemma log_event_fields [simp]:
  "tm_state (log_event a b c d m) = tm_state m"
  "tm_deps (log_event a b c d m) = tm_deps m"
  "tm_lease (log_event a b c d m) = tm_lease m"
  "tm_recovery_auth_pending (log_event a b c d m) = tm_recovery_auth_pending m"
  "tm_original_failure (log_event a b c d m) = tm_original_failure m"
  "tm_pending_docker_action (log_event a b c d m) = tm_pending_docker_action m"
  "has_live_lease (log_event a b c d m) = has_live_lease m"
  by (simp_all add: log_event_def effect_def has_live_lease_def)

lemma effect_fields [simp]: "tm_state (effect e m) = tm_state m" "tm_deps (effect e m) = tm_deps m"
  by (simp_all add: effect_def)

lemma go_fields [simp]: "tm_state (go s m) = s" "tm_deps (go s m) = tm_deps m"
  by (simp_all add: go_def)

lemma migration_of_fields [simp]:
  "mg_at (migration_of m) = tm_state m"
  "mg_asking (migration_of m) = tm_quiescence_auth_pending m"
  "mg_plan (migration_of m) = tm_backup_plan m"
  "mg_backup (migration_of m) = tm_backup_result m"
  "mg_disposition (migration_of m) = tm_disposition m"
  "mg_boot (migration_of m) = tm_bootstrap m"
  "mg_refresher (migration_of m) = td_refresher (tm_deps m)"
  by (simp_all add: migration_of_def)

lemma live_migration: "has_live_lease m \<longleftrightarrow> mg_lease (migration_of m) \<noteq> None"
  by (simp add: migration_of_def has_live_lease_def)

text \<open>What an update of the root model does to the protocol.\<close>

lemma migration_of_update [simp]:
  "migration_of (m\<lparr>tm_state := x_at\<rparr>) = (migration_of m)\<lparr>mg_at := x_at\<rparr>"
  "migration_of (m\<lparr>tm_quiescence_auth_pending := x_asking\<rparr>) = (migration_of m)\<lparr>mg_asking := x_asking\<rparr>"
  "migration_of (m\<lparr>tm_backup_plan := x_plan\<rparr>) = (migration_of m)\<lparr>mg_plan := x_plan\<rparr>"
  "migration_of (m\<lparr>tm_backup_result := x_backup\<rparr>) = (migration_of m)\<lparr>mg_backup := x_backup\<rparr>"
  "migration_of (m\<lparr>tm_disposition := x_disposition\<rparr>) = (migration_of m)\<lparr>mg_disposition := x_disposition\<rparr>"
  "migration_of (m\<lparr>tm_bootstrap := x_boot\<rparr>) = (migration_of m)\<lparr>mg_boot := x_boot\<rparr>"
  by (simp_all add: migration_of_def has_live_lease_def)

lemma migration_of_other [simp]:
  "migration_of (m\<lparr>tm_width := y_width\<rparr>) = migration_of m"
  "migration_of (m\<lparr>tm_height := y_height\<rparr>) = migration_of m"
  "migration_of (m\<lparr>tm_preflight := y_preflight\<rparr>) = migration_of m"
  "migration_of (m\<lparr>tm_workspace := y_workspace\<rparr>) = migration_of m"
  "migration_of (m\<lparr>tm_packages := y_packages\<rparr>) = migration_of m"
  "migration_of (m\<lparr>tm_portscan := y_portscan\<rparr>) = migration_of m"
  "migration_of (m\<lparr>tm_envwrite := y_envwrite\<rparr>) = migration_of m"
  "migration_of (m\<lparr>tm_asterisk := y_asterisk\<rparr>) = migration_of m"
  "migration_of (m\<lparr>tm_pull := y_pull\<rparr>) = migration_of m"
  "migration_of (m\<lparr>tm_deploy := y_deploy\<rparr>) = migration_of m"
  "migration_of (m\<lparr>tm_verify := y_verify\<rparr>) = migration_of m"
  "migration_of (m\<lparr>tm_result := y_result\<rparr>) = migration_of m"
  "migration_of (m\<lparr>tm_menu := y_menu\<rparr>) = migration_of m"
  "migration_of (m\<lparr>tm_blocked := y_blocked\<rparr>) = migration_of m"
  "migration_of (m\<lparr>tm_action_err := y_action_err\<rparr>) = migration_of m"
  "migration_of (m\<lparr>tm_env_choice := y_env_choice\<rparr>) = migration_of m"
  "migration_of (m\<lparr>tm_disposition_choice := y_disposition_choice\<rparr>) = migration_of m"
  "migration_of (m\<lparr>tm_backup_cancel := y_backup_cancel\<rparr>) = migration_of m"
  "migration_of (m\<lparr>tm_backup_cancelling := y_backup_cancelling\<rparr>) = migration_of m"
  "migration_of (m\<lparr>tm_backup_stage := y_backup_stage\<rparr>) = migration_of m"
  "migration_of (m\<lparr>tm_backup_elapsed := y_backup_elapsed\<rparr>) = migration_of m"
  "migration_of (m\<lparr>tm_restore_cancel := y_restore_cancel\<rparr>) = migration_of m"
  "migration_of (m\<lparr>tm_quiescence_cancel := y_quiescence_cancel\<rparr>) = migration_of m"
  "migration_of (m\<lparr>tm_restore_result := y_restore_result\<rparr>) = migration_of m"
  "migration_of (m\<lparr>tm_recovery_code := y_recovery_code\<rparr>) = migration_of m"
  "migration_of (m\<lparr>tm_diagnostic := y_diagnostic\<rparr>) = migration_of m"
  "migration_of (m\<lparr>tm_original_failure := y_original_failure\<rparr>) = migration_of m"
  "migration_of (m\<lparr>tm_recovery_auth_pending := y_recovery_auth_pending\<rparr>) = migration_of m"
  "migration_of (m\<lparr>tm_pending_docker_action := y_pending_docker_action\<rparr>) = migration_of m"
  "migration_of (m\<lparr>tm_workspace_name := y_workspace_name\<rparr>) = migration_of m"
  "migration_of (m\<lparr>tm_optional := y_optional\<rparr>) = migration_of m"
  "migration_of (m\<lparr>tm_asterisk_options := y_asterisk_options\<rparr>) = migration_of m"
  "migration_of (m\<lparr>tm_confirmed_ports := y_confirmed_ports\<rparr>) = migration_of m"
  "migration_of (m\<lparr>tm_env_path := y_env_path\<rparr>) = migration_of m"
  "migration_of (m\<lparr>tm_compose_files := y_compose_files\<rparr>) = migration_of m"
  "migration_of (m\<lparr>tm_gpu := y_gpu\<rparr>) = migration_of m"
  "migration_of (m\<lparr>tm_migration_env := y_migration_env\<rparr>) = migration_of m"
  "migration_of (m\<lparr>tm_attempted := y_attempted\<rparr>) = migration_of m"
  "migration_of (m\<lparr>tm_effects := y_effects\<rparr>) = migration_of m"
  by (simp_all add: migration_of_def has_live_lease_def)

lemma migration_of_deps [simp]:
  "td_handoff d = td_handoff (tm_deps m) \<Longrightarrow> td_refresher d = td_refresher (tm_deps m) \<Longrightarrow>
     migration_of (m\<lparr>tm_deps := d\<rparr>) = migration_of m"
  by (simp add: migration_of_def has_live_lease_def)

lemma migration_of_entered [simp]:
  "migration_of (effect e m) = migration_of m"
  "migration_of (log_event a b c d m) = migration_of m"
  "migration_of (go s m) = (migration_of m)\<lparr>mg_at := s\<rparr>"
  by (simp_all add: effect_def log_event_def go_def)

lemma migration_of_cancel_pending [simp]: "migration_of (cancel_pending m) = migration_of m"
  by (simp add: cancel_pending_def Let_def)

lemma migration_of_port_policy [simp]: "migration_of (apply_port_policy m) = migration_of m"
  by (simp add: apply_port_policy_def Let_def)

lemma migration_of_drop_lease [simp]: "migration_of (drop_lease m) = (migration_of m)\<lparr>mg_lease := None\<rparr>"
  by (simp add: drop_lease_def) (simp add: migration_of_def has_live_lease_def)

lemma refines_entering: "refines msg m (handler m) \<Longrightarrow> refines msg m (entering handler m)"
  by (cases "handler m") (simp add: refines_def entering_def)

text \<open>A step that only moves to a screen outside the protocol, or stays.\<close>

lemma migration_of_unchanged [simp]:
  "(migration_of m)\<lparr>mg_boot := tm_bootstrap m\<rparr> = migration_of m"
  "(migration_of m)\<lparr>mg_at := s, mg_boot := tm_bootstrap m\<rparr> = (migration_of m)\<lparr>mg_at := s\<rparr>"
  "(migration_of m)\<lparr>mg_at := tm_state m\<rparr> = migration_of m"
  by (simp_all add: migration_of_def)

lemma moveI:
  assumes "migration_of (fst p) = (migration_of m)\<lparr>mg_at := tm_state (fst p)\<rparr>"
    "tm_state (fst p) = tm_state m \<or> open_screen (tm_state (fst p))" "list_all plain (snd p)"
  shows "refines msg m p"
  using migration_step.move [of "tm_state (fst p)" "migration_of m" "snd p" "mg_boot (migration_of m)"] assms
  by (simp add: refines_def)

lemma stayI:
  assumes "migration_of (fst p) = migration_of m" "list_all plain (snd p)"
  shows "refines msg m p"
  using migration_step.move [of "tm_state m" "migration_of m" "snd p" "mg_boot (migration_of m)"] assms
  by (simp add: refines_def)

lemma open_screen_simps [simp]:
  "open_screen StateSplash" "open_screen StatePreflight" "open_screen StateBootstrap"
  "open_screen StateWorkspaceInput" "open_screen StateOptionalPackages" "open_screen StatePortScan"
  "open_screen StateEnvWrite" "open_screen StateAsteriskSetup" "open_screen StatePull"
  "open_screen StateDeploy" "open_screen StateVerify" "open_screen StateDetecting"
  "open_screen StateUpdating" "open_screen StateBlockedOperation" "open_screen StateActionResult"
  "open_screen StateMigrationAuthFailed" "open_screen StateBackupResult" "open_screen StateMigrationBlocked"
  "open_screen StateDatabaseRestore" "open_screen StateMigrationResult" "open_screen StateMigrationCancelled"
  "open_screen StateDockerAuth" "open_screen StateDockerAuthFailed"
  by (simp_all add: open_screen_def guarded_screens_def)

section \<open>The handlers\<close>

text \<open>Installation and menu: no rule of the protocol but \<open>move\<close> and \<open>leave\<close>.\<close>

lemma quit_refines:
  "\<not> has_live_lease m \<or> tm_state m = StateResult \<Longrightarrow> refines msg m (quit m)"
  unfolding refines_def quit_def by (auto intro: migration_step.leave simp: live_migration)

lemma move_refines:
  "refines msg m (on_detection_started m)"
  "refines msg m (start_preflight m)"
  "refines msg m (start_update m)"
  "refines msg m (blocked a m)"
  "refines msg m (authenticate_docker a m)"
  "refines msg m (on_update_completed err m)"
  "refines msg m (on_deploy_started m)"
  "refines msg m (start_pull m)"
  "refines msg m (go StatePreflight m, [])"
  "refines msg m (go StateWorkspaceInput m, [BlinkField])"
  "refines msg m (on_workspace_entered w v m)"
  "refines msg m (on_packages_confirmed w sel m)"
  "refines msg m (on_ports_confirmed w plan m)"
  by (rule moveI; simp add: on_detection_started_def start_preflight_def preflight_init_def
      start_update_def blocked_def authenticate_docker_def on_update_completed_def on_deploy_started_def
      deploy_screen_init_def start_pull_def pull_screen_init_def on_workspace_entered_def
      on_packages_confirmed_def port_screen_init_def on_ports_confirmed_def env_write_screen_init_def Let_def)+

lemma stepI:
  "migration_step msg (migration_of m) cmds c' \<Longrightarrow> snd p = cmds \<Longrightarrow> migration_of (fst p) = c' \<Longrightarrow> refines msg m p"
  by (simp add: refines_def)

lemma refines_same: "migration_of m' = migration_of m \<Longrightarrow> refines msg m' p \<Longrightarrow> refines msg m p"
  by (simp add: refines_def)

text \<open>Keys: cancelling, recovering, quitting.\<close>

lemma begin_recovery_refines: "refines msg m (begin_migration_recovery m)"
proof (cases "has_live_lease m")
  case True
  then show ?thesis
    by (intro stepI [OF migration_step.abandon, where cmds = "snd (begin_migration_recovery m)"])
      (simp_all add: begin_migration_recovery_def live_migration)
qed (rule moveI; simp add: begin_migration_recovery_def)

lemma cancel_backup_refines: "refines msg m (cancel_backup m)"
  by (rule stayI) (simp_all add: cancel_backup_def)

lemma cancel_migration_refines: "refines msg m (cancel_migration m)"
  by (rule moveI) (simp_all add: cancel_migration_def)

lemma cancelled_refines: "refines msg m (effect e m, [])" "refines msg m (m, [])"
  by (rule stayI; simp)+

lemma stop_or_recover_refines:
  "stop_or_recover m = Some r \<Longrightarrow> refines msg m r"
  "stop_or_recover m = None \<Longrightarrow> \<not> has_live_lease m"
  by (auto simp: stop_or_recover_def cancel_backup_refines cancelled_refines begin_recovery_refines
      split: if_splits)

lemma on_key_refines: "on_key k m = Some r \<Longrightarrow> refines msg m r"
  by (auto simp: on_key_def on_ctrl_c_def on_esc_def on_q_def cancel_backup_refines cancel_migration_refines
      cancelled_refines begin_recovery_refines quit_refines stop_or_recover_refines
      split: tui_key.splits option.splits if_splits)

text \<open>Menu, authorization and backup.\<close>

lemma menu_refines:
  assumes "reopens_menu msg"
  shows "refines msg m (on_detection_completed d m)" "refines msg m (go StateContextMenu m, [])"
  by (intro stepI [OF migration_step.menu [OF assms]]; simp add: on_detection_completed_def)+

lemma on_context_action_refines: "refines msg m (on_context_action a m)"
proof (cases "tm_state m \<noteq> StateContextMenu \<or> \<not> has_action (tm_menu m) a")
  case True
  then show ?thesis by (auto simp: on_context_action_def cancelled_refines)
next
  case False
  then have "refines msg m (m\<lparr>tm_state := StateMigrationEnv, tm_env_choice := 0\<rparr>, [])"
    by (intro stepI [OF migration_step.migrate]) simp_all
  with False show ?thesis
    by (cases a) (auto simp: on_context_action_def move_refines)
qed

lemma on_docker_authenticated_refines: "refines msg m (on_docker_authenticated w err m)"
proof -
  define m1 where "m1 = (log_event ''docker-auth'' ''authentication'' ''succeeded'' [] m)\<lparr>tm_gpu := tw_gpu w\<rparr>"
  have same: "migration_of m1 = migration_of m" by (simp add: m1_def)
  have "refines msg m (start_preflight m1)" "refines msg m (start_update m1)" "refines msg m (m1, [])"
    by (rule refines_same [OF same], simp add: move_refines cancelled_refines)+
  moreover have "refines msg m (go StateDockerAuthFailed
      (log_event ''docker-auth'' ''authentication'' ''failed'' ''docker-auth-failed'' m), [])"
    by (rule moveI) simp_all
  ultimately show ?thesis
    by (auto simp: on_docker_authenticated_def Let_def cancelled_refines simp flip: m1_def
        split: context_action.splits)
qed

lemma on_environment_selected_refines: "refines msg m (on_environment_selected env m)"
proof (cases "tm_state m \<noteq> StateMigrationEnv \<or> env \<noteq> environment_development \<and> env \<noteq> environment_production")
  case False
  then show ?thesis
    by (intro stepI [OF migration_step.environment, where cmds = "[AuthenticateMigration]"])
      (auto simp: on_environment_selected_def)
qed (auto simp: on_environment_selected_def cancelled_refines)

lemma on_migration_authenticated_refines: "refines msg m (on_migration_authenticated err m)"
proof (cases "tm_state m = StateMigrationAuth")
  case True
  show ?thesis
  proof (cases err)
    case None
    with True show ?thesis
      by (intro stepI [OF migration_step.review, where cmds = "snd (on_migration_authenticated err m)"])
        (simp_all add: on_migration_authenticated_def)
  next
    case (Some e)
    with True show ?thesis by (intro moveI) (simp_all add: on_migration_authenticated_def)
  qed
qed (simp add: on_migration_authenticated_def cancelled_refines)

lemma on_backup_preflight_refines:
  "refines (BackupPreflightCompletedMsg r) m (on_backup_preflight r m)"
proof (cases "tm_state m = StateBackupPreflight")
  case True
  show ?thesis
  proof (cases r)
    case (Inl es)
    with True show ?thesis
      by (intro stepI [OF migration_step.unplanned [where r = "backup_preflight_failure es"]])
        (simp_all add: on_backup_preflight_def)
  next
    case (Inr plan)
    with True show ?thesis
      by (intro stepI [OF migration_step.planned [where plan = plan]])
        (simp_all add: on_backup_preflight_def)
  qed
qed (simp add: on_backup_preflight_def cancelled_refines)

lemma on_backup_confirmed_refines:
  assumes "is_enter msg \<or> msg = BackupConfirmedMsg"
  shows "refines msg m (on_backup_confirmed m)"
proof (cases "tm_state m = StateBackupConfirm \<and> td_backup (tm_deps m)")
  case True
  with assms show ?thesis
    by (intro stepI [OF migration_step.back_up, where cmds = "snd (on_backup_confirmed m)"])
      (simp_all add: on_backup_confirmed_def split: option.splits)
qed (auto simp: on_backup_confirmed_def cancelled_refines)

lemma on_backup_completed_refines: "refines (BackupCompletedMsg r) m (on_backup_completed r m)"
proof (cases "tm_state m = StateBackupRunning")
  case True
  define s where "s = (if br_outcome r \<noteq> BackupValidated then StateBackupResult
    else if td_restore (tm_deps m) \<and> td_handoff (tm_deps m) then StateMigrationConfirm
    else StateMigrationBlocked)"
  have "s = StateMigrationConfirm \<and> br_outcome r = BackupValidated \<or> open_screen s" by (simp add: s_def)
  with True have "migration_step (BackupCompletedMsg r) (migration_of m) []
      ((migration_of m)\<lparr>mg_backup := r, mg_at := s\<rparr>)"
    by (intro migration_step.backed_up) simp_all
  then show ?thesis by (rule stepI) (auto simp: on_backup_completed_def Let_def True s_def)
qed (simp add: on_backup_completed_def cancelled_refines)

lemma on_backup_running_refines:
  "refines msg m (on_backup_progress st m)"
  "refines msg m (on_backup_elapsed m)"
  "on_spinner_tick m = Some r \<Longrightarrow> refines msg m r"
  by (rule stayI; auto simp: on_backup_progress_def on_backup_elapsed_def on_spinner_tick_def split: if_splits)+

text \<open>Disposition and quiescence.\<close>

lemma begins_migration [simp]:
  "begins (migration_of m) = BeginQuiescence (backup_reference m) (planned_container m) (tm_disposition m)"
  by (simp add: begins_def backup_reference_def planned_container_def Let_def)

lemma authorizing_refines:
  "authorizing (migration_of m) (snd (authorize_migration_quiescence m))
     (migration_of (fst (authorize_migration_quiescence m)))"
  by (simp add: authorize_migration_quiescence_def begin_migration_quiescence_def authorizing_def)

lemma on_disposition_selected_refines:
  "refines (MigrationDispositionSelectedMsg d) m (on_disposition_selected d m)"
proof (cases "tm_state m \<noteq> StateMigrationDisposition \<or> d > disposition_remove")
  case True
  then show ?thesis by (auto simp: on_disposition_selected_def cancelled_refines)
next
  case False
  define m1 where "m1 = log_event ''container-disposition'' ''quiescence'' ''selected'' [] (m\<lparr>tm_disposition := d\<rparr>)"
  have m1: "migration_of m1 = (migration_of m)\<lparr>mg_disposition := d\<rparr>" by (simp add: m1_def)
  show ?thesis
  proof (cases "d = disposition_remove")
    case True
    with False show ?thesis
      by (intro stepI [OF migration_step.remove])
        (simp_all add: on_disposition_selected_def Let_def m1 flip: m1_def)
  next
    case stop: False
    with False have d: "d = disposition_stop" by (simp add: disposition_stop_def disposition_remove_def)
    have "migration_step (MigrationDispositionSelectedMsg d) (migration_of m)
        (snd (authorize_migration_quiescence m1)) (migration_of (fst (authorize_migration_quiescence m1)))"
      using False authorizing_refines [of m1] by (intro migration_step.stop [OF _ _ m1 [unfolded d]]) (simp_all add: d)
    with False stop show ?thesis by (simp add: on_disposition_selected_def Let_def refines_def flip: m1_def)
  qed
qed

lemma on_remove_confirmed_refines:
  assumes "is_enter msg \<or> msg = MigrationRemoveConfirmedMsg"
  shows "refines msg m (on_remove_confirmed m)"
proof (cases "tm_state m \<noteq> StateMigrationRemoveConfirm \<or> tm_disposition m \<noteq> disposition_remove")
  case True
  then show ?thesis by (auto simp: on_remove_confirmed_def cancelled_refines)
next
  case False
  with assms authorizing_refines [of m] show ?thesis
    by (auto simp: on_remove_confirmed_def refines_def intro!: migration_step.removal)
qed

lemma leasedI:
  assumes "tm_state m = StateMigrationQuiescence" "list_all plain (snd p)"
    "migration_of (fst p) = (migration_of m)\<lparr>mg_lease := l, mg_at := s\<rparr>"
    "open_screen s \<or> s = StateMigrationAuthRefresh \<and> l \<noteq> None"
    "has_live_lease m \<longrightarrow> l \<noteq> None"
  shows "refines msg m p"
  using migration_step.leased [of "migration_of m" "snd p" s l msg] assms
  by (auto simp: refines_def live_migration)

lemma quiescence_failed_refines:
  assumes "tm_state m = StateMigrationQuiescence"
  shows "refines msg m (quiescence_failed l err m)"
proof (cases l)
  case None
  then show ?thesis by (intro moveI) (simp_all add: quiescence_failed_def Let_def)
next
  case (Some l')
  define m1 where "m1 = m\<lparr>tm_lease := Some l', tm_migration_pending := True,
    tm_original_failure := Some \<lparr>if_err = map_option failure_text err,
      if_stage = ''migration-quiescence-recovery''\<rparr>\<rparr>"
  have m1: "migration_of m1 = (migration_of m)\<lparr>mg_lease := mg_lease (migration_of m1)\<rparr>"
    by (simp add: m1_def migration_of_def has_live_lease_def)
  have kept: "has_live_lease m \<longrightarrow> mg_lease (migration_of m1) \<noteq> None"
    by (simp add: m1_def migration_of_def has_live_lease_def)
  have "refines msg m (begin_migration_recovery m1)"
  proof (cases "has_live_lease m1")
    case True
    then show ?thesis
      by (intro leasedI [where l = "mg_lease (migration_of m1)" and s = StateMigrationAuthRefresh])
        (use kept in \<open>simp_all add: assms begin_migration_recovery_def\<close>, simp_all add: live_migration flip: m1)
  next
    case False
    then show ?thesis
      by (intro leasedI [where l = "mg_lease (migration_of m1)" and s = StateMigrationResult])
        (use kept in \<open>simp_all add: assms begin_migration_recovery_def flip: m1\<close>)
  qed
  then show ?thesis by (simp add: quiescence_failed_def Some flip: m1_def)
qed

lemma quiescence_verified_refines:
  assumes "tm_state m = StateMigrationQuiescence" "l \<noteq> None"
  shows "refines msg m (quiescence_verified l m)"
proof -
  define m1 where "m1 = (log_event ''container-disposition'' ''quiescence'' ''verified''
      (if tm_disposition m = disposition_remove then disposition_removed_code else disposition_stopped_code)
      (log_event ''pm2-quiescence'' ''quiescence'' ''verified'' ''pm2-stop-verified'' (m\<lparr>tm_lease := l\<rparr>)))
    \<lparr>tm_migration_pending := True\<rparr>"
  have "migration_of m1 = (migration_of m)\<lparr>mg_lease := mg_lease (migration_of m1)\<rparr>"
    by (simp add: m1_def log_event_def effect_def migration_of_def has_live_lease_def)
  moreover have "has_live_lease m \<longrightarrow> mg_lease (migration_of m1) \<noteq> None"
    using assms(2) by (auto simp add: m1_def log_event_def effect_def migration_of_def has_live_lease_def)
  ultimately have "refines msg m (start_preflight (apply_port_policy m1))"
    by (intro leasedI [where l = "mg_lease (migration_of m1)" and s = StatePreflight])
      (simp_all add: assms start_preflight_def preflight_init_def)
  then show ?thesis by (simp only: quiescence_verified_def m1_def)
qed

lemma on_quiescence_completed_refines: "refines msg m (on_quiescence_completed l err m)"
proof (cases "tm_state m = StateMigrationQuiescence")
  case True
  have "refines msg m (quiescence_failed l err (m\<lparr>tm_quiescence_cancel := False\<rparr>))"
    "l \<noteq> None \<Longrightarrow> refines msg m (quiescence_verified l (m\<lparr>tm_quiescence_cancel := False\<rparr>))"
    by (rule refines_same [where m' = "m\<lparr>tm_quiescence_cancel := False\<rparr>"],
        simp_all add: quiescence_failed_refines quiescence_verified_refines True)+
  with True show ?thesis by (auto simp: on_quiescence_completed_def Let_def)
qed (simp add: on_quiescence_completed_def cancelled_refines)

text \<open>Authorization, recovery and success under a lease.\<close>

lemma on_pull_complete_refines: "on_pull_complete m = Some r \<Longrightarrow> refines msg m r"
  by (intro stepI [OF migration_step.check, where cmds = "snd r"])
    (auto simp: on_pull_complete_def live_migration split: if_splits)

lemma authorized_recovery_refines:
  assumes "tm_state m = StateMigrationAuthRefresh \<or> tm_state m = StateMigrationAuthCheck"
  shows "refines msg m (begin_authorized_recovery m)"
proof (cases "has_live_lease m")
  case True
  then obtain l where l: "tm_lease m = Some l" by (auto simp: has_live_lease_def)
  with True have "mg_lease (migration_of m) = Some l" by (simp add: migration_of_def)
  with assms True l show ?thesis
    by (intro stepI [OF migration_step.recover [where l = l]]) (simp_all add: begin_authorized_recovery_def)
next
  case False
  then show ?thesis by (intro moveI) (simp_all add: begin_authorized_recovery_def split: option.splits)
qed

lemma recovery_authorized_refines:
  assumes "tm_state m = StateMigrationAuthRefresh \<or> tm_state m = StateMigrationAuthCheck"
  shows "refines msg m (recovery_authorized err m)"
proof -
  have "refines msg m (begin_authorized_recovery m1)"
    if "migration_of m1 = migration_of m" "tm_state m1 = tm_state m" for m1
    by (rule refines_same [OF that(1)]) (use that(2) assms in \<open>simp add: authorized_recovery_refines\<close>)
  then show ?thesis by (simp add: recovery_authorized_def Let_def)
qed

lemma quiescence_authorized_refines:
  assumes "tm_state m = StateMigrationAuthRefresh" "tm_quiescence_auth_pending m"
  shows "refines msg m (quiescence_authorized err m)"
proof (cases "err = None")
  case True
  with assms show ?thesis
    by (intro stepI [OF migration_step.authorized])
      (simp_all add: quiescence_authorized_def begin_migration_quiescence_def backup_reference_def
        planned_container_def)
next
  case False
  with assms show ?thesis
    by (intro stepI [OF migration_step.unauthorized]) (simp_all add: quiescence_authorized_def Let_def)
qed

lemma on_refresh_completed_refines: "refines msg m (on_refresh_completed err m)"
proof (cases "tm_state m = StateMigrationAuthRefresh")
  case True
  have "refines msg m (entering on_deploy_started
      (log_event ''migration-auth-refresh'' ''authorization-refresh'' ''succeeded'' [] m))"
    by (rule refines_same [OF migration_of_entered(2)]) (rule refines_entering, rule move_refines)
  moreover have "refines msg m (begin_authorized_recovery
      ((log_event ''migration-auth-refresh'' ''authorization-refresh'' ''failed'' ''migration-auth-refresh-failed'' m)
         \<lparr>tm_original_failure := Some \<lparr>if_err = err, if_stage = ''migration-authorization-refresh''\<rparr>\<rparr>))"
    by (rule refines_same [OF _ authorized_recovery_refines]) (simp_all add: True)
  ultimately show ?thesis
    by (simp add: on_refresh_completed_def True recovery_authorized_refines quiescence_authorized_refines)
qed (simp add: on_refresh_completed_def cancelled_refines)

text \<open>Without a refresher a failed check goes on at once as a failed refresh.\<close>

lemma refresh_unavailable_refines:
  assumes "tm_state m = StateMigrationAuthCheck"
  shows "refines msg m (on_refresh_completed (Some e) (go StateMigrationAuthRefresh m))"
proof -
  let ?m = "go StateMigrationAuthRefresh m"
  have recovering: "refines msg m (begin_authorized_recovery m1)"
    if "migration_of m1 = (migration_of m)\<lparr>mg_at := StateMigrationAuthRefresh\<rparr>" for m1
  proof (cases "has_live_lease m1")
    case True
    then obtain l where l: "tm_lease m1 = Some l" by (auto simp: has_live_lease_def)
    with True have "mg_lease (migration_of m1) = Some l" by (simp add: migration_of_def)
    with that have "mg_lease (migration_of m) = Some l" by simp
    with assms True l that show ?thesis
      by (intro stepI [OF migration_step.recover [where l = l]]) (simp_all add: begin_authorized_recovery_def)
  next
    case False
    with that show ?thesis by (intro moveI) (simp_all add: begin_authorized_recovery_def split: option.splits)
  qed
  have "refines msg m (quiescence_authorized (Some e) ?m)"
    using assms by (intro stepI [OF migration_step.unauthorized]) (simp_all add: quiescence_authorized_def Let_def)
  moreover have "refines msg m (recovery_authorized (Some e) ?m)"
    unfolding recovery_authorized_def Let_def by (rule recovering) simp
  ultimately show ?thesis by (simp add: on_refresh_completed_def recovering)
qed

lemma on_authorization_checked_refines: "refines msg m (on_authorization_checked err m)"
proof (cases "tm_state m = StateMigrationAuthCheck")
  case True
  have "refines msg m (entering on_deploy_started
      (log_event ''migration-auth-refresh'' ''authorization-refresh'' ''not-required'' [] m))"
    by (rule refines_same [OF migration_of_entered(2)]) (rule refines_entering, rule move_refines)
  moreover have "refines msg m (go StateMigrationAuthRefresh m, [RefreshAuthorization])"
    using True by (intro stepI [OF migration_step.recheck, where cmds = "[RefreshAuthorization]"]) simp_all
  moreover have "refines msg m (entering (on_refresh_completed (Some e)) (go StateMigrationAuthRefresh m))" for e
    using refresh_unavailable_refines [OF True, of msg e]
    by (cases "on_refresh_completed (Some e) (go StateMigrationAuthRefresh m)") (simp add: refines_def entering_def)
  ultimately show ?thesis by (simp add: on_authorization_checked_def True)
qed (simp add: on_authorization_checked_def cancelled_refines)

lemma on_recovery_completed_refines:
  "refines (MigrationRecoveryCompletedMsg r err) m (on_recovery_completed r err m)"
proof (cases "tm_state m = StateMigrationRecovery")
  case True
  then show ?thesis
    by (intro stepI [OF migration_step.recovered [where r = r and err = err]])
      (simp_all add: on_recovery_completed_def Let_def)
qed (simp add: on_recovery_completed_def cancelled_refines)

lemma on_success_completed_refines:
  "refines (MigrationSuccessCompletedMsg ok err) m (on_success_completed ok err m)"
proof (cases "tm_state m = StateMigrationSuccess")
  case True
  show ?thesis
  proof (cases err)
    case None
    with True show ?thesis
      by (intro stepI [OF migration_step.completed [where ok = ok and err = err and s = StateResult]])
        (simp_all add: on_success_completed_def)
  next
    case (Some e)
    with True show ?thesis
      by (intro stepI [OF migration_step.completed [where ok = ok and err = err and s = StateMigrationResult]])
        (simp_all add: on_success_completed_def)
  qed
qed (simp add: on_success_completed_def cancelled_refines)

lemma on_abandoned_refines: "refines msg m (on_abandoned m)"
  by (simp add: on_abandoned_def cancelled_refines begin_recovery_refines)

text \<open>The installation behind the lease.\<close>

lemma delegate_preflight_refines: "refines msg m (delegate_preflight msg' m)"
  by (rule stayI; cases "preflight_screen_update msg' (tm_preflight m)")
    (auto simp: delegate_preflight_def preflight_screen_update_def
      split: tui_msg.splits tui_key.splits option.splits if_splits)

lemma classify_blockers_quiet:
  assumes "classify_blockers r env media config workspace = (fixable, non_fixable)"
  shows "list_all (\<lambda>a. act_banner a = []) fixable"
proof -
  have "list_all (\<lambda>a. act_banner a = []) (bl_install b @ bl_dirs b @ bl_systemd b) \<Longrightarrow>
      (let b' = foldl (classify_item env u media config workspace) b r in
       list_all (\<lambda>a. act_banner a = []) (bl_install b' @ bl_dirs b' @ bl_systemd b'))" for b u
  proof (induction r arbitrary: b)
    case (Cons item r)
    have "list_all (\<lambda>a. act_banner a = [])
        (bl_install (classify_item env u media config workspace b item)
         @ bl_dirs (classify_item env u media config workspace b item)
         @ bl_systemd (classify_item env u media config workspace b item))"
      using Cons.prems by (auto simp: classify_item_def docker_install_action_def build_dir_action_def
          build_user_dir_action_def systemd_start_docker_action_def split: check_id.splits)
    from Cons.IH [OF this] show ?case by simp
  qed simp
  with assms show ?thesis by (force simp: classify_blockers_def no_blockers_def Let_def)
qed

lemma bootstrappingI:
  assumes "migration_of (fst p) = (migration_of m)\<lparr>mg_at := s, mg_boot := b\<rparr>" "s = tm_state m \<or> open_screen s"
    "list_all plain (snd p)" "quiet_bootstrap (tm_bootstrap m) \<longrightarrow> quiet_bootstrap b"
  shows "refines msg m p"
  using migration_step.move [of s "migration_of m" "snd p" b] assms by (simp add: refines_def)

lemma on_preflight_result_refines: "refines msg m (on_preflight_result r m)"
proof -
  obtain fixable non_fixable where c: "classify_blockers r (td_env (tm_deps m)) (td_media_dir (tm_deps m))
      (td_config_dir (tm_deps m)) (td_workspace_dir (tm_deps m)) = (fixable, non_fixable)" by fastforce
  let ?fresh = "filter (\<lambda>a. act_id a \<notin> set (tm_attempted m)) fixable"
  have "quiet_bootstrap (new_bootstrap_screen ?fresh)"
    using classify_blockers_quiet [OF c] by (auto simp: quiet_bootstrap_def new_bootstrap_screen_def list_all_iff)
  then have "refines msg m ((fst (delegate_preflight (PreflightResultMsg r) m))
      \<lparr>tm_state := StateBootstrap, tm_bootstrap := new_bootstrap_screen ?fresh\<rparr>, [])"
    by (intro bootstrappingI [where s = StateBootstrap and b = "new_bootstrap_screen ?fresh"])
      (simp_all add: delegate_preflight_def preflight_screen_update_def)
  then show ?thesis by (auto simp: on_preflight_result_def c Let_def delegate_preflight_refines)
qed

lemma on_bootstrap_complete_refines: "refines msg m (on_bootstrap_complete w m)"
  by (rule moveI) (simp_all add: on_bootstrap_complete_def preflight_rearm_def preflight_init_def)

lemma delegate_asterisk_refines: "refines msg m (delegate_asterisk msg' m)"
  by (rule stayI; cases "asterisk_screen_update msg' (tm_asterisk m)")
    (auto simp: delegate_asterisk_def asterisk_screen_update_def split: tui_msg.splits)

lemma on_env_written_refines: "refines msg m (on_env_written path m)"
  by (rule moveI; simp add: on_env_written_def Let_def start_pull_def pull_screen_init_def asterisk_screen_init_def)

lemma on_deploy_complete_refines: "on_deploy_complete m = Some r \<Longrightarrow> refines msg m r"
  by (rule moveI) (auto simp: on_deploy_complete_def split: if_splits)

lemma on_health_tick_refines: "on_health_tick m = Some r \<Longrightarrow> refines msg m r"
  by (rule moveI) (auto simp: on_health_tick_def Let_def verify_screen_init_def split: if_splits)

lemma on_restore_completed_refines: "refines msg m (on_restore_completed r m)"
proof -
  have "refines msg m (begin_migration_recovery m1)" "refines msg m (go StateDeploy m1, [Emit HealthTickMsg])"
    if "migration_of m1 = migration_of m" for m1
    using refines_same [OF that begin_recovery_refines] that by (auto intro: moveI)
  then show ?thesis by (simp add: on_restore_completed_def Let_def cancelled_refines)
qed

lemma on_install_success_refines: "refines (InstallSuccessMsg ok) m (on_install_success ok m)"
proof (cases "has_live_lease m")
  case True
  then obtain l where l: "tm_lease m = Some l" by (auto simp: has_live_lease_def)
  with True have "mg_lease (migration_of m) = Some l" by (simp add: migration_of_def)
  with True l show ?thesis
    by (intro stepI [OF migration_step.succeed [where l = l and ok = ok]])
      (simp_all add: on_install_success_def complete_migration_success_def)
next
  case False
  then show ?thesis
    by (intro stepI [OF migration_step.finish]) (simp_all add: on_install_success_def live_migration)
qed

lemma on_install_failure_refines: "refines msg m (on_install_failure f m)"
proof (cases "has_live_lease m")
  case True
  let ?m = "log_event ''original-failure'' (if_stage f) ''failed'' (failure_event_code (if_stage f))
    (m\<lparr>tm_original_failure := Some f\<rparr>)"
  have same: "migration_of ?m = migration_of m" by simp
  from True have "has_live_lease ?m" by (simp add: live_migration)
  with refines_same [OF same begin_recovery_refines] show ?thesis by (simp add: on_install_failure_def Let_def)
next
  case False
  then show ?thesis
    by (intro stepI [OF migration_step.finish]) (simp_all add: on_install_failure_def live_migration)
qed

text \<open>The active screen.\<close>

lemma withinI:
  assumes "\<And>a. migration_of (put a m) = migration_of m" "list_all plain (snd (upd (get m)))"
  shows "refines msg m (within get put upd m)"
  by (rule stayI; cases "upd (get m)") (use assms in \<open>auto simp: within_def\<close>)

lemma on_enter_refines:
  "(is_enter msg \<Longrightarrow> refines msg m (handler m)) \<Longrightarrow> refines msg m (on_enter handler msg m)"
  by (simp add: on_enter_def cancelled_refines)

lemma choose_disposition_refines:
  assumes "tm_state m = StateMigrationConfirm" "is_enter msg"
  shows "refines msg m (choose_disposition m)"
  using assms by (intro stepI [OF migration_step.proceed]) (simp_all add: choose_disposition_def)

lemma bootstrap_update_quiet:
  "quiet_bootstrap b \<Longrightarrow>
     quiet_bootstrap (fst (bootstrap_screen_update msg b)) \<and> list_all plain (snd (bootstrap_screen_update msg b))"
  by (auto simp: bootstrap_screen_update_def bootstrap_key_def bootstrap_start_def bootstrap_decline_def
      bootstrap_result_def quiet_bootstrap_def Let_def list_all_iff filter_empty_conv
      split: tui_msg.splits tui_key.splits option.splits if_splits)

lemma bootstrap_screen_refines:
  assumes "tm_state m = StateBootstrap"
  shows "refines msg m (within tm_bootstrap (\<lambda>a m. m\<lparr>tm_bootstrap := a\<rparr>) (bootstrap_screen_update msg') m)"
    (is "refines msg m ?p")
proof (cases "quiet_bootstrap (tm_bootstrap m)")
  case True
  obtain b cmds where u: "bootstrap_screen_update msg' (tm_bootstrap m) = (b, cmds)" by fastforce
  with bootstrap_update_quiet [OF True, of msg'] have "quiet_bootstrap b" "list_all plain cmds" by simp_all
  then show ?thesis
    by (intro bootstrappingI [where s = StateBootstrap and b = b]) (simp_all add: within_def u flip: assms)
next
  case False
  obtain b cmds where u: "bootstrap_screen_update msg' (tm_bootstrap m) = (b, cmds)" by fastforce
  with False show ?thesis
    by (intro stepI [OF migration_step.noisy [where b = b and cmds = cmds]]) (simp_all add: within_def)
qed

lemma splash_plain: "list_all plain (splash_update msg)"
  by (cases msg rule: splash_update.cases) simp_all

lemma blocked_operation_plain: "list_all plain (blocked_operation_update msg)"
  by (cases msg rule: blocked_operation_update.cases) simp_all

lemma screens_plain:
  "list_all plain (snd (context_menu_update msg menu))"
  "list_all plain (snd (migration_environment_update msg cursor))"
  "list_all plain (snd (migration_disposition_update msg cursor))"
  "list_all plain (snd (workspace_screen_update w msg ws))"
  "list_all plain (snd (packages_screen_update msg pk))"
  "list_all plain (snd (env_write_screen_update msg ew))"
  "list_all plain (snd (pull_screen_update msg pl))"
  "list_all plain (snd (deploy_screen_update msg dp))"
  by (auto simp: context_menu_update_def migration_environment_update_def migration_disposition_update_def
      workspace_screen_update_def packages_screen_update_def env_write_screen_update_def
      pull_screen_update_def deploy_screen_update_def Let_def
      split: tui_msg.splits tui_key.splits option.splits)

lemma port_screen_plain: "list_all plain (snd (port_screen_update w msg p))"
  by (auto simp: port_screen_update_def port_scan_result_def handle_alternate_port_def port_accepted_def
      port_field_def port_screen_init_def Let_def
      split: tui_msg.splits tui_key.splits option.splits list.splits)

lemma verify_screen_plain: "list_all plain (snd (verify_screen_update w msg v))"
  by (auto simp: verify_screen_update_def verify_tick_def Let_def
      split: tui_msg.splits tui_key.splits)

lemma delegate_refines: "refines msg m (delegate w msg m)"
proof (cases "tm_state m")
  case StateSplash
  then show ?thesis by (intro stayI) (simp_all add: delegate_def splash_plain)
next
  case StateBlockedOperation
  then show ?thesis by (intro stayI) (simp_all add: delegate_def blocked_operation_plain)
next
  case StateResult
  then show ?thesis
    by (auto simp: delegate_def refines_def result_screen_update_def intro!: migration_step.leave
        split: tui_msg.splits tui_key.splits)
next
  case StateBackupConfirm
  then show ?thesis
    by (simp add: delegate_def on_enter_refines refines_entering on_backup_confirmed_refines)
next
  case StateMigrationConfirm
  then show ?thesis by (simp add: delegate_def on_enter_refines choose_disposition_refines)
next
  case StateMigrationRemoveConfirm
  then show ?thesis
    by (simp add: delegate_def on_enter_refines refines_entering on_remove_confirmed_refines)
qed (simp_all add: delegate_def cancelled_refines delegate_preflight_refines delegate_asterisk_refines
    bootstrap_screen_refines withinI screens_plain port_screen_plain verify_screen_plain)

section \<open>The refinement\<close>

lemmas handler_refines =
  move_refines on_context_action_refines on_docker_authenticated_refines
  on_environment_selected_refines on_migration_authenticated_refines on_pull_complete_refines
  on_authorization_checked_refines on_refresh_completed_refines on_backup_preflight_refines
  on_backup_confirmed_refines on_backup_running_refines on_backup_completed_refines
  on_disposition_selected_refines on_remove_confirmed_refines on_quiescence_completed_refines
  on_recovery_completed_refines on_success_completed_refines on_abandoned_refines
  on_preflight_result_refines on_bootstrap_complete_refines on_env_written_refines
  delegate_asterisk_refines on_deploy_complete_refines on_restore_completed_refines
  on_health_tick_refines on_install_success_refines on_install_failure_refines cancelled_refines

lemma on_message_refines: "on_message w msg m = Some r \<Longrightarrow> refines msg m r"
  by (cases msg) (auto simp: on_message_def handler_refines menu_refines reopens_menu_def)

lemma resized_same: "migration_of (resized msg m) = migration_of m" "tm_state (resized msg m) = tm_state m"
  by (cases msg; simp add: resized_def)+

lemma tui_handle_refines: "refines msg m (tui_handle w msg m)"
proof (rule refines_same [OF resized_same(1)])
  show "refines msg (resized msg m) (tui_handle w msg m)"
    by (auto simp: tui_handle_def Let_def globally_def delegate_refines on_message_refines on_key_refines
        split: option.splits tui_msg.splits)
qed

theorem update_refines:
  assumes "tui_update w msg m = (m', cmds)"
  shows "migration_step msg (migration_of m) cmds (migration_of m')"
  using refines_entering [of msg m "tui_handle w msg", OF tui_handle_refines] assms
  by (simp add: refines_def tui_update_def)

end
