(* ===== verification/TuiSafety.thy ===== *)
theory TuiSafety
  imports TuiProtocol
begin

text \<open>
  Invariants of the migration automaton and what they give for the root model: a lease is
  not dropped on the floor, and the quiescence of the legacy installation comes after the
  operator's decisions, in their order.
\<close>

section \<open>Reachable models\<close>

text \<open>Any message may come at any time, and the environment may say anything.\<close>

inductive tui_reach :: "tui_deps \<Rightarrow> bool \<Rightarrow> tui_model \<Rightarrow> bool" for d asterisk where
  started: "tui_reach d asterisk (new_tui_model d asterisk)"
| updated: "tui_reach d asterisk m \<Longrightarrow> tui_update w msg m = (m', cmds) \<Longrightarrow> tui_reach d asterisk m'"

inductive_cases migration_stepE: "migration_step msg c cmds c'"

definition lease_inv :: "migration \<Rightarrow> bool" where
  "lease_inv c \<longleftrightarrow> quiet_bootstrap (mg_boot c) \<and> (mg_at c = StateResult \<longrightarrow> mg_lease c = None)"

lemma not_open [simp]: "\<not> open_screen StateResult" "\<not> open_screen StateMigrationAuthRefresh"
  "\<not> open_screen StateMigrationRecovery" "\<not> open_screen StateMigrationSuccess"
  by (simp_all add: open_screen_def guarded_screens_def)

lemma open_not: "open_screen s \<Longrightarrow> s \<notin> set guarded_screens"
  by (simp add: open_screen_def)

lemma plain_no_quit: "list_all plain cmds \<Longrightarrow> QuitCmd \<notin> set cmds"
  by (auto simp: list_all_iff)

lemma authorizing_lease:
  "authorizing c cmds c' \<Longrightarrow> mg_lease c' = mg_lease c \<and> mg_boot c' = mg_boot c \<and>
     (mg_at c' = StateMigrationAuthRefresh \<or> mg_at c' = StateMigrationQuiescence) \<and> QuitCmd \<notin> set cmds"
  by (auto simp: authorizing_def begins_def dest: plain_no_quit split: if_splits)

lemma lease_inv_step: "migration_step msg c cmds c' \<Longrightarrow> lease_inv c \<Longrightarrow> lease_inv c'"
  by (induction rule: migration_step.induct)
    (auto simp: lease_inv_def dest: authorizing_lease split: if_splits)

lemma lease_inv_reach: "tui_reach d asterisk m \<Longrightarrow> lease_inv (migration_of m)"
proof (induction rule: tui_reach.induct)
  case started
  show ?case
    by (simp add: lease_inv_def new_tui_model_def quiet_bootstrap_def new_bootstrap_screen_def)
next
  case (updated m w msg m' cmds)
  with lease_inv_step [OF update_refines] show ?case by blast
qed

text \<open>A step under a lease: no quitting, and the lease only goes with its completion.\<close>

lemma leased_step:
  assumes "migration_step msg c cmds c'" "lease_inv c" "mg_lease c \<noteq> None"
  shows "QuitCmd \<notin> set cmds" and
    "mg_lease c' \<noteq> None \<or> (\<exists>r err. msg = MigrationRecoveryCompletedMsg r err \<and> mg_at c = StateMigrationRecovery)
       \<or> (\<exists>ok err. msg = MigrationSuccessCompletedMsg ok err \<and> mg_at c = StateMigrationSuccess)" and
    "mg_at c' = StateResult \<longrightarrow> (\<exists>ok. msg = MigrationSuccessCompletedMsg ok None)"
  using assms
  by (induction rule: migration_step.induct)
    (auto simp: lease_inv_def begins_def dest: authorizing_lease plain_no_quit split: if_splits)

section \<open>The keys that abort\<close>

definition cancellable :: "tui_model \<Rightarrow> bool" where
  "cancellable m \<longleftrightarrow>
     tm_state m = StateBackupRunning \<and> tm_backup_cancel m \<or>
     tm_state m = StateMigrationQuiescence \<and> tm_quiescence_cancel m \<or>
     tm_state m = StateDatabaseRestore \<and> tm_restore_cancel m"

definition recovering :: "tui_model \<Rightarrow> tui_step \<Rightarrow> bool" where
  "recovering m p \<longleftrightarrow>
     tm_state (fst p) = StateMigrationAuthRefresh \<and> tm_recovery_auth_pending (fst p) \<and>
     snd p = (if td_refresher (tm_deps m) then [RefreshAuthorization]
              else [Emit (MigrationAuthorizationRefreshCompletedMsg
                            (Some ''migration authorization refresher is unavailable''))])"

lemma entering_state: "tm_state (fst (entering h m)) = tm_state (fst (h m))" "snd (entering h m) = snd (h m)"
  by (simp_all add: entering_def split: prod.splits)

lemma entering_pending: "tm_recovery_auth_pending (fst (entering h m)) = tm_recovery_auth_pending (fst (h m))"
  by (simp add: entering_def split: prod.splits)

lemma begin_recovery_recovering: "has_live_lease m \<Longrightarrow> recovering m (begin_migration_recovery m)"
  by (simp add: recovering_def begin_migration_recovery_def)

lemma ctrl_c_aborts:
  assumes "has_live_lease m" "\<not> cancellable m"
  shows "recovering m (tui_update w (KeyMsg KeyCtrlC) m)"
proof -
  have "tui_handle w (KeyMsg KeyCtrlC) m = begin_migration_recovery m"
    using assms by (auto simp: tui_handle_def resized_def globally_def on_key_def on_ctrl_c_def
        stop_or_recover_def cancellable_def)
  with begin_recovery_recovering [OF assms(1)] show ?thesis
    by (simp add: tui_update_def recovering_def entering_state entering_pending)
qed

lemma ctrl_c_cancels:
  assumes "cancellable m"
  shows "tm_state (fst (tui_update w (KeyMsg KeyCtrlC) m)) = tm_state m"
    "snd (tui_update w (KeyMsg KeyCtrlC) m) = []"
    "\<exists>e. e \<noteq> [] \<and> tm_effects (fst (tui_update w (KeyMsg KeyCtrlC) m)) = tm_effects m @ e"
  using assms
  by (auto simp: tui_update_def entering_def tui_handle_def resized_def globally_def on_key_def on_ctrl_c_def
      stop_or_recover_def cancellable_def cancel_backup_def effect_def)

text \<open>The answer to the authorization starts the recovery, whether it was given or not.\<close>

lemma authorized_recovers:
  assumes "has_live_lease m" "tm_state m = StateMigrationAuthRefresh" "tm_recovery_auth_pending m"
  shows "tm_state (fst (tui_update w (MigrationAuthorizationRefreshCompletedMsg err) m)) = StateMigrationRecovery"
    "snd (tui_update w (MigrationAuthorizationRefreshCompletedMsg err) m) = [RecoverLease (the (tm_lease m))]"
proof -
  have live: "has_live_lease m1" "tm_lease m1 = tm_lease m"
    if "tm_lease m1 = tm_lease m" "tm_migration_pending m1 = tm_migration_pending m" "tm_deps m1 = tm_deps m" for m1
    using that assms(1) by (simp_all add: has_live_lease_def)
  from assms(1) obtain l where "tm_lease m = Some l" by (auto simp: has_live_lease_def)
  with assms live show "tm_state (fst (tui_update w (MigrationAuthorizationRefreshCompletedMsg err) m)) = StateMigrationRecovery"
    "snd (tui_update w (MigrationAuthorizationRefreshCompletedMsg err) m) = [RecoverLease (the (tm_lease m))]"
    by (simp_all add: tui_update_def entering_state tui_handle_def resized_def globally_def on_message_def
        on_refresh_completed_def recovery_authorized_def Let_def begin_authorized_recovery_def
        log_event_def effect_def has_live_lease_def)
qed

end
