(* ===== verification/TuiHistory.thy ===== *)
theory TuiHistory
  imports TuiSafety
begin

text \<open>
  Runs with their history: what was on the screen when each message was accepted.  The
  quiescence of the legacy installation is only commanded after a chain of milestones, in
  their order.  A run leaves out one thing: while a lease is live, no answer of an old
  detection and no dismissal of a blocked operation comes in, which would open the menu.
\<close>

section \<open>Milestones in order\<close>

type_synonym history = "(screen \<times> tui_msg) list"

fun in_order :: "('a \<Rightarrow> bool) list \<Rightarrow> 'a list \<Rightarrow> bool" where
  "in_order [] h = True"
| "in_order (P # Ps) [] = False"
| "in_order (P # Ps) (x # h) = (P x \<and> in_order Ps h \<or> in_order (P # Ps) h)"

lemma in_order_extend: "in_order Ps h \<Longrightarrow> in_order Ps (h @ [x])"
  by (induction Ps h rule: in_order.induct) auto

lemma in_order_last: "in_order [P] (h @ [x]) \<longleftrightarrow> in_order [P] h \<or> P x"
  by (induction h) auto

lemma in_order_snoc: "in_order Ps h \<Longrightarrow> P x \<Longrightarrow> in_order (Ps @ [P]) (h @ [x])"
proof (induction Ps h rule: in_order.induct)
  case (1 h)
  then show ?case by (simp add: in_order_last)
qed auto

text \<open>The milestones of a migration with this plan, backup result and disposition.\<close>

definition reviewed :: "backup_plan \<Rightarrow> screen \<times> tui_msg \<Rightarrow> bool" where
  "reviewed plan x \<longleftrightarrow> x = (StateBackupPreflight, BackupPreflightCompletedMsg (Inr plan))"

definition backup_approved :: "screen \<times> tui_msg \<Rightarrow> bool" where
  "backup_approved x \<longleftrightarrow> fst x = StateBackupConfirm \<and> (is_enter (snd x) \<or> snd x = BackupConfirmedMsg)"

definition backup_validated :: "backup_result \<Rightarrow> screen \<times> tui_msg \<Rightarrow> bool" where
  "backup_validated r x \<longleftrightarrow> x = (StateBackupRunning, BackupCompletedMsg r) \<and> br_outcome r = BackupValidated"

definition migration_continued :: "screen \<times> tui_msg \<Rightarrow> bool" where
  "migration_continued x \<longleftrightarrow> fst x = StateMigrationConfirm \<and> is_enter (snd x)"

definition disposition_chosen :: "disposition \<Rightarrow> screen \<times> tui_msg \<Rightarrow> bool" where
  "disposition_chosen d x \<longleftrightarrow> x = (StateMigrationDisposition, MigrationDispositionSelectedMsg d)"

definition removal_confirmed :: "screen \<times> tui_msg \<Rightarrow> bool" where
  "removal_confirmed x \<longleftrightarrow>
     fst x = StateMigrationRemoveConfirm \<and> (is_enter (snd x) \<or> snd x = MigrationRemoveConfirmedMsg)"

definition approval :: "backup_plan \<Rightarrow> backup_result \<Rightarrow> disposition \<Rightarrow> (screen \<times> tui_msg \<Rightarrow> bool) list" where
  "approval plan r d =
     [reviewed plan, backup_approved, backup_validated r, migration_continued, disposition_chosen d]
     @ (if d = disposition_remove then [removal_confirmed] else [])"

section \<open>Runs\<close>

definition on_time :: "tui_msg \<Rightarrow> tui_model \<Rightarrow> bool" where
  "on_time msg m \<longleftrightarrow> has_live_lease m \<longrightarrow> \<not> reopens_menu msg"

inductive tui_run :: "tui_deps \<Rightarrow> bool \<Rightarrow> history \<Rightarrow> tui_model \<Rightarrow> bool" for d asterisk where
  run_started: "tui_run d asterisk [] (new_tui_model d asterisk)"
| run_updated: "tui_run d asterisk h m \<Longrightarrow> on_time msg m \<Longrightarrow> tui_update w msg m = (m', cmds) \<Longrightarrow>
    tui_run d asterisk (h @ [(tm_state m, msg)]) m'"

section \<open>The invariant\<close>

definition wizard_screens :: "screen list" where
  "wizard_screens =
     [StateContextMenu, StateMigrationEnv, StateMigrationAuth, StateBackupPreflight, StateBackupConfirm,
      StateBackupRunning, StateMigrationConfirm, StateMigrationDisposition, StateMigrationRemoveConfirm,
      StateMigrationQuiescence]"

text \<open>What the protocol has behind it on each of its screens.\<close>

definition passed :: "migration \<Rightarrow> backup_plan \<Rightarrow> (screen \<times> tui_msg \<Rightarrow> bool) list" where
  "passed c plan =
     (case mg_at c of
        StateBackupConfirm \<Rightarrow> [reviewed plan]
      | StateBackupRunning \<Rightarrow> [reviewed plan, backup_approved]
      | StateMigrationConfirm \<Rightarrow> [reviewed plan, backup_approved, backup_validated (mg_backup c)]
      | StateMigrationDisposition \<Rightarrow>
          [reviewed plan, backup_approved, backup_validated (mg_backup c), migration_continued]
      | StateMigrationRemoveConfirm \<Rightarrow>
          [reviewed plan, backup_approved, backup_validated (mg_backup c), migration_continued,
           disposition_chosen disposition_remove]
      | StateMigrationQuiescence \<Rightarrow> approval plan (mg_backup c) (mg_disposition c)
      | StateMigrationAuthRefresh \<Rightarrow>
          if mg_asking c then approval plan (mg_backup c) (mg_disposition c) else []
      | _ \<Rightarrow> [])"

definition planning :: "migration \<Rightarrow> bool" where
  "planning c \<longleftrightarrow>
     mg_at c \<in> {StateBackupConfirm, StateBackupRunning, StateMigrationConfirm, StateMigrationDisposition,
       StateMigrationRemoveConfirm, StateMigrationQuiescence} \<or>
     mg_at c = StateMigrationAuthRefresh \<and> mg_asking c"

definition static_inv :: "migration \<Rightarrow> bool" where
  "static_inv c \<longleftrightarrow>
     (mg_lease c \<noteq> None \<longrightarrow> \<not> mg_asking c \<and> mg_at c \<notin> set wizard_screens) \<and>
     (mg_at c = StateMigrationAuthCheck \<longrightarrow> mg_lease c \<noteq> None) \<and>
     (mg_asking c \<longrightarrow> mg_refresher c) \<and>
     (mg_at c = StateMigrationQuiescence \<longrightarrow> \<not> mg_asking c) \<and>
     (mg_at c = StateMigrationRemoveConfirm \<longrightarrow> mg_disposition c = disposition_remove) \<and>
     mg_disposition c \<in> {disposition_stop, disposition_remove}"

definition passed_inv :: "history \<Rightarrow> migration \<Rightarrow> bool" where
  "passed_inv h c \<longleftrightarrow> (planning c \<longrightarrow> (\<exists>plan. mg_plan c = Some plan \<and> in_order (passed c plan) h))"

text \<open>The parts that do not look at the history.\<close>

lemma disposition_neq [simp]: "disposition_stop \<noteq> disposition_remove" "disposition_remove \<noteq> disposition_stop"
  by (simp_all add: disposition_stop_def disposition_remove_def)

lemma open_screen_passed:
  assumes "open_screen s"
  shows "s \<notin> set wizard_screens" "s \<noteq> StateMigrationAuthCheck" "s \<noteq> StateMigrationAuthRefresh"
  using assms by (auto simp: open_screen_def guarded_screens_def wizard_screens_def)

lemma planning_wizard: "planning c \<Longrightarrow> mg_at c \<noteq> StateMigrationAuthRefresh \<Longrightarrow> mg_at c \<in> set wizard_screens"
  by (auto simp: planning_def wizard_screens_def)

lemma open_not_planning: "open_screen (mg_at c) \<Longrightarrow> \<not> planning c"
  using open_screen_passed planning_wizard by blast

lemma static_inv_step:
  "migration_step msg c cmds c' \<Longrightarrow> static_inv c \<Longrightarrow> mg_lease c \<noteq> None \<longrightarrow> \<not> reopens_menu msg \<Longrightarrow>
     static_inv c'"
  by (induction rule: migration_step.induct)
    (auto simp: static_inv_def authorizing_def wizard_screens_def open_screen_def guarded_screens_def
      split: if_splits)

lemma passed_cong:
  "mg_at c' = mg_at c \<Longrightarrow> mg_asking c' = mg_asking c \<Longrightarrow> mg_backup c' = mg_backup c \<Longrightarrow>
     mg_disposition c' = mg_disposition c \<Longrightarrow> passed c' = passed c"
  by (cases "mg_at c") (simp_all add: passed_def fun_eq_iff)

lemma passed_invI:
  "mg_plan c' = Some plan \<Longrightarrow> in_order (passed c' plan) h \<Longrightarrow> passed_inv h c'"
  by (auto simp: passed_inv_def)

lemma passed_open: "open_screen (mg_at c') \<Longrightarrow> passed_inv h c'"
  by (simp add: passed_inv_def open_not_planning)

text \<open>Staying on a screen keeps what is behind it.\<close>

lemma passed_stay:
  assumes "passed_inv h c" "planning c' \<Longrightarrow> planning c" "mg_plan c' = mg_plan c" "\<And>plan. passed c' plan = passed c plan"
  shows "passed_inv (h @ [x]) c'"
  using assms by (auto simp: passed_inv_def intro: in_order_extend)

text \<open>Passing one more milestone.\<close>

lemma passed_next:
  assumes "passed_inv h c" "planning c" "mg_plan c' = mg_plan c" "\<And>plan. passed c' plan = passed c plan @ [P]" "P x"
  shows "passed_inv (h @ [x]) c'"
  using assms by (auto simp: passed_inv_def intro: in_order_snoc)

lemma passed_authorizing:
  assumes "authorizing c cmds c'" "mg_plan c = Some plan"
    "in_order (approval plan (mg_backup c) (mg_disposition c)) h"
  shows "passed_inv h c'"
  using assms by (auto simp: authorizing_def passed_inv_def passed_def split: if_splits)

lemma passed_inv_step:
  assumes "migration_step msg c cmds c'" "static_inv c" "passed_inv h c"
  shows "passed_inv (h @ [(mg_at c, msg)]) c'"
  using assms
proof (induction rule: migration_step.induct)
  case (move s c cmds b msg)
  show ?case
  proof (cases "s = mg_at c")
    case True
    then show ?thesis
      by (intro passed_stay [OF move.prems(2)]) (auto simp: planning_def intro!: passed_cong [THEN fun_cong])
  next
    case False
    with move have "open_screen s" by blast
    then show ?thesis by (intro passed_open) simp
  qed
next
  case (leave c cmds msg)
  then show ?case by (auto intro: passed_stay)
next
  case (noisy c msg cmds b)
  show ?case
    by (intro passed_stay [OF noisy.prems(2)]) (auto simp: planning_def intro!: passed_cong [THEN fun_cong])
next
  case (planned c msg plan)
  then show ?case
    by (intro passed_invI [where plan = plan]) (auto simp: passed_def in_order_last reviewed_def)
next
  case (back_up c msg cmds)
  show ?case
    by (rule passed_next [OF back_up.prems(2), where P = backup_approved])
      (use back_up in \<open>auto simp: planning_def passed_def backup_approved_def\<close>)
next
  case (backed_up c msg r s)
  show ?case
  proof (cases "open_screen s")
    case True
    then show ?thesis by (intro passed_open) simp
  next
    case False
    show ?thesis
      by (rule passed_next [OF backed_up.prems(2), where P = "backup_validated r"])
        (use backed_up False in \<open>auto simp: planning_def passed_def backup_validated_def\<close>)
  qed
next
  case (proceed c msg)
  show ?case
    by (rule passed_next [OF proceed.prems(2), where P = migration_continued])
      (use proceed in \<open>auto simp: planning_def passed_def migration_continued_def\<close>)
next
  case (remove c msg)
  show ?case
    by (rule passed_next [OF remove.prems(2), where P = "disposition_chosen disposition_remove"])
      (use remove in \<open>auto simp: planning_def passed_def disposition_chosen_def\<close>)
next
  case (stop c msg c1 cmds c')
  then obtain plan where plan: "mg_plan c = Some plan" "in_order (passed c plan) h"
    by (auto simp: passed_inv_def planning_def)
  have "in_order (passed c plan @ [disposition_chosen disposition_stop]) (h @ [(mg_at c, msg)])"
    by (rule in_order_snoc [OF plan(2)]) (simp add: disposition_chosen_def stop)
  with stop plan(1) show ?case
    by (intro passed_authorizing [OF stop(4)]) (auto simp: passed_def approval_def)
next
  case (removal c msg cmds c')
  then obtain plan where plan: "mg_plan c = Some plan" "in_order (passed c plan) h"
    by (auto simp: passed_inv_def planning_def)
  have "in_order (passed c plan @ [removal_confirmed]) (h @ [(mg_at c, msg)])"
    by (rule in_order_snoc [OF plan(2)]) (use removal in \<open>auto simp: removal_confirmed_def\<close>)
  with removal plan(1) show ?case
    by (intro passed_authorizing [OF removal(3)]) (auto simp: passed_def approval_def static_inv_def)
next
  case (authorized c msg)
  show ?case by (intro passed_stay [OF authorized.prems(2)]) (use authorized in \<open>auto simp: planning_def passed_def\<close>)
next
  case (leased c cmds s l msg)
  then have "open_screen s \<or> s = StateMigrationAuthRefresh \<and> \<not> mg_asking c" by (auto simp: static_inv_def)
  then show ?case by (elim disjE) (rule passed_open, simp, simp add: passed_inv_def planning_def)
next
  case (completed c msg ok err s)
  then show ?case by (auto simp: passed_inv_def planning_def)
qed (auto simp: passed_inv_def planning_def static_inv_def)

lemma run_inv:
  "tui_run d asterisk h m \<Longrightarrow> static_inv (migration_of m) \<and> passed_inv h (migration_of m)"
proof (induction rule: tui_run.induct)
  case run_started
  show ?case
    by (simp add: static_inv_def passed_inv_def planning_def new_tui_model_def wizard_screens_def
        migration_of_def has_live_lease_def)
next
  case (run_updated h m msg w m' cmds)
  note step = update_refines [OF run_updated(3)]
  from run_updated have "mg_lease (migration_of m) \<noteq> None \<longrightarrow> \<not> reopens_menu msg"
    by (simp add: on_time_def live_migration)
  with run_updated.IH static_inv_step [OF step] passed_inv_step [OF step] show ?case by auto
qed

text \<open>Where the quiescence is commanded.\<close>

lemma plain_no_begin [simp]:
  "list_all plain cmds \<Longrightarrow> BeginQuiescence ref i d \<in> set cmds \<longleftrightarrow> False"
  "list_all (\<lambda>x. plain x \<or> x = QuitCmd) cmds \<Longrightarrow> BeginQuiescence ref i d \<in> set cmds \<longleftrightarrow> False"
  by (auto simp: list_all_iff)

lemma begin_step:
  assumes "migration_step msg c cmds c'" "lease_inv c" "BeginQuiescence ref i d \<in> set cmds"
  shows "mg_at c' = StateMigrationQuiescence \<and> begins c' = BeginQuiescence ref i d"
  using assms
proof (induction rule: migration_step.induct)
  case (stop c msg c1 cmds c')
  then show ?case by (simp add: authorizing_def begins_def split: if_splits)
next
  case (removal c msg cmds c')
  then show ?case by (simp add: authorizing_def begins_def split: if_splits)
next
  case (authorized c msg)
  then show ?case by (simp add: begins_def)
qed (simp_all add: lease_inv_def)

lemma run_reach: "tui_run d asterisk h m \<Longrightarrow> tui_reach d asterisk m"
  by (induction rule: tui_run.induct) (auto intro: tui_reach.intros)

lemma in_order_mem: "in_order Ps h \<Longrightarrow> P \<in> set Ps \<Longrightarrow> \<exists>x \<in> set h. P x"
  by (induction Ps h rule: in_order.induct) auto

lemma approval_validated: "in_order (approval plan r d) h \<Longrightarrow> br_outcome r = BackupValidated"
  using in_order_mem [of "approval plan r d" h "backup_validated r"]
  by (auto simp: approval_def backup_validated_def)

end
