(* ===== verification/TuiProperties.thy ===== *)
theory TuiProperties
  imports TuiHistory BackupProperties HandoffProperties
begin

text \<open>
  The two promises of the interactive installer around a migration, and the run that shows
  their hypotheses can hold: a migration up to the lease, message by message.
\<close>

section \<open>A run\<close>

fun feed :: "tui_world \<Rightarrow> tui_msg list \<Rightarrow> tui_model \<Rightarrow> tui_model" where
  "feed w [] m = m"
| "feed w (msg # msgs) m = feed w msgs (fst (tui_update w msg m))"

fun feed_history :: "tui_world \<Rightarrow> tui_msg list \<Rightarrow> tui_model \<Rightarrow> history" where
  "feed_history w [] m = []"
| "feed_history w (msg # msgs) m = (tm_state m, msg) # feed_history w msgs (fst (tui_update w msg m))"

fun all_on_time :: "tui_world \<Rightarrow> tui_msg list \<Rightarrow> tui_model \<Rightarrow> bool" where
  "all_on_time w [] m = True"
| "all_on_time w (msg # msgs) m =
     ((has_live_lease m \<longrightarrow> \<not> reopens_menu msg) \<and> all_on_time w msgs (fst (tui_update w msg m)))"

lemma feed_reach: "tui_reach d a m \<Longrightarrow> tui_reach d a (feed w msgs m)"
proof (induction msgs arbitrary: m)
  case (Cons msg msgs)
  have "tui_reach d a (fst (tui_update w msg m))"
    by (rule tui_reach.updated [OF Cons.prems, of w msg _ "snd (tui_update w msg m)"]) simp
  with Cons.IH show ?case by simp
qed simp

lemma feed_run:
  "tui_run d a h m \<Longrightarrow> all_on_time w msgs m \<Longrightarrow> tui_run d a (h @ feed_history w msgs m) (feed w msgs m)"
proof (induction msgs arbitrary: h m)
  case (Cons msg msgs)
  have "tui_run d a (h @ [(tm_state m, msg)]) (fst (tui_update w msg m))"
    by (rule tui_run.run_updated [OF Cons.prems(1), of msg w _ "snd (tui_update w msg m)"])
      (use Cons.prems(2) in \<open>simp_all add: on_time_def\<close>)
  from Cons.IH [OF this] Cons.prems(2) show ?case by simp
qed simp

definition demo_tui :: tui_deps where
  "demo_tui =
     \<lparr>td_debug = False, td_run_log = False, td_log_path = [], td_detector = True, td_update = True,
      td_backup = True, td_restore = True, td_handoff = True, td_authenticator = True, td_validator = True,
      td_refresher = True, td_docker_auth = True,
      td_backup_request = \<lparr>bq_destination = ''/b'', bq_source_roots = [], bq_environment = []\<rparr>,
      td_asterisk_options = no_asterisk_options,
      td_env = \<lparr>user_name = ''alice'', docker_binary_present = True, user_in_docker_group = True,
        systemd_present = True\<rparr>,
      td_media_dir = ''/m'', td_config_dir = ''/c'', td_workspace_dir = ''/w'',
      td_tcp = [(''REDIS_PORT'', 6379)], td_udp = [], td_exempt_tcp = [], td_exempt_udp = [],
      td_goos = ''linux'', td_goarch = ''amd64''\<rparr>"

definition demo_tui_world :: tui_world where
  "demo_tui_world =
     \<lparr>tw_tcp_free = (\<lambda>p. True), tw_udp_free = (\<lambda>p. True), tw_health = Inr [], tw_gpu = False,
      tw_arch = ArchAMD64, tw_env = td_env demo_tui, tw_asterisk = False, tw_field = (\<lambda>v. v)\<rparr>"

definition demo_backup_result :: backup_result where
  "demo_backup_result =
     \<lparr>br_outcome = BackupValidated, br_dump_path = ''/b/d'', br_manifest_path = ''/b/m'', br_sha256 = ''00'',
      br_size = 1, br_stages = [], br_code = CodeNone, br_remediation = RemedyNone\<rparr>"

definition demo_decisions :: "tui_msg list" where
  "demo_decisions =
     [KeyMsg KeyEnter, DetectionStartedMsg,
      DetectionCompletedMsg \<lparr>det_state = StateLegacyPM2, det_evidence = []\<rparr>,
      ContextActionSelectedMsg ContextActionMigration,
      MigrationEnvironmentSelectedMsg environment_production,
      MigrationAuthenticationCompletedMsg None,
      BackupPreflightCompletedMsg (Inr demo_plan), KeyMsg KeyEnter,
      BackupCompletedMsg demo_backup_result, KeyMsg KeyEnter,
      MigrationDispositionSelectedMsg disposition_remove, KeyMsg KeyEnter]"

definition demo_asked :: tui_model where
  "demo_asked = feed demo_tui_world demo_decisions (new_tui_model demo_tui False)"

definition demo_leased :: tui_model where
  "demo_leased = feed demo_tui_world
     [MigrationAuthorizationRefreshCompletedMsg None, MigrationQuiescenceCompletedMsg (Some demo_lease) None]
     demo_asked"

lemma demo_asked_reach: "tui_reach demo_tui False demo_asked"
  unfolding demo_asked_def by (rule feed_reach) (rule tui_reach.started)

lemma demo_leased_reach: "tui_reach demo_tui False demo_leased"
  unfolding demo_leased_def by (rule feed_reach [OF demo_asked_reach])

lemma demo_leased_live: "has_live_lease demo_leased"
  by code_simp

lemma demo_asked_run:
  "tui_run demo_tui False (feed_history demo_tui_world demo_decisions (new_tui_model demo_tui False)) demo_asked"
proof -
  have "all_on_time demo_tui_world demo_decisions (new_tui_model demo_tui False)" by code_simp
  from feed_run [OF tui_run.run_started this] show ?thesis by (simp add: demo_asked_def)
qed

section \<open>The lease\<close>



section \<open>The quiescence\<close>


lemma authorized_begins:
  assumes "tm_state m = StateMigrationAuthRefresh" "tm_quiescence_auth_pending m" "\<not> tm_recovery_auth_pending m"
  shows "snd (tui_update w (MigrationAuthorizationRefreshCompletedMsg None) m) =
    [BeginQuiescence (backup_reference m) (planned_container m) (tm_disposition m)]"
  using assms by (simp add: tui_update_def entering_state tui_handle_def resized_def globally_def on_message_def
      on_refresh_completed_def quiescence_authorized_def begin_migration_quiescence_def backup_reference_def
      planned_container_def)

lemma demo_asked_fields:
  "tm_state demo_asked = StateMigrationAuthRefresh" "tm_quiescence_auth_pending demo_asked"
  "\<not> tm_recovery_auth_pending demo_asked" "planned_container demo_asked = replicate 64 CHR ''a''"
  "tm_disposition demo_asked = disposition_remove" "sha256 (backup_reference demo_asked) = ''00''"
  by code_simp+


section \<open>What an abort during the recovery loses\<close>

text \<open>
  A quit key while the recovery runs asks for the authorization again; the answer of the
  running recovery finds another screen then and is dropped, and the second recovery finds
  the lease consumed, reports nothing verified and is shown as unproven.
\<close>

lemma recovery_report_dropped:
  assumes "tm_state m = StateMigrationAuthRefresh"
  shows "tui_update w (MigrationRecoveryCompletedMsg r err) m = (m, [])"
  using assms by (simp add: tui_update_def entering_def tui_handle_def resized_def globally_def on_message_def
      on_recovery_completed_def)

lemma consumed_lease_unproven:
  assumes "l_consumed l" "l_owner l = me" "h_ports h = Some p"
  shows "\<exists>l'. complete_failure h (Some me) (Some l) s = (((no_recovery, None), l'), s)"
    and "bounded_recovery_code no_recovery None = ''pm2-recovery-unproven''"
  using assms
  by (simp_all add: complete_failure_def consume_lease_def bounded_recovery_code_def no_recovery_def
      disposition_manual_recovery_code_def disposition_recovery_unproven_code_def)

end
