(* ===== verification/Operations.thy ===== *)
theory Operations
  imports HeadlessSafety Detection
begin

text \<open>
  The operations on an existing installation: \<open>internal/workspace/artifacts.go\<close>, which finds
  its files, \<open>internal/update/run.go\<close> and \<open>internal/restart/run.go\<close>.  A missing collaborator
  is \<open>None\<close>.  The progress channels are drained to the end before a result is looked at, so
  the lines an operation prints are part of what it returns.
\<close>

section \<open>The files of an installation\<close>

record resolved_artifacts =
  ra_env_file :: string
  ra_base_file :: string
  ra_gpu_file :: string

datatype artifact_error =
    WorkspaceUnnamed
  | ArtifactMissing string
  | ArtifactUnreadable string string
  | ArtifactDirectory string

definition require_file :: "'w fs \<Rightarrow> string \<Rightarrow> 'w isys \<Rightarrow> artifact_error option \<times> 'w isys" where
  "require_file fs path s =
     (case fs_call fs (FsStat path) s of
        (r, s1) \<Rightarrow>
          ((case r of
              FsMissing e \<Rightarrow> Some (ArtifactMissing path)
            | FsFailed e \<Rightarrow> Some (ArtifactUnreadable path e)
            | _ \<Rightarrow> if stat_dir r then Some (ArtifactDirectory path) else None), s1))"

definition resolve_artifacts ::
  "'w fs \<Rightarrow> string \<Rightarrow> 'w isys \<Rightarrow> (artifact_error + resolved_artifacts) \<times> 'w isys" where
  "resolve_artifacts fs dir s =
     (if dir = [] then (Inl WorkspaceUnnamed, s)
      else (let paths = required_artifact_paths dir in
        case require_file fs (ap_env_file paths) s of
          (Some e, s1) \<Rightarrow> (Inl e, s1)
        | (None, s1) \<Rightarrow>
            (case require_file fs (ap_base_file paths) s1 of
               (Some e, s2) \<Rightarrow> (Inl e, s2)
             | (None, s2) \<Rightarrow>
                 (Inr \<lparr>ra_env_file = ap_env_file paths, ra_base_file = ap_base_file paths,
                       ra_gpu_file = path_join [dir, ''docker-compose.gpu.yml'']\<rparr>, s2))))"

definition installed_compose_files ::
  "'w fs \<Rightarrow> ('w, gpu_info) ieff option \<Rightarrow> resolved_artifacts \<Rightarrow> ('w, string list) ieff" where
  "installed_compose_files fs gpu ra c s =
     (case gpu of
        None \<Rightarrow> ([ra_base_file ra], s)
      | Some detect \<Rightarrow>
          (case detect c s of
             (info, s1) \<Rightarrow>
               if \<not> toolkit_installed info then ([ra_base_file ra], s1)
               else (case fs_call fs (FsStat (ra_gpu_file ra)) s1 of
                 (r, s2) \<Rightarrow>
                   (ra_base_file ra # (if fs_success r \<and> \<not> stat_dir r then [ra_gpu_file ra] else []), s2))))"

section \<open>Update and restart\<close>

record 'w operation_deps =
  od_pull :: "(string list \<Rightarrow> string \<Rightarrow> ('w, cmd_event, pull_msg list \<times> string option) effect) option"
  od_up :: "string list \<Rightarrow> string \<Rightarrow> ('w, cmd_event, string list \<times> string option) effect"
  od_restart :: "string list \<Rightarrow> string \<Rightarrow> ('w, cmd_event, string option) effect"
  od_gpu :: "('w, gpu_info) ieff option"
  od_fs :: "'w fs"

datatype operation_error =
    ComposeRequired
  | GpuRequired
  | ArtifactsUnresolved artifact_error
  | PullFailed string
  | DeployFailed string
  | RestartFailed string

definition labelled :: "string \<Rightarrow> string list \<Rightarrow> string list" where
  "labelled label raws = map (\<lambda>r. label @ r) (filter (\<lambda>r. r \<noteq> []) raws)"

definition update_pull ::
  "(string list \<Rightarrow> string \<Rightarrow> ('w, cmd_event, pull_msg list \<times> string option) effect) \<Rightarrow> string list \<Rightarrow> string \<Rightarrow>
   ('w, string list \<times> operation_error option) ieff" where
  "update_pull pull files env_file c s =
     (case invoking (pull files env_file) c s of
        ((msgs, err), s1) \<Rightarrow> ((labelled ''[pull] '' (map pm_raw msgs), map_option PullFailed err), s1))"

definition update_deploy ::
  "(string list \<Rightarrow> string \<Rightarrow> ('w, cmd_event, string list \<times> string option) effect) \<Rightarrow> string list \<Rightarrow> string \<Rightarrow>
   ('w, string list \<times> operation_error option) ieff" where
  "update_deploy up files env_file c s =
     (case invoking (up files env_file) c s of
        ((raws, err), s1) \<Rightarrow> ((labelled ''[deploy] '' raws, map_option DeployFailed err), s1))"

text \<open>The collaborators that are there and the files, or the reason there are none.\<close>

definition operation_files ::
  "'w operation_deps \<Rightarrow> string \<Rightarrow> ('w, operation_error + (resolved_artifacts \<times> string list)) ieff" where
  "operation_files d dir c s =
     (if od_gpu d = None then (Inl GpuRequired, s)
      else case resolve_artifacts (od_fs d) dir s of
        (Inl e, s1) \<Rightarrow> (Inl (ArtifactsUnresolved e), s1)
      | (Inr ra, s1) \<Rightarrow>
          (case installed_compose_files (od_fs d) (od_gpu d) ra c s1 of
             (files, s2) \<Rightarrow> (Inr (ra, files), s2)))"

definition update_run :: "'w operation_deps \<Rightarrow> string \<Rightarrow> ('w, string list \<times> operation_error option) ieff" where
  "update_run d dir c s =
     (case od_pull d of
        None \<Rightarrow> (([], Some ComposeRequired), s)
      | Some pull \<Rightarrow>
          (case operation_files d dir c s of
             (Inl e, s1) \<Rightarrow> (([], Some e), s1)
           | (Inr (ra, files), s1) \<Rightarrow>
               (case update_pull pull files (ra_env_file ra) c s1 of
                  ((printed, Some e), s2) \<Rightarrow> ((printed, Some e), s2)
                | ((printed, None), s2) \<Rightarrow>
                    (case update_deploy (od_up d) files (ra_env_file ra) c s2 of
                       ((more_printed, err), s3) \<Rightarrow> ((printed @ more_printed, err), s3)))))"

definition restart_run :: "'w operation_deps \<Rightarrow> string \<Rightarrow> ('w, operation_error option) ieff" where
  "restart_run d dir c s =
     (if od_pull d = None then (Some ComposeRequired, s)
      else case operation_files d dir c s of
        (Inl e, s1) \<Rightarrow> (Some e, s1)
      | (Inr (ra, files), s1) \<Rightarrow>
          (case invoking (od_restart d files (ra_env_file ra)) c s1 of
             (err, s2) \<Rightarrow> (map_option RestartFailed err, s2)))"

text \<open>The production collaborators.\<close>

definition production_operation :: "'w headless_host \<Rightarrow> 'w operation_deps" where
  "production_operation h =
     (let e = hh_install h; docker = sudo_docker_runner (ie_runner e);
          stream = sudo_docker_streamer (ie_streamer e) in
      \<lparr>od_pull = Some (compose_pull (hh_pull h) stream), od_up = compose_up stream,
       od_restart = compose_restart docker, od_gpu = Some (gpu_detect (ie_json e) docker), od_fs = ie_fs e\<rparr>)"

section \<open>Effects\<close>

text \<open>Looking at files and at Docker.\<close>

fun looks :: "install_event \<Rightarrow> bool" where
  "looks (FsEvent fop ok) = fs_reads fop"
| "looks (Invoked (Ran name args ok)) = (name = ''docker'' \<and> args = ''info'' # json_format)"
| "looks e = False"

lemma require_file_grew:
  "require_file fs path s = (r, s') \<Longrightarrow> \<exists>ok. grew s s' [FsEvent (FsStat path) ok] \<and> (r = None \<longrightarrow> ok)"
  by (auto simp: require_file_def fs_success_def split: prod.splits fs_reply.splits if_splits
      dest!: fs_call_grew intro!: exI)

lemma stat_looks: "fs_call fs (FsStat path) s = (r, s') \<Longrightarrow> emits looks s s'"
  by (drule fs_call_grew, erule emits_grew) simp

lemma require_file_emits: "require_file fs path s = (r, s') \<Longrightarrow> emits looks s s'"
  by (drule require_file_grew) (auto intro: emits_grew)

lemma resolve_artifacts_emits:
  assumes "resolve_artifacts fs dir s = (r, s')"
  shows "emits looks s s'"
proof -
  obtain e1 s1 where 1: "require_file fs (ap_env_file (required_artifact_paths dir)) s = (e1, s1)" by fastforce
  obtain e2 s2 where 2: "require_file fs (ap_base_file (required_artifact_paths dir)) s1 = (e2, s2)" by fastforce
  note looked = require_file_emits [OF 1] emits_trans [OF require_file_emits [OF 1] require_file_emits [OF 2]]
  from assms 1 2 have "s' \<in> {s, s1, s2}"
    by (auto simp: resolve_artifacts_def Let_def split: if_splits option.splits)
  with looked show ?thesis by auto
qed

lemma gpu_detect_emits: "gpu_detect j f c s = (r, s') \<Longrightarrow> emits looks s s'"
  by (auto simp: gpu_detect_def split: prod.splits option.splits sum.splits if_splits
      dest!: invoke_grew intro: emits_grew)

text \<open>The probe of the GPU only looks.\<close>

definition gpu_looks :: "('w, gpu_info) ieff option \<Rightarrow> bool" where
  "gpu_looks gpu \<longleftrightarrow> (\<forall>detect c s r s'. gpu = Some detect \<longrightarrow> detect c s = (r, s') \<longrightarrow> emits looks s s')"

lemma installed_compose_files_emits:
  assumes gpu: "gpu_looks gpu" and run: "installed_compose_files fs gpu ra c s = (files, s')"
  shows "emits looks s s'"
proof (cases gpu)
  case None
  with run show ?thesis by (simp add: installed_compose_files_def)
next
  case (Some detect)
  obtain info s1 where d: "detect c s = (info, s1)" by fastforce
  obtain r s2 where 2: "fs_call fs (FsStat (ra_gpu_file ra)) s1 = (r, s2)" by fastforce
  have l: "emits looks s s1" using gpu Some d by (simp add: gpu_looks_def)
  from run Some d 2 have "s' \<in> {s1, s2}" by (auto simp: installed_compose_files_def split: if_splits)
  with l emits_trans [OF l stat_looks [OF 2]] show ?thesis by auto
qed

lemma operation_files_emits:
  assumes gpu: "gpu_looks (od_gpu d)" and run: "operation_files d dir c s = (r, s')"
  shows "emits looks s s'"
proof -
  obtain ra s1 where 1: "resolve_artifacts (od_fs d) dir s = (ra, s1)" by fastforce
  note l = resolve_artifacts_emits [OF 1]
  show ?thesis
  proof (cases ra)
    case (Inl e)
    with run 1 l show ?thesis by (auto simp: operation_files_def split: if_splits)
  next
    case (Inr found)
    obtain files s2 where 2: "installed_compose_files (od_fs d) (od_gpu d) found c s1 = (files, s2)" by fastforce
    from run 1 2 Inr have "s' \<in> {s, s2}" by (auto simp: operation_files_def split: if_splits)
    with emits_trans [OF l installed_compose_files_emits [OF gpu 2]] show ?thesis by auto
  qed
qed

text \<open>
  An update looks, pulls, and starts the stack only when everything was pulled; a restart
  looks and restarts.  Both name the same files in every command.
\<close>

definition restart_args :: "string list \<Rightarrow> string \<Rightarrow> string list" where
  "restart_args files env_file = base_args files env_file [''restart'']"

definition update_commands :: "bool \<Rightarrow> install_event list \<Rightarrow> bool" where
  "update_commands succeeds commands \<longleftrightarrow>
     (\<exists>files env_file.
        (commands = [] \<or> commands = [Invoked (Ran ''docker'' (pull_args files env_file) False)]) \<and> \<not> succeeds \<or>
        commands = [Invoked (Ran ''docker'' (pull_args files env_file) True),
                    Invoked (Ran ''docker'' (up_args files env_file) succeeds)])"

definition restart_commands :: "bool \<Rightarrow> install_event list \<Rightarrow> bool" where
  "restart_commands succeeds commands \<longleftrightarrow>
     commands = [] \<and> \<not> succeeds \<or>
     (\<exists>files env_file. commands = [Invoked (Ran ''docker'' (restart_args files env_file) succeeds)])"

definition looks_then :: "(install_event list \<Rightarrow> bool) \<Rightarrow> 'w isys \<Rightarrow> 'w isys \<Rightarrow> bool" where
  "looks_then P s s' \<longleftrightarrow> (\<exists>seen commands. grew s s' (seen @ commands) \<and> list_all looks seen \<and> P commands)"

lemma looks_thenI:
  assumes "emits looks s s1" "grew s1 s' commands" "P commands"
  shows "looks_then P s s'"
  using assms by (auto simp: emits_def looks_then_def intro: grew_trans)

lemma looks_only: "emits looks s s' \<Longrightarrow> P [] \<Longrightarrow> looks_then P s s'"
  by (rule looks_thenI [OF _ grew_refl])

lemma update_run_effects:
  assumes pull: "od_pull d = Some (compose_pull k f)" and up: "od_up d = compose_up f" and gpu: "gpu_looks (od_gpu d)"
    and run: "update_run d dir c s = ((printed, err), s')"
  shows "looks_then (update_commands (err = None)) s s'"
proof -
  obtain found s1 where 1: "operation_files d dir c s = (found, s1)" by fastforce
  note looked = operation_files_emits [OF gpu 1]
  show ?thesis
  proof (cases found)
    case (Inl e)
    with run 1 pull have "s' = s1" "err = Some e" by (simp_all add: update_run_def)
    with looks_only [OF looked] show ?thesis by (simp add: update_commands_def)
  next
    case (Inr p)
    obtain ra files where p: "p = (ra, files)" by fastforce
    obtain msgs e2 s2 where 2: "invoking (compose_pull k f files (ra_env_file ra)) c s1 = ((msgs, e2), s2)"
      by (metis prod.exhaust)
    have g2: "grew s1 s2 [Invoked (Ran ''docker'' (pull_args files (ra_env_file ra)) (e2 = None))]"
      using invoking_single [where ev = "\<lambda>r. Ran ''docker'' (pull_args files (ra_env_file ra)) (snd r = None)", OF _ 2]
        compose_pull_grew [where files = files and env_file = "ra_env_file ra"] by force
    show ?thesis
    proof (cases e2)
      case (Some e)
      with run 1 Inr p pull 2 have "s' = s2" "err \<noteq> None" by (auto simp: update_run_def update_pull_def)
      with Some have "update_commands (err = None) [Invoked (Ran ''docker'' (pull_args files (ra_env_file ra)) (e2 = None))]"
        by (auto simp: update_commands_def)
      from looks_thenI [OF looked g2, of "update_commands (err = None)", OF this] show ?thesis
        by (simp only: \<open>s' = s2\<close>)
    next
      case None
      obtain raws e3 s3 where 3: "invoking (compose_up f files (ra_env_file ra)) c s2 = ((raws, e3), s3)"
        by (metis prod.exhaust)
      have g3: "grew s2 s3 [Invoked (Ran ''docker'' (up_args files (ra_env_file ra)) (e3 = None))]"
        using invoking_single [where ev = "\<lambda>r. Ran ''docker'' (up_args files (ra_env_file ra)) (snd r = None)", OF _ 3]
          compose_up_grew [where files = files and env_file = "ra_env_file ra"] by (force simp: up_args_def)
      from run 1 Inr p pull up 2 3 None have "s' = s3" "err = None \<longleftrightarrow> e3 = None"
        by (auto simp: update_run_def update_pull_def update_deploy_def)
      with None have "update_commands (err = None)
          ([Invoked (Ran ''docker'' (pull_args files (ra_env_file ra)) (e2 = None))]
           @ [Invoked (Ran ''docker'' (up_args files (ra_env_file ra)) (e3 = None))])"
        by (auto simp: update_commands_def)
      from looks_thenI [OF looked grew_trans [OF g2 g3], of "update_commands (err = None)", OF this] show ?thesis
        by (simp only: \<open>s' = s3\<close>)
    qed
  qed
qed

lemma compose_restart_grew:
  "compose_restart f files env_file c s = (r, s') \<Longrightarrow>
   grew s s' [Ran ''docker'' (restart_args files env_file) (r = None)]"
  by (auto simp: compose_restart_def compose_command_def restart_args_def split: prod.splits dest!: run_cmd_grew)

lemma restart_run_effects:
  assumes restart: "od_restart d = compose_restart f" and gpu: "gpu_looks (od_gpu d)"
    and run: "restart_run d dir c s = (err, s')"
  shows "looks_then (restart_commands (err = None)) s s'"
proof (cases "od_pull d")
  case None
  with run have "s' = s" "err \<noteq> None" by (auto simp: restart_run_def)
  then show ?thesis by (intro looks_only) (simp_all add: restart_commands_def)
next
  case (Some pull)
  obtain found s1 where 1: "operation_files d dir c s = (found, s1)" by fastforce
  note looked = operation_files_emits [OF gpu 1]
  show ?thesis
  proof (cases found)
    case (Inl e)
    with run 1 Some have "s' = s1" "err = Some e" by (simp_all add: restart_run_def)
    with looks_only [OF looked] show ?thesis by (simp add: restart_commands_def)
  next
    case (Inr p)
    obtain ra files where p: "p = (ra, files)" by fastforce
    obtain e2 s2 where 2: "invoking (compose_restart f files (ra_env_file ra)) c s1 = (e2, s2)" by fastforce
    have g2: "grew s1 s2 [Invoked (Ran ''docker'' (restart_args files (ra_env_file ra)) (e2 = None))]"
      by (rule invoking_single [OF _ 2, of "\<lambda>r. Ran ''docker'' (restart_args files (ra_env_file ra)) (r = None)"])
        (rule compose_restart_grew)
    from run 1 Inr p Some restart 2 have "s' = s2" "err = None \<longleftrightarrow> e2 = None" by (auto simp: restart_run_def)
    then have "restart_commands (err = None) [Invoked (Ran ''docker'' (restart_args files (ra_env_file ra)) (e2 = None))]"
      by (auto simp: restart_commands_def)
    from looks_thenI [OF looked g2, of "restart_commands (err = None)", OF this] show ?thesis
      by (simp only: \<open>s' = s2\<close>)
  qed
qed

lemma production_operation_simps:
  "od_pull (production_operation h) = Some (compose_pull (hh_pull h) (sudo_docker_streamer (ie_streamer (hh_install h))))"
  "od_up (production_operation h) = compose_up (sudo_docker_streamer (ie_streamer (hh_install h)))"
  "od_restart (production_operation h) = compose_restart (sudo_docker_runner (ie_runner (hh_install h)))"
  "gpu_looks (od_gpu (production_operation h))"
  by (simp_all add: production_operation_def Let_def gpu_looks_def) (blast intro: gpu_detect_emits)

lemmas production_update =
  update_run_effects [OF production_operation_simps(1,2,4)]
lemmas production_restart =
  restart_run_effects [OF production_operation_simps(3,4)]

end
