(* ===== verification/RunLog.thy ===== *)
theory RunLog
  imports Detection "HOL-Library.Sublist"
begin

text \<open>
  \<open>internal/runlog/runlog.go\<close>: the diagnostic log, one JSON line per event.  The encoder, the
  random bytes, the clock and the operating system are parameters.
\<close>

section \<open>Events and records\<close>

record log_target =
  lt_pmid :: int
  lt_name :: string
  lt_port :: nat

record log_fields =
  lf_mode :: string
  lf_version :: string
  lf_debug :: "bool option"
  lf_unattended :: "bool option"
  lf_dry_run :: "bool option"
  lf_disposition :: string
  lf_error_class :: string
  lf_operation :: string
  lf_cause :: string
  lf_targets :: "log_target list"
  lf_attempted :: int
  lf_recovered :: int
  lf_verified :: "bool option"
  lf_mutated :: "bool option"
  lf_backend_healthy :: "bool option"
  lf_rollback :: string
  lf_legacy_validated :: "bool option"
  lf_target_validated :: "bool option"
  lf_restore_exit_ok :: "bool option"
  lf_connection_ok :: "bool option"
  lf_postgresql_reachable :: "bool option"

definition no_fields :: log_fields where
  "no_fields =
     \<lparr>lf_mode = [], lf_version = [], lf_debug = None, lf_unattended = None, lf_dry_run = None,
      lf_disposition = [], lf_error_class = [], lf_operation = [], lf_cause = [], lf_targets = [],
      lf_attempted = 0, lf_recovered = 0, lf_verified = None, lf_mutated = None, lf_backend_healthy = None,
      lf_rollback = [], lf_legacy_validated = None, lf_target_validated = None, lf_restore_exit_ok = None,
      lf_connection_ok = None, lf_postgresql_reachable = None\<rparr>"

record run_event =
  re_event :: string
  re_stage :: string
  re_status :: string
  re_code :: string
  re_fields :: log_fields

record log_record =
  lr_schema_version :: nat
  lr_timestamp :: string
  lr_run_id :: string
  lr_sequence :: nat
  lr_event :: string
  lr_stage :: string
  lr_status :: string
  lr_code :: string
  lr_fields :: log_fields

definition schema_version :: nat where "schema_version = 1"
definition default_keep :: int where "default_keep = 20"

section \<open>Redaction\<close>

definition secret_markers :: "string list" where
  "secret_markers =
     [''password'', ''secret'', ''token'', ''credential'', ''database_url'', ''postgres://'', ''postgresql://'',
      ''pgpass'', ''ami_'']"

definition printable :: "char \<Rightarrow> bool" where
  "printable c \<longleftrightarrow> (let n = of_char c :: nat in 0x20 \<le> n \<and> n \<le> 0x7E)"

definition max_value :: nat where "max_value = 96"

text \<open>A byte beyond ASCII belongs to a rune above \<open>0x7e\<close>, or to none and reads as the replacement character.\<close>

definition safe :: "string \<Rightarrow> string" where
  "safe value0 =
     (let value = take max_value value0 in
      if list_ex (\<lambda>m. sublist m (to_lower value)) secret_markers \<or> \<not> list_all printable value
      then ''redacted'' else value)"

definition max_targets :: nat where "max_targets = 16"

definition sanitize :: "log_fields \<Rightarrow> log_fields" where
  "sanitize f =
     f\<lparr>lf_mode := safe (lf_mode f), lf_version := safe (lf_version f), lf_disposition := safe (lf_disposition f),
       lf_error_class := safe (lf_error_class f), lf_operation := safe (lf_operation f),
       lf_cause := safe (lf_cause f), lf_rollback := safe (lf_rollback f),
       lf_targets := map (\<lambda>t. t\<lparr>lt_name := safe (lt_name t)\<rparr>) (take max_targets (lf_targets f))\<rparr>"

section \<open>The logger\<close>

record jsonl =
  jl_open :: bool
  jl_path :: string
  jl_run_id :: string
  jl_seq :: nat
  jl_warning :: string

definition stopped_prefix :: string where "stopped_prefix = ''diagnostic logging stopped''"
definition write_warning :: string where "write_warning = ''diagnostic logging stopped after a write failure''"
definition prune_warning :: string where "prune_warning = ''old diagnostic logs could not be pruned''"

definition log_record_of :: "jsonl \<Rightarrow> string \<Rightarrow> run_event \<Rightarrow> log_record" where
  "log_record_of l now ev =
     \<lparr>lr_schema_version = schema_version, lr_timestamp = now, lr_run_id = jl_run_id l, lr_sequence = jl_seq l,
      lr_event = safe (re_event ev), lr_stage = safe (re_stage ev), lr_status = safe (re_status ev),
      lr_code = safe (re_code ev), lr_fields = sanitize (re_fields ev)\<rparr>"

definition jsonl_silent :: "jsonl \<Rightarrow> bool" where
  "jsonl_silent l \<longleftrightarrow> \<not> jl_open l \<or> jl_warning l \<noteq> [] \<and> prefix stopped_prefix (jl_warning l)"

text \<open>
  \<open>Log\<close>: the record it tries to write, with whether that succeeded, the logger and the
  world afterwards.
\<close>

definition jsonl_log ::
  "(log_record \<Rightarrow> string option) \<Rightarrow> (string \<Rightarrow> 'w \<Rightarrow> bool \<times> 'w) \<Rightarrow> string \<Rightarrow> run_event \<Rightarrow> jsonl \<Rightarrow> 'w \<Rightarrow>
   (log_record \<times> bool) option \<times> jsonl \<times> 'w" where
  "jsonl_log marshal write now ev l0 s =
     (if jsonl_silent l0 then (None, l0, s)
      else (let l = l0\<lparr>jl_seq := jl_seq l0 + 1\<rparr>; r = log_record_of l now ev;
                (ok, s1) = (case marshal r of None \<Rightarrow> (False, s) | Some data \<Rightarrow> write (data @ [CHR 0x0A]) s) in
        (Some (r, ok), (if ok then l else l\<lparr>jl_warning := write_warning\<rparr>), s1)))"

fun jsonl_logs ::
  "(log_record \<Rightarrow> string option) \<Rightarrow> (string \<Rightarrow> 'w \<Rightarrow> bool \<times> 'w) \<Rightarrow> (string \<times> run_event) list \<Rightarrow> jsonl \<Rightarrow> 'w \<Rightarrow>
   (log_record \<times> bool) list \<times> jsonl \<times> 'w" where
  "jsonl_logs marshal write [] l s = ([], l, s)"
| "jsonl_logs marshal write ((now, ev) # evs) l s =
     (case jsonl_log marshal write now ev l s of
        (attempt, l1, s1) \<Rightarrow>
          (case jsonl_logs marshal write evs l1 s1 of
             (attempts, l2, s2) \<Rightarrow> (case attempt of None \<Rightarrow> attempts | Some a \<Rightarrow> a # attempts, l2, s2)))"

definition jsonl_close :: "('w \<Rightarrow> bool \<times> 'w) \<Rightarrow> jsonl \<Rightarrow> 'w \<Rightarrow> bool \<times> jsonl \<times> 'w" where
  "jsonl_close sync_and_close l s =
     (if \<not> jl_open l then (True, l, s)
      else case sync_and_close s of (ok, s1) \<Rightarrow> (ok, l\<lparr>jl_open := False\<rparr>, s1))"

section \<open>Opening a log\<close>

definition secure_dir :: "'w fs \<Rightarrow> string \<Rightarrow> 'w isys \<Rightarrow> bool \<times> 'w isys" where
  "secure_dir fs dir s =
     (case fs_ok fs (FsMkdirAll dir 0x1C0) s of
        (False, s1) \<Rightarrow> (False, s1)
      | (True, s1) \<Rightarrow>
          (case fs_call fs (FsLstat dir) s1 of
             (FsInfo i, s2) \<Rightarrow>
               if \<not> fi_dir i \<or> fi_symlink i then (False, s2) else fs_ok fs (FsChmod dir 0x1C0) s2
           | (_, s2) \<Rightarrow> (False, s2)))"

text \<open>\<open>retain\<close>: an entry is its name with whether it is a regular file.\<close>

definition log_names :: "(string \<times> bool) list \<Rightarrow> string list" where
  "log_names entries =
     map fst (filter (\<lambda>(name, regular). regular \<and> prefix ''alice-installer-'' name \<and> suffix ''.jsonl'' name) entries)"

fun insert_descending :: "string \<Rightarrow> string list \<Rightarrow> string list" where
  "insert_descending x [] = [x]"
| "insert_descending x (y # ys) =
     (if bytes_less x y then y # insert_descending x ys else x # y # ys)"

definition sort_descending :: "string list \<Rightarrow> string list" where
  "sort_descending xs = foldr insert_descending xs []"

definition expired_logs :: "(string \<times> bool) list \<Rightarrow> nat \<Rightarrow> string \<Rightarrow> string list" where
  "expired_logs entries keep current = filter (\<lambda>n. n \<noteq> current) (drop keep (sort_descending (log_names entries)))"

fun remove_logs :: "'w fs \<Rightarrow> string \<Rightarrow> string list \<Rightarrow> 'w isys \<Rightarrow> bool \<times> 'w isys" where
  "remove_logs fs dir [] s = (True, s)"
| "remove_logs fs dir (n # ns) s =
     (case fs_ok fs (FsRemove (path_join [dir, n])) s of
        (False, s1) \<Rightarrow> (False, s1)
      | (True, s1) \<Rightarrow> remove_logs fs dir ns s1)"

definition retain_logs ::
  "'w fs \<Rightarrow> (string \<times> bool) list option \<Rightarrow> string \<Rightarrow> nat \<Rightarrow> string \<Rightarrow> 'w isys \<Rightarrow> bool \<times> 'w isys" where
  "retain_logs fs entries dir keep current s =
     (case entries of None \<Rightarrow> (False, s) | Some es \<Rightarrow> remove_logs fs dir (expired_logs es keep current) s)"

text \<open>What \<open>Open\<close> finds: the home directory, random bytes as hexadecimal, the time, the directory.\<close>

record 'w log_host =
  lh_fs :: "'w fs"
  lh_home :: "string option"
  lh_run_id :: "string option"
  lh_stamp :: string
  lh_create :: "string \<Rightarrow> ('w, bool) oper"
  lh_entries :: "string \<Rightarrow> (string \<times> bool) list option"

text \<open>The file is created new and empty, with mode 0600, or log_opening it fails.\<close>

definition create_log :: "'w log_host \<Rightarrow> string \<Rightarrow> 'w isys \<Rightarrow> bool \<times> 'w isys" where
  "create_log h path s = call (\<lambda>ok. FsEvent (FsWriteFile path [] 0x180) ok) (lh_create h path) background s"

definition log_dir :: "'w log_host \<Rightarrow> string \<Rightarrow> string option" where
  "log_dir h dir =
     (if dir \<noteq> [] then Some dir
      else map_option (\<lambda>home. path_join [home, ''.local'', ''state'', ''alice-installer'', ''logs'']) (lh_home h))"

definition log_path :: "'w log_host \<Rightarrow> string \<Rightarrow> string \<Rightarrow> string" where
  "log_path h dir run_id = path_join [dir, ''alice-installer-'' @ lh_stamp h @ ''-'' @ run_id @ ''.jsonl'']"

definition new_logger :: "string \<Rightarrow> string \<Rightarrow> bool \<Rightarrow> jsonl" where
  "new_logger path run_id pruned =
     \<lparr>jl_open = True, jl_path = path, jl_run_id = run_id, jl_seq = 0,
      jl_warning = (if pruned then [] else prune_warning)\<rparr>"

definition kept_logs :: "int \<Rightarrow> nat" where
  "kept_logs keep = nat (if keep \<le> 0 then default_keep else keep)"

definition open_log :: "'w log_host \<Rightarrow> string \<Rightarrow> int \<Rightarrow> 'w isys \<Rightarrow> jsonl option \<times> 'w isys" where
  "open_log h dir0 keep s =
     (case log_dir h dir0 of
        None \<Rightarrow> (None, s)
      | Some dir \<Rightarrow>
          (case secure_dir (lh_fs h) dir s of
             (False, s1) \<Rightarrow> (None, s1)
           | (True, s1) \<Rightarrow>
               (case lh_run_id h of
                  None \<Rightarrow> (None, s1)
                | Some run_id \<Rightarrow>
                    (let path = log_path h dir run_id in
                     case create_log h path s1 of
                       (False, s2) \<Rightarrow> (None, s2)
                     | (True, s2) \<Rightarrow>
                         (case retain_logs (lh_fs h) (lh_entries h dir) dir (kept_logs keep) (path_base path) s2 of
                            (pruned, s3) \<Rightarrow> (Some (new_logger path run_id pruned), s3))))))"

section \<open>Facts\<close>

text \<open>A text that may be written: short, printable, without a marker of a secret.\<close>

definition harmless :: "string \<Rightarrow> bool" where
  "harmless v \<longleftrightarrow> length v \<le> max_value \<and> list_all printable v \<and>
     list_all (\<lambda>m. \<not> sublist m (to_lower v)) secret_markers"

lemma redacted_harmless: "harmless ''redacted''"
  by code_simp

lemma safe_harmless: "harmless (safe v)"
  using redacted_harmless
  by (auto simp: safe_def Let_def harmless_def list_all_iff list_ex_iff)

lemma safe_keeps: "harmless v \<Longrightarrow> safe v = v"
  by (auto simp: safe_def Let_def harmless_def list_all_iff list_ex_iff)

definition harmless_fields :: "log_fields \<Rightarrow> bool" where
  "harmless_fields f \<longleftrightarrow>
     list_all harmless [lf_mode f, lf_version f, lf_disposition f, lf_error_class f, lf_operation f, lf_cause f,
                        lf_rollback f] \<and>
     length (lf_targets f) \<le> max_targets \<and> list_all (harmless \<circ> lt_name) (lf_targets f)"

lemma sanitize_harmless: "harmless_fields (sanitize f)"
  by (auto simp: harmless_fields_def sanitize_def safe_harmless list_all_iff)

definition harmless_record :: "log_record \<Rightarrow> bool" where
  "harmless_record r \<longleftrightarrow>
     list_all harmless [lr_event r, lr_stage r, lr_status r, lr_code r] \<and> harmless_fields (lr_fields r)"

lemma log_record_harmless: "harmless_record (log_record_of l now ev)"
  by (simp add: harmless_record_def log_record_of_def safe_harmless sanitize_harmless)

lemma silent_logs: "jsonl_silent l \<Longrightarrow> jsonl_logs marshal write evs l s = ([], l, s)"
  by (induction evs) (auto simp: jsonl_log_def)

lemma write_warning_silent: "jsonl_silent (l\<lparr>jl_warning := write_warning\<rparr>)"
  by (simp add: jsonl_silent_def write_warning_def stopped_prefix_def)

text \<open>The pruning removes no more than the directory's logs beyond the newest, and never the current one.\<close>

lemma insert_descending_mset: "mset (insert_descending x xs) = add_mset x (mset xs)"
  by (induction xs) auto

lemma sort_descending_mset: "mset (sort_descending xs) = mset xs"
  by (induction xs) (simp_all add: sort_descending_def insert_descending_mset)

lemma expired_logs_subset: "set (expired_logs entries keep current) \<subseteq> set (log_names entries) - {current}"
  using mset_eq_setD [OF sort_descending_mset, of "log_names entries"]
  by (auto simp: expired_logs_def dest: in_set_dropD)

lemma log_names_files:
  "n \<in> set (log_names entries) \<Longrightarrow> (n, True) \<in> set entries \<and> suffix ''.jsonl'' n"
  by (auto simp: log_names_def)

text \<open>
  What opening a log does: it makes and secures its directory, creates its file, and removes
  only other logs of that directory.
\<close>

fun log_opening :: "string \<Rightarrow> string \<Rightarrow> install_event \<Rightarrow> bool" where
  "log_opening dir path (FsEvent fop ok) =
     (fop \<in> {FsMkdirAll dir 0x1C0, FsLstat dir, FsChmod dir 0x1C0, FsWriteFile path [] 0x180} \<or>
      (\<exists>n. fop = FsRemove (path_join [dir, n]) \<and> n \<noteq> path_base path \<and> prefix ''alice-installer-'' n \<and>
           suffix ''.jsonl'' n))"
| "log_opening dir path e = False"

lemma secure_dir_opening: "secure_dir fs dir s = (ok, s') \<Longrightarrow> emits (log_opening dir path) s s'"
proof -
  assume run: "secure_dir fs dir s = (ok, s')"
  obtain b1 s1 where 1: "fs_ok fs (FsMkdirAll dir 0x1C0) s = (b1, s1)" by fastforce
  obtain r s2 where 2: "fs_call fs (FsLstat dir) s1 = (r, s2)" by fastforce
  obtain b3 s3 where 3: "fs_ok fs (FsChmod dir 0x1C0) s2 = (b3, s3)" by fastforce
  have e: "emits (log_opening dir path) s s1" "emits (log_opening dir path) s1 s2" "emits (log_opening dir path) s2 s3"
    using fs_ok_grew [OF 1] fs_call_grew [OF 2] fs_ok_grew [OF 3] by (auto elim!: emits_grew)
  note e13 = emits_trans [OF emits_trans [OF e(1,2)] e(3)] emits_trans [OF e(1,2)]
  from run 1 2 3 have "s' \<in> {s1, s2, s3}"
    by (auto simp: secure_dir_def split: bool.splits fs_reply.splits if_splits)
  with e(1) e13 show ?thesis by auto
qed

lemma remove_logs_opening:
  "remove_logs fs dir ns s = (ok, s') \<Longrightarrow> (\<And>n. n \<in> set ns \<Longrightarrow> log_opening dir path (FsEvent (FsRemove (path_join [dir, n])) True)) \<Longrightarrow>
   emits (log_opening dir path) s s'"
proof (induction ns arbitrary: s)
  case (Cons n ns)
  obtain b s1 where 1: "fs_ok fs (FsRemove (path_join [dir, n])) s = (b, s1)" by fastforce
  have e: "emits (log_opening dir path) s s1"
    using fs_ok_grew [OF 1] Cons.prems(2) [of n] by (auto elim!: emits_grew)
  show ?case
  proof (cases b)
    case True
    with 1 Cons.prems(1) have "remove_logs fs dir ns s1 = (ok, s')" by simp
    from emits_trans [OF e Cons.IH [OF this]] Cons.prems(2) show ?thesis by simp
  next
    case False
    with 1 Cons.prems(1) e show ?thesis by simp
  qed
qed simp

lemma retain_logs_opening:
  assumes "retain_logs fs entries dir keep (path_base path) s = (ok, s')"
  shows "emits (log_opening dir path) s s'"
proof (cases entries)
  case None
  with assms show ?thesis by (simp add: retain_logs_def)
next
  case (Some es)
  have "log_opening dir path (FsEvent (FsRemove (path_join [dir, n])) True)"
    if "n \<in> set (expired_logs es keep (path_base path))" for n
    using that expired_logs_subset [of es keep "path_base path"] by (fastforce simp: log_names_def)
  with assms Some show ?thesis by (auto simp: retain_logs_def intro: remove_logs_opening)
qed

lemma new_logger_fields [simp]:
  "jl_path (new_logger path run_id pruned) = path" "jl_seq (new_logger path run_id pruned) = 0"
  "\<not> jsonl_silent (new_logger path run_id pruned)"
  by (simp_all add: new_logger_def jsonl_silent_def prune_warning_def stopped_prefix_def)

lemma open_log_opening:
  assumes run: "open_log h dir0 keep s = (l, s')"
  shows "\<exists>dir path. emits (log_opening dir path) s s' \<and>
    (\<forall>logger. l = Some logger \<longrightarrow>
       log_dir h dir0 = Some dir \<and> jl_path logger = path \<and> \<not> jsonl_silent logger \<and> jl_seq logger = 0)"
proof (cases "log_dir h dir0")
  case None
  with run show ?thesis by (simp add: open_log_def)
next
  case (Some dir)
  define path where "path = log_path h dir (the (lh_run_id h))"
  obtain b1 s1 where 1: "secure_dir (lh_fs h) dir s = (b1, s1)" by fastforce
  note e1 = secure_dir_opening [OF 1, of path]
  obtain b2 s2 where 2: "create_log h path s1 = (b2, s2)" by fastforce
  have "emits (log_opening dir path) s1 s2"
    using 2 unfolding create_log_def by (rule emits_call) simp
  note e2 = emits_trans [OF e1 this]
  obtain b3 s3 where 3: "retain_logs (lh_fs h) (lh_entries h dir) dir (kept_logs keep)
      (path_base path) s2 = (b3, s3)" by fastforce
  note e3 = emits_trans [OF e2 retain_logs_opening [OF 3]]
  from run Some 1 2 3 e1 e2 e3 have "emits (log_opening dir path) s s' \<and>
      (\<forall>logger. l = Some logger \<longrightarrow>
         log_dir h dir0 = Some dir \<and> jl_path logger = path \<and> \<not> jsonl_silent logger \<and> jl_seq logger = 0)"
    by (auto simp: open_log_def path_def Let_def split: bool.splits option.splits prod.splits)
  then show ?thesis by blast
qed

text \<open>One call: what it writes and what the logger is then.\<close>

definition next_logger :: "bool \<Rightarrow> jsonl \<Rightarrow> jsonl" where
  "next_logger ok l =
     (if ok then l\<lparr>jl_seq := jl_seq l + 1\<rparr> else l\<lparr>jl_seq := jl_seq l + 1, jl_warning := write_warning\<rparr>)"

lemma jsonl_log_writes:
  assumes "\<not> jsonl_silent l"
  shows "\<exists>ok s1. jsonl_log marshal write now ev l s =
    (Some (log_record_of (l\<lparr>jl_seq := jl_seq l + 1\<rparr>) now ev, ok), next_logger ok l, s1)"
proof -
  let ?r = "log_record_of (l\<lparr>jl_seq := jl_seq l + 1\<rparr>) now ev"
  obtain ok s1 where "(case marshal ?r of None \<Rightarrow> (False, s) | Some data \<Rightarrow> write (data @ [CHR 0x0A]) s) = (ok, s1)"
    by fastforce
  with assms have "jsonl_log marshal write now ev l s = (Some (?r, ok), next_logger ok l, s1)"
    by (simp add: jsonl_log_def Let_def next_logger_def)
  then show ?thesis by blast
qed

lemma next_logger_silent:
  "\<not> jsonl_silent l \<Longrightarrow> jsonl_silent (next_logger ok l) \<longleftrightarrow> \<not> ok"
  using write_warning_silent [of "l\<lparr>jl_seq := jl_seq l + 1\<rparr>"]
  by (simp add: next_logger_def jsonl_silent_def)

lemma next_logger_fields [simp]:
  "jl_seq (next_logger ok l) = jl_seq l + 1" "jl_run_id (next_logger ok l) = jl_run_id l"
  by (simp_all add: next_logger_def)

text \<open>The attempts of a run of calls: numbered without a gap, and none after a failure.\<close>

definition numbered_from :: "nat \<Rightarrow> (log_record \<times> bool) list \<Rightarrow> bool" where
  "numbered_from n attempts \<longleftrightarrow> map (lr_sequence \<circ> fst) attempts = [n..<n + length attempts]"

lemma numbered_from_Cons:
  "numbered_from n (a # attempts) \<longleftrightarrow> lr_sequence (fst a) = n \<and> numbered_from (Suc n) attempts"
  by (simp add: numbered_from_def upt_conv_Cons del: upt_Suc)

definition logged :: "jsonl \<Rightarrow> (string \<times> run_event) list \<Rightarrow> (log_record \<times> bool) list \<Rightarrow> bool" where
  "logged l evs attempts \<longleftrightarrow>
     length attempts \<le> length evs \<and> numbered_from (jl_seq l + 1) attempts \<and>
     list_all (\<lambda>(r, ok). harmless_record r \<and> lr_run_id r = jl_run_id l \<and> lr_schema_version r = schema_version)
       attempts \<and>
     list_all snd (butlast attempts) \<and> (attempts = [] \<or> snd (last attempts) \<longrightarrow> jsonl_silent l \<or> length attempts = length evs)"

lemma jsonl_logs_logged:
  "jsonl_logs marshal write evs l s = (attempts, l', s') \<Longrightarrow> logged l evs attempts"
proof (induction evs arbitrary: l s attempts l' s')
  case Nil
  then show ?case by (simp add: logged_def numbered_from_def)
next
  case (Cons p evs)
  obtain now ev where p: "p = (now, ev)" by fastforce
  show ?case
  proof (cases "jsonl_silent l")
    case True
    from True Cons.prems silent_logs [of l marshal "write" "p # evs" s] have "attempts = []" by simp
    with True show ?thesis by (simp add: logged_def numbered_from_def)
  next
    case False
    from jsonl_log_writes [OF this, of marshal "write" now ev s] obtain ok s1 where
      1: "jsonl_log marshal write now ev l s =
        (Some (log_record_of (l\<lparr>jl_seq := jl_seq l + 1\<rparr>) now ev, ok), next_logger ok l, s1)"
      (is "_ = (Some (?r, ok), _, _)") by blast
    obtain rest l2 s2 where 2: "jsonl_logs marshal write evs (next_logger ok l) s1 = (rest, l2, s2)"
      by (metis prod.exhaust)
    from Cons.prems 1 2 have attempts: "attempts = (?r, ok) # rest" by (simp add: p)
    have h: "harmless_record ?r" by (rule log_record_harmless)
    have r: "lr_run_id ?r = jl_run_id l" "lr_schema_version ?r = schema_version" "lr_sequence ?r = jl_seq l + 1"
      by (simp_all add: log_record_of_def)
    have stop: "rest = []" if "\<not> ok"
      using silent_logs [of "next_logger ok l" marshal "write" evs s1] next_logger_silent [OF False, of ok] that 2 by simp
    from Cons.IH [OF 2] have "logged (next_logger ok l) evs rest" .
    with h r stop next_logger_silent [OF False, of ok] show ?thesis
      by (cases "rest = []") (auto simp: attempts logged_def numbered_from_Cons)
  qed
qed

end
