(* ===== verification/Cli.thy ===== *)
theory Cli
  imports Operations RunLog
begin

text \<open>
  \<open>cmd/installer/main.go\<close>: the command line and the dispatch to the operations.  What the
  standard library's \<open>flag\<close> package does with the registered flags is written out.
\<close>

section \<open>Commands\<close>

datatype cli_mode = ModeInstall | ModeUpdate | ModeRestart

datatype cli_error = UnknownPositional string | DuplicateCommand cli_mode | MultipleCommands

definition command_of :: "string \<Rightarrow> cli_mode option" where
  "command_of tok =
     (if tok = ''update'' then Some ModeUpdate else if tok = ''restart'' then Some ModeRestart else None)"

definition root_flag_needs_value :: "string \<Rightarrow> bool" where
  "root_flag_needs_value name \<longleftrightarrow>
     name \<in> {''--env-output'', ''--media-dir'', ''--config-dir'', ''--workspace-dir'', ''--workspace-name''}"

text \<open>The loop after \<open>--\<close>, and the main loop: the tokens kept and the commands seen.\<close>

fun trailing_commands :: "string list \<Rightarrow> cli_mode list \<Rightarrow> cli_error + cli_mode list" where
  "trailing_commands [] cs = Inr cs"
| "trailing_commands (t # ts) cs =
     (case command_of t of Some m \<Rightarrow> trailing_commands ts (cs @ [m]) | None \<Rightarrow> Inl (UnknownPositional t))"

fun scan_cli :: "string list \<Rightarrow> string list \<Rightarrow> cli_mode list \<Rightarrow> cli_error + (string list \<times> cli_mode list)" where
  "scan_cli [] norm cs = Inr (norm, cs)"
| "scan_cli (tok # rest) norm cs =
     (if tok = ''--'' then map_sum id (Pair norm) (trailing_commands rest cs)
      else if prefix ''--'' tok then
        (if CHR ''='' \<in> set tok \<or> \<not> root_flag_needs_value tok \<or> rest = [] then scan_cli rest (norm @ [tok]) cs
         else scan_cli (tl rest) (norm @ [tok, hd rest]) cs)
      else if prefix ''-'' tok then scan_cli rest (norm @ [tok]) cs
      else case command_of tok of
             Some m \<Rightarrow> scan_cli rest norm (cs @ [m])
           | None \<Rightarrow> Inl (UnknownPositional tok))"

definition parse_cli :: "string list \<Rightarrow> cli_error + (cli_mode \<times> string list)" where
  "parse_cli args =
     (case scan_cli args [] [] of
        Inl e \<Rightarrow> Inl e
      | Inr (norm, cs) \<Rightarrow>
          (let updates = count_list cs ModeUpdate; restarts = count_list cs ModeRestart in
           if updates > 1 then Inl (DuplicateCommand ModeUpdate)
           else if restarts > 1 then Inl (DuplicateCommand ModeRestart)
           else if updates = 1 \<and> restarts = 1 then Inl MultipleCommands
           else Inr (if updates = 1 then ModeUpdate else if restarts = 1 then ModeRestart else ModeInstall, norm)))"

section \<open>Flags\<close>

record cli_flags =
  fl_version :: bool
  fl_dry_run :: bool
  fl_env_output :: string
  fl_media_dir :: string
  fl_config_dir :: string
  fl_workspace_dir :: string
  fl_unattended :: bool
  fl_workspace_name :: string
  fl_accept_all :: bool
  fl_deploy :: bool
  fl_skip_pull :: bool

text \<open>\<open>defaultWorkspaceDir\<close>: the variable \<open>XDG_CONFIG_HOME\<close> and the home directory, if known.\<close>

definition default_workspace_dir :: "string \<Rightarrow> string option \<Rightarrow> string" where
  "default_workspace_dir xdg home =
     (if xdg \<noteq> [] then path_join [xdg, ''alice-guardian'']
      else case home of
        None \<Rightarrow> path_join [''.config'', ''alice-guardian'']
      | Some dir \<Rightarrow> path_join [dir, ''.config'', ''alice-guardian''])"

definition default_flags :: "string \<Rightarrow> cli_flags" where
  "default_flags workspace =
     \<lparr>fl_version = False, fl_dry_run = False, fl_env_output = ''./.env'', fl_media_dir = ''/opt/alice-media'',
      fl_config_dir = ''/opt/alice-config'', fl_workspace_dir = workspace, fl_unattended = False,
      fl_workspace_name = ''alice'', fl_accept_all = False, fl_deploy = True, fl_skip_pull = False\<rparr>"

datatype flag_setter = BoolFlag "bool \<Rightarrow> cli_flags \<Rightarrow> cli_flags" | StringFlag "string \<Rightarrow> cli_flags \<Rightarrow> cli_flags"

definition registered_flags :: "(string \<times> flag_setter) list" where
  "registered_flags =
     [(''version'', BoolFlag (\<lambda>b f. f\<lparr>fl_version := b\<rparr>)),
      (''dry-run'', BoolFlag (\<lambda>b f. f\<lparr>fl_dry_run := b\<rparr>)),
      (''env-output'', StringFlag (\<lambda>v f. f\<lparr>fl_env_output := v\<rparr>)),
      (''media-dir'', StringFlag (\<lambda>v f. f\<lparr>fl_media_dir := v\<rparr>)),
      (''config-dir'', StringFlag (\<lambda>v f. f\<lparr>fl_config_dir := v\<rparr>)),
      (''workspace-dir'', StringFlag (\<lambda>v f. f\<lparr>fl_workspace_dir := v\<rparr>)),
      (''unattended'', BoolFlag (\<lambda>b f. f\<lparr>fl_unattended := b\<rparr>)),
      (''workspace-name'', StringFlag (\<lambda>v f. f\<lparr>fl_workspace_name := v\<rparr>)),
      (''accept-all-bootstrap'', BoolFlag (\<lambda>b f. f\<lparr>fl_accept_all := b\<rparr>)),
      (''deploy'', BoolFlag (\<lambda>b f. f\<lparr>fl_deploy := b\<rparr>)),
      (''skip-pull'', BoolFlag (\<lambda>b f. f\<lparr>fl_skip_pull := b\<rparr>))]"

text \<open>\<open>strconv.ParseBool\<close>.\<close>

definition parse_bool :: "string \<Rightarrow> bool option" where
  "parse_bool v =
     (if v \<in> {''1'', ''t'', ''T'', ''true'', ''TRUE'', ''True''} then Some True
      else if v \<in> {''0'', ''f'', ''F'', ''false'', ''FALSE'', ''False''} then Some False else None)"

datatype flag_error =
    FlagHelp
  | FlagBadSyntax string
  | FlagUndefined string
  | FlagInvalidBool string string
  | FlagNeedsArgument string

text \<open>A name and the value after the first equals sign that is not its first character.\<close>

definition split_flag :: "string \<Rightarrow> string \<times> string option" where
  "split_flag name =
     (case cut_char (CHR ''='') (tl name) of
        None \<Rightarrow> (name, None)
      | Some (before, after) \<Rightarrow> (take 1 name @ before, Some after))"

text \<open>\<open>FlagSet.Parse\<close>: the flags, the names that were given, and the arguments it did not look at.\<close>

fun parse_flag_args ::
  "string list \<Rightarrow> cli_flags \<Rightarrow> string list \<Rightarrow> flag_error + (cli_flags \<times> string list \<times> string list)" where
  "parse_flag_args [] f seen = Inr (f, seen, [])"
| "parse_flag_args (s # args) f seen =
     (if length s < 2 \<or> \<not> prefix ''-'' s then Inr (f, seen, s # args)
      else if s = ''--'' then Inr (f, seen, args)
      else (let name0 = (if prefix ''--'' s then drop 2 s else drop 1 s) in
        if name0 = [] \<or> hd name0 = CHR ''-'' \<or> hd name0 = CHR ''='' then Inl (FlagBadSyntax s)
        else (case split_flag name0 of
          (name, value) \<Rightarrow>
            (case map_of registered_flags name of
               None \<Rightarrow> Inl (if name = ''help'' \<or> name = ''h'' then FlagHelp else FlagUndefined name)
             | Some (BoolFlag upd) \<Rightarrow>
                 (case parse_bool (case value of None \<Rightarrow> ''true'' | Some v \<Rightarrow> v) of
                    None \<Rightarrow> Inl (FlagInvalidBool name (case value of None \<Rightarrow> ''true'' | Some v \<Rightarrow> v))
                  | Some b \<Rightarrow> parse_flag_args args (upd b f) (name # seen))
             | Some (StringFlag upd) \<Rightarrow>
                 (case value of
                    Some v \<Rightarrow> parse_flag_args args (upd v f) (name # seen)
                  | None \<Rightarrow>
                      if args = [] then Inl (FlagNeedsArgument name)
                      else parse_flag_args (tl args) (upd (hd args) f) (name # seen))))))"

definition parse_flags :: "string \<Rightarrow> string list \<Rightarrow> flag_error + cli_flags" where
  "parse_flags workspace args =
     (case parse_flag_args args (default_flags workspace) [] of
        Inl e \<Rightarrow> Inl e
      | Inr (f, seen, unread) \<Rightarrow>
          Inr (if fl_unattended f \<and> ''accept-all-bootstrap'' \<notin> set seen then f\<lparr>fl_accept_all := True\<rparr> else f))"

section \<open>Dispatch\<close>

text \<open>
  The host: the machine the operations run on, the diagnostic log, \<open>sudo\<close>, the terminal, and
  the interactive program (its model is \<open>TuiUpdate\<close>), with the error of its runtime.
\<close>

record 'w cli_host =
  ch_machine :: "'w headless_host"
  ch_env :: bootstrap_env
  ch_log :: "'w log_host"
  ch_sudo :: "'w runner"
  ch_xdg :: string
  ch_home :: "string option"
  ch_tty :: bool
  ch_debug :: bool
  ch_version :: string
  ch_tui :: "cli_flags \<Rightarrow> ('w, string option) ieff"

definition mode_string :: "cli_mode \<Rightarrow> string" where
  "mode_string m =
     (case m of ModeInstall \<Rightarrow> ''install'' | ModeUpdate \<Rightarrow> ''update'' | ModeRestart \<Rightarrow> ''restart'')"

definition plain_event :: "string \<Rightarrow> string \<Rightarrow> string \<Rightarrow> string \<Rightarrow> run_event" where
  "plain_event ev stage status code =
     \<lparr>re_event = ev, re_stage = stage, re_status = status, re_code = code, re_fields = no_fields\<rparr>"

definition startup_event :: "'w cli_host \<Rightarrow> cli_mode \<Rightarrow> cli_flags \<Rightarrow> run_event" where
  "startup_event h m f =
     (plain_event ''startup'' ''run'' ''started'' [])
       \<lparr>re_fields := no_fields\<lparr>lf_version := ch_version h, lf_mode := mode_string m,
          lf_debug := Some (ch_debug h), lf_unattended := Some (fl_unattended f),
          lf_dry_run := Some (fl_dry_run f)\<rparr>\<rparr>"

definition terminal_event :: "string \<Rightarrow> string \<Rightarrow> run_event" where
  "terminal_event status code = plain_event ''terminal'' ''run'' status code"

definition authorization_args :: "bool \<Rightarrow> string list" where
  "authorization_args interactive = (if interactive then [''-v''] else [''-n'', ''true''])"

definition authorize_docker :: "'w runner \<Rightarrow> bool \<Rightarrow> ('w, bool) ieff" where
  "authorize_docker f interactive c s =
     (case invoke f ''sudo'' (authorization_args interactive) c s of (r, s1) \<Rightarrow> (cmd_err r = None, s1))"

definition is_operational :: "cli_mode \<Rightarrow> cli_flags \<Rightarrow> bool" where
  "is_operational m f \<longleftrightarrow> m \<noteq> ModeInstall \<or> fl_dry_run f \<or> fl_unattended f"

definition cli_headless :: "'w cli_host \<Rightarrow> cli_flags \<Rightarrow> 'w headless_deps" where
  "cli_headless h f =
     production_headless (ch_machine h) (ch_env h) (fl_media_dir f) (fl_config_dir f) (fl_workspace_dir f)"

definition cli_headless_config :: "cli_flags \<Rightarrow> bool \<Rightarrow> headless_config" where
  "cli_headless_config f gpu =
     \<lparr>hc_workspace_name = fl_workspace_name f, hc_accept_all = fl_accept_all f, hc_deploy = fl_deploy f,
      hc_skip_pull = (fl_skip_pull f \<or> \<not> fl_deploy f), hc_gpu_detected = gpu, hc_verify_timeout = 0,
      hc_poll_interval = 0\<rparr>"

text \<open>An exit code with the event of the end: the four operations without a terminal program.\<close>

definition finished :: "bool \<Rightarrow> string \<Rightarrow> string \<Rightarrow> nat \<times> run_event list" where
  "finished ok success failed =
     (if ok then (0, [terminal_event ''success'' success]) else (1, [terminal_event ''failure'' failed]))"

definition cli_operate :: "'w cli_host \<Rightarrow> cli_mode \<Rightarrow> cli_flags \<Rightarrow> ('w, nat \<times> run_event list) ieff" where
  "cli_operate h m f c s =
     (if m = ModeUpdate then
        (case update_run (production_operation (ch_machine h)) (fl_workspace_dir f) c s of
           ((printed, err), s1) \<Rightarrow> (finished (err = None) ''update-succeeded'' ''update-failed'', s1))
      else if m = ModeRestart then
        (case restart_run (production_operation (ch_machine h)) (fl_workspace_dir f) c s of
           (err, s1) \<Rightarrow> (finished (err = None) ''restart-succeeded'' ''restart-failed'', s1))
      else if fl_dry_run f then
        (case preflight_run (hd_preflight (cli_headless h f)) c s of
           (report, s1) \<Rightarrow>
             (finished (\<not> has_blocking_failure report) ''preflight-passed'' ''preflight-blocked'', s1))
      else
        (case gpu_detect (ie_json (hh_install (ch_machine h)))
                (sudo_docker_runner (ie_runner (hh_install (ch_machine h)))) c s of
           (gpu, s1) \<Rightarrow>
             (case headless_run (cli_headless_config f (toolkit_installed gpu)) (cli_headless h f) c s1 of
                (err, s2) \<Rightarrow> (finished (err = None) ''unattended-succeeded'' ''unattended-failed'', s2))))"

text \<open>
  \<open>runWithStaleCheck\<close> in production: the exit code and the events of the log.  The stale-group
  check is not used any more, and no error of the unattended run is \<open>ErrReloginRequired\<close>, so
  the exit code 75 does not occur.
\<close>

definition cli_main :: "'w cli_host \<Rightarrow> string list \<Rightarrow> ('w, nat \<times> run_event list) ieff" where
  "cli_main h args c s =
     (case parse_cli args of
        Inl e \<Rightarrow> ((2, []), s)
      | Inr (m, norm) \<Rightarrow>
          (case parse_flags (default_workspace_dir (ch_xdg h) (ch_home h)) norm of
             Inl e \<Rightarrow> ((if e = FlagHelp then 0 else 2, []), s)
           | Inr f \<Rightarrow>
               if fl_version f then ((0, []), s)
               else (case open_log (ch_log h) [] default_keep s of
                 (logger, s1) \<Rightarrow>
                   let start = startup_event h m f in
                   if is_operational m f then
                     (case authorize_docker (ch_sudo h) (\<not> fl_unattended f \<and> ch_tty h) c s1 of
                        (False, s2) \<Rightarrow> ((1, [start, terminal_event ''failure'' ''docker-auth-failed'']), s2)
                      | (True, s2) \<Rightarrow>
                          (case cli_operate h m f c s2 of
                             ((code, evs), s3) \<Rightarrow>
                               ((code, start # plain_event ''docker-auth'' ''authentication'' ''succeeded'' [] # evs),
                                s3)))
                   else if \<not> ch_tty h then ((2, [start]), s1)
                   else (case ch_tui h f c s1 of
                     (Some e, s2) \<Rightarrow> ((1, [start, terminal_event ''failure'' ''tui-failed'']), s2)
                   | (None, s2) \<Rightarrow> ((0, [start]), s2)))))"

section \<open>Reading the command line\<close>

text \<open>
  Tokens the flag parser reads to the end: long flags, each with its value where it needs one.
\<close>

fun long_flags :: "string list \<Rightarrow> bool" where
  "long_flags [] = True"
| "long_flags (t # ts) =
     (prefix ''--'' t \<and> t \<noteq> ''--'' \<and>
      (if CHR ''='' \<notin> set t \<and> root_flag_needs_value t then ts = [] \<or> long_flags (tl ts) else long_flags ts))"

definition no_short_flags :: "string list \<Rightarrow> bool" where
  "no_short_flags args \<longleftrightarrow> list_all (\<lambda>a. prefix ''-'' a \<longrightarrow> prefix ''--'' a) args"

lemma scan_cli_long:
  "scan_cli args norm cs = Inr (norm', cs') \<Longrightarrow> no_short_flags args \<Longrightarrow> \<exists>more. norm' = norm @ more \<and> long_flags more"
proof (induction args norm cs rule: scan_cli.induct)
  case (1 norm cs)
  then show ?case by simp
next
  case (2 tok rest norm cs)
  have long: "no_short_flags rest" "no_short_flags (tl rest)" "prefix ''-'' tok \<Longrightarrow> prefix ''--'' tok"
    using "2.prems"(2) by (cases rest; simp add: no_short_flags_def)+
  consider "tok = ''--''" | "prefix ''--'' tok" "tok \<noteq> ''--''" "CHR ''='' \<in> set tok \<or> \<not> root_flag_needs_value tok \<or> rest = []"
    | "prefix ''--'' tok" "tok \<noteq> ''--''" "\<not> (CHR ''='' \<in> set tok \<or> \<not> root_flag_needs_value tok \<or> rest = [])"
    | "\<not> prefix ''-'' tok"
    using long(3) by blast
  then show ?case
  proof cases
    case 1
    then show ?thesis using "2.prems"(1) by (cases "trailing_commands rest cs") auto
  next
    case 2
    with "2.IH"(1) "2.prems"(1) long(1) obtain more where
      more: "norm' = (norm @ [tok]) @ more" "long_flags more" by auto
    have "more = []" if "rest = []" using 2 "2.prems"(1) more(1) that by simp
    with 2 more show ?thesis by (intro exI [of _ "tok # more"]) auto
  next
    case 3
    with "2.IH"(2) "2.prems"(1) long(2) obtain more where
      "norm' = (norm @ [tok, hd rest]) @ more" "long_flags more" by auto
    with 3 show ?thesis by (intro exI [of _ "tok # hd rest # more"]) auto
  next
    case 4
    then have "\<not> prefix ''--'' tok" "tok \<noteq> ''--''" by (cases tok; auto)+
    with 4 "2.IH"(4) "2.prems"(1) long(1) show ?thesis by (auto split: option.splits)
  qed
qed

lemma cut_char_in: "cut_char sep s = Some p \<Longrightarrow> sep \<in> set s"
  using cut_char_SomeD [of sep s "fst p" "snd p"] by auto

lemma cut_char_not_in: "cut_char sep s = None \<Longrightarrow> sep \<notin> set s"
  by (induction s) (auto split: if_splits option.splits)

lemma split_flag_value:
  assumes "split_flag name = (n, v)" "name \<noteq> []" "hd name \<noteq> CHR ''=''"
  shows "v = None \<Longrightarrow> n = name \<and> CHR ''='' \<notin> set name"
    and "v = Some x \<Longrightarrow> CHR ''='' \<in> set name"
  using assms
  by (cases name; auto simp: split_flag_def split: option.splits dest: cut_char_in cut_char_not_in)+

lemma flag_kinds:
  "map_of registered_flags n = Some (StringFlag u) \<Longrightarrow> root_flag_needs_value (''--'' @ n)"
  "map_of registered_flags n = Some (BoolFlag v) \<Longrightarrow> \<not> root_flag_needs_value (''--'' @ n)"
  by (auto simp: registered_flags_def root_flag_needs_value_def split: if_splits)

lemma long_flags_read:
  "parse_flag_args norm f seen = Inr (g, seen', unread) \<Longrightarrow> long_flags norm \<Longrightarrow> unread = []"
proof (induction norm f seen rule: parse_flag_args.induct)
  case (1 f seen)
  then show ?case by simp
next
  case (2 s args f seen)
  from "2.prems"(2) obtain r where s: "s = ''--'' @ r" "r \<noteq> []" by (auto simp: prefix_def)
  obtain name v where split: "split_flag r = (name, v)" by fastforce
  note parse = "2.prems"(1) [simplified s, simplified, simplified s split, simplified]
  from parse have shape: "hd r \<noteq> CHR ''-''" "hd r \<noteq> CHR ''=''" by (auto simp: s split: if_splits)
  note value_of = split_flag_value [OF split s(2) shape(2)]
  show ?case
  proof (cases "map_of registered_flags name")
    case None
    with parse shape split show ?thesis by (simp add: s)
  next
    case (Some k)
    show ?thesis
    proof (cases k)
      case (BoolFlag upd)
      with Some parse shape split obtain b where
        b: "parse_flag_args args (upd b f) (name # seen) = Inr (g, seen', unread)"
          "parse_bool (case v of None \<Rightarrow> ''true'' | Some x \<Rightarrow> x) = Some b"
        by (auto simp: s split: option.splits)
      have "long_flags args"
        using "2.prems"(2) value_of flag_kinds(2) [of name upd] Some BoolFlag by (cases v) (auto simp: s)
      with "2.IH"(1) b Some BoolFlag split shape s show ?thesis by simp
    next
      case (StringFlag upd)
      show ?thesis
      proof (cases v)
        case None
        with Some StringFlag parse shape split have
          b: "args \<noteq> []" "parse_flag_args (tl args) (upd (hd args) f) (name # seen) = Inr (g, seen', unread)"
          by (auto simp: s split: if_splits)
        have "long_flags (tl args)"
          using "2.prems"(2) value_of(1) [OF None] flag_kinds(1) [of name upd] Some StringFlag b(1) by (auto simp: s)
        with "2.IH"(2) b Some StringFlag None split shape s show ?thesis by simp
      next
        case (Some x)
        with \<open>map_of registered_flags name = Some k\<close> StringFlag parse shape split have
          b: "parse_flag_args args (upd x f) (name # seen) = Inr (g, seen', unread)" by (simp add: s)
        have "long_flags args" using "2.prems"(2) value_of(2) [OF Some] by (auto simp: s)
        with "2.IH"(3) b \<open>map_of registered_flags name = Some k\<close> StringFlag Some split shape s
        show ?thesis by simp
      qed
    qed
  qed
qed

end
