(* ===== verification/CliProperties.thy ===== *)
theory CliProperties
  imports Cli InstallProperties
begin

text \<open>
  What the dispatch of the command line promises: which effects the operations without a
  terminal program have and what stands before them, and what the diagnostic log may hold.
\<close>

section \<open>Operations behind the authorization\<close>

lemma fs_opening: "log_opening dir path e \<Longrightarrow> is_fs_event e"
  by (cases e) auto

lemma authorize_docker_grew:
  "authorize_docker f interactive c s = (ok, s') \<Longrightarrow>
   grew s s' [Invoked (Ran ''sudo'' (authorization_args interactive) ok)]"
  by (auto simp: authorize_docker_def split: prod.splits dest!: invoke_grew)

lemma finished_fields [simp]:
  "fst (finished ok success failed) = 0 \<longleftrightarrow> ok" "fst (finished ok success failed) \<in> {0, 1}"
  "snd (finished ok success failed) = [terminal_event (if ok then ''success'' else ''failure'') (if ok then success else failed)]"
  by (simp_all add: finished_def)

text \<open>The effects of an operation that ended well or not.\<close>

definition operation_ran :: "'w cli_host \<Rightarrow> cli_mode \<Rightarrow> cli_flags \<Rightarrow> ctx \<Rightarrow> bool \<Rightarrow> 'w isys \<Rightarrow> 'w isys \<Rightarrow> bool" where
  "operation_ran h m f c succeeds s s' \<longleftrightarrow>
     (case m of
        ModeUpdate \<Rightarrow> looks_then (update_commands succeeds) s s'
      | ModeRestart \<Rightarrow> looks_then (restart_commands succeeds) s s'
      | ModeInstall \<Rightarrow>
          if fl_dry_run f then
            yields (probing (probed_dirs [fl_media_dir f, fl_config_dir f, fl_workspace_dir f])) s s'
          else
            \<exists>gpu err s1. emits looks s s1 \<and>
              headless_run (cli_headless_config f gpu) (cli_headless h f) c s1 = (err, s') \<and> (succeeds \<longleftrightarrow> err = None))"

lemma cli_operate_ran:
  assumes op: "is_operational m f" and run: "cli_operate h m f c s = ((code, evs), s')"
  shows "operation_ran h m f c (code = 0) s s' \<and> code \<in> {0, 1} \<and>
    (\<exists>reason. evs = [terminal_event (if code = 0 then ''success'' else ''failure'') reason])"
proof -
  have shape: "code \<in> {0, 1} \<and> (\<exists>reason. evs = [terminal_event (if code = 0 then ''success'' else ''failure'') reason])"
    if "finished ok success failed = (code, evs)" for ok success failed
    using that by (auto simp: finished_def split: if_splits)
  show ?thesis
  proof (cases m)
    case ModeUpdate
    obtain printed err s1 where 1: "update_run (production_operation (ch_machine h)) (fl_workspace_dir f) c s = ((printed, err), s1)"
      by (metis prod.exhaust)
    with run ModeUpdate have r: "finished (err = None) ''update-succeeded'' ''update-failed'' = (code, evs)" "s' = s1"
      by (simp_all add: cli_operate_def)
    from r(1) have "code = 0 \<longleftrightarrow> err = None" by (auto simp: finished_def split: if_splits)
    with production_update [OF 1] r shape [OF r(1)] show ?thesis by (simp add: operation_ran_def ModeUpdate)
  next
    case ModeRestart
    obtain err s1 where 1: "restart_run (production_operation (ch_machine h)) (fl_workspace_dir f) c s = (err, s1)"
      by fastforce
    with run ModeRestart have r: "finished (err = None) ''restart-succeeded'' ''restart-failed'' = (code, evs)" "s' = s1"
      by (simp_all add: cli_operate_def)
    from r(1) have "code = 0 \<longleftrightarrow> err = None" by (auto simp: finished_def split: if_splits)
    with production_restart [OF 1] r shape [OF r(1)] show ?thesis by (simp add: operation_ran_def ModeRestart)
  next
    case ModeInstall
    show ?thesis
    proof (cases "fl_dry_run f")
      case True
      obtain report s1 where 1: "preflight_run (hd_preflight (cli_headless h f)) c s = (report, s1)" by fastforce
      with run ModeInstall True have
        r: "finished (\<not> has_blocking_failure report) ''preflight-passed'' ''preflight-blocked'' = (code, evs)" "s' = s1"
        by (simp_all add: cli_operate_def)
      have "yields (probing (probed_dirs [fl_media_dir f, fl_config_dir f, fl_workspace_dir f])) s s1"
        using 1 by (auto simp: cli_headless_def production_headless_def Let_def intro: production_probes.run_yields)
      with r shape [OF r(1)] True show ?thesis by (simp add: operation_ran_def ModeInstall)
    next
      case False
      obtain gpu s1 where 1: "gpu_detect (ie_json (hh_install (ch_machine h)))
          (sudo_docker_runner (ie_runner (hh_install (ch_machine h)))) c s = (gpu, s1)" by fastforce
      obtain err s2 where 2: "headless_run (cli_headless_config f (toolkit_installed gpu)) (cli_headless h f) c s1 = (err, s2)"
        by fastforce
      from run ModeInstall False 1 2 have
        r: "finished (err = None) ''unattended-succeeded'' ''unattended-failed'' = (code, evs)" "s' = s2"
        by (simp_all add: cli_operate_def)
      from r(1) have "code = 0 \<longleftrightarrow> err = None" by (auto simp: finished_def split: if_splits)
      with 2 r(2) gpu_detect_emits [OF 1] shape [OF r(1)] False show ?thesis
        by (auto simp: operation_ran_def ModeInstall)
    qed
  qed
qed


text \<open>A host that is updated: Docker answers, the files are there, and \<open>sudo\<close> agrees.\<close>

fun installed_fs :: "unit fs" where
  "installed_fs (FsStat path) c now w =
     (FsInfo \<lparr>fi_dir = False, fi_regular = True, fi_symlink = False, fi_mode = 420\<rparr>, 1, w)"
| "installed_fs (FsLstat path) c now w =
     (FsInfo \<lparr>fi_dir = True, fi_regular = False, fi_symlink = False, fi_mode = 448\<rparr>, 1, w)"
| "installed_fs fop c now w = (FsDone, 1, w)"

definition demo_log_host :: "unit log_host" where
  "demo_log_host =
     \<lparr>lh_fs = installed_fs, lh_home = Some ''/home/alice'', lh_run_id = Some ''0011223344556677'',
      lh_stamp = ''20250101T000000.000000000Z'', lh_create = (\<lambda>path c now w. (True, 1, w)),
      lh_entries = (\<lambda>dir. Some [(''alice-installer-a.jsonl'', True), (''notes.txt'', True)])\<rparr>"

definition demo_cli :: "unit cli_host" where
  "demo_cli =
     \<lparr>ch_machine = demo_headless_host\<lparr>hh_install := demo_install_env\<lparr>ie_fs := installed_fs\<rparr>\<rparr>,
      ch_env = bare_host, ch_log = demo_log_host, ch_sudo = quiet_runner, ch_xdg = [],
      ch_home = Some ''/home/alice'', ch_tty = True, ch_debug = False, ch_version = ''dev'',
      ch_tui = (\<lambda>f c s. (None, s))\<rparr>"

definition demo_update_flags :: cli_flags where
  "demo_update_flags = (default_flags ''/home/alice/.config/alice-guardian'')\<lparr>fl_workspace_dir := ''/srv/alice''\<rparr>"

lemma demo_arguments:
  "parse_cli [''--workspace-dir'', ''/srv/alice'', ''update''] = Inr (ModeUpdate, [''--workspace-dir'', ''/srv/alice''])"
  "parse_flags (default_workspace_dir (ch_xdg demo_cli) (ch_home demo_cli)) [''--workspace-dir'', ''/srv/alice''] =
     Inr demo_update_flags"
  "is_operational ModeUpdate demo_update_flags" "\<not> fl_version demo_update_flags"
  by code_simp+

lemma demo_update_done:
  "fst (fst (cli_main demo_cli [''--workspace-dir'', ''/srv/alice'', ''update''] background idle)) = 0"
  by code_simp


section \<open>Arguments that are read or not\<close>

text \<open>Where no argument is a short flag, the flag parser leaves nothing unread.\<close>

lemma arguments_read:
  assumes "parse_cli args = Inr (m, norm)" "no_short_flags args"
    and "parse_flag_args norm f seen = Inr (g, seen', unread)"
  shows "unread = []"
proof -
  from assms(1) obtain cs where "scan_cli args [] [] = Inr (norm, cs)"
    by (auto simp: parse_cli_def Let_def split: sum.splits prod.splits if_splits)
  from scan_cli_long [OF this assms(2)] have "long_flags norm" by simp
  with long_flags_read [OF assms(3)] show ?thesis by simp
qed

text \<open>
  With short flags, \<open>parseCLI\<close> and the flag parser disagree: a lone dash hides every flag
  after it, and a flag with one dash takes the next flag for its value.
\<close>

lemma dash_hides_dry_run:
  "parse_cli [''-'', ''--dry-run''] = Inr (ModeInstall, [''-'', ''--dry-run''])"
  "map_sum id fl_dry_run (parse_flags ws [''-'', ''--dry-run'']) = Inr False"
  by (code_simp, simp add: parse_flags_def default_flags_def)

lemma short_flag_takes_flag:
  "parse_cli [''-workspace-name'', ''update'', ''--dry-run''] = Inr (ModeUpdate, [''-workspace-name'', ''--dry-run''])"
  "parse_flag_args [''-workspace-name'', ''--dry-run''] f [] = Inr (f\<lparr>fl_workspace_name := ''--dry-run''\<rparr>, [''workspace-name''], [])"
  by (code_simp, simp add: split_flag_def registered_flags_def)

section \<open>The diagnostic log\<close>

text \<open>
  C40. The diagnostic log holds no secrets and no gaps.  Opening it makes and secures its
  directory, creates its file and removes only other logs there.  Every record it is then
  asked to write has short, printable texts in all its free fields, none with a marker of a
  secret, and at most sixteen targets; the records carry the identifier of the run and are
  numbered from one without a gap; and after the first failure nothing more is written.
\<close>

theorem log_redacted:
  assumes opened: "open_log h dir0 keep s = (Some l, s')"
    and wrote: "jsonl_logs marshal out_to evs l w = (attempts, l', w')"
  shows "(\<exists>dir. log_dir h dir0 = Some dir \<and> emits (log_opening dir (jl_path l)) s s') \<and>
    list_all (\<lambda>(r, ok). harmless_record r \<and> lr_run_id r = jl_run_id l \<and> lr_schema_version r = 1) attempts \<and>
    map (lr_sequence \<circ> fst) attempts = [1..<Suc (length attempts)] \<and>
    list_all snd (butlast attempts) \<and>
    (list_all snd attempts \<longrightarrow> length attempts = length evs)"
proof -
  from open_log_opening [OF opened] obtain dir where
    o: "log_dir h dir0 = Some dir" "emits (log_opening dir (jl_path l)) s s'" "\<not> jsonl_silent l" "jl_seq l = 0"
    by auto
  from jsonl_logs_logged [OF wrote] have
    g: "logged l evs attempts" .
  have "length attempts = length evs" if "list_all snd attempts"
    using g o(3) that by (cases attempts rule: rev_cases) (auto simp: logged_def)
  with g o show ?thesis
    by (simp add: logged_def numbered_from_def schema_version_def)
qed

definition demo_logger :: jsonl where
  "demo_logger = new_logger (log_path demo_log_host ''/home/alice/.local/state/alice-installer/logs'' ''0011223344556677'')
     ''0011223344556677'' True"

definition demo_marshal :: "log_record \<Rightarrow> string option" where
  "demo_marshal r = Some (lr_event r @ '' '' @ lr_code r)"

text \<open>A disk that takes two lines.\<close>

definition demo_disk :: "string \<Rightarrow> nat \<Rightarrow> bool \<times> nat" where
  "demo_disk line n = (n < 2, n + 1)"

definition demo_logged :: "(string \<times> run_event) list" where
  "demo_logged =
     [(''t1'', plain_event ''startup'' ''run'' ''started'' []),
      (''t2'', plain_event ''failure'' ''restore'' ''failed'' ''PGPASSWORD=x''),
      (''t3'', plain_event ''terminal'' ''run'' ''failure'' ''update-failed''),
      (''t4'', plain_event ''terminal'' ''run'' ''failure'' ''update-failed'')]"

lemma demo_opens: "fst (open_log demo_log_host [] default_keep idle) = Some demo_logger"
  by code_simp

lemma log_redacted_witness:
  "list_all (\<lambda>(r, ok). harmless_record r)
     (fst (jsonl_logs demo_marshal demo_disk demo_logged demo_logger 0)) \<and>
   map (\<lambda>(r, ok). (lr_sequence r, lr_code r, ok)) (fst (jsonl_logs demo_marshal demo_disk demo_logged demo_logger 0)) =
     [(1, [], True), (2, ''redacted'', True), (3, ''update-failed'', False)]"
proof -
  let ?run = "jsonl_logs demo_marshal demo_disk demo_logged demo_logger 0"
  have opened: "open_log demo_log_host [] default_keep idle =
      (Some demo_logger, snd (open_log demo_log_host [] default_keep idle))"
    using demo_opens by (metis prod.collapse)
  have wrote: "?run = (fst ?run, fst (snd ?run), snd (snd ?run))" by simp
  have "map (\<lambda>(r, ok). (lr_sequence r, lr_code r, ok)) (fst ?run) =
     [(1, [], True), (2, ''redacted'', True), (3, ''update-failed'', False)]" by code_simp
  moreover from log_redacted [OF opened wrote] have "list_all (\<lambda>(r, ok). harmless_record r) (fst ?run)"
    by (auto elim: list.pred_mono_strong)
  ultimately show ?thesis by blast
qed

end
