(* ===== verification/HostProcess.thy ===== *)
theory HostProcess
  imports MigrationBase
begin

text \<open>
  The processes of the host: \<open>OSBinaryExecutor\<close> of \<open>internal/migration/process.go\<close>, which the
  migration runs its commands with, and \<open>OSCommandRunner\<close> of \<open>internal/platform/command.go\<close>.
  What a started process does until it exits or is killed is a parameter.
\<close>

section \<open>Bounded execution\<close>

text \<open>
  A process does not start, exits by itself (well or not) after writing its outputs, or is
  still running when its context is done and the whole process group is killed.
\<close>

datatype process_end =
    NotStarted
  | Exited bool "string list" "string list"
  | Killed "string list"

type_synonym 'w os_process = "string \<Rightarrow> string list \<Rightarrow> nat \<Rightarrow> nat \<Rightarrow> 'w \<Rightarrow> process_end \<times> nat \<times> 'w"

definition stderr_limit :: nat where "stderr_limit = 4096"

definition process_deadline :: "process_spec \<Rightarrow> ctx \<Rightarrow> nat \<Rightarrow> nat \<times> ctx_error" where
  "process_deadline spec c now =
     with_timeout_at c now (nat (if p_timeout spec \<le> 0 then default_process_timeout else p_timeout spec))"

definition ended_process :: "process_outcome \<Rightarrow> string \<Rightarrow> string list \<Rightarrow> process_result \<times> string list" where
  "ended_process outcome code chunks = (\<lparr>p_outcome = outcome, stderr_code = code\<rparr>, chunks)"

definition os_executor :: "'w os_process \<Rightarrow> 'w executor" where
  "os_executor os spec c now w =
     (if p_name spec = [] \<or> p_args spec = [] then (ended_process ProcessFailed ''process-precondition'' [], 0, w)
      else case process_deadline spec c now of
        (until, cause) \<Rightarrow>
          (case os (p_name spec) (p_args spec) now until w of
             (r, took, w') \<Rightarrow>
               ((case r of
                   NotStarted \<Rightarrow> ended_process ProcessFailed ''process-start'' []
                 | Exited ok printed errors \<Rightarrow>
                     if ok then ended_process ProcessSucceeded [] printed
                     else ended_process ProcessFailed
                            (classify_stderr (bounded_output stderr_limit False errors)) printed
                 | Killed printed \<Rightarrow>
                     if cause = DeadlineExceeded then ended_process ProcessTimedOut ''process-timeout'' printed
                     else ended_process ProcessCancelled ''process-cancelled'' printed), took, w')))"

text \<open>Success is the exit of the process and nothing else; a code is never a text the process printed.\<close>

lemma os_executor_succeeded:
  assumes "os_executor os spec c now w = ((r, printed), took, w')" "p_outcome r = ProcessSucceeded"
  shows "\<exists>errors. os (p_name spec) (p_args spec) now (fst (process_deadline spec c now)) w =
    (Exited True printed errors, took, w')"
  using assms
  by (auto simp: os_executor_def ended_process_def split: if_splits prod.splits process_end.splits)

lemma os_executor_code:
  assumes "os_executor os spec c now w = ((r, printed), took, w')"
  shows "stderr_code r \<in> {[], ''process-precondition'', ''process-start'', ''docker-container-absent'',
    sudo_docker_permission_code, ''process-failed'', ''process-timeout'', ''process-cancelled''}"
  using assms
  by (auto simp: os_executor_def ended_process_def classify_stderr_def
      split: if_splits prod.splits process_end.splits)

text \<open>A refusal of the database reads as one of \<open>sudo\<close>.\<close>

lemma database_permission_misread:
  "classify_stderr ''pg_dump: error: query failed: ERROR: permission denied for table users'' = sudo_docker_permission_code"
  by code_simp

lemma process_deadline_bound:
  "0 < p_timeout spec \<Longrightarrow> fst (process_deadline spec c now) \<le> now + nat (p_timeout spec)"
  using with_timeout_bound [of c now "nat (p_timeout spec)"] by (simp add: process_deadline_def)

section \<open>Plain commands\<close>

text \<open>
  What \<open>cmd.Output\<close> gives: the output and how the command ended.  Only an \<open>ExitError\<close> comes with
  the error output.
\<close>

datatype command_end = CommandOk | CommandExit cmd_error string | CommandBroken cmd_error

definition os_command_runner :: "(string \<Rightarrow> string list \<Rightarrow> ('w, string \<times> command_end) oper) \<Rightarrow> 'w runner" where
  "os_command_runner os name args c now w =
     (case os name args c now w of
        ((printed, e), took, w') \<Rightarrow>
          ((case e of
              CommandOk \<Rightarrow> \<lparr>out = printed, err_out = [], cmd_err = None\<rparr>
            | CommandExit err errors \<Rightarrow> \<lparr>out = printed, err_out = errors, cmd_err = Some err\<rparr>
            | CommandBroken err \<Rightarrow> \<lparr>out = printed, err_out = [], cmd_err = Some err\<rparr>), took, w'))"

end
