(* ===== verification/Spec2Isabelle.thy ===== *)
theory Spec2Isabelle
  imports Pm2Properties RestoreProperties HandoffProperties ConfigProperties ContainerProperties BackupProperties
    InstallProperties AsteriskProperties TuiProperties CliProperties HostProcess
begin

text \<open>
  The verification of the Alice Guardian installer (the Go program of \<open>cmd/installer\<close> and
  \<open>internal\<close>).

  \<^bold>\<open>The program.\<close>  The installer sets up Alice Guardian on a host with Docker Compose, updates
  and restarts it, and migrates an older installation that runs under PM2 with a PostgreSQL 11
  container.  A migration backs up the legacy database, stops the PM2 processes and stops or
  removes the container (the handoff, which leaves a lease), installs the new stack, and
  restores the dump into its database; every failure in between must bring the legacy
  installation back.  The interactive program is one state machine, \<open>tui.Model\<close>; the
  unattended one, \<open>headless.Run\<close>, does the plain installation stage by stage; \<open>main.go\<close> chooses.

  \<^bold>\<open>Conventions.\<close>  A Go string is the list of its bytes; a map is an association list or a HOL
  map; an unbounded or 64-bit integer that cannot overflow here is \<open>int\<close> or \<open>nat\<close>, and the
  conversions from text (\<open>Atoi\<close>, \<open>ParseUint\<close>) reject or saturate as Go's do.  An error is a
  value: an option, a sum, or a datatype with one constructor per sentinel.  A nil collaborator
  is \<open>None\<close> or a flag.  What runs outside the program (commands, files, ports, clocks, random
  bytes, the JSON, SHA-256 and floating-point routines) is a parameter; each call of it takes
  time and leaves an event in a trace, in order (\<open>Prelude\<close>, \<open>InstallBase\<close>, \<open>MigrationBase\<close>), so
  that the safety properties speak of the order of effects.  A context is the moment at which
  it becomes done, so every cancellation by a caller is covered.

  \<^bold>\<open>The theories and the code.\<close>
  \<^item> \<open>GoStrings\<close>, \<open>GoPaths\<close>, \<open>GoNet\<close>: what the code uses of Go's \<open>strings\<close>, \<open>strconv\<close>,
    \<open>path/filepath\<close> and \<open>net\<close>, with the lemmas on splitting, joining, decimals and clean paths.
    \<open>Prelude\<close>: contexts, effects, commands.
  \<^item> \<open>internal/installation\<close>: \<open>Pm2Observe\<close> (diagnostics, the privileged boundary, the process
    identity), \<open>Pm2Inventory\<close> (the inventory and its correlation with sockets), \<open>Pm2Snapshot\<close>
    (snapshots; the locale \<open>snapshot_provider\<close>, interpreted on the production provider),
    \<open>Pm2Quiescence\<close> (\<open>Quiesce\<close> and \<open>Recover\<close>), \<open>Pm2Safety\<close> (the locale \<open>boundary_quiescer\<close> that
    extends it), \<open>Pm2Properties\<close>; \<open>Detection\<close> (the probes and the classification of the host).
  \<^item> \<open>internal/migration\<close>, backup: \<open>ConfigParser\<close>, \<open>ConfigResolver\<close> (the legacy configuration
    module), \<open>ConfigSyntax\<close>, \<open>ConfigRender\<close>, \<open>ConfigProperties\<close>; \<open>Container\<close>,
    \<open>ContainerProperties\<close> (the selection of the database container, with the locale
    \<open>container_source\<close>); \<open>Destination\<close>, \<open>Publication\<close>, \<open>BackupAction\<close>, \<open>BackupSafety\<close>,
    \<open>BackupProperties\<close>.
  \<^item> \<open>internal/migration\<close>, handoff: \<open>Handoff\<close> (\<open>handoff.go\<close>, \<open>disposition.go\<close>), \<open>HandoffSafety\<close> (the
    locale \<open>handoff_services\<close> and the abstract handoff it implements), \<open>HandoffProperties\<close>.
  \<^item> \<open>internal/migration\<close>, restore: \<open>TargetEnv\<close> (\<open>internal/workspace/target_env.go\<close>),
    \<open>MigrationBase\<close>, \<open>HostProcess\<close> (\<open>process.go\<close>), \<open>RestoreProcess\<close> (the plan of the replacement),
    \<open>RestoreBackup\<close> (rollback backups and the gate), \<open>RestoreCoordinator\<close>, \<open>RestoreSafety\<close> (the
    locale \<open>restore_services\<close> and a monitor of the phases), \<open>ProductionRestore\<close> (the wiring),
    \<open>RestoreProperties\<close>.
  \<^item> The installation: \<open>Ports\<close>, \<open>EnvGen\<close>, \<open>Preflight\<close> (with the Docker client and the GPU probe),
    \<open>Bootstrap\<close>, \<open>Compose\<close>, \<open>ComposePull\<close>, \<open>Headless\<close>; \<open>PreflightSafety\<close> (the locale
    \<open>preflight_probes\<close>), \<open>HeadlessSafety\<close>, \<open>InstallProperties\<close>.  \<open>AsteriskConfig\<close>, \<open>Asterisk\<close>,
    \<open>AsteriskHost\<close>, \<open>AsteriskSafety\<close>, \<open>AsteriskProperties\<close> are \<open>internal/asterisk\<close>.
  \<^item> \<open>internal/tui\<close>: \<open>TuiModel\<close> (messages, commands, the first screens), \<open>TuiInstall\<close> (the screens
    of the installation), \<open>TuiRoot\<close> and \<open>TuiUpdate\<close> (the root model, one definition per message);
    \<open>TuiProtocol\<close> (the migration as an abstract automaton, and the proof that every \<open>Update\<close> is a
    step of it), \<open>TuiSafety\<close>, \<open>TuiHistory\<close>, \<open>TuiProperties\<close>.
  \<^item> \<open>Operations\<close> (\<open>internal/update\<close>, \<open>internal/restart\<close>, \<open>internal/workspace/artifacts.go\<close>), \<open>RunLog\<close>
    (\<open>internal/runlog\<close>), \<open>Cli\<close> and \<open>CliProperties\<close> (\<open>cmd/installer/main.go\<close>).

  \<^bold>\<open>What is shown.\<close>
  \<^item> PM2 (C1 to C5): a quiescence stops exactly what it reports, and a recovery starts exactly
    that again, in reverse order, on acknowledged evidence only.
  \<^item> Restore (C6 to C12): no cutover without a rollback backup, a proven database and a stopped
    backend; the order of a successful run; the fixed plan of the replacement; the credential
    files.  C8 and C12 show that two details of the production wiring defeat the purpose: the
    staging check can never succeed, and preparing a credential erases the shared password.
  \<^item> Handoff (C13 to C16): the production \<open>Begin\<close> refines an abstract handoff with four outcomes;
    \<open>CompleteFailure\<close> undoes it; a lease completes once.
  \<^item> Legacy configuration (C17 to C21): the parser is total, reads back what is rendered and
    accepts static values only; the resolver reads only what the configuration names.
  \<^item> Legacy container (C22 to C24) and backup (C25 to C28): what is selected is corroborated;
    a preflight observes; a validated backup was dumped, synced, validated and published in this
    order, and a run leaves nothing but the published pair.
  \<^item> Installation (C29 to C34): the generated environment, the preflight, the classification of
    its failures, and the order and the end of the unattended run.
  \<^item> Asterisk (C35, C36): a failed set-up is undone; the managed sections do not disturb the rest.
  \<^item> The interactive program (C37, C38): a lease is never abandoned, and the handoff is commanded
    only behind the operator's decisions, in their order.
  \<^item> The command line (C39, C40): nothing is done before \<open>sudo\<close> agreed, and the diagnostic log is
    redacted.

  \<^bold>\<open>Bounds and fuel.\<close>  The configuration parser runs with twice the number of tokens and two more
  as fuel; C17 shows that it never runs out.  The verification loop of the unattended run
  recurses on its deadline: a pause lets at least a nanosecond pass.  All other recursion is on
  the data.  \<open>sort.SliceStable\<close> is the insertion sort it is below twenty elements; the probes
  give at most three.

  \<^bold>\<open>Not modelled.\<close>  The views, styles, spinners and texts on the screen, and embedded assets, which
  decide nothing; the \<open>Fields\<close> of the log events of the interactive program; fakes and scripts;
  the bodies of operating-system calls (\<open>os/exec\<close>, pipes and scanners of the streaming runner,
  \<open>Renameat2\<close>, file locks), which are the parameters; \<open>LinuxProcIdentity\<close>, which production does
  not wire; mutexes, as every locked operation is one step here.  A runtime that delivers
  messages in any order stands for the goroutines of the interactive program.
\<close>

end
